(* ===== verification/Go_Base.thy ===== *)
theory Go_Base
  imports Complex_Main "HOL-Library.AList" "HOL-Library.Char_ord" "HOL-Library.List_Lexorder"
    "HOL-Library.Sublist"
begin

text \<open>
  Prelude: the types and generic facts every component shares.

  A Go map is an association list (\<open>gomap\<close>); reading is \<^const>\<open>map_of\<close>, assignment is
  \<^const>\<open>AList.update\<close>, \<open>delete\<close> is \<^const>\<open>AList.delete\<close>. Go leaves the order of a \<open>range\<close>
  over a map open; the model ranges in list order, so a fact about such a loop is stated
  for every list, or up to the order. A missing map and an empty one read alike.

  An instant is an integer number of nanoseconds since the zero \<open>time.Time\<close>, so \<open>IsZero\<close>
  is comparison with 0. An \<open>error\<close> is a value of the datatype \<open>err\<close>; a function that can
  fail returns \<open>err + 'a\<close>.
\<close>

named_theorems result_iff \<comment> \<open>when a fallible computation returns a value\<close>
named_theorems wf_intro \<comment> \<open>preservation of well-formedness\<close>

type_synonym ('k, 'v) gomap = "('k \<times> 'v) list"
type_synonym time = int

text \<open>The errors of the packages \<open>store\<close>, \<open>task\<close>, \<open>orch\<close> and \<open>app\<close>.\<close>

datatype err =
    ErrNotFound                       \<comment> \<open>\<open>store.ErrNotFound\<close>\<close>
  | ErrStorage                        \<comment> \<open>\<open>store.ErrStorage\<close>, also wrapped\<close>
  | ErrClosed
  | ErrMalformedEvent
  | ErrCursor
  | ErrIdempotencyConflict
  | ErrReconcileUnavailable
  | ErrCommandInProgress
  | Refusal string string             \<comment> \<open>\<open>orch.Refusal\<close>: type and message\<close>
  | ErrConfigConflict
  | ErrTaskClosed
  | InvalidSOPError string "string list" \<comment> \<open>the format and its arguments\<close>
  | MentionError string string string \<comment> \<open>code, field, reason\<close>
  | FieldError string string string   \<comment> \<open>\<open>app.invalidField\<close>: code, field, reason\<close>
  | ErrTooLarge                       \<comment> \<open>\<open>skillstore.ErrTooLarge\<close>\<close>
  | ErrInvalid string                 \<comment> \<open>\<open>app.invalidf\<close>\<close>
  | ErrUnknownProfile                 \<comment> \<open>\<open>app.ErrUnknownProfile\<close>\<close>
  | ErrText string                    \<comment> \<open>\<open>errors.New\<close>\<close>

type_synonym 'a result = "err + 'a"

fun rbind :: "'e + 'a \<Rightarrow> ('a \<Rightarrow> 'e + 'b) \<Rightarrow> 'e + 'b" where
  "rbind (Inl e) f = Inl e"
| "rbind (Inr x) f = f x"

definition rcheck :: "bool \<Rightarrow> 'e \<Rightarrow> 'e + unit" where
  "rcheck ok e = (if ok then Inr () else Inl e)"

lemma rbind_Inr_iff [result_iff]: "rbind m f = Inr y \<longleftrightarrow> (\<exists>x. m = Inr x \<and> f x = Inr y)"
  by (cases m) auto

lemma rbind_Inl_iff: "rbind m f = Inl e \<longleftrightarrow> m = Inl e \<or> (\<exists>x. m = Inr x \<and> f x = Inl e)"
  by (cases m) auto

lemma rcheck_Inr_iff [result_iff]: "rcheck ok e = Inr u \<longleftrightarrow> ok"
  by (simp add: rcheck_def)

lemma rcheck_simps [simp]: "rcheck True e = Inr ()" "rcheck False e = Inl e"
  by (simp_all add: rcheck_def)

lemma if_Inl_Inr_iff [result_iff]:
  "(if b then Inl e else m) = Inr y \<longleftrightarrow> \<not> b \<and> m = Inr y"
  by simp

text \<open>Go maps.\<close>

declare map_of_eq_Some_iff [simp del]

definition keys :: "('k, 'v) gomap \<Rightarrow> 'k list" where
  "keys m = map fst m"

definition get_or :: "'v \<Rightarrow> ('k, 'v) gomap \<Rightarrow> 'k \<Rightarrow> 'v" where
  "get_or d m k = (case map_of m k of None \<Rightarrow> d | Some v \<Rightarrow> v)"

definition has_key :: "('k, 'v) gomap \<Rightarrow> 'k \<Rightarrow> bool" where
  "has_key m k \<longleftrightarrow> map_of m k \<noteq> None"

lemma get_or_update [simp]:
  "get_or d (AList.update k v m) k' = (if k' = k then v else get_or d m k')"
  by (simp add: get_or_def update_conv')

lemma get_or_delete [simp]:
  "get_or d (AList.delete k m) k' = (if k' = k then d else get_or d m k')"
  by (simp add: get_or_def delete_conv')

lemma get_or_Nil [simp]: "get_or d [] k = d"
  by (simp add: get_or_def)

lemma has_key_update [simp]: "has_key (AList.update k v m) k' \<longleftrightarrow> k' = k \<or> has_key m k'"
  by (simp add: has_key_def update_conv')

lemma has_key_Nil [simp]: "\<not> has_key [] k"
  by (simp add: has_key_def)

lemma map_of_update [simp]: "map_of (AList.update k v m) k' = (if k' = k then Some v else map_of m k')"
  by (simp add: update_conv')

lemma map_of_delete [simp]: "map_of (AList.delete k m) k' = (if k' = k then None else map_of m k')"
  by (simp add: delete_conv')

lemma deleted_key [simp]: "k \<notin> fst ` set (AList.delete k m)"
  using map_of_delete [of k m k] by (simp add: map_of_eq_None_iff del: map_of_delete)

lemma distinct_keys_update [wf_intro]:
  "distinct (map fst m) \<Longrightarrow> distinct (map fst (AList.update k v m))"
  by (rule distinct_update)

lemma distinct_keys_delete [wf_intro]:
  "distinct (map fst m) \<Longrightarrow> distinct (map fst (AList.delete k m))"
  by (rule distinct_delete)

text \<open>\<open>dedupe\<close>-style loops: keep the first of each, in order.\<close>

fun keep_first :: "'a list \<Rightarrow> 'a list \<Rightarrow> 'a list" where
  "keep_first seen [] = []"
| "keep_first seen (x # xs) =
     (if x \<in> set seen then keep_first seen xs else x # keep_first (x # seen) xs)"

lemma set_keep_first: "set (keep_first seen xs) = set xs - set seen"
  by (induction xs arbitrary: seen) auto

lemma distinct_keep_first: "distinct (keep_first seen xs)"
  by (induction xs arbitrary: seen) (auto simp: set_keep_first)

lemma keep_first_id: "distinct xs \<Longrightarrow> set xs \<inter> set seen = {} \<Longrightarrow> keep_first seen xs = xs"
  by (induction xs arbitrary: seen) auto

lemma keep_first_idem: "keep_first [] (keep_first [] xs) = keep_first [] xs"
  by (rule keep_first_id) (auto simp: distinct_keep_first)

lemma keep_first_snoc:
  "keep_first seen (xs @ [x]) =
     keep_first seen xs @ (if x \<in> set xs \<or> x \<in> set seen then [] else [x])"
  by (induction xs arbitrary: seen) auto

text \<open>The first failing check of a list, in order: the shape of the validators' loops.\<close>

fun first_error :: "('a \<Rightarrow> 'e option) \<Rightarrow> 'a list \<Rightarrow> 'e option" where
  "first_error f [] = None"
| "first_error f (x # xs) = (case f x of Some e \<Rightarrow> Some e | None \<Rightarrow> first_error f xs)"

lemma first_error_None_iff: "first_error f xs = None \<longleftrightarrow> (\<forall>x \<in> set xs. f x = None)"
  by (induction xs) (auto split: option.splits)

lemma find_SomeD: "find P xs = Some x \<Longrightarrow> P x \<and> x \<in> set xs"
  by (auto simp: find_Some_iff)

lemma enumerate_nth: "i < length xs \<Longrightarrow> (i, xs ! i) \<in> set (List.enumerate 0 xs)"
  by (simp add: in_set_enumerate_eq)

end
