(* ===== verification/Lru_Cache.thy ===== *)
theory Lru_Cache
  imports Go_Base
begin

text \<open>
  The interface of \<open>hashicorp/golang-lru\<close>'s \<open>Cache\<close>, which the task service keeps its seen events and
  the in-memory command ledger in. Its code is not part of the repository: the operations are a
  parameter (\<open>lru_ops\<close>) of every definition that uses them, and \<open>lru_cache\<close> states the documented
  behaviour those definitions rely on. An insertion of a new key may evict other keys, but only
  when the cache is full. \<open>lru_list\<close> is a list kept in order of use, newest first: the instance
  the witnesses run on.
\<close>

record ('c, 'k, 'v) lru_ops =
  lru_get :: "'c \<Rightarrow> 'k \<Rightarrow> 'v option \<times> 'c"
  lru_add :: "'c \<Rightarrow> 'k \<Rightarrow> 'v \<Rightarrow> 'c"
  lru_remove :: "'c \<Rightarrow> 'k \<Rightarrow> 'c"
  lru_len :: "'c \<Rightarrow> nat"

locale lru_cache =
  fixes ops :: "('c, 'k, 'v) lru_ops"
    and held :: "'c \<Rightarrow> 'k \<Rightarrow> 'v option"
    and cinv :: "'c \<Rightarrow> bool"
    and limit :: nat
  assumes get_value: "cinv c \<Longrightarrow> fst (lru_get ops c k) = held c k"
    and get_held: "cinv c \<Longrightarrow> held (snd (lru_get ops c k)) = held c"
    and add_same: "cinv c \<Longrightarrow> held (lru_add ops c k v) k = Some v"
    and add_other: "cinv c \<Longrightarrow> k' \<noteq> k \<Longrightarrow>
      held (lru_add ops c k v) k' = held c k' \<or> held (lru_add ops c k v) k' = None"
    and add_keeps: "cinv c \<Longrightarrow> held c k \<noteq> None \<or> lru_len ops c < limit \<Longrightarrow>
      held (lru_add ops c k v) = (held c)(k \<mapsto> v)"
    and remove_held: "cinv c \<Longrightarrow> held (lru_remove ops c k) = (held c)(k := None)"
    and len_held: "cinv c \<Longrightarrow> lru_len ops c = card (dom (held c))"
    and len_limit: "cinv c \<Longrightarrow> lru_len ops c \<le> limit"
    and inv_get: "cinv c \<Longrightarrow> cinv (snd (lru_get ops c k))"
    and inv_add: "cinv c \<Longrightarrow> cinv (lru_add ops c k v)"
    and inv_remove: "cinv c \<Longrightarrow> cinv (lru_remove ops c k)"
begin

lemma add_never_invents:
  "cinv c \<Longrightarrow> held (lru_add ops c k v) k' = Some x \<Longrightarrow> k' = k \<and> x = v \<or> held c k' = Some x"
  using add_same [of c k v] add_other [of c k' k v] by (cases "k' = k") auto

lemmas inv_ops = inv_get inv_add inv_remove

end

section \<open>A list in order of use\<close>

definition lru_list :: "nat \<Rightarrow> (('k \<times> 'v) list, 'k, 'v) lru_ops" where
  "lru_list n =
     \<lparr>lru_get = (\<lambda>c k. case map_of c k of None \<Rightarrow> (None, c) | Some v \<Rightarrow> (Some v, (k, v) # AList.delete k c)),
      lru_add = (\<lambda>c k v. take (Suc n) ((k, v) # AList.delete k c)),
      lru_remove = (\<lambda>c k. AList.delete k c),
      lru_len = length\<rparr>"

definition lru_list_inv :: "nat \<Rightarrow> ('k \<times> 'v) list \<Rightarrow> bool" where
  "lru_list_inv n c \<longleftrightarrow> distinct (map fst c) \<and> length c \<le> Suc n"

lemma map_of_take: "distinct (map fst xs) \<Longrightarrow> map_of (take n xs) k = map_of xs k \<or> map_of (take n xs) k = None"
proof (induction xs arbitrary: n)
  case (Cons x xs)
  then show ?case by (cases n; cases x) auto
qed simp

lemma length_delete_present:
  "distinct (map fst c) \<Longrightarrow> map_of c k \<noteq> None \<Longrightarrow> Suc (length (AList.delete k c)) = length c"
proof (induction c)
  case (Cons x c)
  show ?case
  proof (cases "fst x = k")
    case True
    with Cons.prems have "AList.delete k c = c"
      by (auto simp: AList.delete_eq filter_id_conv image_iff)
    with True show ?thesis by (cases x) (simp add: AList.delete_eq)
  next
    case False
    with Cons show ?thesis by (cases x) (simp add: AList.delete_eq)
  qed
qed simp

lemma length_delete_absent: "map_of c k = None \<Longrightarrow> AList.delete k c = c"
  by (simp add: delete_id map_of_eq_None_iff)

lemma length_delete_le: "length (AList.delete k c) \<le> length c"
  by (rule length_delete_le)

interpretation lru_list: lru_cache "lru_list n" "map_of" "lru_list_inv n" "Suc n" for n
proof (unfold_locales, goal_cases)
  case (4 c k' k v)
  from 4 show ?case
    using map_of_take [of "(k, v) # AList.delete k c" "Suc n" k'] map_of_delete [of k c k']
    by (simp add: lru_list_def lru_list_inv_def distinct_delete del: map_of_delete)
next
  case (5 c k v)
  have "length ((k, v) # AList.delete k c) \<le> Suc n"
  proof (cases "map_of c k")
    case None
    with 5 show ?thesis by (simp add: lru_list_def length_delete_absent)
  next
    case (Some w)
    with 5 length_delete_present [of c k] show ?thesis by (auto simp: lru_list_def lru_list_inv_def)
  qed
  then show ?case by (auto simp: lru_list_def delete_conv')
next
  case (7 c)
  then show ?case by (simp add: lru_list_def lru_list_inv_def dom_map_of_conv_image_fst distinct_card)
      (metis distinct_card length_map list.set_map)
next
  case (9 c k)
  show ?case
  proof (cases "map_of c k")
    case None
    with 9 show ?thesis by (simp add: lru_list_def)
  next
    case (Some w)
    with 9 length_delete_present [of c k] show ?thesis
      using deleted_key [of k c] by (simp add: lru_list_def lru_list_inv_def distinct_delete)
  qed
next
  case (10 c k v)
  then show ?case
    by (auto simp: lru_list_def lru_list_inv_def distinct_delete take_map [symmetric] dest: in_set_takeD)
next
  case (11 c k)
  then show ?case
    using length_delete_le [of k c]
    by (auto simp: lru_list_def lru_list_inv_def distinct_delete)
qed (auto simp: lru_list_def lru_list_inv_def delete_conv' split: option.splits)

end
