(* ===== verification/Go_Text.thy ===== *)
theory Go_Text
  imports Go_Base
begin

text \<open>
  Go strings are byte strings (\<^typ>\<open>string\<close>, one \<^typ>\<open>char\<close> per byte). This theory models what
  the source uses of the packages \<open>strings\<close>, \<open>unicode/utf8\<close> and \<open>strconv\<close>: decoding and
  encoding of UTF-8 as Go does it (an invalid byte is the rune U+FFFD of width one),
  \<open>[]rune(s)\<close>, \<open>string(runes)\<close>, \<open>utf8.ValidString\<close>, \<open>TrimSpace\<close>, \<open>HasPrefix\<close>,
  \<open>TrimPrefix\<close>, \<open>Contains\<close>, \<open>Cut\<close>, \<open>Split\<close> and \<open>Itoa\<close>, with the facts the
  components rest on: decoding inverts encoding, trimming is idempotent.
\<close>

section \<open>UTF-8\<close>

definition byte :: "nat \<Rightarrow> char" where
  "byte n = char_of n"

definition byte_in :: "nat \<Rightarrow> nat \<Rightarrow> char \<Rightarrow> bool" where
  "byte_in lo hi c \<longleftrightarrow> lo \<le> of_char c \<and> of_char c \<le> hi"

definition rune_error :: nat where
  "rune_error = 65533"

text \<open>The range of the second byte depends on the first one: no overlong forms, no surrogates, nothing above U+10FFFF.\<close>

definition second_lo :: "nat \<Rightarrow> nat" where
  "second_lo b = (if b = 224 then 160 else if b = 240 then 144 else 128)"

definition second_hi :: "nat \<Rightarrow> nat" where
  "second_hi b = (if b = 237 then 159 else if b = 244 then 143 else 191)"

definition decode_rune :: "string \<Rightarrow> nat \<times> nat" where
  "decode_rune s = (case s of
     [] \<Rightarrow> (rune_error, 0)
   | c # cs \<Rightarrow>
     (let b = of_char c in
      if b < 128 then (b, 1)
      else if b < 194 \<or> 244 < b then (rune_error, 1)
      else if b < 224 then
        (case cs of
           c1 # _ \<Rightarrow> if byte_in 128 191 c1 then ((b - 192) * 64 + (of_char c1 - 128), 2) else (rune_error, 1)
         | _ \<Rightarrow> (rune_error, 1))
      else if b < 240 then
        (case cs of
           c1 # c2 # _ \<Rightarrow>
             if byte_in (second_lo b) (second_hi b) c1 \<and> byte_in 128 191 c2
             then ((b - 224) * 4096 + (of_char c1 - 128) * 64 + (of_char c2 - 128), 3)
             else (rune_error, 1)
         | _ \<Rightarrow> (rune_error, 1))
      else
        (case cs of
           c1 # c2 # c3 # _ \<Rightarrow>
             if byte_in (second_lo b) (second_hi b) c1 \<and> byte_in 128 191 c2 \<and> byte_in 128 191 c3
             then ((b - 240) * 262144 + (of_char c1 - 128) * 4096 + (of_char c2 - 128) * 64 + (of_char c3 - 128), 4)
             else (rune_error, 1)
         | _ \<Rightarrow> (rune_error, 1))))"

lemma decode_rune_width: "s \<noteq> [] \<Longrightarrow> 1 \<le> snd (decode_rune s)"
  by (auto simp: decode_rune_def Let_def split: list.splits)

text \<open>\<open>[]rune(s)\<close>.\<close>

function runes :: "string \<Rightarrow> nat list" where
  "runes [] = []"
| "runes (c # cs) =
     fst (decode_rune (c # cs)) # runes (drop (snd (decode_rune (c # cs)) - 1) cs)"
  by pat_completeness auto
termination
  by (relation "measure length") auto

text \<open>A rune that has an encoding of its own; \<open>string(r)\<close> of any other is that of U+FFFD.\<close>

definition valid_rune :: "nat \<Rightarrow> bool" where
  "valid_rune r \<longleftrightarrow> r < 55296 \<or> 57344 \<le> r \<and> r < 1114112"

definition encode_rune :: "nat \<Rightarrow> string" where
  "encode_rune r =
     (if r < 128 then [byte r]
      else if r < 2048 then [byte (192 + r div 64), byte (128 + r mod 64)]
      else if \<not> valid_rune r then [byte 239, byte 191, byte 189]
      else if r < 65536 then
        [byte (224 + r div 4096), byte (128 + r div 64 mod 64), byte (128 + r mod 64)]
      else
        [byte (240 + r div 262144), byte (128 + r div 4096 mod 64),
         byte (128 + r div 64 mod 64), byte (128 + r mod 64)])"

definition string_of_runes :: "nat list \<Rightarrow> string" where
  "string_of_runes rs = concat (map encode_rune rs)"

text \<open>\<open>utf8.ValidString\<close>: no byte decodes to U+FFFD with width one (an encoded U+FFFD has width three).\<close>

function valid_utf8 :: "string \<Rightarrow> bool" where
  "valid_utf8 [] = True"
| "valid_utf8 (c # cs) =
     (decode_rune (c # cs) \<noteq> (rune_error, 1) \<and> valid_utf8 (drop (snd (decode_rune (c # cs)) - 1) cs))"
  by pat_completeness auto
termination
  by (relation "measure length") auto

lemma of_byte [simp]: "n < 256 \<Longrightarrow> (of_char (byte n) :: nat) = n"
  by (simp add: byte_def)

lemma byte_in_byte [simp]: "n < 256 \<Longrightarrow> byte_in lo hi (byte n) \<longleftrightarrow> lo \<le> n \<and> n \<le> hi"
  by (simp add: byte_in_def)

lemma byte_of_char [simp]: "byte (of_char c) = c"
  by (simp add: byte_def)

lemma of_char_less_256 [simp]: "(of_char c :: nat) < 256"
  by (metis nat_of_char_less_256)

lemma of_char_le_255 [simp]: "(of_char c :: nat) \<le> 255"
  using of_char_less_256 [of c] by linarith

lemma length_encode_rune: "1 \<le> length (encode_rune r)" "length (encode_rune r) \<le> 4"
  by (simp_all add: encode_rune_def)

lemma encode_rune_not_Nil [simp]: "encode_rune r \<noteq> []"
  by (simp add: encode_rune_def)

lemma div4096: "(r::nat) div 4096 = r div 64 div 64"
  by (simp add: div_mult2_eq [symmetric])

lemma div262144: "(r::nat) div 262144 = r div 64 div 64 div 64"
  by (simp add: div_mult2_eq [symmetric])

lemma split3: "(r::nat) div 4096 * 4096 + r div 64 mod 64 * 64 + r mod 64 = r"
proof -
  have "r div 64 div 64 * 64 + r div 64 mod 64 = r div 64" by simp
  moreover have "r div 64 * 64 + r mod 64 = r" by simp
  ultimately show ?thesis unfolding div4096 by linarith
qed

lemma split4:
  "(r::nat) div 262144 * 262144 + r div 4096 mod 64 * 4096 + r div 64 mod 64 * 64 + r mod 64 = r"
proof -
  have "r div 64 div 64 div 64 * 64 + r div 64 div 64 mod 64 = r div 64 div 64" by simp
  then show ?thesis using split3 [of r] unfolding div4096 div262144 by linarith
qed

lemma mod64_bounds [simp]: "128 + (r::nat) mod 64 < 256" "128 + (r::nat) mod 64 \<le> 191"
  using mod_less_divisor [of 64 r] by linarith+

text \<open>Decoding inverts encoding.\<close>

lemma decode_encode_3:
  assumes "2048 \<le> r" and "r < 65536" and "valid_rune r"
  shows "decode_rune (encode_rune r @ s) = (r, length (encode_rune r))"
proof -
  have b: "r div 4096 < 16" using assms(2) by linarith
  have lo: "r div 4096 = 0 \<Longrightarrow> 32 \<le> r div 64 mod 64"
    using assms(1) by (simp add: div4096)
  have hi: "r div 4096 = 13 \<Longrightarrow> r div 64 mod 64 \<le> 31"
    using assms(2,3) split3 [of r] by (auto simp: valid_rune_def)
  show ?thesis
    using assms b lo hi split3 [of r]
    by (auto simp: decode_rune_def encode_rune_def Let_def second_lo_def second_hi_def)
qed

lemma decode_encode_4:
  assumes "65536 \<le> r" and "valid_rune r"
  shows "decode_rune (encode_rune r @ s) = (r, length (encode_rune r))"
proof -
  have r: "r < 1114112" using assms by (auto simp: valid_rune_def)
  have b: "r div 262144 \<le> 4" using r by linarith
  have lo: "r div 262144 = 0 \<Longrightarrow> 16 \<le> r div 4096 mod 64"
    using assms(1) by (simp add: div262144 div4096)
  have hi: "r div 262144 = 4 \<Longrightarrow> r div 4096 mod 64 \<le> 15"
    using r split4 [of r] by auto
  show ?thesis
    using assms b lo hi split4 [of r]
    by (auto simp: decode_rune_def encode_rune_def Let_def second_lo_def second_hi_def)
qed

lemma decode_encode:
  assumes "valid_rune r"
  shows "decode_rune (encode_rune r @ s) = (r, length (encode_rune r))"
proof -
  consider "r < 128" | "128 \<le> r" "r < 2048" | "2048 \<le> r" "r < 65536" | "65536 \<le> r"
    by linarith
  then show ?thesis
  proof cases
    case 1
    then show ?thesis by (simp add: decode_rune_def encode_rune_def)
  next
    case 2
    then have "2 \<le> r div 64" "r div 64 < 32" by linarith+
    with 2 show ?thesis
      by (auto simp: decode_rune_def encode_rune_def Let_def)
  next
    case 3
    then show ?thesis by (rule decode_encode_3) (rule assms)
  next
    case 4
    then show ?thesis by (rule decode_encode_4) (rule assms)
  qed
qed

lemma runes_encode_append:
  assumes "valid_rune r"
  shows "runes (encode_rune r @ s) = r # runes s"
proof -
  obtain c cs where c: "encode_rune r = c # cs"
    by (cases "encode_rune r") simp_all
  with decode_encode [OF assms, of s] show ?thesis by simp
qed

theorem runes_string_of_runes:
  "list_all valid_rune rs \<Longrightarrow> runes (string_of_runes rs) = rs"
  by (induction rs) (simp_all add: string_of_runes_def runes_encode_append)

text \<open>Every decoded rune is valid, so cutting a decoded string and encoding it again loses no rune.\<close>

lemma decode_rune_valid: "valid_rune (fst (decode_rune s))"
proof (cases s)
  case Nil
  then show ?thesis by (simp add: decode_rune_def valid_rune_def rune_error_def)
next
  case (Cons c cs)
  then show ?thesis
    by (auto simp: decode_rune_def Let_def valid_rune_def rune_error_def byte_in_def
        second_lo_def second_hi_def split: list.splits if_splits)
qed

lemma runes_valid: "list_all valid_rune (runes s)"
  by (induction s rule: runes.induct) (simp_all add: decode_rune_valid)

lemma runes_take: "runes (string_of_runes (take n (runes s))) = take n (runes s)"
proof (rule runes_string_of_runes)
  show "list_all valid_rune (take n (runes s))"
    using runes_valid [of s] by (auto simp: list_all_iff dest: in_set_takeD)
qed

lemma runes_eq_Nil_iff [simp]: "runes s = [] \<longleftrightarrow> s = []"
  by (cases s) simp_all

lemma string_of_runes_eq_Nil_iff [simp]: "string_of_runes rs = [] \<longleftrightarrow> rs = []"
  by (cases rs) (simp_all add: string_of_runes_def)

lemma length_runes_le: "length (runes s) \<le> length s"
proof (induction s rule: runes.induct)
  case 1
  then show ?case by simp
next
  case (2 c cs)
  have "length (drop (snd (decode_rune (c # cs)) - 1) cs) \<le> length cs" by simp
  with 2 show ?case by simp
qed

text \<open>An ASCII string is its own rune sequence.\<close>

definition ascii :: "string \<Rightarrow> bool" where
  "ascii s \<longleftrightarrow> list_all (\<lambda>c. (of_char c :: nat) < 128) s"

lemma ascii_simps [simp]:
  "ascii []" "ascii (c # s) \<longleftrightarrow> (of_char c :: nat) < 128 \<and> ascii s"
  by (simp_all add: ascii_def)

lemma runes_ascii: "ascii s \<Longrightarrow> runes s = map of_char s"
  by (induction s) (simp_all add: decode_rune_def)

lemma string_of_runes_ascii: "ascii s \<Longrightarrow> string_of_runes (map of_char s) = s"
  by (induction s) (simp_all add: string_of_runes_def encode_rune_def)

section \<open>The package \<open>strings\<close>\<close>

definition has_prefix :: "string \<Rightarrow> string \<Rightarrow> bool" where
  "has_prefix s p \<longleftrightarrow> take (length p) s = p"

definition trim_prefix :: "string \<Rightarrow> string \<Rightarrow> string" where
  "trim_prefix s p = (if has_prefix s p then drop (length p) s else s)"

fun contains :: "string \<Rightarrow> string \<Rightarrow> bool" where
  "contains [] p \<longleftrightarrow> p = []"
| "contains (c # s) p \<longleftrightarrow> has_prefix (c # s) p \<or> contains s p"

text \<open>\<open>strings.Cut(s, sep)\<close> for a one-byte separator, and \<open>strings.Split\<close> likewise.\<close>

definition cut_at :: "char \<Rightarrow> string \<Rightarrow> string \<times> string \<times> bool" where
  "cut_at c s = (if c \<in> set s then (takeWhile (\<lambda>x. x \<noteq> c) s, tl (dropWhile (\<lambda>x. x \<noteq> c) s), True)
                 else (s, [], False))"

fun split_at :: "char \<Rightarrow> string \<Rightarrow> string list" where
  "split_at c [] = [[]]"
| "split_at c (x # xs) =
     (if x = c then [] # split_at c xs
      else (case split_at c xs of [] \<Rightarrow> [[x]] | p # ps \<Rightarrow> (x # p) # ps))"

text \<open>
  \<open>TrimSpace\<close> takes leading and trailing runes of \<open>unicode.IsSpace\<close> away. A rune at either end is one
  of these exactly when the string starts or ends with its encoding.
\<close>

definition space_encodings :: "string list" where
  "space_encodings =
     map (map byte)
       [[9], [10], [11], [12], [13], [32], [194, 133], [194, 160], [225, 154, 128],
        [226, 128, 128], [226, 128, 129], [226, 128, 130], [226, 128, 131], [226, 128, 132],
        [226, 128, 133], [226, 128, 134], [226, 128, 135], [226, 128, 136], [226, 128, 137],
        [226, 128, 138], [226, 128, 168], [226, 128, 169], [226, 128, 175], [226, 129, 159],
        [227, 128, 128]]"

function trim_left_by :: "string list \<Rightarrow> string \<Rightarrow> string" where
  "trim_left_by encs s =
     (case find (\<lambda>e. e \<noteq> [] \<and> has_prefix s e) encs of
        None \<Rightarrow> s
      | Some e \<Rightarrow> trim_left_by encs (drop (length e) s))"
  by pat_completeness auto
termination
proof (relation "measure (\<lambda>(_, s). length s)", goal_cases)
  case 1
  show ?case by simp
next
  case (2 encs s e)
  then have "e \<noteq> []" "take (length e) s = e"
    by (auto dest: find_SomeD simp: has_prefix_def)
  then have "s \<noteq> []" by auto
  with \<open>e \<noteq> []\<close> show ?case by simp
qed

declare trim_left_by.simps [simp del]

definition trim_space :: "string \<Rightarrow> string" where
  "trim_space s =
     rev (trim_left_by (map rev space_encodings) (rev (trim_left_by space_encodings s)))"

lemma trim_left_by_suffix: "suffix (trim_left_by encs s) s"
proof (induction encs s rule: trim_left_by.induct)
  case (1 encs s)
  show ?case
  proof (cases "find (\<lambda>e. e \<noteq> [] \<and> has_prefix s e) encs")
    case None
    then show ?thesis by (simp add: trim_left_by.simps [of encs s])
  next
    case (Some e)
    have "suffix (drop (length e) s) s" by (rule suffix_drop)
    with "1.IH" [OF Some] Some show ?thesis
      by (simp add: trim_left_by.simps [of encs s])
  qed
qed

lemma trim_left_by_no_prefix:
  "e \<in> set encs \<Longrightarrow> e \<noteq> [] \<Longrightarrow> \<not> has_prefix (trim_left_by encs s) e"
proof (induction encs s rule: trim_left_by.induct)
  case (1 encs s)
  show ?case
  proof (cases "find (\<lambda>e. e \<noteq> [] \<and> has_prefix s e) encs")
    case None
    then have "trim_left_by encs s = s" by (simp add: trim_left_by.simps [of encs s])
    with None 1 show ?thesis by (simp add: find_None_iff) blast
  next
    case (Some e')
    then have "trim_left_by encs s = trim_left_by encs (drop (length e') s)"
      by (simp add: trim_left_by.simps [of encs s])
    with "1.IH" [OF Some] 1 show ?thesis by simp
  qed
qed

lemma trim_left_by_id: "(\<And>e. e \<in> set encs \<Longrightarrow> e \<noteq> [] \<Longrightarrow> \<not> has_prefix s e) \<Longrightarrow> trim_left_by encs s = s"
  by (subst trim_left_by.simps) (auto split: option.splits dest!: find_SomeD)

lemma has_prefix_mono: "prefix t s \<Longrightarrow> has_prefix t p \<Longrightarrow> has_prefix s p"
  unfolding has_prefix_def by (metis take_is_prefix prefix_order.trans prefix_def append_eq_conv_conj)

lemma trim_space_no_prefix:
  assumes "e \<in> set space_encodings" and "e \<noteq> []"
  shows "\<not> has_prefix (trim_space s) e"
proof -
  have "prefix (trim_space s) (trim_left_by space_encodings s)"
    using trim_left_by_suffix [of "map rev space_encodings" "rev (trim_left_by space_encodings s)"]
    by (simp add: trim_space_def suffix_to_prefix)
  then show ?thesis
    using trim_left_by_no_prefix [OF assms, of s] has_prefix_mono by blast
qed

lemma trim_space_no_suffix:
  assumes "e \<in> set space_encodings" and "e \<noteq> []"
  shows "\<not> has_prefix (rev (trim_space s)) (rev e)"
  unfolding trim_space_def using assms by (simp add: trim_left_by_no_prefix)

theorem trim_space_idem [simp]: "trim_space (trim_space s) = trim_space s"
proof -
  have "trim_left_by space_encodings (trim_space s) = trim_space s"
    by (rule trim_left_by_id) (rule trim_space_no_prefix)
  moreover have "trim_left_by (map rev space_encodings) (rev (trim_space s)) = rev (trim_space s)"
    by (rule trim_left_by_id) (auto dest: trim_space_no_suffix)
  ultimately show ?thesis by (subst trim_space_def) simp
qed

lemma trim_space_Nil [simp]: "trim_space [] = []"
  by (simp add: trim_space_def trim_left_by.simps space_encodings_def has_prefix_def)

text \<open>A text that starts and ends with a graphic ASCII character is already trimmed.\<close>

definition graphic :: "char \<Rightarrow> bool" where
  "graphic c \<longleftrightarrow> byte_in 33 126 c"

lemma graphic_space_encodings: "e \<in> set space_encodings \<Longrightarrow> e \<noteq> [] \<and> \<not> graphic (hd e) \<and> \<not> graphic (last e)"
  by (auto simp: space_encodings_def graphic_def)

lemma has_prefix_hd: "has_prefix s e \<Longrightarrow> e \<noteq> [] \<Longrightarrow> s \<noteq> [] \<and> hd s = hd e"
  by (cases s; cases e) (auto simp: has_prefix_def)

lemma trim_space_graphic:
  assumes "s = [] \<or> graphic (hd s) \<and> graphic (last s)"
  shows "trim_space s = s"
proof -
  have "trim_left_by space_encodings s = s"
    using assms graphic_space_encodings has_prefix_hd [of s] by (intro trim_left_by_id) metis
  moreover have "trim_left_by (map rev space_encodings) (rev s) = rev s"
    using assms graphic_space_encodings has_prefix_hd [of "rev s"]
    by (intro trim_left_by_id) (metis hd_rev imageE list.set_map rev_is_Nil_conv)
  ultimately show ?thesis by (simp add: trim_space_def)
qed

lemma trim_space_code [code]:
  "trim_space s =
     (if s = [] \<or> graphic (hd s) \<and> graphic (last s) then s
      else rev (trim_left_by (map rev space_encodings) (rev (trim_left_by space_encodings s))))"
  using trim_space_graphic [of s] by (simp add: trim_space_def)

lemma length_trim_space: "length (trim_space s) \<le> length s"
proof -
  have "length (trim_left_by encs t) \<le> length t" for encs t
    by (rule suffix_length_le) (rule trim_left_by_suffix)
  then show ?thesis
    unfolding trim_space_def by (metis length_rev order_trans)
qed

lemma set_trim_space: "set (trim_space s) \<subseteq> set s"
proof -
  have "set (trim_left_by encs t) \<subseteq> set t" for encs t
    using trim_left_by_suffix [of encs t] by (rule set_mono_suffix)
  then show ?thesis
    unfolding trim_space_def by (metis order_trans set_rev)
qed

lemma set_split_at: "p \<in> set (split_at c s) \<Longrightarrow> c \<notin> set p"
  by (induction s arbitrary: p) (auto split: list.splits if_splits)

lemma split_at_not_Nil [simp]: "split_at c s \<noteq> []"
  by (cases s) (auto split: list.splits)

lemma split_at_no_sep: "c \<notin> set s \<Longrightarrow> split_at c s = [s]"
  by (induction s) auto

lemma split_at_append: "c \<notin> set p \<Longrightarrow> split_at c (p @ c # s) = p # split_at c s"
  by (induction p) auto

section \<open>\<open>strconv.Itoa\<close>\<close>

definition digit :: "nat \<Rightarrow> char" where
  "digit n = byte (48 + n)"

fun itoa :: "nat \<Rightarrow> string" where
  "itoa n = (if n < 10 then [digit n] else itoa (n div 10) @ [digit (n mod 10)])"

declare itoa.simps [simp del]

definition itoa_int :: "int \<Rightarrow> string" where
  "itoa_int n = (if n < 0 then CHR ''-'' # itoa (nat (- n)) else itoa (nat n))"

definition is_digit :: "char \<Rightarrow> bool" where
  "is_digit c \<longleftrightarrow> byte_in 48 57 c"

lemma is_digit_digit [simp]: "n < 10 \<Longrightarrow> is_digit (digit n)"
  by (simp add: is_digit_def digit_def)

lemma itoa_not_Nil [simp]: "itoa n \<noteq> []"
  by (subst itoa.simps) simp

lemma itoa_digits: "list_all is_digit (itoa n)"
proof (induction n rule: itoa.induct)
  case (1 n)
  then show ?case by (subst itoa.simps) simp
qed

end
