(* ===== verification/Go_Json.thy ===== *)
theory Go_Json
  imports Go_Text
begin

text \<open>
  Go values of static type \<open>any\<close> (\<open>goval\<close>), as the source stores them in \<open>map[string]any\<close>: what
  \<open>encoding/json\<close> decodes into (\<open>nil\<close>, \<open>bool\<close>, \<open>float64\<close>, \<open>string\<close>, \<open>[]any\<close>,
  \<open>map[string]any\<close>) and the typed values the code puts into such maps itself (\<open>int\<close>,
  \<open>[]string\<close>, \<open>[]map[string]any\<close>). A type assertion distinguishes them, as in Go.

  A number is a rational: a \<open>float64\<close> is read as the number it stands for, and its rounding is
  not modelled (the counters and versions the code adds and compares are integers below
  $2^{53}$, where it is exact). A raw message (\<open>json.RawMessage\<close>) is \<open>None\<close> when its bytes are
  not JSON and otherwise the value they decode to. \<open>json_of\<close> is a value after a trip through
  \<open>json.Marshal\<close> and \<open>json.Unmarshal\<close>; keys come out sorted, so that two values marshal to
  the same bytes exactly when their \<open>json_of\<close> are equal.
\<close>

datatype goval =
    Null
  | BoolV bool
  | Float rat
  | IntV int
  | Str string
  | Arr "goval list"
  | Obj "(string \<times> goval) list"
  | Strs "string list"
  | Objs "(string \<times> goval) list list"

type_synonym obj = "(string, goval) gomap"
type_synonym raw = "goval option"

fun json_of :: "goval \<Rightarrow> goval" where
  "json_of (IntV n) = Float (of_int n)"
| "json_of (Strs ss) = Arr (map Str ss)"
| "json_of (Arr vs) = Arr (map json_of vs)"
| "json_of (Obj kvs) = Obj (sort_key fst (map (\<lambda>(k, v). (k, json_of v)) kvs))"
| "json_of (Objs os) = Arr (map (\<lambda>kvs. Obj (sort_key fst (map (\<lambda>(k, v). (k, json_of v)) kvs))) os)"
| "json_of v = v"

text \<open>The object behind a value; \<open>cloneMap\<close> and \<open>cloneJSONMap\<close> are a trip through JSON.\<close>

definition json_obj :: "obj \<Rightarrow> obj" where
  "json_obj kvs = sort_key fst (map (\<lambda>(k, v). (k, json_of v)) kvs)"

definition cloneMap :: "obj \<Rightarrow> obj" where
  "cloneMap value = json_obj value"

definition jsonEqual :: "obj \<Rightarrow> obj \<Rightarrow> bool" where
  "jsonEqual a b \<longleftrightarrow> json_obj a = json_obj b"

text \<open>Type assertions on a map's field: \<open>x, ok := m[k].(T)\<close>.\<close>

definition str_field :: "obj \<Rightarrow> string \<Rightarrow> string option" where
  "str_field m k = (case map_of m k of Some (Str s) \<Rightarrow> Some s | _ \<Rightarrow> None)"

definition str_or_empty :: "obj \<Rightarrow> string \<Rightarrow> string" where
  "str_or_empty m k = (case str_field m k of Some s \<Rightarrow> s | None \<Rightarrow> [])"

definition num_field :: "obj \<Rightarrow> string \<Rightarrow> rat option" where
  "num_field m k = (case map_of m k of Some (Float r) \<Rightarrow> Some r | _ \<Rightarrow> None)"

definition int_field :: "obj \<Rightarrow> string \<Rightarrow> int option" where
  "int_field m k = (case map_of m k of Some (IntV n) \<Rightarrow> Some n | _ \<Rightarrow> None)"

definition bool_field :: "obj \<Rightarrow> string \<Rightarrow> bool option" where
  "bool_field m k = (case map_of m k of Some (BoolV b) \<Rightarrow> Some b | _ \<Rightarrow> None)"

definition obj_field :: "obj \<Rightarrow> string \<Rightarrow> obj option" where
  "obj_field m k = (case map_of m k of Some (Obj kvs) \<Rightarrow> Some kvs | _ \<Rightarrow> None)"

definition arr_field :: "obj \<Rightarrow> string \<Rightarrow> goval list option" where
  "arr_field m k = (case map_of m k of Some (Arr vs) \<Rightarrow> Some vs | _ \<Rightarrow> None)"

definition strs_field :: "obj \<Rightarrow> string \<Rightarrow> string list option" where
  "strs_field m k = (case map_of m k of Some (Strs ss) \<Rightarrow> Some ss | _ \<Rightarrow> None)"

definition objs_field :: "obj \<Rightarrow> string \<Rightarrow> obj list option" where
  "objs_field m k = (case map_of m k of Some (Objs os) \<Rightarrow> Some os | _ \<Rightarrow> None)"

lemmas field_defs = str_field_def str_or_empty_def num_field_def int_field_def bool_field_def
  obj_field_def arr_field_def strs_field_def objs_field_def

text \<open>\<open>m[k] == nil\<close> for a map of \<open>any\<close>: the key is absent or holds \<open>nil\<close>.\<close>

definition is_nil :: "obj \<Rightarrow> string \<Rightarrow> bool" where
  "is_nil m k \<longleftrightarrow> (case map_of m k of None \<Rightarrow> True | Some v \<Rightarrow> v = Null)"

text \<open>\<open>entry, _ := item.(map[string]any)\<close>: a nil map when the assertion fails.\<close>

definition as_obj :: "goval \<Rightarrow> obj" where
  "as_obj v = (case v of Obj kvs \<Rightarrow> kvs | _ \<Rightarrow> [])"

text \<open>\<open>int(f)\<close> of a \<open>float64\<close> drops the fraction.\<close>

definition go_int :: "rat \<Rightarrow> int" where
  "go_int r = (if 0 \<le> r then \<lfloor>r\<rfloor> else \<lceil>r\<rceil>)"

lemma go_int_of_int [simp]: "go_int (of_int n) = n"
  by (simp add: go_int_def)

lemma map_of_sort_key_fst: "distinct (map fst xs) \<Longrightarrow> map_of (sort_key fst xs) = map_of xs"
  by (rule map_of_inject_set [THEN iffD2]) (simp_all add: distinct_map distinct_sort)

lemma sort_key_fst_distinct: "distinct (map fst xs) \<Longrightarrow> distinct (map fst (sort_key fst xs))"
  by (simp add: distinct_map)

lemma keys_json_obj: "set (map fst (json_obj m)) = fst ` set m"
  by (force simp: json_obj_def)

lemma distinct_json_obj: "distinct (map fst m) \<Longrightarrow> distinct (map fst (json_obj m))"
  unfolding json_obj_def by (rule sort_key_fst_distinct) (simp add: comp_def case_prod_beta)

lemma map_of_json_obj:
  assumes "distinct (map fst m)"
  shows "map_of (json_obj m) k = map_option json_of (map_of m k)"
proof -
  have "map_of (json_obj m) k = map_of (map (\<lambda>(k, v). (k, json_of v)) m) k"
    unfolding json_obj_def using assms by (subst map_of_sort_key_fst) (simp_all add: comp_def case_prod_beta)
  then show ?thesis by (simp add: map_of_map)
qed

lemma json_of_Obj: "json_of (Obj kvs) = Obj (json_obj kvs)"
  by (simp add: json_obj_def)

lemma json_of_Objs: "json_of (Objs os) = Arr (map (\<lambda>kvs. Obj (json_obj kvs)) os)"
  by (simp add: json_obj_def)

text \<open>A trip through JSON done twice is the same as done once.\<close>

lemma sort_key_fst_map:
  "sort_key fst (map (\<lambda>(k, v). (k, f v)) xs) = map (\<lambda>(k, v). (k, f v)) (sort_key fst xs)"
proof -
  have ins: "insort_key fst (k, f v) (map (\<lambda>(k, v). (k, f v)) ys) = map (\<lambda>(k, v). (k, f v)) (insort_key fst (k, v) ys)"
    for k v ys
    by (induction ys) auto
  show ?thesis
    by (induction xs) (auto simp: ins sort_key_def)
qed

lemma sort_key_fst_idem: "sort_key fst (sort_key fst xs) = sort_key fst xs"
  by (rule sort_key_id_if_sorted) simp

lemma json_obj_idem_if:
  assumes "\<And>k v. (k, v) \<in> set kvs \<Longrightarrow> json_of (json_of v) = json_of v"
  shows "json_obj (json_obj kvs) = json_obj kvs"
proof -
  have "map (\<lambda>(k, v). (k, json_of v)) (map (\<lambda>(k, v). (k, json_of v)) xs) = map (\<lambda>(k, v). (k, json_of v)) xs"
    if "set xs \<subseteq> set kvs" for xs
    using that assms by (auto simp: case_prod_beta)
  from this [of "sort_key fst kvs"] show ?thesis
    unfolding json_obj_def sort_key_fst_map sort_key_fst_idem by simp
qed

lemma json_of_idem: "json_of (json_of v) = json_of v"
proof (induction v rule: json_of.induct)
  case (4 kvs)
  then have "json_obj (json_obj kvs) = json_obj kvs"
    by (intro json_obj_idem_if) fastforce
  then show ?case by (simp only: json_of_Obj)
next
  case (5 os)
  then have "json_obj (json_obj kvs) = json_obj kvs" if "kvs \<in> set os" for kvs
    using that by (intro json_obj_idem_if) fastforce
  then show ?case
    by (simp add: json_of_Objs json_of_Obj del: json_of.simps(4,5))
qed auto

lemma json_obj_idem: "json_obj (json_obj m) = json_obj m"
  using json_of_idem [of "Obj m"] by (simp add: json_of_Obj del: json_of.simps)

lemma jsonEqual_refl [simp]: "jsonEqual m m"
  by (simp add: jsonEqual_def)

lemma jsonEqual_cloneMap: "jsonEqual (cloneMap a) b \<longleftrightarrow> jsonEqual a b"
  by (simp add: jsonEqual_def cloneMap_def json_obj_idem)

lemma cloneMap_idem [simp]: "cloneMap (cloneMap m) = cloneMap m"
  by (simp add: cloneMap_def json_obj_idem)

end
