(* ===== verification/Command_Ledger.thy ===== *)
theory Command_Ledger
  imports Lru_Cache Go_Json
begin

text \<open>
  The API command idempotency ledger: the interface \<open>CommandLedger\<close> of
  \<open>internal/task/command_ledger.go\<close>, its in-memory implementation \<open>memoryLedger\<close> (over the LRU
  cache) and the Postgres one of \<open>internal/store/pgstore/command_ledger.go\<close> (over the rows of
  \<open>idempotency_ledger\<close>). The contract is the abstract machine \<open>spec_claim\<close>, \<open>spec_complete\<close>,
  \<open>spec_release\<close> on the state of one command; the locale \<open>command_ledger\<close> says that an
  implementation simulates it, and both implementations are shown to. The clock is an argument:
  the process clock in memory, the database clock in Postgres. The Postgres model is of a database
  that answers; a lost connection is not modelled.
\<close>

section \<open>The interface\<close>

text \<open>What \<open>ClaimCommand\<close> returns without an error: the claim, or the stored response.\<close>

datatype claim = Claimed | Replay raw

record 's ledger_ops =
  ClaimCommand :: "'s \<Rightarrow> time \<Rightarrow> string \<Rightarrow> string \<Rightarrow> string \<Rightarrow> string \<Rightarrow> time \<Rightarrow> claim result \<times> 's"
  CompleteCommand :: "'s \<Rightarrow> time \<Rightarrow> string \<Rightarrow> string \<Rightarrow> string \<Rightarrow> raw \<Rightarrow> unit result \<times> 's"
  ReleaseCommand :: "'s \<Rightarrow> time \<Rightarrow> string \<Rightarrow> string \<Rightarrow> string \<Rightarrow> unit result \<times> 's"

definition commandLease :: time where
  "commandLease = 30 * 1000000000"

definition commandKey :: "string \<Rightarrow> string \<Rightarrow> string \<Rightarrow> string" where
  "commandKey tenantID taskID commandID = tenantID @ ''/'' @ taskID @ ''/'' @ commandID"

section \<open>The abstract machine of one command\<close>

datatype cmd_state =
    Absent
  | Started string "string option" time \<comment> \<open>hash, owner unless released, last seen\<close>
  | Succeeded string raw
  | Blocked                             \<comment> \<open>a row the caller cannot use\<close>

text \<open>
  \<open>expired now seen lease\<close> says that a claim last seen at \<open>seen\<close> may be taken over. The two
  implementations differ only at the instant where exactly the lease has passed.
\<close>

fun spec_claim :: "(time \<Rightarrow> time \<Rightarrow> time \<Rightarrow> bool) \<Rightarrow> time \<Rightarrow> string \<Rightarrow> string \<Rightarrow> time \<Rightarrow> cmd_state
    \<Rightarrow> claim result \<times> cmd_state" where
  "spec_claim expired now h ow lease Absent = (Inr Claimed, Started h (Some ow) now)"
| "spec_claim expired now h ow lease (Started h' ow' seen) =
     (if h' \<noteq> h then (Inl ErrIdempotencyConflict, Started h' ow' seen)
      else if ow' = None \<or> expired now seen lease then (Inr Claimed, Started h (Some ow) now)
      else (Inl ErrCommandInProgress, Started h' ow' seen))"
| "spec_claim expired now h ow lease (Succeeded h' r) =
     (if h' \<noteq> h then (Inl ErrIdempotencyConflict, Succeeded h' r)
      else (Inr (Replay r), Succeeded h' r))"
| "spec_claim expired now h ow lease Blocked = (Inl ErrStorage, Blocked)"

fun spec_complete :: "string \<Rightarrow> raw \<Rightarrow> cmd_state \<Rightarrow> cmd_state" where
  "spec_complete ow r (Started h ow' seen) =
     (if ow' = Some ow then Succeeded h r else Started h ow' seen)"
| "spec_complete ow r st = st"

fun spec_release :: "string \<Rightarrow> cmd_state \<Rightarrow> cmd_state" where
  "spec_release ow (Started h ow' seen) =
     (if ow' = Some ow then Started h None seen else Started h ow' seen)"
| "spec_release ow st = st"

text \<open>
  The contract of \<open>CommandLedger\<close>. \<open>cmd s t k\<close> is the state of command \<open>k\<close> as tenant \<open>t\<close> sees
  it, \<open>admits s t\<close> that the ledger takes rows of \<open>t\<close>. A key that is not named may only be
  forgotten (by an eviction).
\<close>

locale command_ledger =
  fixes L :: "'s ledger_ops"
    and cmd :: "'s \<Rightarrow> string \<Rightarrow> string \<Rightarrow> cmd_state"
    and linv :: "'s \<Rightarrow> bool"
    and admits :: "'s \<Rightarrow> string \<Rightarrow> bool"
    and expired :: "time \<Rightarrow> time \<Rightarrow> time \<Rightarrow> bool"
  assumes claim_cmd: "linv s \<Longrightarrow> admits s t \<Longrightarrow> k \<noteq> [] \<Longrightarrow> ow \<noteq> [] \<Longrightarrow>
      ClaimCommand L s now t k h ow lease = (r, s') \<Longrightarrow>
      (r, cmd s' t k) = spec_claim expired now h ow lease (cmd s t k)"
    and complete_cmd: "linv s \<Longrightarrow> admits s t \<Longrightarrow> ow \<noteq> [] \<Longrightarrow> res \<noteq> None \<Longrightarrow>
      CompleteCommand L s now t k ow res = (u, s') \<Longrightarrow>
      u = Inr () \<and> cmd s' t k = spec_complete ow res (cmd s t k)"
    and release_cmd: "linv s \<Longrightarrow> admits s t \<Longrightarrow> ow \<noteq> [] \<Longrightarrow>
      ReleaseCommand L s now t k ow = (u, s') \<Longrightarrow>
      u = Inr () \<and> cmd s' t k = spec_release ow (cmd s t k)"
    and claim_frame: "linv s \<Longrightarrow> ClaimCommand L s now t' k' h ow lease = (r, s') \<Longrightarrow> k \<noteq> k' \<Longrightarrow>
      cmd s' t k = cmd s t k \<or> cmd s' t k = Absent"
    and complete_frame: "linv s \<Longrightarrow> CompleteCommand L s now t' k' ow res = (u, s') \<Longrightarrow> k \<noteq> k' \<Longrightarrow>
      cmd s' t k = cmd s t k \<or> cmd s' t k = Absent"
    and release_frame: "linv s \<Longrightarrow> ReleaseCommand L s now t' k' ow = (u, s') \<Longrightarrow> k \<noteq> k' \<Longrightarrow>
      cmd s' t k = cmd s t k \<or> cmd s' t k = Absent"
    and claim_inv: "linv s \<Longrightarrow> ClaimCommand L s now t k h ow lease = (r, s') \<Longrightarrow> linv s' \<and> admits s' = admits s"
    and complete_inv: "linv s \<Longrightarrow> CompleteCommand L s now t k ow res = (u, s') \<Longrightarrow> linv s' \<and> admits s' = admits s"
    and release_inv: "linv s \<Longrightarrow> ReleaseCommand L s now t k ow = (u, s') \<Longrightarrow> linv s' \<and> admits s' = admits s"
    and expired_after: "lease < now - seen \<Longrightarrow> expired now seen lease"
    and live_before: "now - seen < lease \<Longrightarrow> \<not> expired now seen lease"
begin

text \<open>A command that succeeded is answered from the record: the caller never runs it.\<close>

lemma replay_of_succeeded:
  assumes "linv s" "admits s t" "k \<noteq> []" "ow \<noteq> []" and "cmd s t k = Succeeded h r"
  shows "\<exists>s'. ClaimCommand L s now t k h ow lease = (Inr (Replay r), s') \<and> cmd s' t k = Succeeded h r"
proof -
  obtain res s' where c: "ClaimCommand L s now t k h ow lease = (res, s')" by force
  with claim_cmd [OF assms(1-4) c] assms(5) show ?thesis by auto
qed

text \<open>Two claims in a row: the second one is refused while the first holds, whoever asks.\<close>

lemma claimed_is_held:
  assumes "linv s" "admits s t" "k \<noteq> []" "ow \<noteq> []"
    and "ClaimCommand L s now t k h ow lease = (Inr Claimed, s')"
  shows "cmd s' t k = Started h (Some ow) now"
  using claim_cmd [OF assms(1-4) assms(5)]
  by (cases "cmd s t k") (auto split: if_splits)

lemma no_double_claim:
  assumes "linv s" "admits s t" "k \<noteq> []" "ow \<noteq> []" "ow' \<noteq> []"
    and c: "ClaimCommand L s now t k h ow lease = (Inr Claimed, s')"
    and live: "now' - now < lease'"
    and c': "ClaimCommand L s' now' t k h' ow' lease' = (r, s'')"
  shows "r = Inl (if h' = h then ErrCommandInProgress else ErrIdempotencyConflict)"
proof -
  have s': "linv s'" "admits s' t" using claim_inv [OF assms(1) c] assms(2) by auto
  have "cmd s' t k = Started h (Some ow) now"
    using assms c by (intro claimed_is_held)
  with claim_cmd [OF s' assms(3,5) c'] live_before [OF live] show ?thesis by auto
qed

text \<open>A released claim is taken over at once, and an abandoned one after the lease.\<close>

lemma claim_after_release:
  assumes "linv s" "admits s t" "k \<noteq> []" "ow \<noteq> []" "ow' \<noteq> []"
    and c: "ClaimCommand L s now t k h ow lease = (Inr Claimed, s1)"
    and rel: "ReleaseCommand L s1 now' t k ow = (r, s2)"
  shows "\<exists>s3. ClaimCommand L s2 now'' t k h ow' lease = (Inr Claimed, s3)"
proof -
  have s1: "linv s1" "admits s1 t" using claim_inv [OF assms(1) c] assms(2) by auto
  have "cmd s1 t k = Started h (Some ow) now" using assms c by (intro claimed_is_held)
  then have s2: "cmd s2 t k = Started h None now" "linv s2" "admits s2 t"
    using release_cmd [OF s1 assms(4) rel] release_inv [OF s1(1) rel] s1 by auto
  obtain res s3 where c3: "ClaimCommand L s2 now'' t k h ow' lease = (res, s3)" by force
  with claim_cmd [OF s2(2,3) assms(3,5) c3] s2(1) show ?thesis by auto
qed

lemma claim_after_lease:
  assumes "linv s" "admits s t" "k \<noteq> []" "ow \<noteq> []" "ow' \<noteq> []"
    and c: "ClaimCommand L s now t k h ow lease = (Inr Claimed, s1)"
    and "lease < now' - now"
  shows "\<exists>s2. ClaimCommand L s1 now' t k h ow' lease = (Inr Claimed, s2)"
proof -
  have s1: "linv s1" "admits s1 t" using claim_inv [OF assms(1) c] assms(2) by auto
  have st: "cmd s1 t k = Started h (Some ow) now" using assms c by (intro claimed_is_held)
  obtain res s2 where c2: "ClaimCommand L s1 now' t k h ow' lease = (res, s2)" by force
  with claim_cmd [OF s1 assms(3,5) c2] st expired_after [OF assms(7)] show ?thesis by auto
qed

end

section \<open>A ledger that forgets nothing\<close>

text \<open>
  A run is a list of operations, of any tenants and replicas, each with the clock it reads. In a
  durable ledger nobody but the owner touches a claim that is live, and nobody a result.
\<close>

datatype ledger_op =
    ClaimOp string string string string time
  | CompleteOp string string string raw
  | ReleaseOp string string string

fun ledger_step :: "'s ledger_ops \<Rightarrow> 's \<Rightarrow> time \<times> ledger_op \<Rightarrow> 's" where
  "ledger_step L s (now, ClaimOp t k h ow lease) = snd (ClaimCommand L s now t k h ow lease)"
| "ledger_step L s (now, CompleteOp t k ow res) = snd (CompleteCommand L s now t k ow res)"
| "ledger_step L s (now, ReleaseOp t k ow) = snd (ReleaseCommand L s now t k ow)"

definition ledger_run :: "'s ledger_ops \<Rightarrow> 's \<Rightarrow> (time \<times> ledger_op) list \<Rightarrow> 's" where
  "ledger_run L s steps = foldl (ledger_step L) s steps"

lemma ledger_run_simps [simp]:
  "ledger_run L s [] = s"
  "ledger_run L s (x # xs) = ledger_run L (ledger_step L s x) xs"
  by (simp_all add: ledger_run_def)

text \<open>A step that may end the claim of \<open>ow\<close>: its own completion or release, or a late claim.\<close>

fun disturbs :: "string \<Rightarrow> time \<Rightarrow> time \<times> ledger_op \<Rightarrow> bool" where
  "disturbs ow seen (now, ClaimOp t k h ow' lease) \<longleftrightarrow> \<not> now - seen < lease"
| "disturbs ow seen (now, CompleteOp t k ow' res) \<longleftrightarrow> ow' = ow"
| "disturbs ow seen (now, ReleaseOp t k ow') \<longleftrightarrow> ow' = ow"

locale durable_ledger = command_ledger +
  assumes claim_keeps: "linv s \<Longrightarrow> cmd s t k \<noteq> Absent \<Longrightarrow> ClaimCommand L s now t' k' h ow lease = (r, s') \<Longrightarrow>
      cmd s' t k = (if t' = t \<and> k' = k then snd (spec_claim expired now h ow lease (cmd s t k)) else cmd s t k)"
    and complete_keeps: "linv s \<Longrightarrow> cmd s t k \<noteq> Absent \<Longrightarrow> CompleteCommand L s now t' k' ow res = (u, s') \<Longrightarrow>
      cmd s' t k = cmd s t k \<or> cmd s' t k = spec_complete ow res (cmd s t k)"
    and release_keeps: "linv s \<Longrightarrow> cmd s t k \<noteq> Absent \<Longrightarrow> ReleaseCommand L s now t' k' ow = (u, s') \<Longrightarrow>
      cmd s' t k = cmd s t k \<or> cmd s' t k = spec_release ow (cmd s t k)"
begin

lemma step_inv:
  assumes "linv s"
  shows "linv (ledger_step L s x) \<and> admits (ledger_step L s x) = admits s"
proof (cases x)
  case (Pair now op)
  show ?thesis
  proof (cases op)
    case (ClaimOp t k h ow lease)
    then show ?thesis
      using Pair claim_inv [OF assms prod.collapse [symmetric]] by simp
  next
    case (CompleteOp t k ow res)
    then show ?thesis
      using Pair complete_inv [OF assms prod.collapse [symmetric]] by simp
  next
    case (ReleaseOp t k ow)
    then show ?thesis
      using Pair release_inv [OF assms prod.collapse [symmetric]] by simp
  qed
qed

lemma run_inv: "linv s \<Longrightarrow> linv (ledger_run L s xs) \<and> admits (ledger_run L s xs) = admits s"
  by (induction xs arbitrary: s) (use step_inv in auto)

lemma step_succeeded:
  assumes "linv s" and st: "cmd s t k = Succeeded h r"
  shows "cmd (ledger_step L s x) t k = Succeeded h r"
proof (cases x)
  case (Pair now op)
  show ?thesis
  proof (cases op)
    case (ClaimOp t' k' h' ow lease)
    then show ?thesis
      using Pair st claim_keeps [OF assms(1) _ prod.collapse [symmetric], of t k now t' k' h' ow lease] by simp
  next
    case (CompleteOp t' k' ow res)
    then show ?thesis
      using Pair st complete_keeps [OF assms(1) _ prod.collapse [symmetric], of t k now t' k' ow res] by simp
  next
    case (ReleaseOp t' k' ow)
    then show ?thesis
      using Pair st release_keeps [OF assms(1) _ prod.collapse [symmetric], of t k now t' k' ow] by simp
  qed
qed

lemma run_succeeded: "linv s \<Longrightarrow> cmd s t k = Succeeded h r \<Longrightarrow> cmd (ledger_run L s xs) t k = Succeeded h r"
  by (induction xs arbitrary: s) (use step_inv step_succeeded in auto)

lemma step_held:
  assumes "linv s" and st: "cmd s t k = Started h (Some ow) seen" and "\<not> disturbs ow seen x"
  shows "cmd (ledger_step L s x) t k = Started h (Some ow) seen"
proof (cases x)
  case (Pair now op)
  show ?thesis
  proof (cases op)
    case (ClaimOp t' k' h' ow' lease)
    obtain r s' where c: "ClaimCommand L s now t' k' h' ow' lease = (r, s')" by force
    then show ?thesis
      using claim_keeps [OF assms(1) _ c, of t k] live_before [of now seen lease] assms Pair ClaimOp by auto
  next
    case (CompleteOp t' k' ow' res)
    obtain r s' where c: "CompleteCommand L s now t' k' ow' res = (r, s')" by force
    then show ?thesis
      using complete_keeps [OF assms(1) _ c, of t k] assms Pair CompleteOp by auto
  next
    case (ReleaseOp t' k' ow')
    obtain r s' where c: "ReleaseCommand L s now t' k' ow' = (r, s')" by force
    then show ?thesis
      using release_keeps [OF assms(1) _ c, of t k] assms Pair ReleaseOp by auto
  qed
qed

lemma run_held:
  "linv s \<Longrightarrow> cmd s t k = Started h (Some ow) seen \<Longrightarrow> \<forall>x \<in> set xs. \<not> disturbs ow seen x \<Longrightarrow>
    cmd (ledger_run L s xs) t k = Started h (Some ow) seen"
  by (induction xs arbitrary: s) (use step_inv step_held in auto)

lemma exclusive:
  assumes "linv s" "admits s t" "k \<noteq> []" "ow \<noteq> []" "ow' \<noteq> []"
    and c: "ClaimCommand L s now t k h ow lease = (Inr Claimed, s1)"
    and quiet: "\<forall>x \<in> set xs. \<not> disturbs ow now x"
    and c': "ClaimCommand L (ledger_run L s1 xs) now' t k h' ow' lease' = (r, s2)"
    and live: "now' - now < lease'"
  shows "r = Inl (if h' = h then ErrCommandInProgress else ErrIdempotencyConflict)"
proof -
  have s1: "linv s1" "admits s1 t" using claim_inv [OF assms(1) c] assms(2) by auto
  have "cmd s1 t k = Started h (Some ow) now" using assms c by (intro claimed_is_held)
  then have "cmd (ledger_run L s1 xs) t k = Started h (Some ow) now"
    using run_held [OF s1(1)] quiet by simp
  moreover have "linv (ledger_run L s1 xs)" "admits (ledger_run L s1 xs) t"
    using run_inv [OF s1(1)] s1(2) by auto
  ultimately show ?thesis
    using claim_cmd [OF _ _ assms(3,5) c'] live_before [OF live] by auto
qed

lemma stays_replayed:
  assumes "linv s" "admits s t" "k \<noteq> []" "ow \<noteq> []" "ow' \<noteq> []" "res \<noteq> None"
    and c: "ClaimCommand L s now t k h ow lease = (Inr Claimed, s1)"
    and quiet: "\<forall>x \<in> set xs. \<not> disturbs ow now x"
    and d: "CompleteCommand L (ledger_run L s1 xs) now1 t k ow res = (u, s2)"
  shows "fst (ClaimCommand L (ledger_run L s2 ys) now2 t k h ow' lease') = Inr (Replay res)"
proof -
  have s1: "linv s1" "admits s1 t" using claim_inv [OF assms(1) c] assms(2) by auto
  have "cmd s1 t k = Started h (Some ow) now" using assms c by (intro claimed_is_held)
  then have m: "cmd (ledger_run L s1 xs) t k = Started h (Some ow) now"
    using run_held [OF s1(1)] quiet by simp
  have i: "linv (ledger_run L s1 xs)" "admits (ledger_run L s1 xs) t"
    using run_inv [OF s1(1)] s1(2) by auto
  have s2: "linv s2" "admits s2 t" using complete_inv [OF i(1) d] i(2) by auto
  have "cmd s2 t k = Succeeded h res" using complete_cmd [OF i assms(4,6) d] m by simp
  then have "cmd (ledger_run L s2 ys) t k = Succeeded h res" by (rule run_succeeded [OF s2(1)])
  then obtain s3 where "ClaimCommand L (ledger_run L s2 ys) now2 t k h ow' lease' = (Inr (Replay res), s3)"
    using replay_of_succeeded [OF _ _ assms(3,5)] run_inv [OF s2(1)] s2(2) by metis
  then show ?thesis by simp
qed

end

section \<open>The in-memory ledger\<close>

record memory_entry =
  me_hash :: string
  me_status :: string
  me_owner :: string
  me_seen :: time
  me_result :: raw

definition mem_claim :: "('c, string, memory_entry) lru_ops \<Rightarrow> 'c \<Rightarrow> time \<Rightarrow> string \<Rightarrow> string \<Rightarrow> string \<Rightarrow> string
    \<Rightarrow> time \<Rightarrow> claim result \<times> 'c" where
  "mem_claim ops m now tenantID key hash ow lease =
     (case lru_get ops m key of
        (None, m1) \<Rightarrow>
          (Inr Claimed, lru_add ops m1 key
             \<lparr>me_hash = hash, me_status = ''started'', me_owner = ow, me_seen = now, me_result = None\<rparr>)
      | (Some entry, m1) \<Rightarrow>
          if me_hash entry \<noteq> hash then (Inl ErrIdempotencyConflict, m1)
          else if me_status entry = ''succeeded'' then (Inr (Replay (me_result entry)), m1)
          else if me_owner entry \<noteq> [] \<and> now - me_seen entry < lease then (Inl ErrCommandInProgress, m1)
          else (Inr Claimed, lru_add ops m1 key (entry\<lparr>me_owner := ow, me_seen := now\<rparr>)))"

definition mem_complete :: "('c, string, memory_entry) lru_ops \<Rightarrow> 'c \<Rightarrow> time \<Rightarrow> string \<Rightarrow> string \<Rightarrow> string \<Rightarrow> raw
    \<Rightarrow> unit result \<times> 'c" where
  "mem_complete ops m now tenantID key ow result =
     (case lru_get ops m key of
        (None, m1) \<Rightarrow> (Inr (), m1)
      | (Some entry, m1) \<Rightarrow>
          if me_status entry \<noteq> ''started'' \<or> me_owner entry \<noteq> ow then (Inr (), m1)
          else (Inr (), lru_add ops m1 key
             (entry\<lparr>me_status := ''succeeded'', me_seen := now, me_result := result\<rparr>)))"

definition mem_release :: "('c, string, memory_entry) lru_ops \<Rightarrow> 'c \<Rightarrow> time \<Rightarrow> string \<Rightarrow> string \<Rightarrow> string
    \<Rightarrow> unit result \<times> 'c" where
  "mem_release ops m now tenantID key ow =
     (case lru_get ops m key of
        (None, m1) \<Rightarrow> (Inr (), m1)
      | (Some entry, m1) \<Rightarrow>
          if me_status entry \<noteq> ''started'' \<or> me_owner entry \<noteq> ow then (Inr (), m1)
          else (Inr (), lru_add ops m1 key (entry\<lparr>me_owner := []\<rparr>)))"

definition memory_ledger :: "('c, string, memory_entry) lru_ops \<Rightarrow> 'c ledger_ops" where
  "memory_ledger ops =
     \<lparr>ClaimCommand = mem_claim ops, CompleteCommand = mem_complete ops, ReleaseCommand = mem_release ops\<rparr>"

text \<open>The state of a command in memory, and the invariant: an entry is started or succeeded.\<close>

definition entry_state :: "memory_entry \<Rightarrow> cmd_state" where
  "entry_state e =
     (if me_status e = ''succeeded'' then Succeeded (me_hash e) (me_result e)
      else Started (me_hash e) (if me_owner e = [] then None else Some (me_owner e)) (me_seen e))"

definition mem_cmd :: "('c \<Rightarrow> string \<Rightarrow> memory_entry option) \<Rightarrow> 'c \<Rightarrow> string \<Rightarrow> string \<Rightarrow> cmd_state" where
  "mem_cmd held m t k = (case held m k of None \<Rightarrow> Absent | Some e \<Rightarrow> entry_state e)"

definition mem_inv :: "('c \<Rightarrow> bool) \<Rightarrow> ('c \<Rightarrow> string \<Rightarrow> memory_entry option) \<Rightarrow> 'c \<Rightarrow> bool" where
  "mem_inv cinv held m \<longleftrightarrow> cinv m \<and>
     (\<forall>k e. held m k = Some e \<longrightarrow> me_status e = ''started'' \<or> me_status e = ''succeeded'')"

definition mem_expired :: "time \<Rightarrow> time \<Rightarrow> time \<Rightarrow> bool" where
  "mem_expired now seen lease \<longleftrightarrow> \<not> now - seen < lease"

text \<open>One operation on key \<open>k\<close> at most replaces the entry of \<open>k\<close>, by one with a known status.\<close>

definition mem_step :: "('c, string, memory_entry) lru_ops \<Rightarrow> ('c \<Rightarrow> string \<Rightarrow> memory_entry option) \<Rightarrow> ('c \<Rightarrow> bool)
    \<Rightarrow> string \<Rightarrow> 'c \<Rightarrow> 'c \<Rightarrow> bool" where
  "mem_step ops held cinv k m m' \<longleftrightarrow>
     (\<exists>m1. held m1 = held m \<and> cinv m1 \<and>
        (m' = m1 \<or> (\<exists>e. (me_status e = ''started'' \<or> me_status e = ''succeeded'') \<and> m' = lru_add ops m1 k e)))"

locale ledger_cache = lru_cache ops held cinv limit
  for ops :: "('c, string, memory_entry) lru_ops"
    and held :: "'c \<Rightarrow> string \<Rightarrow> memory_entry option"
    and cinv :: "'c \<Rightarrow> bool"
    and limit :: nat
begin

lemma get_cases:
  assumes "mem_inv cinv held m"
  obtains m1 where "lru_get ops m k = (held m k, m1)" "held m1 = held m" "cinv m1"
  using get_value [of m k] get_held [of m k] inv_get [of m k] assms
  unfolding mem_inv_def by (metis prod.collapse)

lemma mem_inv_status:
  "mem_inv cinv held m \<Longrightarrow> held m k = Some e \<Longrightarrow> me_status e \<noteq> ''succeeded'' \<Longrightarrow> me_status e = ''started''"
  by (auto simp: mem_inv_def)

lemma mem_step_read: "held m1 = held m \<Longrightarrow> cinv m1 \<Longrightarrow> mem_step ops held cinv k m m1"
  by (auto simp: mem_step_def)

lemma mem_step_write:
  "held m1 = held m \<Longrightarrow> cinv m1 \<Longrightarrow> me_status e = ''started'' \<or> me_status e = ''succeeded'' \<Longrightarrow>
    mem_step ops held cinv k m (lru_add ops m1 k e)"
  by (auto simp: mem_step_def)

lemma mem_step_inv:
  assumes "mem_inv cinv held m" and "mem_step ops held cinv k m m'"
  shows "mem_inv cinv held m'"
proof -
  obtain m1 where m1: "held m1 = held m" "cinv m1"
    and m': "m' = m1 \<or> (\<exists>e. (me_status e = ''started'' \<or> me_status e = ''succeeded'') \<and> m' = lru_add ops m1 k e)"
    using assms(2) by (auto simp: mem_step_def)
  from m' show ?thesis
  proof (elim disjE exE conjE)
    assume "m' = m1"
    then show ?thesis using assms(1) m1 by (simp add: mem_inv_def)
  next
    fix e assume "m' = lru_add ops m1 k e" "me_status e = ''started''"
    then show ?thesis
      using assms(1) m1 inv_add [OF m1(2)] add_never_invents [OF m1(2)] unfolding mem_inv_def by metis
  next
    fix e assume "m' = lru_add ops m1 k e" "me_status e = ''succeeded''"
    then show ?thesis
      using assms(1) m1 inv_add [OF m1(2)] add_never_invents [OF m1(2)] unfolding mem_inv_def by metis
  qed
qed

lemma mem_step_frame:
  assumes "mem_step ops held cinv k' m m'" and "k \<noteq> k'"
  shows "mem_cmd held m' t k = mem_cmd held m t k \<or> mem_cmd held m' t k = Absent"
proof -
  obtain m1 where m1: "held m1 = held m" "cinv m1"
    and m': "m' = m1 \<or> (\<exists>e. m' = lru_add ops m1 k' e)"
    using assms(1) by (auto simp: mem_step_def)
  from m' show ?thesis
  proof (elim disjE exE)
    assume "m' = m1"
    then show ?thesis using m1 by (simp add: mem_cmd_def)
  next
    fix e assume "m' = lru_add ops m1 k' e"
    then show ?thesis
      using add_other [OF m1(2) assms(2), of e] m1(1) by (auto simp: mem_cmd_def)
  qed
qed

lemma mem_claim_step:
  assumes "mem_inv cinv held m" and "mem_claim ops m now t k h ow lease = (r, m')"
  shows "mem_step ops held cinv k m m'"
proof -
  obtain m1 where m1: "lru_get ops m k = (held m k, m1)" "held m1 = held m" "cinv m1"
    using assms(1) by (rule get_cases)
  then show ?thesis
    using assms unfolding mem_claim_def
    by (auto intro: mem_step_read intro!: mem_step_write dest: mem_inv_status split: option.splits if_splits)
qed

lemma mem_complete_step:
  assumes "mem_inv cinv held m" and "mem_complete ops m now t k ow res = (r, m')"
  shows "mem_step ops held cinv k m m'"
proof -
  obtain m1 where m1: "lru_get ops m k = (held m k, m1)" "held m1 = held m" "cinv m1"
    using assms(1) by (rule get_cases)
  then show ?thesis
    using assms unfolding mem_complete_def
    by (auto intro: mem_step_read intro!: mem_step_write dest: mem_inv_status split: option.splits if_splits)
qed

lemma mem_release_step:
  assumes "mem_inv cinv held m" and "mem_release ops m now t k ow = (r, m')"
  shows "mem_step ops held cinv k m m'"
proof -
  obtain m1 where m1: "lru_get ops m k = (held m k, m1)" "held m1 = held m" "cinv m1"
    using assms(1) by (rule get_cases)
  then show ?thesis
    using assms unfolding mem_release_def
    by (auto intro: mem_step_read intro!: mem_step_write dest: mem_inv_status split: option.splits if_splits)
qed

end

lemmas memory_ledger_simps [simp] = memory_ledger_def [THEN arg_cong [of _ _ ClaimCommand], simplified]
  memory_ledger_def [THEN arg_cong [of _ _ CompleteCommand], simplified]
  memory_ledger_def [THEN arg_cong [of _ _ ReleaseCommand], simplified]

sublocale ledger_cache \<subseteq> mem: command_ledger
  "memory_ledger ops" "mem_cmd held" "mem_inv cinv held" "\<lambda>_ _. True" mem_expired
proof (unfold_locales, goal_cases)
  case (1 s t k ow now h lease r s')
  from 1(1) obtain m1 where m1: "lru_get ops s k = (held s k, m1)" "held m1 = held s" "cinv m1"
    by (rule get_cases)
  show ?case
    using 1 m1 add_same [OF m1(3)]
    by (auto simp: mem_claim_def mem_cmd_def entry_state_def mem_inv_def mem_expired_def
        split: option.splits if_splits)
next
  case (2 s t ow res now k r s')
  from 2(1) obtain m1 where m1: "lru_get ops s k = (held s k, m1)" "held m1 = held s" "cinv m1"
    by (rule get_cases)
  show ?case
    using 2 m1 add_same [OF m1(3)]
    by (auto simp: mem_complete_def mem_cmd_def entry_state_def mem_inv_def
        split: option.splits if_splits)
next
  case (3 s t ow now k r s')
  from 3(1) obtain m1 where m1: "lru_get ops s k = (held s k, m1)" "held m1 = held s" "cinv m1"
    by (rule get_cases)
  show ?case
    using 3 m1 add_same [OF m1(3)]
    by (auto simp: mem_release_def mem_cmd_def entry_state_def mem_inv_def
        split: option.splits if_splits)
qed (simp_all add: mem_expired_def,
    (metis mem_claim_step mem_complete_step mem_release_step mem_step_frame mem_step_inv)+)

context ledger_cache
begin

lemma claim_refines:
  assumes "mem_inv cinv held m" "k \<noteq> []" "ow \<noteq> []" and c: "mem_claim ops m now t k h ow lease = (r, m')"
  shows "(r, mem_cmd held m' t k) = spec_claim mem_expired now h ow lease (mem_cmd held m t k) \<and>
    mem_inv cinv held m' \<and>
    (\<forall>k'. k' = k \<or> mem_cmd held m' t k' = mem_cmd held m t k' \<or> mem_cmd held m' t k' = Absent)"
proof -
  have c': "ClaimCommand (memory_ledger ops) m now t k h ow lease = (r, m')" using c by simp
  show ?thesis
    using mem.claim_cmd [OF assms(1) TrueI assms(2,3) c'] mem.claim_inv [OF assms(1) c']
      mem.claim_frame [OF assms(1) c'] by blast
qed

end

interpretation mem_lru: ledger_cache "lru_list n" "map_of" "lru_list_inv n" "Suc n" for n
  by unfold_locales

end
