(* ===== verification/Pg_Ledger.thy ===== *)
theory Pg_Ledger
  imports Command_Ledger
begin

text \<open>
  The Postgres command ledger, \<open>internal/store/pgstore/command_ledger.go\<close>, with the two helpers
  every statement of \<open>pgstore\<close> runs through: \<open>inTenant\<close> (\<open>pgstore.go\<close>), the transaction as one
  tenant, and \<open>projectionErr\<close> (\<open>task_projection.go\<close>). A table is a map from its primary key; the
  constraints of the migrations that a statement can break are written out where it runs. The
  record \<open>ledger_db\<close> is the part of the database the ledger reads; the full database extends it.
\<close>

section \<open>Transactions\<close>

definition projectionErr :: "err \<Rightarrow> err" where
  "projectionErr e =
     (if e \<in> {ErrNotFound, ErrIdempotencyConflict, ErrCommandInProgress, ErrStorage} then e else ErrStorage)"

text \<open>A failed body rolls back; row level security needs a tenant.\<close>

definition inTenant :: "'s \<Rightarrow> string \<Rightarrow> ('s \<Rightarrow> 'a result \<times> 's) \<Rightarrow> 'a result \<times> 's" where
  "inTenant s tenantID f =
     (if tenantID = [] then (Inl ErrNotFound, s)
      else case f s of (Inl e, _) \<Rightarrow> (Inl e, s) | (Inr x, s') \<Rightarrow> (Inr x, s'))"

definition with_projectionErr :: "'a result \<times> 's \<Rightarrow> 'a result \<times> 's" where
  "with_projectionErr = map_prod (map_sum projectionErr id) id"

lemma with_projectionErr_simps [simp]:
  "with_projectionErr (Inl e, s) = (Inl (projectionErr e), s)"
  "with_projectionErr (Inr x, s) = (Inr x, s)"
  by (simp_all add: with_projectionErr_def)

lemma projectionErr_idem [simp]: "projectionErr (projectionErr e) = projectionErr e"
  by (simp add: projectionErr_def)

lemma inTenant_error_keeps: "fst (inTenant s t f) = Inl e \<Longrightarrow> snd (inTenant s t f) = s"
  by (auto simp: inTenant_def split: prod.splits sum.splits if_splits)

section \<open>The rows\<close>

record ledgerRow =
  lr_tenant :: string
  lr_hash :: string
  lr_status :: string
  lr_result :: raw            \<comment> \<open>\<open>None\<close> for SQL NULL\<close>
  lr_owner :: "string option"
  lr_seen :: time

record ledger_db =
  db_tenants :: "string list"
  db_ledger :: "(string \<times> string, ledgerRow) gomap"

definition scopeAPICommand :: string where
  "scopeAPICommand = ''api_command''"

definition ledgerRowScope :: "'a ledger_db_scheme \<Rightarrow> string \<Rightarrow> string \<Rightarrow> ledgerRow option" where
  "ledgerRowScope s tenantID key =
     (case map_of (db_ledger s) (scopeAPICommand, key) of
        None \<Rightarrow> None
      | Some row \<Rightarrow> if lr_tenant row = tenantID then Some row else None)"

definition put_ledger :: "'a ledger_db_scheme \<Rightarrow> string \<Rightarrow> ledgerRow \<Rightarrow> 'a ledger_db_scheme" where
  "put_ledger s key row = s\<lparr>db_ledger := AList.update (scopeAPICommand, key) row (db_ledger s)\<rparr>"

text \<open>
  The insert fails on a tenant that is not in \<open>tenants\<close> and on an empty key; on a row that is
  there it does nothing, whoever's it is. \<open>last_seen\<close> defaults to the database clock.
\<close>

definition claimLedgerRow :: "'a ledger_db_scheme \<Rightarrow> time \<Rightarrow> string \<Rightarrow> string \<Rightarrow> string \<Rightarrow> string \<Rightarrow> time
    \<Rightarrow> claim result \<times> 'a ledger_db_scheme" where
  "claimLedgerRow s now tenantID key hash owner lease =
     (if key = [] then (Inl (ErrText ''insert''), s)
      else if \<not> has_key (db_ledger s) (scopeAPICommand, key) then
        if tenantID \<notin> set (db_tenants s) then (Inl (ErrText ''insert''), s)
        else (Inr Claimed, put_ledger s key
               \<lparr>lr_tenant = tenantID, lr_hash = hash, lr_status = ''started'', lr_result = None,
                lr_owner = Some owner, lr_seen = now\<rparr>)
      else (case ledgerRowScope s tenantID key of
          None \<Rightarrow> (Inl (ErrText ''record not found''), s)
        | Some row \<Rightarrow>
            if lr_hash row \<noteq> hash then (Inl ErrIdempotencyConflict, s)
            else if lr_status row = ''succeeded'' then (Inr (Replay (lr_result row)), s)
            else if lr_status row \<noteq> ''started'' then
              (Inl (ErrText (''api command ledger row in unexpected status '' @ lr_status row)), s)
            else if lr_owner row = None \<or> lr_seen row < now - lease then
              (Inr Claimed, put_ledger s key (row\<lparr>lr_owner := Some owner, lr_seen := now\<rparr>))
            else (Inl ErrCommandInProgress, s)))"

definition pg_claim :: "'a ledger_db_scheme \<Rightarrow> time \<Rightarrow> string \<Rightarrow> string \<Rightarrow> string \<Rightarrow> string \<Rightarrow> time
    \<Rightarrow> claim result \<times> 'a ledger_db_scheme" where
  "pg_claim s now tenantID key hash owner lease =
     with_projectionErr (inTenant s tenantID (\<lambda>tx. claimLedgerRow tx now tenantID key hash owner lease))"

text \<open>Postgres refuses a value of a \<open>jsonb\<close> column that is not JSON, if a row matches.\<close>

definition pg_complete :: "'a ledger_db_scheme \<Rightarrow> time \<Rightarrow> string \<Rightarrow> string \<Rightarrow> string \<Rightarrow> raw
    \<Rightarrow> unit result \<times> 'a ledger_db_scheme" where
  "pg_complete s now tenantID key owner result =
     with_projectionErr (inTenant s tenantID (\<lambda>tx.
       if result = None then (Inl (ErrText ''invalid input syntax for type json''), tx)
       else case ledgerRowScope tx tenantID key of
         None \<Rightarrow> (Inr (), tx)
       | Some row \<Rightarrow>
           if lr_status row = ''started'' \<and> lr_owner row = Some owner
           then (Inr (), put_ledger tx key (row\<lparr>lr_status := ''succeeded'', lr_result := result, lr_seen := now\<rparr>))
           else (Inr (), tx)))"

definition pg_release :: "'a ledger_db_scheme \<Rightarrow> time \<Rightarrow> string \<Rightarrow> string \<Rightarrow> string
    \<Rightarrow> unit result \<times> 'a ledger_db_scheme" where
  "pg_release s now tenantID key owner =
     with_projectionErr (inTenant s tenantID (\<lambda>tx.
       case ledgerRowScope tx tenantID key of
         None \<Rightarrow> (Inr (), tx)
       | Some row \<Rightarrow>
           if lr_status row = ''started'' \<and> lr_owner row = Some owner
           then (Inr (), put_ledger tx key (row\<lparr>lr_owner := None\<rparr>))
           else (Inr (), tx)))"

definition pg_ledger :: "('a ledger_db_scheme) ledger_ops" where
  "pg_ledger = \<lparr>ClaimCommand = pg_claim, CompleteCommand = pg_complete, ReleaseCommand = pg_release\<rparr>"

section \<open>The ledger implements the contract\<close>

definition row_state :: "ledgerRow \<Rightarrow> cmd_state" where
  "row_state row =
     (if lr_status row = ''succeeded'' then Succeeded (lr_hash row) (lr_result row)
      else if lr_status row = ''started'' then Started (lr_hash row) (lr_owner row) (lr_seen row)
      else Blocked)"

definition pg_cmd :: "'a ledger_db_scheme \<Rightarrow> string \<Rightarrow> string \<Rightarrow> cmd_state" where
  "pg_cmd s t k =
     (case map_of (db_ledger s) (scopeAPICommand, k) of
        None \<Rightarrow> Absent
      | Some row \<Rightarrow> if lr_tenant row = t then row_state row else Blocked)"

text \<open>
  The invariant: every row of the scope belongs to a tenant, has a key, and is started or succeeded
  (the table also allows \<open>failed_permanent\<close>, which nothing writes under this scope).
\<close>

definition ledger_status :: "string list" where
  "ledger_status = [''started'', ''succeeded'']"

definition pg_ledger_inv :: "'a ledger_db_scheme \<Rightarrow> bool" where
  "pg_ledger_inv s \<longleftrightarrow> distinct (map fst (db_ledger s)) \<and> [] \<notin> set (db_tenants s) \<and>
     (\<forall>k row. map_of (db_ledger s) (scopeAPICommand, k) = Some row \<longrightarrow>
        k \<noteq> [] \<and> lr_tenant row \<in> set (db_tenants s) \<and> lr_status row \<in> set ledger_status)"

definition pg_admits :: "'a ledger_db_scheme \<Rightarrow> string \<Rightarrow> bool" where
  "pg_admits s t \<longleftrightarrow> t \<noteq> [] \<and> t \<in> set (db_tenants s)"

definition pg_expired :: "time \<Rightarrow> time \<Rightarrow> time \<Rightarrow> bool" where
  "pg_expired now seen lease \<longleftrightarrow> seen < now - lease"

text \<open>An operation of tenant \<open>t\<close> on key \<open>k\<close> writes at most the row of \<open>k\<close>, and only if it is \<open>t\<close>'s own.\<close>

definition pg_step :: "string \<Rightarrow> string \<Rightarrow> 'a ledger_db_scheme \<Rightarrow> 'a ledger_db_scheme \<Rightarrow> bool" where
  "pg_step t k s s' \<longleftrightarrow> s' = s \<or>
     (\<exists>row. s' = put_ledger s k row \<and> k \<noteq> [] \<and> lr_tenant row = t \<and> t \<in> set (db_tenants s) \<and>
        lr_status row \<in> set ledger_status \<and> pg_cmd s t k \<noteq> Blocked)"

lemma ledgerRowScope_Some:
  "ledgerRowScope s t k = Some row \<longleftrightarrow>
     map_of (db_ledger s) (scopeAPICommand, k) = Some row \<and> lr_tenant row = t"
  by (auto simp: ledgerRowScope_def split: option.splits)

lemma put_ledger_simps [simp]:
  "db_tenants (put_ledger s k row) = db_tenants s"
  "map_of (db_ledger (put_ledger s k row)) (scopeAPICommand, k') =
     (if k' = k then Some row else map_of (db_ledger s) (scopeAPICommand, k'))"
  "distinct (map fst (db_ledger s)) \<Longrightarrow> distinct (map fst (db_ledger (put_ledger s k row)))"
  by (simp_all add: put_ledger_def distinct_keys_update)

lemma pg_step_refl [simp]: "pg_step t k s s"
  by (simp add: pg_step_def)

lemma pg_stepI:
  "k \<noteq> [] \<Longrightarrow> lr_tenant row = t \<Longrightarrow> t \<in> set (db_tenants s) \<Longrightarrow> lr_status row \<in> set ledger_status \<Longrightarrow>
    pg_cmd s t k \<noteq> Blocked \<Longrightarrow> pg_step t k s (put_ledger s k row)"
  by (auto simp: pg_step_def)

lemma pg_ledger_inv_row:
  "pg_ledger_inv s \<Longrightarrow> map_of (db_ledger s) (scopeAPICommand, k) = Some row \<Longrightarrow>
     k \<noteq> [] \<and> lr_tenant row \<in> set (db_tenants s) \<and> lr_status row \<in> set ledger_status"
  by (simp add: pg_ledger_inv_def)

lemma pg_cmd_put:
  "pg_cmd (put_ledger s k' row) t k =
     (if k' = k then (if lr_tenant row = t then row_state row else Blocked) else pg_cmd s t k)"
  by (simp add: pg_cmd_def)

lemma pg_step_inv: "pg_ledger_inv s \<Longrightarrow> pg_step t k s s' \<Longrightarrow> pg_ledger_inv s' \<and> pg_admits s' = pg_admits s"
  unfolding pg_step_def pg_admits_def pg_ledger_inv_def
  by (elim disjE exE conjE) (simp_all add: fun_eq_iff del: map_of_eq_Some_iff)

lemma pg_cmd_tenant:
  "pg_cmd s t k \<noteq> Blocked \<Longrightarrow> pg_cmd s t k \<noteq> Absent \<Longrightarrow> t' \<noteq> t \<Longrightarrow> pg_cmd s t' k = Blocked"
  by (cases "map_of (db_ledger s) (scopeAPICommand, k)") (auto simp: pg_cmd_def split: if_splits)

lemma pg_step_frame:
  assumes "pg_step t' k' s s'" and "pg_cmd s t k \<noteq> Absent" and "(t', k') \<noteq> (t, k)"
  shows "pg_cmd s' t k = pg_cmd s t k"
proof (cases "s' = s")
  case False
  then obtain row where s': "s' = put_ledger s k' row" "lr_tenant row = t'" "pg_cmd s t' k' \<noteq> Blocked"
    using assms(1) by (auto simp: pg_step_def)
  show ?thesis
  proof (cases "k' = k")
    case True
    with assms(2,3) s'(3) pg_cmd_tenant [of s t k t'] have "pg_cmd s t k = Blocked" "t' \<noteq> t" by auto
    with s' True show ?thesis by (simp add: pg_cmd_put)
  next
    case False
    with s' show ?thesis by (simp add: pg_cmd_put)
  qed
qed simp

lemma pg_step_other: "pg_step t' k' s s' \<Longrightarrow> k' \<noteq> k \<Longrightarrow> pg_cmd s' t k = pg_cmd s t k"
  by (auto simp: pg_step_def pg_cmd_put)

lemmas pg_cmd_simps = pg_cmd_def row_state_def pg_expired_def ledger_status_def

lemma pg_claim_step:
  assumes "pg_ledger_inv s" and "pg_claim s now t k h ow lease = (r, s')"
  shows "pg_step t k s s'"
proof (cases "map_of (db_ledger s) (scopeAPICommand, k)")
  case None
  with assms show ?thesis
    by (auto simp: pg_claim_def inTenant_def claimLedgerRow_def has_key_def pg_cmd_simps
        simp del: map_of_eq_Some_iff intro!: pg_stepI split: if_splits)
next
  case (Some row)
  with assms pg_ledger_inv_row [OF assms(1) Some] show ?thesis
    by (auto simp: pg_claim_def inTenant_def claimLedgerRow_def has_key_def ledgerRowScope_def pg_cmd_simps
        simp del: map_of_eq_Some_iff intro!: pg_stepI split: if_splits)
qed

lemma pg_complete_step:
  assumes "pg_ledger_inv s" and "pg_complete s now t k ow res = (r, s')"
  shows "pg_step t k s s'"
proof (cases "map_of (db_ledger s) (scopeAPICommand, k)")
  case None
  with assms show ?thesis
    by (auto simp: pg_complete_def inTenant_def ledgerRowScope_def simp del: map_of_eq_Some_iff split: if_splits)
next
  case (Some row)
  with assms pg_ledger_inv_row [OF assms(1) Some] show ?thesis
    by (auto simp: pg_complete_def inTenant_def ledgerRowScope_def pg_cmd_simps
        simp del: map_of_eq_Some_iff intro!: pg_stepI split: if_splits)
qed

lemma pg_release_step:
  assumes "pg_ledger_inv s" and "pg_release s now t k ow = (r, s')"
  shows "pg_step t k s s'"
proof (cases "map_of (db_ledger s) (scopeAPICommand, k)")
  case None
  with assms show ?thesis
    by (auto simp: pg_release_def inTenant_def ledgerRowScope_def simp del: map_of_eq_Some_iff split: if_splits)
next
  case (Some row)
  with assms pg_ledger_inv_row [OF assms(1) Some] show ?thesis
    by (auto simp: pg_release_def inTenant_def ledgerRowScope_def pg_cmd_simps
        simp del: map_of_eq_Some_iff intro!: pg_stepI split: if_splits)
qed

text \<open>On the tenant's own key the three operations are those of the abstract machine.\<close>

lemma pg_claim_cmd:
  assumes inv: "pg_ledger_inv s" and "t \<noteq> []" and "pg_cmd s t k \<noteq> Absent \<or> t \<in> set (db_tenants s)" and "k \<noteq> []"
    and "pg_claim s now t k h ow lease = (r, s')"
  shows "(r, pg_cmd s' t k) = spec_claim pg_expired now h ow lease (pg_cmd s t k)"
proof (cases "map_of (db_ledger s) (scopeAPICommand, k)")
  case None
  with assms show ?thesis
    by (auto simp: pg_claim_def inTenant_def claimLedgerRow_def has_key_def pg_cmd_simps split: if_splits)
next
  case (Some row)
  with assms pg_ledger_inv_row [OF inv Some] show ?thesis
    by (auto simp: pg_claim_def inTenant_def claimLedgerRow_def ledgerRowScope_def has_key_def
        projectionErr_def pg_cmd_simps simp del: map_of_eq_Some_iff split: if_splits)
qed

lemma pg_complete_cmd:
  assumes "t \<noteq> []" and "res \<noteq> None" and "pg_complete s now t k ow res = (u, s')"
  shows "u = Inr () \<and> pg_cmd s' t k = spec_complete ow res (pg_cmd s t k)"
proof (cases "map_of (db_ledger s) (scopeAPICommand, k)")
  case None
  with assms show ?thesis by (auto simp: pg_complete_def inTenant_def ledgerRowScope_def pg_cmd_simps)
next
  case (Some row)
  with assms show ?thesis
    by (auto simp: pg_complete_def inTenant_def ledgerRowScope_def pg_cmd_simps
        simp del: map_of_eq_Some_iff split: if_splits)
qed

lemma pg_release_cmd:
  assumes "t \<noteq> []" and "pg_release s now t k ow = (u, s')"
  shows "u = Inr () \<and> pg_cmd s' t k = spec_release ow (pg_cmd s t k)"
proof (cases "map_of (db_ledger s) (scopeAPICommand, k)")
  case None
  with assms show ?thesis by (auto simp: pg_release_def inTenant_def ledgerRowScope_def pg_cmd_simps)
next
  case (Some row)
  with assms show ?thesis
    by (auto simp: pg_release_def inTenant_def ledgerRowScope_def pg_cmd_simps
        simp del: map_of_eq_Some_iff split: if_splits)
qed

lemmas pg_ledger_simps [simp] = pg_ledger_def [THEN arg_cong [of _ _ ClaimCommand], simplified]
  pg_ledger_def [THEN arg_cong [of _ _ CompleteCommand], simplified]
  pg_ledger_def [THEN arg_cong [of _ _ ReleaseCommand], simplified]

lemma pg_complete_keeps:
  assumes "pg_ledger_inv s" "pg_cmd s t k \<noteq> Absent" "pg_complete s now t' k' ow res = (u, s')"
  shows "pg_cmd s' t k = pg_cmd s t k \<or> pg_cmd s' t k = spec_complete ow res (pg_cmd s t k)"
proof (cases "(t', k') = (t, k) \<and> t \<noteq> [] \<and> res \<noteq> None")
  case True
  with pg_complete_cmd [of t res s now k ow u s'] assms(3) show ?thesis by auto
next
  case False
  with assms(3) have "s' = s" if "(t', k') = (t, k)"
    using that by (cases "t = []") (auto simp: pg_complete_def inTenant_def)
  with pg_step_frame [OF pg_complete_step [OF assms(1,3)] assms(2)] show ?thesis by auto
qed

lemma pg_release_keeps:
  assumes "pg_ledger_inv s" "pg_cmd s t k \<noteq> Absent" "pg_release s now t' k' ow = (u, s')"
  shows "pg_cmd s' t k = pg_cmd s t k \<or> pg_cmd s' t k = spec_release ow (pg_cmd s t k)"
proof (cases "(t', k') = (t, k) \<and> t \<noteq> []")
  case True
  with pg_release_cmd [of t s now k ow u s'] assms(3) show ?thesis by auto
next
  case False
  with assms(3) have "s' = s" if "(t', k') = (t, k)"
    using that by (auto simp: pg_release_def inTenant_def)
  with pg_step_frame [OF pg_release_step [OF assms(1,3)] assms(2)] show ?thesis by auto
qed

lemma pg_claim_keeps:
  assumes inv: "pg_ledger_inv s" and st: "pg_cmd s t k \<noteq> Absent"
    and c: "pg_claim s now t' k' h ow lease = (r, s')"
  shows "pg_cmd s' t k =
    (if t' = t \<and> k' = k then snd (spec_claim pg_expired now h ow lease (pg_cmd s t k)) else pg_cmd s t k)"
proof (cases "t' = t \<and> k' = k")
  case True
  obtain row where row: "map_of (db_ledger s) (scopeAPICommand, k) = Some row"
    using st by (cases "map_of (db_ledger s) (scopeAPICommand, k)") (auto simp: pg_cmd_def)
  show ?thesis
  proof (cases "t = []")
    case True
    with pg_ledger_inv_row [OF inv row] inv have "lr_tenant row \<noteq> t" by (auto simp: pg_ledger_inv_def)
    with True have "pg_cmd s t k = Blocked" "s' = s"
      using row c \<open>t' = t \<and> k' = k\<close>
      by (auto simp: pg_cmd_def pg_claim_def inTenant_def)
    then show ?thesis by simp
  next
    case False
    with pg_claim_cmd [OF inv False, of k now h ow lease r s'] pg_ledger_inv_row [OF inv row] st c
      \<open>t' = t \<and> k' = k\<close>
    show ?thesis by (cases "spec_claim pg_expired now h ow lease (pg_cmd s t k)") auto
  qed
next
  case False
  with pg_step_frame [OF pg_claim_step [OF inv c] st] show ?thesis by auto
qed

interpretation pg: durable_ledger pg_ledger pg_cmd pg_ledger_inv pg_admits pg_expired
proof (unfold_locales, goal_cases)
  case (1 s t k ow now h lease r s')
  then show ?case by (intro pg_claim_cmd) (auto simp: pg_admits_def)
next
  case (2 s t ow res now k u s')
  then show ?case by (intro pg_complete_cmd) (auto simp: pg_admits_def)
next
  case (3 s t ow now k u s')
  then show ?case by (intro pg_release_cmd) (auto simp: pg_admits_def)
next
  case (4 s now t' k' h ow lease r s' k t)
  then show ?case using pg_step_other [OF pg_claim_step [OF 4(1) 4(2) [simplified]], of k t] 4(3) by simp
next
  case (5 s now t' k' ow res u s' k t)
  then show ?case using pg_step_other [OF pg_complete_step [OF 5(1) 5(2) [simplified]], of k t] 5(3) by simp
next
  case (6 s now t' k' ow u s' k t)
  then show ?case using pg_step_other [OF pg_release_step [OF 6(1) 6(2) [simplified]], of k t] 6(3) by simp
next
  case (7 s now t k h ow lease r s')
  then show ?case by (intro pg_step_inv [OF _ pg_claim_step]) auto
next
  case (8 s now t k ow res u s')
  then show ?case by (intro pg_step_inv [OF _ pg_complete_step]) auto
next
  case (9 s now t k ow u s')
  then show ?case by (intro pg_step_inv [OF _ pg_release_step]) auto
next
  case (12 s t k now t' k' h ow lease r s')
  then show ?case by (intro pg_claim_keeps) auto
next
  case (13 s t k now t' k' ow res u s')
  then show ?case by (intro pg_complete_keeps) auto
next
  case (14 s t k now t' k' ow u s')
  then show ?case by (intro pg_release_keeps) auto
qed (auto simp: pg_expired_def)

section \<open>Properties\<close>

text \<open>C4. A claim in Postgres is exclusive: after owner \<open>ow\<close> was told to run a command, and
  whatever any tenant and replica does within the lease short of \<open>ow\<close> completing or releasing
  it, nobody else is told to run it; a request with another hash is a conflict.\<close>

theorem pg_ledger_exclusive:
  assumes "pg_ledger_inv s" "t \<noteq> []" "t \<in> set (db_tenants s)" "k \<noteq> []" "ow \<noteq> []" "ow' \<noteq> []"
    and "pg_claim s now t k h ow lease = (Inr Claimed, s1)"
    and "\<forall>x \<in> set xs. \<not> disturbs ow now x"
    and "now' - now < lease'"
  shows "fst (pg_claim (ledger_run pg_ledger s1 xs) now' t k h' ow' lease') =
    Inl (if h' = h then ErrCommandInProgress else ErrIdempotencyConflict)"
  using pg.exclusive [of s t k ow ow' now h lease s1 xs now' h' lease'] assms
  by (cases "pg_claim (ledger_run pg_ledger s1 xs) now' t k h' ow' lease'") (auto simp: pg_admits_def)

definition sample_ledger :: ledger_db where
  "sample_ledger = \<lparr>db_tenants = [''t1'', ''t2''], db_ledger = []\<rparr>"

lemma sample_ledger_inv: "pg_ledger_inv sample_ledger"
  by (simp add: sample_ledger_def pg_ledger_inv_def)

lemma sample_claim:
  "pg_claim sample_ledger 5 ''t1'' ''k'' ''h'' ''o1'' 30 =
     (Inr Claimed, \<lparr>db_tenants = [''t1'', ''t2''],
        db_ledger = [((''api_command'', ''k''),
          \<lparr>lr_tenant = ''t1'', lr_hash = ''h'', lr_status = ''started'', lr_result = None,
           lr_owner = Some ''o1'', lr_seen = 5\<rparr>)]\<rparr>)"
  by (simp add: sample_ledger_def pg_claim_def inTenant_def claimLedgerRow_def has_key_def put_ledger_def
      scopeAPICommand_def)

theorem pg_ledger_exclusive_witness:
  "fst (pg_claim (ledger_run pg_ledger (snd (pg_claim sample_ledger 5 ''t1'' ''k'' ''h'' ''o1'' 30))
      [(6, ClaimOp ''t2'' ''k'' ''h'' ''o2'' 30), (7, ReleaseOp ''t1'' ''k'' ''o2'')])
      9 ''t1'' ''k'' ''h'' ''o3'' 30) = Inl ErrCommandInProgress"
  using pg_ledger_exclusive [OF sample_ledger_inv, of "''t1''" "''k''" "''o1''" "''o3''" 5 "''h''" 30
      "snd (pg_claim sample_ledger 5 ''t1'' ''k'' ''h'' ''o1'' 30)"
      "[(6, ClaimOp ''t2'' ''k'' ''h'' ''o2'' 30), (7, ReleaseOp ''t1'' ''k'' ''o2'')]" 9 30 "''h''"]
    sample_claim
  by (simp add: sample_ledger_def)

text \<open>A completed command is answered from the record for good: if \<open>ow\<close> completes the claim it
  still holds, every later request with that key and hash, after any further operations, gets the
  stored response and is never told to run the command again.\<close>

theorem pg_ledger_replays:
  assumes "pg_ledger_inv s" "t \<noteq> []" "t \<in> set (db_tenants s)" "k \<noteq> []" "ow \<noteq> []" "ow' \<noteq> []" "res \<noteq> None"
    and "pg_claim s now t k h ow lease = (Inr Claimed, s1)"
    and "\<forall>x \<in> set xs. \<not> disturbs ow now x"
    and "pg_complete (ledger_run pg_ledger s1 xs) now1 t k ow res = (u, s2)"
  shows "fst (pg_claim (ledger_run pg_ledger s2 ys) now2 t k h ow' lease') = Inr (Replay res)"
  using pg.stays_replayed [of s t k ow ow' res now h lease s1 xs now1 u s2 ys now2 lease'] assms
  by (simp add: pg_admits_def)

theorem pg_ledger_replays_witness:
  "fst (pg_claim (ledger_run pg_ledger
        (snd (pg_complete (snd (pg_claim sample_ledger 5 ''t1'' ''k'' ''h'' ''o1'' 30)) 6 ''t1'' ''k'' ''o1'' (Some Null)))
        [(99, ClaimOp ''t1'' ''k'' ''h'' ''o2'' 1), (99, ReleaseOp ''t1'' ''k'' ''o1'')])
      200 ''t1'' ''k'' ''h'' ''o3'' 30) = Inr (Replay (Some Null))"
  using pg_ledger_replays [OF sample_ledger_inv, of "''t1''" "''k''" "''o1''" "''o3''" "Some Null" 5 "''h''" 30
      "snd (pg_claim sample_ledger 5 ''t1'' ''k'' ''h'' ''o1'' 30)" "[]" 6
      "fst (pg_complete (snd (pg_claim sample_ledger 5 ''t1'' ''k'' ''h'' ''o1'' 30)) 6 ''t1'' ''k'' ''o1'' (Some Null))"
      "snd (pg_complete (snd (pg_claim sample_ledger 5 ''t1'' ''k'' ''h'' ''o1'' 30)) 6 ''t1'' ''k'' ''o1'' (Some Null))"
      "[(99, ClaimOp ''t1'' ''k'' ''h'' ''o2'' 1), (99, ReleaseOp ''t1'' ''k'' ''o1'')]" 200 30]
    sample_claim
  by (simp add: sample_ledger_def)

text \<open>The in-memory ledger keeps the same contract on the key that is named, for any cache with
  the documented behaviour: a claim is that of the abstract machine, with a claim taken over once
  the lease has passed, and other keys are only ever evicted.\<close>

theorem memory_ledger_claim_refines:
  assumes "lru_cache ops held cinv limit" and "mem_inv cinv held m" "k \<noteq> []" "ow \<noteq> []"
    and "mem_claim ops m now t k h ow lease = (r, m')"
  shows "(r, mem_cmd held m' t k) = spec_claim mem_expired now h ow lease (mem_cmd held m t k) \<and>
    mem_inv cinv held m' \<and>
    (\<forall>k'. k' = k \<or> mem_cmd held m' t k' = mem_cmd held m t k' \<or> mem_cmd held m' t k' = Absent)"
proof -
  have lc: "ledger_cache ops held cinv limit" using assms(1) by (simp add: ledger_cache_def)
  show ?thesis by (rule ledger_cache.claim_refines [OF lc assms(2-5)])
qed

theorem memory_ledger_claim_refines_witness:
  "(Inr Claimed, mem_cmd map_of
      [(''k'', \<lparr>me_hash = ''h'', me_status = ''started'', me_owner = ''o'', me_seen = 7, me_result = None\<rparr>)] ''t'' ''k'') =
    spec_claim mem_expired 7 ''h'' ''o'' 30 (mem_cmd map_of [] ''t'' ''k'')"
  using memory_ledger_claim_refines [OF lru_list.lru_cache_axioms, of 3 "[]" "''k''" "''o''" 7 "''t''" "''h''" 30
      "Inr Claimed"
      "[(''k'', \<lparr>me_hash = ''h'', me_status = ''started'', me_owner = ''o'', me_seen = 7, me_result = None\<rparr>)]"]
  by (simp add: mem_inv_def lru_list_inv_def mem_claim_def lru_list_def)

end
