(* ===== verification/Routing_Ring.thy ===== *)
theory Routing_Ring
  imports Go_Text "HOL-Library.Word"
begin

text \<open>
  The consistent-hash ring of \<open>internal/task/routing.go\<close>, that routes a task to one control
  replica. A point is a 32 bit word, the IEEE CRC-32 of \<open>member#replica\<close>; \<open>Owner\<close> finds the first
  point at or after the hash of the task by binary search and wraps around. The checksum and
  \<open>sort.Search\<close> are the standard library's. What the ring promises: the owner is the member whose
  point is closest clockwise, and a member that joins or leaves only moves its own tasks.
\<close>

unbundle bit_operations_syntax

section \<open>The standard library\<close>

text \<open>\<open>crc32.ChecksumIEEE\<close>, the reflected polynomial bit by bit.\<close>

definition crc_bit :: "32 word \<Rightarrow> 32 word" where
  "crc_bit c = (if bit c 0 then drop_bit 1 c XOR 0xEDB88320 else drop_bit 1 c)"

definition crc_byte :: "32 word \<Rightarrow> char \<Rightarrow> 32 word" where
  "crc_byte c b = (crc_bit ^^ 8) (c XOR of_nat (of_char b))"

definition ChecksumIEEE :: "string \<Rightarrow> 32 word" where
  "ChecksumIEEE bs = NOT (foldl crc_byte (NOT 0) bs)"

text \<open>\<open>sort.Search\<close>: the least index from \<open>i\<close> to \<open>j\<close> where \<open>f\<close> holds, if \<open>f\<close> is monotone.\<close>

function search_from :: "(nat \<Rightarrow> bool) \<Rightarrow> nat \<Rightarrow> nat \<Rightarrow> nat" where
  "search_from f i j =
     (if i < j then
        (let h = (i + j) div 2 in if \<not> f h then search_from f (h + 1) j else search_from f i h)
      else i)"
  by pat_completeness auto
termination by (relation "measure (\<lambda>(f, i, j). j - i)") auto

declare search_from.simps [simp del]

definition sort_Search :: "nat \<Rightarrow> (nat \<Rightarrow> bool) \<Rightarrow> nat" where
  "sort_Search n f = search_from f 0 n"

definition rises :: "nat \<Rightarrow> (nat \<Rightarrow> bool) \<Rightarrow> bool" where
  "rises n f \<longleftrightarrow> (\<forall>a b. a \<le> b \<longrightarrow> b < n \<longrightarrow> f a \<longrightarrow> f b)"

lemma risesD: "rises n f \<Longrightarrow> a \<le> b \<Longrightarrow> b < n \<Longrightarrow> f a \<Longrightarrow> f b"
  unfolding rises_def by blast

definition splits_at :: "nat \<Rightarrow> (nat \<Rightarrow> bool) \<Rightarrow> nat \<Rightarrow> bool" where
  "splits_at n f k \<longleftrightarrow> k \<le> n \<and> (\<forall>a < k. \<not> f a) \<and> (\<forall>b. k \<le> b \<longrightarrow> b < n \<longrightarrow> f b)"

lemma search_from_least:
  assumes "i \<le> j" "rises n f" "j \<le> n"
    and "\<forall>a < i. \<not> f a" "\<forall>b. j \<le> b \<longrightarrow> b < n \<longrightarrow> f b"
  shows "splits_at n f (search_from f i j)"
  using assms
proof (induction f i j rule: search_from.induct)
  case (1 f i j)
  show ?case
  proof (cases "i < j")
    case True
    define h where "h = (i + j) div 2"
    have h: "i \<le> h" "h < j" using True by (auto simp: h_def)
    show ?thesis
    proof (cases "f h")
      case True
      have eq: "search_from f i j = search_from f i h"
        using True \<open>i < j\<close> by (simp add: search_from.simps [of f i j] Let_def h_def)
      have "\<forall>b. h \<le> b \<longrightarrow> b < n \<longrightarrow> f b" using risesD [OF 1(4)] True by blast
      then show ?thesis
        unfolding eq using 1(2) [OF \<open>i < j\<close> h_def] True h 1(4-7) by simp
    next
      case False
      have eq: "search_from f i j = search_from f (h + 1) j"
        using False \<open>i < j\<close> by (simp add: search_from.simps [of f i j] Let_def h_def)
      have "\<not> f a" if "a < h + 1" for a
        using risesD [OF 1(4), of a h] that False h 1(5) by linarith
      then show ?thesis
        unfolding eq using 1(1) [OF \<open>i < j\<close> h_def] False h 1(4-7) by simp
    qed
  next
    case False
    then have "search_from f i j = i" by (simp add: search_from.simps [of f i j])
    with 1(3-7) False show ?thesis by (simp add: splits_at_def)
  qed
qed

lemma sort_Search_least: "rises n f \<Longrightarrow> splits_at n f (sort_Search n f)"
  using search_from_least [of 0 n n f] by (simp add: sort_Search_def)

section \<open>The ring\<close>

record Ring =
  points :: "32 word list"
  owners :: "(32 word, string) gomap"
  replicas :: int

definition NewRing :: "int \<Rightarrow> Ring" where
  "NewRing n = \<lparr>points = [], owners = [], replicas = (if n < 1 then 64 else n)\<rparr>"

definition point :: "string \<Rightarrow> nat \<Rightarrow> 32 word" where
  "point member replica = ChecksumIEEE (member @ ''#'' @ itoa replica)"

definition member_points :: "nat \<Rightarrow> string \<Rightarrow> 32 word list" where
  "member_points n member = (if member = [] then [] else map (point member) [0..<n])"

definition add_member :: "nat \<Rightarrow> string \<Rightarrow> Ring \<Rightarrow> Ring" where
  "add_member n member r =
     r\<lparr>points := points r @ member_points n member,
       owners := fold (\<lambda>p. AList.update p member) (member_points n member) (owners r)\<rparr>"

definition SetMembers :: "Ring \<Rightarrow> string list \<Rightarrow> Ring" where
  "SetMembers r members =
     (let r' = fold (add_member (nat (replicas r))) members (r\<lparr>points := [], owners := []\<rparr>)
      in r'\<lparr>points := sort (points r')\<rparr>)"

definition owner_index :: "32 word list \<Rightarrow> 32 word \<Rightarrow> nat" where
  "owner_index ps hash =
     (let index = sort_Search (length ps) (\<lambda>i. hash \<le> ps ! i)
      in if index = length ps then 0 else index)"

definition Owner :: "Ring \<Rightarrow> string \<Rightarrow> string \<times> bool" where
  "Owner r taskID =
     (if points r = [] then ([], False)
      else (get_or [] (owners r) (points r ! owner_index (points r) (ChecksumIEEE taskID)), True))"


section \<open>The point a hash falls on\<close>

text \<open>The clockwise distance from the hash to a point, and the point that minimises it.\<close>

definition clockwise :: "32 word \<Rightarrow> 32 word \<Rightarrow> nat" where
  "clockwise hash p = unat (p - hash)"

definition successor_of :: "32 word set \<Rightarrow> 32 word \<Rightarrow> 32 word \<Rightarrow> bool" where
  "successor_of P hash p \<longleftrightarrow> p \<in> P \<and> (\<forall>q \<in> P. clockwise hash p \<le> clockwise hash q)"

lemma clockwise_inj: "clockwise hash p = clockwise hash q \<longleftrightarrow> p = q"
  unfolding clockwise_def by (metis diff_add_cancel word_unat_eq_iff)

lemma clockwise_after: "hash \<le> p \<Longrightarrow> clockwise hash p = unat p - unat hash"
  by (simp add: clockwise_def unat_sub)

lemma clockwise_before: "p < hash \<Longrightarrow> clockwise hash p = unat p + 2 ^ 32 - unat hash"
  unfolding clockwise_def
  using unat_sub_if_size [of p hash] by (simp add: word_less_nat_alt word_size)

lemma successor_unique: "successor_of P h p \<Longrightarrow> successor_of P h q \<Longrightarrow> p = q"
  by (metis antisym clockwise_inj successor_of_def)

lemma successor_subset:
  assumes "successor_of P h p" "p \<in> Q" "Q \<subseteq> P"
  shows "successor_of Q h p"
  using assms by (auto simp: successor_of_def)

lemma owner_index_successor:
  assumes "sorted ps" "ps \<noteq> []"
  shows "owner_index ps hash < length ps \<and> successor_of (set ps) hash (ps ! owner_index ps hash)"
proof -
  define n where "n = sort_Search (length ps) (\<lambda>i. hash \<le> ps ! i)"
  have "rises (length ps) (\<lambda>i. hash \<le> ps ! i)"
    using sorted_nth_mono [OF assms(1)] unfolding rises_def by (meson order_trans)
  from sort_Search_least [OF this]
  have le: "n \<le> length ps" and below: "\<And>a. a < n \<Longrightarrow> ps ! a < hash"
    and above: "\<And>b. n \<le> b \<Longrightarrow> b < length ps \<Longrightarrow> hash \<le> ps ! b"
    unfolding n_def [symmetric] splits_at_def by (simp_all add: not_le)
  define i where "i = owner_index ps hash"
  have i: "i = (if n = length ps then 0 else n)" by (simp add: i_def owner_index_def n_def Let_def)
  have il: "i < length ps" using le assms(2) i by auto
  have "clockwise hash (ps ! i) \<le> clockwise hash (ps ! j)" if j: "j < length ps" for j
  proof (cases "j < n")
    case True
    show ?thesis
    proof (cases "n = length ps")
      case True
      then have "ps ! i \<le> ps ! j" "ps ! i < hash" "ps ! j < hash"
        using j i il assms(1) below sorted_nth_mono [of ps 0 j] by auto
      then show ?thesis by (simp add: clockwise_before word_le_nat_alt)
    next
      case False
      then have "hash \<le> ps ! i" "ps ! j < hash" using i il above below True by auto
      then show ?thesis using unsigned_less [of "ps ! i", where ?'a = nat] by (simp add: clockwise_before clockwise_after)
    qed
  next
    case False
    then have "i \<le> j" "hash \<le> ps ! i" "hash \<le> ps ! j" using j i above by auto
    then show ?thesis
      using j assms(1) sorted_nth_mono [of ps i j] by (simp add: clockwise_after word_le_nat_alt)
  qed
  then show ?thesis
    using il by (auto simp: successor_of_def i_def [symmetric] in_set_conv_nth)
qed

section \<open>Owners\<close>

text \<open>The last member listed with a point owns it.\<close>

definition holder :: "nat \<Rightarrow> string list \<Rightarrow> 32 word \<Rightarrow> string option" where
  "holder n members p = find (\<lambda>m. p \<in> set (member_points n m)) (rev members)"

definition ring_points :: "nat \<Rightarrow> string list \<Rightarrow> 32 word set" where
  "ring_points n members = (\<Union>m \<in> set members. set (member_points n m))"

lemma map_of_fold_update:
  "map_of (fold (\<lambda>p. AList.update p v) ps m) k = (if k \<in> set ps then Some v else map_of m k)"
  by (induction ps arbitrary: m) auto

lemma replicas_fold [simp]: "replicas (fold (add_member n) ms r) = replicas r"
  by (induction ms arbitrary: r) (simp_all add: add_member_def)

lemma set_points_fold: "set (points (fold (add_member n) ms r)) = set (points r) \<union> ring_points n ms"
  by (induction ms arbitrary: r) (auto simp: add_member_def ring_points_def)

lemma owners_fold:
  "map_of (owners (fold (add_member n) ms r)) p =
     (case holder n ms p of None \<Rightarrow> map_of (owners r) p | Some m \<Rightarrow> Some m)"
  by (induction ms rule: rev_induct) (auto simp: holder_def add_member_def map_of_fold_update)

lemma holder_None: "holder n ms p = None \<longleftrightarrow> p \<notin> ring_points n ms"
  by (auto simp: holder_def ring_points_def find_None_iff)

lemma holder_Some: "holder n ms p = Some m \<Longrightarrow> m \<in> set ms \<and> p \<in> set (member_points n m)"
  unfolding holder_def by (drule find_SomeD) simp

lemma find_append: "find P (xs @ ys) = (case find P xs of None \<Rightarrow> find P ys | Some x \<Rightarrow> Some x)"
  by (induction xs) auto

lemma holder_insert:
  "holder n (xs @ m # ys) p = Some m \<or> holder n (xs @ m # ys) p = holder n (xs @ ys) p"
  by (auto simp: holder_def find_append split: option.splits)

lemma SetMembers_simps:
  "replicas (SetMembers r ms) = replicas r"
  "set (points (SetMembers r ms)) = ring_points (nat (replicas r)) ms"
  "sorted (points (SetMembers r ms))"
  "map_of (owners (SetMembers r ms)) p = holder (nat (replicas r)) ms p"
  by (simp_all add: SetMembers_def Let_def set_points_fold owners_fold split: option.splits)

lemma Owner_empty: "ring_points (nat (replicas r)) ms = {} \<Longrightarrow> Owner (SetMembers r ms) t = ([], False)"
  using SetMembers_simps(2) [of r ms] by (simp add: Owner_def)

lemma Owner_holder:
  assumes "successor_of (ring_points (nat (replicas r)) ms) (ChecksumIEEE t) p"
    and "holder (nat (replicas r)) ms p = Some m"
  shows "Owner (SetMembers r ms) t = (m, True)"
proof -
  define ps where "ps = points (SetMembers r ms)"
  have "ps \<noteq> []" using assms(1) SetMembers_simps(2) [of r ms] by (auto simp: successor_of_def ps_def)
  moreover have "sorted ps" using SetMembers_simps(3) by (simp add: ps_def)
  ultimately have "ps ! owner_index ps (ChecksumIEEE t) = p"
    using owner_index_successor successor_unique [OF _ assms(1)] SetMembers_simps(2) [of r ms]
    unfolding ps_def by metis
  then show ?thesis
    using \<open>ps \<noteq> []\<close> assms(2) unfolding ps_def by (simp add: Owner_def get_or_def SetMembers_simps)
qed

lemma successor_exists:
  assumes "ring_points n ms \<noteq> {}"
  obtains p m where "successor_of (ring_points n ms) h p" "holder n ms p = Some m"
proof -
  define p where "p = arg_min_on (clockwise h) (ring_points n ms)"
  have fin: "finite (ring_points n ms)" by (simp add: ring_points_def)
  have "successor_of (ring_points n ms) h p"
    using arg_min_least [OF fin assms] arg_min_if_finite(1) [OF fin assms, of "clockwise h"]
    unfolding successor_of_def p_def by blast
  moreover from this obtain m where "holder n ms p = Some m"
    using holder_None [of n ms p] by (auto simp: successor_of_def)
  ultimately show ?thesis by (rule that)
qed

text \<open>Adding a member anywhere in the list leaves a task where it was or gives it to that member.\<close>

lemma ring_points_insert: "ring_points n (xs @ m # ys) = ring_points n (xs @ ys) \<union> set (member_points n m)"
  by (auto simp: ring_points_def)

lemma Owner_insert:
  "Owner (SetMembers r (xs @ m # ys)) t \<in> {Owner (SetMembers r (xs @ ys)) t, (m, True)}"
proof (cases "ring_points (nat (replicas r)) (xs @ m # ys) = {}")
  case True
  then show ?thesis by (simp add: Owner_empty ring_points_insert)
next
  case False
  define n where "n = nat (replicas r)"
  obtain p o1 where p: "successor_of (ring_points n (xs @ m # ys)) (ChecksumIEEE t) p"
      "holder n (xs @ m # ys) p = Some o1"
    using successor_exists [OF False] unfolding n_def by blast
  then have o1: "Owner (SetMembers r (xs @ m # ys)) t = (o1, True)"
    unfolding n_def by (rule Owner_holder)
  show ?thesis
  proof (cases "o1 = m")
    case False
    with holder_insert [of n xs m ys p] p(2) have h: "holder n (xs @ ys) p = Some o1" by auto
    then have "p \<in> ring_points n (xs @ ys)" using holder_None [of n "xs @ ys" p] by auto
    with p(1) have "successor_of (ring_points n (xs @ ys)) (ChecksumIEEE t) p"
      by (rule successor_subset) (auto simp: ring_points_insert)
    with h have "Owner (SetMembers r (xs @ ys)) t = (o1, True)" unfolding n_def by (intro Owner_holder)
    with o1 show ?thesis by simp
  qed (use o1 in simp)
qed

section \<open>Properties\<close>

text \<open>\<open>Owner\<close> is total once the ring has a member: it names a member of the list, the one whose
  virtual node is closest clockwise to the hash of the task; with no member it names none.\<close>

theorem Owner_closest:
  "if \<forall>m \<in> set members. m = [] then Owner (SetMembers (NewRing k) members) t = ([], False)
   else \<exists>m i. Owner (SetMembers (NewRing k) members) t = (m, True) \<and> m \<in> set members \<and> m \<noteq> [] \<and>
     i < nat (replicas (NewRing k)) \<and>
     (\<forall>m' i'. m' \<in> set members \<and> m' \<noteq> [] \<and> i' < nat (replicas (NewRing k)) \<longrightarrow>
        clockwise (ChecksumIEEE t) (point m i) \<le> clockwise (ChecksumIEEE t) (point m' i'))"
proof -
  define n where "n = nat (replicas (NewRing k))"
  have n: "0 < n" by (auto simp: n_def NewRing_def)
  have mem: "p \<in> ring_points n members \<longleftrightarrow> (\<exists>m \<in> set members. m \<noteq> [] \<and> (\<exists>i < n. p = point m i))" for p
    unfolding ring_points_def member_points_def set_map by (auto split: if_splits) metis
  show ?thesis
  proof (cases "\<forall>m \<in> set members. m = []")
    case True
    then have "ring_points n members = {}" using mem by auto
    with True show ?thesis by (simp add: Owner_empty n_def)
  next
    case False
    then have "ring_points n members \<noteq> {}" using mem n by blast
    then obtain p m where p: "successor_of (ring_points n members) (ChecksumIEEE t) p" "holder n members p = Some m"
      by (rule successor_exists)
    then have "Owner (SetMembers (NewRing k) members) t = (m, True)" unfolding n_def by (rule Owner_holder)
    moreover obtain i where "m \<in> set members" "m \<noteq> []" "i < n" "p = point m i"
      using holder_Some [OF p(2)] by (auto simp: member_points_def split: if_splits)
    moreover have "clockwise (ChecksumIEEE t) p \<le> clockwise (ChecksumIEEE t) (point m' i')"
      if "m' \<in> set members" "m' \<noteq> []" "i' < n" for m' i'
      using p(1) that mem by (auto simp: successor_of_def)
    ultimately show ?thesis unfolding n_def [symmetric] by (subst if_not_P [OF False]) blast
  qed
qed

theorem Owner_closest_witness:
  "Owner (SetMembers (NewRing 1) [''a'', [], ''b'']) ''task_1'' \<in> {(''a'', True), (''b'', True)}"
  using Owner_closest [of "[''a'', [], ''b'']" 1 "''task_1''"] by auto

text \<open>A replica that joins or leaves only moves its own tasks: with \<open>m\<close> added anywhere in the list
  of members, every task keeps its owner or goes to \<open>m\<close>; read backwards, when \<open>m\<close> leaves only the
  tasks \<open>m\<close> owned move.\<close>

theorem Owner_stable:
  "Owner (SetMembers r (xs @ m # ys)) t = Owner (SetMembers r (xs @ ys)) t \<or>
   Owner (SetMembers r (xs @ m # ys)) t = (m, True)"
  using Owner_insert [of r xs m ys t] by simp

end
