(* ===== verification/Sop.thy ===== *)
theory Sop
  imports Go_Text
begin

text \<open>
  SOP definitions, \<open>internal/task/sop.go\<close>: the steps and their defaults, the checks of
  \<open>ValidateSOP\<close> in their order with their refusals, the cycle test (Kahn's algorithm, kept as the
  loop over a queue and a map of counters), and the comparison that makes registering a version
  again a no-op. The regular expressions are predicates on bytes. A string's length is its number
  of bytes.
\<close>

section \<open>Definitions\<close>

record SOPVerifier =
  vf_instructions :: string
  vf_expert :: string

record SOPArtifactSpec =
  art_name :: string
  art_media :: string
  art_min :: int

record SOPStep =
  step_id :: string
  subject :: string
  description :: string
  max_attempts :: int
  executor :: string
  verifier :: "SOPVerifier option"
  depends_on :: "string list option"     \<comment> \<open>\<open>None\<close> when the field is absent\<close>
  output_schema_ref :: string
  required_artifacts :: "SOPArtifactSpec list"
  human_approval :: string

record SOP =
  sop_id :: string
  sop_version :: int
  sop_ref :: string
  sop_name :: string
  sop_description :: string
  sop_steps :: "SOPStep list"
  sop_created :: time

definition DefaultStepAttempts :: int where "DefaultStepAttempts = 3"
definition maxSOPSteps :: nat where "maxSOPSteps = 50"
definition maxStepAttempts :: int where "maxStepAttempts = 20"
definition maxSOPText :: nat where "maxSOPText = 8000"
definition maxSOPSubject :: nat where "maxSOPSubject = 200"
definition maxSOPNameLen :: nat where "maxSOPNameLen = 200"

lemmas sop_limits = DefaultStepAttempts_def maxSOPSteps_def maxStepAttempts_def maxSOPText_def
  maxSOPSubject_def maxSOPNameLen_def

text \<open>The regular expressions.\<close>

definition alnum :: "char \<Rightarrow> bool" where
  "alnum c \<longleftrightarrow> byte_in 65 90 c \<or> byte_in 97 122 c \<or> byte_in 48 57 c"

definition id_char :: "char \<Rightarrow> bool" where
  "id_char c \<longleftrightarrow> alnum c \<or> c \<in> set ''_.-''"

definition sopStepID :: "string \<Rightarrow> bool" where
  "sopStepID s \<longleftrightarrow> s \<noteq> [] \<and> length s \<le> 64 \<and> alnum (hd s) \<and> list_all id_char (tl s)"

definition version_number :: "string \<Rightarrow> bool" where
  "version_number s \<longleftrightarrow> s \<noteq> [] \<and> byte_in 49 57 (hd s) \<and> list_all is_digit (tl s)"

definition sopVersionedID :: "string \<Rightarrow> bool" where
  "sopVersionedID s \<longleftrightarrow>
     (let (a, v, found) = cut_at (CHR ''@'') s
      in found \<and> a \<noteq> [] \<and> alnum (hd a) \<and> list_all id_char (tl a) \<and> version_number v)"

definition re_space :: "char \<Rightarrow> bool" where
  "re_space c \<longleftrightarrow> c \<in> {byte 9, byte 10, byte 12, byte 13, byte 32}"

text \<open>The version is what follows the last slash: it holds none itself.\<close>

definition sopSchemaRef :: "string \<Rightarrow> bool" where
  "sopSchemaRef s \<longleftrightarrow> has_prefix s ''schema://'' \<and>
     (let (v, a, found) = cut_at (CHR ''/'') (rev (drop (length ''schema://'') s))
      in found \<and> a \<noteq> [] \<and> list_all (\<lambda>c. \<not> re_space c) a \<and> version_number (rev v))"

definition dedupe :: "string list \<Rightarrow> string list" where
  "dedupe items = keep_first [] items"

definition default_id :: "nat \<Rightarrow> string" where
  "default_id index = ''s'' @ itoa (index + 1)"

definition default_depends :: "SOPStep list \<Rightarrow> nat \<Rightarrow> string list option \<Rightarrow> string list option" where
  "default_depends steps index deps =
     (case deps of
        None \<Rightarrow>
          (if 0 < index then
             Some [if step_id (steps ! (index - 1)) \<noteq> [] then step_id (steps ! (index - 1)) else default_id (index - 1)]
           else Some [])
      | Some ds \<Rightarrow> Some (dedupe ds))"

definition normalize_step :: "SOPStep list \<Rightarrow> nat \<Rightarrow> SOPStep \<Rightarrow> SOPStep" where
  "normalize_step steps index st =
     st\<lparr>subject := trim_space (subject st),
        step_id := (if step_id st = [] then default_id index else step_id st),
        description :=
          (if trim_space (description st) = [] then trim_space (subject st) else description st),
        max_attempts := (if max_attempts st = 0 then DefaultStepAttempts else max_attempts st),
        depends_on := default_depends steps index (depends_on st),
        required_artifacts :=
          map (\<lambda>a. if art_min a = 0 then a\<lparr>art_min := 1\<rparr> else a) (required_artifacts st)\<rparr>"

definition NormalizeSOPSteps :: "SOPStep list \<Rightarrow> SOPStep list" where
  "NormalizeSOPSteps steps = map (\<lambda>(i, st). normalize_step steps i st) (List.enumerate 0 steps)"

section \<open>The checks\<close>

definition validateSOPStep :: "nat \<Rightarrow> SOPStep \<Rightarrow> err option" where
  "validateSOPStep position st =
     (if subject st = [] \<or> length (subject st) > maxSOPSubject then
        Some (InvalidSOPError ''step %d needs a subject of at most %d characters'' [itoa position, itoa maxSOPSubject])
      else if length (description st) > maxSOPText then
        Some (InvalidSOPError ''step %s: the description is too long'' [step_id st])
      else if max_attempts st < 1 \<or> max_attempts st > maxStepAttempts then
        Some (InvalidSOPError ''step %s: max_attempts is from 1 to %d'' [step_id st, itoa_int maxStepAttempts])
      else if executor st \<noteq> [] \<and> \<not> sopVersionedID (executor st) then
        Some (InvalidSOPError ''step %s: executor %q is not a versioned profile ref (expert@3)'' [step_id st, executor st])
      else case (case verifier st of
          None \<Rightarrow> None
        | Some v \<Rightarrow>
            if length (vf_instructions v) > maxSOPText then
              Some (InvalidSOPError ''step %s: the verifier's instructions are too long'' [step_id st])
            else if vf_expert v \<noteq> [] \<and> \<not> sopVersionedID (vf_expert v) then
              Some (InvalidSOPError ''step %s: verifier expert %q is not a versioned profile ref (expert@3)''
                [step_id st, vf_expert v])
            else None) of
        Some e \<Rightarrow> Some e
      | None \<Rightarrow>
          if output_schema_ref st \<noteq> [] \<and> \<not> sopSchemaRef (output_schema_ref st) then
            Some (InvalidSOPError ''step %s: output_schema_ref must look like schema://name/1'' [step_id st])
          else if \<not> list_all (\<lambda>a. art_name a \<noteq> [] \<and> art_media a \<noteq> [] \<and> art_min a \<ge> 1) (required_artifacts st) then
            Some (InvalidSOPError
              ''step %s: a required artifact needs a name, a media type and a count of at least 1'' [step_id st])
          else if human_approval st \<noteq> [] \<and> human_approval st \<noteq> ''before'' \<and> human_approval st \<noteq> ''after'' then
            Some (InvalidSOPError ''step %s: human_approval is \"before\", \"after\" or left out'' [step_id st])
          else None)"

text \<open>The ids that were written: valid, and each used once; then the default ids, not taken.\<close>

fun check_written :: "string list \<Rightarrow> SOPStep list \<Rightarrow> err option" where
  "check_written written [] = None"
| "check_written written (st # steps) =
     (if step_id st = [] then check_written written steps
      else if \<not> sopStepID (step_id st) then Some (InvalidSOPError ''step id %q is not valid'' [step_id st])
      else if step_id st \<in> set written then
        Some (InvalidSOPError ''step ids must be unique: %q is used twice'' [step_id st])
      else check_written (step_id st # written) steps)"

definition written_ids :: "SOPStep list \<Rightarrow> string list" where
  "written_ids steps = filter (\<lambda>i. i \<noteq> []) (map step_id steps)"

definition check_default_id :: "string list \<Rightarrow> nat \<times> SOPStep \<Rightarrow> err option" where
  "check_default_id written = (\<lambda>(index, st).
     if step_id st = [] \<and> default_id index \<in> set written then
       Some (InvalidSOPError ''step %d has no id and its default id s%d is taken'' [itoa (index + 1), itoa (index + 1)])
     else None)"

fun check_unique :: "string list \<Rightarrow> SOPStep list \<Rightarrow> err option" where
  "check_unique seen [] = None"
| "check_unique seen (st # steps) =
     (if step_id st \<in> set seen then
        Some (InvalidSOPError ''step ids must be unique: %q is used twice'' [step_id st])
      else check_unique (step_id st # seen) steps)"

definition check_dependency :: "string list \<Rightarrow> SOPStep \<Rightarrow> string \<Rightarrow> err option" where
  "check_dependency ids st dependency =
     (if dependency = step_id st then Some (InvalidSOPError ''step %s depends on itself'' [step_id st])
      else if dependency \<notin> set ids then
        Some (InvalidSOPError ''step %s depends on unknown step %q'' [step_id st, dependency])
      else None)"

definition deps :: "SOPStep \<Rightarrow> string list" where
  "deps st = (case depends_on st of None \<Rightarrow> [] | Some ds \<Rightarrow> ds)"

definition check_step :: "string list \<Rightarrow> nat \<times> SOPStep \<Rightarrow> err option" where
  "check_step ids = (\<lambda>(index, st).
     case validateSOPStep (index + 1) st of
       Some e \<Rightarrow> Some e
     | None \<Rightarrow> first_error (check_dependency ids st) (deps st))"

section \<open>The cycle test\<close>

definition waiting_of :: "SOPStep list \<Rightarrow> (string, int) gomap" where
  "waiting_of steps = fold (\<lambda>st. AList.update (step_id st) (int (length (deps st)))) steps []"

definition dependents_of :: "SOPStep list \<Rightarrow> (string, string list) gomap" where
  "dependents_of steps =
     fold (\<lambda>st m. fold (\<lambda>d m. AList.update d (get_or [] m d @ [step_id st]) m) (deps st) m) steps []"

definition initially_ready :: "SOPStep list \<Rightarrow> string list" where
  "initially_ready steps = filter (\<lambda>i. get_or 0 (waiting_of steps) i = 0) (map step_id steps)"

text \<open>One dependent of the step that was taken: its counter goes down, and at zero it is ready.\<close>

definition release_dependent :: "string \<Rightarrow> string list \<times> (string, int) gomap \<Rightarrow> string list \<times> (string, int) gomap" where
  "release_dependent nxt = (\<lambda>(ready, waiting).
     (if get_or 0 waiting nxt - 1 = 0 then ready @ [nxt] else ready,
      AList.update nxt (get_or 0 waiting nxt - 1) waiting))"

text \<open>The loop ends: a step enters the queue only when its counter falls from one to zero.\<close>

definition positive_keys :: "(string, int) gomap \<Rightarrow> string set" where
  "positive_keys m = {k. 0 < get_or 0 m k}"

lemma finite_positive_keys: "finite (positive_keys m)"
proof (rule finite_subset)
  show "positive_keys m \<subseteq> fst ` set m"
    by (auto simp: positive_keys_def get_or_def split: option.splits dest!: map_of_SomeD intro: rev_image_eqI)
qed simp

lemma release_dependent_measure:
  "length (fst (release_dependent n rw)) + card (positive_keys (snd (release_dependent n rw)))
     \<le> length (fst rw) + card (positive_keys (snd rw))"
proof -
  obtain r w where rw: "rw = (r, w)" by force
  have eq: "positive_keys (AList.update n (get_or 0 w n - 1) w) =
    (if get_or 0 w n \<le> 1 then positive_keys w - {n} else positive_keys w)"
    by (auto simp: positive_keys_def split: if_splits)
  show ?thesis
  proof (cases "get_or 0 w n = 1")
    case True
    then have "n \<in> positive_keys w" by (simp add: positive_keys_def)
    then have "Suc (card (positive_keys w - {n})) = card (positive_keys w)"
      by (intro card_Suc_Diff1 finite_positive_keys)
    with True eq show ?thesis by (simp add: rw release_dependent_def)
  next
    case False
    with eq show ?thesis
      using card_mono [OF finite_positive_keys, of "positive_keys w - {n}" w]
      by (auto simp: rw release_dependent_def)
  qed
qed

lemma fold_release_measure:
  "length (fst (fold release_dependent ns rw)) + card (positive_keys (snd (fold release_dependent ns rw)))
     \<le> length (fst rw) + card (positive_keys (snd rw))"
proof (induction ns arbitrary: rw)
  case (Cons n ns)
  from Cons.IH [of "release_dependent n rw"] release_dependent_measure [of n rw] show ?case by simp
qed simp

function kahn :: "(string, string list) gomap \<Rightarrow> nat \<Rightarrow> string list \<Rightarrow> (string, int) gomap \<Rightarrow> nat" where
  "kahn dependents count [] waiting = count"
| "kahn dependents count (i # ready) waiting =
     (let (ready', waiting') = fold release_dependent (get_or [] dependents i) (ready, waiting)
      in kahn dependents (count + 1) ready' waiting')"
  by pat_completeness auto
termination
proof (relation "measure (\<lambda>(d, n, r, w). length r + card (positive_keys w))", goal_cases)
  case (2 dependents count i ready waiting x ready' waiting')
  then show ?case
    using fold_release_measure [of "get_or [] dependents i" "(ready, waiting)"]
    by (simp add: case_prod_beta)
qed simp

definition sopHasCycle :: "SOPStep list \<Rightarrow> bool" where
  "sopHasCycle steps \<longleftrightarrow>
     kahn (dependents_of steps) 0 (initially_ready steps) (waiting_of steps) \<noteq> length steps"

section \<open>ValidateSOP\<close>

definition ValidateSOP :: "SOP \<Rightarrow> SOP result" where
  "ValidateSOP sop =
     (if sop_steps sop = [] then Inl (InvalidSOPError ''an SOP needs at least one step'' [])
      else if length (sop_steps sop) > maxSOPSteps then
        Inl (InvalidSOPError ''an SOP has at most %d steps'' [itoa maxSOPSteps])
      else let name = trim_space (sop_name sop);
               sop' = sop\<lparr>sop_name := (if name = [] then sop_id sop else name)\<rparr>;
               steps = NormalizeSOPSteps (sop_steps sop)
      in if length (sop_name sop') > maxSOPNameLen \<or> length (sop_description sop') > maxSOPText then
        Inl (InvalidSOPError ''the name or the description is too long'' [])
      else case check_written [] (sop_steps sop) of Some e \<Rightarrow> Inl e | None \<Rightarrow>
        case first_error (check_default_id (written_ids (sop_steps sop))) (List.enumerate 0 (sop_steps sop)) of
          Some e \<Rightarrow> Inl e | None \<Rightarrow>
        case check_unique [] steps of Some e \<Rightarrow> Inl e | None \<Rightarrow>
        case first_error (check_step (map step_id steps)) (List.enumerate 0 steps) of Some e \<Rightarrow> Inl e | None \<Rightarrow>
        if sopHasCycle steps then Inl (InvalidSOPError ''the steps' dependencies contain a cycle'' [])
        else Inr (sop'\<lparr>sop_steps := steps\<rparr>))"

section \<open>The same definition\<close>

text \<open>
  \<open>json.Marshal\<close> replaces bytes that are not UTF-8, so two definitions marshal alike when their
  texts agree after that.
\<close>

definition json_text :: "string \<Rightarrow> string" where
  "json_text s = string_of_runes (runes s)"

definition json_step :: "SOPStep \<Rightarrow> SOPStep" where
  "json_step st =
     \<lparr>step_id = json_text (step_id st), subject = json_text (subject st),
      description = json_text (description st), max_attempts = max_attempts st,
      executor = json_text (executor st),
      verifier = map_option (\<lambda>v. \<lparr>vf_instructions = json_text (vf_instructions v),
        vf_expert = json_text (vf_expert v)\<rparr>) (verifier st),
      depends_on = map_option (map json_text) (depends_on st),
      output_schema_ref = json_text (output_schema_ref st),
      required_artifacts = map (\<lambda>a. \<lparr>art_name = json_text (art_name a), art_media = json_text (art_media a),
        art_min = art_min a\<rparr>) (required_artifacts st),
      human_approval = json_text (human_approval st)\<rparr>"

definition sopIdentity :: "SOP \<Rightarrow> string \<times> string \<times> SOPStep list" where
  "sopIdentity sop =
     (let name = trim_space (sop_name sop)
      in (if name = [] then sop_id sop else name, sop_description sop, NormalizeSOPSteps (sop_steps sop)))"

definition SameSOP :: "SOP \<Rightarrow> SOP \<Rightarrow> bool" where
  "SameSOP a b \<longleftrightarrow>
     (let marshal = map_prod json_text (map_prod json_text (map json_step))
      in marshal (sopIdentity a) = marshal (sopIdentity b))"

section \<open>Kahn's algorithm finds the cycles\<close>

text \<open>
  The shape the checks before it establish: ids are distinct, a step names each dependency once,
  and every dependency is a step.
\<close>

definition dep_rel :: "SOPStep list \<Rightarrow> (string \<times> string) set" where
  "dep_rel steps = {(d, step_id st) | d st. st \<in> set steps \<and> d \<in> set (deps st)}"

definition steps_wf :: "SOPStep list \<Rightarrow> bool" where
  "steps_wf steps \<longleftrightarrow> distinct (map step_id steps) \<and>
     (\<forall>st \<in> set steps. distinct (deps st) \<and> set (deps st) \<subseteq> set (map step_id steps))"

definition deps_of :: "SOPStep list \<Rightarrow> string \<Rightarrow> string list" where
  "deps_of steps i = (case find (\<lambda>st. step_id st = i) steps of None \<Rightarrow> [] | Some st \<Rightarrow> deps st)"

lemma deps_of_step: "distinct (map step_id steps) \<Longrightarrow> st \<in> set steps \<Longrightarrow> deps_of steps (step_id st) = deps st"
  by (induction steps) (auto simp: deps_of_def image_iff)

lemma waiting_fold:
  "distinct (map step_id steps) \<Longrightarrow> st \<in> set steps \<Longrightarrow>
    get_or 0 (fold (\<lambda>st. AList.update (step_id st) (int (length (deps st)))) steps m) (step_id st)
      = int (length (deps st))"
proof (induction steps arbitrary: m)
  case (Cons x steps)
  have other: "get_or 0 (fold (\<lambda>st. AList.update (step_id st) (int (length (deps st)))) steps m) k = get_or 0 m k"
    if "k \<notin> step_id ` set steps" for k m
    using that by (induction steps arbitrary: m) auto
  from Cons other show ?case by auto
qed simp

lemma dependents_inner:
  "get_or [] (fold (\<lambda>d m. AList.update d (get_or [] m d @ [x]) m) ds m) k =
     get_or [] m k @ replicate (count_list ds k) x"
  by (induction ds arbitrary: m) (auto simp: replicate_append_same)

lemma count_list_distinct: "distinct xs \<Longrightarrow> count_list xs k = (if k \<in> set xs then 1 else 0)"
  by (induction xs) auto

lemma dependents_of:
  assumes "\<forall>st \<in> set steps. distinct (deps st)"
  shows "get_or [] (dependents_of steps) k = map step_id (filter (\<lambda>st. k \<in> set (deps st)) steps)"
proof -
  have "get_or [] (fold (\<lambda>st m. fold (\<lambda>d m. AList.update d (get_or [] m d @ [step_id st]) m) (deps st) m) steps m) k
      = get_or [] m k @ map step_id (filter (\<lambda>st. k \<in> set (deps st)) steps)" for m
    using assms
    by (induction steps arbitrary: m) (simp_all add: dependents_inner count_list_distinct)
  from this [of "[]"] show ?thesis by (simp add: dependents_of_def)
qed

lemma fold_release:
  assumes "distinct ns"
  shows "fst (fold release_dependent ns (r, w)) = r @ filter (\<lambda>n. get_or 0 w n = 1) ns"
    and "get_or 0 (snd (fold release_dependent ns (r, w))) k = get_or 0 w k - (if k \<in> set ns then 1 else 0)"
  using assms
proof (induction ns arbitrary: r w)
  case (Cons n ns)
  { case 1
    have "filter (\<lambda>k. get_or 0 (AList.update n x w) k = 1) ns = filter (\<lambda>k. get_or 0 w k = 1) ns" for x
      using 1 by (intro filter_cong) auto
    with Cons 1 show ?case by (auto simp: release_dependent_def)
  next
    case 2
    with Cons show ?case by (auto simp: release_dependent_def)
  }
qed simp_all

text \<open>The loop invariant: \<open>done\<close> are the steps taken so far, in order.\<close>

definition kahn_inv :: "SOPStep list \<Rightarrow> string list \<Rightarrow> string list \<Rightarrow> (string, int) gomap \<Rightarrow> bool" where
  "kahn_inv steps taken ready waiting \<longleftrightarrow>
     distinct (taken @ ready) \<and>
     set (taken @ ready) = {i \<in> set (map step_id steps). get_or 0 waiting i = 0} \<and>
     (\<forall>i \<in> set (map step_id steps).
        get_or 0 waiting i = int (length (filter (\<lambda>d. d \<notin> set taken) (deps_of steps i)))) \<and>
     (\<forall>j < length taken. set (deps_of steps (taken ! j)) \<subseteq> set (take j taken))"

lemma kahn_inv_init:
  assumes "steps_wf steps"
  shows "kahn_inv steps [] (initially_ready steps) (waiting_of steps)"
proof -
  have "get_or 0 (waiting_of steps) (step_id st) = int (length (deps_of steps (step_id st)))" if "st \<in> set steps" for st
    using assms that by (simp add: steps_wf_def waiting_of_def waiting_fold deps_of_step)
  then show ?thesis
    using assms by (auto simp: kahn_inv_def initially_ready_def steps_wf_def distinct_map_filter distinct_filter)
qed

lemma filter_not_member:
  "distinct ds \<Longrightarrow> i \<notin> A \<Longrightarrow>
    int (length (filter (\<lambda>d. d \<noteq> i \<and> d \<notin> A) ds)) =
      int (length (filter (\<lambda>d. d \<notin> A) ds)) - (if i \<in> set ds then 1 else 0)"
  by (induction ds) auto

lemma kahn_inv_step:
  assumes wf: "steps_wf steps" and inv: "kahn_inv steps taken (i # ready) waiting"
    and nx: "fold release_dependent (get_or [] (dependents_of steps) i) (ready, waiting) = (ready', waiting')"
  shows "kahn_inv steps (taken @ [i]) ready' waiting'"
proof -
  define ids where "ids = set (map step_id steps)"
  define ns where "ns = get_or [] (dependents_of steps) i"
  have ns: "ns = map step_id (filter (\<lambda>st. i \<in> set (deps st)) steps)"
    unfolding ns_def using wf by (intro dependents_of) (auto simp: steps_wf_def)
  have dns: "distinct ns" using wf by (auto simp: ns steps_wf_def distinct_map_filter)
  have mem: "n \<in> set ns \<longleftrightarrow> n \<in> ids \<and> i \<in> set (deps_of steps n)" for n
    using wf by (auto simp: ns ids_def steps_wf_def deps_of_step)
  have r': "ready' = ready @ filter (\<lambda>n. get_or 0 waiting n = 1) ns"
    and w': "\<And>k. get_or 0 waiting' k = get_or 0 waiting k - (if k \<in> set ns then 1 else 0)"
    using fold_release [OF dns, of ready waiting] nx by (simp_all add: ns_def)
  have d: "distinct (deps_of steps n)" for n
    using wf by (auto simp: steps_wf_def deps_of_def split: option.splits dest!: find_SomeD)
  have I: "distinct (taken @ i # ready)" "set (taken @ i # ready) = {k \<in> ids. get_or 0 waiting k = 0}"
    "\<And>k. k \<in> ids \<Longrightarrow> get_or 0 waiting k = int (length (filter (\<lambda>d. d \<notin> set taken) (deps_of steps k)))"
    "\<And>j. j < length taken \<Longrightarrow> set (deps_of steps (taken ! j)) \<subseteq> set (take j taken)"
    using inv unfolding kahn_inv_def ids_def by blast+
  have i: "i \<in> ids" "get_or 0 waiting i = 0" "i \<notin> set taken" using I(1,2) by auto
  have cnt: "get_or 0 waiting' k = int (length (filter (\<lambda>d. d \<notin> set (taken @ [i])) (deps_of steps k)))"
    if "k \<in> ids" for k
    using that filter_not_member [OF d i(3), of k] I(3) [OF that] mem [of k] w' [of k] by simp
  have pos: "get_or 0 waiting n \<noteq> 0" if "n \<in> set ns" for n
    using that mem [of n] I(3) [of n] i(3) by (auto simp: filter_empty_conv)
  have dist: "distinct ((taken @ [i]) @ ready')"
    using I(1,2) dns by (auto simp: r')
  have sets: "set ((taken @ [i]) @ ready') = {k \<in> ids. get_or 0 waiting' k = 0}"
    using I(2) pos mem by (auto simp: r' w' split: if_splits)
  have topo: "set (deps_of steps ((taken @ [i]) ! j)) \<subseteq> set (take j (taken @ [i]))" if "j < length (taken @ [i])" for j
  proof (cases "j < length taken")
    case True
    then show ?thesis using I(4) [of j] by (simp add: nth_append)
  next
    case False
    then have "j = length taken" using that by simp
    moreover have "set (deps_of steps i) \<subseteq> set taken"
      using I(3) [OF i(1)] i(2) by (auto simp: filter_empty_conv)
    ultimately show ?thesis by simp
  qed
  show ?thesis
    using dist sets cnt topo unfolding kahn_inv_def ids_def by blast
qed

lemma kahn_run:
  assumes "steps_wf steps" and "kahn_inv steps taken ready waiting"
  shows "\<exists>taken' waiting'. kahn_inv steps taken' [] waiting' \<and>
    kahn (dependents_of steps) (length taken) ready waiting = length taken'"
  using assms(2)
proof (induction "dependents_of steps" "length taken" ready waiting arbitrary: taken rule: kahn.induct)
  case (1 waiting)
  then show ?case by auto
next
  case (2 i ready waiting)
  obtain r w where rw: "fold release_dependent (get_or [] (dependents_of steps) i) (ready, waiting) = (r, w)"
    by force
  with kahn_inv_step [OF assms(1) 2(2) rw] 2(1) [of "(r, w)" r w "taken @ [i]"] show ?case by simp
qed

lemma dep_rel_deps_of:
  assumes "distinct (map step_id steps)"
  shows "(d, i) \<in> dep_rel steps \<longleftrightarrow> i \<in> set (map step_id steps) \<and> d \<in> set (deps_of steps i)"
  using assms by (auto simp: dep_rel_def deps_of_step)

lemma finite_dep_rel: "finite (dep_rel steps)"
proof -
  have "dep_rel steps = (\<Union>st \<in> set steps. (\<lambda>d. (d, step_id st)) ` set (deps st))"
    by (auto simp: dep_rel_def)
  then show ?thesis by simp
qed

lemma acyclic_if_ordered:
  assumes "distinct xs" and "\<And>d i. (d, i) \<in> r \<Longrightarrow> \<exists>j < length xs. i = xs ! j \<and> d \<in> set (take j xs)"
  shows "acyclic r"
proof (rule acyclicI_order)
  define pos where "pos = inv_into {..<length xs} (nth xs)"
  have pos: "pos (xs ! j) = j" if "j < length xs" for j
    using that assms(1) by (auto simp: pos_def inj_on_nth intro: inv_into_f_f)
  show "- int (pos i) < - int (pos d)" if di: "(d, i) \<in> r" for d i
  proof -
    obtain j where j: "j < length xs" "i = xs ! j" "d \<in> set (take j xs)" using assms(2) [OF di] by blast
    then obtain k where "k < j" "d = xs ! k" by (auto simp: in_set_conv_nth)
    with j show ?thesis by (simp add: pos)
  qed
qed

lemma kahn_final_all:
  assumes wf: "steps_wf steps" and inv: "kahn_inv steps taken [] waiting" and ac: "acyclic (dep_rel steps)"
  shows "i \<in> set (map step_id steps) \<Longrightarrow> i \<in> set taken"
proof (induction i rule: wf_induct_rule [OF finite_acyclic_wf [OF finite_dep_rel ac]])
  case (1 i)
  have "d \<in> set taken" if "d \<in> set (deps_of steps i)" for d
  proof (rule 1(1))
    show r: "(d, i) \<in> dep_rel steps" using wf 1(2) that by (simp add: dep_rel_deps_of steps_wf_def)
    then show "d \<in> set (map step_id steps)" using wf by (auto simp: dep_rel_def steps_wf_def)
  qed
  then have "filter (\<lambda>d. d \<notin> set taken) (deps_of steps i) = []" by (simp add: filter_empty_conv)
  with inv 1(2) show ?case by (auto simp: kahn_inv_def)
qed

lemma sopHasCycle_iff:
  assumes wf: "steps_wf steps"
  shows "sopHasCycle steps \<longleftrightarrow> \<not> acyclic (dep_rel steps)"
proof -
  obtain taken waiting where inv: "kahn_inv steps taken [] waiting"
    and n: "kahn (dependents_of steps) 0 (initially_ready steps) (waiting_of steps) = length taken"
    using kahn_run [OF wf kahn_inv_init [OF wf]] by auto
  have d: "distinct taken" "set taken \<subseteq> set (map step_id steps)" using inv by (auto simp: kahn_inv_def)
  have ids: "distinct (map step_id steps)" using wf by (simp add: steps_wf_def)
  show ?thesis
  proof
    assume "sopHasCycle steps"
    then have "length taken \<noteq> length steps" using n by (simp add: sopHasCycle_def)
    then have "set taken \<noteq> set (map step_id steps)"
      using d(1) ids by (metis distinct_card length_map)
    then show "\<not> acyclic (dep_rel steps)" using kahn_final_all [OF wf inv] d(2) by blast
  next
    assume nac: "\<not> acyclic (dep_rel steps)"
    show "sopHasCycle steps"
    proof (rule ccontr)
      assume "\<not> sopHasCycle steps"
      then have "card (set taken) = card (set (map step_id steps))"
        using n d(1) ids by (simp add: sopHasCycle_def distinct_card del: set_map)
      then have "set taken = set (map step_id steps)" using d(2) by (intro card_subset_eq) auto
      then have "\<exists>j < length taken. i = taken ! j \<and> dd \<in> set (take j taken)" if "(dd, i) \<in> dep_rel steps" for dd i
      proof -
        have "i \<in> set taken" "dd \<in> set (deps_of steps i)"
          using that ids \<open>set taken = set (map step_id steps)\<close> by (auto simp: dep_rel_deps_of simp del: set_map)
        moreover have "\<forall>j < length taken. set (deps_of steps (taken ! j)) \<subseteq> set (take j taken)"
          using inv by (simp add: kahn_inv_def)
        ultimately show ?thesis unfolding in_set_conv_nth [of i] by blast
      qed
      with d(1) have "acyclic (dep_rel steps)" by (rule acyclic_if_ordered)
      with nac show False by simp
    qed
  qed
qed

section \<open>Normalizing and validating\<close>

lemma length_NormalizeSOPSteps [simp]: "length (NormalizeSOPSteps steps) = length steps"
  by (simp add: NormalizeSOPSteps_def)

lemma nth_NormalizeSOPSteps:
  "i < length steps \<Longrightarrow> NormalizeSOPSteps steps ! i = normalize_step steps i (steps ! i)"
  by (simp add: NormalizeSOPSteps_def nth_enumerate_eq)

lemma default_id_not_Nil [simp]: "default_id i \<noteq> []"
  by (simp add: default_id_def)

lemma depends_on_normalized: "depends_on (normalize_step steps i st) \<noteq> None"
  by (simp add: normalize_step_def default_depends_def split: option.splits)

lemma dedupe_idem [simp]: "dedupe (dedupe xs) = dedupe xs"
  by (simp add: dedupe_def keep_first_idem)

lemma dedupe_simps [simp]: "dedupe [] = []" "dedupe [x] = [x]" "distinct (dedupe xs)" "set (dedupe xs) = set xs"
  by (simp_all add: dedupe_def distinct_keep_first set_keep_first)

lemma normalize_step_idem: "normalize_step steps' i (normalize_step steps i st) = normalize_step steps i st"
proof -
  have "default_depends steps' i (default_depends steps i (depends_on st)) = default_depends steps i (depends_on st)"
    by (auto simp: default_depends_def split: option.splits)
  then show ?thesis by (auto simp: normalize_step_def trim_space_idem DefaultStepAttempts_def)
qed

lemma NormalizeSOPSteps_idem: "NormalizeSOPSteps (NormalizeSOPSteps steps) = NormalizeSOPSteps steps"
  by (rule nth_equalityI) (simp_all add: nth_NormalizeSOPSteps normalize_step_idem)

lemma normalize_step_simps [simp]:
  "step_id (normalize_step steps i st) = (if step_id st = [] then default_id i else step_id st)"
  "depends_on (normalize_step steps i st) = default_depends steps i (depends_on st)"
  by (simp_all add: normalize_step_def)

lemma normalized_step:
  assumes "st \<in> set (NormalizeSOPSteps steps)"
  shows "step_id st \<noteq> []" "distinct (deps st)"
proof -
  obtain i where "st = normalize_step steps i (steps ! i)"
    using assms by (auto simp: in_set_conv_nth nth_NormalizeSOPSteps)
  then show "step_id st \<noteq> []" "distinct (deps st)"
    by (auto simp: deps_def default_depends_def split: option.splits)
qed

lemma check_unique_None: "check_unique seen steps = None \<longleftrightarrow>
    distinct (map step_id steps) \<and> set (map step_id steps) \<inter> set seen = {}"
  by (induction steps arbitrary: seen) auto

lemma check_written_None: "check_written seen steps = None \<longleftrightarrow>
    distinct (written_ids steps) \<and> set (written_ids steps) \<inter> set seen = {} \<and>
    (\<forall>i \<in> set (written_ids steps). sopStepID i)"
  by (induction steps arbitrary: seen) (auto simp: written_ids_def)

text \<open>The limits of a step, as the documentation of the fields gives them.\<close>

definition fields_ok :: "SOPStep \<Rightarrow> bool" where
  "fields_ok st \<longleftrightarrow> length (subject st) \<in> {1..200} \<and> length (description st) \<le> 8000 \<and> max_attempts st \<in> {1..20} \<and>
     (executor st = [] \<or> sopVersionedID (executor st)) \<and>
     (\<forall>v. verifier st = Some v \<longrightarrow> length (vf_instructions v) \<le> 8000 \<and> (vf_expert v = [] \<or> sopVersionedID (vf_expert v))) \<and>
     (output_schema_ref st = [] \<or> sopSchemaRef (output_schema_ref st)) \<and>
     (\<forall>a \<in> set (required_artifacts st). art_name a \<noteq> [] \<and> art_media a \<noteq> [] \<and> 1 \<le> art_min a) \<and>
     human_approval st \<in> {[], ''before'', ''after''}"

lemma validateSOPStep_fields: "validateSOPStep i st = None \<longleftrightarrow> fields_ok st"
  by (auto simp: validateSOPStep_def fields_ok_def sop_limits list_all_iff Suc_le_eq split: option.splits)

lemma check_step_None: "check_step ids (i, st) = None \<longleftrightarrow>
    fields_ok st \<and> step_id st \<notin> set (deps st) \<and> set (deps st) \<subseteq> set ids"
  using validateSOPStep_fields [of "i + 1" st]
  by (auto simp: check_step_def check_dependency_def first_error_None_iff split: option.splits if_splits)

text \<open>What a registered definition is.\<close>

definition sop_ok :: "SOP \<Rightarrow> bool" where
  "sop_ok sop \<longleftrightarrow>
     sop_steps sop \<noteq> [] \<and> length (sop_steps sop) \<le> maxSOPSteps \<and>
     length (sop_name sop) \<le> maxSOPNameLen \<and> length (sop_description sop) \<le> maxSOPText \<and>
     steps_wf (sop_steps sop) \<and> acyclic (dep_rel (sop_steps sop)) \<and>
     NormalizeSOPSteps (sop_steps sop) = sop_steps sop \<and>
     (\<forall>st \<in> set (sop_steps sop). sopStepID (step_id st) \<and> fields_ok st)"

lemma first_error_enumerate:
  "first_error f (List.enumerate 0 xs) = None \<longleftrightarrow> (\<forall>i < length xs. f (i, xs ! i) = None)"
  by (auto simp: first_error_None_iff in_set_enumerate_eq enumerate_nth)

lemma digit_id_char: "is_digit c \<Longrightarrow> id_char c"
  by (simp add: is_digit_def id_char_def alnum_def)

lemma length_itoa: "n < 10 ^ k \<Longrightarrow> 0 < k \<Longrightarrow> length (itoa n) \<le> k"
proof (induction k arbitrary: n)
  case (Suc k)
  show ?case
  proof (cases "n < 10")
    case False
    then have "0 < k" using Suc.prems by (cases k) auto
    with Suc.IH [of "n div 10"] Suc.prems have "length (itoa (n div 10)) \<le> k" by (simp add: less_mult_imp_div_less mult.commute)
    then show ?thesis using False by (subst itoa.simps) simp
  qed (subst itoa.simps, simp)
qed simp

lemma sopStepID_default: "i < 99 \<Longrightarrow> sopStepID (default_id i)"
  using length_itoa [of "i + 1" 2] itoa_digits [of "i + 1"]
  by (auto simp: sopStepID_def default_id_def alnum_def byte_in_def list_all_iff digit_id_char)

lemma validated_ids:
  assumes "check_written [] steps = None" "length steps \<le> maxSOPSteps" "st \<in> set (NormalizeSOPSteps steps)"
  shows "sopStepID (step_id st)"
proof -
  obtain i where i: "i < length steps" "st = normalize_step steps i (steps ! i)"
    using assms(3) by (auto simp: in_set_conv_nth nth_NormalizeSOPSteps)
  show ?thesis
  proof (cases "step_id (steps ! i) = []")
    case True
    with i assms(2) show ?thesis by (simp add: normalize_step_def sopStepID_default maxSOPSteps_def)
  next
    case False
    with i assms(1) show ?thesis by (auto simp: normalize_step_def check_written_None written_ids_def)
  qed
qed

definition normal_sop :: "SOP \<Rightarrow> SOP" where
  "normal_sop sop =
     sop\<lparr>sop_name := (if trim_space (sop_name sop) = [] then sop_id sop else trim_space (sop_name sop)),
         sop_steps := NormalizeSOPSteps (sop_steps sop)\<rparr>"

lemma distinct_filter_rel:
  "list_all2 (\<lambda>x y. x = [] \<or> x = y) xs ys \<Longrightarrow> distinct ys \<Longrightarrow>
    distinct (filter (\<lambda>x. x \<noteq> []) xs) \<and> set (filter (\<lambda>x. x \<noteq> []) xs) \<subseteq> set ys"
  by (induction rule: list_all2_induct) auto

lemma written_normalized: "list_all2 (\<lambda>x y. x = [] \<or> x = y) (map step_id steps) (map step_id (NormalizeSOPSteps steps))"
  by (auto simp: list_all2_conv_all_nth nth_NormalizeSOPSteps)

lemma written_ids_normalized:
  assumes "distinct (map step_id (NormalizeSOPSteps steps))"
  shows "distinct (written_ids steps)" "set (written_ids steps) \<subseteq> set (map step_id (NormalizeSOPSteps steps))"
  using distinct_filter_rel [OF written_normalized assms] by (simp_all add: written_ids_def)

lemma default_ids_free:
  assumes d: "distinct (map step_id (NormalizeSOPSteps steps))"
  shows "first_error (check_default_id (written_ids steps)) (List.enumerate 0 steps) = None"
proof -
  have "check_default_id (written_ids steps) (i, steps ! i) = None" if i: "i < length steps" for i
  proof (rule ccontr)
    assume "check_default_id (written_ids steps) (i, steps ! i) \<noteq> None"
    then have e: "step_id (steps ! i) = []" and "default_id i \<in> set (written_ids steps)"
      by (auto simp: check_default_id_def split: if_splits)
    then obtain j where j: "j < length steps" "step_id (steps ! j) = default_id i"
      by (auto simp: written_ids_def in_set_conv_nth)
    with e have "j \<noteq> i" by auto
    moreover have "map step_id (NormalizeSOPSteps steps) ! i = map step_id (NormalizeSOPSteps steps) ! j"
      using i j e by (simp add: nth_NormalizeSOPSteps)
    ultimately show False using d i j(1) by (simp add: nth_eq_iff_index_eq del: nth_map)
  qed
  then show ?thesis by (simp add: first_error_enumerate)
qed

lemma check_steps_None:
  assumes "distinct (map step_id (NormalizeSOPSteps steps))"
  shows "first_error (check_step (map step_id (NormalizeSOPSteps steps))) (List.enumerate 0 (NormalizeSOPSteps steps)) = None \<longleftrightarrow>
    (\<forall>st \<in> set (NormalizeSOPSteps steps). fields_ok st \<and> step_id st \<notin> set (deps st)) \<and>
    steps_wf (NormalizeSOPSteps steps)"
  (is "?l \<longleftrightarrow> ?r")
proof -
  define ns where "ns = NormalizeSOPSteps steps"
  have "?l \<longleftrightarrow> (\<forall>i < length ns. check_step (map step_id ns) (i, ns ! i) = None)"
    by (simp add: ns_def first_error_enumerate)
  also have "\<dots> \<longleftrightarrow> (\<forall>i < length ns. fields_ok (ns ! i) \<and> step_id (ns ! i) \<notin> set (deps (ns ! i)) \<and>
      set (deps (ns ! i)) \<subseteq> set (map step_id ns))"
    unfolding check_step_None by (rule refl)
  also have "\<dots> \<longleftrightarrow> (\<forall>st \<in> set ns. fields_ok st \<and> step_id st \<notin> set (deps st) \<and>
      set (deps st) \<subseteq> set (map step_id ns))"
    by (simp add: all_set_conv_all_nth)
  also have "\<dots> \<longleftrightarrow> ?r"
    using assms normalized_step unfolding ns_def steps_wf_def by blast
  finally show ?thesis .
qed

lemma acyclic_no_self: "acyclic (dep_rel steps) \<Longrightarrow> st \<in> set steps \<Longrightarrow> step_id st \<notin> set (deps st)"
  unfolding acyclic_def dep_rel_def by blast

lemma ValidateSOP_eq:
  "ValidateSOP sop = Inr v \<longleftrightarrow> v = normal_sop sop \<and> sop_ok v"
proof -
  define ns where "ns = NormalizeSOPSteps (sop_steps sop)"
  have "(ValidateSOP sop = Inr v) \<longleftrightarrow>
    v = normal_sop sop \<and> sop_steps sop \<noteq> [] \<and> length (sop_steps sop) \<le> maxSOPSteps \<and>
    length (sop_name (normal_sop sop)) \<le> maxSOPNameLen \<and> length (sop_description sop) \<le> maxSOPText \<and>
    check_written [] (sop_steps sop) = None \<and>
    first_error (check_default_id (written_ids (sop_steps sop))) (List.enumerate 0 (sop_steps sop)) = None \<and>
    check_unique [] ns = None \<and>
    first_error (check_step (map step_id ns)) (List.enumerate 0 ns) = None \<and> \<not> sopHasCycle ns"
    by (auto simp: ValidateSOP_def normal_sop_def Let_def ns_def split: option.splits if_splits)
  also have "\<dots> \<longleftrightarrow> v = normal_sop sop \<and> sop_ok (normal_sop sop)" (is "?l \<longleftrightarrow> ?r")
  proof
    assume l: ?l
    then have d: "distinct (map step_id ns)" by (simp add: check_unique_None)
    with l have "steps_wf ns" "\<forall>st \<in> set ns. fields_ok st"
      using check_steps_None [of "sop_steps sop"] by (auto simp: ns_def)
    moreover from this l have "acyclic (dep_rel ns)" using sopHasCycle_iff by blast
    moreover have "\<forall>st \<in> set ns. sopStepID (step_id st)" using l validated_ids by (auto simp: ns_def)
    ultimately show ?r
      using l by (auto simp: sop_ok_def normal_sop_def ns_def NormalizeSOPSteps_idem) (metis length_0_conv length_NormalizeSOPSteps)+
  next
    assume r: ?r
    then have ok: "steps_wf ns" "acyclic (dep_rel ns)" "\<forall>st \<in> set ns. sopStepID (step_id st) \<and> fields_ok st"
      by (simp_all add: sop_ok_def normal_sop_def ns_def)
    then have d: "distinct (map step_id ns)" by (simp add: steps_wf_def)
    have "check_written [] (sop_steps sop) = None"
      using written_ids_normalized [of "sop_steps sop"] d ok(3) by (auto simp: check_written_None ns_def)
    moreover have "check_unique [] ns = None" using d by (simp add: check_unique_None)
    moreover have "first_error (check_step (map step_id ns)) (List.enumerate 0 ns) = None"
      using check_steps_None [of "sop_steps sop"] d ok acyclic_no_self by (auto simp: ns_def)
    ultimately show ?l
      using r ok default_ids_free [of "sop_steps sop"] d sopHasCycle_iff [OF ok(1)]
      by (auto simp: sop_ok_def normal_sop_def ns_def) (metis NormalizeSOPSteps_def enumerate_simps(1) list.simps(8))+
  qed
  finally show ?thesis by auto
qed

lemma marshal_cong: "sopIdentity a = sopIdentity b \<Longrightarrow> SameSOP a b"
  by (simp add: SameSOP_def)

lemma sopIdentity_normal:
  assumes "trim_space (sop_name sop) \<noteq> [] \<or> trim_space (sop_id sop) = sop_id sop"
  shows "sopIdentity (normal_sop sop) = sopIdentity sop"
  using assms by (auto simp: sopIdentity_def normal_sop_def NormalizeSOPSteps_idem trim_space_idem Let_def)

lemma normal_sop_idem:
  assumes "trim_space (sop_name sop) \<noteq> [] \<or> trim_space (sop_id sop) = sop_id sop"
  shows "normal_sop (normal_sop sop) = normal_sop sop"
  using assms by (auto simp: normal_sop_def NormalizeSOPSteps_idem trim_space_idem)

section \<open>Properties\<close>

text \<open>C11. \<open>ValidateSOP\<close> accepts a definition exactly when its normal form is well formed, and returns
  that normal form: 1 to 50 steps, valid and distinct ids, every dependency a step, no cycle among
  them, every field within its limits. So of its checks none is too strict and none is missing.\<close>

theorem ValidateSOP_exact:
  "ValidateSOP sop = Inr v \<longleftrightarrow> v = normal_sop sop \<and> sop_ok v"
  by (rule ValidateSOP_eq)

text \<open>The steps of an accepted definition can be run in some order in which every step comes
  after the steps it depends on.\<close>

theorem ValidateSOP_runnable:
  assumes "ValidateSOP sop = Inr v"
  shows "\<exists>order. distinct order \<and> set order = set (map step_id (sop_steps v)) \<and>
    (\<forall>j < length order. set (deps_of (sop_steps v) (order ! j)) \<subseteq> set (take j order))"
proof -
  have ok: "steps_wf (sop_steps v)" "acyclic (dep_rel (sop_steps v))"
    using assms by (auto simp: ValidateSOP_eq sop_ok_def)
  obtain taken waiting where inv: "kahn_inv (sop_steps v) taken [] waiting"
    using kahn_run [OF ok(1) kahn_inv_init [OF ok(1)]] by auto
  have "set taken = set (map step_id (sop_steps v))"
    using kahn_final_all [OF ok(1) inv ok(2)] inv by (auto simp: kahn_inv_def)
  with inv show ?thesis unfolding kahn_inv_def by auto
qed

definition plain_step :: "string \<Rightarrow> string \<Rightarrow> string list option \<Rightarrow> SOPStep" where
  "plain_step i subj ds = \<lparr>step_id = i, subject = subj, description = [], max_attempts = 0, executor = [],
     verifier = None, depends_on = ds, output_schema_ref = [], required_artifacts = [], human_approval = []\<rparr>"

definition sample_sop :: SOP where
  "sample_sop = \<lparr>sop_id = ''x'', sop_version = 1, sop_ref = [], sop_name = [], sop_description = [],
     sop_steps = [plain_step ''b'' ''B'' (Some [''s2'']), plain_step [] ''A'' (Some [])], sop_created = 0\<rparr>"

theorem ValidateSOP_runnable_witness:
  "\<exists>order. distinct order \<and> set order = {''b'', ''s2''}"
proof -
  have "case ValidateSOP sample_sop of Inl e \<Rightarrow> False | Inr v \<Rightarrow> map step_id (sop_steps v) = [''b'', ''s2'']"
    by code_simp
  then obtain v where "ValidateSOP sample_sop = Inr v" "map step_id (sop_steps v) = [''b'', ''s2'']"
    by (cases "ValidateSOP sample_sop") auto
  with ValidateSOP_runnable [of sample_sop v] show ?thesis by auto
qed

text \<open>C12. The cycle test is exact: on steps with distinct ids and known, deduplicated dependencies the
  queue loop reports a cycle exactly when the dependency relation has one.\<close>

theorem sopHasCycle_exact:
  assumes "steps_wf steps"
  shows "sopHasCycle steps \<longleftrightarrow> \<not> acyclic (dep_rel steps)"
  using assms by (rule sopHasCycle_iff)

definition sample_cycle :: "SOPStep list" where
  "sample_cycle = [plain_step ''a'' ''A'' (Some [''b'']), plain_step ''b'' ''B'' (Some [''c'']),
     plain_step ''c'' ''C'' (Some [''a'']), plain_step ''d'' ''D'' (Some [])]"

theorem sopHasCycle_exact_witness: "\<not> acyclic (dep_rel sample_cycle)"
proof -
  have "steps_wf sample_cycle" "sopHasCycle sample_cycle" by (code_simp, code_simp)
  then show ?thesis using sopHasCycle_exact [of sample_cycle] by simp
qed

text \<open>Validating what \<open>ValidateSOP\<close> returned returns it unchanged, and registering it is the same
  as registering the original, when the definition has a name or its id has no outer space.\<close>

theorem ValidateSOP_idempotent:
  assumes "ValidateSOP sop = Inr v"
    and "trim_space (sop_name sop) \<noteq> [] \<or> trim_space (sop_id sop) = sop_id sop"
  shows "ValidateSOP v = Inr v \<and> SameSOP v sop"
proof -
  have "v = normal_sop sop" "sop_ok v" using assms(1) by (auto simp: ValidateSOP_eq)
  then show ?thesis
    using normal_sop_idem [OF assms(2)] marshal_cong [OF sopIdentity_normal [OF assms(2)]]
    by (simp add: ValidateSOP_eq)
qed

theorem ValidateSOP_idempotent_witness:
  "\<exists>v. ValidateSOP sample_sop = Inr v \<and> ValidateSOP v = Inr v \<and> SameSOP v sample_sop"
proof -
  have "\<not> isl (ValidateSOP sample_sop)" "trim_space (sop_id sample_sop) = sop_id sample_sop" by (code_simp, code_simp)
  then obtain v where "ValidateSOP sample_sop = Inr v" by (cases "ValidateSOP sample_sop") auto
  with ValidateSOP_idempotent [of sample_sop v] \<open>trim_space _ = _\<close> show ?thesis by blast
qed

end
