(* ===== verification/Task_Policy.thy ===== *)
theory Task_Policy
  imports Go_Json
begin

text \<open>
  What limits a task: the policy layers of \<open>internal/task/policy.go\<close> and the permission specs of
  \<open>internal/task/permissions.go\<close>, with their form in the workflow's configuration and their
  resolution from a user's settings (\<open>internal/app/permissions.go\<close>). An optional field is an
  \<open>option\<close>; a nil list of denied tools is \<open>None\<close>.
\<close>

section \<open>Policies\<close>

record Policy =
  DeniedTools :: "string list option"
  ExplorationMaxToolCalls :: "int option"
  MaxConcurrency :: "int option"
  MaxReviewRounds :: "int option"

definition MaxReviewRoundsLimit :: int where "MaxReviewRoundsLimit = 20"
definition MaxConcurrencyLimit :: int where "MaxConcurrencyLimit = 64"

definition no_policy :: Policy where
  "no_policy = \<lparr>DeniedTools = None, ExplorationMaxToolCalls = None, MaxConcurrency = None, MaxReviewRounds = None\<rparr>"

definition denied :: "Policy \<Rightarrow> string list" where
  "denied p = (case DeniedTools p of None \<Rightarrow> [] | Some ts \<Rightarrow> ts)"

definition outside :: "int option \<Rightarrow> (int \<Rightarrow> bool) \<Rightarrow> bool" where
  "outside cap ok \<longleftrightarrow> (case cap of None \<Rightarrow> False | Some n \<Rightarrow> \<not> ok n)"

definition policy_validate :: "Policy \<Rightarrow> err option" where
  "policy_validate p =
     (if \<exists>name \<in> set (denied p). trim_space name = [] then
        Some (ErrText ''denied_tools must not contain an empty name'')
      else if outside (ExplorationMaxToolCalls p) (\<lambda>n. 0 \<le> n) then
        Some (ErrText ''exploration_max_tool_calls must not be negative'')
      else if outside (MaxConcurrency p) (\<lambda>n. 1 \<le> n \<and> n \<le> MaxConcurrencyLimit) then
        Some (ErrText (''max_concurrency must be between 1 and '' @ itoa_int MaxConcurrencyLimit))
      else if outside (MaxReviewRounds p) (\<lambda>n. 0 \<le> n \<and> n \<le> MaxReviewRoundsLimit) then
        Some (ErrText (''max_review_rounds must be between 0 and '' @ itoa_int MaxReviewRoundsLimit))
      else None)"

definition policy_normalized :: "Policy \<Rightarrow> Policy" where
  "policy_normalized p = (if DeniedTools p = None then p\<lparr>DeniedTools := Some []\<rparr> else p)"

fun smallest :: "int option \<Rightarrow> int option \<Rightarrow> int option" where
  "smallest None None = None"
| "smallest None (Some b) = Some b"
| "smallest (Some a) None = Some a"
| "smallest (Some a) (Some b) = (if a \<le> b then Some a else Some b)"

text \<open>The policy the workflow starts with: the task's own, with the tenant's two caps in it.\<close>

definition workflow_policy :: "Policy \<Rightarrow> Policy \<Rightarrow> Policy" where
  "workflow_policy task tenant =
     task\<lparr>MaxConcurrency := smallest (MaxConcurrency task) (MaxConcurrency tenant),
          MaxReviewRounds := smallest (MaxReviewRounds task) (MaxReviewRounds tenant)\<rparr>"

text \<open>What a cap allows.\<close>

definition allows :: "int option \<Rightarrow> int \<Rightarrow> bool" where
  "allows cap n \<longleftrightarrow> (case cap of None \<Rightarrow> True | Some c \<Rightarrow> n \<le> c)"

lemma allows_smallest: "allows (smallest a b) n \<longleftrightarrow> allows a n \<and> allows b n"
  by (cases a; cases b) (auto simp: allows_def)

lemma smallest_commute: "smallest a b = smallest b a"
  by (cases a; cases b) auto

lemma smallest_assoc: "smallest (smallest a b) c = smallest a (smallest b c)"
  by (cases a; cases b; cases c) auto

lemma smallest_self [simp]: "smallest a a = a"
  by (cases a) auto

lemma policy_validate_normalized [simp]: "policy_validate (policy_normalized p) = policy_validate p"
  by (simp add: policy_validate_def policy_normalized_def denied_def)

lemma smallest_inside: "\<not> outside a ok \<Longrightarrow> \<not> outside b ok \<Longrightarrow> \<not> outside (smallest a b) ok"
  by (cases a; cases b) (auto simp: outside_def)

section \<open>Permissions\<close>

definition PresetDefault :: string where "PresetDefault = ''default''"
definition PresetCustom :: string where "PresetCustom = ''custom''"
definition WriteScopeWorkspace :: string where "WriteScopeWorkspace = ''workspace''"

definition ValidPreset :: "string \<Rightarrow> bool" where
  "ValidPreset name \<longleftrightarrow> name \<in> {''default'', ''request'', ''auto'', ''full'', ''custom''}"

definition ValidWriteScope :: "string \<Rightarrow> bool" where
  "ValidWriteScope name \<longleftrightarrow> name = ''none'' \<or> name = ''workspace''"

record Permissions =
  Preset :: string
  WriteScope :: "string option"
  AutoEdits :: "bool option"
  AutoCommands :: "bool option"
  AutoBuiltin :: "bool option"

definition put_opt :: "string \<Rightarrow> ('a \<Rightarrow> goval) \<Rightarrow> 'a option \<Rightarrow> obj \<Rightarrow> obj" where
  "put_opt key wrap v m = (case v of None \<Rightarrow> m | Some x \<Rightarrow> AList.update key (wrap x) m)"

definition permissions_value :: "Permissions option \<Rightarrow> goval" where
  "permissions_value p =
     (case p of
        None \<Rightarrow> Null
      | Some p \<Rightarrow> Obj
          (put_opt ''auto_builtin'' BoolV (AutoBuiltin p)
          (put_opt ''auto_commands'' BoolV (AutoCommands p)
          (put_opt ''auto_edits'' BoolV (AutoEdits p)
          (put_opt ''write_scope'' Str (WriteScope p)
            [(''preset'', Str (Preset p))])))))"

definition permissionsFromWorkflow :: "goval \<Rightarrow> Permissions option" where
  "permissionsFromWorkflow raw =
     (case raw of
        Obj fs \<Rightarrow> Some
          \<lparr>Preset = str_or_empty fs ''preset'', WriteScope = str_field fs ''write_scope'',
           AutoEdits = bool_field fs ''auto_edits'', AutoCommands = bool_field fs ''auto_commands'',
           AutoBuiltin = bool_field fs ''auto_builtin''\<rparr>
      | _ \<Rightarrow> None)"

definition bare_preset :: "string \<Rightarrow> Permissions" where
  "bare_preset name = \<lparr>Preset = name, WriteScope = None, AutoEdits = None, AutoCommands = None, AutoBuiltin = None\<rparr>"

definition permissions_or_default :: "Permissions option \<Rightarrow> Permissions" where
  "permissions_or_default p =
     (case p of None \<Rightarrow> bare_preset PresetDefault
      | Some q \<Rightarrow> if Preset q = [] then bare_preset PresetDefault else q)"

record CustomPermissions =
  cp_write_scope :: string
  cp_auto_edits :: bool
  cp_auto_commands :: bool
  cp_auto_builtin :: bool

definition DefaultCustomPermissions :: CustomPermissions where
  "DefaultCustomPermissions =
     \<lparr>cp_write_scope = WriteScopeWorkspace, cp_auto_edits = True, cp_auto_commands = False, cp_auto_builtin = False\<rparr>"

record UserSettings =
  DefaultPreset :: string
  Custom :: CustomPermissions

definition DefaultUserSettings :: UserSettings where
  "DefaultUserSettings = \<lparr>DefaultPreset = PresetDefault, Custom = DefaultCustomPermissions\<rparr>"

section \<open>Resolution\<close>

definition validatePermissions :: "string \<Rightarrow> Permissions option \<Rightarrow> err option" where
  "validatePermissions field spec =
     (case spec of
        None \<Rightarrow> None
      | Some p \<Rightarrow>
          if \<not> ValidPreset (Preset p) then
            Some (FieldError ''PERMISSIONS_PRESET_INVALID'' (field @ ''.preset'')
              ''preset must be default, request, auto, full or custom'')
          else if (case WriteScope p of None \<Rightarrow> False | Some w \<Rightarrow> \<not> ValidWriteScope w) then
            Some (FieldError ''PERMISSIONS_WRITE_SCOPE_INVALID'' (field @ ''.write_scope'')
              ''write_scope must be none or workspace'')
          else None)"

definition stated :: "'a option \<Rightarrow> 'a \<Rightarrow> 'a option" where
  "stated requested d = (case requested of None \<Rightarrow> Some d | Some v \<Rightarrow> Some v)"

definition resolve_permissions :: "UserSettings \<Rightarrow> Permissions option \<Rightarrow> Permissions" where
  "resolve_permissions settings requested =
     (let preset = (case requested of None \<Rightarrow> DefaultPreset settings | Some r \<Rightarrow> Preset r) in
      if preset \<noteq> PresetCustom then bare_preset preset
      else let c = Custom settings; ask = (\<lambda>sel. case requested of None \<Rightarrow> None | Some r \<Rightarrow> sel r) in
        \<lparr>Preset = preset,
         WriteScope = stated (case requested of None \<Rightarrow> None | Some r \<Rightarrow> WriteScope r) (cp_write_scope c),
         AutoEdits = stated (ask AutoEdits) (cp_auto_edits c),
         AutoCommands = stated (ask AutoCommands) (cp_auto_commands c),
         AutoBuiltin = stated (ask AutoBuiltin) (cp_auto_builtin c)\<rparr>)"

text \<open>\<open>UserSettingsRequest\<close> and what it saves: a whole document, each missing field its default.\<close>

record CustomRequest =
  cr_write_scope :: string
  cr_auto_edits :: "bool option"
  cr_auto_commands :: "bool option"
  cr_auto_builtin :: "bool option"

record PermissionsRequest =
  pr_default_preset :: string
  pr_custom :: "CustomRequest option"

type_synonym UserSettingsRequest = "PermissionsRequest option"

definition or_else :: "'a option \<Rightarrow> 'a \<Rightarrow> 'a" where
  "or_else v d = (case v of None \<Rightarrow> d | Some x \<Rightarrow> x)"

definition settings_of_request :: "UserSettingsRequest \<Rightarrow> UserSettings result" where
  "settings_of_request req =
     (case req of None \<Rightarrow> Inr DefaultUserSettings
      | Some pr \<Rightarrow>
        if pr_default_preset pr \<noteq> [] \<and> \<not> ValidPreset (pr_default_preset pr) then
          Inl (FieldError ''PERMISSIONS_PRESET_INVALID'' ''permissions.default_preset''
            ''default_preset must be default, request, auto, full or custom'')
        else let settings = (if pr_default_preset pr = [] then DefaultUserSettings
                             else DefaultUserSettings\<lparr>DefaultPreset := pr_default_preset pr\<rparr>) in
          case pr_custom pr of
            None \<Rightarrow> Inr settings
          | Some c \<Rightarrow>
              if cr_write_scope c \<noteq> [] \<and> \<not> ValidWriteScope (cr_write_scope c) then
                Inl (FieldError ''PERMISSIONS_WRITE_SCOPE_INVALID'' ''permissions.custom.write_scope''
                  ''write_scope must be none or workspace'')
              else let d = Custom settings in
                Inr (settings\<lparr>Custom :=
                  \<lparr>cp_write_scope = (if cr_write_scope c = [] then cp_write_scope d else cr_write_scope c),
                   cp_auto_edits = or_else (cr_auto_edits c) (cp_auto_edits d),
                   cp_auto_commands = or_else (cr_auto_commands c) (cp_auto_commands d),
                   cp_auto_builtin = or_else (cr_auto_builtin c) (cp_auto_builtin d)\<rparr>\<rparr>))"

text \<open>What resolution promises: a spec the worker can act on without the user's settings.\<close>

definition settings_ok :: "UserSettings \<Rightarrow> bool" where
  "settings_ok s \<longleftrightarrow> ValidPreset (DefaultPreset s) \<and> ValidWriteScope (cp_write_scope (Custom s))"

definition self_contained :: "Permissions \<Rightarrow> bool" where
  "self_contained p \<longleftrightarrow> ValidPreset (Preset p) \<and>
     (if Preset p = PresetCustom
      then (\<exists>w. WriteScope p = Some w \<and> ValidWriteScope w) \<and> AutoEdits p \<noteq> None \<and>
           AutoCommands p \<noteq> None \<and> AutoBuiltin p \<noteq> None
      else p = bare_preset (Preset p))"

lemma settings_of_request_ok: "settings_of_request req = Inr s \<Longrightarrow> settings_ok s"
  by (auto simp: settings_of_request_def settings_ok_def DefaultUserSettings_def DefaultCustomPermissions_def
      PresetDefault_def WriteScopeWorkspace_def ValidPreset_def ValidWriteScope_def Let_def
      split: option.splits if_splits)

lemma resolve_self_contained:
  assumes "settings_ok s" and "validatePermissions field req = None"
  shows "self_contained (resolve_permissions s req)"
proof (cases req)
  case None
  with assms show ?thesis
    by (auto simp: resolve_permissions_def self_contained_def settings_ok_def bare_preset_def stated_def Let_def)
next
  case (Some r)
  with assms show ?thesis
    by (auto simp: resolve_permissions_def self_contained_def settings_ok_def bare_preset_def stated_def Let_def
        validatePermissions_def split: if_splits option.splits)
qed

section \<open>Round trips\<close>

lemma put_opt_map_of [simp]:
  "map_of (put_opt k wrap v m) k' = (if k' = k \<and> v \<noteq> None then Some (wrap (the v)) else map_of m k')"
  by (simp add: put_opt_def split: option.splits)

lemma put_opt_distinct [simp]: "distinct (map fst m) \<Longrightarrow> distinct (map fst (put_opt k wrap v m))"
  by (simp add: put_opt_def distinct_keys_update split: option.splits)

lemma permissions_roundtrip: "permissionsFromWorkflow (permissions_value p) = p"
proof (cases p)
  case (Some q)
  then show ?thesis
    by (cases q) (auto simp: permissions_value_def permissionsFromWorkflow_def field_defs split: option.splits)
qed (simp add: permissions_value_def permissionsFromWorkflow_def)

text \<open>Reading fields commutes with a trip through JSON.\<close>

lemma json_of_Str_iff [simp]: "json_of v = Str s \<longleftrightarrow> v = Str s"
  by (cases v) auto

lemma json_of_BoolV_iff [simp]: "json_of v = BoolV b \<longleftrightarrow> v = BoolV b"
  by (cases v) auto

lemma str_field_json [simp]: "distinct (map fst m) \<Longrightarrow> str_field (json_obj m) k = str_field m k"
  by (cases "map_of m k") (auto simp: str_field_def map_of_json_obj split: goval.splits)

lemma bool_field_json [simp]: "distinct (map fst m) \<Longrightarrow> bool_field (json_obj m) k = bool_field m k"
  by (cases "map_of m k") (auto simp: bool_field_def map_of_json_obj split: goval.splits)

lemma permissions_json_roundtrip: "permissionsFromWorkflow (json_of (permissions_value p)) = p"
proof -
  have "permissionsFromWorkflow (json_of (permissions_value p)) = permissionsFromWorkflow (permissions_value p)"
    by (simp add: permissions_value_def permissionsFromWorkflow_def json_of_Obj str_or_empty_def
        del: json_of.simps(4) split: option.splits)
  then show ?thesis by (simp add: permissions_roundtrip)
qed

section \<open>Properties\<close>

text \<open>Layers of a policy only tighten: what the workflow may do under the policy it is started
  with is allowed by the task's cap and by the tenant's, and nothing else is refused; and a valid
  pair of layers gives a valid policy.\<close>

theorem workflow_policy_tightens:
  "(allows (MaxConcurrency (workflow_policy task tenant)) n \<longleftrightarrow>
      allows (MaxConcurrency task) n \<and> allows (MaxConcurrency tenant) n) \<and>
   (allows (MaxReviewRounds (workflow_policy task tenant)) n \<longleftrightarrow>
      allows (MaxReviewRounds task) n \<and> allows (MaxReviewRounds tenant) n) \<and>
   (policy_validate task = None \<and> policy_validate tenant = None \<longrightarrow>
      policy_validate (workflow_policy task tenant) = None)"
  using smallest_inside
  by (auto simp: workflow_policy_def allows_smallest policy_validate_def denied_def split: if_splits)

theorem workflow_policy_tightens_witness:
  "policy_validate (workflow_policy (no_policy\<lparr>MaxConcurrency := Some 8\<rparr>)
     (no_policy\<lparr>MaxConcurrency := Some 3, MaxReviewRounds := Some 0\<rparr>)) = None"
  using workflow_policy_tightens [of "no_policy\<lparr>MaxConcurrency := Some 8\<rparr>"
      "no_policy\<lparr>MaxConcurrency := Some 3, MaxReviewRounds := Some 0\<rparr>" 0]
  by (simp add: no_policy_def policy_validate_def outside_def denied_def MaxConcurrencyLimit_def MaxReviewRoundsLimit_def)

text \<open>A permission spec survives the workflow: what is read back from the workflow's
  configuration, after its trip through JSON, is the spec that was sent, unset fields included.\<close>

theorem permissions_survive_workflow:
  "permissionsFromWorkflow (json_of (permissions_value p)) = p \<and>
   permissionsFromWorkflow (permissions_value p) = p"
  by (simp add: permissions_json_roundtrip permissions_roundtrip)

text \<open>A task is stored with a permission spec that needs no user settings: a preset, and with
  ``custom'' every rule stated; a rule the request states wins over the user's own.\<close>

theorem resolve_permissions_complete:
  assumes "settings_of_request saved = Inr settings" and "validatePermissions field requested = None"
  shows "self_contained (resolve_permissions settings requested) \<and>
    (\<forall>r b. requested = Some r \<and> Preset r = PresetCustom \<and> AutoCommands r = Some b \<longrightarrow>
      AutoCommands (resolve_permissions settings requested) = Some b)"
  using resolve_self_contained [OF settings_of_request_ok [OF assms(1)] assms(2)]
  by (auto simp: resolve_permissions_def stated_def Let_def)

theorem resolve_permissions_complete_witness:
  "self_contained (resolve_permissions DefaultUserSettings
     (Some (bare_preset ''custom''\<lparr>AutoCommands := Some True\<rparr>))) \<and>
   AutoCommands (resolve_permissions DefaultUserSettings
     (Some (bare_preset ''custom''\<lparr>AutoCommands := Some True\<rparr>))) = Some True"
  using resolve_permissions_complete [of None DefaultUserSettings "''permissions''"
      "Some (bare_preset ''custom''\<lparr>AutoCommands := Some True\<rparr>)"]
  by (auto simp: settings_of_request_def validatePermissions_def bare_preset_def ValidPreset_def PresetCustom_def)

end
