(* ===== verification/Task_Types.thy ===== *)
theory Task_Types
  imports Task_Policy
begin

text \<open>
  The types of \<open>internal/task/types.go\<close> and of the orchestrator client (\<open>internal/orch/client.go\<close>),
  with the pure functions on them. A sequence number is a \<open>uint64\<close>, kept as a number below
  $2^{64}$ with the wrap-around written out. Decoding JSON into a struct matches keys exactly.
\<close>

record Principal =
  TenantID :: string
  UserID :: string

record Task =
  t_id :: string
  t_tenant :: string
  t_workflow :: string
  t_title :: string
  t_goal :: string
  t_mode :: string
  t_status :: string
  t_profile :: string
  t_plan_version :: int
  t_created_by :: string
  t_created :: time
  t_updated :: time
  t_budgets :: obj
  t_usage :: obj
  t_pending :: "string list"
  t_policy :: Policy

record TaskReconcileDifference =
  diff_field :: string
  diff_expected :: goval
  diff_actual :: goval

record TaskReconcileReport =
  rep_task :: string
  rep_healthy :: bool
  rep_repaired :: bool
  rep_differences :: "TaskReconcileDifference list"

record ProfileFile =
  pf_path :: string
  pf_content :: string
  pf_sha256 :: string

record Profile =
  prof_id :: string
  prof_version :: int
  prof_ref :: string
  prof_spec :: obj
  prof_created :: time
  prof_files :: "ProfileFile list"

record ManifestOmitted =
  om_count :: int
  om_bytes :: int
  om_reasons :: "(string, int) gomap"

record ArtifactManifest =
  am_id :: string
  am_task :: string
  am_attempt :: string
  am_entries :: "obj list"
  am_omitted :: "ManifestOmitted option"
  am_hash :: string
  am_created :: time

record Event =
  ev_seq :: nat
  ev_after :: nat
  ev_id :: string
  ev_task :: string
  ev_tenant :: string
  ev_type :: string
  ev_source :: string
  ev_payload :: raw
  ev_occurred :: time
  ev_durable :: bool
  ev_kind :: string
  ev_entity_id :: string
  ev_version :: int
  ev_entity :: "obj option"

section \<open>Unsigned arithmetic\<close>

definition u64 :: "nat \<Rightarrow> nat" where
  "u64 n = n mod 2 ^ 64"

definition u64_sub :: "nat \<Rightarrow> nat \<Rightarrow> nat" where
  "u64_sub a b = (a + 2 ^ 64 - b) mod 2 ^ 64"

lemma u64_id [simp]: "n < 2 ^ 64 \<Longrightarrow> u64 n = n"
  by (simp add: u64_def)

lemma u64_bound [simp]: "u64 n < 2 ^ 64"
  by (simp add: u64_def)

section \<open>Integers of a JSON document\<close>

text \<open>A number field of an integer struct field: absent and null leave it, a fraction is an error.\<close>

definition in_int64 :: "int \<Rightarrow> bool" where
  "in_int64 n \<longleftrightarrow> - (2 ^ 63) \<le> n \<and> n < 2 ^ 63"

definition decode_int :: "int \<Rightarrow> goval option \<Rightarrow> int option" where
  "decode_int d v =
     (case v of
        None \<Rightarrow> Some d
      | Some Null \<Rightarrow> Some d
      | Some (Float r) \<Rightarrow> (if of_int \<lfloor>r\<rfloor> = r \<and> in_int64 \<lfloor>r\<rfloor> then Some \<lfloor>r\<rfloor> else None)
      | _ \<Rightarrow> None)"

definition decode_ints :: "goval option \<Rightarrow> (string, int) gomap option" where
  "decode_ints v =
     (case v of
        None \<Rightarrow> Some []
      | Some Null \<Rightarrow> Some []
      | Some (Obj kvs) \<Rightarrow>
          (if \<forall>kv \<in> set kvs. decode_int 0 (Some (snd kv)) \<noteq> None
           then Some (map (\<lambda>(k, x). (k, the (decode_int 0 (Some x)))) kvs) else None)
      | _ \<Rightarrow> None)"

definition decode_omitted :: "goval \<Rightarrow> ManifestOmitted option" where
  "decode_omitted v =
     (case json_of v of
        Null \<Rightarrow> Some \<lparr>om_count = 0, om_bytes = 0, om_reasons = []\<rparr>
      | Obj kvs \<Rightarrow>
          (case (decode_int 0 (map_of kvs ''count''), decode_int 0 (map_of kvs ''bytes''), decode_ints (map_of kvs ''reasons'')) of
             (Some c, Some b, Some r) \<Rightarrow> Some \<lparr>om_count = c, om_bytes = b, om_reasons = r\<rparr>
           | _ \<Rightarrow> None)
      | _ \<Rightarrow> None)"

definition is_omission :: "obj \<Rightarrow> bool" where
  "is_omission entry \<longleftrightarrow> \<not> has_key entry ''name'' \<and> has_key entry ''omitted''"

definition lift_entry :: "obj \<Rightarrow> ArtifactManifest \<Rightarrow> ArtifactManifest" where
  "lift_entry entry m =
     (if \<not> is_omission entry then m
      else case map_of entry ''omitted'' of
        None \<Rightarrow> m
      | Some raw \<Rightarrow> (case decode_omitted raw of
            None \<Rightarrow> m
          | Some om \<Rightarrow> if om_count om > 0 then m\<lparr>am_omitted := Some om\<rparr> else m))"

definition LiftOmitted :: "ArtifactManifest \<Rightarrow> ArtifactManifest" where
  "LiftOmitted m =
     fold lift_entry (am_entries m) m\<lparr>am_entries := filter (\<lambda>e. \<not> is_omission e) (am_entries m)\<rparr>"

lemma lift_entry_entries [simp]: "am_entries (lift_entry e m) = am_entries m"
  by (auto simp: lift_entry_def split: option.splits)

lemma fold_lift_entries [simp]: "am_entries (fold lift_entry es m) = am_entries m"
  by (induction es arbitrary: m) simp_all

lemma fold_lift_none: "\<forall>e \<in> set es. \<not> is_omission e \<Longrightarrow> fold lift_entry es m = m"
  by (induction es arbitrary: m) (simp_all add: lift_entry_def)

lemma LiftOmitted_entries: "am_entries (LiftOmitted m) = filter (\<lambda>e. \<not> is_omission e) (am_entries m)"
  by (simp add: LiftOmitted_def)

lemma LiftOmitted_idem: "LiftOmitted (LiftOmitted m) = LiftOmitted m"
  by (simp add: LiftOmitted_def fold_lift_none)

section \<open>The orchestrator client\<close>

record TaskView =
  v_task :: string
  v_status :: string
  v_plan_version :: int
  v_pending :: "string list"
  v_budgets :: obj
  v_usage :: obj
  v_reserved :: obj
  v_config :: obj

record TaskPlan =
  plan_version :: int
  plan_hash :: string
  plan_nodes :: "obj list"
  plan_edges :: "obj list"

record TaskWorkflowInput =
  wi_task :: string
  wi_tenant :: string
  wi_created_by :: obj
  wi_title :: string
  wi_goal :: string
  wi_mode :: string
  wi_profile :: string
  wi_sop :: string
  wi_registry :: int
  wi_budgets :: obj
  wi_policy :: Policy
  wi_config :: obj

definition TaskWorkflowID :: "string \<Rightarrow> string \<Rightarrow> string" where
  "TaskWorkflowID tenantID taskID = ''task/'' @ tenantID @ ''/'' @ taskID"

definition startedView :: "TaskWorkflowInput \<Rightarrow> TaskView" where
  "startedView inp =
     \<lparr>v_task = wi_task inp, v_status = ''RUNNING'', v_plan_version = 1, v_pending = [],
      v_budgets = wi_budgets inp, v_usage = [], v_reserved = [], v_config = wi_config inp\<rparr>"

definition start_input :: "TaskWorkflowInput \<Rightarrow> TaskWorkflowInput" where
  "start_input inp =
     inp\<lparr>wi_mode := (if wi_mode inp = [] then ''single'' else wi_mode inp),
         wi_registry := (if wi_registry inp = 0 then 1 else wi_registry inp)\<rparr>"

definition acceptedBody :: "string \<Rightarrow> obj \<Rightarrow> raw" where
  "acceptedBody updateID result =
     Some (Obj (json_obj (AList.update ''command_id'' (Str updateID) (AList.update ''accepted'' (BoolV True) result))))"

definition refusal_is :: "err \<Rightarrow> err \<Rightarrow> bool" where
  "refusal_is e target \<longleftrightarrow> e = target \<or>
     (case e of
        Refusal ty msg \<Rightarrow>
          target = ErrConfigConflict \<and> ty = ''CONFIG_VERSION_CONFLICT'' \<or> target = ErrTaskClosed \<and> ty = ''TASK_CLOSED''
      | _ \<Rightarrow> False)"

definition refusalStatuses :: "(string, int) gomap" where
  "refusalStatuses =
     [(''CONFIG_VERSION_CONFLICT'', 409), (''TASK_CLOSED'', 409), (''INVALID_TRANSITION'', 409),
      (''STALE_ATTEMPT'', 409), (''STALE'', 409), (''VERSION_CONFLICT'', 409), (''FROZEN_NODE'', 409),
      (''UNKNOWN_NODE'', 404), (''UNKNOWN_APPROVAL'', 404), (''NOT_FOUND'', 404),
      (''SCHEMA_INVALID'', 422), (''NOT_ALLOWED'', 422), (''POLICY_VIOLATION'', 422), (''POLICY_DENIED'', 422)]"

definition RefusalStatus :: "string \<Rightarrow> int" where
  "RefusalStatus refusalType = get_or 409 refusalStatuses refusalType"

section \<open>Small functions of the package\<close>

definition isClosed :: "string \<Rightarrow> bool" where
  "isClosed status \<longleftrightarrow> status = ''CANCELLED''"

definition mapOrchErr :: "err \<Rightarrow> err" where
  "mapOrchErr e = (if refusal_is e ErrTaskClosed then ErrClosed else e)"

definition slicesContains :: "string list \<Rightarrow> string \<Rightarrow> bool" where
  "slicesContains items wanted \<longleftrightarrow> wanted \<in> set items"

definition removeString :: "string list \<Rightarrow> string \<Rightarrow> string list" where
  "removeString items wanted = filter (\<lambda>item. item \<noteq> wanted) items"

text \<open>\<open>approvalSetEqual\<close> looks only from the second list into the first.\<close>

definition approvalSetEqual :: "string list \<Rightarrow> string list \<Rightarrow> bool" where
  "approvalSetEqual a b \<longleftrightarrow> length a = length b \<and> set b \<subseteq> set a"

definition add_number :: "string \<times> goval \<Rightarrow> obj \<Rightarrow> obj" where
  "add_number = (\<lambda>(key, value) out.
     case value of
       Null \<Rightarrow> out
     | Float n \<Rightarrow>
         (case map_of out key of
            Some (Float previous) \<Rightarrow> AList.update key (Float (previous + n)) out
          | _ \<Rightarrow> AList.update key (Float n) out)
     | _ \<Rightarrow> AList.update key value out)"

definition addNumbers :: "obj \<Rightarrow> obj \<Rightarrow> obj" where
  "addNumbers base delta = fold add_number delta (cloneMap base)"

definition cloneTask :: "Task \<Rightarrow> Task" where
  "cloneTask t =
     t\<lparr>t_budgets := cloneMap (t_budgets t), t_usage := cloneMap (t_usage t),
       t_policy := (t_policy t)\<lparr>DeniedTools := Some (denied (t_policy t))\<rparr>\<rparr>"

definition usageCounters :: "string list" where
  "usageCounters = [''tokens_in'', ''tokens_out'', ''tool_calls'', ''wall_s'']"

definition normalizeBudget :: "obj \<Rightarrow> obj" where
  "normalizeBudget budget = filter (\<lambda>kv. snd kv \<noteq> Null) budget"

definition normalizeUsage :: "obj \<Rightarrow> obj" where
  "normalizeUsage usage =
     fold (\<lambda>key out. if num_field out key = Some 0 then AList.delete key out else out)
       usageCounters (normalizeBudget usage)"

end
