(* ===== verification/Task_Config.thy ===== *)
theory Task_Config
  imports Task_Types
begin

text \<open>
  A task's configuration, \<open>internal/task/config.go\<close> and the pure part of \<open>mentions.go\<close>: what
  the caller sends, the map the workflow is given (\<open>workflowConfig\<close>) and what is read back, from
  the workflow (\<open>configFromWorkflow\<close>, after JSON) or from the local copy (\<open>localInput\<close>, before
  it). A nil list is \<open>None\<close>: nil keeps the expert's defaults and the empty list removes them.
  The text \<open>fmt.Sprint\<close> gives a value that is not a string is a parameter (\<open>sprint\<close>).
\<close>

record ConfigTeamMember =
  mem_role :: string
  mem_expert :: string
  mem_name :: string
  mem_description :: string
  mem_label :: string

record ConfigTeam =
  team_ref :: string
  team_leader :: string
  team_members :: "ConfigTeamMember list"

record ConfigInput =
  ci_expert :: string
  ci_skills :: "string list option"
  ci_model :: string
  ci_connectors :: "obj list option"
  ci_mode :: string
  ci_permissions :: "Permissions option"
  ci_team :: "ConfigTeam option"

record ConfigView =
  cv_version :: int
  cv_expert :: "string option"
  cv_skills :: "string list option"
  cv_connector_ids :: "string list option"
  cv_mode :: string
  cv_model :: string
  cv_team :: "ConfigTeam option"
  cv_team_ref :: string
  cv_permissions :: Permissions

record ConfigUpdateResult =
  cu_version :: int
  cu_effective :: string

definition put_text :: "string \<Rightarrow> string \<Rightarrow> obj \<Rightarrow> obj" where
  "put_text key v m = (if v \<noteq> [] then AList.update key (Str v) m else m)"

definition workflowMember :: "ConfigTeamMember \<Rightarrow> goval" where
  "workflowMember m =
     Obj (put_text ''label'' (mem_label m) (put_text ''description'' (mem_description m)
       [(''role'', Str (mem_role m)), (''expert'', Str (mem_expert m))]))"

definition workflowTeam :: "ConfigTeam option \<Rightarrow> goval" where
  "workflowTeam t =
     (case t of
        None \<Rightarrow> Null
      | Some t \<Rightarrow> Obj (put_text ''ref'' (team_ref t)
          [(''leader'', Str (team_leader t)), (''members'', Arr (map workflowMember (team_members t)))]))"

definition memberFromWorkflow :: "goval \<Rightarrow> ConfigTeamMember" where
  "memberFromWorkflow item =
     (let entry = as_obj item in
      \<lparr>mem_role = str_or_empty entry ''role'', mem_expert = str_or_empty entry ''expert'', mem_name = [],
       mem_description = str_or_empty entry ''description'', mem_label = str_or_empty entry ''label''\<rparr>)"

definition teamFromWorkflow :: "goval \<Rightarrow> ConfigTeam option" where
  "teamFromWorkflow raw =
     (case raw of
        Obj fs \<Rightarrow> Some
          \<lparr>team_ref = str_or_empty fs ''ref'', team_leader = str_or_empty fs ''leader'',
           team_members = (case arr_field fs ''members'' of None \<Rightarrow> [] | Some items \<Rightarrow> map memberFromWorkflow items)\<rparr>
      | _ \<Rightarrow> None)"

definition config_normalized :: "ConfigInput \<Rightarrow> ConfigInput result" where
  "config_normalized c =
     (let c' = (if ci_mode c = [] then c\<lparr>ci_mode := ''default''\<rparr> else c) in
      if ci_mode c' \<notin> {''default'', ''plan'', ''ask''} then Inl (ErrText ''mode must be default, plan or ask'')
      else Inr c')"

definition workflowConfig :: "ConfigInput \<Rightarrow> int \<Rightarrow> obj" where
  "workflowConfig c version =
     (let out = [(''config_version'', IntV version), (''mode'', Str (ci_mode c)), (''model'', Str (ci_model c)),
                 (''skills'', Null), (''connectors'', Null), (''expert'', Null), (''team'', workflowTeam (ci_team c))];
          out = put_text ''expert'' (ci_expert c) out;
          out = put_opt ''skills'' Strs (ci_skills c) out;
          out = put_opt ''connectors'' Objs (ci_connectors c) out
      in if ci_permissions c \<noteq> None
         then AList.update ''permissions'' (permissions_value (ci_permissions c)) out else out)"

definition nonempty :: "string \<Rightarrow> string option" where
  "nonempty s = (if s \<noteq> [] then Some s else None)"

definition config_view :: "ConfigInput \<Rightarrow> int \<Rightarrow> ConfigView" where
  "config_view c version =
     \<lparr>cv_version = version, cv_expert = nonempty (ci_expert c), cv_skills = ci_skills c,
      cv_connector_ids = map_option (map (\<lambda>s. str_or_empty s ''id'')) (ci_connectors c),
      cv_mode = ci_mode c, cv_model = ci_model c, cv_team = ci_team c,
      cv_team_ref = (case ci_team c of None \<Rightarrow> [] | Some t \<Rightarrow> team_ref t),
      cv_permissions = permissions_or_default (ci_permissions c)\<rparr>"

definition value_at :: "obj \<Rightarrow> string \<Rightarrow> goval" where
  "value_at m k = get_or Null m k"

definition sprint_item :: "(goval \<Rightarrow> string) \<Rightarrow> goval \<Rightarrow> string" where
  "sprint_item sprint v = (case v of Str s \<Rightarrow> s | _ \<Rightarrow> sprint v)"

definition configFromWorkflow :: "(goval \<Rightarrow> string) \<Rightarrow> obj \<Rightarrow> ConfigView" where
  "configFromWorkflow sprint raw =
     (let team = teamFromWorkflow (value_at raw ''team'') in
      \<lparr>cv_version = (case num_field raw ''config_version'' of Some v \<Rightarrow> go_int v | None \<Rightarrow> 1),
       cv_expert = nonempty (str_or_empty raw ''expert''),
       cv_skills = map_option (map (sprint_item sprint)) (arr_field raw ''skills''),
       cv_connector_ids =
         map_option (map (\<lambda>item. str_or_empty (as_obj item) ''id'')) (arr_field raw ''connectors''),
       cv_mode = (if str_or_empty raw ''mode'' \<noteq> [] then str_or_empty raw ''mode'' else ''default''),
       cv_model = str_or_empty raw ''model'',
       cv_team = team,
       cv_team_ref = (case team of None \<Rightarrow> [] | Some t \<Rightarrow> team_ref t),
       cv_permissions = permissions_or_default (permissionsFromWorkflow (value_at raw ''permissions''))\<rparr>)"

text \<open>The payload of \<open>updateTaskConfig\<close>, and the configuration the local copy takes from it.\<close>

definition configPayload :: "string \<Rightarrow> int \<Rightarrow> ConfigInput \<Rightarrow> obj" where
  "configPayload commandID base c =
     fold (\<lambda>(key, value) m. if key \<noteq> ''config_version'' then AList.update key value m else m)
       (workflowConfig c 0) [(''command_id'', Str commandID), (''base_config_version'', IntV base)]"

definition localInput :: "(goval \<Rightarrow> string) \<Rightarrow> obj \<Rightarrow> ConfigInput" where
  "localInput sprint payload =
     \<lparr>ci_expert = str_or_empty payload ''expert'', ci_skills = strs_field payload ''skills'',
      ci_model = str_or_empty payload ''model'', ci_connectors = objs_field payload ''connectors'',
      ci_mode = sprint_item sprint (value_at payload ''mode''),
      ci_permissions = permissionsFromWorkflow (value_at payload ''permissions''),
      ci_team = teamFromWorkflow (value_at payload ''team'')\<rparr>"

section \<open>Mentions\<close>

definition MaxMentions :: nat where "MaxMentions = 8"

definition mention_role :: "string \<Rightarrow> string" where
  "mention_role role = trim_prefix (trim_space role) ''@''"

definition NormalizeMentions :: "string list \<Rightarrow> string list" where
  "NormalizeMentions mentions = keep_first [] (map mention_role mentions)"

fun check_roles :: "string list \<Rightarrow> nat \<Rightarrow> string list \<Rightarrow> err option" where
  "check_roles roles i [] = None"
| "check_roles roles i (role # rest) =
     (if role \<notin> set roles then
        Some (MentionError ''UNKNOWN_MENTION'' (''mentions['' @ itoa i @ '']'') ''not a role of this task's team'')
      else check_roles roles (i + 1) rest)"

definition check_team_mentions :: "ConfigView \<Rightarrow> string list \<Rightarrow> err option" where
  "check_team_mentions view mentions =
     (case cv_team view of
        None \<Rightarrow> Some (MentionError ''MENTIONS_NOT_ALLOWED'' ''mentions'' ''this task has no team to mention'')
      | Some team \<Rightarrow> check_roles (map mem_role (team_members team)) 0 mentions)"

section \<open>What is sent is what is read\<close>

text \<open>Names of members are never sent; \<open>nameless\<close> is a team without them.\<close>

definition nameless :: "ConfigTeam \<Rightarrow> ConfigTeam" where
  "nameless t = t\<lparr>team_members := map (\<lambda>m. m\<lparr>mem_name := []\<rparr>) (team_members t)\<rparr>"

definition sendable :: "ConfigInput \<Rightarrow> ConfigInput" where
  "sendable c = c\<lparr>ci_team := map_option nameless (ci_team c)\<rparr>"

lemma put_text_map_of [simp]:
  "map_of (put_text k v m) k' = (if k' = k \<and> v \<noteq> [] then Some (Str v) else map_of m k')"
  by (simp add: put_text_def)

lemma put_text_distinct [simp]: "distinct (map fst m) \<Longrightarrow> distinct (map fst (put_text k v m))"
  by (simp add: put_text_def distinct_keys_update)

lemma member_roundtrip: "memberFromWorkflow (workflowMember m) = m\<lparr>mem_name := []\<rparr>"
  by (cases m) (auto simp: memberFromWorkflow_def workflowMember_def as_obj_def field_defs Let_def)

lemma team_roundtrip: "teamFromWorkflow (workflowTeam t) = map_option nameless t"
  by (cases t) (auto simp: workflowTeam_def teamFromWorkflow_def nameless_def field_defs member_roundtrip)

lemma str_or_empty_json [simp]: "distinct (map fst m) \<Longrightarrow> str_or_empty (json_obj m) k = str_or_empty m k"
  by (simp add: str_or_empty_def)

lemma arr_field_json: "distinct (map fst m) \<Longrightarrow> map_of m k = Some (Arr vs) \<Longrightarrow> arr_field (json_obj m) k = Some (map json_of vs)"
  by (simp add: arr_field_def map_of_json_obj)

lemma memberFromWorkflow_json: "memberFromWorkflow (json_of (workflowMember m)) = memberFromWorkflow (workflowMember m)"
  by (simp add: memberFromWorkflow_def workflowMember_def as_obj_def json_of_Obj Let_def del: json_of.simps(4))

lemma team_json_roundtrip: "teamFromWorkflow (json_of (workflowTeam t)) = map_option nameless t"
proof (cases t)
  case (Some u)
  define m where "m = put_text ''ref'' (team_ref u)
    [(''leader'', Str (team_leader u)), (''members'', Arr (map workflowMember (team_members u)))]"
  have "distinct (map fst m)" by (simp add: m_def)
  moreover have "map_of m ''members'' = Some (Arr (map workflowMember (team_members u)))" by (simp add: m_def)
  ultimately have "teamFromWorkflow (json_of (Obj m)) =
      Some \<lparr>team_ref = str_or_empty m ''ref'', team_leader = str_or_empty m ''leader'',
        team_members = map (memberFromWorkflow \<circ> json_of) (map workflowMember (team_members u))\<rparr>"
    using arr_field_json [of m] by (simp add: teamFromWorkflow_def json_of_Obj del: json_of.simps(4))
  then show ?thesis
    using Some by (cases u) (auto simp: workflowTeam_def m_def nameless_def comp_def memberFromWorkflow_json
        member_roundtrip str_or_empty_def str_field_def simp del: json_of.simps(4))
qed (simp add: workflowTeam_def teamFromWorkflow_def)

lemma workflowConfig_keys: "distinct (map fst (workflowConfig c v))"
  by (simp add: workflowConfig_def Let_def distinct_keys_update)

lemma workflowConfig_lookup:
  "map_of (workflowConfig c v) ''config_version'' = Some (IntV v)"
  "map_of (workflowConfig c v) ''mode'' = Some (Str (ci_mode c))"
  "map_of (workflowConfig c v) ''model'' = Some (Str (ci_model c))"
  "map_of (workflowConfig c v) ''skills'' = Some (case ci_skills c of None \<Rightarrow> Null | Some s \<Rightarrow> Strs s)"
  "map_of (workflowConfig c v) ''connectors'' = Some (case ci_connectors c of None \<Rightarrow> Null | Some s \<Rightarrow> Objs s)"
  "map_of (workflowConfig c v) ''expert'' = Some (if ci_expert c = [] then Null else Str (ci_expert c))"
  "map_of (workflowConfig c v) ''team'' = Some (workflowTeam (ci_team c))"
  "map_of (workflowConfig c v) ''permissions'' =
     (if ci_permissions c = None then None else Some (permissions_value (ci_permissions c)))"
  by (simp_all add: workflowConfig_def Let_def split: option.splits)

lemma value_at_json: "distinct (map fst m) \<Longrightarrow> value_at (json_obj m) k = json_of (value_at m k)"
  by (simp add: value_at_def get_or_def map_of_json_obj split: option.splits)

lemma config_roundtrip:
  assumes "ci_mode c \<noteq> []" and "\<forall>cs. ci_connectors c = Some cs \<longrightarrow> (\<forall>x \<in> set cs. distinct (map fst x))"
  shows "configFromWorkflow sprint (json_obj (workflowConfig c v)) = config_view (sendable c) v"
proof -
  note look = workflowConfig_lookup map_of_json_obj [OF workflowConfig_keys]
  have team: "teamFromWorkflow (value_at (json_obj (workflowConfig c v)) ''team'') = map_option nameless (ci_team c)"
    by (simp add: value_at_def get_or_def look team_json_roundtrip)
  have perms: "permissionsFromWorkflow (value_at (json_obj (workflowConfig c v)) ''permissions'') = ci_permissions c"
    by (cases "ci_permissions c")
      (simp_all add: value_at_def get_or_def look permissions_json_roundtrip, simp add: permissionsFromWorkflow_def)
  have ids: "str_or_empty (as_obj (Obj (json_obj x))) ''id'' = str_or_empty x ''id''" if "distinct (map fst x)" for x
    using that by (simp add: as_obj_def)
  have conn: "map_option (map (\<lambda>item. str_or_empty (as_obj item) ''id''))
      (arr_field (json_obj (workflowConfig c v)) ''connectors'') =
    map_option (map (\<lambda>s. str_or_empty s ''id'')) (ci_connectors c)"
    using assms(2) ids by (auto simp: arr_field_def look json_of_Objs simp del: json_of.simps(5) split: option.splits)
  have skills: "map_option (map (sprint_item sprint)) (arr_field (json_obj (workflowConfig c v)) ''skills'') = ci_skills c"
    by (auto simp: arr_field_def look sprint_item_def comp_def split: option.splits)
  show ?thesis
    using assms(1) unfolding configFromWorkflow_def config_view_def sendable_def team perms conn skills Let_def
    by (auto simp: look num_field_def str_or_empty_def str_field_def nonempty_def nameless_def split: option.splits)
qed

text \<open>The local copy, that keeps the configuration without an orchestrator, takes the same.\<close>

lemma configPayload_lookup:
  assumes "k \<notin> {''command_id'', ''base_config_version'', ''config_version''}"
  shows "map_of (configPayload i b c) k = map_of (workflowConfig c 0) k"
proof -
  have "map_of (fold (\<lambda>(key, value) m. if key \<noteq> ''config_version'' then AList.update key value m else m) kvs m) k =
      (case map_of kvs k of None \<Rightarrow> map_of m k | Some v \<Rightarrow> Some v)" if "distinct (map fst kvs)" for kvs m
    using that assms
  proof (induction kvs arbitrary: m)
    case (Cons x kvs)
    obtain a b where x: "x = (a, b)" by force
    have "map_of kvs a = None" using Cons.prems x by (simp add: map_of_eq_None_iff)
    with Cons x show ?case by (cases "k = a") (auto split: option.splits)
  qed simp
  from this [OF workflowConfig_keys] show ?thesis
    using assms by (auto simp: configPayload_def split: option.splits)
qed

lemma localInput_payload: "localInput sprint (configPayload i b c) = sendable c"
proof -
  have "teamFromWorkflow (workflowTeam (ci_team c)) = map_option nameless (ci_team c)" by (rule team_roundtrip)
  moreover have "permissionsFromWorkflow Null = None" by (simp add: permissionsFromWorkflow_def)
  ultimately show ?thesis
    by (cases c) (auto simp: localInput_def sendable_def configPayload_lookup workflowConfig_lookup
        value_at_def get_or_def field_defs sprint_item_def permissions_roundtrip split: option.splits)
qed

section \<open>Roles\<close>

lemma check_roles_None: "check_roles roles i rs = None \<longleftrightarrow> set rs \<subseteq> set roles"
  by (induction rs arbitrary: i) auto

lemma check_team_mentions_None:
  "check_team_mentions view rs = None \<longleftrightarrow>
     (\<exists>team. cv_team view = Some team \<and> set rs \<subseteq> mem_role ` set (team_members team))"
  by (auto simp: check_team_mentions_def check_roles_None split: option.splits)

section \<open>Properties\<close>

text \<open>C13. A configuration survives the workflow: what \<open>TaskConfig\<close> reads back after the configuration
  went out as a workflow map and came back as JSON is the view of what was sent (the members' names,
  which are looked up on reading, excepted). An unset list stays unset and an empty one empty.\<close>

theorem config_survives_workflow:
  assumes "ci_mode c \<noteq> []" and "\<forall>cs. ci_connectors c = Some cs \<longrightarrow> (\<forall>x \<in> set cs. distinct (map fst x))"
  shows "configFromWorkflow sprint (json_obj (workflowConfig c v)) = config_view (sendable c) v"
  using assms by (rule config_roundtrip)

definition sample_config :: ConfigInput where
  "sample_config = \<lparr>ci_expert = ''expert@3'', ci_skills = Some [], ci_model = [],
     ci_connectors = Some [[(''id'', Str ''mcp1''), (''url'', Str ''u'')]], ci_mode = ''plan'',
     ci_permissions = Some (bare_preset ''full''),
     ci_team = Some \<lparr>team_ref = ''team_x@3'', team_leader = ''lead'', team_members =
       [\<lparr>mem_role = ''lead'', mem_expert = ''e@1'', mem_name = [], mem_description = ''d'', mem_label = []\<rparr>]\<rparr>\<rparr>"

theorem config_survives_workflow_witness:
  "configFromWorkflow (\<lambda>_. []) (json_obj (workflowConfig sample_config 7)) = config_view sample_config 7 \<and>
   cv_connector_ids (config_view sample_config 7) = Some [''mcp1'']"
  using config_survives_workflow [of sample_config "\<lambda>_. []" 7]
  by (simp add: sample_config_def sendable_def nameless_def config_view_def str_or_empty_def str_field_def)

text \<open>The local copy agrees with the workflow: applying an update without an orchestrator and
  reading the local copy shows what sending it to the workflow and reading that back shows.\<close>

theorem config_local_agrees:
  assumes "ci_mode c \<noteq> []" and "\<forall>cs. ci_connectors c = Some cs \<longrightarrow> (\<forall>x \<in> set cs. distinct (map fst x))"
  shows "config_view (localInput sprint (configPayload commandID base c)) v =
    configFromWorkflow sprint (json_obj (workflowConfig c v))"
  by (simp add: localInput_payload config_roundtrip [OF assms])

theorem config_local_agrees_witness:
  "config_view (localInput (\<lambda>_. []) (configPayload ''c1'' 1 sample_config)) 2 =
     configFromWorkflow (\<lambda>_. []) (json_obj (workflowConfig sample_config 2))"
  using config_local_agrees [of sample_config "\<lambda>_. []" "''c1''" 1 2] by (simp add: sample_config_def)

text \<open>Mentions are checked against the team: normalizing leaves each role once, and the check
  passes exactly when the task has a team and every mention is a role of it.\<close>

theorem mentions_checked:
  "distinct (NormalizeMentions ms) \<and>
   (check_team_mentions view (NormalizeMentions ms) = None \<longleftrightarrow>
      (\<exists>team. cv_team view = Some team \<and> mention_role ` set ms \<subseteq> mem_role ` set (team_members team)))"
  by (simp add: check_team_mentions_None NormalizeMentions_def distinct_keep_first set_keep_first)

end
