(* ===== verification/Service_State.thy ===== *)
theory Service_State
  imports Task_Config Command_Ledger Lru_Cache Sop
begin

text \<open>
  The state of \<open>Service\<close> (\<open>internal/task/service.go\<close>), what it depends on, and reading a task.
  What is outside the process (the projection store, the command ledger, the workflows) is the
  \<open>world\<close>; the interfaces \<open>ProjectionStore\<close> (\<open>persistence.go\<close>) and \<open>TaskClient\<close> (\<open>types.go\<close>)
  are records of operations on it, \<open>None\<close> for the nil interface, and an optional interface that
  the store may not implement is an optional field. The SHA-256 of a command, the text of a value
  that is not a string and the parsing of a timestamp are parameters too. Each operation reads the
  clock once and takes what it draws at random (ids) as an argument. The service's two locks make
  an operation one step.
\<close>

record NodeStructure =
  ns_parent :: string
  ns_step :: raw

record 'w projection =
  pCreateTask :: "'w \<Rightarrow> Principal \<Rightarrow> Task \<Rightarrow> unit result \<times> 'w"
  pGetTask :: "'w \<Rightarrow> Principal \<Rightarrow> string \<Rightarrow> Task result"
  pListTasks :: "'w \<Rightarrow> Principal \<Rightarrow> Task list result"
  pUpdateTask :: "'w \<Rightarrow> Principal \<Rightarrow> Task \<Rightarrow> unit result \<times> 'w"
  pDeleteTask :: "'w \<Rightarrow> time \<Rightarrow> Principal \<Rightarrow> string \<Rightarrow> unit result \<times> 'w"
  pAppendTaskEvent :: "'w \<Rightarrow> Event \<Rightarrow> Event result \<times> 'w"
  pListTaskEvents :: "'w \<Rightarrow> Principal \<Rightarrow> string \<Rightarrow> nat \<Rightarrow> (Event list \<times> nat) result"
  pRegisterProfile :: "'w \<Rightarrow> time \<Rightarrow> Principal \<Rightarrow> Profile \<Rightarrow> Profile result \<times> 'w"
  pListProfiles :: "'w \<Rightarrow> Principal \<Rightarrow> Profile list result"
  pGetProfile :: "'w \<Rightarrow> Principal \<Rightarrow> string \<Rightarrow> Profile result"
  pGetTenantPolicy :: "'w \<Rightarrow> Principal \<Rightarrow> Policy result"
  pSetTenantPolicy :: "'w \<Rightarrow> Principal \<Rightarrow> Policy \<Rightarrow> Policy result \<times> 'w"
  pRegisterSOP :: "'w \<Rightarrow> time \<Rightarrow> Principal \<Rightarrow> SOP \<Rightarrow> SOP result \<times> 'w"
  pListSOPs :: "'w \<Rightarrow> Principal \<Rightarrow> SOP list result"
  pListManifests :: "'w \<Rightarrow> Principal \<Rightarrow> string \<Rightarrow> ArtifactManifest list result"
  pGetManifest :: "'w \<Rightarrow> Principal \<Rightarrow> string \<Rightarrow> ArtifactManifest result"
  pProfileFiles :: "('w \<Rightarrow> Principal \<Rightarrow> string \<Rightarrow> ProfileFile list result) option"
  pNodeStructure :: "('w \<Rightarrow> Principal \<Rightarrow> string \<Rightarrow> (string, NodeStructure) gomap result) option"
  pGetUserSettings :: "('w \<Rightarrow> Principal \<Rightarrow> (UserSettings \<times> bool) result) option"
  pSetUserSettings :: "('w \<Rightarrow> Principal \<Rightarrow> UserSettings \<Rightarrow> unit result \<times> 'w) option"

record 'w task_client =
  oStartTask :: "'w \<Rightarrow> TaskWorkflowInput \<Rightarrow> TaskView result \<times> 'w"
  oGetTaskView :: "'w \<Rightarrow> string \<Rightarrow> string \<Rightarrow> TaskView result"
  oGetTaskPlan :: "'w \<Rightarrow> string \<Rightarrow> string \<Rightarrow> TaskPlan result"
  oUpdateTask :: "'w \<Rightarrow> string \<Rightarrow> string \<Rightarrow> string \<Rightarrow> string \<Rightarrow> goval \<Rightarrow> raw result \<times> 'w"
  oSignalTask :: "'w \<Rightarrow> string \<Rightarrow> string \<Rightarrow> string \<Rightarrow> goval \<Rightarrow> unit result \<times> 'w"

type_synonym 'w signer = "'w \<Rightarrow> Principal \<Rightarrow> ArtifactManifest \<Rightarrow> obj \<Rightarrow> string result"

record ('c, 'w) deps =
  ledger :: "'w ledger_ops"
  projection :: "'w projection option"
  orch :: "'w task_client option"
  cache :: "('c, string, unit) lru_ops"
  artifactSigner :: "'w signer option"
  command_hash :: "string \<Rightarrow> goval \<Rightarrow> string"
  sprint :: "goval \<Rightarrow> string"
  parse_time :: "string \<Rightarrow> time option"

record localConfig =
  lc_version :: int
  lc_input :: ConfigInput

text \<open>A subscriber's channel: what it has not read yet, its room, and whether it was closed.\<close>

record subscriber =
  sub_queue :: "Event list"
  sub_cap :: nat

record 'c service =
  s_tasks :: "(string, Task) gomap"
  s_events :: "(string, Event list) gomap"
  s_subs :: "(string, (nat, subscriber) gomap) gomap"
  s_closed :: "nat list"
  s_next_sub :: nat
  s_nextSeq :: "(string, nat) gomap"
  s_seenEvents :: 'c
  s_entityVersion :: "(string, (string, int) gomap) gomap"
  s_profiles :: "(string, (string, Profile) gomap) gomap"
  s_configs :: "(string, localConfig) gomap"
  s_userSettings :: "(string, UserSettings) gomap"
  s_manifests :: "(string, ArtifactManifest) gomap"
  s_maxEvents :: nat

record ('c, 'w) sys =
  svc :: "'c service"
  world :: 'w
  background :: "(Principal \<times> string) list"   \<comment> \<open>goroutines that have not run yet\<close>

definition NewService :: "'c \<Rightarrow> 'c service" where
  "NewService empty_cache =
     \<lparr>s_tasks = [], s_events = [], s_subs = [], s_closed = [], s_next_sub = 0, s_nextSeq = [],
      s_seenEvents = empty_cache, s_entityVersion = [], s_profiles = [], s_configs = [],
      s_userSettings = [], s_manifests = [], s_maxEvents = 5000\<rparr>"

definition newID :: "string \<Rightarrow> string \<Rightarrow> string" where
  "newID pre uuid = pre @ ''_'' @ uuid"

definition errNeedsStore :: "string \<Rightarrow> err" where
  "errNeedsStore what = ErrText (what @ '' needs the durable task store'')"

definition cacheTask :: "Task \<Rightarrow> ('c, 'w) sys \<Rightarrow> ('c, 'w) sys" where
  "cacheTask t s = s\<lparr>svc := (svc s)\<lparr>s_tasks := AList.update (t_id t) (cloneTask t) (s_tasks (svc s))\<rparr>\<rparr>"

definition owns :: "Principal \<Rightarrow> Task \<Rightarrow> bool" where
  "owns p t \<longleftrightarrow> t_tenant t = TenantID p \<and> t_created_by t = UserID p"

definition svc_Get :: "('c, 'w) deps \<Rightarrow> ('c, 'w) sys \<Rightarrow> Principal \<Rightarrow> string \<Rightarrow> Task result \<times> ('c, 'w) sys" where
  "svc_Get d s p i =
     (case projection d of
        Some pr \<Rightarrow>
          (case pGetTask pr (world s) p i of
             Inl e \<Rightarrow> (Inl e, s)
           | Inr t \<Rightarrow> (Inr (cloneTask t), cacheTask t s))
      | None \<Rightarrow>
          (case map_of (s_tasks (svc s)) i of
             None \<Rightarrow> (Inl ErrNotFound, s)
           | Some t \<Rightarrow> if owns p t then (Inr (cloneTask t), s) else (Inl ErrNotFound, s)))"

definition svc_List :: "('c, 'w) deps \<Rightarrow> ('c, 'w) sys \<Rightarrow> Principal \<Rightarrow> Task list result \<times> ('c, 'w) sys" where
  "svc_List d s p =
     (case projection d of
        Some pr \<Rightarrow>
          (case pListTasks pr (world s) p of
             Inl e \<Rightarrow> (Inl e, s)
           | Inr items \<Rightarrow> (Inr items, fold cacheTask items s))
      | None \<Rightarrow> (Inr (map cloneTask (filter (owns p) (map snd (s_tasks (svc s))))), s))"

section \<open>Policies, settings and SOPs\<close>

definition svc_GetTenantPolicy :: "('c, 'w) deps \<Rightarrow> ('c, 'w) sys \<Rightarrow> Principal \<Rightarrow> Policy result" where
  "svc_GetTenantPolicy d s p =
     (case projection d of
        None \<Rightarrow> Inl (errNeedsStore ''the tenant policy'')
      | Some pr \<Rightarrow> pGetTenantPolicy pr (world s) p)"

definition svc_SetTenantPolicy :: "('c, 'w) deps \<Rightarrow> ('c, 'w) sys \<Rightarrow> Principal \<Rightarrow> Policy
    \<Rightarrow> Policy result \<times> ('c, 'w) sys" where
  "svc_SetTenantPolicy d s p policy =
     (if TenantID p = [] \<or> UserID p = [] then (Inl (ErrText ''tenant and user are required''), s)
      else case policy_validate policy of
        Some e \<Rightarrow> (Inl e, s)
      | None \<Rightarrow>
          (case projection d of
             None \<Rightarrow> (Inl (errNeedsStore ''the tenant policy''), s)
           | Some pr \<Rightarrow>
               (case pSetTenantPolicy pr (world s) p (policy_normalized policy) of
                  (r, w) \<Rightarrow> (r, s\<lparr>world := w\<rparr>))))"

definition settings_key :: "Principal \<Rightarrow> string" where
  "settings_key p = TenantID p @ [byte 0] @ UserID p"

definition projected :: "('w projection \<Rightarrow> 'f option) \<Rightarrow> ('c, 'w) deps \<Rightarrow> 'f option" where
  "projected field d = (case projection d of None \<Rightarrow> None | Some pr \<Rightarrow> field pr)"

definition svc_UserSettings :: "('c, 'w) deps \<Rightarrow> ('c, 'w) sys \<Rightarrow> Principal \<Rightarrow> UserSettings result" where
  "svc_UserSettings d s p =
     (case projected pGetUserSettings d of
        Some get \<Rightarrow>
          (case get (world s) p of
             Inl e \<Rightarrow> Inl e
           | Inr (settings, found) \<Rightarrow> Inr (if found then settings else DefaultUserSettings))
      | None \<Rightarrow> Inr (get_or DefaultUserSettings (s_userSettings (svc s)) (settings_key p)))"

definition svc_SetUserSettings :: "('c, 'w) deps \<Rightarrow> ('c, 'w) sys \<Rightarrow> Principal \<Rightarrow> UserSettings
    \<Rightarrow> unit result \<times> ('c, 'w) sys" where
  "svc_SetUserSettings d s p settings =
     (case projected pSetUserSettings d of
        Some put \<Rightarrow> (case put (world s) p settings of (r, w) \<Rightarrow> (r, s\<lparr>world := w\<rparr>))
      | None \<Rightarrow> (Inr (), s\<lparr>svc := (svc s)\<lparr>s_userSettings :=
          AList.update (settings_key p) settings (s_userSettings (svc s))\<rparr>\<rparr>))"

text \<open>\<open>App.ResolvePermissions\<close> and \<open>App.SaveUserSettings\<close> (\<open>internal/app/permissions.go\<close>).\<close>

definition ResolvePermissions :: "('c, 'w) deps \<Rightarrow> ('c, 'w) sys \<Rightarrow> Principal \<Rightarrow> Permissions option
    \<Rightarrow> Permissions result" where
  "ResolvePermissions d s p requested =
     (case validatePermissions ''permissions'' requested of
        Some e \<Rightarrow> Inl e
      | None \<Rightarrow> rbind (svc_UserSettings d s p) (\<lambda>settings. Inr (resolve_permissions settings requested)))"

definition SaveUserSettings :: "('c, 'w) deps \<Rightarrow> ('c, 'w) sys \<Rightarrow> Principal \<Rightarrow> UserSettingsRequest
    \<Rightarrow> UserSettings result \<times> ('c, 'w) sys" where
  "SaveUserSettings d s p req =
     (case settings_of_request req of
        Inl e \<Rightarrow> (Inl e, s)
      | Inr settings \<Rightarrow>
          (case svc_SetUserSettings d s p settings of
             (Inl e, s') \<Rightarrow> (Inl e, s')
           | (Inr _, s') \<Rightarrow> (Inr settings, s')))"

definition svc_RegisterSOP :: "('c, 'w) deps \<Rightarrow> ('c, 'w) sys \<Rightarrow> time \<Rightarrow> Principal \<Rightarrow> SOP
    \<Rightarrow> SOP result \<times> ('c, 'w) sys" where
  "svc_RegisterSOP d s now p sop =
     (if TenantID p = [] \<or> UserID p = [] \<or> sop_id sop = [] \<or> sop_version sop < 1 then
        (Inl (ErrText ''tenant, user, sop_id and positive version are required''), s)
      else case ValidateSOP sop of
        Inl e \<Rightarrow> (Inl e, s)
      | Inr sop' \<Rightarrow>
          (case projection d of
             None \<Rightarrow> (Inl (errNeedsStore ''the SOP registry''), s)
           | Some pr \<Rightarrow>
               (case pRegisterSOP pr (world s) now p
                       (sop'\<lparr>sop_ref := sop_id sop' @ ''@'' @ itoa_int (sop_version sop')\<rparr>) of
                  (r, w) \<Rightarrow> (r, s\<lparr>world := w\<rparr>))))"

definition svc_ListSOPs :: "('c, 'w) deps \<Rightarrow> ('c, 'w) sys \<Rightarrow> Principal \<Rightarrow> SOP list result" where
  "svc_ListSOPs d s p =
     (case projection d of
        None \<Rightarrow> Inl (errNeedsStore ''the SOP registry'')
      | Some pr \<Rightarrow> pListSOPs pr (world s) p)"

section \<open>A service in memory, for the witnesses\<close>

definition sample_deps :: "((string \<times> unit) list, unit) deps" where
  "sample_deps =
     \<lparr>ledger = \<lparr>ClaimCommand = \<lambda>w _ _ _ _ _ _. (Inr Claimed, w), CompleteCommand = \<lambda>w _ _ _ _ _. (Inr (), w),
                ReleaseCommand = \<lambda>w _ _ _ _. (Inr (), w)\<rparr>,
      projection = None, orch = None, cache = lru_list 10, artifactSigner = None,
      command_hash = (\<lambda>n _. n), sprint = (\<lambda>_. []), parse_time = (\<lambda>_. None)\<rparr>"

definition sample_task :: Task where
  "sample_task = \<lparr>t_id = ''task_1'', t_tenant = ''t'', t_workflow = ''task/t/task_1'', t_title = ''T'', t_goal = ''G'',
     t_mode = ''single'', t_status = ''RUNNING'', t_profile = ''default@1'', t_plan_version = 1, t_created_by = ''u'',
     t_created = 5, t_updated = 5, t_budgets = [], t_usage = [], t_pending = [], t_policy = no_policy\<rparr>"

definition sample_sys :: "((string \<times> unit) list, unit) sys" where
  "sample_sys = \<lparr>svc = (NewService [])\<lparr>s_tasks := [(''task_1'', sample_task)]\<rparr>, world = (), background = []\<rparr>"

end
