(* ===== verification/Service_Events.thy ===== *)
theory Service_Events
  imports Service_State "HOL-Library.Multiset"
begin

text \<open>
  The event stream of a task: \<open>internal/task/events.go\<close> and \<open>subscribers.go\<close>. \<open>AppendEvent\<close> is
  three steps, as in the code: \<open>admit\<close> (under the lock: duplicates, entity versions, the sequence
  number), the append to the durable store, and \<open>publish\<close> (the cached task, the buffer, the
  manifests, the subscribers). An error of the store between them leaves what \<open>admit\<close> did, except
  the mark that the event was seen.
\<close>

definition eventKey :: "string \<Rightarrow> string \<Rightarrow> string" where
  "eventKey taskID eventID = taskID @ [byte 0] @ eventID"

definition entityKey :: "Event \<Rightarrow> string" where
  "entityKey ev = ev_kind ev @ '':'' @ ev_entity_id ev"

definition version_of :: "'c service \<Rightarrow> string \<Rightarrow> string \<Rightarrow> int" where
  "version_of sv taskID key = get_or 0 (get_or [] (s_entityVersion sv) taskID) key"

definition seq_of :: "'c service \<Rightarrow> string \<Rightarrow> nat" where
  "seq_of sv taskID = get_or 0 (s_nextSeq sv) taskID"

section \<open>Admission\<close>

definition fill_tenant :: "'c service \<Rightarrow> Event \<Rightarrow> Event" where
  "fill_tenant sv ev =
     (if ev_tenant ev = [] then
        case map_of (s_tasks sv) (ev_task ev) of None \<Rightarrow> ev | Some t \<Rightarrow> ev\<lparr>ev_tenant := t_tenant t\<rparr>
      else ev)"

definition mark_seen :: "('c, 'w) deps \<Rightarrow> 'c service \<Rightarrow> Event \<Rightarrow> bool \<times> 'c service" where
  "mark_seen d sv ev =
     (if ev_id ev = [] then (False, sv)
      else let key = eventKey (ev_task ev) (ev_id ev) in
        case lru_get (cache d) (s_seenEvents sv) key of
          (Some _, c) \<Rightarrow> (True, sv\<lparr>s_seenEvents := c\<rparr>)
        | (None, c) \<Rightarrow> (False, sv\<lparr>s_seenEvents := lru_add (cache d) c key ()\<rparr>))"

definition has_entity :: "Event \<Rightarrow> bool" where
  "has_entity ev \<longleftrightarrow> ev_kind ev \<noteq> [] \<and> ev_entity_id ev \<noteq> []"

definition stale_entity :: "'c service \<Rightarrow> Event \<Rightarrow> bool" where
  "stale_entity sv ev \<longleftrightarrow> has_entity ev \<and> ev_version ev > 0 \<and>
     ev_version ev \<le> version_of sv (ev_task ev) (entityKey ev)"

definition advance_entity :: "'c service \<Rightarrow> Event \<Rightarrow> Event \<times> 'c service" where
  "advance_entity sv ev =
     (if has_entity ev then
        let current = version_of sv (ev_task ev) (entityKey ev);
            versions = get_or [] (s_entityVersion sv) (ev_task ev)
        in (ev\<lparr>ev_entity := Some [(''kind'', Str (ev_kind ev)), (''id'', Str (ev_entity_id ev)),
                                 (''version'', IntV (max (ev_version ev) current))]\<rparr>,
            if ev_version ev > 0 then
              sv\<lparr>s_entityVersion := AList.update (ev_task ev)
                   (AList.update (entityKey ev) (ev_version ev) versions) (s_entityVersion sv)\<rparr>
            else sv)
      else (ev, sv))"

definition number_event :: "'c service \<Rightarrow> Event \<Rightarrow> Event \<times> 'c service" where
  "number_event sv ev =
     (if ev_durable ev then
        let n = u64 (seq_of sv (ev_task ev) + 1)
        in (ev\<lparr>ev_seq := n\<rparr>, sv\<lparr>s_nextSeq := AList.update (ev_task ev) n (s_nextSeq sv)\<rparr>)
      else (ev\<lparr>ev_after := seq_of sv (ev_task ev)\<rparr>, sv))"

definition stamp_event :: "time \<Rightarrow> Event \<Rightarrow> Event" where
  "stamp_event now ev = (if ev_occurred ev = 0 then ev\<lparr>ev_occurred := now\<rparr> else ev)"

definition admit :: "('c, 'w) deps \<Rightarrow> 'c service \<Rightarrow> time \<Rightarrow> Event \<Rightarrow> Event option \<times> 'c service" where
  "admit d sv now ev0 =
     (let ev = fill_tenant sv ev0; (seen, sv1) = mark_seen d sv ev in
      if seen then (None, sv1)
      else if stale_entity sv1 ev then (None, sv1)
      else let (ev1, sv2) = advance_entity sv1 ev; (ev2, sv3) = number_event sv2 ev1
           in (Some (stamp_event now ev2), sv3))"

definition forgetEvent :: "('c, 'w) deps \<Rightarrow> 'c service \<Rightarrow> Event \<Rightarrow> 'c service" where
  "forgetEvent d sv ev =
     (if ev_id ev = [] then sv
      else sv\<lparr>s_seenEvents := lru_remove (cache d) (s_seenEvents sv) (eventKey (ev_task ev) (ev_id ev))\<rparr>)"

section \<open>The cached task\<close>

text \<open>\<open>json.Unmarshal\<close> into a \<open>map[string]any\<close>: an object, or null for the nil map.\<close>

definition as_map :: "raw \<Rightarrow> obj option" where
  "as_map r = (case r of Some Null \<Rightarrow> Some [] | Some (Obj kvs) \<Rightarrow> Some kvs | _ \<Rightarrow> None)"

definition apply_to_task :: "Event \<Rightarrow> obj \<Rightarrow> Task \<Rightarrow> Task" where
  "apply_to_task ev payload t =
     (if ev_type ev = ''task.status_changed'' then
        (case str_field payload ''to_status'' of None \<Rightarrow> t | Some status \<Rightarrow> t\<lparr>t_status := status\<rparr>)
      else if ev_type ev = ''task.completed'' then t\<lparr>t_status := ''COMPLETED''\<rparr>
      else if ev_type ev = ''plan.version_committed'' then
        (case num_field payload ''plan_version'' of None \<Rightarrow> t
         | Some v \<Rightarrow> if go_int v > t_plan_version t then t\<lparr>t_plan_version := go_int v\<rparr> else t)
      else if ev_type ev = ''approval.requested'' then
        (case str_field payload ''approval_id'' of None \<Rightarrow> t
         | Some a \<Rightarrow> if a \<noteq> [] \<and> \<not> slicesContains (t_pending t) a then t\<lparr>t_pending := t_pending t @ [a]\<rparr> else t)
      else if ev_type ev = ''approval.decided'' then
        (case str_field payload ''approval_id'' of None \<Rightarrow> t
         | Some a \<Rightarrow> t\<lparr>t_pending := removeString (t_pending t) a\<rparr>)
      else if ev_type ev = ''budget.granted'' then
        (case obj_field payload ''delta'' of None \<Rightarrow> t | Some m \<Rightarrow> t\<lparr>t_budgets := addNumbers (t_budgets t) m\<rparr>)
      else if ev_type ev = ''usage.recorded'' then
        (case obj_field payload ''usage'' of None \<Rightarrow> t | Some m \<Rightarrow> t\<lparr>t_usage := addNumbers (t_usage t) m\<rparr>)
      else t)"

definition apply_cached :: "Event \<Rightarrow> 'c service \<Rightarrow> 'c service" where
  "apply_cached ev sv =
     (case map_of (s_tasks sv) (ev_task ev) of
        None \<Rightarrow> sv
      | Some t \<Rightarrow>
          (case as_map (ev_payload ev) of
             None \<Rightarrow> sv
           | Some payload \<Rightarrow> sv\<lparr>s_tasks := AList.update (ev_task ev)
               ((apply_to_task ev payload t)\<lparr>t_updated := ev_occurred ev\<rparr>) (s_tasks sv)\<rparr>))"

section \<open>The buffer\<close>

definition fifteen_minutes :: time where
  "fifteen_minutes = 15 * 60 * 1000000000"

definition expired_live :: "time \<Rightarrow> Event \<Rightarrow> bool" where
  "expired_live now item \<longleftrightarrow> \<not> ev_durable item \<and> ev_occurred item < now - fifteen_minutes"

definition trim_buffer :: "nat \<Rightarrow> time \<Rightarrow> Event list \<Rightarrow> Event list" where
  "trim_buffer maxEvents now items =
     (let ephemeral = filter (\<lambda>item. \<not> expired_live now item) items in
      if length ephemeral > maxEvents then
        let keep = map ev_seq (drop (length ephemeral - maxEvents) ephemeral)
        in filter (\<lambda>item. ev_durable item \<or> ev_seq item \<in> set keep) items
      else items)"

section \<open>Manifests\<close>

definition decode_str :: "goval option \<Rightarrow> string option" where
  "decode_str v = (case v of None \<Rightarrow> Some [] | Some Null \<Rightarrow> Some [] | Some (Str s) \<Rightarrow> Some s | _ \<Rightarrow> None)"

definition decode_time :: "(string \<Rightarrow> time option) \<Rightarrow> goval option \<Rightarrow> time option" where
  "decode_time parse v =
     (case v of None \<Rightarrow> Some 0 | Some Null \<Rightarrow> Some 0 | Some (Str s) \<Rightarrow> parse s | _ \<Rightarrow> None)"

definition decode_entries :: "goval option \<Rightarrow> obj list option" where
  "decode_entries v =
     (case v of
        None \<Rightarrow> Some []
      | Some Null \<Rightarrow> Some []
      | Some (Arr items) \<Rightarrow>
          (if \<forall>item \<in> set items. as_map (Some item) \<noteq> None
           then Some (map (\<lambda>item. the (as_map (Some item))) items) else None)
      | _ \<Rightarrow> None)"

definition decode_omitted_field :: "goval option \<Rightarrow> ManifestOmitted option option" where
  "decode_omitted_field v =
     (case v of None \<Rightarrow> Some None | Some Null \<Rightarrow> Some None
      | Some x \<Rightarrow> (case decode_omitted x of None \<Rightarrow> None | Some om \<Rightarrow> Some (Some om)))"

definition decode_manifest :: "(string \<Rightarrow> time option) \<Rightarrow> raw \<Rightarrow> ArtifactManifest option" where
  "decode_manifest parse r =
     (case as_map r of
        None \<Rightarrow> None
      | Some m \<Rightarrow>
          (case (decode_str (map_of m ''manifest_id''), decode_str (map_of m ''task_id''),
                 decode_str (map_of m ''attempt_id''), decode_entries (map_of m ''entries''),
                 decode_omitted_field (map_of m ''omitted''), decode_str (map_of m ''manifest_hash''),
                 decode_time parse (map_of m ''created_at'')) of
             (Some i, Some t, Some a, Some es, Some om, Some h, Some c) \<Rightarrow> Some
               \<lparr>am_id = i, am_task = t, am_attempt = a, am_entries = es, am_omitted = om, am_hash = h, am_created = c\<rparr>
           | _ \<Rightarrow> None))"

definition record_manifest :: "('c, 'w) deps \<Rightarrow> Event \<Rightarrow> 'c service \<Rightarrow> 'c service" where
  "record_manifest d ev sv =
     (if ev_type ev = ''artifact.manifest_created'' then
        (case decode_manifest (parse_time d) (ev_payload ev) of
           None \<Rightarrow> sv
         | Some m \<Rightarrow>
             if am_id m = [] then sv
             else let m1 = LiftOmitted (m\<lparr>am_task := ev_task ev\<rparr>);
                      m2 = (if am_created m1 = 0 then m1\<lparr>am_created := ev_occurred ev\<rparr> else m1)
                  in sv\<lparr>s_manifests := AList.update (am_id m2) m2 (s_manifests sv)\<rparr>)
      else sv)"

section \<open>Publication\<close>

text \<open>A subscriber whose channel is full misses a live event.\<close>

definition offer :: "Event \<Rightarrow> subscriber \<Rightarrow> subscriber" where
  "offer ev sub = (if length (sub_queue sub) < sub_cap sub then sub\<lparr>sub_queue := sub_queue sub @ [ev]\<rparr> else sub)"

definition notify :: "Event \<Rightarrow> 'c service \<Rightarrow> 'c service" where
  "notify ev sv =
     (case map_of (s_subs sv) (ev_task ev) of
        None \<Rightarrow> sv
      | Some subs \<Rightarrow> sv\<lparr>s_subs := AList.update (ev_task ev) (map (\<lambda>(i, sub). (i, offer ev sub)) subs) (s_subs sv)\<rparr>)"

definition raise_seq :: "Event \<Rightarrow> 'c service \<Rightarrow> 'c service" where
  "raise_seq ev sv =
     (if ev_seq ev > seq_of sv (ev_task ev)
      then sv\<lparr>s_nextSeq := AList.update (ev_task ev) (ev_seq ev) (s_nextSeq sv)\<rparr> else sv)"

definition buffered :: "'c service \<Rightarrow> string \<Rightarrow> Event list" where
  "buffered sv taskID = get_or [] (s_events sv) taskID"

definition publish :: "('c, 'w) deps \<Rightarrow> time \<Rightarrow> Event \<Rightarrow> 'c service \<Rightarrow> 'c service" where
  "publish d now ev sv =
     (let sv1 = apply_cached ev (raise_seq ev sv);
          items = trim_buffer (s_maxEvents sv) now (buffered sv (ev_task ev) @ [ev]);
          sv2 = record_manifest d ev sv1
      in notify ev (sv2\<lparr>s_events := AList.update (ev_task ev) items (s_events sv2)\<rparr>))"

definition AppendEvent :: "('c, 'w) deps \<Rightarrow> ('c, 'w) sys \<Rightarrow> time \<Rightarrow> Event \<Rightarrow> unit result \<times> ('c, 'w) sys" where
  "AppendEvent d s now ev0 =
     (case admit d (svc s) now ev0 of
        (None, sv) \<Rightarrow> (Inr (), s\<lparr>svc := sv\<rparr>)
      | (Some ev, sv) \<Rightarrow>
          (case projection d of
             Some pr \<Rightarrow>
               if ev_durable ev then
                 (case pAppendTaskEvent pr (world s) ev of
                    (Inl e, w) \<Rightarrow> (Inl e, s\<lparr>svc := forgetEvent d sv ev, world := w\<rparr>)
                  | (Inr stored, w) \<Rightarrow>
                      let ev' = (if ev_seq stored > 0 then ev\<lparr>ev_seq := ev_seq stored\<rparr> else ev)
                      in (Inr (), s\<lparr>svc := publish d now ev' sv, world := w\<rparr>))
               else (Inr (), s\<lparr>svc := publish d now ev sv\<rparr>)
           | None \<Rightarrow> (Inr (), s\<lparr>svc := publish d now ev sv\<rparr>)))"

definition unix_nano :: "time \<Rightarrow> int" where
  "unix_nano now = now - 62135596800 * 1000000000"

definition event_of :: "string \<Rightarrow> string \<Rightarrow> string \<Rightarrow> goval \<Rightarrow> time \<Rightarrow> Event" where
  "event_of i ty source payload now =
     \<lparr>ev_seq = 0, ev_after = 0, ev_id = ''evt_'' @ i @ ''_'' @ itoa_int (unix_nano now), ev_task = i,
      ev_tenant = [], ev_type = ty, ev_source = source, ev_payload = Some (json_of payload), ev_occurred = now,
      ev_durable = True, ev_kind = [], ev_entity_id = [], ev_version = 0, ev_entity = None\<rparr>"

definition appendEvent :: "('c, 'w) deps \<Rightarrow> ('c, 'w) sys \<Rightarrow> time \<Rightarrow> string \<Rightarrow> string \<Rightarrow> string \<Rightarrow> goval
    \<Rightarrow> unit result \<times> ('c, 'w) sys" where
  "appendEvent d s now i ty source payload = AppendEvent d s now (event_of i ty source payload now)"

section \<open>Reading\<close>

definition position :: "Event \<Rightarrow> nat" where
  "position e = (if ev_durable e \<or> ev_seq e > 0 then u64 (ev_seq e * 2) else u64 (u64 (ev_after e * 2) + 1))"

definition withLiveEvents :: "Event list \<Rightarrow> Event list \<Rightarrow> nat \<Rightarrow> Event list" where
  "withLiveEvents durable buf after =
     sort_key position (durable @ filter (\<lambda>item. \<not> ev_durable item \<and> ev_after item \<ge> after) buf)"

definition last_durable :: "Event list \<Rightarrow> nat" where
  "last_durable items = (case filter ev_durable items of [] \<Rightarrow> 0 | ds \<Rightarrow> ev_seq (last ds))"

text \<open>The result is the events and the head; \<open>ErrCursor\<close> comes with the head to resume from.\<close>

definition EventsAfter :: "('c, 'w) deps \<Rightarrow> ('c, 'w) sys \<Rightarrow> Principal \<Rightarrow> string \<Rightarrow> nat
    \<Rightarrow> (Event list \<times> nat \<times> err option) \<times> ('c, 'w) sys" where
  "EventsAfter d s p i after =
     (case projection d of
        Some pr \<Rightarrow>
          (case svc_Get d s p i of
             (Inl e, s1) \<Rightarrow> (([], 0, Some e), s1)
           | (Inr _, s1) \<Rightarrow>
               (case pListTaskEvents pr (world s1) p i after of
                  Inl e \<Rightarrow> (([], 0, Some e), s1)
                | Inr (items, head) \<Rightarrow> ((withLiveEvents items (buffered (svc s1) i) after, head, None), s1)))
      | None \<Rightarrow>
          (case map_of (s_tasks (svc s)) i of
             None \<Rightarrow> (([], 0, Some ErrNotFound), s)
           | Some t \<Rightarrow>
               if \<not> owns p t then (([], 0, Some ErrNotFound), s)
               else let items = buffered (svc s) i in
                 if items \<noteq> [] \<and> after \<noteq> 0 \<and> after < u64_sub (ev_seq (hd items)) 1
                 then (([], ev_seq (last items), Some ErrCursor), s)
                 else ((withLiveEvents (filter (\<lambda>e. ev_durable e \<and> ev_seq e > after) items) items after,
                        last_durable items, None), s)))"

section \<open>Subscribers\<close>

definition subscriberBuffer :: nat where "subscriberBuffer = 256"

text \<open>The replay is queued first; the channel has room for it and for \<open>subscriberBuffer\<close> live events.\<close>

definition Subscribe :: "('c, 'w) deps \<Rightarrow> ('c, 'w) sys \<Rightarrow> Principal \<Rightarrow> string \<Rightarrow> nat
    \<Rightarrow> (nat \<times> nat) result \<times> ('c, 'w) sys" where
  "Subscribe d s p i after =
     (case svc_Get d s p i of
        (Inl e, s1) \<Rightarrow> (Inl e, s1)
      | (Inr _, s1) \<Rightarrow>
          (case EventsAfter d s1 p i after of
             ((items, head, err), s2) \<Rightarrow>
               if err \<noteq> None \<and> err \<noteq> Some ErrCursor then (Inl (the err), s2)
               else let queue = (if err \<noteq> None then [] else items); sv = svc s2; n = s_next_sub sv;
                        sub = \<lparr>sub_queue = queue, sub_cap = subscriberBuffer + length queue\<rparr>
                    in (Inr (n, head), s2\<lparr>svc := sv\<lparr>s_next_sub := n + 1,
                          s_subs := AList.update i (AList.update n sub (get_or [] (s_subs sv) i)) (s_subs sv)\<rparr>\<rparr>)))"

definition CloseAllSubscribers :: "'c service \<Rightarrow> 'c service" where
  "CloseAllSubscribers sv =
     sv\<lparr>s_closed := s_closed sv @ concat (map (\<lambda>(i, subs). keys subs) (s_subs sv)), s_subs := []\<rparr>"

definition removeSubscriber :: "string \<Rightarrow> nat \<Rightarrow> 'c service \<Rightarrow> 'c service" where
  "removeSubscriber i n sv =
     (if has_key (get_or [] (s_subs sv) i) n then
        sv\<lparr>s_subs := AList.update i (AList.delete n (get_or [] (s_subs sv) i)) (s_subs sv),
           s_closed := s_closed sv @ [n]\<rparr>
      else sv)"

section \<open>What each step leaves alone\<close>

lemma fill_tenant_simps [simp]:
  "ev_id (fill_tenant sv ev) = ev_id ev" "ev_task (fill_tenant sv ev) = ev_task ev"
  "ev_durable (fill_tenant sv ev) = ev_durable ev" "ev_version (fill_tenant sv ev) = ev_version ev"
  "ev_kind (fill_tenant sv ev) = ev_kind ev" "ev_entity_id (fill_tenant sv ev) = ev_entity_id ev"
  "ev_occurred (fill_tenant sv ev) = ev_occurred ev" "ev_seq (fill_tenant sv ev) = ev_seq ev"
  by (simp_all add: fill_tenant_def split: option.splits)

lemma entity_fill_tenant [simp]:
  "has_entity (fill_tenant sv ev) = has_entity ev" "entityKey (fill_tenant sv ev) = entityKey ev"
  by (simp_all add: has_entity_def entityKey_def)

lemma stale_fill_tenant [simp]: "stale_entity sv (fill_tenant sv' ev) = stale_entity sv ev"
  by (simp add: stale_entity_def)

lemma mark_seen_frame:
  assumes "mark_seen d sv ev = (b, sv')"
  shows "\<exists>c. sv' = sv\<lparr>s_seenEvents := c\<rparr>"
  using assms by (auto simp: mark_seen_def Let_def split: if_splits prod.splits option.splits intro: exI [of _ "s_seenEvents sv"])

lemma version_of_seen [simp]: "version_of (sv\<lparr>s_seenEvents := c\<rparr>) t k = version_of sv t k"
  by (simp add: version_of_def)

lemma stale_entity_seen [simp]: "stale_entity (sv\<lparr>s_seenEvents := c\<rparr>) ev = stale_entity sv ev"
  by (simp add: stale_entity_def)

lemma seq_of_seen [simp]: "seq_of (sv\<lparr>s_seenEvents := c\<rparr>) t = seq_of sv t"
  by (simp add: seq_of_def)

lemma buffered_seen [simp]: "buffered (sv\<lparr>s_seenEvents := c\<rparr>) t = buffered sv t"
  by (simp add: buffered_def)

lemma stamp_event_simps [simp]:
  "ev_id (stamp_event now ev) = ev_id ev" "ev_task (stamp_event now ev) = ev_task ev"
  "ev_durable (stamp_event now ev) = ev_durable ev" "ev_seq (stamp_event now ev) = ev_seq ev"
  "ev_after (stamp_event now ev) = ev_after ev" "ev_type (stamp_event now ev) = ev_type ev"
  "ev_payload (stamp_event now ev) = ev_payload ev" "ev_version (stamp_event now ev) = ev_version ev"
  "ev_tenant (stamp_event now ev) = ev_tenant ev"
  by (simp_all add: stamp_event_def)

lemma advance_entity_simps:
  assumes "advance_entity sv ev = (ev', sv')"
  shows "ev_id ev' = ev_id ev" "ev_task ev' = ev_task ev" "ev_durable ev' = ev_durable ev"
    "ev_tenant ev' = ev_tenant ev" "ev_type ev' = ev_type ev" "ev_payload ev' = ev_payload ev"
    "ev_seq ev' = ev_seq ev" "ev_version ev' = ev_version ev"
    "s_seenEvents sv' = s_seenEvents sv" "s_events sv' = s_events sv" "s_nextSeq sv' = s_nextSeq sv"
    "s_tasks sv' = s_tasks sv" "s_maxEvents sv' = s_maxEvents sv" "s_subs sv' = s_subs sv"
  using assms by (auto simp: advance_entity_def Let_def split: if_splits)

lemma advance_entity_version:
  assumes "advance_entity sv ev = (ev', sv')"
  shows "version_of sv' t k =
    (if has_entity ev \<and> ev_version ev > 0 \<and> t = ev_task ev \<and> k = entityKey ev then ev_version ev
     else version_of sv t k)"
  using assms by (auto simp: advance_entity_def version_of_def Let_def split: if_splits)

lemma number_event_simps:
  assumes "number_event sv ev = (ev', sv')"
  shows "ev_id ev' = ev_id ev" "ev_task ev' = ev_task ev" "ev_durable ev' = ev_durable ev"
    "ev_tenant ev' = ev_tenant ev" "ev_type ev' = ev_type ev" "ev_payload ev' = ev_payload ev"
    "ev_version ev' = ev_version ev"
    "s_seenEvents sv' = s_seenEvents sv" "s_events sv' = s_events sv" "s_entityVersion sv' = s_entityVersion sv"
    "s_tasks sv' = s_tasks sv" "s_maxEvents sv' = s_maxEvents sv" "s_subs sv' = s_subs sv"
  using assms by (auto simp: number_event_def Let_def split: if_splits)

lemma number_event_seq:
  assumes "number_event sv ev = (ev', sv')"
  shows "seq_of sv' t = (if ev_durable ev \<and> t = ev_task ev then u64 (seq_of sv t + 1) else seq_of sv t)"
    "ev_durable ev \<Longrightarrow> ev_seq ev' = u64 (seq_of sv (ev_task ev) + 1)"
    "\<not> ev_durable ev \<Longrightarrow> ev_after ev' = seq_of sv (ev_task ev) \<and> ev_seq ev' = ev_seq ev"
  using assms by (auto simp: number_event_def seq_of_def Let_def split: if_splits)

text \<open>What admission decides, in one place.\<close>

lemma admit_None:
  assumes "admit d sv now ev = (None, sv')"
  shows "\<exists>c. sv' = sv\<lparr>s_seenEvents := c\<rparr>"
  using assms mark_seen_frame unfolding admit_def Let_def by (fastforce split: prod.splits if_splits)

lemma admit_Some:
  assumes "admit d sv now ev0 = (Some ev, sv')"
  obtains sv1 sv2 ev1 ev2 where
    "mark_seen d sv (fill_tenant sv ev0) = (False, sv1)" "\<not> stale_entity sv1 (fill_tenant sv ev0)"
    "advance_entity sv1 (fill_tenant sv ev0) = (ev1, sv2)" "number_event sv2 ev1 = (ev2, sv')"
    "ev = stamp_event now ev2"
  using assms unfolding admit_def Let_def by (auto split: prod.splits if_splits)

text \<open>Publication does not touch admission's state, except that it raises the sequence number.\<close>

lemma apply_cached_simps [simp]:
  "s_seenEvents (apply_cached ev sv) = s_seenEvents sv" "s_entityVersion (apply_cached ev sv) = s_entityVersion sv"
  "s_nextSeq (apply_cached ev sv) = s_nextSeq sv" "s_events (apply_cached ev sv) = s_events sv"
  "s_subs (apply_cached ev sv) = s_subs sv" "s_maxEvents (apply_cached ev sv) = s_maxEvents sv"
  by (simp_all add: apply_cached_def split: option.splits)

lemma raise_seq_simps [simp]:
  "s_seenEvents (raise_seq ev sv) = s_seenEvents sv" "s_entityVersion (raise_seq ev sv) = s_entityVersion sv"
  "s_events (raise_seq ev sv) = s_events sv" "s_tasks (raise_seq ev sv) = s_tasks sv"
  "s_subs (raise_seq ev sv) = s_subs sv"
  by (simp_all add: raise_seq_def)

lemma record_manifest_simps [simp]:
  "s_seenEvents (record_manifest d ev sv) = s_seenEvents sv"
  "s_entityVersion (record_manifest d ev sv) = s_entityVersion sv"
  "s_nextSeq (record_manifest d ev sv) = s_nextSeq sv" "s_events (record_manifest d ev sv) = s_events sv"
  "s_tasks (record_manifest d ev sv) = s_tasks sv" "s_subs (record_manifest d ev sv) = s_subs sv"
  by (simp_all add: record_manifest_def Let_def split: option.splits)

lemma notify_simps [simp]:
  "s_seenEvents (notify ev sv) = s_seenEvents sv" "s_entityVersion (notify ev sv) = s_entityVersion sv"
  "s_nextSeq (notify ev sv) = s_nextSeq sv" "s_events (notify ev sv) = s_events sv"
  "s_tasks (notify ev sv) = s_tasks sv"
  by (simp_all add: notify_def split: option.splits)

lemma publish_simps [simp]:
  "s_seenEvents (publish d now ev sv) = s_seenEvents sv"
  "s_entityVersion (publish d now ev sv) = s_entityVersion sv"
  "version_of (publish d now ev sv) t k = version_of sv t k"
  by (simp_all add: publish_def Let_def version_of_def)

lemma publish_buffer:
  "buffered (publish d now ev sv) t =
     (if t = ev_task ev then trim_buffer (s_maxEvents sv) now (buffered sv t @ [ev]) else buffered sv t)"
  by (simp add: publish_def Let_def buffered_def)

lemma publish_seq:
  "seq_of (publish d now ev sv) t = (if t = ev_task ev then max (seq_of sv t) (ev_seq ev) else seq_of sv t)"
  by (simp add: publish_def Let_def seq_of_def raise_seq_def)

section \<open>Versions and duplicates\<close>

lemma admit_version:
  assumes "admit d sv now ev = (r, sv')"
  shows "version_of sv t k \<le> version_of sv' t k"
proof (cases r)
  case None
  with assms admit_None [of d sv now ev sv'] show ?thesis by auto
next
  case (Some e)
  with assms obtain sv1 sv2 ev1 ev2 where h:
    "mark_seen d sv (fill_tenant sv ev) = (False, sv1)" "\<not> stale_entity sv1 (fill_tenant sv ev)"
    "advance_entity sv1 (fill_tenant sv ev) = (ev1, sv2)" "number_event sv2 ev1 = (ev2, sv')"
    using admit_Some [of d sv now ev e sv'] by metis
  obtain c where c: "sv1 = sv\<lparr>s_seenEvents := c\<rparr>" using mark_seen_frame [OF h(1)] by blast
  have "version_of sv' t k = version_of sv2 t k"
    using number_event_simps(10) [OF h(4)] by (simp add: version_of_def)
  moreover have "version_of sv t k \<le> version_of sv2 t k"
    using advance_entity_version [OF h(3), of t k] h(2) c by (auto simp: stale_entity_def)
  ultimately show ?thesis by simp
qed

lemma forgetEvent_version [simp]: "version_of (forgetEvent d sv ev) t k = version_of sv t k"
  by (simp add: forgetEvent_def version_of_def)

lemma AppendEvent_version:
  "version_of (svc s) t k \<le> version_of (svc (snd (AppendEvent d s now ev))) t k"
proof -
  obtain r sv where a: "admit d (svc s) now ev = (r, sv)" by force
  have "version_of (svc (snd (AppendEvent d s now ev))) t k = version_of sv t k"
    using a by (auto simp: AppendEvent_def Let_def split: option.splits prod.splits sum.splits)
  with admit_version [OF a, of t k] show ?thesis by simp
qed

text \<open>An event of an entity that was admitted moved the entity's version to its own.\<close>

lemma admitted_version:
  assumes "admit d sv now ev = (Some e, sv')" and "has_entity ev" "ev_version ev > 0"
  shows "version_of sv' (ev_task ev) (entityKey ev) = ev_version ev"
    and "ev_task e = ev_task ev" "ev_id e = ev_id ev" "ev_durable e = ev_durable ev"
proof -
  obtain sv1 sv2 ev1 ev2 where h:
    "mark_seen d sv (fill_tenant sv ev) = (False, sv1)" "advance_entity sv1 (fill_tenant sv ev) = (ev1, sv2)"
    "number_event sv2 ev1 = (ev2, sv')" "e = stamp_event now ev2"
    using admit_Some [OF assms(1)] by metis
  show "version_of sv' (ev_task ev) (entityKey ev) = ev_version ev"
    using number_event_simps(10) [OF h(3)] advance_entity_version [OF h(2)] assms(2,3) by (simp add: version_of_def)
  show "ev_task e = ev_task ev" "ev_id e = ev_id ev" "ev_durable e = ev_durable ev"
    using number_event_simps [OF h(3)] advance_entity_simps [OF h(2)] h(4) by simp_all
qed

lemma admit_stale:
  assumes "has_entity ev" "ev_version ev > 0" "ev_version ev \<le> version_of sv (ev_task ev) (entityKey ev)"
  shows "fst (admit d sv now ev) = None"
proof -
  obtain b sv1 where m: "mark_seen d sv (fill_tenant sv ev) = (b, sv1)" by force
  then obtain c where "sv1 = sv\<lparr>s_seenEvents := c\<rparr>" using mark_seen_frame by blast
  with assms m show ?thesis by (simp add: admit_def Let_def stale_entity_def)
qed

text \<open>After a failed append the projector's retry of a versioned event is dropped as stale.\<close>

lemma failed_append_not_retried:
  assumes fail: "AppendEvent d s now ev = (Inl e, s1)" and "has_entity ev" "ev_version ev > 0"
  shows "\<exists>c. AppendEvent d s1 now' ev = (Inr (), s1\<lparr>svc := (svc s1)\<lparr>s_seenEvents := c\<rparr>\<rparr>)"
proof -
  obtain r sv where a: "admit d (svc s) now ev = (r, sv)" by force
  with fail obtain e1 where r: "r = Some e1" and sv: "svc s1 = forgetEvent d sv e1"
    by (auto simp: AppendEvent_def Let_def split: option.splits prod.splits sum.splits if_splits)
  have "version_of (svc s1) (ev_task ev) (entityKey ev) = ev_version ev"
    using admitted_version(1) [OF _ assms(2,3)] a r sv by simp
  then have "fst (admit d (svc s1) now' ev) = None"
    using admit_stale [OF assms(2,3), of "svc s1"] by simp
  then obtain sv' where a': "admit d (svc s1) now' ev = (None, sv')" by (metis prod.collapse)
  with admit_None [OF a'] show ?thesis by (auto simp: AppendEvent_def)
qed

locale event_service = lru_cache "cache d" held cinv limit
  for d :: "('c, 'w) deps" and held :: "'c \<Rightarrow> string \<Rightarrow> unit option" and cinv :: "'c \<Rightarrow> bool" and limit :: nat
begin

definition seen :: "'c service \<Rightarrow> string \<Rightarrow> string \<Rightarrow> bool" where
  "seen sv t i \<longleftrightarrow> held (s_seenEvents sv) (eventKey t i) \<noteq> None"

lemma mark_seen_seen:
  assumes "cinv (s_seenEvents sv)" "ev_id ev \<noteq> []" "mark_seen d sv ev = (b, sv')"
  shows "b = seen sv (ev_task ev) (ev_id ev)" "seen sv' (ev_task ev) (ev_id ev)" "cinv (s_seenEvents sv')"
proof -
  define c where "c = s_seenEvents sv"
  define k where "k = eventKey (ev_task ev) (ev_id ev)"
  have g: "lru_get (cache d) c k = (held c k, snd (lru_get (cache d) c k))"
    using get_value [of c k] assms(1) by (simp add: c_def prod_eq_iff)
  have g': "held (snd (lru_get (cache d) c k)) = held c" "cinv (snd (lru_get (cache d) c k))"
    using get_held [of c k] inv_get [of c k] assms(1) by (simp_all add: c_def)
  show "b = seen sv (ev_task ev) (ev_id ev)" "seen sv' (ev_task ev) (ev_id ev)" "cinv (s_seenEvents sv')"
    using assms(2,3) g g' add_same [OF g'(2), of k] inv_add [OF g'(2), of k]
    by (auto simp: mark_seen_def seen_def Let_def c_def [symmetric] k_def [symmetric] split: option.splits prod.splits)
qed

lemma append_marks_seen:
  assumes inv: "cinv (s_seenEvents (svc s))" and i: "ev_id ev \<noteq> []" and ok: "AppendEvent d s now ev = (Inr (), s1)"
  shows "seen (svc s1) (ev_task ev) (ev_id ev) \<and> cinv (s_seenEvents (svc s1))"
proof -
  obtain b sv1 where m: "mark_seen d (svc s) (fill_tenant (svc s) ev) = (b, sv1)" by force
  note seen1 = mark_seen_seen [OF inv _ m, simplified, OF i]
  obtain r sv where a: "admit d (svc s) now ev = (r, sv)" by force
  have sv: "s_seenEvents sv = s_seenEvents sv1"
  proof (cases r)
    case None
    then show ?thesis
      using a m by (auto simp: admit_def Let_def split: prod.splits if_splits)
  next
    case (Some e)
    with a admit_Some [of d "svc s" now ev e sv] obtain sv2 ev1 ev2 where
      "advance_entity sv1 (fill_tenant (svc s) ev) = (ev1, sv2)" "number_event sv2 ev1 = (ev2, sv)"
      using m by (metis prod.inject)
    then show ?thesis using advance_entity_simps(9) number_event_simps(8) by metis
  qed
  have "s_seenEvents (svc s1) = s_seenEvents sv"
    using ok a by (auto simp: AppendEvent_def Let_def split: option.splits prod.splits sum.splits if_splits)
  with sv seen1 show ?thesis by (simp add: seen_def)
qed

lemma seen_dropped:
  assumes "cinv (s_seenEvents (svc s))" "ev_id ev \<noteq> []" "seen (svc s) (ev_task ev) (ev_id ev)"
  shows "\<exists>c. AppendEvent d s now ev = (Inr (), s\<lparr>svc := (svc s)\<lparr>s_seenEvents := c\<rparr>\<rparr>)"
proof -
  obtain b sv1 where m: "mark_seen d (svc s) (fill_tenant (svc s) ev) = (b, sv1)" by force
  have b using mark_seen_seen(1) [OF assms(1) _ m] assms(2,3) by simp
  with m have a: "admit d (svc s) now ev = (None, sv1)" by (simp add: admit_def Let_def)
  with admit_None [OF a] show ?thesis by (auto simp: AppendEvent_def)
qed

lemma append_once:
  assumes "cinv (s_seenEvents (svc s))" "ev_id ev \<noteq> []" "AppendEvent d s now ev = (Inr (), s1)"
    and "ev_task ev' = ev_task ev" "ev_id ev' = ev_id ev"
  shows "\<exists>c. AppendEvent d s1 now' ev' = (Inr (), s1\<lparr>svc := (svc s1)\<lparr>s_seenEvents := c\<rparr>\<rparr>)"
  using append_marks_seen [OF assms(1-3)] assms(2,4,5) by (intro seen_dropped) auto

end

interpretation lru_events: event_service "d\<lparr>cache := lru_list n\<rparr>" map_of "lru_list_inv n" "Suc n" for d n
  by (simp add: event_service_def lru_list.lru_cache_axioms)

section \<open>The stream without a store\<close>

definition durables :: "'c service \<Rightarrow> string \<Rightarrow> Event list" where
  "durables sv t = filter ev_durable (buffered sv t)"

text \<open>Durable events are numbered from one without a gap, live ones follow a durable one.\<close>

definition numbered :: "'c service \<Rightarrow> string \<Rightarrow> bool" where
  "numbered sv t \<longleftrightarrow> map ev_seq (durables sv t) = [1..<Suc (seq_of sv t)] \<and> seq_of sv t < 2 ^ 64 \<and>
     (\<forall>e \<in> set (buffered sv t). \<not> ev_durable e \<longrightarrow> ev_seq e = 0 \<and> ev_after e \<le> seq_of sv t)"

lemma trim_buffer_durable: "filter ev_durable (trim_buffer m now items) = filter ev_durable items"
  by (auto simp: trim_buffer_def Let_def intro: filter_cong)

lemma set_trim_buffer: "set (trim_buffer m now items) \<subseteq> set items"
  by (auto simp: trim_buffer_def Let_def)

lemma AppendEvent_local:
  assumes "projection d = None"
  shows "AppendEvent d s now ev0 =
    (case admit d (svc s) now ev0 of
       (None, sv) \<Rightarrow> (Inr (), s\<lparr>svc := sv\<rparr>)
     | (Some ev, sv) \<Rightarrow> (Inr (), s\<lparr>svc := publish d now ev sv\<rparr>))"
  using assms by (simp add: AppendEvent_def split: option.splits prod.splits)

lemma admitted_event:
  assumes "admit d sv now ev0 = (Some ev, sv')"
  shows "ev_task ev = ev_task ev0" "ev_durable ev = ev_durable ev0" "ev_id ev = ev_id ev0"
    "buffered sv' t = buffered sv t" "s_maxEvents sv' = s_maxEvents sv"
    "seq_of sv' t = (if ev_durable ev0 \<and> t = ev_task ev0 then u64 (seq_of sv t + 1) else seq_of sv t)"
    "ev_durable ev0 \<Longrightarrow> ev_seq ev = u64 (seq_of sv (ev_task ev0) + 1)"
    "\<not> ev_durable ev0 \<Longrightarrow> ev_after ev = seq_of sv (ev_task ev0) \<and> ev_seq ev = ev_seq ev0"
proof -
  obtain sv1 sv2 ev1 ev2 where h:
    "mark_seen d sv (fill_tenant sv ev0) = (False, sv1)" "advance_entity sv1 (fill_tenant sv ev0) = (ev1, sv2)"
    "number_event sv2 ev1 = (ev2, sv')" "ev = stamp_event now ev2"
    using admit_Some [OF assms] by metis
  obtain c where c: "sv1 = sv\<lparr>s_seenEvents := c\<rparr>" using mark_seen_frame [OF h(1)] by blast
  note A = advance_entity_simps [OF h(2)] and N = number_event_simps [OF h(3)] and S = number_event_seq [OF h(3)]
  have seq: "seq_of sv2 k = seq_of sv k" for k using A(11) c by (simp add: seq_of_def)
  show "ev_task ev = ev_task ev0" "ev_durable ev = ev_durable ev0" "ev_id ev = ev_id ev0"
    "buffered sv' t = buffered sv t" "s_maxEvents sv' = s_maxEvents sv"
    using A N h(4) c by (simp_all add: buffered_def)
  show "seq_of sv' t = (if ev_durable ev0 \<and> t = ev_task ev0 then u64 (seq_of sv t + 1) else seq_of sv t)"
    using S(1) [of t] A seq by simp
  show "ev_durable ev0 \<Longrightarrow> ev_seq ev = u64 (seq_of sv (ev_task ev0) + 1)"
    "\<not> ev_durable ev0 \<Longrightarrow> ev_after ev = seq_of sv (ev_task ev0) \<and> ev_seq ev = ev_seq ev0"
    using S(2,3) A seq h(4) by simp_all
qed

lemma AppendEvent_durables:
  assumes none: "projection d = None" and "numbered (svc s) (ev_task ev0)" and z: "ev_seq ev0 = 0"
    and room: "seq_of (svc s) (ev_task ev0) + 1 < 2 ^ 64"
  shows "numbered (svc (snd (AppendEvent d s now ev0))) (ev_task ev0)"
    and "durables (svc (snd (AppendEvent d s now ev0))) (ev_task ev0) = durables (svc s) (ev_task ev0) \<or>
      ev_durable ev0 \<and> (\<exists>e. durables (svc (snd (AppendEvent d s now ev0))) (ev_task ev0) =
        durables (svc s) (ev_task ev0) @ [e] \<and> ev_id e = ev_id ev0)"
proof -
  define t where "t = ev_task ev0"
  define s1 where "s1 = svc (snd (AppendEvent d s now ev0))"
  have num: "numbered (svc s) t" using assms(2) by (simp add: t_def)
  obtain r sv where a: "admit d (svc s) now ev0 = (r, sv)" by force
  have "numbered s1 t \<and> (durables s1 t = durables (svc s) t \<or>
      ev_durable ev0 \<and> (\<exists>e. durables s1 t = durables (svc s) t @ [e] \<and> ev_id e = ev_id ev0))"
  proof (cases r)
    case None
    then obtain c where "sv = (svc s)\<lparr>s_seenEvents := c\<rparr>" using a admit_None by blast
    then have "s1 = (svc s)\<lparr>s_seenEvents := c\<rparr>" using a None none by (simp add: s1_def AppendEvent_local)
    then show ?thesis using num by (simp add: numbered_def durables_def)
  next
    case (Some ev)
    note E = admitted_event [OF a [unfolded Some]]
    have s1: "s1 = publish d now ev sv" using a Some none by (simp add: s1_def AppendEvent_local)
    have buf: "buffered s1 t = trim_buffer (s_maxEvents (svc s)) now (buffered (svc s) t @ [ev])"
      using E s1 by (simp add: publish_buffer t_def)
    have dur: "durables s1 t = (if ev_durable ev0 then durables (svc s) t @ [ev] else durables (svc s) t)"
      using E(2) by (simp add: durables_def buf trim_buffer_durable)
    have seq: "seq_of s1 t = (if ev_durable ev0 then seq_of (svc s) t + 1 else seq_of (svc s) t)"
      using E(1) E(6) [of t] E(7,8) s1 room z by (auto simp: publish_seq t_def)
    have live: "ev_seq e = 0 \<and> ev_after e \<le> seq_of s1 t" if "e \<in> set (buffered s1 t)" "\<not> ev_durable e" for e
    proof -
      have "e \<in> set (buffered (svc s) t) \<or> e = ev" using that(1) set_trim_buffer buf by fastforce
      then show ?thesis
        using that(2) num E(2,8) z seq unfolding numbered_def by (auto simp: t_def)
    qed
    have "numbered s1 t"
      using num dur seq live room E(2,7) unfolding numbered_def by (auto simp: t_def)
    with dur E(2,3) show ?thesis by auto
  qed
  then show "numbered (svc (snd (AppendEvent d s now ev0))) (ev_task ev0)"
    "durables (svc (snd (AppendEvent d s now ev0))) (ev_task ev0) = durables (svc s) (ev_task ev0) \<or>
      ev_durable ev0 \<and> (\<exists>e. durables (svc (snd (AppendEvent d s now ev0))) (ev_task ev0) =
        durables (svc s) (ev_task ev0) @ [e] \<and> ev_id e = ev_id ev0)"
    by (simp_all add: s1_def t_def)
qed

section \<open>Merging live events into a replay\<close>

lemma withLiveEvents_mset:
  "mset (withLiveEvents ds buf n) = mset ds + mset (filter (\<lambda>e. \<not> ev_durable e \<and> ev_after e \<ge> n) buf)"
  by (simp add: withLiveEvents_def)

lemma withLiveEvents_sorted: "sorted (map position (withLiveEvents ds buf n))"
  by (simp add: withLiveEvents_def)

lemma withLiveEvents_durable:
  assumes "\<forall>e \<in> set ds. ev_durable e" and "sorted (map ev_seq ds)" and "\<forall>e \<in> set ds. ev_seq e < 2 ^ 63"
  shows "filter ev_durable (withLiveEvents ds buf n) = ds"
proof -
  have "filter ev_durable (withLiveEvents ds buf n) = sort_key position (filter ev_durable (ds @ filter (\<lambda>e. \<not> ev_durable e \<and> ev_after e \<ge> n) buf))"
    by (simp add: withLiveEvents_def filter_sort)
  also have "\<dots> = sort_key position ds"
    using assms(1) by (simp add: filter_True)
  also have "\<dots> = ds"
  proof (rule sort_key_id_if_sorted)
    have "map position ds = map (\<lambda>e. ev_seq e * 2) ds"
      using assms(1,3) by (auto simp: position_def)
    moreover have "sorted (map (\<lambda>e. ev_seq e * 2) ds)"
      using assms(2) by (induction ds) auto
    ultimately show "sorted (map position ds)" by (simp only:)
  qed
  finally show ?thesis .
qed

section \<open>Replaying without a store\<close>

lemma numbered_hd:
  assumes "numbered sv t" "buffered sv t \<noteq> []" "ev_durable (hd (buffered sv t))"
  shows "ev_seq (hd (buffered sv t)) = 1"
proof -
  obtain e es where b: "buffered sv t = e # es" using assms(2) by (cases "buffered sv t") auto
  then have "map ev_seq (durables sv t) = ev_seq e # map ev_seq (filter ev_durable es)"
    using assms(3) by (simp add: durables_def)
  with assms(1) have "[1..<Suc (seq_of sv t)] = ev_seq e # map ev_seq (filter ev_durable es)"
    by (simp add: numbered_def)
  then have "ev_seq e = 1" by (metis list.sel(1) upt_eq_Cons_conv)
  with b show ?thesis by simp
qed

lemma numbered_last: "numbered sv t \<Longrightarrow> last_durable (buffered sv t) = seq_of sv t"
proof (cases "durables sv t")
  case Nil
  assume "numbered sv t"
  with Nil have "[1..<Suc (seq_of sv t)] = []" unfolding numbered_def by (metis list.simps(8))
  then have "seq_of sv t = 0" by (cases "seq_of sv t") simp_all
  with Nil show ?thesis by (simp add: last_durable_def durables_def)
next
  case (Cons e es)
  assume "numbered sv t"
  then have "last (map ev_seq (durables sv t)) = last [1..<Suc (seq_of sv t)]" "durables sv t \<noteq> []"
    using Cons by (simp_all add: numbered_def)
  moreover have "seq_of sv t \<noteq> 0" using \<open>numbered sv t\<close> Cons by (cases "seq_of sv t") (simp_all add: numbered_def)
  ultimately have "ev_seq (last (durables sv t)) = seq_of sv t" by (simp add: last_map)
  then show ?thesis using Cons by (simp add: last_durable_def durables_def)
qed

lemma numbered_sorted: "numbered sv t \<Longrightarrow> sorted (map ev_seq (durables sv t))"
  by (simp add: numbered_def del: upt_Suc)

lemma numbered_bound: "numbered sv t \<Longrightarrow> e \<in> set (durables sv t) \<Longrightarrow> ev_seq e \<le> seq_of sv t"
proof -
  assume "numbered sv t" "e \<in> set (durables sv t)"
  then have "ev_seq e \<in> set [1..<Suc (seq_of sv t)]"
    unfolding numbered_def by (metis image_eqI list.set_map)
  then show ?thesis by auto
qed

lemma sorted_map_filter: "sorted (map f xs) \<Longrightarrow> sorted (map f (filter P xs))"
  by (induction xs) auto

lemma EventsAfter_local:
  assumes "projection d = None" "map_of (s_tasks (svc s)) i = Some t" "owns p t" "numbered (svc s) i"
    and "seq_of (svc s) i < 2 ^ 63" and "buffered (svc s) i = [] \<or> ev_durable (hd (buffered (svc s) i))"
  shows "\<exists>items. EventsAfter d s p i after = ((items, seq_of (svc s) i, None), s) \<and>
    filter ev_durable items = filter (\<lambda>e. ev_seq e > after) (durables (svc s) i)"
proof -
  define buf where "buf = buffered (svc s) i"
  define ds where "ds = filter (\<lambda>e. ev_durable e \<and> ev_seq e > after) buf"
  have ds: "ds = filter (\<lambda>e. ev_seq e > after) (durables (svc s) i)"
    by (auto simp: ds_def durables_def buf_def intro: filter_cong)
  have "\<not> (buf \<noteq> [] \<and> after \<noteq> 0 \<and> after < u64_sub (ev_seq (hd buf)) 1)"
    using assms(6) numbered_hd [OF assms(4)] by (auto simp: buf_def u64_sub_def)
  then have "EventsAfter d s p i after = ((withLiveEvents ds buf after, seq_of (svc s) i, None), s)"
    using assms(1-3) numbered_last [OF assms(4)] by (simp add: EventsAfter_def Let_def buf_def ds_def)
  moreover have "filter ev_durable (withLiveEvents ds buf after) = ds"
  proof (rule withLiveEvents_durable)
    show "sorted (map ev_seq ds)" unfolding ds by (rule sorted_map_filter [OF numbered_sorted [OF assms(4)]])
    show "\<forall>e \<in> set ds. ev_seq e < 2 ^ 63"
      unfolding ds using numbered_bound [OF assms(4)] assms(5) by fastforce
  qed (simp add: ds_def)
  ultimately show ?thesis using ds by blast
qed

section \<open>Subscribers\<close>

text \<open>A new subscriber's channel holds the replay and takes the next events in order while it has room.\<close>

lemma offer_many:
  "length (sub_queue sub) + length evs \<le> sub_cap sub \<Longrightarrow>
     fold offer evs sub = sub\<lparr>sub_queue := sub_queue sub @ evs\<rparr>"
proof (induction evs arbitrary: sub)
  case (Cons e evs)
  then have "length (sub_queue sub) < sub_cap sub" by simp
  with Cons show ?case by (simp add: offer_def)
qed simp

lemma map_of_map_snd: "map_of (map (\<lambda>(k, v). (k, f v)) m) k = map_option f (map_of m k)"
  by (induction m) auto

definition subscription :: "'c service \<Rightarrow> string \<Rightarrow> nat \<Rightarrow> subscriber option" where
  "subscription sv i n = map_of (get_or [] (s_subs sv) i) n"

lemma publish_subscription:
  "subscription (publish d now ev sv) i n =
     (if ev_task ev = i then map_option (offer ev) (subscription sv i n) else subscription sv i n)"
  by (auto simp: subscription_def publish_def Let_def notify_def get_or_def map_of_map_snd split: option.splits)

lemma Subscribe_queue:
  assumes "Subscribe d s p i after = (Inr (n, head), s')"
  shows "\<exists>q. subscription (svc s') i n = Some \<lparr>sub_queue = q, sub_cap = subscriberBuffer + length q\<rparr>"
  using assms by (auto simp: Subscribe_def Let_def subscription_def split: sum.splits prod.splits if_splits)

section \<open>Properties\<close>

definition sample_event :: "string \<Rightarrow> bool \<Rightarrow> int \<Rightarrow> Event" where
  "sample_event i dur v =
     \<lparr>ev_seq = 0, ev_after = 0, ev_id = i, ev_task = ''task_1'', ev_tenant = ''t'', ev_type = ''node.status_changed'',
      ev_source = ''workflow'', ev_payload = Some (Obj []), ev_occurred = 7, ev_durable = dur,
      ev_kind = ''node'', ev_entity_id = ''n_1'', ev_version = v, ev_entity = None\<rparr>"

lemma sample_numbered: "numbered (svc sample_sys) ''task_1''"
  by (simp add: numbered_def sample_sys_def NewService_def durables_def buffered_def seq_of_def)

text \<open>An event is applied once: after an append that succeeded, the same event of the same task
  (by its id) is answered with success and changes nothing, as long as the cache of seen events,
  whatever it is, has not evicted it in between.\<close>

theorem append_is_idempotent:
  assumes "lru_cache (cache d) held cinv limit" and "cinv (s_seenEvents (svc s))"
    and "ev_id ev \<noteq> []" "AppendEvent d s now ev = (Inr (), s1)"
    and "ev_task ev' = ev_task ev" "ev_id ev' = ev_id ev"
  shows "\<exists>c. AppendEvent d s1 now' ev' = (Inr (), s1\<lparr>svc := (svc s1)\<lparr>s_seenEvents := c\<rparr>\<rparr>)"
  using event_service.append_once [OF event_service.intro [OF assms(1)] assms(2-6)] .

theorem append_is_idempotent_witness:
  "\<exists>c s1. AppendEvent sample_deps sample_sys 9 (sample_event ''e1'' True 1) = (Inr (), s1) \<and>
     AppendEvent sample_deps s1 12 (sample_event ''e1'' True 2) = (Inr (), s1\<lparr>svc := (svc s1)\<lparr>s_seenEvents := c\<rparr>\<rparr>)"
proof -
  have "fst (AppendEvent sample_deps sample_sys 9 (sample_event ''e1'' True 1)) = Inr ()"
    by (simp add: sample_deps_def AppendEvent_def split: option.splits prod.splits)
  then obtain s1 where s1: "AppendEvent sample_deps sample_sys 9 (sample_event ''e1'' True 1) = (Inr (), s1)"
    by (metis prod.collapse)
  have "lru_cache (cache sample_deps) map_of (lru_list_inv 10) (Suc 10)"
    using lru_list.lru_cache_axioms [of 10] by (simp add: sample_deps_def)
  from append_is_idempotent [OF this _ _ s1, of "sample_event ''e1'' True 2" 12] s1 show ?thesis
    by (auto simp: sample_sys_def NewService_def lru_list_inv_def sample_event_def)
qed

text \<open>The version of an entity never goes back, whatever is appended and however the append ends.\<close>

theorem entity_version_monotone:
  "version_of (svc s) t k \<le> version_of (svc (snd (AppendEvent d s now ev))) t k"
  by (rule AppendEvent_version)

text \<open>Without a store the stream is append-only and gap-free: an append leaves the durable events
  as they are or adds the new one at the end, with the next number; trimming the buffer never drops one.\<close>

theorem durable_stream_append_only:
  assumes "projection d = None" and "numbered (svc s) (ev_task ev)" "ev_seq ev = 0"
    and "seq_of (svc s) (ev_task ev) + 1 < 2 ^ 64"
  shows "numbered (svc (snd (AppendEvent d s now ev))) (ev_task ev) \<and>
    (durables (svc (snd (AppendEvent d s now ev))) (ev_task ev) = durables (svc s) (ev_task ev) \<or>
     (\<exists>e. durables (svc (snd (AppendEvent d s now ev))) (ev_task ev) = durables (svc s) (ev_task ev) @ [e] \<and>
        ev_id e = ev_id ev))"
  using AppendEvent_durables [OF assms] by blast

theorem durable_stream_append_only_witness:
  "numbered (svc (snd (AppendEvent sample_deps sample_sys 9 (sample_event ''e1'' True 1)))) ''task_1''"
proof -
  have "projection sample_deps = None" by (simp add: sample_deps_def)
  from durable_stream_append_only [OF this, of sample_sys "sample_event ''e1'' True 1" 9] sample_numbered
  show ?thesis by (simp add: sample_event_def sample_sys_def seq_of_def NewService_def)
qed

text \<open>A reader that resumes misses nothing: without a store and with a durable event first in the
  buffer, reading after any number gives exactly the durable events with a higher number, in order,
  and the head of the stream, and never a cursor error.\<close>

theorem resume_is_complete:
  assumes "projection d = None" "map_of (s_tasks (svc s)) i = Some t" "owns p t" "numbered (svc s) i"
    and "seq_of (svc s) i < 2 ^ 63" and "buffered (svc s) i = [] \<or> ev_durable (hd (buffered (svc s) i))"
  shows "\<exists>items. EventsAfter d s p i after = ((items, seq_of (svc s) i, None), s) \<and>
    filter ev_durable items = filter (\<lambda>e. ev_seq e > after) (durables (svc s) i)"
  using assms by (rule EventsAfter_local)

theorem resume_is_complete_witness:
  "\<exists>items. EventsAfter sample_deps sample_sys \<lparr>TenantID = ''t'', UserID = ''u''\<rparr> ''task_1'' 3 =
     ((items, 0, None), sample_sys)"
proof -
  have "projection sample_deps = None" "map_of (s_tasks (svc sample_sys)) ''task_1'' = Some sample_task"
    "owns \<lparr>TenantID = ''t'', UserID = ''u''\<rparr> sample_task"
    by (simp_all add: sample_deps_def sample_sys_def sample_task_def owns_def)
  moreover have "buffered (svc sample_sys) ''task_1'' = []" "seq_of (svc sample_sys) ''task_1'' = 0"
    by (simp_all add: sample_sys_def NewService_def buffered_def seq_of_def)
  ultimately show ?thesis
    using resume_is_complete [of sample_deps sample_sys "''task_1''" sample_task "\<lparr>TenantID = ''t'', UserID = ''u''\<rparr>" 3]
      sample_numbered by auto
qed

text \<open>A live event at the head of the buffer breaks resuming: its number is 0, the bound the cursor is
  compared with wraps around, and every cursor but 0 is refused, although nothing was dropped.\<close>

theorem live_head_breaks_resume:
  assumes "projection d = None" "map_of (s_tasks (svc s)) i = Some t" "owns p t"
    and "buffered (svc s) i = e # es" "ev_seq e = 0" and "0 < after" "after < 2 ^ 64 - 1"
  shows "snd (snd (fst (EventsAfter d s p i after))) = Some ErrCursor"
  using assms by (simp add: EventsAfter_def Let_def u64_sub_def)

theorem live_head_breaks_resume_witness:
  "snd (snd (fst (EventsAfter sample_deps
      (sample_sys\<lparr>svc := (svc sample_sys)\<lparr>s_events := [(''task_1'', [sample_event ''e0'' False 0,
         (sample_event ''e1'' True 1)\<lparr>ev_seq := 1\<rparr>])]\<rparr>\<rparr>)
      \<lparr>TenantID = ''t'', UserID = ''u''\<rparr> ''task_1'' 1))) = Some ErrCursor"
  by (rule live_head_breaks_resume [of _ _ _ sample_task _ "sample_event ''e0'' False 0"
        "[(sample_event ''e1'' True 1)\<lparr>ev_seq := 1\<rparr>]"])
    (simp_all add: sample_deps_def sample_sys_def NewService_def sample_task_def owns_def buffered_def get_or_def
      sample_event_def)

text \<open>A replay merges the live events in: nothing is lost or invented, the durable events keep their
  order, and every event stands at its position, a live one after the durable one it followed.\<close>

theorem replay_merge:
  assumes "\<forall>e \<in> set ds. ev_durable e" and "sorted (map ev_seq ds)" and "\<forall>e \<in> set ds. ev_seq e < 2 ^ 63"
  shows "filter ev_durable (withLiveEvents ds buf after) = ds \<and>
    mset (withLiveEvents ds buf after) =
      mset ds + mset (filter (\<lambda>e. \<not> ev_durable e \<and> ev_after e \<ge> after) buf) \<and>
    sorted (map position (withLiveEvents ds buf after))"
  using withLiveEvents_durable [OF assms] by (simp add: withLiveEvents_mset withLiveEvents_sorted)

theorem replay_merge_witness:
  "filter ev_durable (withLiveEvents [(sample_event ''e1'' True 1)\<lparr>ev_seq := 1\<rparr>, (sample_event ''e2'' True 1)\<lparr>ev_seq := 2\<rparr>]
      [(sample_event ''l'' False 0)\<lparr>ev_after := 1\<rparr>] 0) =
    [(sample_event ''e1'' True 1)\<lparr>ev_seq := 1\<rparr>, (sample_event ''e2'' True 1)\<lparr>ev_seq := 2\<rparr>]"
  using replay_merge [of "[(sample_event ''e1'' True 1)\<lparr>ev_seq := 1\<rparr>, (sample_event ''e2'' True 1)\<lparr>ev_seq := 2\<rparr>]"]
  by (simp add: sample_event_def)

text \<open>An append that failed in the store is not retried when its event carries an entity version: the
  version was advanced before the store was asked and only the mark of the event is taken back, so
  the retry is dropped as stale, with success, and the store never gets the event.\<close>

theorem failed_append_is_lost:
  assumes "AppendEvent d s now ev = (Inl e, s1)" and "has_entity ev" "ev_version ev > 0"
  shows "\<exists>c. AppendEvent d s1 now' ev = (Inr (), s1\<lparr>svc := (svc s1)\<lparr>s_seenEvents := c\<rparr>\<rparr>)"
  using assms by (rule failed_append_not_retried)

text \<open>A store that fails whatever it is asked, for the witness.\<close>

definition down_store :: "unit projection" where
  "down_store =
     \<lparr>pCreateTask = \<lambda>w _ _. (Inl ErrStorage, w), pGetTask = \<lambda>_ _ _. Inl ErrStorage, pListTasks = \<lambda>_ _. Inl ErrStorage,
      pUpdateTask = \<lambda>w _ _. (Inl ErrStorage, w), pDeleteTask = \<lambda>w _ _ _. (Inl ErrStorage, w),
      pAppendTaskEvent = \<lambda>w _. (Inl ErrStorage, w), pListTaskEvents = \<lambda>_ _ _ _. Inl ErrStorage,
      pRegisterProfile = \<lambda>w _ _ _. (Inl ErrStorage, w), pListProfiles = \<lambda>_ _. Inl ErrStorage,
      pGetProfile = \<lambda>_ _ _. Inl ErrStorage, pGetTenantPolicy = \<lambda>_ _. Inl ErrStorage,
      pSetTenantPolicy = \<lambda>w _ _. (Inl ErrStorage, w), pRegisterSOP = \<lambda>w _ _ _. (Inl ErrStorage, w),
      pListSOPs = \<lambda>_ _. Inl ErrStorage, pListManifests = \<lambda>_ _ _. Inl ErrStorage, pGetManifest = \<lambda>_ _ _. Inl ErrStorage,
      pProfileFiles = None, pNodeStructure = None, pGetUserSettings = None, pSetUserSettings = None\<rparr>"

theorem failed_append_is_lost_witness:
  "\<exists>s1 s2. AppendEvent (sample_deps\<lparr>projection := Some down_store\<rparr>) sample_sys 9 (sample_event ''e1'' True 1) = (Inl ErrStorage, s1) \<and>
     AppendEvent (sample_deps\<lparr>projection := Some down_store\<rparr>) s1 10 (sample_event ''e1'' True 1) = (Inr (), s2)"
proof -
  have "fst (AppendEvent (sample_deps\<lparr>projection := Some down_store\<rparr>) sample_sys 9 (sample_event ''e1'' True 1)) = Inl ErrStorage"
    by (simp add: AppendEvent_def admit_def Let_def fill_tenant_def mark_seen_def sample_event_def sample_sys_def NewService_def
        sample_deps_def lru_list_def stale_entity_def has_entity_def version_of_def advance_entity_def number_event_def
        stamp_event_def down_store_def)
  then obtain s1 where s1: "AppendEvent (sample_deps\<lparr>projection := Some down_store\<rparr>) sample_sys 9 (sample_event ''e1'' True 1) = (Inl ErrStorage, s1)"
    by (metis prod.collapse)
  with failed_append_is_lost [OF s1, of 10] show ?thesis by (auto simp: sample_event_def has_entity_def)
qed

text \<open>A new subscriber loses no live event while it reads nothing, up to 256 of them: its channel
  has room for the whole replay and takes the next events in the order of their publication.\<close>

theorem subscriber_keeps_up:
  assumes "Subscribe d s p i after = (Inr (n, head), s')"
    and "length evs \<le> subscriberBuffer" and "\<forall>ev \<in> set evs. ev_task ev = i"
  shows "\<exists>q. map_option sub_queue (subscription (svc s') i n) = Some q \<and>
    map_option sub_queue (subscription (fold (publish d now) evs (svc s')) i n) = Some (q @ evs)"
proof -
  obtain q where q: "subscription (svc s') i n = Some \<lparr>sub_queue = q, sub_cap = subscriberBuffer + length q\<rparr>"
    using Subscribe_queue [OF assms(1)] by blast
  have "subscription (fold (publish d now) evs sv) i n = map_option (fold offer evs) (subscription sv i n)"
    for sv :: "'a service"
    using assms(3) by (induction evs arbitrary: sv) (simp_all add: publish_subscription option.map_comp comp_def option.map_id [unfolded id_def] id_def)
  then show ?thesis
    using q offer_many [of "\<lparr>sub_queue = q, sub_cap = subscriberBuffer + length q\<rparr>" evs] assms(2) by simp
qed

theorem subscriber_keeps_up_witness:
  "\<exists>(s' :: ((string \<times> unit) list, unit) sys) q. map_option sub_queue (subscription (fold (publish sample_deps 9)
     [sample_event ''e1'' True 1, sample_event ''e2'' False 0] (svc s')) ''task_1'' 0) =
       Some (q @ [sample_event ''e1'' True 1, sample_event ''e2'' False 0])"
proof -
  obtain s' where "Subscribe sample_deps sample_sys \<lparr>TenantID = ''t'', UserID = ''u''\<rparr> ''task_1'' 0 = (Inr (0, 0), s')"
    by (simp add: Subscribe_def svc_Get_def EventsAfter_def sample_deps_def sample_sys_def NewService_def sample_task_def
        owns_def buffered_def last_durable_def Let_def)
  from subscriber_keeps_up [OF this, of "[sample_event ''e1'' True 1, sample_event ''e2'' False 0]" 9]
  have "\<exists>q. map_option sub_queue (subscription (fold (publish sample_deps 9)
      [sample_event ''e1'' True 1, sample_event ''e2'' False 0] (svc s')) ''task_1'' 0) =
    Some (q @ [sample_event ''e1'' True 1, sample_event ''e2'' False 0])"
    by (auto simp: subscriberBuffer_def sample_event_def simp del: fold_simps)
  then show ?thesis by blast
qed

end
