(* ===== verification/Service_Records.thy ===== *)
theory Service_Records
  imports Service_State
begin

text \<open>
  Profiles and artifact manifests of \<open>Service\<close>: \<open>internal/task/profiles.go\<close> and \<open>artifacts.go\<close>.
  A profile version is immutable: registering it again with the same spec gives back what is stored.
\<close>

section \<open>Profiles\<close>

definition tenant_profiles :: "'c service \<Rightarrow> string \<Rightarrow> (string, Profile) gomap" where
  "tenant_profiles sv tenantID = get_or [] (s_profiles sv) tenantID"

definition svc_RegisterProfile :: "('c, 'w) deps \<Rightarrow> ('c, 'w) sys \<Rightarrow> time \<Rightarrow> Principal \<Rightarrow> Profile
    \<Rightarrow> Profile result \<times> ('c, 'w) sys" where
  "svc_RegisterProfile d s now p profile0 =
     (if TenantID p = [] \<or> UserID p = [] \<or> prof_id profile0 = [] \<or> prof_version profile0 < 1 then
        (Inl (ErrText ''tenant, user, profile_id and positive version are required''), s)
      else let profile = profile0\<lparr>prof_ref := prof_id profile0 @ ''@'' @ itoa_int (prof_version profile0),
                                  prof_spec := cloneMap (prof_spec profile0)\<rparr> in
        case projection d of
          Some pr \<Rightarrow> (case pRegisterProfile pr (world s) now p profile of (r, w) \<Rightarrow> (r, s\<lparr>world := w\<rparr>))
        | None \<Rightarrow>
            let profile = profile\<lparr>prof_created := now\<rparr>; known = tenant_profiles (svc s) (TenantID p) in
            case map_of known (prof_ref profile) of
              Some existing \<Rightarrow>
                if \<not> jsonEqual (prof_spec existing) (prof_spec profile) then (Inl ErrIdempotencyConflict, s)
                else (Inr existing, s)
            | None \<Rightarrow> (Inr profile, s\<lparr>svc := (svc s)\<lparr>s_profiles :=
                AList.update (TenantID p) (AList.update (prof_ref profile) profile known) (s_profiles (svc s))\<rparr>\<rparr>))"

definition clone_spec :: "Profile \<Rightarrow> Profile" where
  "clone_spec profile = profile\<lparr>prof_spec := cloneMap (prof_spec profile)\<rparr>"

definition svc_ListProfiles :: "('c, 'w) deps \<Rightarrow> ('c, 'w) sys \<Rightarrow> Principal \<Rightarrow> Profile list result" where
  "svc_ListProfiles d s p =
     (case projection d of
        Some pr \<Rightarrow> pListProfiles pr (world s) p
      | None \<Rightarrow> Inr (map (clone_spec \<circ> snd) (tenant_profiles (svc s) (TenantID p))))"

definition svc_GetProfile :: "('c, 'w) deps \<Rightarrow> ('c, 'w) sys \<Rightarrow> Principal \<Rightarrow> string \<Rightarrow> Profile result" where
  "svc_GetProfile d s p ref =
     (case projection d of
        Some pr \<Rightarrow> pGetProfile pr (world s) p ref
      | None \<Rightarrow>
          (case map_of (tenant_profiles (svc s) (TenantID p)) ref of
             None \<Rightarrow> Inl ErrNotFound
           | Some profile \<Rightarrow> Inr (clone_spec profile)))"

definition svc_ProfileFiles :: "('c, 'w) deps \<Rightarrow> ('c, 'w) sys \<Rightarrow> Principal \<Rightarrow> string \<Rightarrow> ProfileFile list result" where
  "svc_ProfileFiles d s p ref =
     (case projection d of
        Some pr \<Rightarrow> (case pProfileFiles pr of None \<Rightarrow> Inr [] | Some read \<Rightarrow> read (world s) p ref)
      | None \<Rightarrow>
          (case map_of (tenant_profiles (svc s) (TenantID p)) ref of
             None \<Rightarrow> Inl ErrNotFound
           | Some profile \<Rightarrow> Inr (prof_files profile)))"

definition PersonaProfileRef :: "string \<Rightarrow> string" where
  "PersonaProfileRef i = ''persona_'' @ i @ ''@1''"

section \<open>Manifests\<close>

definition svc_Manifests :: "('c, 'w) deps \<Rightarrow> ('c, 'w) sys \<Rightarrow> Principal \<Rightarrow> string
    \<Rightarrow> ArtifactManifest list result \<times> ('c, 'w) sys" where
  "svc_Manifests d s p taskID =
     (case svc_Get d s p taskID of
        (Inl e, s1) \<Rightarrow> (Inl e, s1)
      | (Inr _, s1) \<Rightarrow>
          (case projection d of
             Some pr \<Rightarrow> (pListManifests pr (world s1) p taskID, s1)
           | None \<Rightarrow> (Inr (filter (\<lambda>m. am_task m = taskID) (map snd (s_manifests (svc s1)))), s1)))"

definition svc_GetManifest :: "('c, 'w) deps \<Rightarrow> ('c, 'w) sys \<Rightarrow> Principal \<Rightarrow> string
    \<Rightarrow> ArtifactManifest result \<times> ('c, 'w) sys" where
  "svc_GetManifest d s p manifestID =
     (case projection d of
        Some pr \<Rightarrow> (pGetManifest pr (world s) p manifestID, s)
      | None \<Rightarrow>
          (case map_of (s_manifests (svc s)) manifestID of
             None \<Rightarrow> (Inl ErrNotFound, s)
           | Some m \<Rightarrow>
               (case svc_Get d s p (am_task m) of
                  (Inl e, s1) \<Rightarrow> (Inl e, s1)
                | (Inr _, s1) \<Rightarrow> (Inr m, s1))))"

definition svc_PresignArtifact :: "('c, 'w) deps \<Rightarrow> ('c, 'w) sys \<Rightarrow> Principal \<Rightarrow> string \<Rightarrow> string
    \<Rightarrow> string result \<times> ('c, 'w) sys" where
  "svc_PresignArtifact d s p manifestID name =
     (case artifactSigner d of
        None \<Rightarrow> (Inl (ErrText ''artifact storage is not configured''), s)
      | Some sign \<Rightarrow>
          (case svc_GetManifest d s p manifestID of
             (Inl e, s1) \<Rightarrow> (Inl e, s1)
           | (Inr m, s1) \<Rightarrow>
               (case find (\<lambda>entry. str_or_empty entry ''name'' = name) (am_entries m) of
                  None \<Rightarrow> (Inl ErrNotFound, s1)
                | Some entry \<Rightarrow> (sign (world s1) p m entry, s1))))"

section \<open>A version is written once\<close>

definition profile_ref :: "Profile \<Rightarrow> string" where
  "profile_ref profile = prof_id profile @ ''@'' @ itoa_int (prof_version profile)"

definition registrable :: "Principal \<Rightarrow> Profile \<Rightarrow> bool" where
  "registrable p profile \<longleftrightarrow> TenantID p \<noteq> [] \<and> UserID p \<noteq> [] \<and> prof_id profile \<noteq> [] \<and> prof_version profile \<ge> 1"

definition kept :: "('c, 'w) sys \<Rightarrow> string \<Rightarrow> string \<Rightarrow> Profile option" where
  "kept s t ref = map_of (tenant_profiles (svc s) t) ref"

lemma RegisterProfile_local:
  assumes "projection d = None" "registrable p profile"
  shows "svc_RegisterProfile d s now p profile =
    (case kept s (TenantID p) (profile_ref profile) of
       Some existing \<Rightarrow> (if jsonEqual (prof_spec existing) (prof_spec profile) then Inr existing
                         else Inl ErrIdempotencyConflict, s)
     | None \<Rightarrow>
         let stored = profile\<lparr>prof_ref := profile_ref profile, prof_spec := cloneMap (prof_spec profile), prof_created := now\<rparr>
         in (Inr stored, s\<lparr>svc := (svc s)\<lparr>s_profiles := AList.update (TenantID p)
              (AList.update (profile_ref profile) stored (tenant_profiles (svc s) (TenantID p))) (s_profiles (svc s))\<rparr>\<rparr>))"
  using assms
  by (auto simp: svc_RegisterProfile_def registrable_def kept_def profile_ref_def Let_def jsonEqual_def cloneMap_def json_obj_idem
      split: option.splits)

lemma RegisterProfile_stores:
  assumes "projection d = None" and ok: "svc_RegisterProfile d s now p profile = (Inr stored, s1)"
  shows "kept s1 (TenantID p) (profile_ref profile) = Some stored \<and> jsonEqual (prof_spec stored) (prof_spec profile)"
proof -
  have "registrable p profile"
    using ok by (auto simp: svc_RegisterProfile_def registrable_def split: if_splits)
  with assms RegisterProfile_local [of d p profile s now] show ?thesis
    by (auto simp: Let_def kept_def tenant_profiles_def jsonEqual_def cloneMap_def json_obj_idem split: option.splits if_splits)
qed

lemma RegisterProfile_keeps:
  assumes "projection d = None" and st: "kept s t ref = Some stored"
  shows "kept (snd (svc_RegisterProfile d s now p profile)) t ref = Some stored"
proof (cases "registrable p profile")
  case True
  with assms RegisterProfile_local [of d p profile s now] show ?thesis
    by (cases "kept s (TenantID p) (profile_ref profile)") (auto simp: Let_def kept_def tenant_profiles_def)
next
  case False
  with st show ?thesis by (auto simp: svc_RegisterProfile_def registrable_def)
qed

text \<open>A profile version is immutable: once \<open>RegisterProfile\<close> stored it, and after any further
  registrations by anyone, registering that id and version again in the tenant gives back what was
  stored if the spec is the same JSON, and is a conflict otherwise, and changes nothing.\<close>

theorem profile_version_immutable:
  assumes "projection d = None" and "svc_RegisterProfile d s now p profile = (Inr stored, s1)"
    and "registrable p' profile'" "TenantID p' = TenantID p" "profile_ref profile' = profile_ref profile"
  shows "svc_RegisterProfile d (fold (\<lambda>(n, q, x) u. snd (svc_RegisterProfile d u n q x)) others s1) now' p' profile' =
    (if jsonEqual (prof_spec profile') (prof_spec profile) then Inr stored else Inl ErrIdempotencyConflict,
     fold (\<lambda>(n, q, x) u. snd (svc_RegisterProfile d u n q x)) others s1)"
proof -
  have st: "kept s1 (TenantID p) (profile_ref profile) = Some stored" "jsonEqual (prof_spec stored) (prof_spec profile)"
    using RegisterProfile_stores [OF assms(1,2)] by auto
  have "kept (fold (\<lambda>(n, q, x) u. snd (svc_RegisterProfile d u n q x)) others u) (TenantID p) (profile_ref profile) = Some stored"
    if "kept u (TenantID p) (profile_ref profile) = Some stored" for u
    using that by (induction others arbitrary: u) (auto simp: RegisterProfile_keeps [OF assms(1)])
  with st show ?thesis
    by (auto simp: RegisterProfile_local [OF assms(1,3)] assms(4,5) jsonEqual_def)
qed

definition bare_profile :: "string \<Rightarrow> obj \<Rightarrow> Profile" where
  "bare_profile i spec = \<lparr>prof_id = i, prof_version = 1, prof_ref = [], prof_spec = spec, prof_created = 0, prof_files = []\<rparr>"

theorem profile_version_immutable_witness:
  "\<exists>s1. svc_RegisterProfile sample_deps s1 9 \<lparr>TenantID = ''t'', UserID = ''v''\<rparr> (bare_profile ''e'' [(''x'', Null)]) =
     (Inl ErrIdempotencyConflict, s1)"
proof -
  have none: "projection sample_deps = None" by (simp add: sample_deps_def)
  have "registrable \<lparr>TenantID = ''t'', UserID = ''u''\<rparr> (bare_profile ''e'' [])"
    "kept sample_sys ''t'' (profile_ref (bare_profile ''e'' [])) = None"
    by (simp_all add: registrable_def bare_profile_def kept_def sample_sys_def NewService_def tenant_profiles_def)
  then obtain stored s1 where s1:
    "svc_RegisterProfile sample_deps sample_sys 5 \<lparr>TenantID = ''t'', UserID = ''u''\<rparr> (bare_profile ''e'' []) = (Inr stored, s1)"
    by (simp add: RegisterProfile_local [OF none] Let_def)
  have "registrable \<lparr>TenantID = ''t'', UserID = ''v''\<rparr> (bare_profile ''e'' [(''x'', Null)])"
    "profile_ref (bare_profile ''e'' [(''x'', Null)]) = profile_ref (bare_profile ''e'' [])"
    "\<not> jsonEqual [(''x'', Null)] []"
    by (simp_all add: registrable_def bare_profile_def profile_ref_def jsonEqual_def json_obj_def)
  from profile_version_immutable [OF none s1 this(1) _ this(2), of "[]" 9] this(3)
  show ?thesis by (auto simp: bare_profile_def)
qed

end
