(* ===== verification/Service_Commands.thy ===== *)
theory Service_Commands
  imports Service_Events Service_Records Pg_Ledger
begin

text \<open>
  Commands on a task: \<open>internal/task/commands.go\<close>, the configuration calls of \<open>config.go\<close>, the
  mention check of \<open>mentions.go\<close> and what a command changes in the cached task
  (\<open>projection_apply.go\<close>). \<open>UpdateChecked\<close> runs a command under its idempotency key: claim, check,
  workflow call, completion, and the release of the claim on every failure in between.
\<close>

section \<open>What a command changes locally\<close>

definition touch_task :: "string \<Rightarrow> (Task \<Rightarrow> Task) \<Rightarrow> 'c service \<Rightarrow> 'c service" where
  "touch_task i f sv =
     (case map_of (s_tasks sv) i of None \<Rightarrow> sv | Some t \<Rightarrow> sv\<lparr>s_tasks := AList.update i (f t) (s_tasks sv)\<rparr>)"

definition control_status :: "string \<Rightarrow> string \<Rightarrow> string" where
  "control_status action status =
     (if action = ''cancel'' then ''CANCELLED'' else if action = ''pause'' then ''PAUSED''
      else if action = ''resume'' then ''RUNNING'' else status)"

definition applyLocalUpdate :: "('c, 'w) deps \<Rightarrow> ('c, 'w) sys \<Rightarrow> time \<Rightarrow> string \<Rightarrow> string \<Rightarrow> goval \<Rightarrow> ('c, 'w) sys" where
  "applyLocalUpdate d s now i name payload =
     (let known = has_key (s_tasks (svc s)) i;
          s1 = s\<lparr>svc := touch_task i (\<lambda>t.
            (if name = ''control'' then
               case payload of
                 Obj m \<Rightarrow> t\<lparr>t_status := control_status (str_or_empty m ''action'') (t_status t)\<rparr>
               | _ \<Rightarrow> t
             else t)\<lparr>t_updated := now\<rparr>) (svc s)\<rparr>
      in if known \<and> name = ''sendMessage'' \<and> payload \<noteq> Null
         then snd (appendEvent d s1 now i ''message.user'' ''control'' payload) else s1)"

definition applyUpdateProjection :: "time \<Rightarrow> string \<Rightarrow> string \<Rightarrow> raw \<Rightarrow> 'c service \<Rightarrow> 'c service" where
  "applyUpdateProjection now i name r sv =
     (case as_map r of
        None \<Rightarrow> sv
      | Some body \<Rightarrow> touch_task i (\<lambda>t.
          let t1 = (if name = ''control'' then
                      case str_field body ''status'' of None \<Rightarrow> t | Some status \<Rightarrow> t\<lparr>t_status := status\<rparr>
                    else t);
              t2 = (case num_field body ''plan_version'' of None \<Rightarrow> t1 | Some v \<Rightarrow> t1\<lparr>t_plan_version := go_int v\<rparr>)
          in t2\<lparr>t_updated := now\<rparr>) sv)"

section \<open>Configuration\<close>

definition member_name :: "('c, 'w) deps \<Rightarrow> ('c, 'w) sys \<Rightarrow> Principal \<Rightarrow> ConfigTeamMember \<Rightarrow> ConfigTeamMember" where
  "member_name d s p m =
     (case svc_GetProfile d s p (mem_expert m) of
        Inl _ \<Rightarrow> m
      | Inr profile \<Rightarrow> m\<lparr>mem_name := str_or_empty (prof_spec profile) ''name''\<rparr>)"

definition withMemberNames :: "('c, 'w) deps \<Rightarrow> ('c, 'w) sys \<Rightarrow> Principal \<Rightarrow> ConfigView \<Rightarrow> ConfigView" where
  "withMemberNames d s p view =
     view\<lparr>cv_team := map_option (\<lambda>t. t\<lparr>team_members := map (member_name d s p) (team_members t)\<rparr>) (cv_team view)\<rparr>"

definition empty_config :: ConfigInput where
  "empty_config = \<lparr>ci_expert = [], ci_skills = None, ci_model = [], ci_connectors = None, ci_mode = ''default'',
     ci_permissions = None, ci_team = None\<rparr>"

definition svc_TaskConfig :: "('c, 'w) deps \<Rightarrow> ('c, 'w) sys \<Rightarrow> Principal \<Rightarrow> string \<Rightarrow> ConfigView result \<times> ('c, 'w) sys" where
  "svc_TaskConfig d s p i =
     (case svc_Get d s p i of
        (Inl e, s1) \<Rightarrow> (Inl e, s1)
      | (Inr _, s1) \<Rightarrow>
          (case orch d of
             Some oc \<Rightarrow>
               (case oGetTaskView oc (world s1) (TenantID p) i of
                  Inl e \<Rightarrow> (Inl e, s1)
                | Inr view \<Rightarrow> (Inr (withMemberNames d s1 p (configFromWorkflow (sprint d) (v_config view))), s1))
           | None \<Rightarrow>
               (case map_of (s_configs (svc s1)) i of
                  None \<Rightarrow> (Inr (config_view empty_config 1), s1)
                | Some local \<Rightarrow>
                    (Inr (withMemberNames d s1 p (config_view (lc_input local) (lc_version local))), s1))))"

definition config_version :: "'c service \<Rightarrow> string \<Rightarrow> int" where
  "config_version sv i = (case map_of (s_configs sv) i of None \<Rightarrow> 1 | Some local \<Rightarrow> lc_version local)"

definition applyLocalConfig :: "(goval \<Rightarrow> string) \<Rightarrow> 'c service \<Rightarrow> string \<Rightarrow> int \<Rightarrow> obj \<Rightarrow> unit result \<times> 'c service" where
  "applyLocalConfig spr sv i base payload =
     (let current = config_version sv i in
      if base \<noteq> current then (Inl ErrConfigConflict, sv)
      else (Inr (), sv\<lparr>s_configs := AList.update i
              \<lparr>lc_version = current + 1, lc_input = localInput spr payload\<rparr> (s_configs sv)\<rparr>))"

definition config_result :: "int \<Rightarrow> raw" where
  "config_result version =
     Some (Obj [(''config_version'', Float (of_int version)), (''effective'', Str ''next_attempt'')])"

definition runConfigUpdate :: "('c, 'w) deps \<Rightarrow> ('c, 'w) sys \<Rightarrow> Principal \<Rightarrow> string \<Rightarrow> string \<Rightarrow> obj
    \<Rightarrow> raw result \<times> ('c, 'w) sys" where
  "runConfigUpdate d s p i commandID payload =
     (let base = (case int_field payload ''base_config_version'' of None \<Rightarrow> 0 | Some b \<Rightarrow> b) in
      case orch d of
        Some oc \<Rightarrow>
          (case oUpdateTask oc (world s) (TenantID p) i ''updateTaskConfig'' commandID (Obj payload) of
             (Inl e, w) \<Rightarrow> (Inl e, s\<lparr>world := w\<rparr>)
           | (Inr _, w) \<Rightarrow> (Inr (config_result (base + 1)), s\<lparr>world := w\<rparr>))
      | None \<Rightarrow>
          (case applyLocalConfig (sprint d) (svc s) i base payload of
             (Inl e, sv) \<Rightarrow> (Inl e, s\<lparr>svc := sv\<rparr>)
           | (Inr _, sv) \<Rightarrow> (Inr (config_result (base + 1)), s\<lparr>svc := sv\<rparr>)))"

section \<open>Running a command once\<close>

definition workflow_update :: "('c, 'w) deps \<Rightarrow> ('c, 'w) sys \<Rightarrow> time \<Rightarrow> Principal \<Rightarrow> string \<Rightarrow> string \<Rightarrow> string \<Rightarrow> goval
    \<Rightarrow> raw result \<times> ('c, 'w) sys" where
  "workflow_update d s now p i name commandID payload =
     (case orch d of
        Some oc \<Rightarrow>
          (case oUpdateTask oc (world s) (TenantID p) i name commandID payload of
             (Inl e, w) \<Rightarrow> (Inl e, s\<lparr>world := w\<rparr>)
           | (Inr r, w) \<Rightarrow> (Inr r, s\<lparr>svc := applyUpdateProjection now i name r (svc s), world := w\<rparr>))
      | None \<Rightarrow> (Inr (Some (Obj [(''accepted'', BoolV True)])), applyLocalUpdate d s now i name payload))"

definition runUpdate :: "('c, 'w) deps \<Rightarrow> ('c, 'w) sys \<Rightarrow> time \<Rightarrow> Principal \<Rightarrow> string \<Rightarrow> string \<Rightarrow> string \<Rightarrow> goval
    \<Rightarrow> raw result \<times> ('c, 'w) sys" where
  "runUpdate d s now p i name commandID payload =
     (case payload of
        Obj config \<Rightarrow>
          if name = ''updateTaskConfig'' then runConfigUpdate d s p i commandID config
          else workflow_update d s now p i name commandID payload
      | _ \<Rightarrow> workflow_update d s now p i name commandID payload)"

definition releaseCommand :: "('c, 'w) deps \<Rightarrow> ('c, 'w) sys \<Rightarrow> time \<Rightarrow> string \<Rightarrow> string \<Rightarrow> string \<Rightarrow> ('c, 'w) sys" where
  "releaseCommand d s now tenantID key owner =
     s\<lparr>world := snd (ReleaseCommand (ledger d) (world s) now tenantID key owner)\<rparr>"

type_synonym ('c, 'w) checker = "('c, 'w) sys \<Rightarrow> err option \<times> ('c, 'w) sys"

definition no_check :: "('c, 'w) checker" where
  "no_check s = (None, s)"

text \<open>The part after the claim: the check, the call, and the completion.\<close>

definition run_claimed :: "('c, 'w) deps \<Rightarrow> ('c, 'w) sys \<Rightarrow> time \<Rightarrow> string \<Rightarrow> Principal \<Rightarrow> string \<Rightarrow> string \<Rightarrow> string
    \<Rightarrow> goval \<Rightarrow> ('c, 'w) checker \<Rightarrow> raw result \<times> ('c, 'w) sys" where
  "run_claimed d s now owner p i name commandID payload check =
     (let key = commandKey (TenantID p) i commandID in
      case check s of
        (Some e, s1) \<Rightarrow> (Inl e, releaseCommand d s1 now (TenantID p) key owner)
      | (None, s1) \<Rightarrow>
          (case runUpdate d s1 now p i name commandID payload of
             (Inl e, s2) \<Rightarrow> (Inl (mapOrchErr e), releaseCommand d s2 now (TenantID p) key owner)
           | (Inr r, s2) \<Rightarrow>
               (case CompleteCommand (ledger d) (world s2) now (TenantID p) key owner r of
                  (Inl e, w) \<Rightarrow> (Inl e, releaseCommand d (s2\<lparr>world := w\<rparr>) now (TenantID p) key owner)
                | (Inr _, w) \<Rightarrow> (Inr r, s2\<lparr>world := w\<rparr>))))"

definition UpdateChecked :: "('c, 'w) deps \<Rightarrow> ('c, 'w) sys \<Rightarrow> time \<Rightarrow> string \<Rightarrow> Principal \<Rightarrow> string \<Rightarrow> string \<Rightarrow> string
    \<Rightarrow> goval \<Rightarrow> ('c, 'w) checker \<Rightarrow> raw result \<times> ('c, 'w) sys" where
  "UpdateChecked d s now owner p i name commandID payload check =
     (case svc_Get d s p i of
        (Inl e, s1) \<Rightarrow> (Inl e, s1)
      | (Inr t, s1) \<Rightarrow>
          if isClosed (t_status t) \<and> (name = ''sendMessage'' \<or> name = ''updateTaskConfig'') then (Inl ErrClosed, s1)
          else
            (case ClaimCommand (ledger d) (world s1) now (TenantID p) (commandKey (TenantID p) i commandID)
                    (command_hash d name payload) owner commandLease of
               (Inl e, w) \<Rightarrow> (Inl e, s1\<lparr>world := w\<rparr>)
             | (Inr (Replay stored), w) \<Rightarrow> (Inr stored, s1\<lparr>world := w\<rparr>)
             | (Inr Claimed, w) \<Rightarrow> run_claimed d (s1\<lparr>world := w\<rparr>) now owner p i name commandID payload check))"

definition Update :: "('c, 'w) deps \<Rightarrow> ('c, 'w) sys \<Rightarrow> time \<Rightarrow> string \<Rightarrow> Principal \<Rightarrow> string \<Rightarrow> string \<Rightarrow> string
    \<Rightarrow> goval \<Rightarrow> raw result \<times> ('c, 'w) sys" where
  "Update d s now owner p i name commandID payload =
     UpdateChecked d s now owner p i name commandID payload no_check"

definition svc_Signal :: "('c, 'w) deps \<Rightarrow> ('c, 'w) sys \<Rightarrow> Principal \<Rightarrow> string \<Rightarrow> string \<Rightarrow> goval
    \<Rightarrow> unit result \<times> ('c, 'w) sys" where
  "svc_Signal d s p i name payload =
     (case svc_Get d s p i of
        (Inl e, s1) \<Rightarrow> (Inl e, s1)
      | (Inr _, s1) \<Rightarrow>
          (case orch d of
             None \<Rightarrow> (Inr (), s1)
           | Some oc \<Rightarrow>
               (case oSignalTask oc (world s1) (TenantID p) i name payload of (r, w) \<Rightarrow> (r, s1\<lparr>world := w\<rparr>))))"

definition decode_config_result :: "raw \<Rightarrow> ConfigUpdateResult result" where
  "decode_config_result r =
     (case as_map r of
        None \<Rightarrow> Inl (ErrText ''decode config update result'')
      | Some m \<Rightarrow>
          (case (decode_int 0 (map_of m ''config_version''), decode_str (map_of m ''effective'')) of
             (Some v, Some e) \<Rightarrow> Inr \<lparr>cu_version = v, cu_effective = e\<rparr>
           | _ \<Rightarrow> Inl (ErrText ''decode config update result'')))"

definition UpdateTaskConfig :: "('c, 'w) deps \<Rightarrow> ('c, 'w) sys \<Rightarrow> time \<Rightarrow> string \<Rightarrow> Principal \<Rightarrow> string \<Rightarrow> string \<Rightarrow> int
    \<Rightarrow> ConfigInput \<Rightarrow> ConfigUpdateResult result \<times> ('c, 'w) sys" where
  "UpdateTaskConfig d s now owner p i commandID base c =
     (case config_normalized c of
        Inl e \<Rightarrow> (Inl e, s)
      | Inr c' \<Rightarrow>
          (case Update d s now owner p i ''updateTaskConfig'' commandID (Obj (configPayload commandID base c')) of
             (Inl e, s1) \<Rightarrow> (Inl e, s1)
           | (Inr r, s1) \<Rightarrow> (decode_config_result r, s1)))"

definition CheckMentions :: "('c, 'w) deps \<Rightarrow> Principal \<Rightarrow> string \<Rightarrow> string list \<Rightarrow> ('c, 'w) checker" where
  "CheckMentions d p i mentions s =
     (if mentions = [] then (None, s)
      else case svc_TaskConfig d s p i of
        (Inl e, s1) \<Rightarrow> (Some e, s1)
      | (Inr view, s1) \<Rightarrow> (check_team_mentions view mentions, s1))"

section \<open>Once per command id\<close>

text \<open>
  What a command relies on: a durable ledger, and a workflow client whose calls leave the ledger's
  rows alone. A check only has to do the same.
\<close>

definition ledger_safe :: "('w \<Rightarrow> bool) \<Rightarrow> ('w \<Rightarrow> string \<Rightarrow> bool) \<Rightarrow> ('w \<Rightarrow> string \<Rightarrow> string \<Rightarrow> cmd_state) \<Rightarrow> 'w \<Rightarrow> 'w \<Rightarrow> bool" where
  "ledger_safe linv admits cmd w w' \<longleftrightarrow> linv w \<longrightarrow> linv w' \<and> admits w' = admits w \<and> cmd w' = cmd w"

locale command_service = durable_ledger "ledger d" cmd linv admits expired
  for d :: "('c, 'w) deps" and cmd linv admits expired +
  fixes oc :: "'w task_client"
  assumes orch_client: "orch d = Some oc"
    and orch_safe: "ledger_safe linv admits cmd w (snd (oUpdateTask oc w t i n c x))"
begin

definition check_safe :: "('c, 'w) checker \<Rightarrow> bool" where
  "check_safe check \<longleftrightarrow> (\<forall>s. ledger_safe linv admits cmd (world s) (world (snd (check s))))"

lemma runUpdate_safe: "ledger_safe linv admits cmd (world s) (world (snd (runUpdate d s now p i name c x)))"
proof -
  have "ledger_safe linv admits cmd (world s) (world (snd (workflow_update d s now p i name c x)))"
    using orch_safe [of "world s" "TenantID p" i name c x]
    by (auto simp: workflow_update_def orch_client split: prod.splits sum.splits)
  moreover have "ledger_safe linv admits cmd (world s) (world (snd (runConfigUpdate d s p i c m)))" for m
    using orch_safe [of "world s" "TenantID p" i "''updateTaskConfig''" c "Obj m"]
    by (auto simp: runConfigUpdate_def orch_client Let_def split: prod.splits sum.splits)
  ultimately show ?thesis by (cases x) (simp_all add: runUpdate_def)
qed

lemma Get_world: "svc_Get d s p i = (r, s1) \<Longrightarrow> world s1 = world s"
  by (auto simp: svc_Get_def cacheTask_def split: option.splits sum.splits if_splits)

text \<open>The claim is still the owner's when the call has returned.\<close>

lemma run_claimed_ok:
  assumes "linv (world s)" "admits (world s) (TenantID p)" "owner \<noteq> []" "check_safe check"
    and st: "cmd (world s) (TenantID p) (commandKey (TenantID p) i c) = Started h (Some owner) seen"
    and ok: "run_claimed d s now owner p i name c x check = (Inr r, s1)" and "r \<noteq> None"
  shows "linv (world s1) \<and> admits (world s1) = admits (world s) \<and>
    cmd (world s1) (TenantID p) (commandKey (TenantID p) i c) = Succeeded h r"
proof -
  define k where "k = commandKey (TenantID p) i c"
  obtain s2 where chk: "check s = (None, s2)"
    using ok by (auto simp: run_claimed_def Let_def split: option.splits prod.splits)
  then have s2: "linv (world s2)" "admits (world s2) = admits (world s)" "cmd (world s2) = cmd (world s)"
    using assms(1,4) unfolding check_safe_def ledger_safe_def by (metis snd_conv)+
  obtain r' s3 where run: "runUpdate d s2 now p i name c x = (Inr r', s3)"
    using ok chk by (auto simp: run_claimed_def Let_def split: sum.splits prod.splits)
  then have s3: "linv (world s3)" "admits (world s3) = admits (world s)" "cmd (world s3) = cmd (world s)"
    using runUpdate_safe [of s2 now p i name c x] s2 unfolding ledger_safe_def by auto
  obtain u w where comp: "CompleteCommand (ledger d) (world s3) now (TenantID p) k owner r' = (Inr u, w)"
    and r: "r' = r" "s1 = s3\<lparr>world := w\<rparr>"
    using ok chk run by (auto simp: run_claimed_def Let_def k_def split: sum.splits prod.splits)
  have "cmd w (TenantID p) k = spec_complete owner r (cmd (world s3) (TenantID p) k)"
    using complete_cmd [OF s3(1) _ assms(3) _ comp] s3(2) assms(2,7) r(1) by simp
  moreover have "linv w \<and> admits w = admits (world s3)" using complete_inv [OF s3(1) comp] .
  ultimately show ?thesis using s3 st r(2) by (simp add: k_def)
qed

lemma UpdateChecked_stored:
  assumes "linv (world s)" "admits (world s) (TenantID p)" "owner \<noteq> []" "check_safe check"
    and ok: "UpdateChecked d s now owner p i name c x check = (Inr r, s1)" and "r \<noteq> None"
  shows "linv (world s1) \<and> admits (world s1) = admits (world s) \<and>
    cmd (world s1) (TenantID p) (commandKey (TenantID p) i c) = Succeeded (command_hash d name x) r"
proof -
  define k where "k = commandKey (TenantID p) i c"
  have k: "k \<noteq> []" by (simp add: k_def commandKey_def)
  obtain t s2 where g: "svc_Get d s p i = (Inr t, s2)"
    using ok by (auto simp: UpdateChecked_def split: sum.splits prod.splits)
  then have w2: "world s2 = world s" by (rule Get_world)
  obtain cl w where claim: "ClaimCommand (ledger d) (world s2) now (TenantID p) k (command_hash d name x) owner commandLease = (Inr cl, w)"
    using ok g by (auto simp: UpdateChecked_def k_def split: sum.splits prod.splits if_splits)
  have lw: "linv w" "admits w = admits (world s)" using claim_inv [OF _ claim] assms(1) w2 by auto
  have spec: "(Inr cl, cmd w (TenantID p) k) = spec_claim expired now (command_hash d name x) owner commandLease (cmd (world s) (TenantID p) k)"
    using claim_cmd [OF _ _ k assms(3) claim] assms(1,2) w2 by simp
  show ?thesis
  proof (cases cl)
    case (Replay stored)
    then have "s1 = s2\<lparr>world := w\<rparr>" "stored = r"
      using ok g claim by (auto simp: UpdateChecked_def k_def split: if_splits)
    with spec Replay lw show ?thesis
      by (cases "cmd (world s) (TenantID p) k") (auto simp: k_def split: if_splits)
  next
    case Claimed
    then have "run_claimed d (s2\<lparr>world := w\<rparr>) now owner p i name c x check = (Inr r, s1)"
      using ok g claim by (auto simp: UpdateChecked_def k_def split: if_splits)
    moreover have "cmd w (TenantID p) k = Started (command_hash d name x) (Some owner) now"
      using spec Claimed by (cases "cmd (world s) (TenantID p) k") (auto split: if_splits)
    ultimately show ?thesis
      using run_claimed_ok [of "s2\<lparr>world := w\<rparr>" p owner check i c "command_hash d name x" now now name x r s1]
        assms lw by (simp add: k_def)
  qed
qed

text \<open>With the command recorded, a request is answered from the record, or refused: nothing runs.\<close>

lemma UpdateChecked_replay:
  assumes "linv (world s)" "admits (world s) (TenantID p)" "owner \<noteq> []"
    and st: "cmd (world s) (TenantID p) (commandKey (TenantID p) i c) = Succeeded h r"
    and g: "svc_Get d s p i = (Inr t, s1)" "\<not> isClosed (t_status t)"
  shows "UpdateChecked d s now owner p i name c x check =
    (if command_hash d name x = h then Inr r else Inl ErrIdempotencyConflict,
     s1\<lparr>world := snd (ClaimCommand (ledger d) (world s) now (TenantID p) (commandKey (TenantID p) i c)
        (command_hash d name x) owner commandLease)\<rparr>)"
proof -
  have k: "commandKey (TenantID p) i c \<noteq> []" by (simp add: commandKey_def)
  obtain cl w where claim: "ClaimCommand (ledger d) (world s) now (TenantID p) (commandKey (TenantID p) i c)
      (command_hash d name x) owner commandLease = (cl, w)" by force
  with claim_cmd [OF assms(1,2) k assms(3) claim] st
  have "cl = (if command_hash d name x = h then Inr (Replay r) else Inl ErrIdempotencyConflict)"
    by (auto split: if_splits)
  with claim g Get_world [OF g(1)] show ?thesis by (simp add: UpdateChecked_def)
qed

lemma once:
  assumes "linv (world s)" "admits (world s) (TenantID p)" "owner \<noteq> []" "owner' \<noteq> []" "check_safe check"
    and ok: "UpdateChecked d s now owner p i name c x check = (Inr r, s1)" "r \<noteq> None"
    and later: "world s2 = ledger_run (ledger d) (world s1) steps"
    and g: "svc_Get d s2 p i = (Inr t, s3)" "\<not> isClosed (t_status t)"
  shows "UpdateChecked d s2 now' owner' p i name' c x' check' =
    (if command_hash d name' x' = command_hash d name x then Inr r else Inl ErrIdempotencyConflict,
     s3\<lparr>world := snd (ClaimCommand (ledger d) (world s2) now' (TenantID p) (commandKey (TenantID p) i c)
        (command_hash d name' x') owner' commandLease)\<rparr>)"
proof -
  have s1: "linv (world s1)" "admits (world s1) = admits (world s)"
    "cmd (world s1) (TenantID p) (commandKey (TenantID p) i c) = Succeeded (command_hash d name x) r"
    using UpdateChecked_stored [OF assms(1-3,5) ok] by auto
  have "linv (world s2)" "admits (world s2) (TenantID p)"
    "cmd (world s2) (TenantID p) (commandKey (TenantID p) i c) = Succeeded (command_hash d name x) r"
    using run_inv [OF s1(1)] run_succeeded [OF s1(1,3)] later s1(2) assms(2) by auto
  then show ?thesis by (rule UpdateChecked_replay [OF _ _ assms(4) _ g])
qed

end

text \<open>A command that failed, in its check or in the workflow, can be sent again at once.\<close>

context command_service
begin

lemma runUpdate_json:
  assumes "\<And>w t n y r w'. oUpdateTask oc w t i n c y = (Inr r, w') \<Longrightarrow> r \<noteq> None"
    and "runUpdate d s now p i name c x = (Inr r, s1)"
  shows "r \<noteq> None"
proof -
  have w: "r \<noteq> None" if "workflow_update d s now p i name c x = (Inr r, s1)"
    using that assms(1) by (auto simp: workflow_update_def orch_client split: prod.splits sum.splits)
  have m: "r \<noteq> None" if "runConfigUpdate d s p i c m = (Inr r, s1)" for m
    using that by (auto simp: runConfigUpdate_def config_result_def orch_client Let_def split: prod.splits sum.splits)
  show ?thesis using assms(2) w m by (cases x) (auto simp: runUpdate_def split: if_splits)
qed

lemma release_held:
  assumes "linv (world s)" "admits (world s) (TenantID p)" "owner \<noteq> []"
    and "cmd (world s) (TenantID p) k = Started h (Some owner) seen"
  shows "linv (world (releaseCommand d s now (TenantID p) k owner)) \<and>
    admits (world (releaseCommand d s now (TenantID p) k owner)) = admits (world s) \<and>
    cmd (world (releaseCommand d s now (TenantID p) k owner)) (TenantID p) k = Started h None seen"
proof -
  obtain u w where r: "ReleaseCommand (ledger d) (world s) now (TenantID p) k owner = (u, w)" by force
  show ?thesis
    using release_cmd [OF assms(1-3) r] release_inv [OF assms(1) r] r assms(4) by (simp add: releaseCommand_def)
qed

lemma run_claimed_failed:
  assumes "linv (world s)" "admits (world s) (TenantID p)" "owner \<noteq> []" "check_safe check"
    and json: "\<And>w t n y r w'. oUpdateTask oc w t i n c y = (Inr r, w') \<Longrightarrow> r \<noteq> None"
    and st: "cmd (world s) (TenantID p) (commandKey (TenantID p) i c) = Started h (Some owner) seen"
    and fail: "run_claimed d s now owner p i name c x check = (Inl e, s1)"
  shows "linv (world s1) \<and> admits (world s1) = admits (world s) \<and>
    cmd (world s1) (TenantID p) (commandKey (TenantID p) i c) = Started h None seen"
proof -
  define k where "k = commandKey (TenantID p) i c"
  obtain ce s2 where chk: "check s = (ce, s2)" by force
  then have s2: "linv (world s2)" "admits (world s2) = admits (world s)" "cmd (world s2) = cmd (world s)"
    using assms(1,4) unfolding check_safe_def ledger_safe_def by (metis snd_conv)+
  show ?thesis
  proof (cases ce)
    case (Some e')
    then have "s1 = releaseCommand d s2 now (TenantID p) k owner"
      using fail chk by (simp add: run_claimed_def Let_def k_def)
    then show ?thesis using release_held [of s2 p owner k h seen now] s2 assms(2,3) st by (simp add: k_def)
  next
    case None
    obtain r s3 where run: "runUpdate d s2 now p i name c x = (r, s3)" by force
    then have s3: "linv (world s3)" "admits (world s3) = admits (world s)" "cmd (world s3) = cmd (world s)"
      using runUpdate_safe [of s2 now p i name c x] s2 unfolding ledger_safe_def by auto
    show ?thesis
    proof (cases r)
      case (Inl e')
      then have "s1 = releaseCommand d s3 now (TenantID p) k owner"
        using fail chk None run by (simp add: run_claimed_def Let_def k_def)
      then show ?thesis using release_held [of s3 p owner k h seen now] s3 assms(2,3) st by (simp add: k_def)
    next
      case (Inr res)
      have "res \<noteq> None"
        by (rule runUpdate_json [of i c s2 now p name x res s3]) (use json run Inr in blast)+
      obtain u w where comp: "CompleteCommand (ledger d) (world s3) now (TenantID p) k owner res = (u, w)" by force
      have "u = Inr ()" using complete_cmd [OF s3(1) _ assms(3) \<open>res \<noteq> None\<close> comp] s3(2) assms(2) by simp
      with fail chk None run Inr comp show ?thesis by (simp add: run_claimed_def Let_def k_def)
    qed
  qed
qed

lemma failed_released:
  assumes "linv (world s)" "admits (world s) (TenantID p)" "owner \<noteq> []" "owner' \<noteq> []" "check_safe check"
    and json: "\<And>w t n y r w'. oUpdateTask oc w t i n c y = (Inr r, w') \<Longrightarrow> r \<noteq> None"
    and st: "cmd (world s) (TenantID p) (commandKey (TenantID p) i c) = Absent"
    and g: "svc_Get d s p i = (Inr t, s0)" "\<not> isClosed (t_status t)"
    and fail: "UpdateChecked d s now owner p i name c x check = (Inl e, s1)"
  shows "fst (ClaimCommand (ledger d) (world s1) now' (TenantID p) (commandKey (TenantID p) i c)
    (command_hash d name x) owner' lease) = Inr Claimed"
proof -
  define k where "k = commandKey (TenantID p) i c"
  have k: "k \<noteq> []" by (simp add: k_def commandKey_def)
  obtain cl w where claim: "ClaimCommand (ledger d) (world s) now (TenantID p) k (command_hash d name x) owner commandLease = (cl, w)"
    by force
  have c: "cl = Inr Claimed" "cmd w (TenantID p) k = Started (command_hash d name x) (Some owner) now"
    using claim_cmd [OF assms(1,2) k assms(3) claim] st by (simp_all add: k_def)
  have w: "linv w" "admits w = admits (world s)" using claim_inv [OF assms(1) claim] by auto
  have "run_claimed d (s0\<lparr>world := w\<rparr>) now owner p i name c x check = (Inl e, s1)"
    using fail g claim c(1) Get_world [OF g(1)] by (simp add: UpdateChecked_def k_def)
  with run_claimed_failed [of "s0\<lparr>world := w\<rparr>" p owner check i c "command_hash d name x" now now name x e s1]
  have s1: "linv (world s1)" "admits (world s1) = admits w" "cmd (world s1) (TenantID p) k = Started (command_hash d name x) None now"
    using assms(2,3,5) json w c(2) by (auto simp: k_def)
  obtain r' w' where c': "ClaimCommand (ledger d) (world s1) now' (TenantID p) k (command_hash d name x) owner' lease = (r', w')" by force
  show ?thesis
    using claim_cmd [OF s1(1) _ k assms(4) c'] s1(2,3) w(2) assms(2) c' by (simp add: k_def)
qed

end

section \<open>The deployment with Postgres\<close>

text \<open>
  The world is the database next to the state \<open>'m\<close> of whatever else there is, the workflows among
  it. A workflow client runs on that part; the ledger is the one of the store.
\<close>

definition on_more :: "'m task_client \<Rightarrow> 'm ledger_db_scheme task_client" where
  "on_more oc =
     \<lparr>oStartTask = \<lambda>w x. case oStartTask oc (ledger_db.more w) x of (r, m) \<Rightarrow> (r, w\<lparr>ledger_db.more := m\<rparr>),
      oGetTaskView = \<lambda>w t i. oGetTaskView oc (ledger_db.more w) t i,
      oGetTaskPlan = \<lambda>w t i. oGetTaskPlan oc (ledger_db.more w) t i,
      oUpdateTask = \<lambda>w t i n c x. case oUpdateTask oc (ledger_db.more w) t i n c x of (r, m) \<Rightarrow> (r, w\<lparr>ledger_db.more := m\<rparr>),
      oSignalTask = \<lambda>w t i n x. case oSignalTask oc (ledger_db.more w) t i n x of (r, m) \<Rightarrow> (r, w\<lparr>ledger_db.more := m\<rparr>)\<rparr>"

definition deployed :: "('c, 'm ledger_db_scheme) deps \<Rightarrow> 'm task_client \<Rightarrow> ('c, 'm ledger_db_scheme) deps" where
  "deployed d oc = d\<lparr>ledger := pg_ledger, orch := Some (on_more oc)\<rparr>"

lemma pg_safe_more: "ledger_safe pg_ledger_inv pg_admits pg_cmd w (w\<lparr>ledger_db.more := m\<rparr>)"
  by (cases w) (auto simp: ledger_safe_def pg_ledger_inv_def pg_admits_def pg_cmd_def fun_eq_iff)

interpretation pg_commands: command_service "deployed d oc" pg_cmd pg_ledger_inv pg_admits pg_expired "on_more oc"
  for d :: "('c, 'm ledger_db_scheme) deps" and oc :: "'m task_client"
proof (intro command_service.intro command_service_axioms.intro)
  show "durable_ledger (ledger (deployed d oc)) pg_cmd pg_ledger_inv pg_admits pg_expired"
    by (simp add: deployed_def pg.durable_ledger_axioms)
  show "orch (deployed d oc) = Some (on_more oc)" by (simp add: deployed_def)
  show "ledger_safe pg_ledger_inv pg_admits pg_cmd w (snd (oUpdateTask (on_more oc) w t i n c x))" for w t i n c x
    by (simp add: on_more_def pg_safe_more split: prod.split)
qed

lemma no_check_safe: "pg_commands.check_safe no_check"
  by (simp add: pg_commands.check_safe_def no_check_def ledger_safe_def)

lemma CheckMentions_world: "world (snd (CheckMentions d p i ms s)) = world s"
  by (auto simp: CheckMentions_def svc_TaskConfig_def svc_Get_def cacheTask_def
      split: sum.splits prod.splits option.splits if_splits)

lemma CheckMentions_safe: "pg_commands.check_safe (CheckMentions d p i ms)"
  by (simp add: pg_commands.check_safe_def CheckMentions_world ledger_safe_def)

section \<open>Properties\<close>


text \<open>A workflow client that counts the updates it is sent, for the witness.\<close>

definition counting_client :: "nat task_client" where
  "counting_client =
     \<lparr>oStartTask = \<lambda>n x. (Inr (startedView x), n), oGetTaskView = \<lambda>_ _ _. Inl ErrNotFound,
      oGetTaskPlan = \<lambda>_ _ _. Inl ErrNotFound, oUpdateTask = \<lambda>n _ _ _ c _. (Inr (acceptedBody c []), n + 1),
      oSignalTask = \<lambda>n _ _ _ _. (Inr (), n)\<rparr>"

definition pg_sample_deps :: "((string \<times> unit) list, nat ledger_db_scheme) deps" where
  "pg_sample_deps =
     \<lparr>ledger = pg_ledger, projection = None, orch = None, cache = lru_list 10, artifactSigner = None,
      command_hash = (\<lambda>n _. n), sprint = (\<lambda>_. []), parse_time = (\<lambda>_. None)\<rparr>"

definition pg_sample_sys :: "((string \<times> unit) list, nat ledger_db_scheme) sys" where
  "pg_sample_sys = \<lparr>svc = svc sample_sys, world = \<lparr>db_tenants = [''t''], db_ledger = [], \<dots> = 0\<rparr>, background = []\<rparr>"

definition sample_principal :: Principal where
  "sample_principal = \<lparr>TenantID = ''t'', UserID = ''u''\<rparr>"

lemma pg_sample_get:
  "map_of (s_tasks (svc s)) ''task_1'' = Some t \<Longrightarrow> owns sample_principal t \<Longrightarrow>
   svc_Get (deployed pg_sample_deps counting_client) s sample_principal ''task_1'' = (Inr (cloneTask t), s)"
  by (simp add: svc_Get_def deployed_def pg_sample_deps_def)

lemma pg_sample_first:
  "\<exists>s1 t. Update (deployed pg_sample_deps counting_client) pg_sample_sys 5 ''o1'' sample_principal ''task_1'' ''sendMessage'' ''c1'' Null
      = (Inr (acceptedBody ''c1'' []), s1) \<and> ledger_db.more (world s1) = 1 \<and>
    map_of (s_tasks (svc s1)) ''task_1'' = Some t \<and> owns sample_principal t \<and> t_status t = ''RUNNING''"
proof -
  have g: "svc_Get (deployed pg_sample_deps counting_client) pg_sample_sys sample_principal ''task_1'' =
      (Inr (cloneTask sample_task), pg_sample_sys)"
    by (rule pg_sample_get) (simp_all add: pg_sample_sys_def sample_sys_def owns_def sample_principal_def sample_task_def)
  show ?thesis
    unfolding Update_def UpdateChecked_def g
    by (simp add: pg_sample_sys_def sample_sys_def sample_task_def cloneTask_def isClosed_def deployed_def pg_sample_deps_def
        pg_claim_def inTenant_def claimLedgerRow_def has_key_def put_ledger_def sample_principal_def commandKey_def
        run_claimed_def no_check_def runUpdate_def workflow_update_def on_more_def counting_client_def
        pg_complete_def ledgerRowScope_def scopeAPICommand_def acceptedBody_def applyUpdateProjection_def as_map_def
        json_obj_def touch_task_def owns_def str_field_def num_field_def Let_def)
qed


text \<open>C2. A command that failed can be sent again at once: when the first request with a command id
  ends in an error, of its check or of the workflow, its claim has been given up, and the next
  request with that id and command is told to run it, whatever the lease.\<close>

theorem failed_command_retries:
  assumes "pg_ledger_inv (world s)" "TenantID p \<noteq> []" "TenantID p \<in> set (db_tenants (world s))" "owner \<noteq> []" "owner' \<noteq> []"
    and "\<And>w t n y r w'. oUpdateTask oc w t i n c y = (Inr r, w') \<Longrightarrow> r \<noteq> None"
    and "pg_cmd (world s) (TenantID p) (commandKey (TenantID p) i c) = Absent"
    and "svc_Get (deployed d oc) s p i = (Inr t, s0)" "\<not> isClosed (t_status t)"
    and "UpdateChecked (deployed d oc) s now owner p i name c x (CheckMentions (deployed d oc) p i ms) = (Inl e, s1)"
  shows "fst (pg_claim (world s1) now' (TenantID p) (commandKey (TenantID p) i c) (command_hash d name x) owner' lease) = Inr Claimed"
proof -
  have "r \<noteq> None" if "oUpdateTask (on_more oc) w t n nm cc y = (Inr r, w')" "n = i" "cc = c" for w t n nm cc y r w'
    using that assms(6) by (auto simp: on_more_def split: prod.splits)
  then have "fst (ClaimCommand (ledger (deployed d oc)) (world s1) now' (TenantID p) (commandKey (TenantID p) i c)
      (command_hash (deployed d oc) name x) owner' lease) = Inr Claimed"
    using assms(1-5,7-10)
    by (intro pg_commands.failed_released [of s p owner owner' "CheckMentions (deployed d oc) p i ms" oc i c d t s0 now name x e s1])
      (auto simp: pg_admits_def deployed_def CheckMentions_safe)
  then show ?thesis by (simp add: deployed_def)
qed

theorem failed_command_retries_witness:
  "\<exists>s1. UpdateChecked (deployed pg_sample_deps counting_client) pg_sample_sys 5 ''o1'' sample_principal ''task_1'' ''sendMessage'' ''c1'' Null
      (CheckMentions (deployed pg_sample_deps counting_client) sample_principal ''task_1'' [''x'']) = (Inl ErrNotFound, s1) \<and>
    fst (pg_claim (world s1) 6 ''t'' (commandKey ''t'' ''task_1'' ''c1'') ''sendMessage'' ''o2'' 60) = Inr Claimed"
proof -
  let ?run = "UpdateChecked (deployed pg_sample_deps counting_client) pg_sample_sys 5 ''o1'' sample_principal ''task_1'' ''sendMessage'' ''c1'' Null
      (CheckMentions (deployed pg_sample_deps counting_client) sample_principal ''task_1'' [''x''])"
  have g: "svc_Get (deployed pg_sample_deps counting_client) s sample_principal ''task_1'' = (Inr (cloneTask sample_task), s)"
    if "svc s = svc sample_sys" for s
    by (rule pg_sample_get) (simp_all add: that sample_sys_def owns_def sample_principal_def sample_task_def)
  have "fst ?run = Inl ErrNotFound"
    by (simp add: UpdateChecked_def g pg_sample_sys_def cloneTask_def isClosed_def sample_task_def deployed_def pg_sample_deps_def
        pg_claim_def inTenant_def claimLedgerRow_def has_key_def put_ledger_def sample_principal_def commandKey_def
        run_claimed_def CheckMentions_def svc_TaskConfig_def on_more_def counting_client_def Let_def
        g [unfolded deployed_def pg_sample_deps_def on_more_def counting_client_def sample_principal_def, simplified])
  then obtain s1 where s1: "?run = (Inl ErrNotFound, s1)" by (cases ?run) auto
  have "fst (pg_claim (world s1) 6 (TenantID sample_principal) (commandKey (TenantID sample_principal) ''task_1'' ''c1'')
      (command_hash pg_sample_deps ''sendMessage'' Null) ''o2'' 60) = Inr Claimed"
    by (rule failed_command_retries [OF _ _ _ _ _ _ _ g _ s1])
      (auto simp: pg_sample_sys_def pg_ledger_inv_def sample_principal_def counting_client_def acceptedBody_def
        pg_cmd_def cloneTask_def isClosed_def sample_task_def)
  then show ?thesis using s1 by (simp add: sample_principal_def pg_sample_deps_def)
qed

end
