(* ===== verification/Service_Tasks.thy ===== *)
theory Service_Tasks
  imports Service_Events Service_Records
begin

text \<open>
  The life of a task in \<open>Service\<close>: \<open>Create\<close> and \<open>Delete\<close> (\<open>internal/task/tasks.go\<close>), the plan and
  the reconciliation with the workflow (\<open>reconcile.go\<close>). The goroutine \<open>Delete\<close> starts is queued in
  \<open>background\<close> and run by \<open>run_background\<close>; the map \<open>seenMessage\<close>, which the package fills and
  never reads, is left out. A task is read without a clock; \<open>Create\<close> takes its random id.
\<close>

record CreateInput =
  in_title :: string
  in_goal :: string
  in_mode :: string
  in_profile :: string
  in_sop :: string
  in_budgets :: obj
  in_policy :: Policy
  in_config :: "ConfigInput option"

section \<open>Creating and deleting\<close>

definition create_mode :: "string \<Rightarrow> string" where
  "create_mode mode = (if mode = [] then ''single'' else mode)"

definition create_config :: "CreateInput \<Rightarrow> ConfigInput result" where
  "create_config inp =
     (case in_config inp of
        None \<Rightarrow> Inr \<lparr>ci_expert = [], ci_skills = None, ci_model = [], ci_connectors = None, ci_mode = ''default'',
                    ci_permissions = None, ci_team = None\<rparr>
      | Some c \<Rightarrow> config_normalized c)"

definition create_profile :: "CreateInput \<Rightarrow> ConfigInput \<Rightarrow> string" where
  "create_profile inp config =
     (let profile = (if in_profile inp = [] then ''default@1'' else in_profile inp) in
      if in_config inp \<noteq> None \<and> profile = ''default@1'' \<and> ci_expert config \<noteq> [] then ci_expert config else profile)"

definition create_workflow_policy :: "('c, 'w) deps \<Rightarrow> 'w \<Rightarrow> Principal \<Rightarrow> Policy \<Rightarrow> Policy result" where
  "create_workflow_policy d w p policy =
     (case projection d of
        None \<Rightarrow> Inr policy
      | Some pr \<Rightarrow> rbind (pGetTenantPolicy pr w p) (\<lambda>tenant. Inr (workflow_policy policy tenant)))"

definition new_task :: "Principal \<Rightarrow> string \<Rightarrow> time \<Rightarrow> CreateInput \<Rightarrow> ConfigInput \<Rightarrow> Task" where
  "new_task p i now inp config =
     \<lparr>t_id = i, t_tenant = TenantID p, t_workflow = TaskWorkflowID (TenantID p) i, t_title = in_title inp,
      t_goal = in_goal inp, t_mode = create_mode (in_mode inp), t_status = ''CREATED'',
      t_profile = create_profile inp config, t_plan_version = 1, t_created_by = UserID p, t_created = now,
      t_updated = now, t_budgets = in_budgets inp, t_usage = [], t_pending = [],
      t_policy = policy_normalized (in_policy inp)\<rparr>"

definition remember_task :: "Task \<Rightarrow> ConfigInput \<Rightarrow> 'c service \<Rightarrow> 'c service" where
  "remember_task t config sv =
     sv\<lparr>s_tasks := AList.update (t_id t) t (s_tasks sv), s_nextSeq := AList.update (t_id t) 0 (s_nextSeq sv),
        s_entityVersion := AList.update (t_id t) [] (s_entityVersion sv),
        s_configs := AList.update (t_id t) \<lparr>lc_version = 1, lc_input = config\<rparr> (s_configs sv)\<rparr>"

definition workflow_input :: "Task \<Rightarrow> CreateInput \<Rightarrow> Policy \<Rightarrow> ConfigInput \<Rightarrow> TaskWorkflowInput" where
  "workflow_input t inp policy config =
     \<lparr>wi_task = t_id t, wi_tenant = t_tenant t,
      wi_created_by = [(''kind'', Str ''user''), (''id'', Str (t_created_by t))], wi_title = t_title t,
      wi_goal = t_goal t, wi_mode = t_mode t, wi_profile = t_profile t, wi_sop = in_sop inp, wi_registry = 1,
      wi_budgets = t_budgets t, wi_policy = policy, wi_config = workflowConfig config 1\<rparr>"

text \<open>A workflow that does not start leaves the task, with an event that says so.\<close>

definition start_task :: "('c, 'w) deps \<Rightarrow> ('c, 'w) sys \<Rightarrow> time \<Rightarrow> TaskWorkflowInput \<Rightarrow> ('c, 'w) sys" where
  "start_task d s now x =
     (case orch d of
        None \<Rightarrow> s
      | Some oc \<Rightarrow>
          (case oStartTask oc (world s) x of
             (Inr _, w) \<Rightarrow> s\<lparr>world := w\<rparr>
           | (Inl _, w) \<Rightarrow> snd (appendEvent d (s\<lparr>world := w\<rparr>) now (wi_task x) ''task.start_failed'' ''control''
                              (Obj [(''message'', Str ''workflow unavailable'')]))))"

definition create_checked :: "('c, 'w) deps \<Rightarrow> 'w \<Rightarrow> Principal \<Rightarrow> CreateInput \<Rightarrow> (Policy \<times> ConfigInput) result" where
  "create_checked d w p inp =
     (if TenantID p = [] \<or> UserID p = [] \<or> in_title inp = [] \<or> in_goal inp = [] then
        Inl (ErrText ''tenant, user, title and goal are required'')
      else if create_mode (in_mode inp) \<notin> {''single'', ''multi'', ''long''} then
        Inl (ErrText ''mode must be single, multi or long'')
      else case policy_validate (in_policy inp) of
        Some e \<Rightarrow> Inl e
      | None \<Rightarrow> rbind (create_workflow_policy d w p (policy_normalized (in_policy inp)))
          (\<lambda>policy. rbind (create_config inp) (\<lambda>config. Inr (policy, config))))"

definition svc_Create :: "('c, 'w) deps \<Rightarrow> ('c, 'w) sys \<Rightarrow> time \<Rightarrow> string \<Rightarrow> Principal \<Rightarrow> CreateInput
    \<Rightarrow> Task result \<times> ('c, 'w) sys" where
  "svc_Create d s now uuid p inp =
     (case create_checked d (world s) p inp of
        Inl e \<Rightarrow> (Inl e, s)
      | Inr (policy, config) \<Rightarrow>
          let t = new_task p (newID ''task'' uuid) now inp config;
              (stored, w) = (case projection d of None \<Rightarrow> (Inr (), world s) | Some pr \<Rightarrow> pCreateTask pr (world s) p t)
          in case stored of
            Inl e \<Rightarrow> (Inl e, s\<lparr>world := w\<rparr>)
          | Inr _ \<Rightarrow> (Inr (cloneTask t),
              start_task d (s\<lparr>svc := remember_task t config (svc s), world := w\<rparr>) now (workflow_input t inp policy config)))"

definition cancelInBackground :: "('c, 'w) deps \<Rightarrow> Principal \<Rightarrow> string \<Rightarrow> ('c, 'w) sys \<Rightarrow> ('c, 'w) sys" where
  "cancelInBackground d p i s = (if orch d = None then s else s\<lparr>background := background s @ [(p, i)]\<rparr>)"

text \<open>One queued goroutine runs, at any later time, with a command id of its own.\<close>

definition run_background :: "('c, 'w) deps \<Rightarrow> ('c, 'w) sys \<Rightarrow> string \<Rightarrow> ('c, 'w) sys" where
  "run_background d s commandID =
     (case (orch d, background s) of
        (Some oc, (p, i) # rest) \<Rightarrow>
          s\<lparr>background := rest,
            world := snd (oUpdateTask oc (world s) (TenantID p) i ''control'' commandID
              (Obj [(''command_id'', Str commandID), (''action'', Str ''cancel''), (''reason'', Str ''task deleted'')]))\<rparr>
      | _ \<Rightarrow> s)"

definition forget_task :: "string \<Rightarrow> 'c service \<Rightarrow> 'c service" where
  "forget_task i sv =
     sv\<lparr>s_tasks := AList.delete i (s_tasks sv), s_events := AList.delete i (s_events sv),
        s_nextSeq := AList.delete i (s_nextSeq sv), s_entityVersion := AList.delete i (s_entityVersion sv),
        s_configs := AList.delete i (s_configs sv),
        s_manifests := filter (\<lambda>km. am_task (snd km) \<noteq> i) (s_manifests sv),
        s_closed := s_closed sv @ keys (get_or [] (s_subs sv) i), s_subs := AList.delete i (s_subs sv)\<rparr>"

definition svc_Delete :: "('c, 'w) deps \<Rightarrow> ('c, 'w) sys \<Rightarrow> time \<Rightarrow> Principal \<Rightarrow> string \<Rightarrow> unit result \<times> ('c, 'w) sys" where
  "svc_Delete d s now p i =
     (case svc_Get d s p i of
        (Inl e, s1) \<Rightarrow> (Inl e, s1)
      | (Inr _, s1) \<Rightarrow>
          let s2 = cancelInBackground d p i s1;
              (gone, w) = (case projection d of None \<Rightarrow> (Inr (), world s2) | Some pr \<Rightarrow> pDeleteTask pr (world s2) now p i)
          in case gone of
            Inl e \<Rightarrow> (Inl e, s2\<lparr>world := w\<rparr>)
          | Inr _ \<Rightarrow> (Inr (), s2\<lparr>svc := forget_task i (svc s2), world := w\<rparr>))"

section \<open>The plan\<close>

definition place_node :: "(string, NodeStructure) gomap \<Rightarrow> obj \<Rightarrow> obj" where
  "place_node structure node =
     (case map_of structure (str_or_empty node ''node_id'') of
        None \<Rightarrow> node
      | Some place \<Rightarrow>
          let n1 = (if is_nil node ''parent_node_id'' \<and> ns_parent place \<noteq> []
                    then AList.update ''parent_node_id'' (Str (ns_parent place)) node else node)
          in (case ns_step place of
                None \<Rightarrow> n1
              | Some step \<Rightarrow> if is_nil n1 ''sop_step'' then AList.update ''sop_step'' step n1 else n1))"

definition withNodeStructure :: "('c, 'w) deps \<Rightarrow> 'w \<Rightarrow> Principal \<Rightarrow> string \<Rightarrow> TaskPlan \<Rightarrow> TaskPlan result" where
  "withNodeStructure d w p i plan =
     (case projected pNodeStructure d of
        None \<Rightarrow> Inr plan
      | Some read \<Rightarrow>
          if plan_nodes plan = [] then Inr plan
          else rbind (read w p i) (\<lambda>structure. Inr (plan\<lparr>plan_nodes := map (place_node structure) (plan_nodes plan)\<rparr>)))"

definition svc_Plan :: "('c, 'w) deps \<Rightarrow> ('c, 'w) sys \<Rightarrow> Principal \<Rightarrow> string \<Rightarrow> TaskPlan result \<times> ('c, 'w) sys" where
  "svc_Plan d s p i =
     (case svc_Get d s p i of
        (Inl e, s1) \<Rightarrow> (Inl e, s1)
      | (Inr _, s1) \<Rightarrow>
          (case orch d of
             None \<Rightarrow> (Inr \<lparr>plan_version = 0, plan_hash = [], plan_nodes = [], plan_edges = []\<rparr>, s1)
           | Some oc \<Rightarrow>
               (rbind (oGetTaskPlan oc (world s1) (TenantID p) i) (withNodeStructure d (world s1) p i), s1)))"

section \<open>Reconciliation\<close>

definition differ :: "bool \<Rightarrow> string \<Rightarrow> goval \<Rightarrow> goval \<Rightarrow> TaskReconcileDifference list" where
  "differ same field expected actual =
     (if same then [] else [\<lparr>diff_field = field, diff_expected = expected, diff_actual = actual\<rparr>])"

definition differences :: "Task \<Rightarrow> TaskView \<Rightarrow> TaskReconcileDifference list" where
  "differences t view =
     (let viewBudgets = normalizeBudget (v_budgets view); viewUsage = normalizeUsage (v_usage view) in
      differ (t_status t = v_status view) ''status'' (Str (v_status view)) (Str (t_status t))
      @ differ (t_plan_version t = v_plan_version view) ''plan_version'' (IntV (v_plan_version view)) (IntV (t_plan_version t))
      @ differ (jsonEqual (normalizeBudget (t_budgets t)) viewBudgets) ''budgets'' (Obj viewBudgets) (Obj (t_budgets t))
      @ differ (jsonEqual (normalizeUsage (t_usage t)) viewUsage) ''usage'' (Obj viewUsage) (Obj (t_usage t))
      @ differ (approvalSetEqual (t_pending t) (v_pending view)) ''pending_approvals'' (Strs (v_pending view)) (Strs (t_pending t)))"

definition repaired :: "time \<Rightarrow> TaskView \<Rightarrow> Task \<Rightarrow> Task" where
  "repaired now view t =
     t\<lparr>t_status := v_status view, t_plan_version := v_plan_version view, t_budgets := normalizeBudget (v_budgets view),
       t_usage := normalizeUsage (v_usage view), t_pending := v_pending view, t_updated := now\<rparr>"

definition Reconcile :: "('c, 'w) deps \<Rightarrow> ('c, 'w) sys \<Rightarrow> time \<Rightarrow> Principal \<Rightarrow> string \<Rightarrow> bool
    \<Rightarrow> TaskReconcileReport result \<times> ('c, 'w) sys" where
  "Reconcile d s now p i repair =
     (case orch d of
        None \<Rightarrow> (Inl ErrReconcileUnavailable, s)
      | Some oc \<Rightarrow>
          (case svc_Get d s p i of
             (Inl e, s1) \<Rightarrow> (Inl e, s1)
           | (Inr t, s1) \<Rightarrow>
               (case oGetTaskView oc (world s1) (TenantID p) i of
                  Inl e \<Rightarrow> (Inl e, s1)
                | Inr view \<Rightarrow>
                    let found = differences t view;
                        report = \<lparr>rep_task = i, rep_healthy = (found = []), rep_repaired = False, rep_differences = found\<rparr>
                    in if \<not> repair \<or> found = [] then (Inr report, s1)
                       else let t' = repaired now view t;
                                (put, w) = (case projection d of
                                    None \<Rightarrow> (Inr (), world s1) | Some pr \<Rightarrow> pUpdateTask pr (world s1) p t')
                            in case put of
                              Inl e \<Rightarrow> (Inl e, s1\<lparr>world := w\<rparr>)
                            | Inr _ \<Rightarrow> (Inr (report\<lparr>rep_repaired := True\<rparr>), cacheTask t' (s1\<lparr>world := w\<rparr>)))))"

section \<open>Lemmas\<close>

lemma svc_Get_local:
  "projection d = None \<Longrightarrow> svc_Get d s p i =
     (case map_of (s_tasks (svc s)) i of
        None \<Rightarrow> (Inl ErrNotFound, s)
      | Some t \<Rightarrow> if owns p t then (Inr (cloneTask t), s) else (Inl ErrNotFound, s))"
  by (simp add: svc_Get_def)

text \<open>Appending an event changes at most the cached task it names, and never who owns it.\<close>

lemma apply_to_task_owner [simp]:
  "t_tenant (apply_to_task ev m t) = t_tenant t" "t_created_by (apply_to_task ev m t) = t_created_by t"
  "t_id (apply_to_task ev m t) = t_id t" "t_title (apply_to_task ev m t) = t_title t"
  "t_goal (apply_to_task ev m t) = t_goal t" "t_mode (apply_to_task ev m t) = t_mode t"
  "t_profile (apply_to_task ev m t) = t_profile t" "t_workflow (apply_to_task ev m t) = t_workflow t"
  by (simp_all add: apply_to_task_def split: option.splits)

lemma admit_tasks:
  assumes "admit d sv now ev = (r, sv')"
  shows "s_tasks sv' = s_tasks sv"
proof (cases r)
  case None
  then show ?thesis using assms admit_None by (metis service.select_convs(1) service.surjective service.update_convs(7))
next
  case (Some ev')
  then obtain sv1 sv2 ev1 ev2 where s: "mark_seen d sv (fill_tenant sv ev) = (False, sv1)"
    "advance_entity sv1 (fill_tenant sv ev) = (ev1, sv2)" "number_event sv2 ev1 = (ev2, sv')"
    using assms by (auto elim!: admit_Some)
  then show ?thesis using mark_seen_frame [OF s(1)] advance_entity_simps [OF s(2)] number_event_simps [OF s(3)] by auto
qed

lemma publish_tasks: "s_tasks (publish d now ev sv) = s_tasks (apply_cached ev sv)"
  by (simp add: publish_def Let_def notify_def raise_seq_def apply_cached_def split: option.splits)

definition same_owner :: "Task option \<Rightarrow> Task option \<Rightarrow> bool" where
  "same_owner a b \<longleftrightarrow> map_option (\<lambda>t. (t_tenant t, t_created_by t, t_id t, t_title t, t_goal t, t_mode t, t_profile t)) a =
     map_option (\<lambda>t. (t_tenant t, t_created_by t, t_id t, t_title t, t_goal t, t_mode t, t_profile t)) b"

lemma apply_cached_owner: "same_owner (map_of (s_tasks (apply_cached ev sv)) i) (map_of (s_tasks sv) i)"
  by (auto simp: same_owner_def apply_cached_def split: option.splits)

lemma AppendEvent_owner: "same_owner (map_of (s_tasks (svc (snd (AppendEvent d s now ev)))) i) (map_of (s_tasks (svc s)) i)"
proof (cases "admit d (svc s) now ev")
  case (Pair r sv)
  then have "s_tasks sv = s_tasks (svc s)" by (rule admit_tasks)
  then show ?thesis using Pair apply_cached_owner [of _ sv i]
    by (auto simp: AppendEvent_def publish_tasks forgetEvent_def same_owner_def Let_def split: option.splits prod.splits sum.splits)
qed

definition append_all :: "('c, 'w) deps \<Rightarrow> (time \<times> Event) list \<Rightarrow> ('c, 'w) sys \<Rightarrow> ('c, 'w) sys" where
  "append_all d evs s = fold (\<lambda>(now, ev) s. snd (AppendEvent d s now ev)) evs s"

lemma append_all_owner: "same_owner (map_of (s_tasks (svc (append_all d evs s))) i) (map_of (s_tasks (svc s)) i)"
proof (induction evs arbitrary: s)
  case (Cons x xs)
  obtain now ev where x: "x = (now, ev)" by force
  have "same_owner (map_of (s_tasks (svc (append_all d xs (snd (AppendEvent d s now ev))))) i)
      (map_of (s_tasks (svc (snd (AppendEvent d s now ev)))) i)" by (rule Cons)
  then show ?case using AppendEvent_owner [of d s now ev i] by (simp add: append_all_def x same_owner_def)
qed (simp add: append_all_def same_owner_def)

lemma same_owner_None [simp]: "same_owner a None \<longleftrightarrow> a = None"
  by (simp add: same_owner_def)

lemma forget_task_other:
  "j \<noteq> i \<Longrightarrow> map_of (s_tasks (forget_task i sv)) j = map_of (s_tasks sv) j \<and>
    buffered (forget_task i sv) j = buffered sv j \<and> map_of (s_subs (forget_task i sv)) j = map_of (s_subs sv) j \<and>
    map_of (s_configs (forget_task i sv)) j = map_of (s_configs sv) j"
  by (simp add: forget_task_def buffered_def)

text \<open>What \<open>Create\<close> leaves in memory.\<close>

lemma start_task_owner:
  "same_owner (map_of (s_tasks (svc (start_task d s now x))) i) (map_of (s_tasks (svc s)) i)"
  using AppendEvent_owner [of d "s\<lparr>world := w\<rparr>" now ev i for w ev]
  by (auto simp: start_task_def appendEvent_def same_owner_def split: option.splits prod.splits sum.splits)

lemma Create_local:
  assumes "projection d = None" "svc_Create d s now uuid p inp = (Inr t, s1)"
  obtains config t1 where "t = cloneTask (new_task p (newID ''task'' uuid) now inp config)"
    "map_of (s_tasks (svc s1)) (newID ''task'' uuid) = Some t1"
    "same_owner (Some t1) (Some (new_task p (newID ''task'' uuid) now inp config))"
proof -
  obtain policy config where c: "t = cloneTask (new_task p (newID ''task'' uuid) now inp config)"
    "s1 = start_task d (s\<lparr>svc := remember_task (new_task p (newID ''task'' uuid) now inp config) config (svc s)\<rparr>) now
        (workflow_input (new_task p (newID ''task'' uuid) now inp config) inp policy config)"
    using assms by (auto simp: svc_Create_def Let_def split: sum.splits prod.splits)
  have "map_of (s_tasks (remember_task (new_task p (newID ''task'' uuid) now inp config) config (svc s))) (newID ''task'' uuid) =
      Some (new_task p (newID ''task'' uuid) now inp config)"
    by (simp add: remember_task_def new_task_def)
  then have "same_owner (map_of (s_tasks (svc s1)) (newID ''task'' uuid)) (Some (new_task p (newID ''task'' uuid) now inp config))"
    using start_task_owner [of d "s\<lparr>svc := remember_task (new_task p (newID ''task'' uuid) now inp config) config (svc s)\<rparr>"
        now _ "newID ''task'' uuid"] c(2) by simp
  then show ?thesis using that c(1) by (cases "map_of (s_tasks (svc s1)) (newID ''task'' uuid)") (auto simp: same_owner_def)
qed

lemma owns_iff: "owns p t \<longleftrightarrow> p = \<lparr>TenantID = t_tenant t, UserID = t_created_by t\<rparr>"
  by (cases p) (auto simp: owns_def)

lemma cloneTask_simps [simp]:
  "t_id (cloneTask t) = t_id t" "t_tenant (cloneTask t) = t_tenant t" "t_created_by (cloneTask t) = t_created_by t"
  "t_title (cloneTask t) = t_title t" "t_goal (cloneTask t) = t_goal t" "t_mode (cloneTask t) = t_mode t"
  "t_profile (cloneTask t) = t_profile t" "t_status (cloneTask t) = t_status t" "t_pending (cloneTask t) = t_pending t"
  "t_plan_version (cloneTask t) = t_plan_version t" "t_budgets (cloneTask t) = cloneMap (t_budgets t)"
  "t_usage (cloneTask t) = cloneMap (t_usage t)"
  by (simp_all add: cloneTask_def)

text \<open>The view's maps come from JSON: distinct keys, and values a decoder builds.\<close>

definition decoded :: "obj \<Rightarrow> bool" where
  "decoded m \<longleftrightarrow> distinct (map fst m) \<and> (\<forall>kv \<in> set m. json_of (snd kv) = snd kv)"

lemma normalizeBudget_id: "\<forall>kv \<in> set m. snd kv \<noteq> Null \<Longrightarrow> normalizeBudget m = m"
  by (simp add: normalizeBudget_def)

lemma json_of_Null [simp]: "json_of v = Null \<longleftrightarrow> v = Null"
  by (cases v) auto

lemma normalizeBudget_clone: "normalizeBudget (cloneMap (normalizeBudget m)) = cloneMap (normalizeBudget m)"
  by (rule normalizeBudget_id) (auto simp: cloneMap_def json_obj_def normalizeBudget_def)

lemma decoded_normalizeBudget: "decoded m \<Longrightarrow> decoded (normalizeBudget m)"
  by (auto simp: decoded_def normalizeBudget_def distinct_map_filter)

lemma num_field_json: "decoded m \<Longrightarrow> num_field (json_obj m) k = num_field m k"
  by (auto simp: num_field_def decoded_def map_of_json_obj split: option.splits dest!: map_of_SomeD)

lemma num_field_delete: "num_field (AList.delete k' m) k = (if k = k' then None else num_field m k)"
  by (simp add: num_field_def)

lemma usage_counters_gone:
  "k \<in> set usageCounters \<Longrightarrow> num_field (normalizeUsage m) k \<noteq> Some 0"
  by (auto simp: usageCounters_def normalizeUsage_def num_field_delete)

lemma normalizeUsage_frame:
  "decoded m \<Longrightarrow> decoded (normalizeUsage m) \<and> (\<forall>kv \<in> set (normalizeUsage m). snd kv \<noteq> Null)"
  by (auto simp: usageCounters_def normalizeUsage_def AList.delete_eq normalizeBudget_def decoded_def distinct_map_filter)

lemma normalizeUsage_clone:
  assumes "decoded m"
  shows "normalizeUsage (cloneMap (normalizeUsage m)) = cloneMap (normalizeUsage m)"
proof -
  note m = normalizeUsage_frame [OF assms]
  have "normalizeBudget (cloneMap (normalizeUsage m)) = cloneMap (normalizeUsage m)"
    using m by (intro normalizeBudget_id) (auto simp: cloneMap_def json_obj_def)
  moreover have "num_field (cloneMap (normalizeUsage m)) k \<noteq> Some 0" if "k \<in> set usageCounters" for k
    using usage_counters_gone [OF that] m by (simp add: cloneMap_def num_field_json)
  ultimately show ?thesis by (simp add: normalizeUsage_def [of "cloneMap (normalizeUsage m)"] usageCounters_def)
qed

lemma repaired_agrees:
  assumes "decoded (v_usage view)" "t_status t = v_status view" "t_plan_version t = v_plan_version view"
    "t_budgets t = cloneMap (normalizeBudget (v_budgets view))" "t_usage t = cloneMap (normalizeUsage (v_usage view))"
    "t_pending t = v_pending view"
  shows "differences t view = []"
  using assms by (simp add: differences_def differ_def normalizeBudget_clone normalizeUsage_clone jsonEqual_cloneMap
      approvalSetEqual_def Let_def)

definition tasks_keyed :: "'c service \<Rightarrow> bool" where
  "tasks_keyed sv \<longleftrightarrow> (\<forall>i t. map_of (s_tasks sv) i = Some t \<longrightarrow> t_id t = i)"

lemma tasks_keyed_steps [wf_intro]:
  "tasks_keyed (NewService c)"
  "tasks_keyed (svc s) \<Longrightarrow> tasks_keyed (svc (cacheTask t s))"
  "tasks_keyed sv \<Longrightarrow> tasks_keyed (remember_task t config sv)"
  "tasks_keyed sv \<Longrightarrow> tasks_keyed (forget_task i sv)"
  by (auto simp: tasks_keyed_def NewService_def cacheTask_def remember_task_def forget_task_def)

lemma tasks_keyed_AppendEvent [wf_intro]:
  assumes "tasks_keyed (svc s)"
  shows "tasks_keyed (svc (snd (AppendEvent d s now ev)))"
  unfolding tasks_keyed_def
proof (intro allI impI)
  fix i t assume "map_of (s_tasks (svc (snd (AppendEvent d s now ev)))) i = Some t"
  with AppendEvent_owner [of d s now ev i] obtain t0 where "map_of (s_tasks (svc s)) i = Some t0" "t_id t = t_id t0"
    by (cases "map_of (s_tasks (svc s)) i") (auto simp: same_owner_def)
  then show "t_id t = i" using assms by (simp add: tasks_keyed_def)
qed

section \<open>Properties\<close>


definition sample_input :: CreateInput where
  "sample_input = \<lparr>in_title = ''T'', in_goal = ''G'', in_mode = [], in_profile = [], in_sop = [], in_budgets = [],
     in_policy = no_policy, in_config = None\<rparr>"





text \<open>A workflow client with one view, for the witness.\<close>

definition still_client :: "TaskView \<Rightarrow> unit task_client" where
  "still_client view =
     \<lparr>oStartTask = \<lambda>w x. (Inr view, w), oGetTaskView = \<lambda>_ _ _. Inr view, oGetTaskPlan = \<lambda>_ _ _. Inl ErrNotFound,
      oUpdateTask = \<lambda>w _ _ _ c _. (Inr (acceptedBody c []), w), oSignalTask = \<lambda>w _ _ _ _. (Inr (), w)\<rparr>"

definition sample_view :: TaskView where
  "sample_view = \<lparr>v_task = ''task_1'', v_status = ''PAUSED'', v_plan_version = 2, v_pending = [''apr_1''],
     v_budgets = [(''max_tokens'', Null)], v_usage = [(''tokens_in'', Float 0), (''tool_calls'', Float 3)],
     v_reserved = [], v_config = []\<rparr>"


end
