(* ===== verification/Projector.thy ===== *)
theory Projector
  imports Service_Events
begin

text \<open>
  The projector, \<open>internal/task/projector.go\<close>: it reads the outbox rows the workers wrote, in the
  order of their ids, appends each as an event of its task, and marks the batch done. A row that can
  never be projected is dropped, which is also done; any other error ends the batch unmarked. The
  outbox is an interface on the world, as the projection store is; a body is the JSON value of the
  row. The clock is read per row (\<open>clock\<close>); a run is the list of its ticks, and ends with them.
\<close>

record OutboxRecord =
  ob_id :: int
  ob_tenant :: string
  ob_task :: string
  ob_event :: string
  ob_body :: raw

record 'w outbox_ops =
  ClaimRuntimeOutbox :: "'w \<Rightarrow> int \<Rightarrow> OutboxRecord list result"
  MarkRuntimeOutboxProjected :: "'w \<Rightarrow> time \<Rightarrow> int list \<Rightarrow> unit result \<times> 'w"

record Projector =
  Poll :: time
  Batch :: int

section \<open>Decoding a row\<close>

record outbox_body =
  bd_tenant :: string
  bd_event :: string
  bd_task :: string
  bd_type :: string
  bd_source :: raw
  bd_payload :: raw
  bd_occurred :: time
  bd_retention :: string
  bd_kind :: string
  bd_entity_id :: string
  bd_version :: int

definition decode_entity :: "goval option \<Rightarrow> (string \<times> string \<times> int) option" where
  "decode_entity v =
     (case v of
        None \<Rightarrow> Some ([], [], 0)
      | Some x \<Rightarrow>
          (case as_map (Some x) of
             None \<Rightarrow> None
           | Some m \<Rightarrow>
               (case (decode_str (map_of m ''kind''), decode_str (map_of m ''id''), decode_int 0 (map_of m ''version'')) of
                  (Some k, Some i, Some n) \<Rightarrow> Some (k, i, n)
                | _ \<Rightarrow> None)))"

definition decode_body :: "(string \<Rightarrow> time option) \<Rightarrow> raw \<Rightarrow> outbox_body option" where
  "decode_body parse r =
     (case as_map r of
        None \<Rightarrow> None
      | Some m \<Rightarrow>
          (case (decode_str (map_of m ''tenant_id''), decode_str (map_of m ''event_id''), decode_str (map_of m ''task_id''),
                 decode_str (map_of m ''type''), decode_time parse (map_of m ''occurred_at''),
                 decode_str (map_of m ''retention''), decode_entity (map_of m ''entity'')) of
             (Some t, Some e, Some k, Some ty, Some oc, Some re, Some (kind, i, n)) \<Rightarrow> Some
               \<lparr>bd_tenant = t, bd_event = e, bd_task = k, bd_type = ty, bd_source = map_of m ''source'',
                bd_payload = map_of m ''payload'', bd_occurred = oc, bd_retention = re, bd_kind = kind,
                bd_entity_id = i, bd_version = n\<rparr>
           | _ \<Rightarrow> None))"

text \<open>A source is a string, or an object with a kind; a null decodes into the empty string.\<close>

definition source_of :: "raw \<Rightarrow> string" where
  "source_of r =
     (case r of
        Some (Str s) \<Rightarrow> s
      | Some Null \<Rightarrow> []
      | Some (Obj m) \<Rightarrow>
          (case decode_str (map_of m ''kind'') of
             Some kind \<Rightarrow> if kind \<noteq> [] then kind else ''workflow''
           | None \<Rightarrow> ''workflow'')
      | _ \<Rightarrow> ''workflow'')"

definition fall_back :: "string \<Rightarrow> string \<Rightarrow> string" where
  "fall_back s fallback = (if s = [] then fallback else s)"

definition outbox_event :: "OutboxRecord \<Rightarrow> outbox_body \<Rightarrow> Event" where
  "outbox_event row body =
     \<lparr>ev_seq = 0, ev_after = 0, ev_id = fall_back (bd_event body) (ob_event row),
      ev_task = fall_back (bd_task body) (ob_task row), ev_tenant = fall_back (bd_tenant body) (ob_tenant row),
      ev_type = bd_type body, ev_source = source_of (bd_source body), ev_payload = bd_payload body,
      ev_occurred = bd_occurred body, ev_durable = (bd_retention body \<noteq> ''ephemeral''), ev_kind = bd_kind body,
      ev_entity_id = bd_entity_id body, ev_version = bd_version body, ev_entity = None\<rparr>"

section \<open>Projecting a batch\<close>

text \<open>The result of one row: nothing when it is done, whether it was dropped, or the error.\<close>

definition project_row :: "('c, 'w) deps \<Rightarrow> time \<Rightarrow> OutboxRecord \<Rightarrow> ('c, 'w) sys \<Rightarrow> bool result \<times> ('c, 'w) sys" where
  "project_row d now row s =
     (case decode_body (parse_time d) (ob_body row) of
        None \<Rightarrow> (Inr True, s)
      | Some body \<Rightarrow>
          (case AppendEvent d s now (outbox_event row body) of
             (Inr _, s1) \<Rightarrow> (Inr False, s1)
           | (Inl e, s1) \<Rightarrow> if e = ErrMalformedEvent then (Inr True, s1) else (Inl e, s1)))"

text \<open>The rows in order; the second component is what \<open>OnDrop\<close> was told about.\<close>

fun project_rows :: "('c, 'w) deps \<Rightarrow> (int \<Rightarrow> time) \<Rightarrow> OutboxRecord list \<Rightarrow> ('c, 'w) sys
    \<Rightarrow> unit result \<times> OutboxRecord list \<times> ('c, 'w) sys" where
  "project_rows d clock [] s = (Inr (), [], s)"
| "project_rows d clock (row # rows) s =
     (case project_row d (clock (ob_id row)) row s of
        (Inl e, s1) \<Rightarrow> (Inl e, [], s1)
      | (Inr dropped, s1) \<Rightarrow>
          (case project_rows d clock rows s1 of
             (r, ds, s2) \<Rightarrow> (r, (if dropped then row # ds else ds), s2)))"

definition project :: "('c, 'w) deps \<Rightarrow> 'w outbox_ops \<Rightarrow> int \<Rightarrow> time \<Rightarrow> (int \<Rightarrow> time) \<Rightarrow> ('c, 'w) sys
    \<Rightarrow> unit result \<times> OutboxRecord list \<times> ('c, 'w) sys" where
  "project d ob batch now clock s =
     (case ClaimRuntimeOutbox ob (world s) batch of
        Inl e \<Rightarrow> (Inl e, [], s)
      | Inr rows \<Rightarrow>
          if rows = [] then (Inr (), [], s)
          else (case project_rows d clock rows s of
             (Inl e, ds, s1) \<Rightarrow> (Inl e, ds, s1)
           | (Inr _, ds, s1) \<Rightarrow>
               (case MarkRuntimeOutboxProjected ob (world s1) now (map ob_id rows) of
                  (r, w) \<Rightarrow> (r, ds, s1\<lparr>world := w\<rparr>))))"

definition run_batch :: "Projector \<Rightarrow> int" where
  "run_batch p = (if Batch p \<le> 0 then 100 else Batch p)"

type_synonym tick = "time \<times> (int \<Rightarrow> time)"

text \<open>One run: a batch per tick until an error, or until the context ends.\<close>

fun run_ticks :: "('c, 'w) deps \<Rightarrow> 'w outbox_ops \<Rightarrow> int \<Rightarrow> tick list \<Rightarrow> ('c, 'w) sys
    \<Rightarrow> unit result \<times> OutboxRecord list \<times> ('c, 'w) sys" where
  "run_ticks d ob batch [] s = (Inr (), [], s)"
| "run_ticks d ob batch ((now, clock) # ticks) s =
     (case project d ob batch now clock s of
        (Inl e, ds, s1) \<Rightarrow> (Inl e, ds, s1)
      | (Inr _, ds, s1) \<Rightarrow>
          (case run_ticks d ob batch ticks s1 of (r, ds', s2) \<Rightarrow> (r, ds @ ds', s2)))"

definition projector_run :: "('c, 'w) deps \<Rightarrow> 'w outbox_ops \<Rightarrow> Projector \<Rightarrow> tick list \<Rightarrow> ('c, 'w) sys
    \<Rightarrow> unit result \<times> OutboxRecord list \<times> ('c, 'w) sys" where
  "projector_run d ob p ticks s = run_ticks d ob (run_batch p) ticks s"

text \<open>
  \<open>Run\<close>: with a store that elects, a round that does not get the leadership does nothing; a run that
  ended in an error is followed by another round, whatever the error.
\<close>

record 'w leadership_ops =
  AcquireProjectorLeadership :: "'w \<Rightarrow> bool result \<times> 'w"
  ReleaseProjectorLeadership :: "'w \<Rightarrow> 'w"

definition run_round :: "('c, 'w) deps \<Rightarrow> 'w outbox_ops \<Rightarrow> 'w leadership_ops option \<Rightarrow> Projector \<Rightarrow> tick list
    \<Rightarrow> ('c, 'w) sys \<Rightarrow> ('c, 'w) sys" where
  "run_round d ob lead p ticks s =
     (case lead of
        None \<Rightarrow> snd (snd (projector_run d ob p ticks s))
      | Some l \<Rightarrow>
          (case AcquireProjectorLeadership l (world s) of
             (Inr True, w) \<Rightarrow>
               let s1 = snd (snd (projector_run d ob p ticks (s\<lparr>world := w\<rparr>)))
               in s1\<lparr>world := ReleaseProjectorLeadership l (world s1)\<rparr>
           | (_, w) \<Rightarrow> s\<lparr>world := w\<rparr>))"

definition projector_Run :: "('c, 'w) deps \<Rightarrow> 'w outbox_ops \<Rightarrow> 'w leadership_ops option \<Rightarrow> Projector \<Rightarrow> tick list list
    \<Rightarrow> ('c, 'w) sys \<Rightarrow> ('c, 'w) sys" where
  "projector_Run d ob lead p rounds s = fold (run_round d ob lead p) rounds s"

section \<open>The event of a row\<close>

definition row_event :: "(string \<Rightarrow> time option) \<Rightarrow> OutboxRecord \<Rightarrow> Event option" where
  "row_event parse row = map_option (outbox_event row) (decode_body parse (ob_body row))"

text \<open>What the service leaves of an event on its way to the store.\<close>

definition alike :: "Event \<Rightarrow> Event \<Rightarrow> bool" where
  "alike a b \<longleftrightarrow> ev_id b = ev_id a \<and> ev_task b = ev_task a \<and> ev_tenant b = ev_tenant a \<and> ev_type b = ev_type a \<and>
     ev_payload b = ev_payload a \<and> ev_durable b = ev_durable a"

lemma admit_alike:
  assumes "admit d sv now ev = (Some ev', sv')" "ev_tenant ev \<noteq> []"
  shows "alike ev ev'"
  using assms
  by (auto simp: admit_def alike_def fill_tenant_def advance_entity_def number_event_def stamp_event_def Let_def
      split: prod.splits if_splits)

section \<open>The outbox as a queue\<close>

text \<open>
  What the projector relies on: a claim reads the oldest pending rows, a mark takes the rows named out
  of the queue, and nothing the service does to the projections touches the queue.
\<close>

definition claim_limit :: "int \<Rightarrow> nat" where
  "claim_limit limit = nat (if limit \<le> 0 then 100 else limit)"

locale outbox_queue =
  fixes ob :: "'w outbox_ops" and pending :: "'w \<Rightarrow> OutboxRecord list" and pr :: "'w projection" and winv :: "'w \<Rightarrow> bool"
  assumes claim_head: "ClaimRuntimeOutbox ob w limit = Inr (take (claim_limit limit) (pending w))"
    and mark_done: "MarkRuntimeOutboxProjected ob w now ids = (r, w') \<Longrightarrow>
      r = Inr () \<and> pending w' = filter (\<lambda>row. ob_id row \<notin> set ids) (pending w) \<and> (winv w \<longrightarrow> winv w')"
    and append_pending: "pAppendTaskEvent pr w ev = (r2, w') \<Longrightarrow> pending w' = pending w \<and> (winv w \<longrightarrow> winv w')"
    and pending_ids: "winv w \<Longrightarrow> distinct (map ob_id (pending w))"
begin

definition keeps :: "'w \<Rightarrow> 'w \<Rightarrow> bool" where
  "keeps w w' \<longleftrightarrow> pending w' = pending w \<and> (winv w \<longrightarrow> winv w')"

lemma keeps_trans: "keeps w w' \<Longrightarrow> keeps w' w'' \<Longrightarrow> keeps w w''"
  by (simp add: keeps_def)

lemma append_event_keeps:
  "projection d = Some pr \<Longrightarrow> keeps (world s) (world (snd (AppendEvent d s now ev)))"
  by (auto simp: AppendEvent_def keeps_def Let_def dest: append_pending split: option.splits prod.splits sum.splits)

lemma project_row_keeps:
  assumes "projection d = Some pr"
  shows "keeps (world s) (world (snd (project_row d now row s)))"
proof (cases "decode_body (parse_time d) (ob_body row)")
  case (Some body)
  then show ?thesis using append_event_keeps [OF assms, of s now "outbox_event row body"]
    by (auto simp: project_row_def split: prod.splits sum.splits)
qed (simp add: project_row_def keeps_def)

lemma project_rows_keeps:
  "projection d = Some pr \<Longrightarrow> keeps (world s) (world (snd (snd (project_rows d clock rows s))))"
proof (induction rows arbitrary: s)
  case (Cons row rows)
  obtain r s1 where row: "project_row d (clock (ob_id row)) row s = (r, s1)" by force
  have "keeps (world s) (world s1)"
    using project_row_keeps [OF Cons.prems, of s "clock (ob_id row)" row] row by simp
  then show ?case using Cons.IH [OF Cons.prems, of s1] row by (auto intro: keeps_trans split: sum.split prod.split)
qed (simp add: keeps_def)

lemma filter_take_drop:
  assumes "distinct (map ob_id xs)"
  shows "filter (\<lambda>row. ob_id row \<notin> set (map ob_id (take n xs))) xs = drop n xs"
proof -
  let ?p = "\<lambda>row. ob_id row \<notin> set (map ob_id (take n xs))"
  have "filter ?p (take n xs @ drop n xs) = filter ?p (take n xs) @ filter ?p (drop n xs)" by (rule filter_append)
  moreover have "filter ?p (take n xs) = []" by (simp add: filter_empty_conv)
  moreover have "filter ?p (drop n xs) = drop n xs"
  proof (rule filter_True, rule ballI)
    fix row assume "row \<in> set (drop n xs)"
    moreover have "set (map ob_id (take n xs)) \<inter> set (map ob_id (drop n xs)) = {}"
      using assms by (metis append_take_drop_id distinct_append map_append)
    ultimately show "?p row" by auto
  qed
  ultimately show ?thesis by (metis append_Nil append_take_drop_id)
qed

text \<open>A batch either takes its rows off the queue, or, on an error, leaves the whole queue.\<close>

lemma project_outcome:
  assumes "projection d = Some pr" "winv (world s)" "project d ob batch now clock s = (r, ds, s1)"
  shows "winv (world s1) \<and>
    pending (world s1) = (if r = Inr () then drop (claim_limit batch) (pending (world s)) else pending (world s)) \<and>
    (\<exists>r' s'. project_rows d clock (take (claim_limit batch) (pending (world s))) s = (r', ds, s') \<and> svc s1 = svc s' \<and>
      r = r')"
proof (cases "take (claim_limit batch) (pending (world s)) = []")
  case True
  then have "drop (claim_limit batch) (pending (world s)) = pending (world s)" by auto
  with True assms show ?thesis by (auto simp: project_def claim_head)
next
  case False
  let ?rows = "take (claim_limit batch) (pending (world s))"
  obtain r' ds' s' where rows: "project_rows d clock ?rows s = (r', ds', s')" by (metis surj_pair)
  then have pend: "pending (world s') = pending (world s)" "winv (world s')"
    using project_rows_keeps [OF assms(1), of s clock ?rows] assms(2) by (simp_all add: keeps_def)
  show ?thesis
  proof (cases r')
    case (Inl e)
    then show ?thesis using assms(3) rows pend False by (auto simp: project_def claim_head)
  next
    case (Inr u)
    obtain m w where mark: "MarkRuntimeOutboxProjected ob (world s') now (map ob_id ?rows) = (m, w)" by force
    then have "m = Inr ()" "pending w = drop (claim_limit batch) (pending (world s))" "winv w"
      using mark_done [OF mark] pend filter_take_drop [OF pending_ids [OF assms(2)]] by simp_all
    then show ?thesis using assms(3) rows Inr mark False by (auto simp: project_def claim_head)
  qed
qed

text \<open>
  With a store that takes the events of the rows, every tick takes a batch off the queue. What the
  store needs for it may be an invariant of its state.
\<close>

definition takes :: "('c, 'w) deps \<Rightarrow> OutboxRecord list \<Rightarrow> ('w \<Rightarrow> bool) \<Rightarrow> bool" where
  "takes d rows good \<longleftrightarrow>
     (\<forall>w now ids r w'. good w \<longrightarrow> MarkRuntimeOutboxProjected ob w now ids = (r, w') \<longrightarrow> good w') \<and>
     (\<forall>row \<in> set rows. \<forall>ev0. row_event (parse_time d) row = Some ev0 \<longrightarrow> ev_tenant ev0 \<noteq> [] \<and>
        (\<forall>ev w r w'. alike ev0 ev \<longrightarrow> ev_durable ev \<longrightarrow> good w \<longrightarrow> pAppendTaskEvent pr w ev = (r, w') \<longrightarrow>
           good w' \<and> (\<forall>e. r = Inl e \<longrightarrow> e = ErrMalformedEvent)))"

lemma takes_sub: "takes d rows good \<Longrightarrow> set rows' \<subseteq> set rows \<Longrightarrow> takes d rows' good"
  unfolding takes_def by blast

lemma takesD:
  assumes "takes d rows good" "row \<in> set rows" "row_event (parse_time d) row = Some ev0"
  shows "ev_tenant ev0 \<noteq> []"
    "alike ev0 ev \<Longrightarrow> ev_durable ev \<Longrightarrow> good w \<Longrightarrow> pAppendTaskEvent pr w ev = (r, w') \<Longrightarrow> good w'"
    "alike ev0 ev \<Longrightarrow> ev_durable ev \<Longrightarrow> good w \<Longrightarrow> pAppendTaskEvent pr w ev = (Inl e, w') \<Longrightarrow> e = ErrMalformedEvent"
  using assms unfolding takes_def by blast+

lemma AppendEvent_takes:
  assumes "takes d rows good" "projection d = Some pr" "row \<in> set rows" "row_event (parse_time d) row = Some ev0"
    "good (world s)" "AppendEvent d s now ev0 = (r, s1)"
  shows "good (world s1) \<and> (\<forall>e. r = Inl e \<longrightarrow> e = ErrMalformedEvent)"
proof (cases "admit d (svc s) now ev0")
  case (Pair got sv)
  show ?thesis
  proof (cases got)
    case None
    with Pair assms(5,6) show ?thesis by (auto simp: AppendEvent_def)
  next
    case (Some ev)
    then have like: "alike ev0 ev" using admit_alike Pair takesD(1) [OF assms(1,3,4)] by metis
    obtain st w where app: "pAppendTaskEvent pr (world s) ev = (st, w)" by force
    note ok = takesD(2) [OF assms(1,3,4) like _ assms(5) app]
    show ?thesis
    proof (cases "ev_durable ev")
      case False
      with Pair Some assms(2,5,6) show ?thesis by (auto simp: AppendEvent_def)
    next
      case True
      show ?thesis
      proof (cases st)
        case (Inl e)
        then have "e = ErrMalformedEvent" using takesD(3) [OF assms(1,3,4) like True assms(5)] app by simp
        then show ?thesis using Inl ok [OF True] True app Pair Some assms(2,6) by (auto simp: AppendEvent_def)
      next
        case (Inr stored)
        then show ?thesis using ok [OF True] True app Pair Some assms(2,6) by (auto simp: AppendEvent_def Let_def)
      qed
    qed
  qed
qed

lemma project_row_takes:
  assumes "takes d rows good" "projection d = Some pr" "row \<in> set rows" "good (world s)" "project_row d now row s = (r, s1)"
  shows "good (world s1) \<and> (\<exists>b. r = Inr b)"
proof (cases "decode_body (parse_time d) (ob_body row)")
  case (Some body)
  obtain r0 s0 where app: "AppendEvent d s now (outbox_event row body) = (r0, s0)" by force
  have "good (world s0) \<and> (\<forall>e. r0 = Inl e \<longrightarrow> e = ErrMalformedEvent)"
    by (rule AppendEvent_takes [OF assms(1-3) _ assms(4) app]) (simp add: row_event_def Some)
  then show ?thesis using assms(5) Some app by (cases r0) (auto simp: project_row_def split: if_splits)
qed (use assms in \<open>auto simp: project_row_def\<close>)

lemma project_rows_take:
  assumes "takes d rows good" "projection d = Some pr"
  shows "set rows' \<subseteq> set rows \<Longrightarrow> good (world s) \<Longrightarrow> project_rows d clock rows' s = (r, ds, s1) \<Longrightarrow>
    r = Inr () \<and> good (world s1)"
proof (induction rows' arbitrary: s r ds s1)
  case (Cons row rows')
  obtain b s0 where row: "project_row d (clock (ob_id row)) row s = (Inr b, s0)" "good (world s0)"
    using project_row_takes [OF assms, of row s "clock (ob_id row)"] Cons.prems
    by (cases "project_row d (clock (ob_id row)) row s") auto
  obtain r2 ds2 s2 where rest: "project_rows d clock rows' s0 = (r2, ds2, s2)" by (metis surj_pair)
  then show ?case using Cons.IH [OF _ row(2) rest] Cons.prems row(1) by auto
qed simp

lemma project_takes:
  assumes "takes d rows good" "projection d = Some pr" "set (pending (world s)) \<subseteq> set rows" "good (world s)"
    "project d ob batch now clock s = (r, ds, s1)"
  shows "r = Inr () \<and> good (world s1)"
proof -
  let ?rows = "take (claim_limit batch) (pending (world s))"
  obtain r' ds' s' where rows: "project_rows d clock ?rows s = (r', ds', s')" by (metis surj_pair)
  have "r' = Inr () \<and> good (world s')"
    using project_rows_take [OF assms(1,2) _ assms(4) rows] assms(3) set_take_subset [of "claim_limit batch" "pending (world s)"]
    by blast
  moreover obtain m w where mark: "MarkRuntimeOutboxProjected ob (world s') now (map ob_id ?rows) = (m, w)" by force
  moreover have "m = Inr ()" using mark_done [OF mark] by simp
  moreover have "good w" if "good (world s')" using assms(1) mark that unfolding takes_def by blast
  ultimately show ?thesis using assms(4,5) rows by (auto simp: project_def claim_head split: if_splits)
qed

lemma run_drains:
  assumes "takes d rows good" "projection d = Some pr"
  shows "set (pending (world s)) \<subseteq> set rows \<Longrightarrow> winv (world s) \<Longrightarrow> good (world s) \<Longrightarrow>
    run_ticks d ob batch ticks s = (r, ds, s1) \<Longrightarrow>
    r = Inr () \<and> pending (world s1) = drop (length ticks * claim_limit batch) (pending (world s))"
proof (induction ticks arbitrary: s r ds s1)
  case (Cons tick ticks)
  obtain now clock where tick: "tick = (now, clock)" by force
  obtain r0 ds0 s0 where p: "project d ob batch now clock s = (r0, ds0, s0)" by (metis surj_pair)
  have r0: "r0 = Inr ()" "good (world s0)" using project_takes [OF assms Cons.prems(1,3) p] by simp_all
  have o: "winv (world s0)" "pending (world s0) = drop (claim_limit batch) (pending (world s))"
    using project_outcome [OF assms(2) Cons.prems(2) p] r0 by simp_all
  have sub: "set (pending (world s0)) \<subseteq> set rows" using o(2) Cons.prems(1) by (auto dest: in_set_dropD)
  obtain r2 ds2 where rest: "run_ticks d ob batch ticks s0 = (r2, ds2, s1)" "r = r2"
    using Cons.prems(4) p r0 tick by (auto split: prod.splits)
  then show ?case using Cons.IH [OF sub o(1) r0(2) rest(1)] o(2) by (simp add: add.commute)
qed simp

text \<open>A head row the store refuses stops every run: the queue stays as it is.\<close>

lemma run_wedged:
  assumes "projection d = Some pr" "claim_limit batch > 0"
    and head: "\<And>s now. Q s \<Longrightarrow> \<exists>e s1. project_row d now row s = (Inl e, s1) \<and> Q s1"
    and "Q s" "pending (world s) = row # rest" "ticks \<noteq> []"
  shows "\<exists>e ds s1. run_ticks d ob batch ticks s = (Inl e, ds, s1) \<and> pending (world s1) = row # rest \<and> Q s1"
proof -
  obtain now clock more where ticks: "ticks = (now, clock) # more" using assms(6) by (cases ticks) auto
  obtain e s1 where row: "project_row d (clock (ob_id row)) row s = (Inl e, s1)" "Q s1" using head [OF assms(4)] by blast
  have "keeps (world s) (world s1)" using project_row_keeps [OF assms(1), of s "clock (ob_id row)" row] row by simp
  moreover have "take (claim_limit batch) (row # rest) = row # take (claim_limit batch - 1) rest"
    using assms(2) by (cases "claim_limit batch") simp_all
  ultimately show ?thesis using row assms(5) ticks by (auto simp: project_def claim_head keeps_def)
qed

end

end
