(* ===== verification/Pg_Tables.thy ===== *)
theory Pg_Tables
  imports Pg_Ledger Service_Events Projector
begin

text \<open>
  The tables behind the task projection (\<open>internal/store/pgstore/task_rows.go\<close>, the row types of
  \<open>task_structure.go\<close> and \<open>task_approvals.go\<close>) and what the migrations check. A JSONB column
  holds what the code decodes out of it: an object, a list of strings, a struct. A timestamp column
  keeps microseconds (\<open>db_time\<close>). A statement that fails gives a \<open>sql_err\<close>: the server's SQLSTATE,
  or an error of the driver, which has none and refuses an integer that does not fit an INTEGER or
  BIGINT column before it is sent. Texts without a NUL byte, and prefixes and hashes as the LIKE and
  regular expression of the checks say. Row level security shows a statement only the rows of its
  tenant, which every statement here also asks for; a conflict with another tenant's row is met all
  the same.
\<close>

section \<open>Errors of a statement\<close>

datatype sql_err = SqlState string | DriverError

definition check_violation :: sql_err where "check_violation = SqlState ''23514''"
definition fk_violation :: sql_err where "fk_violation = SqlState ''23503''"
definition unique_violation :: sql_err where "unique_violation = SqlState ''23505''"

definition pgCode :: "sql_err \<Rightarrow> string" where
  "pgCode e = (case e of SqlState code \<Rightarrow> code | DriverError \<Rightarrow> [])"

definition projectionDataError :: "sql_err \<Rightarrow> bool" where
  "projectionDataError e \<longleftrightarrow> has_prefix (pgCode e) ''22'' \<or> has_prefix (pgCode e) ''23''"

definition in_int32 :: "int \<Rightarrow> bool" where
  "in_int32 n \<longleftrightarrow> - (2 ^ 31) \<le> n \<and> n < 2 ^ 31"

type_synonym 'd sql = "sql_err + 'd"

definition need :: "bool \<Rightarrow> sql_err \<Rightarrow> 'd \<Rightarrow> 'd sql" where
  "need ok e db = (if ok then Inr db else Inl e)"

definition db_time :: "time \<Rightarrow> time" where
  "db_time t = t - t mod 1000"

definition hex_digit :: "char \<Rightarrow> bool" where
  "hex_digit c \<longleftrightarrow> byte_in 48 57 c \<or> byte_in 97 102 c"

definition hex64 :: "string \<Rightarrow> bool" where
  "hex64 s \<longleftrightarrow> length s = 64 \<and> list_all hex_digit s"

definition sha256Ref :: "string \<Rightarrow> bool" where
  "sha256Ref s \<longleftrightarrow> has_prefix s ''sha256:'' \<and> hex64 (drop 7 s)"

definition nonEmpty :: "string \<Rightarrow> string option" where
  "nonEmpty s = (if s = [] then None else Some s)"

section \<open>Rows\<close>

record taskRow =
  tr_id :: string
  tr_tenant :: string
  tr_workflow :: string
  tr_title :: string
  tr_goal :: string
  tr_mode :: string
  tr_status :: string
  tr_profile :: string
  tr_plan_version :: int
  tr_budgets :: obj
  tr_usage :: obj
  tr_pending :: "string list"
  tr_policy :: Policy
  tr_created_by :: string
  tr_created :: time
  tr_updated :: time
  tr_deleted :: "time option"

record taskEventRow =
  er_tenant :: string
  er_task :: string
  er_seq :: nat
  er_event :: string
  er_type :: string
  er_body :: Event
  er_occurred :: time

record taskMessageRow =
  ms_tenant :: string
  ms_task :: string
  ms_seq :: int
  ms_client :: string
  ms_text :: string
  ms_attachments :: goval
  ms_delivery :: string
  ms_created :: time

record manifestRow =
  mr_id :: string
  mr_tenant :: string
  mr_task :: string
  mr_attempt :: string
  mr_entries :: goval
  mr_hash :: string
  mr_created :: time

record profileRow =
  pr_tenant :: string
  pr_id :: string
  pr_version :: int
  pr_spec :: obj
  pr_created :: time

record profileFileRow =
  fr_tenant :: string
  fr_id :: string
  fr_version :: int
  fr_path :: string
  fr_content :: string
  fr_size :: int
  fr_sha256 :: string

record planVersionRow =
  vr_tenant :: string
  vr_task :: string
  vr_version :: int
  vr_parent :: int
  vr_hash :: string
  vr_command :: "string option"
  vr_actor :: goval
  vr_created :: time

record taskNodeRow =
  nr_tenant :: string
  nr_task :: string
  nr_node :: string
  nr_type :: "string option"
  nr_title :: "string option"
  nr_status :: string
  nr_reason :: string
  nr_workspace :: "string option"
  nr_owner :: "string option"
  nr_depends :: "string list option"
  nr_parent :: "string option"
  nr_sop_step :: "goval option"
  nr_frozen :: bool
  nr_attempt :: "string option"
  nr_count :: int
  nr_version :: int
  nr_updated :: time

record stageAttemptRow =
  ar_id :: string
  ar_tenant :: string
  ar_task :: string
  ar_node :: string
  ar_no :: int
  ar_status :: string
  ar_profile :: string
  ar_runtime :: obj
  ar_failure :: "goval option"
  ar_usage :: goval
  ar_version :: int
  ar_started :: time
  ar_finished :: "time option"
  ar_changed :: "time option"
  ar_resumed_activity :: int
  ar_resumed_state :: int

record taskApprovalRow =
  pa_id :: string
  pa_tenant :: string
  pa_task :: string
  pa_node :: "string option"
  pa_attempt :: "string option"
  pa_tool :: "string option"
  pa_subject :: goval
  pa_status :: string
  pa_comment :: string
  pa_always :: bool
  pa_version :: int
  pa_requested :: time
  pa_decided :: "time option"

record sopDefinitionRow =
  sr_tenant :: string
  sr_id :: string
  sr_version :: int
  sr_name :: string
  sr_description :: string
  sr_steps :: "SOPStep list"
  sr_created :: time

record outboxRow =
  or_record :: OutboxRecord
  or_projected :: "time option"

text \<open>The database: the ledger's tables, the projections, and the outbox the workers write.\<close>

record task_db = ledger_db +
  db_tasks :: "(string, taskRow) gomap"
  db_events :: "taskEventRow list"
  db_messages :: "(string \<times> int, taskMessageRow) gomap"
  db_manifests :: "(string, manifestRow) gomap"
  db_profiles :: "(string \<times> string \<times> int, profileRow) gomap"
  db_files :: "(string \<times> string \<times> int \<times> string, profileFileRow) gomap"
  db_plans :: "(string \<times> int, planVersionRow) gomap"
  db_nodes :: "(string \<times> string, taskNodeRow) gomap"
  db_attempts :: "(string, stageAttemptRow) gomap"
  db_approvals :: "(string, taskApprovalRow) gomap"
  db_sops :: "(string \<times> string \<times> int, sopDefinitionRow) gomap"
  db_policies :: "(string, Policy) gomap"
  db_settings :: "(string \<times> string, UserSettings) gomap"
  db_outbox :: "outboxRow list"
  db_leader :: bool

section \<open>Decoding\<close>

definition decode_bool :: "goval option \<Rightarrow> bool option" where
  "decode_bool v = (case v of None \<Rightarrow> Some False | Some Null \<Rightarrow> Some False | Some (BoolV b) \<Rightarrow> Some b | _ \<Rightarrow> None)"

text \<open>A pointer field: nil when the key is absent or null.\<close>

definition decode_ptr :: "(goval option \<Rightarrow> 'a option) \<Rightarrow> goval option \<Rightarrow> 'a option option" where
  "decode_ptr dec v =
     (case v of
        None \<Rightarrow> Some None
      | Some x \<Rightarrow> if x = Null then Some None else (case dec (Some x) of None \<Rightarrow> None | Some a \<Rightarrow> Some (Some a)))"

definition decode_strs :: "goval option \<Rightarrow> string list option" where
  "decode_strs v =
     (case v of
        None \<Rightarrow> Some []
      | Some Null \<Rightarrow> Some []
      | Some (Arr items) \<Rightarrow>
          (if \<forall>item \<in> set items. decode_str (Some item) \<noteq> None
           then Some (map (\<lambda>item. the (decode_str (Some item))) items) else None)
      | _ \<Rightarrow> None)"

definition decode_map :: "goval option \<Rightarrow> obj option" where
  "decode_map v = (case v of None \<Rightarrow> Some [] | Some x \<Rightarrow> as_map (Some x))"

text \<open>\<open>hasJSON\<close>: a raw field that is there and not null; and its default where the code has one.\<close>

definition hasJSON :: "raw \<Rightarrow> bool" where
  "hasJSON r \<longleftrightarrow> r \<noteq> None \<and> r \<noteq> Some Null"

definition json_or :: "goval \<Rightarrow> raw \<Rightarrow> goval" where
  "json_or dflt r = (if hasJSON r then the r else dflt)"

section \<open>Tasks\<close>

definition newTaskRow :: "string \<Rightarrow> Task \<Rightarrow> taskRow" where
  "newTaskRow tenantID t =
     \<lparr>tr_id = t_id t, tr_tenant = tenantID, tr_workflow = t_workflow t, tr_title = t_title t, tr_goal = t_goal t,
      tr_mode = t_mode t, tr_status = t_status t, tr_profile = t_profile t, tr_plan_version = t_plan_version t,
      tr_budgets = json_obj (t_budgets t), tr_usage = json_obj (t_usage t), tr_pending = t_pending t,
      tr_policy = t_policy t, tr_created_by = t_created_by t, tr_created = db_time (t_created t),
      tr_updated = db_time (t_created t), tr_deleted = None\<rparr>"

definition row_task :: "taskRow \<Rightarrow> Task" where
  "row_task r =
     \<lparr>t_id = tr_id r, t_tenant = tr_tenant r, t_workflow = tr_workflow r, t_title = tr_title r, t_goal = tr_goal r,
      t_mode = tr_mode r, t_status = tr_status r, t_profile = tr_profile r, t_plan_version = tr_plan_version r,
      t_created_by = tr_created_by r, t_created = tr_created r, t_updated = tr_updated r, t_budgets = tr_budgets r,
      t_usage = tr_usage r, t_pending = tr_pending r, t_policy = tr_policy r\<rparr>"

definition row_manifest :: "manifestRow \<Rightarrow> ArtifactManifest option" where
  "row_manifest r =
     (case decode_entries (Some (mr_entries r)) of
        None \<Rightarrow> None
      | Some es \<Rightarrow> Some (LiftOmitted
          \<lparr>am_id = mr_id r, am_task = mr_task r, am_attempt = mr_attempt r, am_entries = es, am_omitted = None,
           am_hash = mr_hash r, am_created = mr_created r\<rparr>))"

definition row_profile :: "profileRow \<Rightarrow> Profile" where
  "row_profile r =
     \<lparr>prof_id = pr_id r, prof_version = pr_version r, prof_ref = pr_id r @ ''@'' @ itoa_int (pr_version r),
      prof_spec = pr_spec r, prof_created = pr_created r, prof_files = []\<rparr>"

text \<open>\<open>strconv.Atoi\<close>: an optional sign and digits that fit 64 bits.\<close>

definition digits_value :: "string \<Rightarrow> int" where
  "digits_value s = foldl (\<lambda>n c. 10 * n + (int (of_char c) - 48)) 0 s"

definition Atoi :: "string \<Rightarrow> int option" where
  "Atoi s =
     (let ds = (if has_prefix s ''-'' \<or> has_prefix s ''+'' then tl s else s);
          n = (if has_prefix s ''-'' then - digits_value ds else digits_value ds)
      in if ds \<noteq> [] \<and> list_all is_digit ds \<and> in_int64 n then Some n else None)"

definition splitRef :: "string \<Rightarrow> (string \<times> int) option" where
  "splitRef ref =
     (case cut_at (CHR ''@'') ref of
        (i, rawVersion, found) \<Rightarrow>
          if \<not> found \<or> i = [] then None
          else (case Atoi rawVersion of
             None \<Rightarrow> None
           | Some version \<Rightarrow> if version < 1 then None else Some (i, version)))"

definition task_statuses :: "string list" where
  "task_statuses = [''CREATED'', ''PLANNING'', ''RUNNING'', ''WAITING'', ''PAUSED'', ''PAUSED_NEEDS_REVIEW'',
     ''TAKEN_OVER'', ''COMPLETED'', ''FAILED'', ''CANCELLED'']"

definition task_row_ok :: "taskRow \<Rightarrow> bool" where
  "task_row_ok r \<longleftrightarrow> has_prefix (tr_id r) ''task_'' \<and> tr_mode r \<in> {''single'', ''multi'', ''long''} \<and>
     tr_status r \<in> set task_statuses \<and> tr_plan_version r > 0"

text \<open>
  \<open>updateTaskColumns\<close>: the row of the tenant's task, soft-deleted or not, changed by \<open>f\<close> and checked;
  no row is no error.
\<close>

definition updateTaskColumns :: "string \<Rightarrow> string \<Rightarrow> (taskRow \<Rightarrow> taskRow) \<Rightarrow> 'a task_db_scheme \<Rightarrow> 'a task_db_scheme sql" where
  "updateTaskColumns tenantID taskID f db =
     (case map_of (db_tasks db) taskID of
        None \<Rightarrow> Inr db
      | Some r \<Rightarrow>
          if tr_tenant r \<noteq> tenantID then Inr db
          else need (task_row_ok (f r)) check_violation (db\<lparr>db_tasks := AList.update taskID (f r) (db_tasks db)\<rparr>))"

end
