(* ===== verification/Pg_Events.thy ===== *)
theory Pg_Events
  imports Pg_Tables
begin

text \<open>
  Appending an event to Postgres and projecting it: \<open>task_events.go\<close>, \<open>task_approvals.go\<close> and the
  writes of \<open>task_structure.go\<close> (\<open>internal/store/pgstore\<close>). A projection is a function from the
  tables to new ones or a \<open>sql_err\<close>; the savepoint \<open>AppendTaskEvent\<close> runs it in drops what it did
  when the error is one of the event's data.
\<close>

section \<open>Reading a payload\<close>

text \<open>
  \<open>applyEvent\<close> ignores the error of its own decoding, so each of the two fields is read by itself;
  the other functions skip the event when a field they name has another type.
\<close>

definition loose_map :: "raw \<Rightarrow> obj" where
  "loose_map r = (case as_map r of None \<Rightarrow> [] | Some m \<Rightarrow> m)"

definition payload_version :: "raw \<Rightarrow> int" where
  "payload_version r = (case decode_int 0 (map_of (loose_map r) ''plan_version'') of None \<Rightarrow> 0 | Some n \<Rightarrow> n)"

section \<open>Messages and manifests\<close>

definition insertMessage :: "Event \<Rightarrow> 'a task_db_scheme \<Rightarrow> 'a task_db_scheme sql" where
  "insertMessage ev db =
     (case as_map (ev_payload ev) of
        None \<Rightarrow> Inr db
      | Some m \<Rightarrow>
          (case (decode_int 0 (map_of m ''message_seq''), decode_str (map_of m ''client_message_id''),
                 decode_str (map_of m ''text''), decode_str (map_of m ''delivery'')) of
             (Some n, Some client, Some txt, Some delivery) \<Rightarrow>
               if n \<le> 0 then Inr db
               else if delivery \<notin> {''queue'', ''interrupt''} then Inl check_violation
               else if has_key (db_messages db) (ev_task ev, n) then Inr db
               else if \<exists>row \<in> set (map snd (db_messages db)). ms_task row = ev_task ev \<and> ms_client row = client
               then Inl unique_violation
               else Inr (db\<lparr>db_messages := AList.update (ev_task ev, n)
                      \<lparr>ms_tenant = ev_tenant ev, ms_task = ev_task ev, ms_seq = n, ms_client = client, ms_text = txt,
                       ms_attachments = get_or (Arr []) m ''attachments'', ms_delivery = delivery,
                       ms_created = db_time (ev_occurred ev)\<rparr> (db_messages db)\<rparr>)
           | _ \<Rightarrow> Inr db))"

definition insertManifest :: "Event \<Rightarrow> 'a task_db_scheme \<Rightarrow> 'a task_db_scheme sql" where
  "insertManifest ev db =
     (case as_map (ev_payload ev) of
        None \<Rightarrow> Inr db
      | Some m \<Rightarrow>
          (case (decode_str (map_of m ''manifest_id''), decode_str (map_of m ''attempt_id''),
                 decode_str (map_of m ''manifest_hash'')) of
             (Some i, Some attempt, Some h) \<Rightarrow>
               if i = [] \<or> attempt = [] \<or> h = [] then Inr db
               else if \<not> has_prefix i ''man_'' \<or> \<not> sha256Ref h then Inl check_violation
               else if has_key (db_manifests db) i then Inr db
               else Inr (db\<lparr>db_manifests := AList.update i
                      \<lparr>mr_id = i, mr_tenant = ev_tenant ev, mr_task = ev_task ev, mr_attempt = attempt,
                       mr_entries = get_or (Arr []) m ''entries'', mr_hash = h, mr_created = db_time (ev_occurred ev)\<rparr>
                      (db_manifests db)\<rparr>)
           | _ \<Rightarrow> Inr db))"

section \<open>Approvals\<close>

definition approvalDecisions :: "string list" where
  "approvalDecisions = [''APPROVED'', ''REJECTED'', ''CANCELLED'', ''TAKEN_OVER'']"

definition insertApproval :: "Event \<Rightarrow> 'a task_db_scheme \<Rightarrow> 'a task_db_scheme sql" where
  "insertApproval ev db =
     (case as_map (ev_payload ev) of
        None \<Rightarrow> Inr db
      | Some m \<Rightarrow>
          (case (decode_str (map_of m ''approval_id''), decode_str (map_of m ''node_id''),
                 decode_str (map_of m ''attempt_id''), decode_str (map_of m ''tool_call_id'')) of
             (Some i, Some node, Some attempt, Some tool) \<Rightarrow>
               if \<not> has_prefix i ''apr_'' then Inr db
               else if has_key (db_approvals db) i then Inr db
               else Inr (db\<lparr>db_approvals := AList.update i
                      \<lparr>pa_id = i, pa_tenant = ev_tenant ev, pa_task = ev_task ev, pa_node = nonEmpty node,
                       pa_attempt = nonEmpty attempt, pa_tool = nonEmpty tool,
                       pa_subject = json_or (Obj []) (map_of m ''subject''), pa_status = ''PENDING'', pa_comment = [],
                       pa_always = False, pa_version = ev_version ev, pa_requested = db_time (ev_occurred ev),
                       pa_decided = None\<rparr> (db_approvals db)\<rparr>)
           | _ \<Rightarrow> Inr db))"

definition decision_applies :: "Event \<Rightarrow> taskApprovalRow \<Rightarrow> bool" where
  "decision_applies ev row \<longleftrightarrow> pa_tenant row = ev_tenant ev \<and>
     (if ev_version ev > 0 then pa_version row < ev_version ev else pa_status row = ''PENDING'')"

definition decideApproval :: "Event \<Rightarrow> 'a task_db_scheme \<Rightarrow> 'a task_db_scheme sql" where
  "decideApproval ev db =
     (case as_map (ev_payload ev) of
        None \<Rightarrow> Inr db
      | Some m \<Rightarrow>
          (case (decode_str (map_of m ''approval_id''), decode_str (map_of m ''status''),
                 decode_str (map_of m ''comment''), decode_bool (map_of m ''always'')) of
             (Some i, Some status, Some cmt, Some always) \<Rightarrow>
               if status \<notin> set approvalDecisions then Inr db
               else (case map_of (db_approvals db) i of
                  None \<Rightarrow> Inr db
                | Some row \<Rightarrow>
                    if \<not> decision_applies ev row then Inr db
                    else Inr (db\<lparr>db_approvals := AList.update i
                           (row\<lparr>pa_status := status, pa_comment := cmt, pa_always := always,
                                pa_decided := Some (db_time (ev_occurred ev)), pa_version := ev_version ev\<rparr>)
                           (db_approvals db)\<rparr>))
           | _ \<Rightarrow> Inr db))"

section \<open>The task's accumulators\<close>

definition containsString :: "string list \<Rightarrow> string \<Rightarrow> bool" where
  "containsString items wanted \<longleftrightarrow> wanted \<in> set items"

definition addJSONNumbers :: "obj \<Rightarrow> obj \<Rightarrow> obj" where
  "addJSONNumbers base delta = fold add_number delta base"

definition accumulate :: "Event \<Rightarrow> taskRow \<Rightarrow> taskRow" where
  "accumulate ev r =
     (let payload = loose_map (ev_payload ev) in
      if ev_type ev = ''approval.requested'' then
        (case str_field payload ''approval_id'' of None \<Rightarrow> r
         | Some a \<Rightarrow> if has_prefix a ''apr_'' \<and> \<not> containsString (tr_pending r) a
                    then r\<lparr>tr_pending := tr_pending r @ [a]\<rparr> else r)
      else if ev_type ev = ''approval.decided'' then
        (case str_field payload ''approval_id'' of None \<Rightarrow> r
         | Some a \<Rightarrow> if str_or_empty payload ''status'' \<in> set approvalDecisions
                    then r\<lparr>tr_pending := removeString (tr_pending r) a\<rparr> else r)
      else if ev_type ev = ''budget.granted'' then
        (case obj_field payload ''delta'' of None \<Rightarrow> r
         | Some delta \<Rightarrow> r\<lparr>tr_budgets := json_obj (addJSONNumbers (tr_budgets r) delta)\<rparr>)
      else if ev_type ev = ''usage.recorded'' then
        (case obj_field payload ''usage'' of None \<Rightarrow> r
         | Some delta \<Rightarrow> r\<lparr>tr_usage := json_obj (addJSONNumbers (tr_usage r) delta)\<rparr>)
      else r)"

definition updateTaskAccumulators :: "Event \<Rightarrow> 'a task_db_scheme \<Rightarrow> 'a task_db_scheme sql" where
  "updateTaskAccumulators ev db =
     updateTaskColumns (ev_tenant ev) (ev_task ev) (\<lambda>r. (accumulate ev r)\<lparr>tr_updated := db_time (ev_occurred ev)\<rparr>) db"

section \<open>Plan versions\<close>

definition insertPlanVersion :: "Event \<Rightarrow> 'a task_db_scheme \<Rightarrow> 'a task_db_scheme sql" where
  "insertPlanVersion ev db =
     (case as_map (ev_payload ev) of
        None \<Rightarrow> Inr db
      | Some m \<Rightarrow>
          (case (decode_int 0 (map_of m ''plan_version''), decode_ptr (decode_int 0) (map_of m ''parent_version''),
                 decode_str (map_of m ''hash''), decode_str (map_of m ''change_command_id''),
                 decode_str (map_of m ''command_id'')) of
             (Some v, Some parent0, Some h, Some change, Some cmd) \<Rightarrow>
               if v < 1 \<or> \<not> sha256Ref h then Inr db
               else let parent = (case parent0 of Some n \<Rightarrow> if n \<ge> 0 then n else v - 1 | None \<Rightarrow> v - 1) in
                 if \<not> in_int32 v \<or> \<not> in_int32 parent then Inl DriverError
                 else if has_key (db_plans db) (ev_task ev, v) then Inr db
                 else Inr (db\<lparr>db_plans := AList.update (ev_task ev, v)
                        \<lparr>vr_tenant = ev_tenant ev, vr_task = ev_task ev, vr_version = v, vr_parent = parent, vr_hash = h,
                         vr_command = nonEmpty (if change = [] then cmd else change),
                         vr_actor = json_or (Obj []) (map_of m ''actor''), vr_created = db_time (ev_occurred ev)\<rparr>
                        (db_plans db)\<rparr>)
           | _ \<Rightarrow> Inr db))"

section \<open>Nodes\<close>

definition node_statuses :: "string list" where
  "node_statuses = [''PENDING'', ''READY'', ''RUNNING'', ''AWAITING_APPROVAL'', ''AWAITING_INPUT'', ''PROPOSED'',
     ''VERIFYING'', ''COMPLETED'', ''RETRY_PENDING'', ''BLOCKED'', ''SKIPPED'', ''CANCELLED'']"

record node_change =
  nc_node :: string
  nc_status :: string
  nc_reason :: string
  nc_frozen :: "bool option"
  nc_type :: string
  nc_title :: string
  nc_access :: string
  nc_owner :: string
  nc_depends :: "string list option"
  nc_count :: "int option"
  nc_attempt :: string
  nc_parent :: string
  nc_step :: raw

definition decode_node_change :: "raw \<Rightarrow> node_change option" where
  "decode_node_change r =
     (case as_map r of
        None \<Rightarrow> None
      | Some m \<Rightarrow>
          (case (decode_str (map_of m ''node_id''), decode_str (map_of m ''to_status''), decode_str (map_of m ''reason''),
                 decode_ptr decode_bool (map_of m ''frozen''), decode_str (map_of m ''node_type''),
                 decode_str (map_of m ''title'')) of
             (Some node, Some status, Some reason, Some frozen, Some ty, Some title) \<Rightarrow>
               (case (decode_str (map_of m ''workspace_access''), decode_str (map_of m ''owner_profile''),
                      decode_ptr decode_strs (map_of m ''depends_on''), decode_ptr (decode_int 0) (map_of m ''attempt_count''),
                      decode_str (map_of m ''current_attempt_id''), decode_str (map_of m ''parent_node_id'')) of
                  (Some access, Some owner, Some ds, Some cnt, Some attempt, Some parent) \<Rightarrow> Some
                    \<lparr>nc_node = node, nc_status = status, nc_reason = reason, nc_frozen = frozen, nc_type = ty,
                     nc_title = title, nc_access = access, nc_owner = owner, nc_depends = ds, nc_count = cnt,
                     nc_attempt = attempt, nc_parent = parent, nc_step = map_of m ''sop_step''\<rparr>
                | _ \<Rightarrow> None)
           | _ \<Rightarrow> None))"

definition known :: "bool \<Rightarrow> 'a \<Rightarrow> 'a \<Rightarrow> 'a" where
  "known b new old = (if b then new else old)"

definition is_object :: "raw \<Rightarrow> bool" where
  "is_object r = (case r of Some (Obj m) \<Rightarrow> True | _ \<Rightarrow> False)"

text \<open>What the event says of a node, over what the row has.\<close>

definition node_set :: "Event \<Rightarrow> node_change \<Rightarrow> taskNodeRow \<Rightarrow> taskNodeRow" where
  "node_set ev c row =
     row\<lparr>nr_status := nc_status c, nr_reason := nc_reason c, nr_version := ev_version ev,
         nr_updated := db_time (ev_occurred ev),
         nr_frozen := (case nc_frozen c of None \<Rightarrow> nr_frozen row | Some b \<Rightarrow> b),
         nr_type := known (nc_type c \<noteq> []) (Some (nc_type c)) (nr_type row),
         nr_title := known (nc_title c \<noteq> []) (Some (nc_title c)) (nr_title row),
         nr_workspace := known (nc_access c \<in> {''write'', ''read'', ''none''}) (Some (nc_access c)) (nr_workspace row),
         nr_owner := known (nc_owner c \<noteq> []) (Some (nc_owner c)) (nr_owner row),
         nr_depends := known (nc_depends c \<noteq> None) (nc_depends c) (nr_depends row),
         nr_count := (case nc_count c of None \<Rightarrow> nr_count row | Some n \<Rightarrow> if n \<ge> 0 then n else nr_count row),
         nr_attempt := known (has_prefix (nc_attempt c) ''att_'') (Some (nc_attempt c)) (nr_attempt row),
         nr_parent := known (has_prefix (nc_parent c) ''n_'') (Some (nc_parent c)) (nr_parent row),
         nr_sop_step := known (is_object (nc_step c)) (nc_step c) (nr_sop_step row)\<rparr>"

definition blank_node :: "Event \<Rightarrow> node_change \<Rightarrow> taskNodeRow" where
  "blank_node ev c =
     \<lparr>nr_tenant = ev_tenant ev, nr_task = ev_task ev, nr_node = nc_node c, nr_type = None, nr_title = None,
      nr_status = [], nr_reason = [], nr_workspace = None, nr_owner = None, nr_depends = None, nr_parent = None,
      nr_sop_step = None, nr_frozen = False, nr_attempt = None, nr_count = 0, nr_version = 0, nr_updated = 0\<rparr>"

definition node_newer :: "Event \<Rightarrow> taskNodeRow \<Rightarrow> bool" where
  "node_newer ev row \<longleftrightarrow> nr_tenant row = ev_tenant ev \<and>
     (if ev_version ev > 0 then nr_version row < ev_version ev else nr_updated row \<le> db_time (ev_occurred ev))"

definition count_fits :: "node_change \<Rightarrow> bool" where
  "count_fits c \<longleftrightarrow> (case nc_count c of None \<Rightarrow> True | Some n \<Rightarrow> n < 0 \<or> in_int32 n)"

definition projectNodeStatus :: "Event \<Rightarrow> 'a task_db_scheme \<Rightarrow> 'a task_db_scheme sql" where
  "projectNodeStatus ev db =
     (case decode_node_change (ev_payload ev) of
        None \<Rightarrow> Inr db
      | Some c \<Rightarrow>
          let key = (ev_task ev, nc_node c) in
          if \<not> has_prefix (nc_node c) ''n_'' \<or> nc_status c = [] then Inr db
          else if \<not> count_fits c then Inl DriverError
          else if nc_status c \<notin> set node_statuses then Inl check_violation
          else (case map_of (db_nodes db) key of
             None \<Rightarrow> Inr (db\<lparr>db_nodes := AList.update key (node_set ev c (blank_node ev c)) (db_nodes db)\<rparr>)
           | Some row \<Rightarrow>
               if node_newer ev row then Inr (db\<lparr>db_nodes := AList.update key (node_set ev c row) (db_nodes db)\<rparr>)
               else Inr db))"

section \<open>Attempts\<close>

definition terminalAttemptStatuses :: "string list" where
  "terminalAttemptStatuses = [''ACCEPTED'', ''REJECTED'', ''ABORTED'', ''LOST'']"

definition attemptOutcomes :: "(string, string) gomap" where
  "attemptOutcomes = [(''completed'', ''ACCEPTED''), (''failed'', ''REJECTED''), (''cancelled'', ''ABORTED'')]"

text \<open>\<open>createAttempt\<close>: nothing when the attempt, or its number of its node, is there.\<close>

definition createAttempt :: "stageAttemptRow \<Rightarrow> 'a task_db_scheme \<Rightarrow> 'a task_db_scheme sql" where
  "createAttempt row db =
     (if \<not> in_int32 (ar_no row) then Inl DriverError
      else if has_key (db_attempts db) (ar_id row) \<or>
        (\<exists>r \<in> set (map snd (db_attempts db)). ar_task r = ar_task row \<and> ar_node r = ar_node row \<and> ar_no r = ar_no row)
      then Inr db
      else Inr (db\<lparr>db_attempts := AList.update (ar_id row) row (db_attempts db)\<rparr>))"

definition normalizeReserved :: "obj \<Rightarrow> obj" where
  "normalizeReserved reserved = filter (\<lambda>kv. snd kv \<noteq> Null) reserved"

definition put_version :: "int option \<Rightarrow> obj \<Rightarrow> obj" where
  "put_version v m = (case v of None \<Rightarrow> m | Some n \<Rightarrow> AList.update ''config_version'' (Float (of_int n)) m)"

definition insertAttempt :: "Event \<Rightarrow> 'a task_db_scheme \<Rightarrow> 'a task_db_scheme sql" where
  "insertAttempt ev db =
     (case as_map (ev_payload ev) of
        None \<Rightarrow> Inr db
      | Some m \<Rightarrow>
          (case (decode_str (map_of m ''node_id''), decode_str (map_of m ''attempt_id''), decode_int 0 (map_of m ''attempt_no''),
                 decode_str (map_of m ''profile''), decode_ptr (decode_int 0) (map_of m ''config_version''),
                 decode_str (map_of m ''switched_from''), decode_map (map_of m ''budget_reserved'')) of
             (Some node, Some attempt, Some n, Some profile, Some cv, Some from, Some reserved0) \<Rightarrow>
               if \<not> has_prefix attempt ''att_'' \<or> \<not> has_prefix node ''n_'' \<or> n < 1 then Inr db
               else let reserved = normalizeReserved reserved0;
                        r1 = put_text ''switched_from'' from (put_version cv []);
                        rt = (if reserved = [] then r1 else AList.update ''budget_reserved'' (Obj reserved) r1)
                 in createAttempt
                      \<lparr>ar_id = attempt, ar_tenant = ev_tenant ev, ar_task = ev_task ev, ar_node = node, ar_no = n,
                       ar_status = ''RUNNING'', ar_profile = profile, ar_runtime = json_obj rt, ar_failure = None,
                       ar_usage = Obj [], ar_version = ev_version ev, ar_started = db_time (ev_occurred ev),
                       ar_finished = None, ar_changed = Some (db_time (ev_occurred ev)), ar_resumed_activity = 0,
                       ar_resumed_state = 0\<rparr> db
           | _ \<Rightarrow> Inr db))"

definition movable :: "Event \<Rightarrow> stageAttemptRow \<Rightarrow> bool" where
  "movable ev row \<longleftrightarrow> ar_tenant row = ev_tenant ev \<and> ar_task row = ev_task ev \<and>
     ar_status row \<notin> set terminalAttemptStatuses \<and> (ev_version ev > 0 \<longrightarrow> ar_version row < ev_version ev)"

text \<open>Whether a row changed, and the tables; the values are what \<open>f\<close> sets besides the version.\<close>

definition moveAttempt :: "Event \<Rightarrow> string \<Rightarrow> (stageAttemptRow \<Rightarrow> stageAttemptRow) \<Rightarrow> 'a task_db_scheme
    \<Rightarrow> bool \<times> 'a task_db_scheme" where
  "moveAttempt ev attempt f db =
     (case map_of (db_attempts db) attempt of
        None \<Rightarrow> (False, db)
      | Some row \<Rightarrow>
          if movable ev row
          then (True, db\<lparr>db_attempts := AList.update attempt ((f row)\<lparr>ar_version := ev_version ev\<rparr>) (db_attempts db)\<rparr>)
          else (False, db))"

record attempt_body =
  ab_node :: string
  ab_attempt :: string
  ab_no :: int
  ab_profile :: string
  ab_config :: "int option"
  ab_reason :: string
  ab_outcome :: string
  ab_failure :: raw
  ab_usage :: raw
  ab_activity :: int
  ab_state :: int

definition decode_attempt :: "raw \<Rightarrow> attempt_body option" where
  "decode_attempt r =
     (case as_map r of
        None \<Rightarrow> None
      | Some m \<Rightarrow>
          (case (decode_str (map_of m ''node_id''), decode_str (map_of m ''attempt_id''), decode_int 0 (map_of m ''attempt_no''),
                 decode_str (map_of m ''profile''), decode_ptr (decode_int 0) (map_of m ''config_version'')) of
             (Some node, Some attempt, Some n, Some profile, Some cv) \<Rightarrow>
               (case (decode_str (map_of m ''reason''), decode_str (map_of m ''outcome''),
                      decode_int 0 (map_of m ''activity_attempt''), decode_int 0 (map_of m ''state_version'')) of
                  (Some reason, Some outcome, Some activity, Some state) \<Rightarrow> Some
                    \<lparr>ab_node = node, ab_attempt = attempt, ab_no = n, ab_profile = profile, ab_config = cv,
                     ab_reason = reason, ab_outcome = outcome, ab_failure = map_of m ''failure'', ab_usage = map_of m ''usage'',
                     ab_activity = activity, ab_state = state\<rparr>
                | _ \<Rightarrow> None)
           | _ \<Rightarrow> None))"

definition resumable :: "Event \<Rightarrow> int \<Rightarrow> int \<Rightarrow> stageAttemptRow \<Rightarrow> bool" where
  "resumable ev activity state row \<longleftrightarrow> ar_tenant row = ev_tenant ev \<and> ar_task row = ev_task ev \<and>
     ar_status row \<in> {''STARTING'', ''PARKED_HITL'', ''PARKED_INPUT''} \<and>
     (case ar_changed row of None \<Rightarrow> True | Some c \<Rightarrow> c \<le> db_time (ev_occurred ev)) \<and>
     (activity > 0 \<longrightarrow> ar_resumed_activity row < activity \<or>
        ar_resumed_activity row = activity \<and> ar_resumed_state row < state)"

definition resumeAttempt :: "Event \<Rightarrow> string \<Rightarrow> int \<Rightarrow> int \<Rightarrow> 'a task_db_scheme \<Rightarrow> 'a task_db_scheme sql" where
  "resumeAttempt ev attempt activity state db =
     (if activity > 0 \<and> (\<not> in_int32 activity \<or> \<not> in_int32 state) then Inl DriverError
      else case map_of (db_attempts db) attempt of
        None \<Rightarrow> Inr db
      | Some row \<Rightarrow>
          if \<not> resumable ev activity state row then Inr db
          else if activity > 0 \<and> state < 0 then Inl check_violation
          else Inr (db\<lparr>db_attempts := AList.update attempt
                 (if activity > 0
                  then row\<lparr>ar_status := ''RUNNING'', ar_resumed_activity := activity, ar_resumed_state := state\<rparr>
                  else row\<lparr>ar_status := ''RUNNING''\<rparr>) (db_attempts db)\<rparr>))"

definition park_status :: "string \<Rightarrow> string option" where
  "park_status reason = map_of [(''approval'', ''PARKED_HITL''), (''input'', ''PARKED_INPUT'')] reason"

definition finish_set :: "Event \<Rightarrow> attempt_body \<Rightarrow> string \<Rightarrow> stageAttemptRow \<Rightarrow> stageAttemptRow" where
  "finish_set ev b status row =
     row\<lparr>ar_status := status, ar_finished := Some (db_time (ev_occurred ev)), ar_changed := Some (db_time (ev_occurred ev)),
         ar_failure := known (hasJSON (ab_failure b)) (ab_failure b) (ar_failure row),
         ar_usage := json_or (ar_usage row) (ab_usage b)\<rparr>"

definition finished_row :: "Event \<Rightarrow> attempt_body \<Rightarrow> string \<Rightarrow> stageAttemptRow" where
  "finished_row ev b status =
     \<lparr>ar_id = ab_attempt b, ar_tenant = ev_tenant ev, ar_task = ev_task ev, ar_node = ab_node b, ar_no = ab_no b,
      ar_status = status, ar_profile = ab_profile b, ar_runtime = put_version (ab_config b) [],
      ar_failure = known (hasJSON (ab_failure b)) (ab_failure b) None, ar_usage = json_or (Obj []) (ab_usage b),
      ar_version = ev_version ev, ar_started = db_time (ev_occurred ev), ar_finished = Some (db_time (ev_occurred ev)),
      ar_changed = Some (db_time (ev_occurred ev)), ar_resumed_activity = 0, ar_resumed_state = 0\<rparr>"

definition finishAttempt :: "Event \<Rightarrow> attempt_body \<Rightarrow> 'a task_db_scheme \<Rightarrow> 'a task_db_scheme sql" where
  "finishAttempt ev b db =
     (case map_of attemptOutcomes (ab_outcome b) of
        None \<Rightarrow> Inr db
      | Some status \<Rightarrow>
          (case moveAttempt ev (ab_attempt b) (finish_set ev b status) db of
             (True, db') \<Rightarrow> Inr db'
           | (False, _) \<Rightarrow>
               if \<not> has_prefix (ab_node b) ''n_'' \<or> ab_no b < 1 \<or> ab_profile b = [] then Inr db
               else createAttempt (finished_row ev b status) db))"

definition projectAttemptEvent :: "Event \<Rightarrow> 'a task_db_scheme \<Rightarrow> 'a task_db_scheme sql" where
  "projectAttemptEvent ev db =
     (case decode_attempt (ev_payload ev) of
        None \<Rightarrow> Inr db
      | Some b \<Rightarrow>
          if \<not> has_prefix (ab_attempt b) ''att_'' then Inr db
          else if ev_type ev = ''attempt.parked'' then
            (case park_status (ab_reason b) of
               None \<Rightarrow> Inr db
             | Some status \<Rightarrow> Inr (snd (moveAttempt ev (ab_attempt b) (\<lambda>row. row\<lparr>ar_status := status,
                 ar_changed := Some (db_time (ev_occurred ev)), ar_resumed_activity := 0, ar_resumed_state := 0\<rparr>) db)))
          else if ev_type ev = ''attempt.resumed'' then resumeAttempt ev (ab_attempt b) (ab_activity b) (ab_state b) db
          else finishAttempt ev b db)"

section \<open>One event\<close>

definition commit_plan :: "Event \<Rightarrow> 'a task_db_scheme \<Rightarrow> 'a task_db_scheme sql" where
  "commit_plan ev db =
     (let v = payload_version (ev_payload ev) in
      rbind (if v > 0 then
               if in_int32 v then updateTaskColumns (ev_tenant ev) (ev_task ev) (\<lambda>r.
                 r\<lparr>tr_plan_version := max (tr_plan_version r) v, tr_updated := db_time (ev_occurred ev)\<rparr>) db
               else Inl DriverError
             else Inr db) (insertPlanVersion ev))"

definition set_status :: "Event \<Rightarrow> string \<Rightarrow> 'a task_db_scheme \<Rightarrow> 'a task_db_scheme sql" where
  "set_status ev status db =
     updateTaskColumns (ev_tenant ev) (ev_task ev) (\<lambda>r. r\<lparr>tr_status := status, tr_updated := db_time (ev_occurred ev)\<rparr>) db"

definition applyEvent :: "Event \<Rightarrow> 'a task_db_scheme \<Rightarrow> 'a task_db_scheme sql" where
  "applyEvent ev db =
     (let ty = ev_type ev; status = str_or_empty (loose_map (ev_payload ev)) ''to_status'' in
      if ty = ''task.status_changed'' then (if status \<noteq> [] then set_status ev status db else Inr db)
      else if ty = ''task.completed'' then set_status ev ''COMPLETED'' db
      else if ty = ''plan.version_committed'' then commit_plan ev db
      else if ty = ''node.status_changed'' then projectNodeStatus ev db
      else if ty = ''attempt.started'' then insertAttempt ev db
      else if ty \<in> {''attempt.parked'', ''attempt.resumed'', ''attempt.finished''} then projectAttemptEvent ev db
      else if ty = ''message.user'' then insertMessage ev db
      else if ty = ''artifact.manifest_created'' then insertManifest ev db
      else if ty = ''approval.requested'' then rbind (insertApproval ev db) (updateTaskAccumulators ev)
      else if ty = ''approval.decided'' then rbind (decideApproval ev db) (updateTaskAccumulators ev)
      else if ty \<in> {''budget.granted'', ''usage.recorded''} then updateTaskAccumulators ev db
      else Inr db)"

text \<open>The savepoint: an error of the event's data skips the projection, any other is the transaction's.\<close>

definition apply_in_savepoint :: "Event \<Rightarrow> 'a task_db_scheme \<Rightarrow> 'a task_db_scheme sql" where
  "apply_in_savepoint ev db =
     (case applyEvent ev db of
        Inr db' \<Rightarrow> Inr db'
      | Inl e \<Rightarrow> if projectionDataError e then Inr db else Inl e)"

text \<open>The event as its JSON reads back: the entity's version is a number, and four fields are not in it.\<close>

definition event_body :: "Event \<Rightarrow> Event" where
  "event_body ev =
     ev\<lparr>ev_payload := Some (case ev_payload ev of None \<Rightarrow> Null | Some v \<Rightarrow> v), ev_durable := False, ev_kind := [],
        ev_entity_id := [], ev_version := 0,
        ev_entity := (case ev_entity ev of None \<Rightarrow> None | Some m \<Rightarrow> if m = [] then None else Some (json_obj m))\<rparr>"

definition task_events_of :: "string \<Rightarrow> string \<Rightarrow> 'a task_db_scheme \<Rightarrow> taskEventRow list" where
  "task_events_of tenantID taskID db = filter (\<lambda>r. er_tenant r = tenantID \<and> er_task r = taskID) (db_events db)"

definition max_seq :: "taskEventRow list \<Rightarrow> nat" where
  "max_seq rows = fold max (map er_seq rows) 0"

definition event_row_ok :: "Event \<Rightarrow> nat \<Rightarrow> 'a task_db_scheme \<Rightarrow> bool" where
  "event_row_ok ev n db \<longleftrightarrow> has_prefix (ev_id ev) ''evt_'' \<and> n > 0 \<and> ev_tenant ev \<in> set (db_tenants db) \<and>
     (\<forall>r \<in> set (db_events db). er_event r \<noteq> ev_id ev \<and> \<not> (er_task r = ev_task ev \<and> er_seq r = n))"

definition store_event :: "Event \<Rightarrow> 'a task_db_scheme \<Rightarrow> nat result \<times> 'a task_db_scheme" where
  "store_event ev db =
     (case find (\<lambda>r. er_event r = ev_id ev \<and> er_tenant r = ev_tenant ev) (db_events db) of
        Some r \<Rightarrow> (Inr (er_seq r), db)
      | None \<Rightarrow>
          let n = max_seq (task_events_of (ev_tenant ev) (ev_task ev) db) + 1; ev' = ev\<lparr>ev_seq := n\<rparr> in
          if \<not> event_row_ok ev n db then (Inl (ErrText ''insert task event''), db)
          else (case apply_in_savepoint ev' (db\<lparr>db_events := db_events db @
                      [\<lparr>er_tenant = ev_tenant ev, er_task = ev_task ev, er_seq = n, er_event = ev_id ev,
                        er_type = ev_type ev, er_body = event_body ev', er_occurred = db_time (ev_occurred ev)\<rparr>]\<rparr>) of
             Inl e \<Rightarrow> (Inl (ErrText ''apply event''), db)
           | Inr db' \<Rightarrow> (Inr n, db')))"

definition pg_AppendTaskEvent :: "'a task_db_scheme \<Rightarrow> Event \<Rightarrow> Event result \<times> 'a task_db_scheme" where
  "pg_AppendTaskEvent db ev =
     (if \<not> ev_durable ev then (Inr ev, db)
      else if ev_tenant ev = [] \<or> ev_task ev = [] \<or> ev_id ev = [] then (Inl ErrMalformedEvent, db)
      else (case with_projectionErr (inTenant db (ev_tenant ev) (store_event ev)) of
         (Inl e, db') \<Rightarrow> (Inl e, db')
       | (Inr n, db') \<Rightarrow> (Inr (ev\<lparr>ev_seq := n\<rparr>), db')))"

end
