(* ===== verification/Pg_Store.thy ===== *)
theory Pg_Store
  imports Pg_Events
begin

text \<open>
  The rest of the Postgres store a task is served from: \<open>task_projection.go\<close>, \<open>policy.go\<close>,
  \<open>user_settings.go\<close>, \<open>sop.go\<close>, \<open>runtime_outbox.go\<close> and \<open>NodeStructure\<close> of \<open>task_structure.go\<close>
  (\<open>internal/store/pgstore\<close>), as an instance of the projection interface and of the outbox. A list
  is ordered by the columns the query names, texts by their bytes; rows equal in them keep the
  table's order. The database's own clock is the time an operation is given.
\<close>

section \<open>Transactions over the tables\<close>

text \<open>A body that reads: the transaction only refuses an empty tenant.\<close>

definition inTenantRead :: "string \<Rightarrow> 'a result \<Rightarrow> 'a result" where
  "inTenantRead tenantID r = (if tenantID = [] then Inl ErrNotFound else r)"

definition storageErr :: "'a result \<Rightarrow> 'a result" where
  "storageErr r = map_sum (\<lambda>e. ErrStorage) id r"

definition sql_write :: "string \<Rightarrow> 'd \<Rightarrow> ('d \<Rightarrow> 'd sql) \<Rightarrow> unit result \<times> 'd" where
  "sql_write tenantID db f =
     inTenant db tenantID (\<lambda>tx. case f tx of Inl e \<Rightarrow> (Inl (ErrText (pgCode e)), tx) | Inr tx' \<Rightarrow> (Inr (), tx'))"

section \<open>Tasks\<close>

definition create_row :: "taskRow \<Rightarrow> 'a task_db_scheme \<Rightarrow> 'a task_db_scheme sql" where
  "create_row row db =
     (if \<not> in_int32 (tr_plan_version row) then Inl DriverError
      else if \<not> task_row_ok row then Inl check_violation
      else if has_key (db_tasks db) (tr_id row) \<or> (\<exists>r \<in> set (map snd (db_tasks db)). tr_workflow r = tr_workflow row)
      then Inl unique_violation
      else if tr_tenant row \<notin> set (db_tenants db) then Inl fk_violation
      else Inr (db\<lparr>db_tasks := AList.update (tr_id row) row (db_tasks db)\<rparr>))"

definition pg_CreateTask :: "'a task_db_scheme \<Rightarrow> Principal \<Rightarrow> Task \<Rightarrow> unit result \<times> 'a task_db_scheme" where
  "pg_CreateTask db p t =
     (case sql_write (TenantID p) db (create_row (newTaskRow (TenantID p) t)) of (r, db') \<Rightarrow> (storageErr r, db'))"

definition visible_to :: "Principal \<Rightarrow> taskRow \<Rightarrow> bool" where
  "visible_to p r \<longleftrightarrow> tr_tenant r = TenantID p \<and> tr_created_by r = UserID p \<and> tr_deleted r = None"

definition pg_GetTask :: "'a task_db_scheme \<Rightarrow> Principal \<Rightarrow> string \<Rightarrow> Task result" where
  "pg_GetTask db p i =
     (if TenantID p = [] then Inl ErrStorage
      else case map_of (db_tasks db) i of
        None \<Rightarrow> Inl ErrNotFound
      | Some r \<Rightarrow> if visible_to p r then Inr (row_task r) else Inl ErrNotFound)"

definition pg_ListTasks :: "'a task_db_scheme \<Rightarrow> Principal \<Rightarrow> Task list result" where
  "pg_ListTasks db p =
     storageErr (inTenantRead (TenantID p)
       (Inr (map row_task (sort_key (\<lambda>r. - tr_updated r) (filter (visible_to p) (map snd (db_tasks db)))))))"

definition write_view :: "Task \<Rightarrow> taskRow \<Rightarrow> taskRow" where
  "write_view t r =
     r\<lparr>tr_status := t_status t, tr_plan_version := t_plan_version t, tr_budgets := json_obj (t_budgets t),
       tr_usage := json_obj (t_usage t), tr_pending := t_pending t, tr_updated := db_time (t_updated t)\<rparr>"

definition pg_UpdateTask :: "'a task_db_scheme \<Rightarrow> Principal \<Rightarrow> Task \<Rightarrow> unit result \<times> 'a task_db_scheme" where
  "pg_UpdateTask db p t =
     with_projectionErr (sql_write (TenantID p) db (\<lambda>tx.
       if \<not> in_int32 (t_plan_version t) then Inl DriverError
       else updateTaskColumns (TenantID p) (t_id t) (write_view t) tx))"

definition pg_DeleteTask :: "'a task_db_scheme \<Rightarrow> time \<Rightarrow> Principal \<Rightarrow> string \<Rightarrow> unit result \<times> 'a task_db_scheme" where
  "pg_DeleteTask db now p i =
     (if TenantID p = [] then (Inl ErrNotFound, db)
      else case map_of (db_tasks db) i of
        None \<Rightarrow> (Inl ErrNotFound, db)
      | Some r \<Rightarrow>
          if visible_to p r
          then (Inr (), db\<lparr>db_tasks := AList.update i (r\<lparr>tr_deleted := Some (db_time now)\<rparr>) (db_tasks db)\<rparr>)
          else (Inl ErrNotFound, db))"

section \<open>Events, manifests, nodes\<close>

definition stored_event :: "taskEventRow \<Rightarrow> Event" where
  "stored_event r = (er_body r)\<lparr>ev_seq := er_seq r, ev_durable := True\<rparr>"

definition pg_ListTaskEvents :: "'a task_db_scheme \<Rightarrow> Principal \<Rightarrow> string \<Rightarrow> nat \<Rightarrow> (Event list \<times> nat) result" where
  "pg_ListTaskEvents db p i after =
     storageErr (inTenantRead (TenantID p)
       (let rows = task_events_of (TenantID p) i db in
        if after \<ge> 2 ^ 63 then Inl (ErrText ''after'')
        else Inr (map stored_event (sort_key er_seq (filter (\<lambda>r. er_seq r > after) rows)), max_seq rows)))"

fun read_all :: "('r \<Rightarrow> 'x option) \<Rightarrow> 'r list \<Rightarrow> 'x list option" where
  "read_all f [] = Some []"
| "read_all f (r # rs) = (case f r of None \<Rightarrow> None | Some x \<Rightarrow> map_option ((#) x) (read_all f rs))"

definition pg_ListManifests :: "'a task_db_scheme \<Rightarrow> Principal \<Rightarrow> string \<Rightarrow> ArtifactManifest list result" where
  "pg_ListManifests db p i =
     (if TenantID p = [] then Inl ErrNotFound
      else case read_all row_manifest (sort_key mr_created
          (filter (\<lambda>r. mr_tenant r = TenantID p \<and> mr_task r = i) (map snd (db_manifests db)))) of
        None \<Rightarrow> Inl ErrStorage
      | Some items \<Rightarrow> Inr items)"

definition pg_GetManifest :: "'a task_db_scheme \<Rightarrow> Principal \<Rightarrow> string \<Rightarrow> ArtifactManifest result" where
  "pg_GetManifest db p i =
     (if TenantID p = [] then Inl ErrStorage
      else case map_of (db_manifests db) i of
        None \<Rightarrow> Inl ErrNotFound
      | Some r \<Rightarrow>
          if mr_tenant r \<noteq> TenantID p then Inl ErrNotFound
          else (case row_manifest r of None \<Rightarrow> Inl (ErrText ''json'') | Some m \<Rightarrow> Inr m))"

definition placed :: "string \<Rightarrow> string \<Rightarrow> taskNodeRow \<Rightarrow> bool" where
  "placed tenantID taskID r \<longleftrightarrow> nr_tenant r = tenantID \<and> nr_task r = taskID \<and> (nr_parent r \<noteq> None \<or> nr_sop_step r \<noteq> None)"

definition pg_NodeStructure :: "'a task_db_scheme \<Rightarrow> Principal \<Rightarrow> string \<Rightarrow> (string, NodeStructure) gomap result" where
  "pg_NodeStructure db p i =
     inTenantRead (TenantID p)
       (Inr (map (\<lambda>r. (nr_node r, \<lparr>ns_parent = (case nr_parent r of None \<Rightarrow> [] | Some s \<Rightarrow> s), ns_step = nr_sop_step r\<rparr>))
              (filter (placed (TenantID p) i) (map snd (db_nodes db)))))"

section \<open>Profiles\<close>

text \<open>The bundle files of a version: a path that is there is left as it is.\<close>

definition add_file :: "string \<Rightarrow> string \<Rightarrow> int \<Rightarrow> ProfileFile \<Rightarrow> 'a task_db_scheme sql \<Rightarrow> 'a task_db_scheme sql" where
  "add_file tenantID i v file m =
     rbind m (\<lambda>db.
       if \<not> in_int32 (int (length (pf_content file))) then Inl DriverError
       else if pf_path file = [] \<or> \<not> hex64 (pf_sha256 file) then Inl check_violation
       else if has_key (db_files db) (tenantID, i, v, pf_path file) then Inr db
       else Inr (db\<lparr>db_files := AList.update (tenantID, i, v, pf_path file)
              \<lparr>fr_tenant = tenantID, fr_id = i, fr_version = v, fr_path = pf_path file, fr_content = pf_content file,
               fr_size = int (length (pf_content file)), fr_sha256 = pf_sha256 file\<rparr> (db_files db)\<rparr>))"

definition insert_profile :: "time \<Rightarrow> string \<Rightarrow> Profile \<Rightarrow> 'a task_db_scheme \<Rightarrow> 'a task_db_scheme sql" where
  "insert_profile now tenantID profile db =
     (let key = (tenantID, prof_id profile, prof_version profile) in
      if \<not> in_int32 (prof_version profile) then Inl DriverError
      else if has_key (db_profiles db) key then Inr db
      else if tenantID \<notin> set (db_tenants db) then Inl fk_violation
      else Inr (db\<lparr>db_profiles := AList.update key
             \<lparr>pr_tenant = tenantID, pr_id = prof_id profile, pr_version = prof_version profile,
              pr_spec = json_obj (prof_spec profile), pr_created = db_time now\<rparr> (db_profiles db)\<rparr>))"

definition register_profile :: "time \<Rightarrow> string \<Rightarrow> Profile \<Rightarrow> 'a task_db_scheme \<Rightarrow> Profile result \<times> 'a task_db_scheme" where
  "register_profile now tenantID profile db =
     (case insert_profile now tenantID profile db of
        Inl e \<Rightarrow> (Inl (ErrText (pgCode e)), db)
      | Inr db1 \<Rightarrow>
          (case map_of (db_profiles db1) (tenantID, prof_id profile, prof_version profile) of
             None \<Rightarrow> (Inl (ErrText ''record not found''), db)
           | Some stored \<Rightarrow>
               if \<not> jsonEqual (pr_spec stored) (prof_spec profile) then (Inl ErrIdempotencyConflict, db)
               else (case fold (add_file tenantID (prof_id profile) (prof_version profile)) (prof_files profile) (Inr db1) of
                  Inl e \<Rightarrow> (Inl (ErrText (pgCode e)), db)
                | Inr db2 \<Rightarrow> (Inr (row_profile stored), db2))))"

definition pg_RegisterProfile :: "'a task_db_scheme \<Rightarrow> time \<Rightarrow> Principal \<Rightarrow> Profile \<Rightarrow> Profile result \<times> 'a task_db_scheme" where
  "pg_RegisterProfile db now p profile =
     (if TenantID p = [] \<or> prof_id profile = [] \<or> prof_version profile < 1 then
        (Inl (ErrText ''tenant, profile_id and positive version are required''), db)
      else with_projectionErr (inTenant db (TenantID p)
             (register_profile now (TenantID p) (profile\<lparr>prof_spec := cloneMap (prof_spec profile)\<rparr>))))"

definition pg_ListProfiles :: "'a task_db_scheme \<Rightarrow> Principal \<Rightarrow> Profile list result" where
  "pg_ListProfiles db p =
     inTenantRead (TenantID p) (Inr (map row_profile
       (sort_key pr_id (sort_key pr_version (filter (\<lambda>r. pr_tenant r = TenantID p) (map snd (db_profiles db)))))))"

definition pg_GetProfile :: "'a task_db_scheme \<Rightarrow> Principal \<Rightarrow> string \<Rightarrow> Profile result" where
  "pg_GetProfile db p ref =
     (case splitRef ref of
        None \<Rightarrow> Inl ErrNotFound
      | Some (i, v) \<Rightarrow>
          if TenantID p = [] \<or> \<not> in_int32 v then Inl ErrStorage
          else (case map_of (db_profiles db) (TenantID p, i, v) of
             None \<Rightarrow> Inl ErrNotFound
           | Some r \<Rightarrow> Inr (row_profile r)))"

definition pg_ProfileFiles :: "'a task_db_scheme \<Rightarrow> Principal \<Rightarrow> string \<Rightarrow> ProfileFile list result" where
  "pg_ProfileFiles db p ref =
     (case splitRef ref of
        None \<Rightarrow> Inl ErrNotFound
      | Some (i, v) \<Rightarrow>
          inTenantRead (TenantID p)
            (if \<not> in_int32 v then Inl ErrStorage
             else Inr (map (\<lambda>r. \<lparr>pf_path = fr_path r, pf_content = fr_content r, pf_sha256 = fr_sha256 r\<rparr>)
                (sort_key fr_path (filter (\<lambda>r. fr_tenant r = TenantID p \<and> fr_id r = i \<and> fr_version r = v)
                  (map snd (db_files db)))))))"

section \<open>Policies, settings, SOPs\<close>

definition pg_GetTenantPolicy :: "'a task_db_scheme \<Rightarrow> Principal \<Rightarrow> Policy result" where
  "pg_GetTenantPolicy db p =
     inTenantRead (TenantID p)
       (Inr (case map_of (db_policies db) (TenantID p) of None \<Rightarrow> no_policy\<lparr>DeniedTools := Some []\<rparr>
             | Some policy \<Rightarrow> policy\<lparr>DeniedTools := Some (denied policy)\<rparr>))"

definition pg_SetTenantPolicy :: "'a task_db_scheme \<Rightarrow> Principal \<Rightarrow> Policy \<Rightarrow> Policy result \<times> 'a task_db_scheme" where
  "pg_SetTenantPolicy db p policy =
     with_projectionErr (inTenant db (TenantID p) (\<lambda>tx.
       if TenantID p \<notin> set (db_tenants tx) then (Inl (ErrText (pgCode fk_violation)), tx)
       else (Inr policy, tx\<lparr>db_policies := AList.update (TenantID p) policy (db_policies tx)\<rparr>)))"

definition pg_GetUserSettings :: "'a task_db_scheme \<Rightarrow> Principal \<Rightarrow> (UserSettings \<times> bool) result" where
  "pg_GetUserSettings db p =
     inTenantRead (TenantID p)
       (Inr (case map_of (db_settings db) (TenantID p, UserID p) of
          None \<Rightarrow> (\<lparr>DefaultPreset = [], Custom = \<lparr>cp_write_scope = [], cp_auto_edits = False, cp_auto_commands = False,
                   cp_auto_builtin = False\<rparr>\<rparr>, False)
        | Some settings \<Rightarrow> (settings, True)))"

definition pg_SetUserSettings :: "'a task_db_scheme \<Rightarrow> Principal \<Rightarrow> UserSettings \<Rightarrow> unit result \<times> 'a task_db_scheme" where
  "pg_SetUserSettings db p settings =
     with_projectionErr (sql_write (TenantID p) db (\<lambda>tx.
       if TenantID p \<notin> set (db_tenants tx) then Inl fk_violation
       else Inr (tx\<lparr>db_settings := AList.update (TenantID p, UserID p) settings (db_settings tx)\<rparr>)))"

definition insert_sop :: "time \<Rightarrow> string \<Rightarrow> SOP \<Rightarrow> 'a task_db_scheme \<Rightarrow> 'a task_db_scheme sql" where
  "insert_sop now tenantID sop db =
     (let key = (tenantID, sop_id sop, sop_version sop) in
      if \<not> in_int32 (sop_version sop) then Inl DriverError
      else if sop_id sop = [] \<or> sop_version sop \<le> 0 \<or> sop_steps sop = [] then Inl check_violation
      else if has_key (db_sops db) key then Inr db
      else if tenantID \<notin> set (db_tenants db) then Inl fk_violation
      else Inr (db\<lparr>db_sops := AList.update key
             \<lparr>sr_tenant = tenantID, sr_id = sop_id sop, sr_version = sop_version sop, sr_name = sop_name sop,
              sr_description = sop_description sop, sr_steps = map json_step (sop_steps sop), sr_created = db_time now\<rparr>
             (db_sops db)\<rparr>))"

definition stored_sop :: "sopDefinitionRow \<Rightarrow> SOP" where
  "stored_sop r =
     \<lparr>sop_id = sr_id r, sop_version = 0, sop_ref = [], sop_name = sr_name r, sop_description = sr_description r,
      sop_steps = sr_steps r, sop_created = 0\<rparr>"

definition register_sop :: "time \<Rightarrow> string \<Rightarrow> SOP \<Rightarrow> 'a task_db_scheme \<Rightarrow> SOP result \<times> 'a task_db_scheme" where
  "register_sop now tenantID sop db =
     (case insert_sop now tenantID sop db of
        Inl e \<Rightarrow> (Inl (ErrText (pgCode e)), db)
      | Inr db1 \<Rightarrow>
          (case map_of (db_sops db1) (tenantID, sop_id sop, sop_version sop) of
             None \<Rightarrow> (Inl (ErrText ''record not found''), db)
           | Some stored \<Rightarrow>
               if \<not> SameSOP (stored_sop stored) sop then (Inl ErrIdempotencyConflict, db)
               else (Inr (sop\<lparr>sop_created := sr_created stored\<rparr>), db1)))"

definition pg_RegisterSOP :: "'a task_db_scheme \<Rightarrow> time \<Rightarrow> Principal \<Rightarrow> SOP \<Rightarrow> SOP result \<times> 'a task_db_scheme" where
  "pg_RegisterSOP db now p sop =
     with_projectionErr (inTenant db (TenantID p) (register_sop now (TenantID p) sop))"

definition row_sop :: "sopDefinitionRow \<Rightarrow> SOP" where
  "row_sop r =
     \<lparr>sop_id = sr_id r, sop_version = sr_version r, sop_ref = sr_id r @ ''@'' @ itoa_int (sr_version r),
      sop_name = (if sr_name r = [] then sr_id r else sr_name r), sop_description = sr_description r,
      sop_steps = NormalizeSOPSteps (sr_steps r), sop_created = sr_created r\<rparr>"

definition pg_ListSOPs :: "'a task_db_scheme \<Rightarrow> Principal \<Rightarrow> SOP list result" where
  "pg_ListSOPs db p =
     inTenantRead (TenantID p) (Inr (map row_sop
       (sort_key sr_id (sort_key sr_version (filter (\<lambda>r. sr_tenant r = TenantID p) (map snd (db_sops db)))))))"

definition pg_projection :: "('a task_db_scheme) projection" where
  "pg_projection =
     \<lparr>pCreateTask = pg_CreateTask, pGetTask = pg_GetTask, pListTasks = pg_ListTasks, pUpdateTask = pg_UpdateTask,
      pDeleteTask = pg_DeleteTask, pAppendTaskEvent = pg_AppendTaskEvent, pListTaskEvents = pg_ListTaskEvents,
      pRegisterProfile = pg_RegisterProfile, pListProfiles = pg_ListProfiles, pGetProfile = pg_GetProfile,
      pGetTenantPolicy = pg_GetTenantPolicy, pSetTenantPolicy = pg_SetTenantPolicy, pRegisterSOP = pg_RegisterSOP,
      pListSOPs = pg_ListSOPs, pListManifests = pg_ListManifests, pGetManifest = pg_GetManifest,
      pProfileFiles = Some pg_ProfileFiles, pNodeStructure = Some pg_NodeStructure,
      pGetUserSettings = Some pg_GetUserSettings, pSetUserSettings = Some pg_SetUserSettings\<rparr>"

section \<open>The outbox\<close>

definition pg_pending :: "'a task_db_scheme \<Rightarrow> OutboxRecord list" where
  "pg_pending db = sort_key ob_id (map or_record (filter (\<lambda>r. or_projected r = None) (db_outbox db)))"

definition pg_ClaimRuntimeOutbox :: "'a task_db_scheme \<Rightarrow> int \<Rightarrow> OutboxRecord list result" where
  "pg_ClaimRuntimeOutbox db limit = Inr (take (claim_limit limit) (pg_pending db))"

definition pg_MarkRuntimeOutboxProjected :: "'a task_db_scheme \<Rightarrow> time \<Rightarrow> int list \<Rightarrow> unit result \<times> 'a task_db_scheme" where
  "pg_MarkRuntimeOutboxProjected db now ids =
     (if ids = [] then (Inr (), db)
      else (Inr (), db\<lparr>db_outbox := map (\<lambda>r. if ob_id (or_record r) \<in> set ids then r\<lparr>or_projected := Some (db_time now)\<rparr> else r)
              (db_outbox db)\<rparr>))"

definition pg_outbox :: "('a task_db_scheme) outbox_ops" where
  "pg_outbox = \<lparr>ClaimRuntimeOutbox = pg_ClaimRuntimeOutbox, MarkRuntimeOutboxProjected = pg_MarkRuntimeOutboxProjected\<rparr>"

text \<open>The advisory lock is the leader's: whoever else tries does not get it.\<close>

definition pg_AcquireProjectorLeadership :: "'a task_db_scheme \<Rightarrow> bool result \<times> 'a task_db_scheme" where
  "pg_AcquireProjectorLeadership db = (if db_leader db then (Inr False, db) else (Inr True, db\<lparr>db_leader := True\<rparr>))"

definition pg_ReleaseProjectorLeadership :: "'a task_db_scheme \<Rightarrow> 'a task_db_scheme" where
  "pg_ReleaseProjectorLeadership db = db\<lparr>db_leader := False\<rparr>"

definition pg_leadership :: "('a task_db_scheme) leadership_ops" where
  "pg_leadership = \<lparr>AcquireProjectorLeadership = pg_AcquireProjectorLeadership,
     ReleaseProjectorLeadership = pg_ReleaseProjectorLeadership\<rparr>"

end
