(* ===== verification/Pg_Sample.thy ===== *)
theory Pg_Sample
  imports Pg_Store
begin

text \<open>
  Concrete rows, events and a database, the inputs on which the theorems about the Postgres store are
  applied: two tenants, and one task of the first.
\<close>

abbreviation alice :: Principal where
  "alice \<equiv> \<lparr>TenantID = ''t1'', UserID = ''alice''\<rparr>"

abbreviation mallory :: Principal where
  "mallory \<equiv> \<lparr>TenantID = ''t2'', UserID = ''mallory''\<rparr>"

definition sample_row :: taskRow where
  "sample_row =
     \<lparr>tr_id = ''task_1'', tr_tenant = ''t1'', tr_workflow = ''wf_1'', tr_title = ''draft'', tr_goal = ''write'',
      tr_mode = ''single'', tr_status = ''RUNNING'', tr_profile = ''writer@1'', tr_plan_version = 1, tr_budgets = [],
      tr_usage = [], tr_pending = [], tr_policy = no_policy, tr_created_by = ''alice'', tr_created = 1000,
      tr_updated = 1000, tr_deleted = None\<rparr>"

definition empty_db :: task_db where
  "empty_db =
     \<lparr>db_tenants = [''t1'', ''t2''], db_ledger = [], db_tasks = [], db_events = [], db_messages = [], db_manifests = [],
      db_profiles = [], db_files = [], db_plans = [], db_nodes = [], db_attempts = [], db_approvals = [], db_sops = [],
      db_policies = [], db_settings = [], db_outbox = [], db_leader = False\<rparr>"

definition sample_db :: task_db where
  "sample_db = empty_db\<lparr>db_tasks := [(''task_1'', sample_row)]\<rparr>"

definition worker_event :: "string \<Rightarrow> string \<Rightarrow> obj \<Rightarrow> Event" where
  "worker_event i ty payload =
     \<lparr>ev_seq = 0, ev_after = 0, ev_id = i, ev_task = ''task_1'', ev_tenant = ''t1'', ev_type = ty, ev_source = ''worker'',
      ev_payload = Some (Obj payload), ev_occurred = 2000, ev_durable = True, ev_kind = [], ev_entity_id = [],
      ev_version = 0, ev_entity = None\<rparr>"

text \<open>An outbox row of a message event, and the service on a database with some.\<close>

definition outbox_row :: "int \<Rightarrow> string \<Rightarrow> outboxRow" where
  "outbox_row n i =
     \<lparr>or_record = \<lparr>ob_id = n, ob_tenant = ''t1'', ob_task = ''task_1'', ob_event = i,
        ob_body = Some (Obj [(''event_id'', Str i), (''type'', Str ''message.agent'')])\<rparr>, or_projected = None\<rparr>"

definition pg_deps :: "((string \<times> unit) list, task_db) deps" where
  "pg_deps =
     \<lparr>ledger = pg_ledger, projection = Some pg_projection, orch = None, cache = lru_list 10, artifactSigner = None,
      command_hash = (\<lambda>n _. n), sprint = (\<lambda>_. []), parse_time = (\<lambda>_. None)\<rparr>"

definition pg_sys :: "outboxRow list \<Rightarrow> ((string \<times> unit) list, task_db) sys" where
  "pg_sys rows = \<lparr>svc = NewService [], world = sample_db\<lparr>db_outbox := rows\<rparr>, background = []\<rparr>"

lemmas sample_defs = empty_db_def sample_db_def sample_row_def worker_event_def

end
