(* ===== verification/Pg_Effects.thy ===== *)
theory Pg_Effects
  imports Pg_Sample
begin

text \<open>
  What projecting an event may do to the tables, as one interface: a relation between the tables
  before and after that holds of every single row written under the conditions the statements check
  holds of the whole projection, \<open>applyEvent\<close>, of the append it belongs to, and of every other write
  of the store. A write of the store is a value of \<open>store_op\<close>, a run of it by any replicas a list of
  them. The instances say what other tenants see (\<open>Pg_Isolation\<close>), what is never written
  again (\<open>Pg_History\<close>), and what a projection leaves alone (\<open>Pg_Log\<close>).
\<close>

section \<open>The writes of the store\<close>

datatype store_op =
    OpCreate Principal Task
  | OpUpdate Principal Task
  | OpDelete time Principal string
  | OpAppend Event
  | OpProfile time Principal Profile
  | OpPolicy Principal Policy
  | OpSettings Principal UserSettings
  | OpSop time Principal SOP

fun op_tenant :: "store_op \<Rightarrow> string" where
  "op_tenant (OpCreate p t) = TenantID p"
| "op_tenant (OpUpdate p t) = TenantID p"
| "op_tenant (OpDelete now p i) = TenantID p"
| "op_tenant (OpAppend ev) = ev_tenant ev"
| "op_tenant (OpProfile now p profile) = TenantID p"
| "op_tenant (OpPolicy p policy) = TenantID p"
| "op_tenant (OpSettings p settings) = TenantID p"
| "op_tenant (OpSop now p sop) = TenantID p"

fun store_step :: "'a task_db_scheme \<Rightarrow> store_op \<Rightarrow> 'a task_db_scheme" where
  "store_step db (OpCreate p t) = snd (pg_CreateTask db p t)"
| "store_step db (OpUpdate p t) = snd (pg_UpdateTask db p t)"
| "store_step db (OpDelete now p i) = snd (pg_DeleteTask db now p i)"
| "store_step db (OpAppend ev) = snd (pg_AppendTaskEvent db ev)"
| "store_step db (OpProfile now p profile) = snd (pg_RegisterProfile db now p profile)"
| "store_step db (OpPolicy p policy) = snd (pg_SetTenantPolicy db p policy)"
| "store_step db (OpSettings p settings) = snd (pg_SetUserSettings db p settings)"
| "store_step db (OpSop now p sop) = snd (pg_RegisterSOP db now p sop)"

definition store_run :: "'a task_db_scheme \<Rightarrow> store_op list \<Rightarrow> 'a task_db_scheme" where
  "store_run db ops = foldl store_step db ops"

section \<open>The law of a row\<close>

text \<open>The columns of a task that no event changes.\<close>

definition same_task :: "taskRow \<Rightarrow> taskRow \<Rightarrow> bool" where
  "same_task r r' \<longleftrightarrow> tr_id r' = tr_id r \<and> tr_tenant r' = tr_tenant r \<and> tr_workflow r' = tr_workflow r \<and>
     tr_created_by r' = tr_created_by r \<and> tr_deleted r' = tr_deleted r"

definition same_attempt :: "stageAttemptRow \<Rightarrow> stageAttemptRow \<Rightarrow> bool" where
  "same_attempt r r' \<longleftrightarrow> ar_id r' = ar_id r \<and> ar_tenant r' = ar_tenant r \<and> ar_task r' = ar_task r \<and>
     ar_node r' = ar_node r \<and> ar_no r' = ar_no r \<and> ar_profile r' = ar_profile r \<and> ar_runtime r' = ar_runtime r \<and>
     ar_started r' = ar_started r"

text \<open>A row that is not there, or one of the tenant that the condition lets go on to the new one.\<close>

definition goes_on :: "('k, 'r) gomap \<Rightarrow> 'k \<Rightarrow> ('r \<Rightarrow> bool) \<Rightarrow> bool" where
  "goes_on m k ok \<longleftrightarrow> (case map_of m k of None \<Rightarrow> True | Some r \<Rightarrow> ok r)"

lemma goes_on_simps [simp]:
  "map_of m k = None \<Longrightarrow> goes_on m k ok" "map_of m k = Some r \<Longrightarrow> goes_on m k ok = ok r"
  by (simp_all add: goes_on_def)

locale row_law =
  fixes R :: "string \<Rightarrow> ('a task_db_scheme) \<Rightarrow> ('a task_db_scheme) \<Rightarrow> bool"
  assumes law_refl: "R t db db"
    and law_trans: "R t db db' \<Longrightarrow> R t db' db'' \<Longrightarrow> R t db db''"
    and law_task: "map_of (db_tasks db) k1 = Some old \<Longrightarrow> tr_tenant old = t \<Longrightarrow> same_task old r1 \<Longrightarrow>
      R t db (db\<lparr>db_tasks := AList.update k1 r1 (db_tasks db)\<rparr>)"
    and law_message: "map_of (db_messages db) k2 = None \<Longrightarrow> ms_tenant r2 = t \<Longrightarrow>
      R t db (db\<lparr>db_messages := AList.update k2 r2 (db_messages db)\<rparr>)"
    and law_manifest: "map_of (db_manifests db) k3 = None \<Longrightarrow> mr_tenant r3 = t \<Longrightarrow>
      R t db (db\<lparr>db_manifests := AList.update k3 r3 (db_manifests db)\<rparr>)"
    and law_plan: "map_of (db_plans db) k4 = None \<Longrightarrow> vr_tenant r4 = t \<Longrightarrow>
      R t db (db\<lparr>db_plans := AList.update k4 r4 (db_plans db)\<rparr>)"
    and law_approval: "pa_tenant r5 = t \<Longrightarrow> goes_on (db_approvals db) k5 (\<lambda>r. pa_tenant r = t) \<Longrightarrow>
      R t db (db\<lparr>db_approvals := AList.update k5 r5 (db_approvals db)\<rparr>)"
    and law_node: "nr_tenant r6 = t \<Longrightarrow> goes_on (db_nodes db) k6 (\<lambda>r. nr_tenant r = t) \<Longrightarrow>
      R t db (db\<lparr>db_nodes := AList.update k6 r6 (db_nodes db)\<rparr>)"
    and law_attempt: "ar_tenant r7 = t \<Longrightarrow>
      goes_on (db_attempts db) k7 (\<lambda>r. same_attempt r r7 \<and> ar_status r \<notin> set terminalAttemptStatuses) \<Longrightarrow>
      R t db (db\<lparr>db_attempts := AList.update k7 r7 (db_attempts db)\<rparr>)"
begin

definition lawful :: "string \<Rightarrow> ('a task_db_scheme \<Rightarrow> 'a task_db_scheme sql) \<Rightarrow> bool" where
  "lawful t f \<longleftrightarrow> (\<forall>db db'. f db = Inr db' \<longrightarrow> R t db db')"

lemma lawfulI: "(\<And>db db'. f db = Inr db' \<Longrightarrow> R t db db') \<Longrightarrow> lawful t f"
  by (simp add: lawful_def)

lemma lawfulD: "lawful t f \<Longrightarrow> f db = Inr db' \<Longrightarrow> R t db db'"
  by (simp add: lawful_def)

lemma lawful_bind: "lawful t f \<Longrightarrow> lawful t g \<Longrightarrow> lawful t (\<lambda>db. rbind (f db) g)"
  unfolding lawful_def rbind_Inr_iff by (metis law_trans)

lemma lawful_if: "lawful t f \<Longrightarrow> lawful t g \<Longrightarrow> lawful t (\<lambda>db. if b then f db else g db)"
  by (simp add: lawful_def)

lemma lawful_const: "lawful t Inr" "lawful t (\<lambda>db. Inl e)"
  by (simp_all add: lawful_def law_refl)

lemma lawful_updateTaskColumns:
  assumes "\<And>r. same_task r (f r)"
  shows "lawful t (updateTaskColumns t taskID f)"
  using assms
  by (intro lawfulI) (auto simp: updateTaskColumns_def need_def intro!: law_task law_refl split: option.splits if_splits)

lemma accumulate_same: "same_task r ((accumulate ev r)\<lparr>tr_updated := u\<rparr>)"
  by (auto simp: accumulate_def same_task_def Let_def split: option.split)

lemma lawful_updateTaskAccumulators: "lawful (ev_tenant ev) (updateTaskAccumulators ev)"
  unfolding updateTaskAccumulators_def by (rule lawful_updateTaskColumns) (rule accumulate_same)

lemma lawful_insertMessage: "lawful (ev_tenant ev) (insertMessage ev)"
  by (intro lawfulI)
    (auto simp: insertMessage_def has_key_def intro!: law_message law_refl split: option.splits if_splits)

lemma lawful_insertManifest: "lawful (ev_tenant ev) (insertManifest ev)"
  by (intro lawfulI)
    (auto simp: insertManifest_def has_key_def intro!: law_manifest law_refl split: option.splits if_splits)

lemma lawful_insertApproval: "lawful (ev_tenant ev) (insertApproval ev)"
  by (intro lawfulI)
    (auto simp: insertApproval_def has_key_def intro!: law_approval law_refl split: option.splits if_splits)

lemma lawful_decideApproval: "lawful (ev_tenant ev) (decideApproval ev)"
  by (intro lawfulI)
    (auto simp: decideApproval_def decision_applies_def intro!: law_approval law_refl split: option.splits if_splits)

lemma lawful_insertPlanVersion: "lawful (ev_tenant ev) (insertPlanVersion ev)"
  by (intro lawfulI)
    (auto simp: insertPlanVersion_def has_key_def Let_def intro!: law_plan law_refl split: option.splits if_splits)

lemma node_set_tenant: "nr_tenant (node_set ev c row) = nr_tenant row" "nr_tenant (blank_node ev c) = ev_tenant ev"
  by (simp_all add: node_set_def blank_node_def)

lemma lawful_projectNodeStatus: "lawful (ev_tenant ev) (projectNodeStatus ev)"
  by (intro lawfulI)
    (auto simp: projectNodeStatus_def Let_def node_newer_def node_set_tenant intro!: law_node law_refl
      split: option.splits if_splits)

lemma lawful_createAttempt: "lawful (ar_tenant row) (createAttempt row)"
  by (intro lawfulI) (auto simp: createAttempt_def has_key_def intro!: law_attempt law_refl split: if_splits)

lemma lawful_insertAttempt: "lawful (ev_tenant ev) (insertAttempt ev)"
proof (rule lawfulI)
  fix db db' :: "'a task_db_scheme" assume "insertAttempt ev db = Inr db'"
  then have "db' = db \<or> (\<exists>row. ar_tenant row = ev_tenant ev \<and> createAttempt row db = Inr db')"
    unfolding insertAttempt_def Let_def
    by (auto split: option.splits if_splits)
  then show "R (ev_tenant ev) db db'" using lawfulD [OF lawful_createAttempt] law_refl by metis
qed

lemma move_law:
  assumes "moveAttempt ev i f db = (b, db')" "\<And>r. same_attempt r (f r)"
  shows "R (ev_tenant ev) db db'"
proof (cases "map_of (db_attempts db) i")
  case None
  with assms(1) show ?thesis by (simp add: moveAttempt_def law_refl)
next
  case (Some row)
  let ?row = "(f row)\<lparr>ar_version := ev_version ev\<rparr>"
  have "same_attempt row ?row" using assms(2) [of row] by (simp add: same_attempt_def)
  then show ?thesis using assms(1) Some
    by (auto simp: moveAttempt_def movable_def same_attempt_def intro!: law_attempt law_refl split: if_splits)
qed

lemma lawful_resumeAttempt: "lawful (ev_tenant ev) (resumeAttempt ev i a st)"
  by (intro lawfulI)
    (auto simp: resumeAttempt_def resumable_def same_attempt_def terminalAttemptStatuses_def intro!: law_attempt law_refl
      split: option.splits if_splits)

lemma lawful_finishAttempt: "lawful (ev_tenant ev) (finishAttempt ev b)"
proof (rule lawfulI)
  fix db db' :: "'a task_db_scheme" assume fin: "finishAttempt ev b db = Inr db'"
  show "R (ev_tenant ev) db db'"
  proof (cases "map_of attemptOutcomes (ab_outcome b)")
    case None
    with fin show ?thesis by (simp add: finishAttempt_def law_refl)
  next
    case (Some status)
    obtain moved db1 where mv: "moveAttempt ev (ab_attempt b) (finish_set ev b status) db = (moved, db1)" by force
    show ?thesis
    proof (cases moved)
      case True
      then have "db' = db1" using fin Some mv by (simp add: finishAttempt_def)
      then show ?thesis using move_law [OF mv] by (simp add: finish_set_def same_attempt_def)
    next
      case False
      then have "db' = db \<or> createAttempt (finished_row ev b status) db = Inr db'"
        using fin Some mv by (simp add: finishAttempt_def split: if_splits)
      then show ?thesis
        using lawful_createAttempt [of "finished_row ev b status"] by (auto simp: lawful_def finished_row_def law_refl)
    qed
  qed
qed

lemma lawful_projectAttemptEvent: "lawful (ev_tenant ev) (projectAttemptEvent ev)"
proof (rule lawfulI)
  fix db db' :: "'a task_db_scheme" assume proj: "projectAttemptEvent ev db = Inr db'"
  show "R (ev_tenant ev) db db'"
  proof (cases "decode_attempt (ev_payload ev)")
    case None
    with proj show ?thesis by (simp add: projectAttemptEvent_def law_refl)
  next
    case (Some b)
    let ?park = "\<lambda>status row. row\<lparr>ar_status := status, ar_changed := Some (db_time (ev_occurred ev)),
        ar_resumed_activity := 0, ar_resumed_state := 0\<rparr>"
    have "db' = db \<or> (\<exists>status. db' = snd (moveAttempt ev (ab_attempt b) (?park status) db)) \<or>
        resumeAttempt ev (ab_attempt b) (ab_activity b) (ab_state b) db = Inr db' \<or> finishAttempt ev b db = Inr db'"
      using proj Some by (auto simp: projectAttemptEvent_def split: option.splits if_splits)
    moreover have "R (ev_tenant ev) db (snd (moveAttempt ev (ab_attempt b) (?park status) db))" for status
      by (rule move_law [where f = "?park status"]) (simp_all add: prod_eq_iff same_attempt_def)
    ultimately show ?thesis
      using lawfulD [OF lawful_resumeAttempt] lawfulD [OF lawful_finishAttempt] law_refl by metis
  qed
qed

lemma lawful_commit_plan: "lawful (ev_tenant ev) (commit_plan ev)"
proof (rule lawfulI)
  fix db db' :: "'a task_db_scheme" assume com: "commit_plan ev db = Inr db'"
  let ?upd = "updateTaskColumns (ev_tenant ev) (ev_task ev) (\<lambda>r. r\<lparr>tr_plan_version :=
      max (tr_plan_version r) (payload_version (ev_payload ev)), tr_updated := db_time (ev_occurred ev)\<rparr>)"
  obtain db1 where db1: "db1 = db \<or> ?upd db = Inr db1" "insertPlanVersion ev db1 = Inr db'"
    using com by (auto simp: commit_plan_def Let_def rbind_Inr_iff split: if_splits)
  have "lawful (ev_tenant ev) ?upd" by (rule lawful_updateTaskColumns) (simp add: same_task_def)
  with db1(1) have "R (ev_tenant ev) db db1" by (auto simp: lawful_def law_refl)
  moreover have "R (ev_tenant ev) db1 db'" by (rule lawfulD [OF lawful_insertPlanVersion db1(2)])
  ultimately show "R (ev_tenant ev) db db'" by (rule law_trans)
qed

lemma lawful_applyEvent: "lawful (ev_tenant ev) (applyEvent ev)"
proof -
  have status: "lawful (ev_tenant ev) (set_status ev status)" for status
    unfolding set_status_def by (rule lawful_updateTaskColumns) (simp add: same_task_def)
  have acc: "lawful (ev_tenant ev) (\<lambda>db. rbind (f db) (updateTaskAccumulators ev))" if "lawful (ev_tenant ev) f" for f
    using that by (intro lawful_bind lawful_updateTaskAccumulators)
  show ?thesis
    unfolding applyEvent_def [abs_def] Let_def
    by (intro lawful_if lawful_const status acc lawful_commit_plan lawful_projectNodeStatus lawful_insertAttempt
        lawful_projectAttemptEvent lawful_insertMessage lawful_insertManifest lawful_insertApproval
        lawful_decideApproval lawful_updateTaskAccumulators)
qed

lemma savepoint_law: "apply_in_savepoint ev db = Inr db' \<Longrightarrow> R (ev_tenant ev) db db'"
  by (auto simp: apply_in_savepoint_def law_refl split: sum.splits if_splits intro: lawfulD [OF lawful_applyEvent])

lemma update_law: "R (TenantID p) db (snd (pg_UpdateTask db p task))"
proof -
  have upd: "lawful (TenantID p) (\<lambda>tx. if \<not> in_int32 (t_plan_version task) then Inl DriverError
      else updateTaskColumns (TenantID p) (t_id task) (write_view task) tx)"
    by (intro lawful_if lawful_const lawful_updateTaskColumns) (simp add: write_view_def same_task_def)
  show ?thesis unfolding pg_UpdateTask_def sql_write_def inTenant_def with_projectionErr_def
    using lawfulD [OF upd] law_refl by (auto split: sum.split)
qed

end

section \<open>The law of the store\<close>

locale store_law = row_law +
  assumes law_event: "er_tenant r8 = t \<Longrightarrow> \<forall>r \<in> set (db_events db). er_event r \<noteq> er_event r8 \<Longrightarrow>
      er_seq r8 = Suc (max_seq (task_events_of t (er_task r8) db)) \<Longrightarrow> R t db (db\<lparr>db_events := db_events db @ [r8]\<rparr>)"
    and law_create: "map_of (db_tasks db) k9 = None \<Longrightarrow> tr_tenant r9 = t \<Longrightarrow> tr_deleted r9 = None \<Longrightarrow>
      R t db (db\<lparr>db_tasks := AList.update k9 r9 (db_tasks db)\<rparr>)"
    and law_delete: "map_of (db_tasks db) k10 = Some old2 \<Longrightarrow> tr_tenant old2 = t \<Longrightarrow> tr_deleted old2 = None \<Longrightarrow>
      R t db (db\<lparr>db_tasks := AList.update k10 (old2\<lparr>tr_deleted := Some u\<rparr>) (db_tasks db)\<rparr>)"
    and law_profile: "map_of (db_profiles db) k11 = None \<Longrightarrow> pr_tenant r11 = t \<Longrightarrow> fst k11 = t \<Longrightarrow>
      R t db (db\<lparr>db_profiles := AList.update k11 r11 (db_profiles db)\<rparr>)"
    and law_file: "map_of (db_files db) k12 = None \<Longrightarrow> fr_tenant r12 = t \<Longrightarrow> fst k12 = t \<Longrightarrow>
      R t db (db\<lparr>db_files := AList.update k12 r12 (db_files db)\<rparr>)"
    and law_sop: "map_of (db_sops db) k13 = None \<Longrightarrow> sr_tenant r13 = t \<Longrightarrow> fst k13 = t \<Longrightarrow>
      R t db (db\<lparr>db_sops := AList.update k13 r13 (db_sops db)\<rparr>)"
    and law_policy: "R t db (db\<lparr>db_policies := AList.update t r14 (db_policies db)\<rparr>)"
    and law_settings: "R t db (db\<lparr>db_settings := AList.update (t, u2) r15 (db_settings db)\<rparr>)"
begin

lemma store_event_law: "R (ev_tenant ev) db (snd (store_event ev db))"
proof (cases "find (\<lambda>r. er_event r = ev_id ev \<and> er_tenant r = ev_tenant ev) (db_events db)")
  case None
  define n where "n = max_seq (task_events_of (ev_tenant ev) (ev_task ev) db) + 1"
  define row where "row = \<lparr>er_tenant = ev_tenant ev, er_task = ev_task ev, er_seq = n, er_event = ev_id ev,
     er_type = ev_type ev, er_body = event_body (ev\<lparr>ev_seq := n\<rparr>), er_occurred = db_time (ev_occurred ev)\<rparr>"
  have ins: "R (ev_tenant ev) db (db\<lparr>db_events := db_events db @ [row]\<rparr>)" if "event_row_ok ev n db"
    using that by (intro law_event) (auto simp: row_def n_def event_row_ok_def)
  have app: "R (ev_tenant ev) (db\<lparr>db_events := db_events db @ [row]\<rparr>) db'"
    if "apply_in_savepoint (ev\<lparr>ev_seq := n\<rparr>) (db\<lparr>db_events := db_events db @ [row]\<rparr>) = Inr db'" for db'
    using savepoint_law [OF that] by simp
  show ?thesis using None ins app law_trans law_refl
    unfolding store_event_def Let_def n_def [symmetric] row_def [symmetric] by (auto split: sum.split)
qed (simp add: store_event_def law_refl)

lemma inTenant_law:
  assumes "tenantID \<noteq> [] \<Longrightarrow> R t db (snd (f db))"
  shows "R t db (snd (with_projectionErr (inTenant db tenantID f)))"
  using assms law_refl by (auto simp: inTenant_def with_projectionErr_def split: prod.splits sum.splits)

lemma append_law: "R (ev_tenant ev) db (snd (pg_AppendTaskEvent db ev))"
proof -
  obtain r db' where out: "with_projectionErr (inTenant db (ev_tenant ev) (store_event ev)) = (r, db')" by force
  have "R (ev_tenant ev) db (snd (with_projectionErr (inTenant db (ev_tenant ev) (store_event ev))))"
    by (rule inTenant_law) (rule store_event_law)
  then show ?thesis by (cases r) (simp_all add: pg_AppendTaskEvent_def out law_refl)
qed

lemma create_law: "R (TenantID p) db (snd (pg_CreateTask db p task))"
proof -
  have "lawful (TenantID p) (create_row (newTaskRow (TenantID p) task))"
    by (intro lawfulI) (auto simp: create_row_def has_key_def newTaskRow_def intro!: law_create split: if_splits)
  then show ?thesis
    by (auto simp: pg_CreateTask_def sql_write_def inTenant_def law_refl split: sum.split dest: lawfulD)
qed

lemma delete_law: "R (TenantID p) db (snd (pg_DeleteTask db now p i))"
  by (auto simp: pg_DeleteTask_def visible_to_def law_refl intro!: law_delete split: option.split)

lemma files_error: "fold (add_file tenantID i v) fs (Inl e) = Inl e"
  by (induction fs) (simp_all add: add_file_def)

lemma files_law: "fold (add_file t i v) files (Inr db) = Inr db' \<Longrightarrow> R t db db'"
proof (induction files arbitrary: db)
  case (Cons f files)
  obtain db1 where step: "add_file t i v f (Inr db) = Inr db1" "fold (add_file t i v) files (Inr db1) = Inr db'"
    using Cons.prems by (cases "add_file t i v f (Inr db)") (auto simp: files_error)
  have "R t db db1" using step(1)
    by (auto simp: add_file_def has_key_def law_refl intro!: law_file split: if_splits)
  then show ?case using Cons.IH [OF step(2)] by (rule law_trans)
qed (simp add: law_refl)

lemma profile_law: "R t db (snd (register_profile now t profile db))"
proof -
  have ins: "R t db db1" if "insert_profile now t profile db = Inr db1" for db1
    using that by (auto simp: insert_profile_def has_key_def Let_def law_refl intro!: law_profile split: if_splits)
  show ?thesis
    by (auto simp: register_profile_def law_refl split: sum.split option.split intro: law_trans [OF ins files_law])
qed

lemma sop_law: "R t db (snd (register_sop now t sop db))"
  by (auto simp: register_sop_def insert_sop_def has_key_def Let_def law_refl intro!: law_sop
      split: sum.splits option.splits if_splits)

lemma settings_law: "R (TenantID p) db (snd (pg_SetUserSettings db p settings))"
  unfolding pg_SetUserSettings_def sql_write_def
  by (rule inTenant_law) (auto simp: law_refl law_settings)

lemma step_law: "R (op_tenant oper) db (store_step db oper)"
proof (cases oper)
  case (OpPolicy p policy)
  then show ?thesis by (auto simp: pg_SetTenantPolicy_def law_refl intro!: inTenant_law law_policy)
qed (auto simp: create_law update_law delete_law append_law settings_law pg_RegisterProfile_def pg_RegisterSOP_def
    law_refl intro!: inTenant_law profile_law sop_law)

end

text \<open>A law that holds whatever the tenants of the writes is one of every run.\<close>

lemma run_any:
  assumes "\<And>db. Q db db" "\<And>db1 db2 db3. Q db1 db2 \<Longrightarrow> Q db2 db3 \<Longrightarrow> Q db1 db3"
    "\<And>db oper. oper \<in> set ops \<Longrightarrow> Q db (store_step db oper)"
  shows "Q db (store_run db ops)"
  using assms(3)
proof (induction ops arbitrary: db)
  case (Cons oper ops)
  have "Q db (store_step db oper)" using Cons.prems by simp
  moreover have "Q (store_step db oper) (store_run (store_step db oper) ops)" using Cons by simp
  ultimately show ?case by (simp add: store_run_def) (rule assms(2))
qed (simp add: store_run_def assms(1))

end
