(* ===== verification/Pg_Isolation.thy ===== *)
theory Pg_Isolation
  imports Pg_Effects
begin

text \<open>
  Tenants do not see each other: every write of the Postgres store, the projection of an event
  included, leaves what the rows of another tenant's tables say, and so every read of another tenant.
\<close>

section \<open>What a tenant sees of a table\<close>

definition unseen :: "('k \<times> 'r \<Rightarrow> bool) \<Rightarrow> ('k, 'r) gomap \<Rightarrow> ('k, 'r) gomap \<Rightarrow> bool" where
  "unseen mine m m' \<longleftrightarrow> filter mine m' = filter mine m \<and>
     (\<forall>k r. mine (k, r) \<longrightarrow> (map_of m' k = Some r \<longleftrightarrow> map_of m k = Some r))"

lemma unseen_refl [simp]: "unseen mine m m"
  by (simp add: unseen_def)

lemma unseen_trans: "unseen mine m m' \<Longrightarrow> unseen mine m' m'' \<Longrightarrow> unseen mine m m''"
  by (simp add: unseen_def)

lemma filter_update_other:
  "\<not> mine (k, v) \<Longrightarrow> (\<And>r. map_of m k = Some r \<Longrightarrow> \<not> mine (k, r)) \<Longrightarrow> filter mine (AList.update k v m) = filter mine m"
  by (induction m) (auto split: if_splits)

lemma unseen_update:
  assumes "\<not> mine (k, v)" "\<And>r. map_of m k = Some r \<Longrightarrow> \<not> mine (k, r)"
  shows "unseen mine m (AList.update k v m)"
  using assms filter_update_other [of mine k v m] by (auto simp: unseen_def)

text \<open>Every table of the tenant; what the other tables hold is not the tenant's.\<close>

definition same_for :: "string \<Rightarrow> 'a task_db_scheme \<Rightarrow> 'a task_db_scheme \<Rightarrow> bool" where
  "same_for t db db' \<longleftrightarrow>
     unseen (\<lambda>(k, r). tr_tenant r = t) (db_tasks db) (db_tasks db') \<and>
     filter (\<lambda>r. er_tenant r = t) (db_events db') = filter (\<lambda>r. er_tenant r = t) (db_events db) \<and>
     unseen (\<lambda>(k, r). ms_tenant r = t) (db_messages db) (db_messages db') \<and>
     unseen (\<lambda>(k, r). mr_tenant r = t) (db_manifests db) (db_manifests db') \<and>
     unseen (\<lambda>(k, r). fst k = t \<or> pr_tenant r = t) (db_profiles db) (db_profiles db') \<and>
     unseen (\<lambda>(k, r). fst k = t \<or> fr_tenant r = t) (db_files db) (db_files db') \<and>
     unseen (\<lambda>(k, r). vr_tenant r = t) (db_plans db) (db_plans db') \<and>
     unseen (\<lambda>(k, r). nr_tenant r = t) (db_nodes db) (db_nodes db') \<and>
     unseen (\<lambda>(k, r). ar_tenant r = t) (db_attempts db) (db_attempts db') \<and>
     unseen (\<lambda>(k, r). pa_tenant r = t) (db_approvals db) (db_approvals db') \<and>
     unseen (\<lambda>(k, r). fst k = t \<or> sr_tenant r = t) (db_sops db) (db_sops db') \<and>
     unseen (\<lambda>(k, r). k = t) (db_policies db) (db_policies db') \<and>
     unseen (\<lambda>(k, r). fst k = t) (db_settings db) (db_settings db')"

lemma same_for_refl [simp]: "same_for t db db"
  by (simp add: same_for_def)

lemma same_for_trans: "same_for t db db' \<Longrightarrow> same_for t db' db'' \<Longrightarrow> same_for t db db''"
  unfolding same_for_def by (elim conjE, intro conjI) (erule (1) unseen_trans | simp)+

text \<open>An update of one row is not seen by another tenant, whatever the table.\<close>

named_theorems unseen_row

lemma task_unseen [unseen_row]:
  "tr_tenant row \<noteq> t \<Longrightarrow> (\<And>r. map_of (db_tasks db) k = Some r \<Longrightarrow> tr_tenant r \<noteq> t) \<Longrightarrow>
    same_for t db (db\<lparr>db_tasks := AList.update k row (db_tasks db)\<rparr>)"
  by (simp add: same_for_def unseen_update)

lemma event_unseen [unseen_row]: "er_tenant row \<noteq> t \<Longrightarrow> same_for t db (db\<lparr>db_events := db_events db @ [row]\<rparr>)"
  by (simp add: same_for_def)

lemma message_unseen [unseen_row]:
  "ms_tenant row \<noteq> t \<Longrightarrow> (\<And>r. map_of (db_messages db) k = Some r \<Longrightarrow> ms_tenant r \<noteq> t) \<Longrightarrow>
    same_for t db (db\<lparr>db_messages := AList.update k row (db_messages db)\<rparr>)"
  by (simp add: same_for_def unseen_update)

lemma manifest_unseen [unseen_row]:
  "mr_tenant row \<noteq> t \<Longrightarrow> (\<And>r. map_of (db_manifests db) k = Some r \<Longrightarrow> mr_tenant r \<noteq> t) \<Longrightarrow>
    same_for t db (db\<lparr>db_manifests := AList.update k row (db_manifests db)\<rparr>)"
  by (simp add: same_for_def unseen_update)

lemma plan_unseen [unseen_row]:
  "vr_tenant row \<noteq> t \<Longrightarrow> (\<And>r. map_of (db_plans db) k = Some r \<Longrightarrow> vr_tenant r \<noteq> t) \<Longrightarrow>
    same_for t db (db\<lparr>db_plans := AList.update k row (db_plans db)\<rparr>)"
  by (simp add: same_for_def unseen_update)

lemma node_unseen [unseen_row]:
  "nr_tenant row \<noteq> t \<Longrightarrow> (\<And>r. map_of (db_nodes db) k = Some r \<Longrightarrow> nr_tenant r \<noteq> t) \<Longrightarrow>
    same_for t db (db\<lparr>db_nodes := AList.update k row (db_nodes db)\<rparr>)"
  by (simp add: same_for_def unseen_update)

lemma attempt_unseen [unseen_row]:
  "ar_tenant row \<noteq> t \<Longrightarrow> (\<And>r. map_of (db_attempts db) k = Some r \<Longrightarrow> ar_tenant r \<noteq> t) \<Longrightarrow>
    same_for t db (db\<lparr>db_attempts := AList.update k row (db_attempts db)\<rparr>)"
  by (simp add: same_for_def unseen_update)

lemma approval_unseen [unseen_row]:
  "pa_tenant row \<noteq> t \<Longrightarrow> (\<And>r. map_of (db_approvals db) k = Some r \<Longrightarrow> pa_tenant r \<noteq> t) \<Longrightarrow>
    same_for t db (db\<lparr>db_approvals := AList.update k row (db_approvals db)\<rparr>)"
  by (simp add: same_for_def unseen_update)

lemma keyed_unseen [unseen_row]:
  "fst k1 \<noteq> t \<Longrightarrow> pr_tenant row1 \<noteq> t \<Longrightarrow> \<not> has_key (db_profiles db) k1 \<Longrightarrow>
    same_for t db (db\<lparr>db_profiles := AList.update k1 row1 (db_profiles db)\<rparr>)"
  "fst k2 \<noteq> t \<Longrightarrow> fr_tenant row2 \<noteq> t \<Longrightarrow> \<not> has_key (db_files db) k2 \<Longrightarrow>
    same_for t db (db\<lparr>db_files := AList.update k2 row2 (db_files db)\<rparr>)"
  "fst k3 \<noteq> t \<Longrightarrow> sr_tenant row3 \<noteq> t \<Longrightarrow> \<not> has_key (db_sops db) k3 \<Longrightarrow>
    same_for t db (db\<lparr>db_sops := AList.update k3 row3 (db_sops db)\<rparr>)"
  "k4 \<noteq> t \<Longrightarrow> same_for t db (db\<lparr>db_policies := AList.update k4 row4 (db_policies db)\<rparr>)"
  "fst k5 \<noteq> t \<Longrightarrow> same_for t db (db\<lparr>db_settings := AList.update k5 row5 (db_settings db)\<rparr>)"
  by (auto simp: same_for_def has_key_def intro!: unseen_update)

section \<open>Every write\<close>

interpretation seen: store_law "\<lambda>t' db db'. t' \<noteq> t \<longrightarrow> same_for t db db'" for t
proof (unfold_locales, goal_cases)
  case (2 t' db db' db'')
  then show ?case by (blast intro: same_for_trans)
next
  case (3 db k old t' row)
  then show ?case by (auto simp: same_task_def intro!: task_unseen)
qed (auto simp: goes_on_def same_attempt_def has_key_def intro!: unseen_row split: option.splits)

lemma store_run_unseen:
  assumes "\<forall>oper \<in> set ops. op_tenant oper \<noteq> t"
  shows "same_for t db (store_run db ops)"
  by (rule run_any) (use assms in \<open>auto simp: seen.step_law intro: same_for_trans\<close>)

section \<open>The reads\<close>

lemma unseen_values:
  assumes "unseen mine m m'" "\<And>k r. P r \<Longrightarrow> mine (k, r)"
  shows "filter P (map snd m') = filter P (map snd m)"
proof -
  have rows: "filter P (map snd l) = map snd (filter (\<lambda>x. P (snd x)) (filter mine l))" for l
    using assms(2) by (induction l) auto
  have "filter mine m' = filter mine m" using assms(1) by (simp add: unseen_def)
  then show ?thesis by (simp only: rows)
qed

lemma unseen_row_if:
  assumes "unseen mine m m'" "\<And>r. \<not> mine (k, r) \<Longrightarrow> f (Some r) = f None"
  shows "f (map_of m' k) = f (map_of m k)"
proof (cases "\<exists>r. mine (k, r) \<and> map_of m k = Some r")
  case True
  then obtain r where "map_of m k = Some r" "map_of m' k = Some r" using assms(1) unfolding unseen_def by blast
  then show ?thesis by simp
next
  case False
  then have "f (map_of m' k) = f None" "f (map_of m k) = f None"
    using assms by (cases "map_of m' k"; cases "map_of m k"; fastforce simp: unseen_def)+
  then show ?thesis by simp
qed

lemma same_for_values:
  assumes "same_for t db db'"
  shows "filter (\<lambda>r. tr_tenant r = t \<and> P1 r) (map snd (db_tasks db')) = filter (\<lambda>r. tr_tenant r = t \<and> P1 r) (map snd (db_tasks db))"
    "filter (\<lambda>r. mr_tenant r = t \<and> P2 r) (map snd (db_manifests db')) = filter (\<lambda>r. mr_tenant r = t \<and> P2 r) (map snd (db_manifests db))"
    "filter (\<lambda>r. nr_tenant r = t \<and> P3 r) (map snd (db_nodes db')) = filter (\<lambda>r. nr_tenant r = t \<and> P3 r) (map snd (db_nodes db))"
    "filter (\<lambda>r. pr_tenant r = t) (map snd (db_profiles db')) = filter (\<lambda>r. pr_tenant r = t) (map snd (db_profiles db))"
    "filter (\<lambda>r. fr_tenant r = t \<and> P4 r) (map snd (db_files db')) = filter (\<lambda>r. fr_tenant r = t \<and> P4 r) (map snd (db_files db))"
    "filter (\<lambda>r. sr_tenant r = t) (map snd (db_sops db')) = filter (\<lambda>r. sr_tenant r = t) (map snd (db_sops db))"
    "task_events_of t i db' = task_events_of t i db"
proof -
  have rows: "filter (\<lambda>r. er_tenant r = t \<and> er_task r = i) l = filter (\<lambda>r. er_task r = i) (filter (\<lambda>r. er_tenant r = t) l)" for l
    by (simp add: conj_commute)
  have "filter (\<lambda>r. er_tenant r = t) (db_events db') = filter (\<lambda>r. er_tenant r = t) (db_events db)"
    using assms by (simp add: same_for_def)
  then show "task_events_of t i db' = task_events_of t i db" unfolding task_events_of_def by (simp only: rows)
qed (use assms in \<open>auto simp: same_for_def intro!: unseen_values\<close>)

lemma visible_tenant: "visible_to p = (\<lambda>r. tr_tenant r = TenantID p \<and> tr_created_by r = UserID p \<and> tr_deleted r = None)"
  by (auto simp: visible_to_def)

lemma placed_tenant: "placed t i = (\<lambda>r. nr_tenant r = t \<and> nr_task r = i \<and> (nr_parent r \<noteq> None \<or> nr_sop_step r \<noteq> None))"
  by (auto simp: placed_def)

lemma same_for_lists:
  assumes "same_for (TenantID p) db db'"
  shows "pg_ListTasks db' p = pg_ListTasks db p" "pg_ListTaskEvents db' p i after = pg_ListTaskEvents db p i after"
    "pg_ListManifests db' p i = pg_ListManifests db p i" "pg_NodeStructure db' p i = pg_NodeStructure db p i"
    "pg_ListProfiles db' p = pg_ListProfiles db p" "pg_ProfileFiles db' p ref = pg_ProfileFiles db p ref"
    "pg_ListSOPs db' p = pg_ListSOPs db p"
  using same_for_values [OF assms]
  by (simp_all add: pg_ListTasks_def visible_tenant pg_ListTaskEvents_def pg_ListManifests_def pg_NodeStructure_def
      placed_tenant pg_ListProfiles_def pg_ProfileFiles_def pg_ListSOPs_def split: option.splits)

lemma same_for_gets:
  assumes "same_for (TenantID p) db db'"
  shows "pg_GetTask db' p i = pg_GetTask db p i" "pg_GetManifest db' p i = pg_GetManifest db p i"
    "pg_GetTenantPolicy db' p = pg_GetTenantPolicy db p" "pg_GetUserSettings db' p = pg_GetUserSettings db p"
proof -
  note parts = assms [unfolded same_for_def]
  show "pg_GetTask db' p i = pg_GetTask db p i" unfolding pg_GetTask_def
    by (rule arg_cong [where f = "\<lambda>x. if TenantID p = [] then Inl ErrStorage else x"],
        rule unseen_row_if [where mine = "\<lambda>(k, r). tr_tenant r = TenantID p"]) (use parts in \<open>auto simp: visible_to_def\<close>)
  show "pg_GetManifest db' p i = pg_GetManifest db p i" unfolding pg_GetManifest_def
    by (rule arg_cong [where f = "\<lambda>x. if TenantID p = [] then Inl ErrStorage else x"],
        rule unseen_row_if [where mine = "\<lambda>(k, r). mr_tenant r = TenantID p"]) (use parts in auto)
  have "map_of (db_policies db') (TenantID p) = map_of (db_policies db) (TenantID p)"
    by (rule unseen_row_if [where mine = "\<lambda>(k, r). k = TenantID p" and f = "\<lambda>x. x"]) (use parts in auto)
  then show "pg_GetTenantPolicy db' p = pg_GetTenantPolicy db p" by (simp add: pg_GetTenantPolicy_def)
  have "map_of (db_settings db') (TenantID p, UserID p) = map_of (db_settings db) (TenantID p, UserID p)"
    by (rule unseen_row_if [where mine = "\<lambda>(k, r). fst k = TenantID p" and f = "\<lambda>x. x"]) (use parts in auto)
  then show "pg_GetUserSettings db' p = pg_GetUserSettings db p" by (simp add: pg_GetUserSettings_def)
qed

lemma same_for_profile:
  assumes "same_for (TenantID p) db db'"
  shows "pg_GetProfile db' p ref = pg_GetProfile db p ref"
proof -
  have "map_of (db_profiles db') (TenantID p, i, v) = map_of (db_profiles db) (TenantID p, i, v)" for i v
    by (rule unseen_row_if [where mine = "\<lambda>(k, r). fst k = TenantID p \<or> pr_tenant r = TenantID p" and f = "\<lambda>x. x"])
      (use assms in \<open>auto simp: same_for_def\<close>)
  then show ?thesis by (simp add: pg_GetProfile_def split: option.split prod.split)
qed

section \<open>Isolation\<close>

text \<open>
  C5. Tenants are isolated: whatever the other tenants' requests write, and whatever events of theirs
  are projected, every read of a tenant returns what it returned before.
\<close>

theorem pg_tenant_isolation:
  assumes "\<forall>oper \<in> set ops. op_tenant oper \<noteq> TenantID p"
  shows "pg_GetTask (store_run db ops) p i = pg_GetTask db p i \<and>
     pg_ListTasks (store_run db ops) p = pg_ListTasks db p \<and>
     pg_ListTaskEvents (store_run db ops) p i after = pg_ListTaskEvents db p i after \<and>
     pg_ListManifests (store_run db ops) p i = pg_ListManifests db p i \<and>
     pg_GetManifest (store_run db ops) p i = pg_GetManifest db p i \<and>
     pg_NodeStructure (store_run db ops) p i = pg_NodeStructure db p i \<and>
     pg_ListProfiles (store_run db ops) p = pg_ListProfiles db p \<and>
     pg_GetProfile (store_run db ops) p ref = pg_GetProfile db p ref \<and>
     pg_ProfileFiles (store_run db ops) p ref = pg_ProfileFiles db p ref \<and>
     pg_ListSOPs (store_run db ops) p = pg_ListSOPs db p \<and>
     pg_GetTenantPolicy (store_run db ops) p = pg_GetTenantPolicy db p \<and>
     pg_GetUserSettings (store_run db ops) p = pg_GetUserSettings db p"
proof -
  note same = store_run_unseen [OF assms, where db = db]
  show ?thesis
    by (intro conjI) (rule same_for_lists [OF same] same_for_gets [OF same] same_for_profile [OF same])+
qed

text \<open>Another tenant appends to the task, overwrites it and deletes it; the owner reads what it read.\<close>

definition hostile :: "store_op list" where
  "hostile =
     [OpAppend ((worker_event ''evt_9'' ''task.completed'' [])\<lparr>ev_tenant := ''t2''\<rparr>),
      OpUpdate mallory (row_task (sample_row\<lparr>tr_status := ''FAILED''\<rparr>)), OpDelete 5000 mallory ''task_1'']"

theorem pg_tenant_isolation_witness:
  "pg_GetTask (store_run sample_db hostile) alice ''task_1'' = Inr (row_task sample_row)"
proof -
  have "\<forall>oper \<in> set hostile. op_tenant oper \<noteq> TenantID alice" by (simp add: hostile_def sample_defs)
  from pg_tenant_isolation [OF this, of sample_db "''task_1''"]
  have "pg_GetTask (store_run sample_db hostile) alice ''task_1'' = pg_GetTask sample_db alice ''task_1''" by blast
  then show ?thesis by (simp add: pg_GetTask_def visible_to_def sample_defs)
qed

end
