(* ===== verification/Pg_History.thy ===== *)
theory Pg_History
  imports Pg_Effects
begin

text \<open>
  What the Postgres store never writes again: events, messages, manifests, plan versions, profiles,
  SOPs, the attempts that ended and the deletion of a task, whatever any replica does afterwards.
\<close>

section \<open>What stays\<close>

definition stays :: "('r \<Rightarrow> bool) \<Rightarrow> ('k, 'r) gomap \<Rightarrow> ('k, 'r) gomap \<Rightarrow> bool" where
  "stays final m m' \<longleftrightarrow> (\<forall>k r. map_of m k = Some r \<longrightarrow> final r \<longrightarrow> map_of m' k = Some r)"

lemma stays_refl [simp]: "stays final m m"
  by (simp add: stays_def)

lemma stays_trans: "stays final m m' \<Longrightarrow> stays final m' m'' \<Longrightarrow> stays final m m''"
  by (simp add: stays_def)

lemma staysD: "stays final m m' \<Longrightarrow> map_of m k = Some r \<Longrightarrow> final r \<Longrightarrow> map_of m' k = Some r"
  by (simp add: stays_def)

lemma stays_update: "goes_on m k (\<lambda>r. \<not> final r) \<Longrightarrow> stays final m (AList.update k v m)"
  by (auto simp: stays_def goes_on_def update_conv)

text \<open>A task that was deleted is still there, and still deleted.\<close>

definition stays_deleted :: "(string, taskRow) gomap \<Rightarrow> (string, taskRow) gomap \<Rightarrow> bool" where
  "stays_deleted m m' \<longleftrightarrow> (\<forall>k r. map_of m k = Some r \<longrightarrow> tr_deleted r \<noteq> None \<longrightarrow>
     (\<exists>r'. map_of m' k = Some r' \<and> tr_deleted r' \<noteq> None))"

lemma stays_deleted_refl [simp]: "stays_deleted m m"
  by (simp add: stays_deleted_def)

lemma stays_deleted_trans: "stays_deleted m m' \<Longrightarrow> stays_deleted m' m'' \<Longrightarrow> stays_deleted m m''"
  unfolding stays_deleted_def by blast

lemma stays_deleted_update:
  assumes "goes_on m k (\<lambda>r. tr_deleted r = None \<or> tr_deleted r \<noteq> None \<and> tr_deleted v \<noteq> None)"
  shows "stays_deleted m (AList.update k v m)"
  using assms by (auto simp: stays_deleted_def goes_on_def update_conv)

definition history_kept :: "'a task_db_scheme \<Rightarrow> 'a task_db_scheme \<Rightarrow> bool" where
  "history_kept db db' \<longleftrightarrow>
     (\<exists>more. db_events db' = db_events db @ more) \<and>
     stays (\<lambda>r. True) (db_messages db) (db_messages db') \<and>
     stays (\<lambda>r. True) (db_manifests db) (db_manifests db') \<and>
     stays (\<lambda>r. True) (db_plans db) (db_plans db') \<and>
     stays (\<lambda>r. True) (db_profiles db) (db_profiles db') \<and>
     stays (\<lambda>r. True) (db_files db) (db_files db') \<and>
     stays (\<lambda>r. True) (db_sops db) (db_sops db') \<and>
     stays (\<lambda>r. ar_status r \<in> set terminalAttemptStatuses) (db_attempts db) (db_attempts db') \<and>
     stays_deleted (db_tasks db) (db_tasks db')"

lemma history_refl [simp]: "history_kept db db"
  by (simp add: history_kept_def)

lemma history_trans: "history_kept db db' \<Longrightarrow> history_kept db' db'' \<Longrightarrow> history_kept db db''"
  unfolding history_kept_def
  by (elim conjE exE, intro conjI) (erule (1) stays_trans stays_deleted_trans | simp)+

interpretation hist: store_law "\<lambda>t. history_kept"
proof (unfold_locales, goal_cases)
  case (2 t db db' db'')
  then show ?case by (rule history_trans)
qed (auto simp: history_kept_def same_task_def goes_on_def intro!: stays_update stays_deleted_update split: option.splits)

lemma run_history: "history_kept db (store_run db ops)"
  by (rule run_any) (auto simp: hist.step_law intro: history_trans)

lemma history_row:
  "map_of (db_manifests db) i = Some m \<Longrightarrow> map_of (db_manifests (store_run db ops)) i = Some m"
  "map_of (db_profiles db) k1 = Some r1 \<Longrightarrow> map_of (db_profiles (store_run db ops)) k1 = Some r1"
  "map_of (db_plans db) k2 = Some r2 \<Longrightarrow> map_of (db_plans (store_run db ops)) k2 = Some r2"
  "map_of (db_messages db) k3 = Some r3 \<Longrightarrow> map_of (db_messages (store_run db ops)) k3 = Some r3"
  "map_of (db_sops db) k4 = Some r4 \<Longrightarrow> map_of (db_sops (store_run db ops)) k4 = Some r4"
  using run_history [of db ops] unfolding history_kept_def by - (elim conjE, erule (1) staysD, simp)+

section \<open>Attempts\<close>

text \<open>
  C23. An attempt that ended stays as it ended: late, repeated or reordered events of it, versioned or
  not, and every other write leave its row, its status, its failure and its usage.
\<close>

theorem ended_attempt_is_final:
  assumes "map_of (db_attempts db) a = Some row" "ar_status row \<in> set terminalAttemptStatuses"
  shows "map_of (db_attempts (store_run db ops)) a = Some row"
  using run_history [of db ops] assms unfolding history_kept_def by (elim conjE) (erule (2) staysD)

text \<open>The attempt failed; a late resumption and a second end with another outcome do not change it.\<close>

definition ended_row :: stageAttemptRow where
  "ended_row =
     \<lparr>ar_id = ''att_1'', ar_tenant = ''t1'', ar_task = ''task_1'', ar_node = ''n_1'', ar_no = 1, ar_status = ''REJECTED'',
      ar_profile = ''writer@1'', ar_runtime = [], ar_failure = None, ar_usage = Obj [], ar_version = 3, ar_started = 1000,
      ar_finished = Some 2000, ar_changed = Some 2000, ar_resumed_activity = 0, ar_resumed_state = 0\<rparr>"

definition late_events :: "store_op list" where
  "late_events =
     [OpAppend ((worker_event ''evt_5'' ''attempt.resumed'' [(''attempt_id'', Str ''att_1'')])\<lparr>ev_version := 9\<rparr>),
      OpAppend (worker_event ''evt_6'' ''attempt.finished'' [(''attempt_id'', Str ''att_1''), (''outcome'', Str ''completed'')])]"

theorem ended_attempt_is_final_witness:
  "map_of (db_attempts (store_run (sample_db\<lparr>db_attempts := [(''att_1'', ended_row)]\<rparr>) late_events)) ''att_1'' = Some ended_row"
  by (rule ended_attempt_is_final) (simp_all add: ended_row_def terminalAttemptStatuses_def)

section \<open>Versions and manifests\<close>

text \<open>
  C24. What was read once is read forever: a profile version, an artifact manifest and a committed plan
  version are never overwritten, neither by another event nor by another registration.
\<close>

theorem stored_records_are_final:
  assumes "pg_GetProfile db p ref = Inr profile" "pg_GetManifest db p i = Inr manifest" "map_of (db_plans db) k = Some plan"
  shows "pg_GetProfile (store_run db ops) p ref = Inr profile \<and> pg_GetManifest (store_run db ops) p i = Inr manifest \<and>
    map_of (db_plans (store_run db ops)) k = Some plan"
proof (intro conjI)
  show "pg_GetProfile (store_run db ops) p ref = Inr profile"
    using assms(1) history_row(2) by (fastforce simp: pg_GetProfile_def split: option.splits prod.splits if_splits)
  show "pg_GetManifest (store_run db ops) p i = Inr manifest"
    using assms(2) history_row(1) by (fastforce simp: pg_GetManifest_def split: option.splits if_splits)
  show "map_of (db_plans (store_run db ops)) k = Some plan" by (rule history_row(3) [OF assms(3)])
qed

text \<open>A tenant's own later registration and manifest event for the same identities change nothing.\<close>

definition recorded_db :: task_db where
  "recorded_db = sample_db\<lparr>
     db_profiles := [((''t1'', ''writer'', 1), \<lparr>pr_tenant = ''t1'', pr_id = ''writer'', pr_version = 1,
       pr_spec = [(''model'', Str ''small'')], pr_created = 0\<rparr>)],
     db_manifests := [(''man_1'', \<lparr>mr_id = ''man_1'', mr_tenant = ''t1'', mr_task = ''task_1'', mr_attempt = ''att_1'',
       mr_entries = Arr [], mr_hash = ''sha256:'', mr_created = 0\<rparr>)],
     db_plans := [((''task_1'', 2), \<lparr>vr_tenant = ''t1'', vr_task = ''task_1'', vr_version = 2, vr_parent = 1,
       vr_hash = ''sha256:'', vr_command = None, vr_actor = Obj [], vr_created = 0\<rparr>)]\<rparr>"

definition writer :: "string \<Rightarrow> Profile" where
  "writer model = \<lparr>prof_id = ''writer'', prof_version = 1, prof_ref = ''writer@1'', prof_spec = [(''model'', Str model)],
     prof_created = 0, prof_files = []\<rparr>"

definition overwriting :: "store_op list" where
  "overwriting =
     [OpProfile 4000 alice (writer ''large''),
      OpAppend (worker_event ''evt_7'' ''artifact.manifest_created'' [(''manifest_id'', Str ''man_1''),
        (''attempt_id'', Str ''att_2''), (''manifest_hash'', Str ''sha256:x'')]),
      OpAppend (worker_event ''evt_8'' ''plan.version_committed'' [(''plan_version'', Float 2)])]"

theorem stored_records_are_final_witness:
  "pg_GetProfile (store_run recorded_db overwriting) alice ''writer@1'' = Inr (writer ''small'')"
proof -
  have "pg_GetProfile recorded_db alice ''writer@1'' = Inr (writer ''small'')"
    "pg_GetManifest recorded_db alice ''man_1'' = Inr \<lparr>am_id = ''man_1'', am_task = ''task_1'', am_attempt = ''att_1'',
       am_entries = [], am_omitted = None, am_hash = ''sha256:'', am_created = 0\<rparr>"
    by code_simp+
  moreover have "map_of (db_plans recorded_db) (''task_1'', 2) = Some \<lparr>vr_tenant = ''t1'', vr_task = ''task_1'', vr_version = 2,
     vr_parent = 1, vr_hash = ''sha256:'', vr_command = None, vr_actor = Obj [], vr_created = 0\<rparr>"
    by (simp add: recorded_db_def)
  ultimately show ?thesis using stored_records_are_final [of recorded_db alice "''writer@1''" "writer ''small''"] by blast
qed

section \<open>Deletion\<close>

text \<open>
  C25. A deleted task does not come back: nobody reads it again, whatever is written afterwards, creating a
  task of the same id included.
\<close>

theorem delete_is_final:
  assumes "pg_DeleteTask db now p i = (Inr (), db')" "TenantID q \<noteq> []"
  shows "pg_GetTask (store_run db' ops) q i = Inl ErrNotFound"
proof -
  obtain r where "map_of (db_tasks db') i = Some r" "tr_deleted r \<noteq> None"
    using assms(1) by (auto simp: pg_DeleteTask_def update_conv split: option.splits if_splits)
  then obtain r' where "map_of (db_tasks (store_run db' ops)) i = Some r'" "tr_deleted r' \<noteq> None"
    using run_history [of db' ops] unfolding history_kept_def stays_deleted_def by blast
  then show ?thesis using assms(2) by (simp add: pg_GetTask_def visible_to_def)
qed

theorem delete_is_final_witness:
  "pg_GetTask (store_run (snd (pg_DeleteTask sample_db 3000 alice ''task_1'')) [OpCreate alice (row_task sample_row)]) alice ''task_1''
    = Inl ErrNotFound"
proof (rule delete_is_final)
  show "pg_DeleteTask sample_db 3000 alice ''task_1'' = (Inr (), snd (pg_DeleteTask sample_db 3000 alice ''task_1''))"
    by (simp add: pg_DeleteTask_def visible_to_def sample_defs)
qed simp

section \<open>SOPs\<close>

text \<open>
  The answer to a registration of an SOP version is settled by the first one: another definition of
  the version is always refused, the same one always answered with the time of the first.
\<close>

theorem sop_registration_is_final:
  assumes "pg_RegisterSOP db now p sop = (Inr out, db')" "sop_id sop' = sop_id sop" "sop_version sop' = sop_version sop"
  shows "fst (pg_RegisterSOP (store_run db' ops) now' p sop') = fst (pg_RegisterSOP db' now'' p sop')"
proof -
  let ?key = "(TenantID p, sop_id sop', sop_version sop')"
  obtain stored where there: "map_of (db_sops db') ?key = Some stored"
    using assms by (auto simp: pg_RegisterSOP_def inTenant_def register_sop_def insert_sop_def Let_def has_key_def
        update_conv with_projectionErr_def split: prod.splits sum.splits option.splits if_splits)
  have eq: "fst (register_sop n (TenantID p) sop' d) =
      (if \<not> in_int32 (sop_version sop') then Inl (ErrText [])
       else if sop_id sop' = [] \<or> sop_version sop' \<le> 0 \<or> sop_steps sop' = [] then Inl (ErrText (pgCode check_violation))
       else if \<not> SameSOP (stored_sop stored) sop' then Inl ErrIdempotencyConflict
       else Inr (sop'\<lparr>sop_created := sr_created stored\<rparr>))"
    if "map_of (db_sops d) ?key = Some stored" for n and d :: "'a task_db_scheme"
    using that by (simp add: register_sop_def insert_sop_def Let_def has_key_def pgCode_def)
  have "fst (inTenant d (TenantID p) f) = (if TenantID p = [] then Inl ErrNotFound else fst (f d))"
    for d :: "'a task_db_scheme" and f :: "'a task_db_scheme \<Rightarrow> SOP result \<times> 'a task_db_scheme"
    by (simp add: inTenant_def split: prod.split sum.split)
  then show ?thesis unfolding pg_RegisterSOP_def with_projectionErr_def
    using eq [OF there] eq [OF history_row(5) [OF there]] by simp
qed

text \<open>Version 1 of the checklist is registered; whatever follows, another definition of it is refused.\<close>

definition checklist :: "string \<Rightarrow> SOP" where
  "checklist title =
     \<lparr>sop_id = ''checklist'', sop_version = 1, sop_ref = ''checklist@1'', sop_name = ''Checklist'', sop_description = [],
      sop_steps = [\<lparr>step_id = ''s1'', subject = title, description = [], max_attempts = 1, executor = ''writer'', verifier = None,
        depends_on = None, output_schema_ref = [], required_artifacts = [], human_approval = []\<rparr>], sop_created = 0\<rparr>"

theorem sop_registration_is_final_witness:
  "fst (pg_RegisterSOP (store_run (snd (pg_RegisterSOP sample_db 3000 alice (checklist ''read''))) [OpSop 4000 alice (checklist ''write'')])
      5000 alice (checklist ''write'')) = Inl ErrIdempotencyConflict"
proof -
  have reg: "pg_RegisterSOP sample_db 3000 alice (checklist ''read'') =
     (Inr ((checklist ''read'')\<lparr>sop_created := 3000\<rparr>), snd (pg_RegisterSOP sample_db 3000 alice (checklist ''read'')))"
    by code_simp
  have "fst (pg_RegisterSOP (snd (pg_RegisterSOP sample_db 3000 alice (checklist ''read''))) 4000 alice (checklist ''write''))
     = Inl ErrIdempotencyConflict"
    by code_simp
  moreover have "sop_id (checklist ''write'') = sop_id (checklist ''read'')" "sop_version (checklist ''write'') = sop_version (checklist ''read'')"
    by (simp_all add: checklist_def)
  ultimately show ?thesis by (simp only: sop_registration_is_final [OF reg, where now'' = 4000])
qed

end
