(* ===== verification/Pg_Log.thy ===== *)
theory Pg_Log
  imports Pg_Effects
begin

text \<open>
  The event log in Postgres, the one a stream resumes from: the events of a task are numbered 1, 2, 3
  without a gap by the order of their appends, on every replica, and an event sent again is the one
  that is there.
\<close>

section \<open>The invariant\<close>

definition log_ok :: "'a task_db_scheme \<Rightarrow> bool" where
  "log_ok db \<longleftrightarrow> distinct (map er_event (db_events db)) \<and>
     (\<forall>t i. map er_seq (task_events_of t i db) = [1..<Suc (length (task_events_of t i db))])"

lemma max_seq_upt: "map er_seq rows = [1..<Suc n] \<Longrightarrow> max_seq rows = n"
proof -
  have "fold max [1..<Suc k] 0 = k" for k by (induction k) simp_all
  then show "map er_seq rows = [1..<Suc n] \<Longrightarrow> max_seq rows = n" by (simp add: max_seq_def)
qed

lemma log_ok_max: "log_ok db \<Longrightarrow> max_seq (task_events_of t i db) = length (task_events_of t i db)"
  by (rule max_seq_upt) (simp add: log_ok_def)

lemma events_append:
  "task_events_of t i (db\<lparr>db_events := db_events db @ [row]\<rparr>) =
     task_events_of t i db @ (if er_tenant row = t \<and> er_task row = i then [row] else [])"
  by (simp add: task_events_of_def)

text \<open>The log is well numbered, and what is in it stays in place, over every write.\<close>

definition log_grows :: "'a task_db_scheme \<Rightarrow> 'a task_db_scheme \<Rightarrow> bool" where
  "log_grows db db' \<longleftrightarrow> (log_ok db \<longrightarrow> log_ok db') \<and> (\<exists>more. db_events db' = db_events db @ more)"

lemma log_grows_refl [simp]: "log_grows db db"
  by (simp add: log_grows_def)

lemma log_grows_trans: "log_grows db db' \<Longrightarrow> log_grows db' db'' \<Longrightarrow> log_grows db db''"
  unfolding log_grows_def by (metis append.assoc)

lemma log_grows_same: "db_events db' = db_events db \<Longrightarrow> log_grows db db'"
  by (simp add: log_grows_def log_ok_def task_events_of_def)

lemma log_grows_append:
  assumes "\<forall>r \<in> set (db_events db). er_event r \<noteq> er_event row"
    "er_seq row = Suc (max_seq (task_events_of (er_tenant row) (er_task row) db))"
  shows "log_grows db (db\<lparr>db_events := db_events db @ [row]\<rparr>)"
proof -
  have "log_ok (db\<lparr>db_events := db_events db @ [row]\<rparr>)" if ok: "log_ok db"
    unfolding log_ok_def
  proof (intro conjI allI)
    show "distinct (map er_event (db_events (db\<lparr>db_events := db_events db @ [row]\<rparr>)))"
      using ok assms(1) by (auto simp: log_ok_def)
    fix t i
    have "map er_seq (task_events_of t i db) = [1..<Suc (length (task_events_of t i db))]"
      using ok by (simp add: log_ok_def)
    then show "map er_seq (task_events_of t i (db\<lparr>db_events := db_events db @ [row]\<rparr>)) =
        [1..<Suc (length (task_events_of t i (db\<lparr>db_events := db_events db @ [row]\<rparr>)))]"
      using assms(2) log_ok_max [OF ok, of t i] by (auto simp: events_append)
  qed
  then show ?thesis by (simp add: log_grows_def)
qed

interpretation log: store_law "\<lambda>t. log_grows"
proof (unfold_locales, goal_cases)
  case (2 t db db' db'')
  then show ?case by (rule log_grows_trans)
qed (auto intro: log_grows_same log_grows_append)

lemma run_log: "log_grows db (store_run db ops)"
  by (rule run_any) (auto simp: log.step_law intro: log_grows_trans)

section \<open>Reading\<close>

lemma upt_filter: "filter (\<lambda>n. after < n) [1..<Suc m] = [Suc after..<Suc m]"
  by (induction m) auto

lemma read_seqs:
  assumes "log_ok db" "pg_ListTaskEvents db p i after = Inr (evs, latest)"
  shows "map ev_seq evs = [Suc after..<Suc latest] \<and> latest = length (task_events_of (TenantID p) i db)"
proof -
  let ?rows = "task_events_of (TenantID p) i db"
  have seqs: "map er_seq ?rows = [1..<Suc (length ?rows)]" using assms(1) by (simp add: log_ok_def)
  have filt: "map er_seq (filter (\<lambda>r. after < er_seq r) ?rows) = [Suc after..<Suc (length ?rows)]"
  proof -
    have "map er_seq (filter (\<lambda>r. after < er_seq r) ?rows) = filter (\<lambda>n. after < n) (map er_seq ?rows)"
      by (simp add: filter_map comp_def)
    then show ?thesis by (simp only: seqs upt_filter)
  qed
  moreover have "sort_key er_seq (filter (\<lambda>r. after < er_seq r) ?rows) = filter (\<lambda>r. after < er_seq r) ?rows"
    by (rule sort_key_id_if_sorted) (simp only: filt sorted_upt)
  moreover have "evs = map stored_event (sort_key er_seq (filter (\<lambda>r. after < er_seq r) ?rows))" "latest = max_seq ?rows"
    using assms(2) by (auto simp: pg_ListTaskEvents_def storageErr_def inTenantRead_def Let_def split: if_splits)
  moreover have "map ev_seq (map stored_event rs) = map er_seq rs" for rs by (simp add: stored_event_def)
  ultimately show ?thesis using log_ok_max [OF assms(1)] by (simp only:)
qed

text \<open>
  C6. A reader of the log never misses an event: whatever replicas write, a read behind a number returns
  exactly the events behind it, in order and without a gap, up to the latest.
\<close>

theorem log_read_is_gapless:
  assumes "log_ok db" "pg_ListTaskEvents (store_run db ops) p i after = Inr (evs, latest)"
  shows "map ev_seq evs = [Suc after..<Suc latest]"
  using read_seqs [of "store_run db ops" p i after evs latest] run_log [of db ops] assms by (simp add: log_grows_def)

text \<open>Two events of a task, one sent twice, and one of another task: a read behind the first has the second.\<close>

definition traffic :: "store_op list" where
  "traffic =
     [OpAppend (worker_event ''evt_1'' ''message.agent'' []),
      OpAppend ((worker_event ''evt_2'' ''message.agent'' [])\<lparr>ev_task := ''task_2''\<rparr>),
      OpAppend (worker_event ''evt_1'' ''message.agent'' []),
      OpAppend (worker_event ''evt_3'' ''message.agent'' [])]"

theorem log_read_is_gapless_witness:
  "\<exists>evs. pg_ListTaskEvents (store_run sample_db traffic) alice ''task_1'' 1 = Inr (evs, 2) \<and> map ev_seq evs = [Suc 1..<Suc 2]"
proof -
  let ?read = "pg_ListTaskEvents (store_run sample_db traffic) alice ''task_1'' 1"
  have "map er_seq (task_events_of ''t1'' ''task_1'' (store_run sample_db traffic)) = [1, 2]" by code_simp
  then have "map_sum id snd ?read = Inr 2"
    by (simp add: pg_ListTaskEvents_def storageErr_def inTenantRead_def max_seq_def)
  then obtain evs where read: "?read = Inr (evs, 2)" by (cases ?read) auto
  have "log_ok sample_db" by (simp add: log_ok_def task_events_of_def sample_defs)
  from log_read_is_gapless [OF this read] show ?thesis using read by blast
qed

section \<open>Appending again\<close>

lemma find_prefix: "find P xs = Some x \<Longrightarrow> find P (xs @ ys) = Some x"
  by (induction xs) auto

lemma find_last: "find P xs = None \<Longrightarrow> find P (xs @ [x]) = (if P x then Some x else None)"
  by (induction xs) (auto split: if_splits)

lemma append_stored:
  assumes "pg_AppendTaskEvent db ev = (Inr out, db')" "ev_durable ev"
  shows "\<exists>r. find (\<lambda>r. er_event r = ev_id ev \<and> er_tenant r = ev_tenant ev) (db_events db') = Some r \<and> er_seq r = ev_seq out"
proof -
  let ?mine = "\<lambda>r. er_event r = ev_id ev \<and> er_tenant r = ev_tenant ev"
  have st: "store_event ev db = (Inr (ev_seq out), db')"
    using assms by (auto simp: pg_AppendTaskEvent_def inTenant_def with_projectionErr_def split: prod.splits sum.splits if_splits)
  show ?thesis
  proof (cases "find ?mine (db_events db)")
    case (Some r)
    with st show ?thesis by (simp add: store_event_def)
  next
    case None
    define n where "n = max_seq (task_events_of (ev_tenant ev) (ev_task ev) db) + 1"
    define row where "row = \<lparr>er_tenant = ev_tenant ev, er_task = ev_task ev, er_seq = n, er_event = ev_id ev,
      er_type = ev_type ev, er_body = event_body (ev\<lparr>ev_seq := n\<rparr>), er_occurred = db_time (ev_occurred ev)\<rparr>"
    have sp: "apply_in_savepoint (ev\<lparr>ev_seq := n\<rparr>) (db\<lparr>db_events := db_events db @ [row]\<rparr>) = Inr db'" "n = ev_seq out"
      using st None unfolding store_event_def Let_def n_def [symmetric] row_def [symmetric]
      by (auto split: sum.splits if_splits)
    obtain more where "db_events db' = (db_events db @ [row]) @ more"
      using log.savepoint_law [OF sp(1)] by (auto simp: log_grows_def)
    moreover have "find ?mine (db_events db @ [row]) = Some row"
      using find_last [OF None, of row] by (simp add: row_def)
    ultimately have "find ?mine (db_events db') = Some row" by (simp only: find_prefix)
    then show ?thesis using sp(2) by (simp add: row_def)
  qed
qed

text \<open>
  An event is appended once: sent again, at any later time and to any replica, it gets the number it
  has, and the tables stay as they are, so no projection of it runs twice.
\<close>

theorem append_is_once:
  assumes "pg_AppendTaskEvent db ev = (Inr out, db1)" "ev_durable ev"
  shows "pg_AppendTaskEvent (store_run db1 ops) ev = (Inr out, store_run db1 ops)"
proof -
  let ?mine = "\<lambda>r. er_event r = ev_id ev \<and> er_tenant r = ev_tenant ev"
  obtain r where r: "find ?mine (db_events db1) = Some r" "er_seq r = ev_seq out" using append_stored [OF assms] by blast
  moreover obtain more where "db_events (store_run db1 ops) = db_events db1 @ more"
    using run_log [of db1 ops] by (auto simp: log_grows_def)
  ultimately have "find ?mine (db_events (store_run db1 ops)) = Some r" by (simp add: find_prefix)
  then have again: "store_event ev (store_run db1 ops) = (Inr (ev_seq out), store_run db1 ops)"
    using r(2) by (simp add: store_event_def)
  have "ev_tenant ev \<noteq> [] \<and> ev_task ev \<noteq> [] \<and> ev_id ev \<noteq> [] \<and> out = ev\<lparr>ev_seq := ev_seq out\<rparr>"
    using assms by (auto simp: pg_AppendTaskEvent_def split: prod.splits sum.splits if_splits)
  then show ?thesis using again assms(2) by (simp add: pg_AppendTaskEvent_def inTenant_def)
qed

text \<open>The budget of the task is granted once, although the event comes three times.\<close>

definition grant :: Event where
  "grant = worker_event ''evt_4'' ''budget.granted'' [(''delta'', Obj [(''steps'', Float 5)])]"

theorem append_is_once_witness:
  "pg_AppendTaskEvent (store_run (snd (pg_AppendTaskEvent sample_db grant)) [OpAppend grant]) grant =
     (Inr (grant\<lparr>ev_seq := 1\<rparr>), store_run (snd (pg_AppendTaskEvent sample_db grant)) [OpAppend grant])"
proof (rule append_is_once)
  have "fst (pg_AppendTaskEvent sample_db grant) = Inr (grant\<lparr>ev_seq := 1\<rparr>)" by code_simp
  then show "pg_AppendTaskEvent sample_db grant = (Inr (grant\<lparr>ev_seq := 1\<rparr>), snd (pg_AppendTaskEvent sample_db grant))"
    by (simp add: prod_eq_iff)
  show "ev_durable grant" by (simp add: grant_def worker_event_def)
qed

end
