(* ===== verification/Pg_Outbox.thy ===== *)
theory Pg_Outbox
  imports Pg_Effects
begin

text \<open>
  The projector on Postgres: the outbox of \<open>runtime_outbox.go\<close> is a queue in the sense of
  \<open>outbox_queue\<close>, a run empties it when every row is one the store takes, and one row it refuses for
  a reason that does not pass stops it for good.
\<close>

section \<open>The outbox is a queue\<close>

definition outbox_ok :: "'a task_db_scheme \<Rightarrow> bool" where
  "outbox_ok db \<longleftrightarrow> distinct (map (\<lambda>r. ob_id (or_record r)) (db_outbox db))"

lemma pending_marked:
  "map or_record (filter (\<lambda>r. or_projected r = None)
      (map (\<lambda>r. if ob_id (or_record r) \<in> ids then r\<lparr>or_projected := Some t\<rparr> else r) rows)) =
   filter (\<lambda>row. ob_id row \<notin> ids) (map or_record (filter (\<lambda>r. or_projected r = None) rows))"
  by (induction rows) auto

lemma mark_pending:
  "pg_pending (db\<lparr>db_outbox := map (\<lambda>r. if ob_id (or_record r) \<in> ids then r\<lparr>or_projected := Some t\<rparr> else r) (db_outbox db)\<rparr>) =
     filter (\<lambda>row. ob_id row \<notin> ids) (pg_pending db)"
  by (simp add: pg_pending_def pending_marked filter_sort)

lemma mark_ok:
  "outbox_ok (db\<lparr>db_outbox := map (\<lambda>r. if ob_id (or_record r) \<in> ids then r\<lparr>or_projected := Some t\<rparr> else r) (db_outbox db)\<rparr>) =
     outbox_ok db"
proof -
  have same: "map (\<lambda>r. ob_id (or_record r)) (map (\<lambda>r. if ob_id (or_record r) \<in> ids then r\<lparr>or_projected := Some t\<rparr> else r) rows) =
      map (\<lambda>r. ob_id (or_record r)) rows" for rows :: "outboxRow list"
    by (induction rows) auto
  show ?thesis by (simp add: outbox_ok_def same del: map_map)
qed

lemma pending_distinct:
  assumes "outbox_ok db"
  shows "distinct (map ob_id (pg_pending db))"
proof -
  let ?rows = "map or_record (filter (\<lambda>r. or_projected r = None) (db_outbox db))"
  have "mset (map ob_id (sort_key ob_id ?rows)) = mset (map ob_id ?rows)" by (simp only: mset_map mset_sort)
  moreover have "distinct (map ob_id ?rows)" using assms by (simp add: outbox_ok_def comp_def distinct_map_filter)
  ultimately show ?thesis unfolding pg_pending_def by (metis mset_eq_imp_distinct_iff)
qed

text \<open>No write of the store touches what the workers wrote, nor the tenants.\<close>

interpretation outbox: store_law "\<lambda>t db db'. db_outbox db' = db_outbox db \<and> db_tenants db' = db_tenants db"
  by unfold_locales auto

interpretation kept_events: row_law "\<lambda>t db db'. db_events db' = db_events db"
  by unfold_locales auto

interpretation pgq: outbox_queue pg_outbox pg_pending pg_projection outbox_ok
proof (unfold_locales, goal_cases)
  case (1 w limit)
  then show ?case by (simp add: pg_outbox_def pg_ClaimRuntimeOutbox_def)
next
  case (2 w now ids r w')
  then have "r = Inr ()" by (auto simp: pg_outbox_def pg_MarkRuntimeOutboxProjected_def split: if_splits)
  moreover have "pg_pending w' = filter (\<lambda>row. ob_id row \<notin> set ids) (pg_pending w)" "outbox_ok w' = outbox_ok w"
    using 2 by (auto simp: pg_outbox_def pg_MarkRuntimeOutboxProjected_def mark_pending mark_ok split: if_splits)
  ultimately show ?case by simp
next
  case (3 w ev r2 w')
  then have "w' = snd (pg_AppendTaskEvent w ev)" by (simp add: pg_projection_def)
  then have "db_outbox w' = db_outbox w" using outbox.append_law [where ev = ev and db = w] by simp
  then show ?case by (simp add: pg_pending_def outbox_ok_def)
next
  case (4 w)
  then show ?case by (rule pending_distinct)
qed

section \<open>Rows the store takes\<close>

text \<open>The integers an event is projected from fit their columns.\<close>

definition json_int :: "obj \<Rightarrow> string \<Rightarrow> int" where
  "json_int m k = (case decode_int 0 (map_of m k) of None \<Rightarrow> 0 | Some n \<Rightarrow> n)"

definition json_ints :: "string list" where
  "json_ints = [''plan_version'', ''parent_version'', ''attempt_count'', ''attempt_no'', ''activity_attempt'', ''state_version'']"

definition ints_fit :: "raw \<Rightarrow> bool" where
  "ints_fit payload \<longleftrightarrow> (\<forall>k \<in> set json_ints. in_int32 (json_int (loose_map payload) k))"

lemma json_int_fits:
  assumes "ints_fit payload" "as_map payload = Some m" "k \<in> set json_ints"
  shows "decode_int 0 (map_of m k) = Some n \<Longrightarrow> in_int32 n"
    "decode_ptr (decode_int 0) (map_of m k) = Some (Some n) \<Longrightarrow> in_int32 n"
  using assms by (auto simp: ints_fit_def json_int_def loose_map_def decode_ptr_def split: option.splits if_splits)

text \<open>The errors of a projection are then those of the event's data, which the savepoint drops.\<close>

definition data_errors :: "('a task_db_scheme \<Rightarrow> 'a task_db_scheme sql) \<Rightarrow> bool" where
  "data_errors f \<longleftrightarrow> (\<forall>db e. f db = Inl e \<longrightarrow> projectionDataError e)"

lemma violations [simp]:
  "projectionDataError check_violation" "projectionDataError fk_violation" "projectionDataError unique_violation"
  by (simp_all add: projectionDataError_def check_violation_def fk_violation_def unique_violation_def pgCode_def has_prefix_def)

lemma data_errorsI: "(\<And>db e. f db = Inl e \<Longrightarrow> projectionDataError e) \<Longrightarrow> data_errors f"
  by (simp add: data_errors_def)

lemma data_errors_bind: "data_errors f \<Longrightarrow> data_errors g \<Longrightarrow> data_errors (\<lambda>db. rbind (f db) g)"
  unfolding data_errors_def rbind_Inl_iff by metis

lemma data_errors_if: "(b \<Longrightarrow> data_errors f) \<Longrightarrow> (\<not> b \<Longrightarrow> data_errors g) \<Longrightarrow> data_errors (\<lambda>db. if b then f db else g db)"
  by (cases b) simp_all

lemma data_errors_Inr: "data_errors Inr"
  by (simp add: data_errors_def)

lemma data_updateTaskColumns: "data_errors (updateTaskColumns t i f)"
  by (intro data_errorsI) (auto simp: updateTaskColumns_def need_def split: option.splits if_splits)

lemma data_insertMessage: "data_errors (insertMessage ev)"
  by (intro data_errorsI) (auto simp: insertMessage_def split: option.splits if_splits)

lemma data_insertManifest: "data_errors (insertManifest ev)"
  by (intro data_errorsI) (auto simp: insertManifest_def split: option.splits if_splits)

lemma data_insertApproval: "data_errors (insertApproval ev)"
  by (intro data_errorsI) (auto simp: insertApproval_def split: option.splits if_splits)

lemma data_decideApproval: "data_errors (decideApproval ev)"
  by (intro data_errorsI) (auto simp: decideApproval_def split: option.splits if_splits)

lemma data_createAttempt: "in_int32 (ar_no row) \<Longrightarrow> data_errors (createAttempt row)"
  by (intro data_errorsI) (simp add: createAttempt_def split: if_splits)

lemma createAttempt_error: "createAttempt row db = Inl e \<Longrightarrow> in_int32 (ar_no row) \<longrightarrow> projectionDataError e"
  using data_createAttempt by (auto simp: data_errors_def)

lemma less_int32: "in_int32 v \<Longrightarrow> 1 \<le> v \<Longrightarrow> in_int32 (v - 1)"
  by (simp add: in_int32_def)

lemma data_insertPlanVersion:
  assumes fits: "ints_fit (ev_payload ev)"
  shows "data_errors (insertPlanVersion ev)"
proof (rule data_errorsI)
  fix db e assume err: "insertPlanVersion ev db = Inl e"
  then obtain m v parent0 h change cmd where m: "as_map (ev_payload ev) = Some m"
      "decode_int 0 (map_of m ''plan_version'') = Some v" "decode_ptr (decode_int 0) (map_of m ''parent_version'') = Some parent0"
      "decode_str (map_of m ''hash'') = Some h" "decode_str (map_of m ''change_command_id'') = Some change"
      "decode_str (map_of m ''command_id'') = Some cmd"
    by (auto simp: insertPlanVersion_def split: option.splits)
  have v: "in_int32 v" using json_int_fits(1) [OF fits m(1) _ m(2)] by (simp add: json_ints_def)
  moreover have "in_int32 n" if "parent0 = Some n" for n
    using json_int_fits(2) [OF fits m(1), of "''parent_version''" n] m(3) that by (simp add: json_ints_def)
  ultimately show "projectionDataError e" using err m
    by (auto simp: insertPlanVersion_def Let_def less_int32 split: if_splits option.splits)
qed

lemma data_commit_plan:
  assumes fits: "ints_fit (ev_payload ev)"
  shows "data_errors (commit_plan ev)"
proof -
  have "in_int32 (payload_version (ev_payload ev))"
    using fits by (simp add: payload_version_def ints_fit_def json_int_def json_ints_def)
  then show ?thesis unfolding commit_plan_def [abs_def] Let_def
    by (intro data_errors_bind data_errors_if data_updateTaskColumns data_errors_Inr data_insertPlanVersion fits) simp
qed

lemma data_projectNodeStatus:
  assumes fits: "ints_fit (ev_payload ev)"
  shows "data_errors (projectNodeStatus ev)"
proof -
  have "count_fits c" if c: "decode_node_change (ev_payload ev) = Some c" for c
  proof -
    obtain m where m: "as_map (ev_payload ev) = Some m" using c by (auto simp: decode_node_change_def split: option.splits)
    moreover have "decode_ptr (decode_int 0) (map_of m ''attempt_count'') = Some (nc_count c)"
      using c m by (auto simp: decode_node_change_def split: option.splits)
    ultimately show ?thesis using json_int_fits(2) [OF fits, of m "''attempt_count''"]
      by (auto simp: count_fits_def json_ints_def split: option.splits)
  qed
  then show ?thesis
    by (intro data_errorsI) (auto simp: projectNodeStatus_def Let_def split: option.splits if_splits)
qed

lemma data_insertAttempt:
  assumes fits: "ints_fit (ev_payload ev)"
  shows "data_errors (insertAttempt ev)"
proof (rule data_errorsI)
  fix db e assume err: "insertAttempt ev db = Inl e"
  obtain m where m: "as_map (ev_payload ev) = Some m" using err by (auto simp: insertAttempt_def split: option.splits)
  show "projectionDataError e"
    using err m json_int_fits(1) [OF fits m, of "''attempt_no''"] unfolding insertAttempt_def Let_def json_ints_def
    by (auto split: option.splits if_splits dest: createAttempt_error)
qed

lemma decode_attempt_ints:
  assumes fits: "ints_fit payload" and b: "decode_attempt payload = Some b"
  shows "in_int32 (ab_no b) \<and> in_int32 (ab_activity b) \<and> in_int32 (ab_state b)"
proof -
  obtain m where m: "as_map payload = Some m" using b by (auto simp: decode_attempt_def split: option.splits)
  have "decode_int 0 (map_of m ''attempt_no'') = Some (ab_no b)" "decode_int 0 (map_of m ''activity_attempt'') = Some (ab_activity b)"
    "decode_int 0 (map_of m ''state_version'') = Some (ab_state b)"
    using b m by (auto simp: decode_attempt_def split: option.splits)
  then show ?thesis
    using json_int_fits(1) [OF fits m, of "''attempt_no''"] json_int_fits(1) [OF fits m, of "''activity_attempt''"]
      json_int_fits(1) [OF fits m, of "''state_version''"] by (simp add: json_ints_def)
qed

lemma data_projectAttemptEvent:
  assumes fits: "ints_fit (ev_payload ev)"
  shows "data_errors (projectAttemptEvent ev)"
proof (rule data_errorsI)
  fix db e assume err: "projectAttemptEvent ev db = Inl e"
  then obtain b where b: "decode_attempt (ev_payload ev) = Some b" by (auto simp: projectAttemptEvent_def split: option.splits)
  note ints = decode_attempt_ints [OF fits b]
  have "resumeAttempt ev (ab_attempt b) (ab_activity b) (ab_state b) db = Inl e \<or> finishAttempt ev b db = Inl e"
    using err b by (auto simp: projectAttemptEvent_def split: option.splits if_splits)
  then show "projectionDataError e"
  proof
    assume "resumeAttempt ev (ab_attempt b) (ab_activity b) (ab_state b) db = Inl e"
    then show ?thesis using ints by (auto simp: resumeAttempt_def split: option.splits if_splits)
  next
    assume "finishAttempt ev b db = Inl e"
    then have "\<exists>status. createAttempt (finished_row ev b status) db = Inl e"
      by (auto simp: finishAttempt_def split: option.splits if_splits prod.splits bool.splits)
    then show ?thesis using ints by (auto simp: finished_row_def dest: createAttempt_error)
  qed
qed

lemma data_applyEvent:
  assumes fits: "ints_fit (ev_payload ev)"
  shows "data_errors (applyEvent ev)"
  unfolding applyEvent_def [abs_def] Let_def set_status_def updateTaskAccumulators_def
  by (intro data_errors_if data_errors_Inr data_errors_bind data_updateTaskColumns data_commit_plan data_projectNodeStatus
      data_insertAttempt data_projectAttemptEvent data_insertMessage data_insertManifest data_insertApproval
      data_decideApproval fits)

lemma savepoint_takes:
  assumes "ints_fit (ev_payload ev)"
  shows "\<exists>db'. apply_in_savepoint ev db = Inr db'"
  using data_applyEvent [OF assms] by (auto simp: apply_in_savepoint_def data_errors_def split: sum.split)

text \<open>
  The rows the store takes: their events have an id of the required form, integers that fit, and the
  tenant of every event with the same id or the same task, stored or pending.
\<close>

definition same_tenant :: "Event \<Rightarrow> string \<Rightarrow> string \<Rightarrow> string \<Rightarrow> bool" where
  "same_tenant ev i task tenantID \<longleftrightarrow> (i = ev_id ev \<or> task = ev_task ev \<longrightarrow> tenantID = ev_tenant ev)"

definition row_events :: "(string \<Rightarrow> time option) \<Rightarrow> OutboxRecord list \<Rightarrow> Event list" where
  "row_events parse rows = List.map_filter (row_event parse) rows"

definition well_formed_rows :: "(string \<Rightarrow> time option) \<Rightarrow> OutboxRecord list \<Rightarrow> bool" where
  "well_formed_rows parse rows \<longleftrightarrow> (\<forall>ev \<in> set (row_events parse rows).
     ev_tenant ev \<noteq> [] \<and> has_prefix (ev_id ev) ''evt_'' \<and> ints_fit (ev_payload ev) \<and>
     (\<forall>ev' \<in> set (row_events parse rows). same_tenant ev (ev_id ev') (ev_task ev') (ev_tenant ev')))"

definition room_for :: "Event list \<Rightarrow> 'a task_db_scheme \<Rightarrow> bool" where
  "room_for evs db \<longleftrightarrow> (\<forall>ev \<in> set evs. ev_tenant ev \<in> set (db_tenants db) \<and>
     (\<forall>r \<in> set (db_events db). same_tenant ev (er_event r) (er_task r) (er_tenant r)))"

lemma row_events_iff: "ev \<in> set (row_events parse rows) \<longleftrightarrow> (\<exists>row \<in> set rows. row_event parse row = Some ev)"
  by (force simp: row_events_def List.map_filter_def)

lemma max_seq_ge: "r \<in> set rows \<Longrightarrow> er_seq r \<le> max_seq rows"
proof -
  have mono: "n \<le> fold max xs n" for xs :: "nat list" and n
    by (induction xs arbitrary: n) (auto intro: order_trans [OF max.cobounded2])
  have "x \<in> set xs \<Longrightarrow> x \<le> fold max xs n" for x n and xs :: "nat list"
    by (induction xs arbitrary: n) (auto intro: order_trans [OF max.cobounded1 mono])
  then show "r \<in> set rows \<Longrightarrow> er_seq r \<le> max_seq rows" by (simp add: max_seq_def)
qed

lemma store_event_takes:
  assumes "room_for evs db" "ev0 \<in> set evs" "alike ev0 ev" "has_prefix (ev_id ev0) ''evt_''" "ints_fit (ev_payload ev0)"
  shows "\<exists>n db'. store_event ev db = (Inr n, db') \<and>
    (\<exists>more. db_events db' = db_events db @ more \<and>
      (\<forall>r \<in> set more. er_event r = ev_id ev0 \<and> er_task r = ev_task ev0 \<and> er_tenant r = ev_tenant ev0))"
proof (cases "find (\<lambda>r. er_event r = ev_id ev \<and> er_tenant r = ev_tenant ev) (db_events db)")
  case (Some r)
  then show ?thesis by (auto simp: store_event_def)
next
  case None
  define n where "n = max_seq (task_events_of (ev_tenant ev) (ev_task ev) db) + 1"
  define row where "row = \<lparr>er_tenant = ev_tenant ev, er_task = ev_task ev, er_seq = n, er_event = ev_id ev,
    er_type = ev_type ev, er_body = event_body (ev\<lparr>ev_seq := n\<rparr>), er_occurred = db_time (ev_occurred ev)\<rparr>"
  have "event_row_ok ev n db" unfolding event_row_ok_def
  proof (intro conjI ballI)
    fix r assume r: "r \<in> set (db_events db)"
    then have same: "same_tenant ev (er_event r) (er_task r) (er_tenant r)"
      using assms(1-3) by (simp add: room_for_def same_tenant_def alike_def)
    then show "er_event r \<noteq> ev_id ev" using None r by (auto simp: find_None_iff same_tenant_def)
    show "\<not> (er_task r = ev_task ev \<and> er_seq r = n)"
    proof
      assume eq: "er_task r = ev_task ev \<and> er_seq r = n"
      then have "r \<in> set (task_events_of (ev_tenant ev) (ev_task ev) db)"
        using same r by (simp add: task_events_of_def same_tenant_def)
      then show False using max_seq_ge eq by (fastforce simp: n_def)
    qed
  qed (use assms in \<open>simp_all add: room_for_def alike_def n_def\<close>)
  moreover obtain db' where sp: "apply_in_savepoint (ev\<lparr>ev_seq := n\<rparr>) (db\<lparr>db_events := db_events db @ [row]\<rparr>) = Inr db'"
    using savepoint_takes [of "ev\<lparr>ev_seq := n\<rparr>"] assms(3,5) by (auto simp: alike_def)
  ultimately have "store_event ev db = (Inr n, db')"
    using None unfolding store_event_def Let_def n_def [symmetric] row_def [symmetric] by simp
  moreover have "db_events db' = db_events db @ [row]" using kept_events.savepoint_law [OF sp] by simp
  ultimately show ?thesis using assms(3) by (auto simp: row_def alike_def)
qed

lemma append_takes:
  assumes rows: "well_formed_rows parse rows" "row \<in> set rows" "row_event parse row = Some ev0"
    and room: "room_for (row_events parse rows) db" and ev: "alike ev0 ev"
    and app: "pg_AppendTaskEvent db ev = (r, db')"
  shows "room_for (row_events parse rows) db' \<and> (\<forall>e. r = Inl e \<longrightarrow> e = ErrMalformedEvent)"
proof -
  let ?evs = "row_events parse rows"
  have mem: "ev0 \<in> set ?evs" using rows(2,3) by (auto simp: row_events_iff)
  then have good: "has_prefix (ev_id ev0) ''evt_''" "ints_fit (ev_payload ev0)" "ev_tenant ev0 \<noteq> []"
    "\<And>ev'. ev' \<in> set ?evs \<Longrightarrow> same_tenant ev' (ev_id ev0) (ev_task ev0) (ev_tenant ev0)"
    using rows(1) by (auto simp: well_formed_rows_def)
  show ?thesis
  proof (cases "ev_durable ev \<and> ev_task ev \<noteq> [] \<and> ev_id ev \<noteq> []")
    case False
    then show ?thesis using app room good(3) ev by (auto simp: pg_AppendTaskEvent_def alike_def split: if_splits)
  next
    case True
    obtain n db1 more where st: "store_event ev db = (Inr n, db1)" "db_events db1 = db_events db @ more"
      "\<And>x. x \<in> set more \<Longrightarrow> er_event x = ev_id ev0 \<and> er_task x = ev_task ev0 \<and> er_tenant x = ev_tenant ev0"
      using store_event_takes [OF room mem ev good(1,2)] by blast
    have r: "r = Inr (ev\<lparr>ev_seq := n\<rparr>)" "db' = db1"
      using app st(1) True good(3) ev by (auto simp: pg_AppendTaskEvent_def inTenant_def alike_def split: if_splits)
    have "same_tenant ev' (er_event x) (er_task x) (er_tenant x)" if "ev' \<in> set ?evs" "x \<in> set (db_events db1)" for ev' x
      using that st(2) st(3) [of x] room good(4) [of ev'] by (auto simp: room_for_def)
    moreover have "db_tenants db1 = db_tenants db"
      using outbox.append_law [where ev = ev and db = db] app r(2) by simp
    ultimately show ?thesis using r room by (simp add: room_for_def)
  qed
qed

lemma pg_takes:
  assumes "well_formed_rows (parse_time d) rows"
  shows "pgq.takes d rows (room_for (row_events (parse_time d) rows))"
  unfolding pgq.takes_def
proof (intro conjI allI ballI impI)
  fix w now ids r w'
  assume "room_for (row_events (parse_time d) rows) w" "MarkRuntimeOutboxProjected pg_outbox w now ids = (r, w')"
  then show "room_for (row_events (parse_time d) rows) w'"
    by (auto simp: pg_outbox_def pg_MarkRuntimeOutboxProjected_def room_for_def split: if_splits)
next
  fix row ev0 assume row: "row \<in> set rows" "row_event (parse_time d) row = Some ev0"
  then show "ev_tenant ev0 \<noteq> []" using assms by (auto simp: well_formed_rows_def row_events_iff)
  fix ev w r w'
  assume "alike ev0 ev" "ev_durable ev" "room_for (row_events (parse_time d) rows) w" "pAppendTaskEvent pg_projection w ev = (r, w')"
  then have out: "room_for (row_events (parse_time d) rows) w' \<and> (\<forall>e. r = Inl e \<longrightarrow> e = ErrMalformedEvent)"
    using append_takes [OF assms row] by (simp add: pg_projection_def)
  then show "room_for (row_events (parse_time d) rows) w'" by blast
  fix e assume "r = Inl e"
  with out show "e = ErrMalformedEvent" by blast
qed

section \<open>The run\<close>

text \<open>
  C9. The outbox is emptied: when every pending row is well formed, a run that has enough ticks ends without
  an error and leaves nothing pending, batch after batch, whatever of it was stored before.
\<close>

theorem outbox_drains:
  assumes "projection d = Some pg_projection" "outbox_ok (world s)"
    and "well_formed_rows (parse_time d) (pg_pending (world s))"
    and "room_for (row_events (parse_time d) (pg_pending (world s))) (world s)"
    and "projector_run d pg_outbox p ticks s = (r, dropped, s')"
    and "int (length (pg_pending (world s))) \<le> int (length ticks) * run_batch p"
  shows "r = Inr () \<and> pg_pending (world s') = []"
proof -
  have "claim_limit (run_batch p) = nat (run_batch p)" "run_batch p > 0" by (simp_all add: claim_limit_def run_batch_def)
  then have enough: "length (pg_pending (world s)) \<le> length ticks * claim_limit (run_batch p)"
    using assms(6) by (metis nat_int nat_mono nat_mult_distrib of_nat_0_le_iff)
  show ?thesis
    using pgq.run_drains [OF pg_takes [OF assms(3)] assms(1) order_refl assms(2,4), of "run_batch p" ticks r dropped s'] assms(5) enough
    by (simp add: projector_run_def)
qed

text \<open>Three rows, the first of them twice, and batches of two: two ticks empty the queue.\<close>

definition three_rows :: "outboxRow list" where
  "three_rows = [outbox_row 3 ''evt_2'', outbox_row 1 ''evt_1'', outbox_row 2 ''evt_1'']"

theorem outbox_drains_witness:
  "\<exists>dropped s'. projector_run pg_deps pg_outbox \<lparr>Poll = 0, Batch = 2\<rparr> [(5, \<lambda>_. 5), (6, \<lambda>_. 6)] (pg_sys three_rows) =
     (Inr (), dropped, s') \<and> pg_pending (world s') = []"
proof -
  let ?s = "pg_sys three_rows"
  obtain r dropped s' where run: "projector_run pg_deps pg_outbox \<lparr>Poll = 0, Batch = 2\<rparr> [(5, \<lambda>_. 5), (6, \<lambda>_. 6)] ?s = (r, dropped, s')"
    by (metis surj_pair)
  have "outbox_ok (world ?s)" by code_simp
  moreover have "well_formed_rows (parse_time pg_deps) (pg_pending (world ?s))" by code_simp
  moreover have "room_for (row_events (parse_time pg_deps) (pg_pending (world ?s))) (world ?s)" by code_simp
  moreover have "int (length (pg_pending (world ?s))) \<le> int (length [(5 :: time, \<lambda>_ :: int. 5 :: time), (6, \<lambda>_. 6)]) * run_batch \<lparr>Poll = 0, Batch = 2\<rparr>"
    by code_simp
  moreover have "projection pg_deps = Some pg_projection" by (simp add: pg_deps_def)
  ultimately show ?thesis using outbox_drains [OF _ _ _ _ run] run by blast
qed

section \<open>A row that stops it\<close>

text \<open>
  An event the table refuses outside the savepoint: its id has not the prefix the check asks for. The
  service has not seen it, or has forgotten it after the last try.
\<close>

definition refused :: "Event \<Rightarrow> bool" where
  "refused ev \<longleftrightarrow> ev_durable ev \<and> ev_tenant ev \<noteq> [] \<and> ev_task ev \<noteq> [] \<and> ev_id ev \<noteq> [] \<and>
     \<not> has_prefix (ev_id ev) ''evt_'' \<and> ev_version ev \<le> 0"

definition untried :: "nat \<Rightarrow> Event \<Rightarrow> ((string \<times> unit) list, 'a task_db_scheme) sys \<Rightarrow> bool" where
  "untried n ev s \<longleftrightarrow> lru_list_inv n (s_seenEvents (svc s)) \<and>
     map_of (s_seenEvents (svc s)) (eventKey (ev_task ev) (ev_id ev)) = None \<and>
     (\<forall>r \<in> set (db_events (world s)). has_prefix (er_event r) ''evt_'')"

lemma refused_append:
  assumes "refused ev0" "alike ev0 ev" "\<forall>r \<in> set (db_events db). has_prefix (er_event r) ''evt_''"
  shows "pg_AppendTaskEvent db ev = (Inl ErrStorage, db)"
proof -
  have "find (\<lambda>r. er_event r = ev_id ev \<and> er_tenant r = ev_tenant ev) (db_events db) = None"
    using assms by (auto simp: find_None_iff refused_def alike_def)
  then have "store_event ev db = (Inl (ErrText ''insert task event''), db)"
    using assms by (simp add: store_event_def event_row_ok_def refused_def alike_def Let_def)
  then show ?thesis using assms(1,2)
    by (simp add: pg_AppendTaskEvent_def inTenant_def projectionErr_def refused_def alike_def)
qed

lemma refused_admitted:
  assumes "cache d = lru_list n" "refused ev" "untried n ev s"
  shows "\<exists>ev' sv. admit d (svc s) now ev = (Some ev', sv) \<and> alike ev ev' \<and> lru_list_inv n (s_seenEvents sv)"
proof -
  let ?key = "eventKey (ev_task ev) (ev_id ev)"
  have ok: "lru_list_inv n (s_seenEvents (svc s))" "map_of (s_seenEvents (svc s)) ?key = None"
    using assms(3) by (simp_all add: untried_def)
  then have get: "lru_get (lru_list n) (s_seenEvents (svc s)) ?key = (None, s_seenEvents (svc s))"
    by (simp add: lru_list_def)
  let ?sv1 = "(svc s)\<lparr>s_seenEvents := lru_add (lru_list n) (s_seenEvents (svc s)) ?key ()\<rparr>"
  have mark: "fill_tenant (svc s) ev = ev" "mark_seen d (svc s) ev = (False, ?sv1)" "\<not> stale_entity ?sv1 ev"
    using assms(1,2) get by (simp_all add: fill_tenant_def mark_seen_def stale_entity_def refused_def Let_def)
  obtain ev1 sv2 where adv: "advance_entity ?sv1 ev = (ev1, sv2)" by force
  obtain ev2 sv where num: "number_event sv2 ev1 = (ev2, sv)" by force
  have adm: "admit d (svc s) now ev = (Some (stamp_event now ev2), sv)" using mark adv num by (simp add: admit_def)
  have seen: "s_seenEvents sv = lru_add (lru_list n) (s_seenEvents (svc s)) ?key ()"
    using adv num by (auto simp: advance_entity_def number_event_def Let_def split: if_splits)
  have "alike ev (stamp_event now ev2)" using admit_alike [OF adm] assms(2) by (simp add: refused_def)
  moreover have "lru_list_inv n (s_seenEvents sv)" unfolding seen by (rule lru_list.inv_add [OF ok(1)])
  ultimately show ?thesis using adm by blast
qed

lemma refused_row:
  assumes "cache d = lru_list n" "projection d = Some pg_projection" "row_event (parse_time d) row = Some ev" "refused ev"
    and "untried n ev s"
  shows "\<exists>e s1. project_row d now row s = (Inl e, s1) \<and> untried n ev s1"
proof -
  obtain body where body: "decode_body (parse_time d) (ob_body row) = Some body" "ev = outbox_event row body"
    using assms(3) by (auto simp: row_event_def)
  obtain ev' sv where adm: "admit d (svc s) now ev = (Some ev', sv)" "alike ev ev'" "lru_list_inv n (s_seenEvents sv)"
    using refused_admitted [OF assms(1,4,5)] by blast
  have app: "pg_AppendTaskEvent (world s) ev' = (Inl ErrStorage, world s)"
    by (rule refused_append [OF assms(4) adm(2)]) (use assms(5) in \<open>simp add: untried_def\<close>)
  have ids: "ev_id ev' = ev_id ev" "ev_task ev' = ev_task ev" "ev_durable ev'" "ev_id ev \<noteq> []"
    using adm(2) assms(4) by (simp_all add: alike_def refused_def)
  let ?s1 = "s\<lparr>svc := forgetEvent d sv ev', world := world s\<rparr>"
  have "AppendEvent d s now ev = (Inl ErrStorage, ?s1)"
    using adm(1) app ids(3) assms(2) by (simp add: AppendEvent_def pg_projection_def)
  moreover have "untried n ev ?s1"
    using assms(1,5) ids lru_list.remove_held [OF adm(3)] lru_list.inv_remove [OF adm(3)]
    by (simp add: untried_def forgetEvent_def)
  ultimately show ?thesis using body by (simp add: project_row_def)
qed

lemma refused_run:
  assumes "cache d = lru_list n" "projection d = Some pg_projection" "row_event (parse_time d) row = Some ev" "refused ev"
    and "untried n ev s" "pg_pending (world s) = row # rest"
  shows "untried n ev (snd (snd (projector_run d pg_outbox p ticks s))) \<and>
    pg_pending (world (snd (snd (projector_run d pg_outbox p ticks s)))) = row # rest"
proof (cases "ticks = []")
  case False
  have "claim_limit (run_batch p) > 0" by (simp add: claim_limit_def run_batch_def)
  from pgq.run_wedged [where Q = "untried n ev", OF assms(2) this refused_row [OF assms(1-4)] assms(5,6) False]
  show ?thesis by (auto simp: projector_run_def)
qed (use assms in \<open>simp add: projector_run_def\<close>)



end
