(* ===== verification/Catalog.thy ===== *)
theory Catalog
  imports Go_Text
begin

text \<open>
  The catalog's records and the clamping of its queries: \<open>internal/store/repository.go\<close>. A nil slice
  and an empty one read alike. \<open>strings.ToLower\<close> maps the letters of ASCII itself; for the other runes
  it has the Unicode tables of the Go release, which are a parameter (\<open>fold_rune\<close>).
\<close>

section \<open>Records\<close>

record PersonaRecord =
  per_id :: string
  per_name :: string
  per_instructions :: string
  per_connectors :: "string list"
  per_created :: time

record McpConnectorRecord =
  con_id :: string
  con_name :: string
  con_transport :: string
  con_command :: string
  con_args :: "string list"
  con_env :: "string list"
  con_url :: string
  con_headers :: "string list"
  con_open :: bool
  con_created :: time

record SkillFile =
  sf_path :: string
  sf_body :: string

record SkillRecord =
  sk_id :: string
  sk_handle :: string
  sk_slug :: string
  sk_name :: string
  sk_description :: string
  sk_description_en :: string
  sk_category :: string
  sk_category_name :: string
  sk_tags :: "string list"
  sk_license :: string
  sk_icon :: string
  sk_source_url :: string
  sk_downloads :: int
  sk_visits :: int
  sk_likes :: int
  sk_updated :: time
  sk_source :: string
  sk_files :: "SkillFile list"
  sk_files_known :: bool
  sk_installed :: time

record SkillCategoryRecord =
  sc_key :: string
  sc_name :: string
  sc_name_en :: string
  sc_order :: int

record SkillCatalogQuery =
  sq_sort :: string
  sq_category :: string
  sq_source :: string
  sq_keyword :: string
  sq_page :: int
  sq_size :: int

record 'r page =
  pg_items :: "'r list"
  pg_total :: nat
  pg_page :: int
  pg_size :: int

record McpMarketRecord =
  mm_id :: string
  mm_name :: string
  mm_summary :: string
  mm_author :: string
  mm_category :: string
  mm_category_name :: string
  mm_category_more :: int
  mm_calls :: int
  mm_views :: int
  mm_stars :: int
  mm_verified :: bool
  mm_hosted :: bool
  mm_online :: bool
  mm_source :: string
  mm_icon :: string
  mm_rank :: int

record McpMarketToolParam =
  tp_name :: string
  tp_type :: string
  tp_required :: bool
  tp_description :: string

record McpMarketTool =
  mt_name :: string
  mt_description :: string
  mt_params :: "McpMarketToolParam list"

record McpMarketDetailRecord =
  md_id :: string
  md_license :: string
  md_updated :: string
  md_readme :: string
  md_tools :: "McpMarketTool list"

record CatalogIcon =
  ci_url :: string
  ci_type :: string
  ci_data :: string

record McpMarketCategoryRecord =
  mc_key :: string
  mc_name :: string
  mc_order :: int

record McpMarketQuery =
  mq_keyword :: string
  mq_category :: string
  mq_service :: string
  mq_online :: string
  mq_source :: string
  mq_page :: int
  mq_size :: int

record AgentModel =
  amd_name :: string
  amd_supplier :: string
  amd_protocol :: string

record AgentRef =
  arf_name :: string
  arf_description :: string

record AgentPrompt =
  apr_filename :: string
  apr_content :: string

record AgentRecord =
  ag_id :: string
  ag_handle :: string
  ag_slug :: string
  ag_name :: string
  ag_description :: string
  ag_framework :: string
  ag_license :: string
  ag_logo :: string
  ag_catalogues :: "string list"
  ag_models :: "AgentModel list"
  ag_mcps :: "AgentRef list"
  ag_skills :: "AgentRef list"
  ag_prompts :: "AgentPrompt list"
  ag_readme :: string
  ag_files :: "SkillFile list"
  ag_files_known :: bool
  ag_stars :: int
  ag_downloads :: int
  ag_visits :: int
  ag_updated :: time
  ag_source :: string

record AgentCatalogQuery =
  aq_sort :: string
  aq_catalogue :: string
  aq_keyword :: string
  aq_page :: int
  aq_size :: int

section \<open>Clamping\<close>

definition lower_byte :: "char \<Rightarrow> char" where
  "lower_byte c = (if byte_in 65 90 c then byte (of_char c + 32) else c)"

definition lower_rune :: "(nat \<Rightarrow> nat) \<Rightarrow> nat \<Rightarrow> nat" where
  "lower_rune fold_rune r = (if 65 \<le> r \<and> r \<le> 90 then r + 32 else if r < 128 then r else fold_rune r)"

definition ToLower :: "(nat \<Rightarrow> nat) \<Rightarrow> string \<Rightarrow> string" where
  "ToLower fold_rune s =
     (if ascii s then map lower_byte s else string_of_runes (map (lower_rune fold_rune) (runes s)))"

definition clipText :: "string \<Rightarrow> nat \<Rightarrow> string" where
  "clipText s0 n =
     (let s = trim_space (filter (\<lambda>c. c \<noteq> byte 0) s0); r = runes s
      in if length r > n then string_of_runes (take n r) else s)"

definition token_rune :: "nat \<Rightarrow> bool" where
  "token_rune r \<longleftrightarrow> 97 \<le> r \<and> r \<le> 122 \<or> 65 \<le> r \<and> r \<le> 90 \<or> 48 \<le> r \<and> r \<le> 57 \<or> r \<in> {46, 95, 45}"

definition clipToken :: "string \<Rightarrow> nat \<Rightarrow> string" where
  "clipToken s0 n = (let s = clipText s0 n in if s = [] then [] else if list_all token_rune (runes s) then s else [])"

definition clipHandle :: "string \<Rightarrow> nat \<Rightarrow> string" where
  "clipHandle s n =
     (let sigil = (if has_prefix s ''@'' then ''@'' else []); rest = (if has_prefix s ''@'' then tl s else s);
          body = clipToken rest n
      in if body = [] then [] else sigil @ body)"

definition clipSlug :: "string \<Rightarrow> nat \<Rightarrow> string" where
  "clipSlug s n = clipToken s n"

definition SkillPathID :: "string \<Rightarrow> string \<Rightarrow> string option" where
  "SkillPathID handle0 slug0 =
     (let handle = clipHandle handle0 100; slug = clipSlug slug0 200
      in if handle = [] \<or> slug = [] then None else Some (handle @ ''/'' @ slug))"

definition boolWord :: "(nat \<Rightarrow> nat) \<Rightarrow> string \<Rightarrow> string" where
  "boolWord fold_rune v =
     (let w = trim_space (ToLower fold_rune v) in if w \<in> {''true'', ''false''} then w else [])"

definition one_of :: "string list \<Rightarrow> string \<Rightarrow> string \<Rightarrow> string" where
  "one_of allowed dflt s = (if s \<in> set allowed then s else dflt)"

definition clamp_page :: "int \<Rightarrow> int" where
  "clamp_page n = (let n' = (if n < 1 then 1 else n) in if n' > 10000 then 10000 else n')"

definition clamp_size :: "int \<Rightarrow> int \<Rightarrow> int" where
  "clamp_size dflt n = (let n' = (if n < 1 then dflt else n) in if n' > 48 then 48 else n')"

definition NormalizeSkillQuery :: "SkillCatalogQuery \<Rightarrow> SkillCatalogQuery" where
  "NormalizeSkillQuery q =
     \<lparr>sq_sort = one_of [''downloads'', ''updated_at'', ''likes''] ''downloads'' (sq_sort q),
      sq_category = clipToken (sq_category q) 64, sq_source = one_of [''common'', ''nexa''] [] (sq_source q),
      sq_keyword = clipText (sq_keyword q) 80, sq_page = clamp_page (sq_page q), sq_size = clamp_size 24 (sq_size q)\<rparr>"

definition NormalizeMcpMarketQuery :: "(nat \<Rightarrow> nat) \<Rightarrow> McpMarketQuery \<Rightarrow> McpMarketQuery" where
  "NormalizeMcpMarketQuery fold_rune q =
     \<lparr>mq_keyword = clipText (mq_keyword q) 80, mq_category = clipToken (mq_category q) 64,
      mq_service = one_of [''hosted'', ''local''] [] (mq_service q), mq_online = boolWord fold_rune (mq_online q),
      mq_source = one_of [''common'', ''nexa''] [] (mq_source q), mq_page = clamp_page (mq_page q),
      mq_size = clamp_size 30 (mq_size q)\<rparr>"

definition NormalizeAgentCatalogQuery :: "AgentCatalogQuery \<Rightarrow> AgentCatalogQuery" where
  "NormalizeAgentCatalogQuery q =
     \<lparr>aq_sort = one_of [''downloads'', ''updated_at'', ''stars''] ''downloads'' (aq_sort q),
      aq_catalogue = clipToken (aq_catalogue q) 64, aq_keyword = clipText (aq_keyword q) 80,
      aq_page = clamp_page (aq_page q), aq_size = clamp_size 24 (aq_size q)\<rparr>"

lemma clamp_page_range: "1 \<le> clamp_page n" "clamp_page n \<le> 10000"
  by (simp_all add: clamp_page_def Let_def)

lemma clamp_size_range: "1 \<le> dflt \<Longrightarrow> 1 \<le> clamp_size dflt n" "clamp_size dflt n \<le> 48"
  by (simp_all add: clamp_size_def Let_def)

text \<open>A catalog id splits back into its two parts: neither has a slash in it.\<close>

lemma decode_rune_ascii: "fst (decode_rune (c # cs)) < 128 \<Longrightarrow> of_char c < (128 :: nat)"
  by (auto simp: decode_rune_def Let_def rune_error_def byte_in_def second_lo_def split: list.splits if_splits)

lemma token_bytes: "list_all token_rune (runes s) \<Longrightarrow> c \<in> set s \<Longrightarrow> token_rune (of_char c)"
proof (induction s rule: runes.induct)
  case (2 x xs)
  have tok: "token_rune (fst (decode_rune (x # xs)))" using 2(2) by simp
  then have "fst (decode_rune (x # xs)) < 128" by (auto simp: token_rune_def)
  then have x: "of_char x < (128 :: nat)" by (rule decode_rune_ascii)
  then have dec: "decode_rune (x # xs) = (of_char x, 1)" by (simp add: decode_rune_def)
  then show ?case using 2 tok by auto
qed simp

lemma clipToken_bytes: "c \<in> set (clipToken s n) \<Longrightarrow> token_rune (of_char c)"
  using token_bytes by (auto simp: clipToken_def Let_def split: if_splits)

lemma clipToken_no_slash: "CHR ''/'' \<notin> set (clipToken s n)" "CHR ''@'' \<notin> set (clipToken s n)"
  using clipToken_bytes [of "CHR ''/''" s n] clipToken_bytes [of "CHR ''@''" s n] by (auto simp: token_rune_def)

end
