(* ===== verification/Mem_Catalog.thy ===== *)
theory Mem_Catalog
  imports Catalog "HOL-Library.Multiset"
begin

text \<open>
  The catalog in memory: \<open>internal/store/memstore\<close>. A map is a \<open>gomap\<close>; what a \<open>range\<close> over it collects
  is sorted by an order that is total on the collected records, so the result does not depend on the
  order of the map. The mutex makes an operation one step. \<open>time.Now\<close> is an argument.
\<close>

record mem_store =
  ms_personas :: "(string, string \<times> PersonaRecord) gomap"
  ms_connectors :: "(string, string \<times> McpConnectorRecord) gomap"
  ms_skills :: "(string, SkillRecord) gomap"
  ms_skill_categories :: "(string, SkillCategoryRecord) gomap"
  ms_agents :: "(string, AgentRecord) gomap"
  ms_snapshots :: "(string, string) gomap"
  ms_icons :: "(string, CatalogIcon) gomap"
  ms_market :: "(string, McpMarketRecord) gomap"
  ms_market_categories :: "(string, McpMarketCategoryRecord) gomap"
  ms_market_details :: "(string, McpMarketDetailRecord) gomap"

definition mem_New :: mem_store where
  "mem_New =
     \<lparr>ms_personas = [], ms_connectors = [], ms_skills = [], ms_skill_categories = [], ms_agents = [], ms_snapshots = [],
      ms_icons = [], ms_market = [], ms_market_categories = [], ms_market_details = []\<rparr>"

definition mem_CheckTenant :: "string \<Rightarrow> unit result" where
  "mem_CheckTenant tenantID = (if tenantID = [] then Inl ErrNotFound else Inr ())"

text \<open>\<open>sort.Slice\<close>, for an order that decides between any two of the elements.\<close>

fun insert_by :: "('a \<Rightarrow> 'a \<Rightarrow> bool) \<Rightarrow> 'a \<Rightarrow> 'a list \<Rightarrow> 'a list" where
  "insert_by lt x [] = [x]"
| "insert_by lt x (y # ys) = (if lt y x then y # insert_by lt x ys else x # y # ys)"

definition sort_Slice :: "('a \<Rightarrow> 'a \<Rightarrow> bool) \<Rightarrow> 'a list \<Rightarrow> 'a list" where
  "sort_Slice lt xs = foldr (insert_by lt) xs []"

definition page_of :: "int \<Rightarrow> int \<Rightarrow> 'a list \<Rightarrow> 'a list" where
  "page_of page psize matched =
     (let len = int (length matched);
          start = (if (page - 1) * psize > len then len else (page - 1) * psize);
          stop = (if start + psize > len then len else start + psize)
      in drop (nat start) (take (nat stop) matched))"

section \<open>Personas and connectors\<close>

definition newest_first :: "('r \<Rightarrow> time) \<Rightarrow> ('r \<Rightarrow> string) \<Rightarrow> 'r \<Rightarrow> 'r \<Rightarrow> bool" where
  "newest_first created i a b \<longleftrightarrow> (if created a = created b then i a < i b else created a > created b)"

definition rows_of :: "string \<Rightarrow> (string, string \<times> 'r) gomap \<Rightarrow> 'r list" where
  "rows_of tenantID m = map (\<lambda>kv. snd (snd kv)) (filter (\<lambda>kv. fst (snd kv) = tenantID) m)"

definition mem_ListPersonas :: "mem_store \<Rightarrow> string \<Rightarrow> PersonaRecord list result" where
  "mem_ListPersonas s tenantID =
     (if tenantID = [] then Inl ErrNotFound
      else Inr (sort_Slice (newest_first per_created per_id) (rows_of tenantID (ms_personas s))))"

definition mem_CreatePersona :: "mem_store \<Rightarrow> string \<Rightarrow> PersonaRecord \<Rightarrow> unit result \<times> mem_store" where
  "mem_CreatePersona s tenantID p =
     (if tenantID = [] \<or> per_id p = [] then (Inl ErrNotFound, s)
      else if has_key (ms_personas s) (per_id p) then (Inl ErrStorage, s)
      else (Inr (), s\<lparr>ms_personas := AList.update (per_id p) (tenantID, p) (ms_personas s)\<rparr>))"

definition mem_ListMcpConnectors :: "mem_store \<Rightarrow> string \<Rightarrow> McpConnectorRecord list result" where
  "mem_ListMcpConnectors s tenantID =
     (if tenantID = [] then Inl ErrNotFound
      else Inr (sort_Slice (newest_first con_created con_id) (rows_of tenantID (ms_connectors s))))"

definition mem_CreateMcpConnector :: "mem_store \<Rightarrow> string \<Rightarrow> McpConnectorRecord \<Rightarrow> unit result \<times> mem_store" where
  "mem_CreateMcpConnector s tenantID c =
     (if tenantID = [] \<or> con_id c = [] then (Inl ErrNotFound, s)
      else if has_key (ms_connectors s) (con_id c) then (Inl ErrStorage, s)
      else let c' = (if con_transport c = [] then c\<lparr>con_transport := ''stdio''\<rparr> else c)
           in (Inr (), s\<lparr>ms_connectors := AList.update (con_id c) (tenantID, c') (ms_connectors s)\<rparr>))"

section \<open>Skills\<close>

definition names_hit :: "(nat \<Rightarrow> nat) \<Rightarrow> string \<Rightarrow> string list \<Rightarrow> bool" where
  "names_hit fold_rune needle texts \<longleftrightarrow> list_ex (\<lambda>t. contains (ToLower fold_rune t) needle) texts"

definition skillVisible :: "(nat \<Rightarrow> nat) \<Rightarrow> SkillCatalogQuery \<Rightarrow> SkillRecord \<Rightarrow> bool" where
  "skillVisible fold_rune q rec \<longleftrightarrow>
     \<not> (sq_category q \<noteq> [] \<and> sk_category rec \<noteq> sq_category q) \<and>
     \<not> (sq_source q \<noteq> [] \<and> sk_source rec \<noteq> sq_source q) \<and>
     (sq_keyword q \<noteq> [] \<longrightarrow>
        names_hit fold_rune (ToLower fold_rune (sq_keyword q)) [sk_name rec, sk_description rec, sk_description_en rec])"

definition skillLess :: "string \<Rightarrow> SkillRecord \<Rightarrow> SkillRecord \<Rightarrow> bool" where
  "skillLess sortBy a b \<longleftrightarrow>
     (if sortBy = ''updated_at'' \<and> sk_updated a \<noteq> sk_updated b then sk_updated a > sk_updated b
      else if sortBy = ''likes'' \<and> sk_likes a \<noteq> sk_likes b then sk_likes a > sk_likes b
      else if sortBy \<notin> {''updated_at'', ''likes''} \<and> sk_downloads a \<noteq> sk_downloads b then sk_downloads a > sk_downloads b
      else sk_id a < sk_id b)"

definition skill_category_name :: "mem_store \<Rightarrow> string \<Rightarrow> string" where
  "skill_category_name s key = (case map_of (ms_skill_categories s) key of None \<Rightarrow> [] | Some c \<Rightarrow> sc_name c)"

definition matched_skills :: "(nat \<Rightarrow> nat) \<Rightarrow> mem_store \<Rightarrow> SkillCatalogQuery \<Rightarrow> SkillRecord list" where
  "matched_skills fold_rune s q =
     sort_Slice (skillLess (sq_sort q))
       (map (\<lambda>rec. rec\<lparr>sk_category_name := skill_category_name s (sk_category rec)\<rparr>)
          (filter (skillVisible fold_rune q) (map snd (ms_skills s))))"

definition newest_install :: "SkillRecord list \<Rightarrow> time" where
  "newest_install recs = fold (\<lambda>rec t. if sk_installed rec > t then sk_installed rec else t) recs 0"

definition mem_ListSkillCatalog :: "(nat \<Rightarrow> nat) \<Rightarrow> mem_store \<Rightarrow> string \<Rightarrow> SkillCatalogQuery
    \<Rightarrow> (SkillRecord page \<times> time) result" where
  "mem_ListSkillCatalog fold_rune s tenantID q0 =
     (if tenantID = [] then Inl ErrNotFound
      else let q = NormalizeSkillQuery q0; matched = matched_skills fold_rune s q
           in Inr (\<lparr>pg_items = page_of (sq_page q) (sq_size q) matched, pg_total = length matched, pg_page = sq_page q,
                pg_size = sq_size q\<rparr>, newest_install (map snd (ms_skills s))))"

definition mem_GetSkill :: "mem_store \<Rightarrow> string \<Rightarrow> string \<Rightarrow> SkillRecord result" where
  "mem_GetSkill s tenantID i =
     (if tenantID = [] \<or> i = [] then Inl ErrNotFound
      else case map_of (ms_skills s) i of
        None \<Rightarrow> Inl ErrNotFound
      | Some rec \<Rightarrow>
          (case map_of (ms_skill_categories s) (sk_category rec) of
             None \<Rightarrow> Inr rec
           | Some cat \<Rightarrow> Inr (rec\<lparr>sk_category_name := sc_name cat\<rparr>)))"

definition mem_GetSkillTextFiles :: "mem_store \<Rightarrow> string \<Rightarrow> string \<Rightarrow> (SkillFile list \<times> bool) result" where
  "mem_GetSkillTextFiles s tenantID i =
     (if tenantID = [] \<or> i = [] then Inl ErrNotFound
      else case map_of (ms_skills s) i of
        None \<Rightarrow> Inl ErrNotFound
      | Some rec \<Rightarrow> Inr (if sk_files_known rec then (sk_files rec, True) else ([], False)))"

definition save_text :: "string \<times> SkillFile list \<Rightarrow> (string, SkillRecord) gomap \<Rightarrow> (string, SkillRecord) gomap" where
  "save_text row skills =
     (case map_of skills (fst row) of
        None \<Rightarrow> skills
      | Some rec \<Rightarrow> AList.update (fst row) (rec\<lparr>sk_files := snd row, sk_files_known := True\<rparr>) skills)"

definition mem_SaveSkillTextFilesBatch :: "mem_store \<Rightarrow> string \<Rightarrow> (string \<times> SkillFile list) list \<Rightarrow> unit result \<times> mem_store" where
  "mem_SaveSkillTextFilesBatch s tenantID rows =
     (if tenantID = [] then (Inl ErrNotFound, s)
      else (Inr (), s\<lparr>ms_skills := fold save_text rows (ms_skills s)\<rparr>))"

definition put_rows :: "('r \<Rightarrow> string) \<Rightarrow> 'r list \<Rightarrow> (string, 'r) gomap \<Rightarrow> (string, 'r) gomap" where
  "put_rows key rows m = fold (\<lambda>row m. if key row = [] then m else AList.update (key row) row m) rows m"

definition mem_ReplaceSkills :: "mem_store \<Rightarrow> time \<Rightarrow> string \<Rightarrow> SkillRecord list \<Rightarrow> SkillCategoryRecord list
    \<Rightarrow> unit result \<times> mem_store" where
  "mem_ReplaceSkills s now tenantID rows categories =
     (if tenantID = [] then (Inl ErrNotFound, s)
      else (Inr (), s\<lparr>ms_skills := put_rows sk_id
              (map (\<lambda>row. if sk_installed row = 0 then row\<lparr>sk_installed := now\<rparr> else row) rows) [],
            ms_skill_categories := put_rows sc_key categories (ms_skill_categories s)\<rparr>))"

definition in_order :: "('r \<Rightarrow> int) \<Rightarrow> ('r \<Rightarrow> string) \<Rightarrow> 'r \<Rightarrow> 'r \<Rightarrow> bool" where
  "in_order position key a b \<longleftrightarrow> (if position a = position b then key a < key b else position a < position b)"

definition mem_ListSkillCategories :: "mem_store \<Rightarrow> string \<Rightarrow> SkillCategoryRecord list result" where
  "mem_ListSkillCategories s tenantID =
     (if tenantID = [] then Inl ErrNotFound
      else Inr (sort_Slice (in_order sc_order sc_key) (map snd (ms_skill_categories s))))"

section \<open>The MCP market\<close>

definition needsOnlineOK :: "McpMarketRecord \<Rightarrow> string \<Rightarrow> bool" where
  "needsOnlineOK rec flt = (if flt = ''true'' then mm_online rec else if flt = ''false'' then \<not> mm_online rec else True)"

definition marketVisible :: "(nat \<Rightarrow> nat) \<Rightarrow> McpMarketRecord \<Rightarrow> string \<Rightarrow> McpMarketQuery \<Rightarrow> string \<Rightarrow> bool" where
  "marketVisible fold_rune rec categoryName q kw \<longleftrightarrow>
     \<not> (mq_category q \<noteq> [] \<and> mm_category rec \<noteq> mq_category q) \<and>
     \<not> (mq_source q \<noteq> [] \<and> mm_source rec \<noteq> mq_source q) \<and>
     \<not> (mq_service q = ''hosted'' \<and> \<not> mm_hosted rec) \<and> \<not> (mq_service q = ''local'' \<and> mm_hosted rec) \<and>
     (kw = [] \<or> names_hit fold_rune kw [mm_name rec, mm_author rec, mm_summary rec, mm_category rec, categoryName])"

definition nameHit :: "(nat \<Rightarrow> nat) \<Rightarrow> McpMarketRecord \<Rightarrow> string \<Rightarrow> bool" where
  "nameHit fold_rune rec kw \<longleftrightarrow> contains (ToLower fold_rune (mm_name rec)) kw \<or> contains (ToLower fold_rune (mm_author rec)) kw"

definition marketLess :: "(nat \<Rightarrow> nat) \<Rightarrow> string \<Rightarrow> McpMarketRecord \<Rightarrow> McpMarketRecord \<Rightarrow> bool" where
  "marketLess fold_rune kw a b \<longleftrightarrow>
     (if kw \<noteq> [] \<and> nameHit fold_rune a kw \<noteq> nameHit fold_rune b kw then nameHit fold_rune a kw
      else if mm_rank a \<noteq> mm_rank b then mm_rank a < mm_rank b
      else mm_id a < mm_id b)"

definition market_category_name :: "mem_store \<Rightarrow> string \<Rightarrow> string" where
  "market_category_name s key = (case map_of (ms_market_categories s) key of None \<Rightarrow> [] | Some c \<Rightarrow> mc_name c)"

definition online_servers :: "mem_store \<Rightarrow> string \<Rightarrow> McpMarketRecord list" where
  "online_servers s flt = filter (\<lambda>rec. needsOnlineOK rec flt) (map snd (ms_market s))"

definition matched_servers :: "(nat \<Rightarrow> nat) \<Rightarrow> mem_store \<Rightarrow> McpMarketQuery \<Rightarrow> McpMarketRecord list" where
  "matched_servers fold_rune s q =
     (let kw = ToLower fold_rune (mq_keyword q); name = (\<lambda>rec. market_category_name s (mm_category rec)) in
      sort_Slice (marketLess fold_rune kw)
        (map (\<lambda>rec. rec\<lparr>mm_category_name := name rec\<rparr>)
          (filter (\<lambda>rec. marketVisible fold_rune rec (name rec) q kw) (online_servers s (mq_online q)))))"

definition mem_ListMcpMarket :: "(nat \<Rightarrow> nat) \<Rightarrow> mem_store \<Rightarrow> string \<Rightarrow> McpMarketQuery
    \<Rightarrow> (McpMarketRecord page \<times> nat) result" where
  "mem_ListMcpMarket fold_rune s tenantID q0 =
     (if tenantID = [] then Inl ErrNotFound
      else let q = NormalizeMcpMarketQuery fold_rune q0; matched = matched_servers fold_rune s q
           in Inr (\<lparr>pg_items = page_of (mq_page q) (mq_size q) matched, pg_total = length matched, pg_page = mq_page q,
                pg_size = mq_size q\<rparr>, length (online_servers s (mq_online q))))"

record McpMarketCategoryCount =
  cc_key :: string
  cc_name :: string
  cc_order :: int
  cc_count :: nat

definition mem_ListMcpMarketCategories :: "(nat \<Rightarrow> nat) \<Rightarrow> mem_store \<Rightarrow> string \<Rightarrow> string
    \<Rightarrow> McpMarketCategoryCount list result" where
  "mem_ListMcpMarketCategories fold_rune s tenantID needsOnline =
     (if tenantID = [] then Inl ErrNotFound
      else let flt = boolWord fold_rune needsOnline;
               number = (\<lambda>key. length (filter (\<lambda>rec. mm_category rec = key) (online_servers s flt)))
           in Inr (sort_Slice (in_order cc_order cc_key)
                (map (\<lambda>kv. \<lparr>cc_key = fst kv, cc_name = mc_name (snd kv), cc_order = mc_order (snd kv), cc_count = number (fst kv)\<rparr>)
                  (filter (\<lambda>kv. number (fst kv) \<noteq> 0) (ms_market_categories s)))))"

record McpMarketDetail =
  mdt_server :: McpMarketRecord
  mdt_license :: string
  mdt_updated :: string
  mdt_readme :: string
  mdt_tools :: "McpMarketTool list"

definition mem_GetMcpMarket :: "mem_store \<Rightarrow> string \<Rightarrow> string \<Rightarrow> McpMarketDetail result" where
  "mem_GetMcpMarket s tenantID i =
     (if tenantID = [] \<or> i = [] then Inl ErrNotFound
      else case map_of (ms_market s) i of
        None \<Rightarrow> Inl ErrNotFound
      | Some rec0 \<Rightarrow>
          let rec = (case map_of (ms_market_categories s) (mm_category rec0) of
                None \<Rightarrow> rec0 | Some cat \<Rightarrow> rec0\<lparr>mm_category_name := mc_name cat\<rparr>)
          in Inr (case map_of (ms_market_details s) i of
              None \<Rightarrow> \<lparr>mdt_server = rec, mdt_license = [], mdt_updated = [], mdt_readme = [], mdt_tools = []\<rparr>
            | Some dt \<Rightarrow> \<lparr>mdt_server = rec, mdt_license = md_license dt, mdt_updated = md_updated dt,
                mdt_readme = md_readme dt, mdt_tools = md_tools dt\<rparr>))"

definition mem_ReplaceMcpMarket :: "mem_store \<Rightarrow> string \<Rightarrow> McpMarketRecord list \<Rightarrow> McpMarketCategoryRecord list
    \<Rightarrow> McpMarketDetailRecord list \<Rightarrow> unit result \<times> mem_store" where
  "mem_ReplaceMcpMarket s tenantID servers categories details =
     (if tenantID = [] then (Inl ErrNotFound, s)
      else let nextServers = put_rows mm_id servers [];
               nextCats = put_rows mc_key (filter (\<lambda>row. mc_name row \<noteq> []) categories) [];
               nextDetails = put_rows md_id (filter (\<lambda>row. has_key nextServers (md_id row)) details) []
           in (Inr (), s\<lparr>ms_market := nextServers, ms_market_details := nextDetails,
                ms_market_categories := fold (\<lambda>kv m. AList.update (fst kv) (snd kv) m) nextCats (ms_market_categories s)\<rparr>))"

section \<open>Agents, snapshots, icons\<close>

definition agentVisible :: "(nat \<Rightarrow> nat) \<Rightarrow> AgentCatalogQuery \<Rightarrow> AgentRecord \<Rightarrow> bool" where
  "agentVisible fold_rune q rec \<longleftrightarrow>
     (aq_catalogue q \<noteq> [] \<longrightarrow> aq_catalogue q \<in> set (ag_catalogues rec)) \<and>
     (aq_keyword q \<noteq> [] \<longrightarrow>
        names_hit fold_rune (ToLower fold_rune (aq_keyword q)) [ag_name rec, ag_description rec, ag_readme rec])"

definition agentLess :: "string \<Rightarrow> AgentRecord \<Rightarrow> AgentRecord \<Rightarrow> bool" where
  "agentLess sortBy a b \<longleftrightarrow>
     (if sortBy = ''updated_at'' \<and> ag_updated a \<noteq> ag_updated b then ag_updated a > ag_updated b
      else if sortBy = ''stars'' \<and> ag_stars a \<noteq> ag_stars b then ag_stars a > ag_stars b
      else if sortBy \<notin> {''updated_at'', ''stars''} \<and> ag_downloads a \<noteq> ag_downloads b then ag_downloads a > ag_downloads b
      else ag_id a < ag_id b)"

definition matched_agents :: "(nat \<Rightarrow> nat) \<Rightarrow> mem_store \<Rightarrow> AgentCatalogQuery \<Rightarrow> AgentRecord list" where
  "matched_agents fold_rune s q =
     sort_Slice (agentLess (aq_sort q)) (filter (agentVisible fold_rune q) (map snd (ms_agents s)))"

definition mem_ListAgentCatalog :: "(nat \<Rightarrow> nat) \<Rightarrow> mem_store \<Rightarrow> string \<Rightarrow> AgentCatalogQuery \<Rightarrow> AgentRecord page result" where
  "mem_ListAgentCatalog fold_rune s tenantID q0 =
     (if tenantID = [] then Inl ErrNotFound
      else let q = NormalizeAgentCatalogQuery q0; matched = matched_agents fold_rune s q
           in Inr \<lparr>pg_items = page_of (aq_page q) (aq_size q) matched, pg_total = length matched, pg_page = aq_page q,
                pg_size = aq_size q\<rparr>)"

definition mem_GetAgent :: "mem_store \<Rightarrow> string \<Rightarrow> string \<Rightarrow> AgentRecord result" where
  "mem_GetAgent s tenantID i =
     (if tenantID = [] \<or> i = [] then Inl ErrNotFound
      else case map_of (ms_agents s) i of None \<Rightarrow> Inl ErrNotFound | Some rec \<Rightarrow> Inr rec)"

definition mem_ReplaceAgents :: "mem_store \<Rightarrow> string \<Rightarrow> AgentRecord list \<Rightarrow> unit result \<times> mem_store" where
  "mem_ReplaceAgents s tenantID rows =
     (if tenantID = [] then (Inl ErrNotFound, s) else (Inr (), s\<lparr>ms_agents := put_rows ag_id rows []\<rparr>))"

definition mem_CatalogSnapshot :: "mem_store \<Rightarrow> string \<Rightarrow> string \<Rightarrow> (string \<times> bool) result" where
  "mem_CatalogSnapshot s tenantID name =
     (if tenantID = [] then Inl ErrNotFound
      else Inr (get_or [] (ms_snapshots s) name, has_key (ms_snapshots s) name))"

definition mem_SetCatalogSnapshot :: "mem_store \<Rightarrow> string \<Rightarrow> string \<Rightarrow> string \<Rightarrow> unit result \<times> mem_store" where
  "mem_SetCatalogSnapshot s tenantID name sha =
     (if tenantID = [] then (Inl ErrNotFound, s)
      else (Inr (), s\<lparr>ms_snapshots := AList.update name sha (ms_snapshots s)\<rparr>))"

definition mem_ReplaceCatalogIcons :: "mem_store \<Rightarrow> string \<Rightarrow> CatalogIcon list \<Rightarrow> unit result \<times> mem_store" where
  "mem_ReplaceCatalogIcons s tenantID rows =
     (if tenantID = [] then (Inl ErrNotFound, s)
      else (Inr (), s\<lparr>ms_icons := put_rows ci_url (filter (\<lambda>row. ci_data row \<noteq> []) rows) (ms_icons s)\<rparr>))"

definition mem_CatalogIcon :: "mem_store \<Rightarrow> string \<Rightarrow> string \<Rightarrow> (string \<times> string) result" where
  "mem_CatalogIcon s tenantID url =
     (if tenantID = [] \<or> url = [] then Inl ErrNotFound
      else case map_of (ms_icons s) url of None \<Rightarrow> Inl ErrNotFound | Some row \<Rightarrow> Inr (ci_type row, ci_data row))"

section \<open>Sorting and pages\<close>

text \<open>What \<open>sort.Slice\<close> needs of its comparison: a strict weak order.\<close>

definition weak_order :: "('a \<Rightarrow> 'a \<Rightarrow> bool) \<Rightarrow> bool" where
  "weak_order lt \<longleftrightarrow> (\<forall>a b. lt a b \<longrightarrow> \<not> lt b a) \<and> (\<forall>a b c. lt a c \<longrightarrow> lt a b \<or> lt b c)"

lemma mset_sort_Slice [simp]: "mset (sort_Slice lt xs) = mset xs"
proof -
  have ins: "mset (insert_by lt x ys) = add_mset x (mset ys)" for x ys by (induction ys) auto
  show ?thesis unfolding sort_Slice_def by (induction xs) (simp_all add: ins)
qed

lemma sorted_sort_Slice:
  assumes "weak_order lt"
  shows "sorted_wrt (\<lambda>a b. \<not> lt b a) (sort_Slice lt xs)"
proof -
  have set_ins: "set (insert_by lt x ys) = insert x (set ys)" for x ys by (induction ys) auto
  have "sorted_wrt (\<lambda>a b. \<not> lt b a) (insert_by lt x ys)" if "sorted_wrt (\<lambda>a b. \<not> lt b a) ys" for x ys
    using that
  proof (induction ys)
    case (Cons y ys)
    show ?case
    proof (cases "lt y x")
      case True
      then have "\<not> lt x y" using assms by (auto simp: weak_order_def)
      then show ?thesis using True Cons by (auto simp: set_ins)
    next
      case False
      then have "\<not> lt z x" if "z \<in> set ys" for z
        using assms Cons.prems that unfolding weak_order_def by (metis sorted_wrt.simps(2))
      then show ?thesis using False Cons.prems by simp
    qed
  qed simp
  then show ?thesis unfolding sort_Slice_def by (induction xs) simp_all
qed

text \<open>A sorted list of rows that the order tells apart is the only one, so the order of the map is not seen.\<close>

lemma sort_Slice_unique:
  assumes "weak_order lt" "mset xs = mset ys" "\<And>a b. a \<in> set xs \<Longrightarrow> b \<in> set xs \<Longrightarrow> a \<noteq> b \<Longrightarrow> lt a b \<or> lt b a"
  shows "sort_Slice lt xs = sort_Slice lt ys"
proof -
  have "us = vs" if "sorted_wrt (\<lambda>a b. \<not> lt b a) us" "sorted_wrt (\<lambda>a b. \<not> lt b a) vs" "mset us = mset vs"
    "\<And>a b. a \<in> set us \<Longrightarrow> b \<in> set us \<Longrightarrow> a \<noteq> b \<Longrightarrow> lt a b \<or> lt b a" for us vs
    using that
  proof (induction us arbitrary: vs)
    case (Cons u us)
    obtain v vs' where vs: "vs = v # vs'" using Cons.prems(3) by (cases vs) auto
    have "set (u # us) = set (v # vs')" using Cons.prems(3) vs by (metis set_mset_mset)
    then have "u = v" using Cons.prems(1,2,4) vs by (metis list.set_intros(1) set_ConsD sorted_wrt.simps(2))
    then show ?case using Cons vs by simp
  qed simp
  from this [OF sorted_sort_Slice [OF assms(1)] sorted_sort_Slice [OF assms(1)]] show ?thesis
    using assms(2,3) by (metis mset_sort_Slice set_mset_mset)
qed

lemma weak_order_newest: "weak_order (newest_first f i)"
  by (auto simp: weak_order_def newest_first_def)

text \<open>By a number, the greater first, and then by id.\<close>

definition greatest_first :: "('r \<Rightarrow> int) \<Rightarrow> ('r \<Rightarrow> string) \<Rightarrow> 'r \<Rightarrow> 'r \<Rightarrow> bool" where
  "greatest_first f i a b \<longleftrightarrow> f a > f b \<or> f a = f b \<and> i a < i b"

lemma weak_order_greatest: "weak_order (greatest_first f i)"
  by (auto simp: weak_order_def greatest_first_def)

definition skill_number :: "string \<Rightarrow> SkillRecord \<Rightarrow> int" where
  "skill_number sortBy = (if sortBy = ''updated_at'' then sk_updated else if sortBy = ''likes'' then sk_likes else sk_downloads)"

lemma skillLess_greatest: "skillLess sortBy = greatest_first (skill_number sortBy) sk_id"
  by (intro ext) (auto simp: skillLess_def greatest_first_def skill_number_def)

definition agent_number :: "string \<Rightarrow> AgentRecord \<Rightarrow> int" where
  "agent_number sortBy = (if sortBy = ''updated_at'' then ag_updated else if sortBy = ''stars'' then ag_stars else ag_downloads)"

lemma agentLess_greatest: "agentLess sortBy = greatest_first (agent_number sortBy) ag_id"
  by (intro ext) (auto simp: agentLess_def greatest_first_def agent_number_def)

lemma weak_order_skillLess: "weak_order (skillLess sortBy)"
  unfolding skillLess_greatest by (rule weak_order_greatest)

lemma weak_order_agentLess: "weak_order (agentLess sortBy)"
  unfolding agentLess_greatest by (rule weak_order_greatest)

lemma weak_order_marketLess: "weak_order (marketLess f kw)"
proof -
  have eq: "marketLess f kw a b \<longleftrightarrow>
      (let h = \<lambda>r. if kw \<noteq> [] \<and> \<not> nameHit f r kw then 1 else (0 :: nat)
       in h a < h b \<or> h a = h b \<and> (mm_rank a < mm_rank b \<or> mm_rank a = mm_rank b \<and> mm_id a < mm_id b))" for a b
    by (auto simp: marketLess_def Let_def)
  show ?thesis unfolding weak_order_def eq Let_def by (auto split: if_splits)
qed

lemma weak_order_in_order: "weak_order (in_order f i)"
  by (auto simp: weak_order_def in_order_def)

text \<open>The pages of a list, put together, are the list.\<close>

lemma page_of_nat:
  assumes "n \<ge> 1" "m \<ge> 1"
  shows "page_of (int n) (int m) xs = take m (drop ((n - 1) * m) xs)"
proof -
  define k where "k = (n - 1) * m"
  have k: "(int n - 1) * int m = int k" using assms by (simp add: k_def of_nat_diff)
  show ?thesis unfolding page_of_def Let_def k k_def [symmetric]
    by (auto simp: drop_take nat_add_distrib)
qed

lemma pages_are_all:
  assumes "m \<ge> 1"
  shows "concat (map (\<lambda>n. page_of (int n) (int m) xs) [1..<Suc k]) = take (k * m) xs"
proof (induction k)
  case (Suc k)
  have "page_of (int (Suc k)) (int m) xs = take m (drop (k * m) xs)"
    using page_of_nat [of "Suc k" m xs] assms by simp
  then show ?case using Suc by (simp add: take_add add.commute [of m])
qed simp

section \<open>The skills a reader pages through\<close>

definition page_items :: "(SkillRecord page \<times> time) result \<Rightarrow> SkillRecord list" where
  "page_items r = (case r of Inl e \<Rightarrow> [] | Inr (page, installed) \<Rightarrow> pg_items page)"

definition skill_page :: "(nat \<Rightarrow> nat) \<Rightarrow> mem_store \<Rightarrow> string \<Rightarrow> SkillCatalogQuery \<Rightarrow> nat \<Rightarrow> nat \<Rightarrow> SkillRecord list" where
  "skill_page f s t q m n = page_items (mem_ListSkillCatalog f s t (q\<lparr>sq_page := int n, sq_size := int m\<rparr>))"

definition labelled :: "mem_store \<Rightarrow> SkillRecord \<Rightarrow> SkillRecord" where
  "labelled s rec = rec\<lparr>sk_category_name := skill_category_name s (sk_category rec)\<rparr>"

lemma clamp_page_id: "1 \<le> n \<Longrightarrow> n \<le> 10000 \<Longrightarrow> clamp_page n = n"
  by (simp add: clamp_page_def)

lemma clamp_size_id: "1 \<le> n \<Longrightarrow> n \<le> 48 \<Longrightarrow> clamp_size d n = n"
  by (simp add: clamp_size_def)

lemma skill_page_eq:
  assumes "t \<noteq> []" "1 \<le> m" "m \<le> 48" "1 \<le> n" "n \<le> 10000"
  shows "skill_page f s t q m n = page_of (int n) (int m) (matched_skills f s (NormalizeSkillQuery q))"
proof -
  have "matched_skills f s (NormalizeSkillQuery (q\<lparr>sq_page := int n, sq_size := int m\<rparr>)) =
      matched_skills f s (NormalizeSkillQuery q)"
    by (simp add: matched_skills_def NormalizeSkillQuery_def skillVisible_def [abs_def])
  then show ?thesis using assms
    by (simp add: skill_page_def page_items_def mem_ListSkillCatalog_def Let_def)
      (simp add: NormalizeSkillQuery_def clamp_page_id clamp_size_id)
qed

text \<open>
  C27. A reader who asks for one page after the other sees every skill that matches the query exactly once,
  in the order asked for, whatever the order the map holds them in.
\<close>

theorem skill_pages_are_complete:
  assumes "t \<noteq> []" "1 \<le> m" "m \<le> 48" "n \<le> 10000"
    and "length (filter (skillVisible f (NormalizeSkillQuery q)) (map snd (ms_skills s))) \<le> n * m"
  shows "mset (concat (map (skill_page f s t q m) [1..<Suc n])) =
      mset (map (labelled s) (filter (skillVisible f (NormalizeSkillQuery q)) (map snd (ms_skills s)))) \<and>
    sorted_wrt (\<lambda>a b. \<not> skillLess (sq_sort (NormalizeSkillQuery q)) b a) (concat (map (skill_page f s t q m) [1..<Suc n]))"
proof -
  let ?all = "matched_skills f s (NormalizeSkillQuery q)"
  have all: "mset ?all = mset (map (labelled s) (filter (skillVisible f (NormalizeSkillQuery q)) (map snd (ms_skills s))))"
    unfolding matched_skills_def by (simp only: mset_sort_Slice labelled_def [abs_def])
  then have "length ?all \<le> n * m" using assms(5) by (metis length_map mset_eq_length)
  moreover have "map (skill_page f s t q m) [1..<Suc n] = map (\<lambda>k. page_of (int k) (int m) ?all) [1..<Suc n]"
    using assms(1-4) by (intro map_cong refl skill_page_eq) auto
  ultimately have "concat (map (skill_page f s t q m) [1..<Suc n]) = ?all"
    by (simp only: pages_are_all [OF assms(2)] take_all)
  then show ?thesis using all sorted_sort_Slice [OF weak_order_skillLess]
    by (simp only: matched_skills_def)
qed

definition sample_skill :: "string \<Rightarrow> int \<Rightarrow> SkillRecord" where
  "sample_skill i n =
     \<lparr>sk_id = i, sk_handle = ''@a'', sk_slug = i, sk_name = ''Tool '' @ i, sk_description = [], sk_description_en = [],
      sk_category = ''dev'', sk_category_name = [], sk_tags = [], sk_license = [], sk_icon = [], sk_source_url = [],
      sk_downloads = n, sk_visits = 0, sk_likes = 0, sk_updated = 0, sk_source = ''common'', sk_files = [],
      sk_files_known = False, sk_installed = 1\<rparr>"

text \<open>Three skills in pages of two, the most downloaded first.\<close>

theorem skill_pages_are_complete_witness:
  "let s = mem_New\<lparr>ms_skills := [(''a'', sample_skill ''a'' 1), (''b'', sample_skill ''b'' 5), (''c'', sample_skill ''c'' 3)]\<rparr>;
       q = \<lparr>sq_sort = ''downloads'', sq_category = [], sq_source = [], sq_keyword = ''tool'', sq_page = 1, sq_size = 1\<rparr>
   in mset (concat (map (skill_page (\<lambda>r. r) s ''t1'' q 2) [1..<Suc 2])) =
     mset (map (labelled s) [sample_skill ''a'' 1, sample_skill ''b'' 5, sample_skill ''c'' 3])"
proof -
  let ?s = "mem_New\<lparr>ms_skills := [(''a'', sample_skill ''a'' 1), (''b'', sample_skill ''b'' 5), (''c'', sample_skill ''c'' 3)]\<rparr>"
  let ?q = "\<lparr>sq_sort = ''downloads'', sq_category = [], sq_source = [], sq_keyword = ''tool'', sq_page = 1, sq_size = 1\<rparr>"
  have vis: "filter (skillVisible (\<lambda>r. r) (NormalizeSkillQuery ?q)) (map snd (ms_skills ?s)) =
      [sample_skill ''a'' 1, sample_skill ''b'' 5, sample_skill ''c'' 3]"
    by code_simp
  show ?thesis using skill_pages_are_complete [of "''t1''" 2 2 "\<lambda>r. r" ?q ?s] unfolding vis by (simp add: Let_def)
qed

end
