(* ===== verification/App_Catalog.thy ===== *)
theory App_Catalog
  imports Mem_Catalog
begin

text \<open>
  The catalog as the API serves it: \<open>internal/app/catalog.go\<close>, \<open>skills.go\<close>, \<open>agents.go\<close>,
  \<open>mcpmarket.go\<close> and \<open>mcpurl.go\<close>. The repository is the interface \<open>catalog_ops\<close> on a world; the memory
  store is an instance. The parsers \<open>url.Parse\<close> and \<open>net.ParseIP\<close> are the parameter \<open>net_pkg\<close>, with what
  the code reads of their results. A new id is its prefix and the UUID it is given.
\<close>

section \<open>Times\<close>

definition zero_pad :: "nat \<Rightarrow> nat \<Rightarrow> string" where
  "zero_pad width n = replicate (width - length (itoa n)) (CHR ''0'') @ itoa n"

text \<open>The date of a day counted from 0001-01-01, by years that begin in March.\<close>

definition civil :: "int \<Rightarrow> int \<times> int \<times> int" where
  "civil day =
     (let z = day + 306; era = z div 146097; doe = z mod 146097;
          yoe = (doe - doe div 1460 + doe div 36524 - doe div 146096) div 365;
          doy = doe - (365 * yoe + yoe div 4 - yoe div 100); mp = (5 * doy + 2) div 153;
          d = doy - (153 * mp + 2) div 5 + 1; m = (if mp < 10 then mp + 3 else mp - 9)
      in (yoe + era * 400 + (if m \<le> 2 then 1 else 0), m, d))"

definition fraction :: "nat \<Rightarrow> string" where
  "fraction nanos = (if nanos = 0 then [] else CHR ''.'' # rev (dropWhile (\<lambda>c. c = CHR ''0'') (rev (zero_pad 9 nanos))))"

definition stamp :: "time \<Rightarrow> string" where
  "stamp t =
     (let secs = t div 1000000000; sod = secs mod 86400 in
      case civil (secs div 86400) of (y, m, d) \<Rightarrow>
        zero_pad 4 (nat y) @ ''-'' @ zero_pad 2 (nat m) @ ''-'' @ zero_pad 2 (nat d) @ ''T'' @
        zero_pad 2 (nat (sod div 3600)) @ '':'' @ zero_pad 2 (nat (sod div 60 mod 60)) @ '':'' @ zero_pad 2 (nat (sod mod 60)) @
        fraction (nat (t mod 1000000000)) @ ''Z'')"

section \<open>The repository\<close>

record 'w catalog_ops =
  rListPersonas :: "'w \<Rightarrow> string \<Rightarrow> PersonaRecord list result"
  rCreatePersona :: "'w \<Rightarrow> string \<Rightarrow> PersonaRecord \<Rightarrow> unit result \<times> 'w"
  rListMcpConnectors :: "'w \<Rightarrow> string \<Rightarrow> McpConnectorRecord list result"
  rCreateMcpConnector :: "'w \<Rightarrow> string \<Rightarrow> McpConnectorRecord \<Rightarrow> unit result \<times> 'w"
  rListSkillCatalog :: "'w \<Rightarrow> string \<Rightarrow> SkillCatalogQuery \<Rightarrow> (SkillRecord page \<times> time) result"
  rGetSkill :: "'w \<Rightarrow> string \<Rightarrow> string \<Rightarrow> SkillRecord result"
  rGetSkillTextFiles :: "'w \<Rightarrow> string \<Rightarrow> string \<Rightarrow> (SkillFile list \<times> bool) result"
  rListSkillCategories :: "'w \<Rightarrow> string \<Rightarrow> SkillCategoryRecord list result"
  rListMcpMarket :: "'w \<Rightarrow> string \<Rightarrow> McpMarketQuery \<Rightarrow> (McpMarketRecord page \<times> nat) result"
  rListMcpMarketCategories :: "'w \<Rightarrow> string \<Rightarrow> string \<Rightarrow> McpMarketCategoryCount list result"
  rGetMcpMarket :: "'w \<Rightarrow> string \<Rightarrow> string \<Rightarrow> McpMarketDetail result"
  rCatalogIcon :: "'w \<Rightarrow> string \<Rightarrow> string \<Rightarrow> (string \<times> string) result"
  rListAgentCatalog :: "'w \<Rightarrow> string \<Rightarrow> AgentCatalogQuery \<Rightarrow> AgentRecord page result"
  rGetAgent :: "'w \<Rightarrow> string \<Rightarrow> string \<Rightarrow> AgentRecord result"

definition mem_catalog :: "(nat \<Rightarrow> nat) \<Rightarrow> mem_store catalog_ops" where
  "mem_catalog f =
     \<lparr>rListPersonas = mem_ListPersonas, rCreatePersona = mem_CreatePersona, rListMcpConnectors = mem_ListMcpConnectors,
      rCreateMcpConnector = mem_CreateMcpConnector, rListSkillCatalog = mem_ListSkillCatalog f, rGetSkill = mem_GetSkill,
      rGetSkillTextFiles = mem_GetSkillTextFiles, rListSkillCategories = mem_ListSkillCategories,
      rListMcpMarket = mem_ListMcpMarket f, rListMcpMarketCategories = mem_ListMcpMarketCategories f,
      rGetMcpMarket = mem_GetMcpMarket, rCatalogIcon = mem_CatalogIcon, rListAgentCatalog = mem_ListAgentCatalog f,
      rGetAgent = mem_GetAgent\<rparr>"

section \<open>Names\<close>

definition env_head :: "char \<Rightarrow> bool" where
  "env_head c \<longleftrightarrow> byte_in 65 90 c \<or> byte_in 97 122 c \<or> c = CHR ''_''"

definition envNamePattern :: "string \<Rightarrow> bool" where
  "envNamePattern s \<longleftrightarrow> s \<noteq> [] \<and> env_head (hd s) \<and> list_all (\<lambda>c. env_head c \<or> byte_in 48 57 c) s"

definition header_char :: "char \<Rightarrow> bool" where
  "header_char c \<longleftrightarrow> c \<in> set ''!#$%&'' \<or> of_char c \<in> {39, 42, 43, 45, 46, 94, 95, 96, 124, 126 :: nat} \<or>
     byte_in 48 57 c \<or> byte_in 65 90 c \<or> byte_in 97 122 c"

definition headerNamePattern :: "string \<Rightarrow> bool" where
  "headerNamePattern s \<longleftrightarrow> s \<noteq> [] \<and> list_all header_char s"

definition trimNonEmpty :: "string list \<Rightarrow> string list" where
  "trimNonEmpty items = filter (\<lambda>s. s \<noteq> []) (map trim_space items)"

definition cleanNames :: "string list \<Rightarrow> string list result" where
  "cleanNames items =
     (let out = trimNonEmpty items
      in if list_ex (\<lambda>s. CHR ''='' \<in> set s) out then Inl (ErrText ''name must not include a value'') else Inr out)"

definition cleanEnvNames :: "string list \<Rightarrow> string list result" where
  "cleanEnvNames items =
     rbind (cleanNames items) (\<lambda>out.
       if list_all envNamePattern out then Inr out else Inl (ErrText ''name must not include a value''))"

record HeaderRef =
  hr_name :: string
  hr_env :: string

text \<open>A header's name is ASCII once it matched, so lower case is that of ASCII.\<close>

fun clean_headers :: "string list \<Rightarrow> HeaderRef list \<Rightarrow> HeaderRef list result" where
  "clean_headers seen [] = Inr []"
| "clean_headers seen (item # items) =
     (let name = trim_space (hr_name item); env = trim_space (hr_env item) in
      if name = [] \<and> env = [] then clean_headers seen items
      else if \<not> headerNamePattern name \<or> \<not> envNamePattern env then
        Inl (ErrText ''header ref must be a header name and an environment name'')
      else let folded = map lower_byte name in
        if folded \<in> set seen then Inl (ErrText ''duplicate header name'')
        else rbind (clean_headers (folded # seen) items) (\<lambda>out. Inr (\<lparr>hr_name = name, hr_env = env\<rparr> # out)))"

definition encode_header :: "HeaderRef \<Rightarrow> string" where
  "encode_header h = hr_name h @ '':'' @ hr_env h"

definition cleanHeaderRefs :: "HeaderRef list \<Rightarrow> (HeaderRef list \<times> string list) result" where
  "cleanHeaderRefs items = rbind (clean_headers [] items) (\<lambda>out. Inr (out, map encode_header out))"

fun decodeHeaderRefs :: "string list \<Rightarrow> HeaderRef list" where
  "decodeHeaderRefs [] = []"
| "decodeHeaderRefs (item # items) =
     (case cut_at (CHR '':'') item of (name, env, ok) \<Rightarrow>
        if \<not> ok \<or> name = [] \<or> env = [] then decodeHeaderRefs items
        else \<lparr>hr_name = name, hr_env = env\<rparr> # decodeHeaderRefs items)"

section \<open>The address of an MCP server\<close>

record parsed_url =
  u_scheme :: string
  u_host :: string
  u_user :: bool
  u_query :: "string list"    \<comment> \<open>the keys of \<open>Query()\<close>\<close>

record ip_addr =
  ip_loopback :: bool
  ip_private :: bool
  ip_link_unicast :: bool
  ip_link_multicast :: bool
  ip_multicast :: bool
  ip_unspecified :: bool
  ip_v4 :: "nat list option"  \<comment> \<open>\<open>To4()\<close>\<close>

record net_pkg =
  url_Parse :: "string \<Rightarrow> parsed_url option"
  ParseIP :: "string \<Rightarrow> ip_addr option"
  unicode_lower :: "nat \<Rightarrow> nat"

definition localMCPHosts :: "string list" where
  "localMCPHosts = [''localhost'', ''host.docker.internal'', ''gateway.docker.internal'']"

definition secretQueryKeys :: "string list" where
  "secretQueryKeys = [''token'', ''key'', ''access_token'', ''api_key'', ''secret'', ''password'', ''apikey'']"

definition has_suffix :: "string \<Rightarrow> string \<Rightarrow> bool" where
  "has_suffix s p \<longleftrightarrow> has_prefix (rev s) (rev p)"

definition trim_suffix :: "string \<Rightarrow> string \<Rightarrow> string" where
  "trim_suffix s p = (if has_suffix s p then take (length s - length p) s else s)"

definition isCGNAT :: "ip_addr \<Rightarrow> bool" where
  "isCGNAT ip = (case ip_v4 ip of
      Some (a # b # rest) \<Rightarrow> a = 100 \<and> b div 64 = 1
    | _ \<Rightarrow> False)"

definition isPrivateOrLocalHost :: "net_pkg \<Rightarrow> string \<Rightarrow> bool" where
  "isPrivateOrLocalHost net host \<longleftrightarrow>
     host \<in> set localMCPHosts \<or> has_suffix host ''.local'' \<or> has_suffix host ''.localhost'' \<or> has_suffix host ''.internal'' \<or>
     (case ParseIP net host of
        None \<Rightarrow> False
      | Some ip \<Rightarrow> ip_loopback ip \<or> ip_private ip \<or> ip_link_unicast ip \<or> ip_link_multicast ip \<or> isCGNAT ip)"

definition publicIPRejected :: "net_pkg \<Rightarrow> string \<Rightarrow> bool" where
  "publicIPRejected net host \<longleftrightarrow>
     (case ParseIP net host of
        None \<Rightarrow> False
      | Some ip \<Rightarrow> ip_private ip \<or> ip_loopback ip \<or> ip_link_unicast ip \<or> ip_link_multicast ip \<or> ip_multicast ip \<or>
          ip_unspecified ip \<or> isCGNAT ip)"

definition validateMCPHTTPURL :: "net_pkg \<Rightarrow> string \<Rightarrow> string result" where
  "validateMCPHTTPURL net raw =
     (let url = trim_space raw in
      case url_Parse net url of
        None \<Rightarrow> Inl (ErrText ''url must be http or https and include a host'')
      | Some u \<Rightarrow>
          if u_host u = [] \<or> u_scheme u \<noteq> ''http'' \<and> u_scheme u \<noteq> ''https'' then
            Inl (ErrText ''url must be http or https and include a host'')
          else if u_user u then Inl (ErrText ''url must not include a username or password'')
          else if list_ex (\<lambda>key. ToLower (unicode_lower net) key \<in> set secretQueryKeys) (u_query u) then
            Inl (ErrText ''url must not include a secret query parameter'')
          else let host = trim_suffix (ToLower (unicode_lower net) (u_host u)) ''.'' in
            if isPrivateOrLocalHost net host then Inr url
            else if u_scheme u \<noteq> ''https'' then Inl (ErrText ''public MCP server URLs must use https'')
            else if publicIPRejected net host then Inl (ErrText ''public MCP server URLs must not use a private address'')
            else Inr url)"

section \<open>Personas and connectors\<close>

record Persona =
  ap_id :: string
  ap_name :: string
  ap_instructions :: string
  ap_connectors :: "string list"
  ap_created :: string

record McpConnector =
  ac_id :: string
  ac_name :: string
  ac_transport :: string
  ac_command :: string
  ac_args :: "string list"
  ac_env :: "string list"
  ac_url :: string
  ac_headers :: "HeaderRef list"
  ac_open :: bool
  ac_created :: string

record McpConnectorInput =
  mi_name :: string
  mi_transport :: string
  mi_command :: string
  mi_args :: "string list"
  mi_env :: "string list"
  mi_raw_url :: string
  mi_headers :: "HeaderRef list"
  mi_open :: bool

definition personaFromRecord :: "PersonaRecord \<Rightarrow> Persona" where
  "personaFromRecord rec =
     \<lparr>ap_id = per_id rec, ap_name = per_name rec, ap_instructions = per_instructions rec, ap_connectors = per_connectors rec,
      ap_created = stamp (per_created rec)\<rparr>"

definition connectorFromRecord :: "McpConnectorRecord \<Rightarrow> McpConnector" where
  "connectorFromRecord rec =
     \<lparr>ac_id = con_id rec, ac_name = con_name rec,
      ac_transport = (if con_transport rec = [] then ''stdio'' else con_transport rec), ac_command = con_command rec,
      ac_args = con_args rec, ac_env = con_env rec, ac_url = con_url rec, ac_headers = decodeHeaderRefs (con_headers rec),
      ac_open = con_open rec, ac_created = stamp (con_created rec)\<rparr>"

definition app_ListPersonas :: "'w catalog_ops \<Rightarrow> 'w \<Rightarrow> string \<Rightarrow> Persona list result" where
  "app_ListPersonas repo w tenantID = rbind (rListPersonas repo w tenantID) (\<lambda>recs. Inr (map personaFromRecord recs))"

definition app_CreatePersona :: "'w catalog_ops \<Rightarrow> 'w \<Rightarrow> time \<Rightarrow> string \<Rightarrow> string \<Rightarrow> string \<Rightarrow> string \<Rightarrow> string list
    \<Rightarrow> Persona result \<times> 'w" where
  "app_CreatePersona repo w now uuid tenantID name0 instructions0 mcpIDs =
     (let name = trim_space name0; instructions = trim_space instructions0 in
      if name = [] then (Inl (ErrText ''name is required''), w)
      else case cleanNames mcpIDs of
        Inl e \<Rightarrow> (Inl e, w)
      | Inr ids \<Rightarrow>
          (case rCreatePersona repo w tenantID
              \<lparr>per_id = ''persona_'' @ uuid, per_name = name, per_instructions = instructions, per_connectors = ids,
               per_created = now\<rparr> of
             (Inl e, w') \<Rightarrow> (Inl e, w')
           | (Inr _, w') \<Rightarrow> (Inr \<lparr>ap_id = ''persona_'' @ uuid, ap_name = name, ap_instructions = instructions,
               ap_connectors = ids, ap_created = stamp now\<rparr>, w')))"

definition app_ListMcpConnectors :: "'w catalog_ops \<Rightarrow> 'w \<Rightarrow> string \<Rightarrow> McpConnector list result" where
  "app_ListMcpConnectors repo w tenantID =
     rbind (rListMcpConnectors repo w tenantID) (\<lambda>recs. Inr (map connectorFromRecord recs))"

text \<open>Where the connector runs: a command and its arguments, or an address.\<close>

definition launch_target :: "net_pkg \<Rightarrow> string \<Rightarrow> McpConnectorInput \<Rightarrow> (string \<times> string list \<times> string) result" where
  "launch_target net transport inp =
     (if transport = ''stdio'' then
        let command = trim_space (mi_command inp) in
        if command = [] then Inl (ErrText ''name and command are required'')
        else Inr (command, trimNonEmpty (mi_args inp), [])
      else rbind (validateMCPHTTPURL net (mi_raw_url inp)) (\<lambda>url. Inr ([], [], url)))"

definition clean_connector :: "net_pkg \<Rightarrow> time \<Rightarrow> string \<Rightarrow> McpConnectorInput \<Rightarrow> McpConnectorRecord result" where
  "clean_connector net now uuid inp =
     (let name = trim_space (mi_name inp); transport0 = trim_space (mi_transport inp);
          transport = (if transport0 = [] then ''stdio'' else transport0) in
      if name = [] then Inl (ErrText ''name is required'')
      else if transport \<noteq> ''stdio'' \<and> transport \<noteq> ''streamable_http'' then
        Inl (ErrText ''transport must be stdio or streamable_http'')
      else rbind (cleanEnvNames (mi_env inp)) (\<lambda>refs.
           rbind (cleanHeaderRefs (mi_headers inp)) (\<lambda>(headers, encoded).
           rbind (launch_target net transport inp) (\<lambda>(command, args, url).
             Inr \<lparr>con_id = ''mcp_'' @ uuid, con_name = name, con_transport = transport, con_command = command, con_args = args,
                  con_env = refs, con_url = url, con_headers = encoded, con_open = mi_open inp, con_created = now\<rparr>))))"

text \<open>The headers of the answer are the cleaned ones themselves; the other fields are those of the record.\<close>

definition app_CreateMcpConnector :: "'w catalog_ops \<Rightarrow> net_pkg \<Rightarrow> 'w \<Rightarrow> time \<Rightarrow> string \<Rightarrow> string \<Rightarrow> McpConnectorInput
    \<Rightarrow> McpConnector result \<times> 'w" where
  "app_CreateMcpConnector repo net w now uuid tenantID inp =
     (case clean_connector net now uuid inp of
        Inl e \<Rightarrow> (Inl e, w)
      | Inr rec \<Rightarrow>
          (case rCreateMcpConnector repo w tenantID rec of
             (Inl e, w') \<Rightarrow> (Inl e, w')
           | (Inr _, w') \<Rightarrow>
               (Inr \<lparr>ac_id = con_id rec, ac_name = con_name rec, ac_transport = con_transport rec, ac_command = con_command rec,
                     ac_args = con_args rec, ac_env = con_env rec, ac_url = con_url rec,
                     ac_headers = (case cleanHeaderRefs (mi_headers inp) of Inl e \<Rightarrow> [] | Inr (headers, _) \<Rightarrow> headers),
                     ac_open = con_open rec, ac_created = stamp now\<rparr>, w')))"

section \<open>Skills\<close>

record Skill =
  as_id :: string
  as_handle :: string
  as_slug :: string
  as_name :: string
  as_description :: string
  as_description_en :: string
  as_category :: string
  as_category_name :: string
  as_tags :: "string list"
  as_license :: string
  as_icon :: string
  as_source_url :: string
  as_downloads :: int
  as_visits :: int
  as_likes :: int
  as_updated :: string
  as_source :: string

definition skillFrom :: "SkillRecord \<Rightarrow> Skill" where
  "skillFrom rec =
     \<lparr>as_id = sk_id rec, as_handle = sk_handle rec, as_slug = sk_slug rec, as_name = sk_name rec,
      as_description = sk_description rec, as_description_en = sk_description_en rec, as_category = sk_category rec,
      as_category_name = sk_category_name rec, as_tags = sk_tags rec, as_license = sk_license rec, as_icon = sk_icon rec,
      as_source_url = sk_source_url rec, as_downloads = sk_downloads rec, as_visits = sk_visits rec, as_likes = sk_likes rec,
      as_updated = stamp (sk_updated rec), as_source = sk_source rec\<rparr>"

record SkillList =
  sl_items :: "Skill list"
  sl_total :: nat
  sl_page :: int
  sl_size :: int
  sl_installed :: string

definition app_ListSkills :: "'w catalog_ops \<Rightarrow> 'w \<Rightarrow> string \<Rightarrow> SkillCatalogQuery \<Rightarrow> SkillList result" where
  "app_ListSkills repo w tenantID q =
     rbind (rListSkillCatalog repo w tenantID q) (\<lambda>(page, installed).
       Inr \<lparr>sl_items = map skillFrom (pg_items page), sl_total = pg_total page, sl_page = pg_page page, sl_size = pg_size page,
            sl_installed = (if installed = 0 then [] else stamp installed)\<rparr>)"

definition app_GetSkill :: "'w catalog_ops \<Rightarrow> 'w \<Rightarrow> string \<Rightarrow> string \<Rightarrow> string \<Rightarrow> Skill result" where
  "app_GetSkill repo w tenantID handle slug =
     (case SkillPathID handle slug of
        None \<Rightarrow> Inl ErrNotFound
      | Some i \<Rightarrow> rbind (rGetSkill repo w tenantID i) (\<lambda>rec. Inr (skillFrom rec)))"

text \<open>The library on disk, when one is configured: its files of a skill, or an error.\<close>

type_synonym skill_library = "(string \<Rightarrow> SkillFile list result) option"

definition skillFiles :: "'w catalog_ops \<Rightarrow> skill_library \<Rightarrow> 'w \<Rightarrow> string \<Rightarrow> string \<Rightarrow> (SkillFile list \<times> bool) result" where
  "skillFiles repo lib w tenantID skillID =
     (case lib of
        None \<Rightarrow> rGetSkillTextFiles repo w tenantID skillID
      | Some files \<Rightarrow>
          (case files skillID of
             Inr found \<Rightarrow> Inr (found, True)
           | Inl e \<Rightarrow>
               if e = ErrTooLarge then Inr ([], False)
               else if e \<noteq> ErrNotFound then Inl e
               else rGetSkillTextFiles repo w tenantID skillID))"

definition app_SkillTextFiles :: "'w catalog_ops \<Rightarrow> skill_library \<Rightarrow> 'w \<Rightarrow> string \<Rightarrow> string \<Rightarrow> string
    \<Rightarrow> SkillFile list result" where
  "app_SkillTextFiles repo lib w tenantID handle slug =
     (case SkillPathID handle slug of
        None \<Rightarrow> Inl ErrNotFound
      | Some i \<Rightarrow> rbind (skillFiles repo lib w tenantID i) (\<lambda>(files, known). Inr (if known then files else [])))"

definition app_SkillIcon :: "'w catalog_ops \<Rightarrow> 'w \<Rightarrow> string \<Rightarrow> string \<Rightarrow> string \<Rightarrow> (string \<times> string) result" where
  "app_SkillIcon repo w tenantID handle slug =
     rbind (app_GetSkill repo w tenantID handle slug) (\<lambda>rec. rCatalogIcon repo w tenantID (as_icon rec))"

definition app_ListSkillCategories :: "'w catalog_ops \<Rightarrow> 'w \<Rightarrow> string \<Rightarrow> SkillCategoryRecord list result" where
  "app_ListSkillCategories repo w tenantID = rListSkillCategories repo w tenantID"

section \<open>Agents\<close>

record Agent =
  aa_record :: AgentRecord      \<comment> \<open>the fields that are the row's own\<close>
  aa_files :: "SkillFile list"
  aa_updated :: string

definition agentFrom :: "AgentRecord \<Rightarrow> bool \<Rightarrow> Agent" where
  "agentFrom rec withFiles =
     \<lparr>aa_record = rec, aa_files = (if withFiles \<and> ag_files_known rec then ag_files rec else []),
      aa_updated = stamp (ag_updated rec)\<rparr>"

definition app_ListAgents :: "'w catalog_ops \<Rightarrow> 'w \<Rightarrow> string \<Rightarrow> AgentCatalogQuery \<Rightarrow> Agent page result" where
  "app_ListAgents repo w tenantID q =
     rbind (rListAgentCatalog repo w tenantID q) (\<lambda>page.
       Inr \<lparr>pg_items = map (\<lambda>rec. agentFrom rec False) (pg_items page), pg_total = pg_total page, pg_page = pg_page page,
            pg_size = pg_size page\<rparr>)"

definition app_GetAgent :: "'w catalog_ops \<Rightarrow> 'w \<Rightarrow> string \<Rightarrow> string \<Rightarrow> string \<Rightarrow> Agent result" where
  "app_GetAgent repo w tenantID handle slug =
     (case SkillPathID handle slug of
        None \<Rightarrow> Inl ErrNotFound
      | Some i \<Rightarrow> rbind (rGetAgent repo w tenantID i) (\<lambda>rec. Inr (agentFrom rec True)))"

definition app_AgentIcon :: "'w catalog_ops \<Rightarrow> 'w \<Rightarrow> string \<Rightarrow> string \<Rightarrow> string \<Rightarrow> (string \<times> string) result" where
  "app_AgentIcon repo w tenantID handle slug =
     (case SkillPathID handle slug of
        None \<Rightarrow> Inl ErrNotFound
      | Some i \<Rightarrow> rbind (rGetAgent repo w tenantID i) (\<lambda>rec. rCatalogIcon repo w tenantID (ag_logo rec)))"

section \<open>The MCP market\<close>

record McpMarketServer =
  av_id :: string
  av_name :: string
  av_summary :: string
  av_author :: string
  av_category :: string
  av_category_name :: string
  av_category_more :: int
  av_calls :: int
  av_views :: int
  av_stars :: int
  av_verified :: bool
  av_hosted :: bool
  av_online :: bool
  av_source :: string

definition server_of :: "McpMarketRecord \<Rightarrow> McpMarketServer" where
  "server_of rec =
     \<lparr>av_id = mm_id rec, av_name = mm_name rec, av_summary = mm_summary rec, av_author = mm_author rec,
      av_category = mm_category rec, av_category_name = mm_category_name rec, av_category_more = mm_category_more rec,
      av_calls = mm_calls rec, av_views = mm_views rec, av_stars = mm_stars rec, av_verified = mm_verified rec,
      av_hosted = mm_hosted rec, av_online = mm_online rec, av_source = mm_source rec\<rparr>"

definition app_ListMcpMarket :: "'w catalog_ops \<Rightarrow> 'w \<Rightarrow> string \<Rightarrow> McpMarketQuery \<Rightarrow> (McpMarketServer page \<times> nat) result" where
  "app_ListMcpMarket repo w tenantID q =
     rbind (rListMcpMarket repo w tenantID q) (\<lambda>(page, stored).
       Inr (\<lparr>pg_items = map server_of (pg_items page), pg_total = pg_total page, pg_page = pg_page page,
             pg_size = pg_size page\<rparr>, stored))"

record AppMcpMarketDetail =
  ad_server :: McpMarketServer
  ad_license :: string
  ad_updated :: string
  ad_readme :: string
  ad_tools :: "McpMarketTool list"

definition app_GetMcpMarket :: "'w catalog_ops \<Rightarrow> 'w \<Rightarrow> string \<Rightarrow> string \<Rightarrow> AppMcpMarketDetail result" where
  "app_GetMcpMarket repo w tenantID i =
     rbind (rGetMcpMarket repo w tenantID i) (\<lambda>rec.
       Inr \<lparr>ad_server = server_of (mdt_server rec), ad_license = mdt_license rec, ad_updated = mdt_updated rec,
            ad_readme = mdt_readme rec, ad_tools = mdt_tools rec\<rparr>)"

definition app_McpMarketIcon :: "'w catalog_ops \<Rightarrow> 'w \<Rightarrow> string \<Rightarrow> string \<Rightarrow> (string \<times> string) result" where
  "app_McpMarketIcon repo w tenantID i =
     rbind (rGetMcpMarket repo w tenantID i) (\<lambda>rec. rCatalogIcon repo w tenantID (mm_icon (mdt_server rec)))"

definition app_ListMcpMarketCategories :: "'w catalog_ops \<Rightarrow> 'w \<Rightarrow> string \<Rightarrow> string \<Rightarrow> McpMarketCategoryCount list result" where
  "app_ListMcpMarketCategories repo w tenantID needsOnline = rListMcpMarketCategories repo w tenantID needsOnline"

section \<open>What was created is what is listed\<close>

lemma clean_headers_ok:
  "clean_headers seen items = Inr out \<Longrightarrow> h \<in> set out \<Longrightarrow> headerNamePattern (hr_name h) \<and> envNamePattern (hr_env h)"
proof (induction seen items arbitrary: out rule: clean_headers.induct)
  case (2 seen item items)
  then show ?case by (auto simp: Let_def rbind_Inr_iff split: if_splits)
qed simp

lemma header_no_colon: "headerNamePattern s \<Longrightarrow> CHR '':'' \<notin> set s"
proof -
  have "\<not> header_char (CHR '':'')" by code_simp
  then show "headerNamePattern s \<Longrightarrow> CHR '':'' \<notin> set s" by (auto simp: headerNamePattern_def list_all_iff)
qed

lemma decode_encode_headers:
  assumes "\<And>h. h \<in> set hs \<Longrightarrow> headerNamePattern (hr_name h) \<and> envNamePattern (hr_env h)"
  shows "decodeHeaderRefs (map encode_header hs) = hs"
  using assms
proof (induction hs)
  case (Cons h hs)
  have h: "headerNamePattern (hr_name h)" "envNamePattern (hr_env h)" using Cons.prems [of h] by simp_all
  have "cut_at (CHR '':'') (encode_header h) = (hr_name h, hr_env h, True)"
    using header_no_colon [OF h(1)] unfolding cut_at_def encode_header_def
    by (simp add: takeWhile_append dropWhile_append)
  then show ?case using Cons h by (simp add: headerNamePattern_def envNamePattern_def)
qed simp

lemma cleanEnvNames_ok: "cleanEnvNames items = Inr refs \<Longrightarrow> list_all envNamePattern refs"
  by (auto simp: cleanEnvNames_def rbind_Inr_iff split: if_splits)

lemma clean_connector_ok:
  assumes "clean_connector net now uuid inp = Inr rec"
  shows "con_id rec = ''mcp_'' @ uuid" "con_transport rec \<noteq> []" "con_created rec = now" "list_all envNamePattern (con_env rec)"
    "\<exists>headers. cleanHeaderRefs (mi_headers inp) = Inr (headers, con_headers rec)"
  using assms cleanEnvNames_ok
  by (auto simp: clean_connector_def Let_def rbind_Inr_iff split: if_splits prod.splits)

lemma created_connector:
  assumes "app_CreateMcpConnector repo net w now uuid tenantID inp = (Inr c, w')"
  obtains rec where "clean_connector net now uuid inp = Inr rec" "rCreateMcpConnector repo w tenantID rec = (Inr (), w')"
    "c = connectorFromRecord rec" "list_all envNamePattern (ac_env c)"
    "\<And>h. h \<in> set (ac_headers c) \<Longrightarrow> headerNamePattern (hr_name h) \<and> envNamePattern (hr_env h)"
proof -
  obtain rec where rec: "clean_connector net now uuid inp = Inr rec" "rCreateMcpConnector repo w tenantID rec = (Inr (), w')"
    using assms by (auto simp: app_CreateMcpConnector_def split: sum.splits prod.splits)
  obtain headers where hs: "cleanHeaderRefs (mi_headers inp) = Inr (headers, con_headers rec)"
    using clean_connector_ok(5) [OF rec(1)] by blast
  then have enc: "con_headers rec = map encode_header headers" "clean_headers [] (mi_headers inp) = Inr headers"
    by (auto simp: cleanHeaderRefs_def rbind_Inr_iff)
  have ok: "\<And>h. h \<in> set headers \<Longrightarrow> headerNamePattern (hr_name h) \<and> envNamePattern (hr_env h)"
    by (rule clean_headers_ok [OF enc(2)])
  have "decodeHeaderRefs (con_headers rec) = headers" unfolding enc(1) by (rule decode_encode_headers [OF ok])
  moreover have c: "ac_headers c = headers" "ac_env c = con_env rec"
    using assms rec hs by (auto simp: app_CreateMcpConnector_def)
  ultimately have "c = connectorFromRecord rec"
    using assms rec clean_connector_ok(2,3) [OF rec(1)]
    by (auto simp: app_CreateMcpConnector_def connectorFromRecord_def hs)
  then show thesis using that [OF rec] ok c clean_connector_ok(4) [OF rec(1)] by simp
qed

lemma set_sort_Slice [simp]: "set (sort_Slice lt xs) = set xs"
  by (metis mset_sort_Slice set_mset_mset)

text \<open>
  A connector that was created is listed as it was answered, after a trip through the stored form of
  its headers; it holds names of variables and never a value, and no other tenant sees it.
\<close>

theorem created_connector_is_listed:
  assumes "app_CreateMcpConnector (mem_catalog f) net s now uuid tenantID inp = (Inr c, s')" "tenantID \<noteq> []"
  shows "(\<exists>cs. app_ListMcpConnectors (mem_catalog f) s' tenantID = Inr cs \<and> c \<in> set cs) \<and>
    list_all envNamePattern (ac_env c) \<and> list_all (\<lambda>h. headerNamePattern (hr_name h) \<and> envNamePattern (hr_env h)) (ac_headers c) \<and>
    (\<forall>other. other \<noteq> tenantID \<longrightarrow>
       app_ListMcpConnectors (mem_catalog f) s' other = app_ListMcpConnectors (mem_catalog f) s other)"
proof -
  obtain rec where rec: "clean_connector net now uuid inp = Inr rec" "rCreateMcpConnector (mem_catalog f) s tenantID rec = (Inr (), s')"
    "c = connectorFromRecord rec" "list_all envNamePattern (ac_env c)"
    "\<And>h. h \<in> set (ac_headers c) \<Longrightarrow> headerNamePattern (hr_name h) \<and> envNamePattern (hr_env h)"
    using created_connector [OF assms(1)] by metis
  have new: "\<not> has_key (ms_connectors s) (con_id rec)"
    "s' = s\<lparr>ms_connectors := AList.update (con_id rec) (tenantID, rec) (ms_connectors s)\<rparr>"
    using rec(2) clean_connector_ok(2) [OF rec(1)]
    by (auto simp: mem_catalog_def mem_CreateMcpConnector_def Let_def split: if_splits)
  have absent: "AList.update k v m = m @ [(k, v)]" if "\<not> has_key m k" for k v and m :: "(string, string \<times> McpConnectorRecord) gomap"
    using that by (induction m) (auto simp: has_key_def split: if_splits)
  have rows: "rows_of t (ms_connectors s') = rows_of t (ms_connectors s) @ (if t = tenantID then [rec] else [])" for t
    using new by (simp add: absent rows_of_def)
  show ?thesis using rec(3-5) assms(2) rows
    by (auto simp: app_ListMcpConnectors_def mem_catalog_def mem_ListMcpConnectors_def list_all_iff)
qed

definition sample_connector :: McpConnectorInput where
  "sample_connector =
     \<lparr>mi_name = ''files'', mi_transport = [], mi_command = ''mcp-files'', mi_args = [''--ro''], mi_env = [''TOKEN''],
      mi_raw_url = [], mi_headers = [\<lparr>hr_name = ''X-Key'', hr_env = ''KEY''\<rparr>], mi_open = True\<rparr>"

definition no_net :: net_pkg where
  "no_net = \<lparr>url_Parse = (\<lambda>s. None), ParseIP = (\<lambda>s. None), unicode_lower = (\<lambda>r. r)\<rparr>"

theorem created_connector_is_listed_witness:
  "\<exists>c s' cs. app_CreateMcpConnector (mem_catalog (\<lambda>r. r)) no_net mem_New 7 ''1'' ''t1'' sample_connector = (Inr c, s') \<and>
     app_ListMcpConnectors (mem_catalog (\<lambda>r. r)) s' ''t1'' = Inr cs \<and> c \<in> set cs"
proof -
  have trim: "trim_space ''files'' = ''files''" "trim_space ''mcp-files'' = ''mcp-files''" "trim_space ''--ro'' = ''--ro''"
    "trim_space ''TOKEN'' = ''TOKEN''" "trim_space ''X-Key'' = ''X-Key''" "trim_space ''KEY'' = ''KEY''"
    by (rule trim_space_graphic; simp add: graphic_def byte_in_def)+
  have "envNamePattern ''TOKEN''" "envNamePattern ''KEY''" "headerNamePattern ''X-Key''" by code_simp+
  then have "\<not> isl (clean_connector no_net 7 ''1'' sample_connector)"
    by (simp add: clean_connector_def sample_connector_def launch_target_def trimNonEmpty_def cleanEnvNames_def cleanNames_def
        cleanHeaderRefs_def trim Let_def)
  then obtain rec where rec: "clean_connector no_net 7 ''1'' sample_connector = Inr rec"
    by (cases "clean_connector no_net 7 ''1'' sample_connector") auto
  then obtain c s' where c: "app_CreateMcpConnector (mem_catalog (\<lambda>r. r)) no_net mem_New 7 ''1'' ''t1'' sample_connector = (Inr c, s')"
    using clean_connector_ok(1) [OF rec]
    by (simp add: app_CreateMcpConnector_def mem_catalog_def mem_CreateMcpConnector_def mem_New_def Let_def)
  show ?thesis using created_connector_is_listed [OF c] c by auto
qed

end
