(* ===== verification/Bundle.thy ===== *)
theory Bundle
  imports App_Catalog Task_Types
begin

text \<open>
  The agent bundle of \<open>internal/app/bundle.go\<close>: the files an expert version is made of. A form is
  rendered into files, and what the worker reads is derived from the files. The text form of a JSON
  document is a parameter (\<open>bundle_pkg\<close>): \<open>json_parse\<close> gives a document with the members of an
  object as they were written, repeated ones included, and \<open>json_print\<close> the indented text of a
  document with the members as they are listed. SHA-256, \<open>strings.EqualFold\<close> and the quoting of \<open>%q\<close>
  are parameters too.
\<close>

type_synonym bundleFiles = "(string, string) gomap"

record bundle_pkg =
  json_parse :: "string \<Rightarrow> goval option"
  json_print :: "goval \<Rightarrow> string"
  sha256_hex :: "string \<Rightarrow> string"
  equal_fold :: "string \<Rightarrow> string \<Rightarrow> bool"
  go_quote :: "string \<Rightarrow> string"

definition bundleSchema :: string where "bundleSchema = ''orbit.agent/v1''"
definition fileAgents :: string where "fileAgents = ''AGENTS.md''"
definition fileSoul :: string where "fileSoul = ''SOUL.md''"
definition fileSkills :: string where "fileSkills = ''skills.json''"
definition fileMCP :: string where "fileMCP = ''mcp.json''"
definition fileAgent :: string where "fileAgent = ''agent.json''"
definition skillsDir :: string where "skillsDir = ''skills/''"
definition skillFile :: string where "skillFile = ''SKILL.md''"
definition maxBundleFiles :: nat where "maxBundleFiles = 512"
definition maxBundleFileBytes :: nat where "maxBundleFileBytes = 262144"
definition maxBundleBytes :: nat where "maxBundleBytes = 4194304"
definition maxBundlePathBytes :: nat where "maxBundlePathBytes = 300"

definition newline :: string where "newline = [byte 10]"

definition orDefault :: "string \<Rightarrow> string \<Rightarrow> string" where
  "orDefault value fallback = (if value \<noteq> [] then value else fallback)"

section \<open>Files and paths\<close>

definition sortedPaths :: "bundleFiles \<Rightarrow> string list" where
  "sortedPaths b = sort (map fst b)"

definition file_text :: "bundleFiles \<Rightarrow> string \<Rightarrow> string" where
  "file_text b p = get_or [] b p"

definition profileFiles :: "bundle_pkg \<Rightarrow> bundleFiles \<Rightarrow> ProfileFile list" where
  "profileFiles J b =
     map (\<lambda>p. \<lparr>pf_path = p, pf_content = file_text b p, pf_sha256 = sha256_hex J (file_text b p)\<rparr>) (sortedPaths b)"

definition bundleFromProfileFiles :: "ProfileFile list \<Rightarrow> bundleFiles" where
  "bundleFromProfileFiles files = fold (\<lambda>f out. AList.update (pf_path f) (pf_content f) out) files []"

definition bundleSHA :: "bundle_pkg \<Rightarrow> bundleFiles \<Rightarrow> string" where
  "bundleSHA J b =
     sha256_hex J (concat (map (\<lambda>p. p @ [byte 0] @ sha256_hex J (file_text b p) @ newline) (sortedPaths b)))"

text \<open>\<open>path.Clean\<close>: the segments without \<open>.\<close>, with each \<open>..\<close> taking away the one before it.\<close>

fun clean_segments :: "bool \<Rightarrow> string list \<Rightarrow> string list \<Rightarrow> string list" where
  "clean_segments rooted out [] = rev out"
| "clean_segments rooted out (s # ss) =
     (if s = [] \<or> s = ''.'' then clean_segments rooted out ss
      else if s = ''..'' then
        (case out of
           [] \<Rightarrow> clean_segments rooted (if rooted then [] else [''..'']) ss
         | o1 # os \<Rightarrow> if o1 = ''..'' then clean_segments rooted (''..'' # out) ss else clean_segments rooted os ss)
      else clean_segments rooted (s # out) ss)"

fun join_slash :: "string list \<Rightarrow> string" where
  "join_slash [] = []"
| "join_slash [s] = s"
| "join_slash (s # ss) = s @ CHR ''/'' # join_slash ss"

definition path_Clean :: "string \<Rightarrow> string" where
  "path_Clean p =
     (let rooted = has_prefix p ''/''; body = join_slash (clean_segments rooted [] (split_at (CHR ''/'') p))
      in if rooted then CHR ''/'' # body else if body = [] then ''.'' else body)"

definition pathProblem :: "string \<Rightarrow> string" where
  "pathProblem p =
     (if p = [] then ''the path is empty''
      else if length p > maxBundlePathBytes then ''the path is too long''
      else if has_prefix p ''/'' then ''the path is absolute''
      else if byte 92 \<in> set p then ''the path has a backslash''
      else if \<not> valid_utf8 p \<or> list_ex (\<lambda>r. r < 32 \<or> r = 127) (runes p) then ''the path has a control character''
      else if path_Clean p \<noteq> p then ''the path is not normalized''
      else if list_ex (\<lambda>s. s = ''..'' \<or> s = ''.'' \<or> s = []) (split_at (CHR ''/'') p) then ''the path leaves its directory''
      else [])"

definition textProblem :: "string \<Rightarrow> string" where
  "textProblem content = (if \<not> valid_utf8 content \<or> byte 0 \<in> set content then ''the file is not UTF-8 text'' else [])"

definition file_problem :: "bundleFiles \<Rightarrow> string \<Rightarrow> err option" where
  "file_problem b p =
     (let field = ''files['' @ p @ '']'' in
      if pathProblem p \<noteq> [] then Some (FieldError ''BUNDLE_PATH_INVALID'' field (pathProblem p))
      else if textProblem (file_text b p) \<noteq> [] then
        Some (FieldError ''BUNDLE_FILE_NOT_TEXT'' field (textProblem (file_text b p)))
      else if length (file_text b p) > maxBundleFileBytes then
        Some (FieldError ''BUNDLE_FILE_TOO_LARGE'' field (''a file is at most '' @ itoa maxBundleFileBytes @ '' bytes''))
      else None)"

definition bundle_validate :: "bundleFiles \<Rightarrow> err option" where
  "bundle_validate b =
     (if length b > maxBundleFiles then
        Some (FieldError ''BUNDLE_TOO_MANY_FILES'' ''files'' (''a bundle has at most '' @ itoa maxBundleFiles @ '' files''))
      else case first_error (file_problem b) (sortedPaths b) of
        Some e \<Rightarrow> Some e
      | None \<Rightarrow>
          if sum_list (map (\<lambda>p. length (file_text b p)) (sortedPaths b)) > maxBundleBytes then
            Some (FieldError ''BUNDLE_TOO_LARGE'' ''files'' (''a bundle is at most '' @ itoa maxBundleBytes @ '' bytes''))
          else None)"

section \<open>Decoding documents\<close>

text \<open>
  A value decoded into \<open>any\<close>: of a repeated member the last one counts. A string field of a struct
  takes its members in turn, and null leaves it; another kind of value is an error of the decoding.
\<close>

fun dec_any :: "goval \<Rightarrow> goval" where
  "dec_any (Obj kvs) = Obj (fold (\<lambda>(k, v) m. AList.update k v m) (map (\<lambda>(k, v). (k, dec_any v)) kvs) [])"
| "dec_any (Arr vs) = Arr (map dec_any vs)"
| "dec_any v = v"

definition dec_obj :: "obj \<Rightarrow> obj" where
  "dec_obj kvs = fold (\<lambda>(k, v) m. AList.update k v m) (map (\<lambda>(k, v). (k, dec_any v)) kvs) []"

fun struct_text :: "string \<Rightarrow> string \<Rightarrow> obj \<Rightarrow> string option" where
  "struct_text key t [] = Some t"
| "struct_text key t ((k, v) # kvs) =
     (if k \<noteq> key then struct_text key t kvs
      else case v of
        Str s \<Rightarrow> struct_text key s kvs
      | Null \<Rightarrow> struct_text key t kvs
      | _ \<Rightarrow> None)"

text \<open>A member whose name is no field of the struct counts as the field it equals under case folding.\<close>

definition field_key :: "bundle_pkg \<Rightarrow> string list \<Rightarrow> string \<Rightarrow> string" where
  "field_key J known_keys k =
     (if k \<in> set known_keys then k else case find (equal_fold J k) known_keys of Some field \<Rightarrow> field | None \<Rightarrow> k)"

definition bind_keys :: "bundle_pkg \<Rightarrow> string list \<Rightarrow> obj \<Rightarrow> obj" where
  "bind_keys J known_keys kvs = map (\<lambda>(k, v). (field_key J known_keys k, v)) kvs"

definition doc_text :: "bundle_pkg \<Rightarrow> string list \<Rightarrow> string \<Rightarrow> goval \<Rightarrow> string option" where
  "doc_text J known_keys key doc =
     (case doc of
        Obj kvs \<Rightarrow> struct_text key [] (bind_keys J known_keys kvs)
      | Null \<Rightarrow> Some []
      | _ \<Rightarrow> None)"

definition last_member :: "obj \<Rightarrow> string \<Rightarrow> goval option" where
  "last_member kvs key = map_of (rev kvs) key"

fun all_some :: "'a option list \<Rightarrow> 'a list option" where
  "all_some [] = Some []"
| "all_some (None # xs) = None"
| "all_some (Some x # xs) = map_option ((#) x) (all_some xs)"

section \<open>skills.json\<close>

record skillEntry =
  se_name :: string
  se_source :: string
  se_id :: string

definition entry_fields :: "string list" where
  "entry_fields = [''name'', ''source'', ''id'']"

definition decode_entry :: "bundle_pkg \<Rightarrow> goval \<Rightarrow> skillEntry option" where
  "decode_entry J v =
     (case (doc_text J entry_fields ''name'' v, doc_text J entry_fields ''source'' v, doc_text J entry_fields ''id'' v) of
        (Some n, Some s, Some i) \<Rightarrow> Some \<lparr>se_name = n, se_source = s, se_id = i\<rparr>
      | _ \<Rightarrow> None)"

definition decode_skills :: "bundle_pkg \<Rightarrow> goval \<Rightarrow> skillEntry list option" where
  "decode_skills J doc =
     (case doc of
        Null \<Rightarrow> Some []
      | Obj kvs \<Rightarrow>
          (case last_member (bind_keys J [''skills''] kvs) ''skills'' of
             None \<Rightarrow> Some []
           | Some Null \<Rightarrow> Some []
           | Some (Arr vs) \<Rightarrow> all_some (map (decode_entry J) vs)
           | _ \<Rightarrow> None)
      | _ \<Rightarrow> None)"

definition skills_bad :: "string \<Rightarrow> err" where
  "skills_bad reason = FieldError ''SKILLS_JSON_INVALID'' fileSkills reason"

fun check_entries :: "nat \<Rightarrow> string list \<Rightarrow> string list \<Rightarrow> skillEntry list \<Rightarrow> err option" where
  "check_entries i names ids [] = None"
| "check_entries i names ids (entry # entries) =
     (let at_i = ''skills['' @ itoa i @ '']'' in
      if trim_space (se_name entry) = [] then Some (skills_bad (at_i @ '' has no name''))
      else if se_source entry \<noteq> ''bundle'' \<and> se_source entry \<noteq> ''catalog'' then
        Some (skills_bad (at_i @ '': source is bundle or catalog''))
      else if se_source entry = ''catalog'' \<and> se_id entry = [] then
        Some (skills_bad (at_i @ '': a catalog skill needs an id''))
      else if se_name entry \<in> set names then Some (skills_bad (at_i @ '': a skill name is listed twice''))
      else if se_source entry = ''catalog'' \<and> se_id entry \<in> set ids then
        Some (skills_bad (at_i @ '': a catalog skill is listed twice''))
      else check_entries (Suc i) (se_name entry # names)
             (if se_source entry = ''catalog'' then se_id entry # ids else ids) entries)"

definition parseSkillsJSON :: "bundle_pkg \<Rightarrow> string \<Rightarrow> skillEntry list result" where
  "parseSkillsJSON J content =
     (case Option.bind (json_parse J content) (decode_skills J) of
        None \<Rightarrow> Inl (skills_bad ''skills.json is not {\"skills\":[{name, source, id}]}'')
      | Some entries \<Rightarrow>
          (case check_entries 0 [] [] entries of Some e \<Rightarrow> Inl e | None \<Rightarrow> Inr entries))"

definition entry_value :: "skillEntry \<Rightarrow> goval" where
  "entry_value e =
     Obj ([(''name'', Str (se_name e)), (''source'', Str (se_source e))] @
          (if se_id e \<noteq> [] then [(''id'', Str (se_id e))] else []))"

definition renderSkillsJSON :: "bundle_pkg \<Rightarrow> skillEntry list \<Rightarrow> string" where
  "renderSkillsJSON J entries = json_print J (Obj [(''skills'', Arr (map entry_value entries))]) @ newline"

definition skill_dir_name :: "string \<Rightarrow> string option" where
  "skill_dir_name p =
     (if has_prefix p skillsDir then
        (case cut_at (CHR ''/'') (drop (length skillsDir) p) of
           (name, file, found) \<Rightarrow> if found \<and> file = skillFile then Some name else None)
      else None)"

definition bundleSkillNames :: "bundleFiles \<Rightarrow> string list" where
  "bundleSkillNames b = List.map_filter skill_dir_name (sortedPaths b)"

end
