(* ===== verification/Bundle_Mcp.thy ===== *)
theory Bundle_Mcp
  imports Bundle
begin

text \<open>
  The mcp.json of a bundle (\<open>internal/app/bundle.go\<close>): its entries, the search for literal credentials
  in them, and their removal. The regular expressions are functions on bytes or, where one ignores
  case, on code points: folding then also takes the long s (U+017F) for s and the Kelvin sign (U+212A) for k.
\<close>

record mcpServer =
  sv_name :: string
  sv_obj :: obj

record MCPUnbound =
  ub_name :: string
  ub_reason :: string

definition server_str :: "mcpServer \<Rightarrow> string \<Rightarrow> string" where
  "server_str s key = str_or_empty (sv_obj s) key"

definition connectorID :: "mcpServer \<Rightarrow> string" where
  "connectorID s = server_str s ''connector_id''"

definition unboundReason :: "mcpServer \<Rightarrow> string" where
  "unboundReason s =
     (if server_str s ''command'' \<noteq> [] then ''stdio servers are not supported; add the server as a connector''
      else ''not bound to a connector of this tenant'')"

section \<open>Reading the file\<close>

definition is_str :: "goval \<Rightarrow> bool" where
  "is_str v = (case v of Str s \<Rightarrow> True | _ \<Rightarrow> False)"

definition server_bad :: "mcpServer \<Rightarrow> string \<Rightarrow> err" where
  "server_bad s reason = FieldError ''MCP_JSON_INVALID'' (''mcp.json mcpServers.'' @ sv_name s) reason"

definition text_problem :: "mcpServer \<Rightarrow> string \<Rightarrow> err option" where
  "text_problem s key =
     (case map_of (sv_obj s) key of
        None \<Rightarrow> None
      | Some v \<Rightarrow> if is_str v then None else Some (server_bad s (key @ '' must be a string'')))"

definition table_problem :: "mcpServer \<Rightarrow> string \<Rightarrow> err option" where
  "table_problem s key =
     (case map_of (sv_obj s) key of
        None \<Rightarrow> None
      | Some (Obj kvs) \<Rightarrow>
          if list_all (\<lambda>(k, v). is_str v) kvs then None else Some (server_bad s (key @ '' must be an object of strings''))
      | Some _ \<Rightarrow> Some (server_bad s (key @ '' must be an object of strings'')))"

definition args_problem :: "mcpServer \<Rightarrow> err option" where
  "args_problem s =
     (case map_of (sv_obj s) ''args'' of
        None \<Rightarrow> None
      | Some (Arr vs) \<Rightarrow> if list_all is_str vs then None else Some (server_bad s ''args must be a list of strings'')
      | Some _ \<Rightarrow> Some (server_bad s ''args must be a list of strings''))"

definition server_check :: "mcpServer \<Rightarrow> err option" where
  "server_check s =
     (case first_error (text_problem s) [''url'', ''transport'', ''command'', ''connector_id''] of
        Some e \<Rightarrow> Some e
      | None \<Rightarrow>
          if server_str s ''url'' = [] \<and> server_str s ''command'' = [] then
            Some (server_bad s ''a server needs a url or a command'')
          else if server_str s ''transport'' \<notin> {[], ''streamable_http'', ''sse'', ''stdio''} then
            Some (server_bad s ''transport is streamable_http or sse'')
          else
            (case first_error (table_problem s) [''headers'', ''env''] of
               Some e \<Rightarrow> Some e
             | None \<Rightarrow> args_problem s))"

definition mcp_bad :: "string \<Rightarrow> err" where
  "mcp_bad reason = FieldError ''MCP_JSON_INVALID'' fileMCP reason"

fun read_servers :: "string list \<Rightarrow> obj \<Rightarrow> mcpServer list result" where
  "read_servers seen [] = Inr []"
| "read_servers seen ((name, v) # kvs) =
     (case v of
        Obj members \<Rightarrow>
          if name = [] \<or> name \<in> set seen then Inl (mcp_bad ''a server needs a unique name'')
          else let server = \<lparr>sv_name = name, sv_obj = dec_obj members\<rparr> in
            (case server_check server of
               Some e \<Rightarrow> Inl e
             | None \<Rightarrow> rbind (read_servers (name # seen) kvs) (\<lambda>servers. Inr (server # servers)))
      | _ \<Rightarrow> Inl (mcp_bad (''mcpServers.'' @ name @ '' must be an object'')))"

definition read_mcp :: "bundle_pkg \<Rightarrow> goval option \<Rightarrow> mcpServer list result" where
  "read_mcp J doc =
     (case doc of
        Some (Obj kvs) \<Rightarrow>
          (case last_member (bind_keys J [''mcpServers''] kvs) ''mcpServers'' of
             None \<Rightarrow> Inr []
           | Some Null \<Rightarrow> Inr []
           | Some (Obj servers) \<Rightarrow> read_servers [] servers
           | Some _ \<Rightarrow> Inl (mcp_bad ''mcpServers must be an object''))
      | Some Null \<Rightarrow> Inr []
      | _ \<Rightarrow> Inl (mcp_bad ''mcp.json is not {\"mcpServers\":{...}}''))"

definition parseMCPJSON :: "bundle_pkg \<Rightarrow> string \<Rightarrow> mcpServer list result" where
  "parseMCPJSON J content = read_mcp J (json_parse J content)"

definition renderMCPJSON :: "bundle_pkg \<Rightarrow> mcpServer list \<Rightarrow> string" where
  "renderMCPJSON J servers =
     json_print J (Obj [(''mcpServers'', Obj (map (\<lambda>s. (sv_name s, json_of (Obj (sv_obj s)))) servers))]) @ newline"

section \<open>Literal credentials\<close>

definition placeholder_len :: "string \<Rightarrow> nat" where
  "placeholder_len s =
     (let name = takeWhile (\<lambda>c. env_head c \<or> byte_in 48 57 c) (drop 9 s) in
      if has_prefix s ''${secret:'' \<and> name \<noteq> [] \<and> env_head (hd name) \<and> has_prefix (drop (9 + length name) s) ''}''
      then 10 + length name else 0)"

function strip_secrets :: "string \<Rightarrow> string" where
  "strip_secrets [] = []"
| "strip_secrets (c # s) =
     (if placeholder_len (c # s) = 0 then c # strip_secrets s
      else strip_secrets (drop (placeholder_len (c # s) - 1) s))"
  by pat_completeness auto
termination by (relation "measure length") auto

definition fold_case :: "nat \<Rightarrow> nat" where
  "fold_case r = (if 65 \<le> r \<and> r \<le> 90 then r + 32 else if r = 383 then 115 else if r = 8490 then 107 else r)"

definition fold_word :: "nat \<Rightarrow> bool" where
  "fold_word r \<longleftrightarrow> 48 \<le> r \<and> r \<le> 57 \<or> 97 \<le> fold_case r \<and> fold_case r \<le> 122"

definition codes :: "string \<Rightarrow> nat list" where
  "codes s = map of_char s"

definition starts_folded :: "nat list \<Rightarrow> string \<Rightarrow> bool" where
  "starts_folded rs w \<longleftrightarrow> map fold_case (take (length w) rs) = codes w"

fun has_folded :: "nat list \<Rightarrow> string \<Rightarrow> bool" where
  "has_folded [] w \<longleftrightarrow> w = []"
| "has_folded (r # rs) w \<longleftrightarrow> starts_folded (r # rs) w \<or> has_folded rs w"

definition token_marks :: "string list" where
  "token_marks = [''sk-'', ''ghp_'', ''gho_'', ''ghs_'', ''github_pat_'', ''xoxa-'', ''xoxb-'', ''xoxp-'', ''xoxr-'', ''xoxs-'',
     ''akia'', ''aiza'', ''glpat-'']"

definition token_here :: "nat list \<Rightarrow> bool" where
  "token_here rs \<longleftrightarrow>
     list_ex (\<lambda>w. starts_folded rs w \<and>
       8 \<le> length (takeWhile (\<lambda>r. fold_word r \<or> r = 95 \<or> r = 45) (drop (length w) rs))) token_marks"

fun tokenPrefix :: "bool \<Rightarrow> nat list \<Rightarrow> bool" where
  "tokenPrefix boundary [] \<longleftrightarrow> False"
| "tokenPrefix boundary (r # rs) \<longleftrightarrow> boundary \<and> token_here (r # rs) \<or> tokenPrefix (\<not> fold_word r) rs"

definition run_rune :: "nat \<Rightarrow> bool" where
  "run_rune r \<longleftrightarrow> 48 \<le> r \<and> r \<le> 57 \<or> 65 \<le> r \<and> r \<le> 90 \<or> 97 \<le> r \<and> r \<le> 122 \<or> r \<in> {95, 45, 43, 61}"

fun token_runs :: "nat list \<Rightarrow> nat list \<Rightarrow> nat list list" where
  "token_runs run [] = [run]"
| "token_runs run (r # rs) = (if run_rune r then token_runs (r # run) rs else run # token_runs [] rs)"

definition containsToken :: "string \<Rightarrow> bool" where
  "containsToken text \<longleftrightarrow>
     tokenPrefix True (runes text) \<or>
     list_ex (\<lambda>run. 32 \<le> length run \<and> list_ex (\<lambda>r. 48 \<le> r \<and> r \<le> 57) run \<and> list_ex (\<lambda>r. 65 \<le> r \<and> r \<le> 122) run)
       (token_runs [] (runes text))"

definition sensitive :: "string \<Rightarrow> bool" where
  "sensitive name \<longleftrightarrow>
     list_ex (has_folded (runes name))
       [''authorization'', ''token'', ''secret'', ''apikey'', ''api-key'', ''api_key'', ''password'', ''passwd'', ''cookie'']"

definition schemeWord :: "string \<Rightarrow> bool" where
  "schemeWord s \<longleftrightarrow>
     list_ex (\<lambda>w. starts_folded (runes s) w \<and> list_all (\<lambda>r. r \<in> {9, 10, 12, 13, 32}) (drop (length w) (runes s)))
       [''bearer'', ''basic'', ''token'']"

definition literalSecret :: "string \<Rightarrow> string \<Rightarrow> bool" where
  "literalSecret name value \<longleftrightarrow>
     (let rest = trim_space (strip_secrets value) in
      if rest = [] \<or> schemeWord rest then False
      else if sensitive name then True
      else containsToken rest)"

fun text_after :: "string \<Rightarrow> string \<Rightarrow> string option" where
  "text_after p [] = (if p = [] then Some [] else None)"
| "text_after p (c # s) = (if has_prefix (c # s) p then Some (drop (length p) (c # s)) else text_after p s)"

definition secret_url :: "string \<Rightarrow> bool" where
  "secret_url raw \<longleftrightarrow>
     (let rest = strip_secrets raw in
      case text_after ''://'' rest of
        None \<Rightarrow> False
      | Some tail \<Rightarrow>
          CHR ''@'' \<in> set (fst (cut_at (CHR ''/'') tail)) \<or>
          (case cut_at (CHR ''?'') rest of (_, query, found) \<Rightarrow> found \<and> containsToken query))"

definition str_of :: "goval \<Rightarrow> string" where
  "str_of v = (case v of Str s \<Rightarrow> s | _ \<Rightarrow> [])"

definition table_secrets :: "mcpServer \<Rightarrow> string \<Rightarrow> string list" where
  "table_secrets s key =
     (case obj_field (sv_obj s) key of
        None \<Rightarrow> []
      | Some kvs \<Rightarrow> map (\<lambda>(name, v). key @ ''.'' @ name) (filter (\<lambda>(name, v). literalSecret name (str_of v)) kvs))"

definition arg_secrets :: "mcpServer \<Rightarrow> string list" where
  "arg_secrets s =
     (case arr_field (sv_obj s) ''args'' of
        None \<Rightarrow> []
      | Some vs \<Rightarrow> map (\<lambda>(i, v). ''args['' @ itoa i @ '']'')
          (filter (\<lambda>(i, v). containsToken (strip_secrets (str_of v))) (List.enumerate 0 vs)))"

definition secretFields :: "mcpServer \<Rightarrow> string list" where
  "secretFields s =
     sort (table_secrets s ''headers'' @ table_secrets s ''env'' @ arg_secrets s @
       (if server_str s ''url'' \<noteq> [] \<and> secret_url (server_str s ''url'') then [''url''] else []))"

definition literal_secret :: "mcpServer \<Rightarrow> err option" where
  "literal_secret s =
     (case secretFields s of
        [] \<Rightarrow> None
      | field # _ \<Rightarrow> Some (FieldError ''MCP_LITERAL_SECRET'' (''mcp.json mcpServers.'' @ sv_name s)
          (field @ '' holds a literal credential; use a ${secret:NAME} placeholder'')))"

definition checkNoLiteralSecrets :: "mcpServer list \<Rightarrow> err option" where
  "checkNoLiteralSecrets servers = first_error literal_secret servers"

definition remove_field :: "obj \<Rightarrow> string \<Rightarrow> obj" where
  "remove_field m field =
     (if field = ''url'' then AList.delete ''url'' m
      else if has_prefix field ''args['' then AList.delete ''args'' m
      else case cut_at (CHR ''.'') field of (kind, name, _) \<Rightarrow>
        (case obj_field m kind of
           None \<Rightarrow> m
         | Some kvs \<Rightarrow> AList.update kind (Obj (AList.delete name kvs)) m))"

definition scrub :: "mcpServer \<Rightarrow> string list \<times> mcpServer" where
  "scrub s = (secretFields s, s\<lparr>sv_obj := fold (\<lambda>field m. remove_field m field) (secretFields s) (sv_obj s)\<rparr>)"

section \<open>A connector as an entry\<close>

definition secret_ref :: "string \<Rightarrow> goval" where
  "secret_ref name = Str (''${secret:'' @ name @ ''}'')"

definition connectorServer :: "string \<Rightarrow> McpConnectorRecord \<Rightarrow> mcpServer" where
  "connectorServer name rec =
     (let refs = decodeHeaderRefs (con_headers rec) in
      \<lparr>sv_name = name, sv_obj = (''connector_id'', Str (con_id rec)) #
        (if con_url rec \<noteq> [] then
           [(''url'', Str (con_url rec)),
            (''transport'', Str (if con_transport rec = [] \<or> con_transport rec = ''stdio'' then ''streamable_http'' else con_transport rec))] @
           (if refs \<noteq> [] then
              [(''headers'', Obj (fold (\<lambda>r m. AList.update (hr_name r) (secret_ref (hr_env r)) m) refs []))] else [])
         else
           [(''command'', Str (con_command rec))] @
           (if con_args rec \<noteq> [] then [(''args'', Arr (map Str (con_args rec)))] else []) @
           (if con_env rec \<noteq> [] then
              [(''env'', Obj (fold (\<lambda>r m. AList.update r (secret_ref r) m) (con_env rec) []))] else []))\<rparr>)"

end
