(* ===== verification/Bundle_Form.thy ===== *)
theory Bundle_Form
  imports Bundle_Mcp
begin

text \<open>
  The form an expert is written in, the files it is rendered into (\<open>renderBundle\<close>) and what the worker
  reads, derived from the files (\<open>deriveBundle\<close>): \<open>internal/app/bundle.go\<close>, with the input types of
  \<open>experts.go\<close>.
\<close>

record TeamMemberInput =
  tmi_role :: string
  tmi_expert :: string
  tmi_description :: string
  tmi_label :: string

record ExpertInput =
  xi_name :: string
  xi_instructions :: string
  xi_description :: string
  xi_soul :: string
  xi_model :: string
  xi_connectors :: "string list"
  xi_skills :: "string list"
  xi_source :: string
  xi_kind :: string
  xi_leader :: string
  xi_members :: "TeamMemberInput list"
  xi_own_description :: string            \<comment> \<open>the unexported \<open>description\<close>\<close>
  xi_base :: "bundleFiles option"

section \<open>What the worker reads\<close>

record derived =
  d_instructions :: string
  d_soul :: string
  d_catalog :: "string list"
  d_bundle :: "string list"
  d_connectors :: "string list"
  d_unbound :: "MCPUnbound list"

definition errAgentsRequired :: err where
  "errAgentsRequired = FieldError ''AGENTS_MD_REQUIRED'' ''instructions''
     ''an expert needs instructions: its AGENTS.md cannot be missing or empty''"

definition checkAgentJSON :: "bundle_pkg \<Rightarrow> string \<Rightarrow> err option" where
  "checkAgentJSON J content =
     (if content = [] then None
      else case Option.bind (json_parse J content) (doc_text J [''schema''] ''schema'') of
        Some schema \<Rightarrow> if schema = [] \<or> schema = bundleSchema then None
          else Some (FieldError ''AGENT_JSON_INVALID'' fileAgent
            (''agent.json is {\"schema\":\"'' @ bundleSchema @ ''\", name, description, model}''))
      | None \<Rightarrow> Some (FieldError ''AGENT_JSON_INVALID'' fileAgent
            (''agent.json is {\"schema\":\"'' @ bundleSchema @ ''\", name, description, model}'')))"

text \<open>Unreadable text, or a description that is not a string, has none.\<close>

definition bundleDescription :: "bundle_pkg \<Rightarrow> bundleFiles \<Rightarrow> string" where
  "bundleDescription J b =
     (case json_parse J (file_text b fileAgent) of
        Some (Obj kvs) \<Rightarrow>
          trim_space (case filter is_str (map snd (filter (\<lambda>(k, v). k = ''description'') (bind_keys J [''description''] kvs))) of [] \<Rightarrow> [] | vs \<Rightarrow> str_of (last vs))
      | _ \<Rightarrow> [])"

definition is_catalog :: "skillEntry \<Rightarrow> bool" where
  "is_catalog e \<longleftrightarrow> se_source e = ''catalog''"

definition catalog_ids :: "skillEntry list \<Rightarrow> string list" where
  "catalog_ids entries = map se_id (filter is_catalog entries)"

definition bundle_names :: "skillEntry list \<Rightarrow> string list" where
  "bundle_names entries = map se_name (filter (\<lambda>e. \<not> is_catalog e) entries)"

fun missing_skill :: "string list \<Rightarrow> nat \<Rightarrow> skillEntry list \<Rightarrow> err option" where
  "missing_skill dirs i [] = None"
| "missing_skill dirs i (e # es) =
     (if is_catalog e \<or> se_name e \<in> set dirs then missing_skill dirs (Suc i) es
      else Some (FieldError ''BUNDLE_SKILL_MISSING'' (''skills.json skills['' @ itoa i @ '']'')
        (''skills/'' @ se_name e @ ''/SKILL.md does not exist'')))"

definition derive_skills :: "bundle_pkg \<Rightarrow> bundleFiles \<Rightarrow> (string list \<times> string list) result" where
  "derive_skills J b =
     (let dirs = bundleSkillNames b in
      case map_of b fileSkills of
        None \<Rightarrow> Inr ([], dirs)
      | Some content \<Rightarrow>
          rbind (parseSkillsJSON J content) (\<lambda>entries.
            case missing_skill dirs 0 entries of
              Some e \<Rightarrow> Inl e
            | None \<Rightarrow> Inr (catalog_ids entries,
                bundle_names entries @ filter (\<lambda>n. n \<notin> set (bundle_names entries)) dirs)))"

definition bound_ids :: "mcpServer list \<Rightarrow> string list" where
  "bound_ids servers = filter (\<lambda>i. i \<noteq> []) (map connectorID servers)"

definition unbound_of :: "mcpServer list \<Rightarrow> MCPUnbound list" where
  "unbound_of servers = map (\<lambda>s. \<lparr>ub_name = sv_name s, ub_reason = unboundReason s\<rparr>) (filter (\<lambda>s. connectorID s = []) servers)"

definition derive_mcp :: "bundle_pkg \<Rightarrow> bundleFiles \<Rightarrow> (string list \<times> MCPUnbound list) result" where
  "derive_mcp J b =
     (case map_of b fileMCP of
        None \<Rightarrow> Inr ([], [])
      | Some content \<Rightarrow>
          rbind (parseMCPJSON J content) (\<lambda>servers.
            case checkNoLiteralSecrets servers of
              Some e \<Rightarrow> Inl e
            | None \<Rightarrow> Inr (bound_ids servers, unbound_of servers)))"

definition deriveBundle :: "bundle_pkg \<Rightarrow> bundleFiles \<Rightarrow> derived result" where
  "deriveBundle J b =
     (case bundle_validate b of
        Some e \<Rightarrow> Inl e
      | None \<Rightarrow>
          let instructions = trim_space (file_text b fileAgents) in
          if instructions = [] then Inl errAgentsRequired
          else case checkAgentJSON J (file_text b fileAgent) of
            Some e \<Rightarrow> Inl e
          | None \<Rightarrow>
              rbind (derive_skills J b) (\<lambda>(catalog, bundle).
              rbind (derive_mcp J b) (\<lambda>(connectors, unbound).
                Inr \<lparr>d_instructions = instructions, d_soul = trim_space (file_text b fileSoul), d_catalog = catalog,
                     d_bundle = bundle, d_connectors = connectors, d_unbound = unbound\<rparr>)))"

section \<open>Rendering the form\<close>

definition agent_doc :: "bundle_pkg \<Rightarrow> ExpertInput \<Rightarrow> bundleFiles \<Rightarrow> goval" where
  "agent_doc J inp base =
     (let description = (if xi_own_description inp \<noteq> [] then xi_own_description inp else bundleDescription J base)
      in json_of (Obj ([(''schema'', Str bundleSchema), (''name'', Str (xi_name inp))] @
           (if description \<noteq> [] then [(''description'', Str description)] else []) @
           (if xi_model inp \<noteq> [] then [(''model'', Str (xi_model inp))] else []))))"

definition put_or_delete :: "bool \<Rightarrow> string \<Rightarrow> string \<Rightarrow> bundleFiles \<Rightarrow> bundleFiles" where
  "put_or_delete put p content b = (if put then AList.update p content b else AList.delete p b)"

text \<open>Bundle entries stay where they were, catalog entries are the form's.\<close>

definition kept_entry :: "string list \<Rightarrow> string list \<Rightarrow> (string, string) gomap \<Rightarrow> skillEntry \<Rightarrow> skillEntry option" where
  "kept_entry dirs wanted skillNames e =
     (if se_source e = ''bundle'' \<and> se_name e \<in> set dirs then Some e
      else if is_catalog e \<and> se_id e \<in> set wanted then
        Some \<lparr>se_name = orDefault (get_or [] skillNames (se_id e)) (se_name e), se_source = ''catalog'', se_id = se_id e\<rparr>
      else None)"

definition previous_entries :: "bundle_pkg \<Rightarrow> bundleFiles \<Rightarrow> skillEntry list" where
  "previous_entries J base =
     (case parseSkillsJSON J (file_text base fileSkills) of Inl e \<Rightarrow> [] | Inr entries \<Rightarrow> entries)"

definition form_entries :: "bundle_pkg \<Rightarrow> ExpertInput \<Rightarrow> bundleFiles \<Rightarrow> string list \<Rightarrow> (string, string) gomap \<Rightarrow> skillEntry list" where
  "form_entries J inp base dirs skillNames =
     (let kept = List.map_filter (kept_entry dirs (xi_skills inp) skillNames) (previous_entries J base);
          have = set (catalog_ids kept)
      in kept @ map (\<lambda>i. \<lparr>se_name = orDefault (get_or [] skillNames i) i, se_source = ''catalog'', se_id = i\<rparr>)
                  (filter (\<lambda>i. i \<notin> have) (xi_skills inp)))"

definition previous_servers :: "bundle_pkg \<Rightarrow> bundleFiles \<Rightarrow> mcpServer list" where
  "previous_servers J base =
     (case parseMCPJSON J (file_text base fileMCP) of Inl e \<Rightarrow> [] | Inr servers \<Rightarrow> servers)"

text \<open>The first of \<open>stem\<close>, \<open>stem-2\<close>, \<open>stem-3\<close>, ... that is not taken; as many tries as names are enough.\<close>

fun fresh_name :: "nat \<Rightarrow> nat \<Rightarrow> string list \<Rightarrow> string \<Rightarrow> string \<Rightarrow> string" where
  "fresh_name 0 n taken stem name = name"
| "fresh_name (Suc tries) n taken stem name =
     (if name \<in> set taken then fresh_name tries (Suc n) taken stem (stem @ ''-'' @ itoa n) else name)"

fun bind_connectors :: "(string, string) gomap \<Rightarrow> (string, McpConnectorRecord) gomap \<Rightarrow> string list \<Rightarrow> string list
    \<Rightarrow> mcpServer list" where
  "bind_connectors prevNames connectors taken [] = []"
| "bind_connectors prevNames connectors taken (i # ids) =
     (case map_of connectors i of
        None \<Rightarrow> bind_connectors prevNames connectors taken ids
      | Some rec \<Rightarrow>
          let stem = orDefault (get_or [] prevNames i) (orDefault (con_name rec) i);
              name = fresh_name (Suc (length taken)) 2 taken stem stem
          in connectorServer name rec # bind_connectors prevNames connectors (name # taken) ids)"

definition previous_names :: "mcpServer list \<Rightarrow> (string, string) gomap" where
  "previous_names servers =
     fold (\<lambda>s m. if connectorID s \<noteq> [] then AList.update (connectorID s) (sv_name s) m else m) servers []"

definition form_servers :: "bundle_pkg \<Rightarrow> ExpertInput \<Rightarrow> bundleFiles \<Rightarrow> (string, McpConnectorRecord) gomap \<Rightarrow> mcpServer list" where
  "form_servers J inp base connectors =
     (let prev = previous_servers J base; unbound = filter (\<lambda>s. connectorID s = []) prev
      in bind_connectors (previous_names prev) connectors (map sv_name unbound) (xi_connectors inp) @ unbound)"

definition renderBundle :: "bundle_pkg \<Rightarrow> ExpertInput \<Rightarrow> bundleFiles \<Rightarrow> (string, McpConnectorRecord) gomap
    \<Rightarrow> (string, string) gomap \<Rightarrow> bundleFiles" where
  "renderBundle J inp base connectors skillNames =
     (let b1 = AList.update fileAgents (xi_instructions inp) base;
          b2 = put_or_delete (xi_soul inp \<noteq> []) fileSoul (xi_soul inp) b1;
          b3 = AList.update fileAgent (json_print J (agent_doc J inp base) @ newline) b2;
          entries = form_entries J inp base (bundleSkillNames b3) skillNames;
          b4 = put_or_delete (entries \<noteq> []) fileSkills (renderSkillsJSON J entries) b3;
          servers = form_servers J inp base connectors
      in put_or_delete (servers \<noteq> []) fileMCP (renderMCPJSON J servers) b4)"

end
