(* ===== verification/Experts.thy ===== *)
theory Experts
  imports Bundle_Form Service_Records
begin

text \<open>
  Experts and teams as the API reads them: \<open>internal/app/experts.go\<close> and the pure part of
  \<open>teams.go\<close> and \<open>task_config.go\<close>. An expert is a profile of kind expert, a team one of kind team;
  both are written by \<open>Expert_Write\<close>.
\<close>

definition expertKind :: string where "expertKind = ''expert''"
definition teamKind :: string where "teamKind = ''team''"
definition expertIDPrefix :: string where "expertIDPrefix = ''expert_''"
definition maxExpertName :: nat where "maxExpertName = 100"
definition maxExpertInstructions :: nat where "maxExpertInstructions = 20000"
definition maxExpertConnectors :: nat where "maxExpertConnectors = 20"
definition minTeamMembers :: nat where "minTeamMembers = 1"
definition maxTeamMembers :: nat where "maxTeamMembers = 8"
definition maxTeamDescription :: nat where "maxTeamDescription = 300"
definition maxTeamLabel :: nat where "maxTeamLabel = 40"
definition maxTaskConfigRefs :: nat where "maxTaskConfigRefs = 20"

definition rune_count :: "string \<Rightarrow> nat" where
  "rune_count s = length (runes s)"

definition lower_letter :: "char \<Rightarrow> bool" where
  "lower_letter c \<longleftrightarrow> byte_in 97 122 c"

definition teamRolePattern :: "string \<Rightarrow> bool" where
  "teamRolePattern s \<longleftrightarrow> s \<noteq> [] \<and> length s \<le> 32 \<and> lower_letter (hd s) \<and>
     list_all (\<lambda>c. lower_letter c \<or> byte_in 48 57 c \<or> c \<in> set ''_-'') (tl s)"

definition expertModelPattern :: "string \<Rightarrow> bool" where
  "expertModelPattern s \<longleftrightarrow> s \<noteq> [] \<and> length s \<le> 100 \<and> alnum (hd s) \<and>
     list_all (\<lambda>c. alnum c \<or> c \<in> set ''._:/-'') (tl s)"

definition ValidModelName :: "string \<Rightarrow> bool" where
  "ValidModelName s = expertModelPattern s"

definition versionedRef :: "string \<Rightarrow> bool" where
  "versionedRef s \<longleftrightarrow>
     (case cut_at (CHR ''@'') s of
        (a, v, found) \<Rightarrow> found \<and> a \<noteq> [] \<and> alnum (hd a) \<and> list_all id_char (tl a) \<and> version_number v)"

section \<open>Validation of a form\<close>

fun first_dup :: "nat \<Rightarrow> string list \<Rightarrow> string list \<Rightarrow> nat option" where
  "first_dup i seen [] = None"
| "first_dup i seen (x # xs) = (if x \<in> set seen then Some i else first_dup (Suc i) (x # seen) xs)"

definition checkRefList :: "string \<Rightarrow> string \<Rightarrow> string list \<Rightarrow> err option" where
  "checkRefList field code ids =
     (if length ids > maxTaskConfigRefs then
        Some (FieldError code field (''more than '' @ itoa maxTaskConfigRefs @ '' entries''))
      else case first_dup 0 [] ids of
        Some i \<Rightarrow> Some (FieldError code (field @ ''['' @ itoa i @ '']'') ''one entry is listed twice'')
      | None \<Rightarrow> None)"

definition not_allowed :: "string \<Rightarrow> string \<Rightarrow> err" where
  "not_allowed field reason = FieldError ''FIELD_NOT_ALLOWED'' field reason"

definition member_at :: "nat \<Rightarrow> string \<Rightarrow> string" where
  "member_at i name = ''members['' @ itoa i @ ''].'' @ name"

definition trim_member :: "TeamMemberInput \<Rightarrow> TeamMemberInput" where
  "trim_member m =
     \<lparr>tmi_role = trim_space (tmi_role m), tmi_expert = trim_space (tmi_expert m),
      tmi_description = trim_space (tmi_description m), tmi_label = trim_space (tmi_label m)\<rparr>"

fun clean_members :: "nat \<Rightarrow> string list \<Rightarrow> TeamMemberInput list \<Rightarrow> TeamMemberInput list result" where
  "clean_members i roles [] = Inr []"
| "clean_members i roles (m0 # ms) =
     (let m = trim_member m0 in
      if \<not> teamRolePattern (tmi_role m) then
        Inl (FieldError ''ROLE_INVALID'' (member_at i ''role'')
          ''a role is a lowercase name of 1 to 32 characters: letters, digits, - and _'')
      else if \<not> versionedRef (tmi_expert m) then
        Inl (FieldError ''TEAM_MEMBER_REF_INVALID'' (member_at i ''expert'')
          (''a member'' @ [byte 39] @ ''s expert is not a versioned reference (id@version)''))
      else if rune_count (tmi_description m) > maxTeamDescription then
        Inl (FieldError ''DESCRIPTION_TOO_LONG'' (member_at i ''description'')
          (''a member'' @ [byte 39] @ ''s description is over '' @ itoa maxTeamDescription @ '' characters''))
      else if rune_count (tmi_label m) > maxTeamLabel then
        Inl (FieldError ''LABEL_TOO_LONG'' (member_at i ''label'')
          (''a member'' @ [byte 39] @ ''s label is over '' @ itoa maxTeamLabel @ '' characters''))
      else if tmi_role m \<in> set roles then
        Inl (FieldError ''TEAM_DUPLICATE_ROLE'' (member_at i ''role'') ''a role is listed twice'')
      else rbind (clean_members (Suc i) (tmi_role m # roles) ms) (\<lambda>rest. Inr (m # rest)))"

text \<open>A team carries nothing a worker would have to read.\<close>

definition team_fields :: "ExpertInput \<Rightarrow> (string \<times> bool) list" where
  "team_fields inp =
     [(''description'', xi_description inp \<noteq> []), (''instructions'', xi_instructions inp \<noteq> []), (''soul'', xi_soul inp \<noteq> []),
      (''model'', xi_model inp \<noteq> []), (''connector_ids'', xi_connectors inp \<noteq> []), (''skill_ids'', xi_skills inp \<noteq> [])]"

definition validateTeam :: "ExpertInput \<Rightarrow> ExpertInput result" where
  "validateTeam inp0 =
     (let inp = inp0\<lparr>xi_leader := trim_space (xi_leader inp0)\<rparr> in
      case find snd (team_fields inp) of
        Some (field, _) \<Rightarrow> Inl (not_allowed field (''a team has no '' @ field @ '' of its own; its members have them''))
      | None \<Rightarrow>
          if length (xi_members inp) < minTeamMembers then
            Inl (FieldError ''TEAM_NO_MEMBERS'' ''members'' ''a team needs at least one member'')
          else if length (xi_members inp) > maxTeamMembers then
            Inl (FieldError ''TEAM_TOO_MANY_MEMBERS'' ''members'' (''a team has at most '' @ itoa maxTeamMembers @ '' members''))
          else rbind (clean_members 0 [] (xi_members inp)) (\<lambda>members.
            if xi_leader inp \<notin> set (map tmi_role members) then
              Inl (FieldError ''TEAM_LEADER_NOT_MEMBER'' ''leader'' ''the leader must be the role of a member'')
            else Inr (inp\<lparr>xi_members := members\<rparr>)))"

definition validate_single :: "ExpertInput \<Rightarrow> err option" where
  "validate_single inp =
     (if xi_leader inp \<noteq> [] then Some (not_allowed ''leader'' ''leader belongs to a team'')
      else if xi_members inp \<noteq> [] then Some (not_allowed ''members'' ''members belong to a team'')
      else if rune_count (xi_description inp) > maxTeamDescription then
        Some (FieldError ''DESCRIPTION_TOO_LONG'' ''description'' (''description is over '' @ itoa maxTeamDescription @ '' characters''))
      else if xi_instructions inp = [] then Some errAgentsRequired
      else if rune_count (xi_instructions inp) > maxExpertInstructions then
        Some (FieldError ''INSTRUCTIONS_TOO_LONG'' ''instructions''
          (''instructions are over '' @ itoa maxExpertInstructions @ '' characters''))
      else if rune_count (xi_soul inp) + rune_count (xi_instructions inp) > maxExpertInstructions then
        Some (FieldError ''INSTRUCTIONS_TOO_LONG'' ''soul''
          (''soul and instructions together are over '' @ itoa maxExpertInstructions @ '' characters''))
      else if xi_model inp \<noteq> [] \<and> \<not> expertModelPattern (xi_model inp) then
        Some (FieldError ''MODEL_INVALID'' ''model'' ''model is not a model name'')
      else if length (xi_connectors inp) > maxExpertConnectors then
        Some (FieldError ''CONNECTORS_INVALID'' ''connector_ids'' (''more than '' @ itoa maxExpertConnectors @ '' connectors''))
      else case checkRefList ''skill_ids'' ''SKILLS_INVALID'' (xi_skills inp) of
        Some e \<Rightarrow> Some e
      | None \<Rightarrow>
          (case first_dup 0 [] (xi_connectors inp) of
             Some i \<Rightarrow> Some (FieldError ''CONNECTORS_INVALID'' (''connector_ids['' @ itoa i @ '']'') ''a connector is listed twice'')
           | None \<Rightarrow> None))"

definition trim_form :: "ExpertInput \<Rightarrow> ExpertInput" where
  "trim_form inp =
     inp\<lparr>xi_name := trim_space (xi_name inp), xi_description := trim_space (xi_description inp),
         xi_instructions := trim_space (xi_instructions inp), xi_soul := trim_space (xi_soul inp),
         xi_model := trim_space (xi_model inp), xi_kind := (if xi_kind inp = [] then expertKind else xi_kind inp)\<rparr>"

definition validate_form :: "ExpertInput \<Rightarrow> ExpertInput result" where
  "validate_form inp0 =
     (let inp = trim_form inp0 in
      if xi_kind inp \<noteq> expertKind \<and> xi_kind inp \<noteq> teamKind then
        Inl (FieldError ''KIND_INVALID'' ''kind'' ''kind must be expert or team'')
      else if xi_name inp = [] \<or> rune_count (xi_name inp) > maxExpertName then
        Inl (FieldError ''NAME_INVALID'' ''name'' (''name must be 1 to '' @ itoa maxExpertName @ '' characters''))
      else if xi_kind inp = teamKind then validateTeam inp
      else case validate_single inp of Some e \<Rightarrow> Inl e | None \<Rightarrow> Inr inp)"

section \<open>Reading a profile as an expert or a team\<close>

record TeamMember =
  tm_role :: string
  tm_expert :: string
  tm_name :: string
  tm_description :: string
  tm_label :: string

record Expert =
  ex_id :: string
  ex_kind :: string
  ex_ref :: string
  ex_version :: int
  ex_name :: string
  ex_description :: string
  ex_instructions :: string
  ex_soul :: string
  ex_model :: string
  ex_connectors :: "string list"
  ex_skills :: "string list"
  ex_source :: string
  ex_unbound :: "MCPUnbound list"
  ex_leader :: string
  ex_members :: "TeamMember list"
  ex_created :: string

definition team_malformed :: err where
  "team_malformed = FieldError ''TEAM_MALFORMED'' ''expert'' ''the selected team is malformed''"

definition member_from :: "goval \<Rightarrow> TeamMember" where
  "member_from item =
     (let entry = as_obj item in
      \<lparr>tm_role = str_or_empty entry ''role'', tm_expert = str_or_empty entry ''expert'', tm_name = str_or_empty entry ''name'',
       tm_description = str_or_empty entry ''description'', tm_label = str_or_empty entry ''label''\<rparr>)"

fun read_members :: "string list \<Rightarrow> goval list \<Rightarrow> TeamMember list result" where
  "read_members roles [] = Inr []"
| "read_members roles (item # items) =
     (let m = member_from item in
      if \<not> teamRolePattern (tm_role m) \<or> \<not> versionedRef (tm_expert m) \<or> tm_role m \<in> set roles then Inl team_malformed
      else rbind (read_members (tm_role m # roles) items) (\<lambda>ms. Inr (m # ms)))"

definition teamFromSpec :: "obj \<Rightarrow> (string \<times> TeamMember list) result" where
  "teamFromSpec spec =
     (let leader = str_or_empty spec ''leader'';
          raw = (case arr_field spec ''members'' of None \<Rightarrow> [] | Some items \<Rightarrow> items) in
      if length raw < minTeamMembers \<or> length raw > maxTeamMembers then Inl team_malformed
      else rbind (read_members [] raw) (\<lambda>members.
        if leader \<notin> set (map tm_role members) then Inl team_malformed else Inr (leader, members)))"

text \<open>A trip through JSON into the struct: an entry that is not an object, or a field that is not a string, reads empty.\<close>

definition unboundFrom :: "goval option \<Rightarrow> MCPUnbound list" where
  "unboundFrom v =
     (case map_option json_of v of
        Some (Arr items) \<Rightarrow>
          map (\<lambda>item. \<lparr>ub_name = str_or_empty (as_obj item) ''name'', ub_reason = str_or_empty (as_obj item) ''reason''\<rparr>) items
      | _ \<Rightarrow> [])"

definition text_list :: "(goval \<Rightarrow> string) \<Rightarrow> obj \<Rightarrow> string \<Rightarrow> string list" where
  "text_list spr spec key = (case arr_field spec key of None \<Rightarrow> [] | Some items \<Rightarrow> map (sprint_item spr) items)"

definition expertFrom :: "(goval \<Rightarrow> string) \<Rightarrow> Profile \<Rightarrow> Expert" where
  "expertFrom spr profile =
     (let spec = prof_spec profile; kind = str_or_empty spec ''kind'';
          team = (case teamFromSpec spec of Inr t \<Rightarrow> t | Inl e \<Rightarrow> ([], [])) in
      \<lparr>ex_id = prof_id profile, ex_kind = kind, ex_ref = prof_ref profile, ex_version = prof_version profile,
       ex_name = str_or_empty spec ''name'', ex_description = str_or_empty spec ''description'',
       ex_instructions = str_or_empty spec ''instructions'', ex_soul = str_or_empty spec ''soul'',
       ex_model = str_or_empty spec ''model'', ex_connectors = text_list spr spec ''connector_ids'',
       ex_skills = text_list spr spec ''skills'', ex_source = str_or_empty spec ''source'',
       ex_unbound = unboundFrom (map_of spec ''mcp_unbound''),
       ex_leader = (if kind = teamKind then fst team else []), ex_members = (if kind = teamKind then snd team else []),
       ex_created = stamp (prof_created profile)\<rparr>)"

section \<open>The latest versions\<close>

definition spec_kind :: "Profile \<Rightarrow> string \<Rightarrow> bool" where
  "spec_kind profile kind \<longleftrightarrow> map_of (prof_spec profile) ''kind'' = Some (Str kind)"

definition keep_latest :: "Profile \<Rightarrow> (string, Profile) gomap \<Rightarrow> (string, Profile) gomap" where
  "keep_latest profile latest =
     (if \<not> spec_kind profile expertKind \<and> \<not> spec_kind profile teamKind then latest
      else case map_of latest (prof_id profile) of
        None \<Rightarrow> AList.update (prof_id profile) profile latest
      | Some current \<Rightarrow>
          if prof_version profile > prof_version current then AList.update (prof_id profile) profile latest else latest)"

definition latestProfiles :: "('c, 'w) deps \<Rightarrow> ('c, 'w) sys \<Rightarrow> Principal \<Rightarrow> (string, Profile) gomap result" where
  "latestProfiles d s p = rbind (svc_ListProfiles d s p) (\<lambda>profiles. Inr (fold keep_latest profiles []))"

definition bundleDescriptionOf :: "bundle_pkg \<Rightarrow> ('c, 'w) deps \<Rightarrow> ('c, 'w) sys \<Rightarrow> Principal \<Rightarrow> string \<Rightarrow> string" where
  "bundleDescriptionOf J d s p ref =
     (case svc_ProfileFiles d s p ref of
        Inl e \<Rightarrow> []
      | Inr files \<Rightarrow> bundleDescription J (bundleFromProfileFiles files))"

definition expertWithDescription :: "bundle_pkg \<Rightarrow> ('c, 'w) deps \<Rightarrow> ('c, 'w) sys \<Rightarrow> Principal \<Rightarrow> Profile \<Rightarrow> Expert" where
  "expertWithDescription J d s p profile =
     (let expert = expertFrom (sprint d) profile in
      if ex_kind expert = expertKind \<and> trim_space (ex_description expert) = []
      then expert\<lparr>ex_description := bundleDescriptionOf J d s p (prof_ref profile)\<rparr> else expert)"

definition GetExpert :: "bundle_pkg \<Rightarrow> ('c, 'w) deps \<Rightarrow> ('c, 'w) sys \<Rightarrow> Principal \<Rightarrow> string \<Rightarrow> Expert result" where
  "GetExpert J d s p expertID =
     rbind (latestProfiles d s p) (\<lambda>latest.
       case map_of latest expertID of
         None \<Rightarrow> Inl ErrNotFound
       | Some profile \<Rightarrow> Inr (expertWithDescription J d s p profile))"

definition ListExperts :: "bundle_pkg \<Rightarrow> ('c, 'w) deps \<Rightarrow> ('c, 'w) sys \<Rightarrow> Principal \<Rightarrow> Expert list result" where
  "ListExperts J d s p =
     rbind (latestProfiles d s p) (\<lambda>latest. Inr (sort_key ex_id (map (expertWithDescription J d s p \<circ> snd) latest)))"

end
