(* ===== verification/Bundle_Codec.thy ===== *)
theory Bundle_Codec
  imports Bundle_Form
begin

text \<open>
  What the bundle relies on of \<open>encoding/json\<close> (\<open>codec_ok\<close>): a document is read back as it was
  printed, the empty text is no document, what is read has strings of valid UTF-8, and two words of the
  letters a to z that are equal under case folding are the same word. A small
  concrete codec shows that these can hold together; the witnesses use it.
\<close>

fun json_doc :: "goval \<Rightarrow> bool" where
  "json_doc Null = True"
| "json_doc (BoolV b) = True"
| "json_doc (Float r) = True"
| "json_doc (Str s) = valid_utf8 s"
| "json_doc (Arr vs) = list_all json_doc vs"
| "json_doc (Obj kvs) = list_all (\<lambda>(k, v). valid_utf8 k \<and> json_doc v) kvs"
| "json_doc v = False"

definition lower_word :: "string \<Rightarrow> bool" where
  "lower_word s \<longleftrightarrow> list_all (byte_in 97 122) s"

definition codec_ok :: "bundle_pkg \<Rightarrow> bool" where
  "codec_ok J \<longleftrightarrow> (\<forall>v. json_doc v \<longrightarrow> json_parse J (json_print J v @ newline) = Some v) \<and> json_parse J [] = None \<and>
     (\<forall>a b. lower_word a \<and> lower_word b \<and> equal_fold J a b \<longrightarrow> a = b) \<and>
     (\<forall>s v. json_parse J s = Some v \<longrightarrow> json_doc v)"

section \<open>Decimal numbers\<close>

definition undigits :: "string \<Rightarrow> nat" where
  "undigits s = foldl (\<lambda>n c. 10 * n + (of_char c - 48)) 0 s"

lemma undigits_itoa [simp]: "undigits (itoa n) = n"
proof (induction n rule: itoa.induct)
  case (1 n)
  have d: "of_char (digit k) - 48 = k" if "k < 10" for k using that by (simp add: digit_def)
  show ?case
  proof (cases "n < 10")
    case True
    then show ?thesis by (subst itoa.simps) (simp add: undigits_def d)
  next
    case False
    with 1 have "undigits (itoa (n div 10)) = n div 10" by simp
    with False show ?thesis by (subst itoa.simps) (simp add: undigits_def d)
  qed
qed

lemma itoa_inject [simp]: "itoa a = itoa b \<longleftrightarrow> a = b"
  using undigits_itoa by metis

section \<open>A concrete codec\<close>

definition put_nat :: "nat \<Rightarrow> string" where
  "put_nat n = itoa n @ '';''"

definition take_nat :: "string \<Rightarrow> nat \<times> string" where
  "take_nat s = (undigits (takeWhile is_digit s), tl (dropWhile is_digit s))"

lemma take_put_nat [simp]: "take_nat (put_nat n @ s) = (n, s)"
proof -
  have "\<forall>c \<in> set (itoa n). is_digit c" using itoa_digits [of n] by (simp add: list_all_iff)
  moreover have "\<not> is_digit (CHR '';'')" by (simp add: is_digit_def byte_in_def)
  ultimately show ?thesis by (simp add: take_nat_def put_nat_def takeWhile_append dropWhile_append)
qed

definition put_text_doc :: "string \<Rightarrow> string" where
  "put_text_doc s = put_nat (length s) @ s"

definition take_text :: "string \<Rightarrow> string \<times> string" where
  "take_text s = (case take_nat s of (n, rest) \<Rightarrow> (take n rest, drop n rest))"

lemma take_put_text [simp]: "take_text (put_text_doc t @ s) = (t, s)"
  by (simp add: take_text_def put_text_doc_def)

fun plain_print :: "goval \<Rightarrow> string" where
  "plain_print (BoolV b) = (if b then ''t'' else ''f'')"
| "plain_print (Float r) = (case quotient_of r of (a, b) \<Rightarrow>
     (if a < 0 then ''m'' else ''p'') @ put_nat (nat \<bar>a\<bar>) @ put_nat (nat b))"
| "plain_print (Str s) = CHR ''s'' # put_text_doc s"
| "plain_print (Arr vs) = CHR ''a'' # put_nat (length vs) @ concat (map plain_print vs)"
| "plain_print (Obj kvs) = CHR ''o'' # put_nat (length kvs) @ concat (map (\<lambda>(k, v). put_text_doc k @ plain_print v) kvs)"
| "plain_print v = ''n''"

fun parse_list :: "(string \<Rightarrow> ('a \<times> string) option) \<Rightarrow> nat \<Rightarrow> string \<Rightarrow> ('a list \<times> string) option" where
  "parse_list item 0 s = Some ([], s)"
| "parse_list item (Suc n) s =
     (case item s of
        None \<Rightarrow> None
      | Some (x, s1) \<Rightarrow> map_option (\<lambda>(xs, s2). (x # xs, s2)) (parse_list item n s1))"

definition member_of :: "(string \<Rightarrow> ('a \<times> string) option) \<Rightarrow> string \<Rightarrow> ((string \<times> 'a) \<times> string) option" where
  "member_of item s = (case take_text s of (k, s1) \<Rightarrow> map_option (\<lambda>(v, s2). ((k, v), s2)) (item s1))"

definition parse_rat :: "bool \<Rightarrow> string \<Rightarrow> goval \<times> string" where
  "parse_rat negative s =
     (case take_nat s of (a, s1) \<Rightarrow> case take_nat s1 of (b, s2) \<Rightarrow>
        (Float (Fract (if negative then - int a else int a) (int b)), s2))"

primrec plain_parse :: "nat \<Rightarrow> string \<Rightarrow> (goval \<times> string) option" where
  "plain_parse 0 s = None"
| "plain_parse (Suc n) s =
     (case s of
        [] \<Rightarrow> None
      | c # s1 \<Rightarrow>
          if c = CHR ''n'' then Some (Null, s1)
          else if c = CHR ''t'' then Some (BoolV True, s1)
          else if c = CHR ''f'' then Some (BoolV False, s1)
          else if c = CHR ''m'' then Some (parse_rat True s1)
          else if c = CHR ''p'' then Some (parse_rat False s1)
          else if c = CHR ''s'' then Some (case take_text s1 of (t, s2) \<Rightarrow> (Str t, s2))
          else if c = CHR ''a'' then
            (case take_nat s1 of (k, s2) \<Rightarrow> map_option (\<lambda>(vs, s3). (Arr vs, s3)) (parse_list (plain_parse n) k s2))
          else if c = CHR ''o'' then
            (case take_nat s1 of (k, s2) \<Rightarrow> map_option (\<lambda>(kvs, s3). (Obj kvs, s3)) (parse_list (member_of (plain_parse n)) k s2))
          else None)"

definition sample_pkg :: bundle_pkg where
  "sample_pkg =
     \<lparr>json_parse = (\<lambda>s. case plain_parse (length s) s of
          Some (v, rest) \<Rightarrow> if json_doc v then Some v else None
        | None \<Rightarrow> None),
      json_print = plain_print, sha256_hex = (\<lambda>s. s), equal_fold = (=), go_quote = (\<lambda>s. s)\<rparr>"

lemma parse_list_concat:
  assumes "\<And>x rest. x \<in> set xs \<Longrightarrow> item (print x @ rest) = Some (x, rest)"
  shows "parse_list item (length xs) (concat (map print xs) @ rest) = Some (xs, rest)"
  using assms by (induction xs) simp_all

lemma parse_rat_put:
  assumes "quotient_of r = (a, b)"
  shows "parse_rat (a < 0) (put_nat (nat \<bar>a\<bar>) @ put_nat (nat b) @ rest) = (Float r, rest)"
proof -
  have "0 < b" using quotient_of_denom_pos assms by blast
  moreover have "r = Fract a b" using quotient_of_div [OF assms] by (simp add: Fract_of_int_quotient)
  ultimately show ?thesis by (simp add: parse_rat_def)
qed

lemma print_item: "x \<in> set vs \<Longrightarrow> length (print x) \<le> length (concat (map print vs))"
  by (induction vs) auto

lemma plain_parse_print:
  "json_doc v \<Longrightarrow> length (plain_print v) \<le> n \<Longrightarrow> plain_parse n (plain_print v @ rest) = Some (v, rest)"
proof (induction n arbitrary: v rest)
  case 0
  then show ?case by (cases v) (auto split: prod.splits if_splits)
next
  case (Suc n)
  show ?case
  proof (cases v)
    case (Float r)
    then show ?thesis using parse_rat_put [of r] by (cases "quotient_of r") (auto split: if_splits)
  next
    case (Arr vs)
    have "plain_parse n (plain_print x @ rest) = Some (x, rest)" if "x \<in> set vs" for x rest
      using Suc.prems Arr that print_item [OF that, of plain_print]
      by (intro Suc.IH) (auto simp: list_all_iff put_nat_def)
    then show ?thesis using Arr by (simp add: parse_list_concat)
  next
    case (Obj kvs)
    have "member_of (plain_parse n) ((\<lambda>(k, v). put_text_doc k @ plain_print v) x @ rest) = Some (x, rest)"
      if x: "x \<in> set kvs" for x rest
    proof -
      obtain k w where "x = (k, w)" by (cases x)
      then show ?thesis
        using Suc.prems Obj x print_item [OF x, of "\<lambda>(k, v). put_text_doc k @ plain_print v"]
        by (auto simp: member_of_def list_all_iff put_nat_def intro!: Suc.IH)
    qed
    then show ?thesis using Obj by (simp add: parse_list_concat)
  qed (use Suc.prems in auto)
qed

lemma sample_codec: "codec_ok sample_pkg"
proof -
  have "json_parse sample_pkg (plain_print v @ newline) = Some v" if "json_doc v" for v
    using plain_parse_print [OF that, of "length (plain_print v @ newline)" newline] that by (simp add: sample_pkg_def)
  then show ?thesis by (auto simp: codec_ok_def sample_pkg_def split: option.splits if_splits)
qed

end
