(* ===== verification/Expert_Write.thy ===== *)
theory Expert_Write
  imports Experts Bundle_Codec
begin

text \<open>
  Writing an expert or a team, and serving its files: the rest of \<open>internal/app/experts.go\<close> and
  \<open>teams.go\<close>, \<open>expert_files.go\<close>, and the checks of \<open>task_config.go\<close> it uses. The application is what it
  is given (\<open>app_env\<close>): the catalog with its state, the skill library and the JSON codec.
\<close>

record 'r app_env =
  ae_repo :: "'r catalog_ops"
  ae_state :: 'r
  ae_lib :: skill_library
  ae_pkg :: bundle_pkg

section \<open>Skills a worker can use\<close>

definition bad_path :: "string \<Rightarrow> bool" where
  "bad_path name \<longleftrightarrow> name = [] \<or> has_prefix name ''/'' \<or> byte 92 \<in> set name \<or> byte 0 \<in> set name \<or> path_Clean name \<noteq> name \<or>
     ''..'' \<in> set (split_at (CHR ''/'') name)"

definition skillUsable :: "SkillFile list \<Rightarrow> bool" where
  "skillUsable files \<longleftrightarrow> list_all (\<lambda>f. \<not> bad_path (sf_path f)) files \<and> list_ex (\<lambda>f. sf_path f = ''SKILL.md'') files"

definition checkSkill :: "'r app_env \<Rightarrow> string \<Rightarrow> string \<Rightarrow> string \<Rightarrow> err option" where
  "checkSkill A tenantID skillID field =
     (case rGetSkill (ae_repo A) (ae_state A) tenantID skillID of
        Inl e \<Rightarrow> Some (if e = ErrNotFound then FieldError ''SKILL_NOT_FOUND'' field ''unknown skill'' else e)
      | Inr _ \<Rightarrow>
          (case skillFiles (ae_repo A) (ae_lib A) (ae_state A) tenantID skillID of
             Inl e \<Rightarrow> Some e
           | Inr (files, known) \<Rightarrow>
               if \<not> known \<or> \<not> skillUsable files then Some (FieldError ''SKILL_UNUSABLE'' field ''skill cannot be used'') else None))"

record SkillBundle =
  sb_id :: string
  sb_name :: string
  sb_description :: string
  sb_files :: "SkillFile list"

definition maxSkillBundleBytes :: nat where "maxSkillBundleBytes = 8388608"

definition bundle_size :: "SkillFile list \<Rightarrow> nat" where
  "bundle_size files = sum_list (map (length \<circ> sf_body) files)"

definition SkillBundleForWorker :: "'r app_env \<Rightarrow> string \<Rightarrow> string \<Rightarrow> string \<Rightarrow> SkillBundle result" where
  "SkillBundleForWorker A tenantID handle slug =
     (case SkillPathID handle slug of
        None \<Rightarrow> Inl ErrNotFound
      | Some skillID \<Rightarrow>
          rbind (rGetSkill (ae_repo A) (ae_state A) tenantID skillID) (\<lambda>rec.
          rbind (skillFiles (ae_repo A) (ae_lib A) (ae_state A) tenantID skillID) (\<lambda>(files, known).
            if \<not> known \<or> \<not> skillUsable files \<or> bundle_size files > maxSkillBundleBytes then Inl ErrNotFound
            else Inr \<lparr>sb_id = skillID, sb_name = sk_name rec, sb_description = sk_description rec, sb_files = files\<rparr>)))"

section \<open>Connectors as the worker is given them\<close>

definition connectorSnapshot :: "McpConnectorRecord \<Rightarrow> obj" where
  "connectorSnapshot rec =
     [(''id'', Str (con_id rec)), (''name'', Str (con_name rec)),
      (''transport'', Str (if con_transport rec = [] then ''stdio'' else con_transport rec)),
      (''command'', Str (con_command rec)), (''args'', Strs (con_args rec)), (''env_refs'', Strs (con_env rec)),
      (''url'', Str (con_url rec)),
      (''header_refs'', Objs (map (\<lambda>r. [(''name'', Str (hr_name r)), (''env'', Str (hr_env r))]) (decodeHeaderRefs (con_headers rec))))]"

fun snapshots_from :: "(string, McpConnectorRecord) gomap \<Rightarrow> nat \<Rightarrow> string list \<Rightarrow> obj list result" where
  "snapshots_from byID i [] = Inr []"
| "snapshots_from byID i (cid # ids) =
     (case map_of byID cid of
        None \<Rightarrow> Inl (FieldError ''CONNECTOR_NOT_FOUND'' (''connector_ids['' @ itoa i @ '']'') ''unknown connector'')
      | Some rec \<Rightarrow> rbind (snapshots_from byID (Suc i) ids) (\<lambda>rest. Inr (connectorSnapshot rec # rest)))"

definition snapshotsFor :: "(string, McpConnectorRecord) gomap \<Rightarrow> string list \<Rightarrow> obj list result" where
  "snapshotsFor byID ids = snapshots_from byID 0 ids"

definition connectors_by_id :: "McpConnectorRecord list \<Rightarrow> (string, McpConnectorRecord) gomap" where
  "connectors_by_id records = fold (\<lambda>rec m. AList.update (con_id rec) rec m) records []"

definition connectorSnapshots :: "'r app_env \<Rightarrow> string \<Rightarrow> string list \<Rightarrow> obj list result" where
  "connectorSnapshots A tenantID ids =
     (if ids = [] then Inr []
      else rbind (rListMcpConnectors (ae_repo A) (ae_state A) tenantID) (\<lambda>records.
        snapshotsFor (connectors_by_id records) ids))"

section \<open>Teams\<close>

definition teamMemberProfile :: "('c, 'w) deps \<Rightarrow> ('c, 'w) sys \<Rightarrow> Principal \<Rightarrow> string \<Rightarrow> string \<Rightarrow> string \<Rightarrow> Profile result" where
  "teamMemberProfile d s p teamID ref field =
     (if fst (cut_at (CHR ''@'') ref) = teamID then Inl (FieldError ''TEAM_SELF_REFERENCE'' field ''a team cannot contain itself'')
      else case svc_GetProfile d s p ref of
        Inl e \<Rightarrow> Inl (if e = ErrNotFound then FieldError ''TEAM_MEMBER_NOT_FOUND'' field ''not a single expert of this tenant'' else e)
      | Inr profile \<Rightarrow>
          if \<not> spec_kind profile expertKind then
            Inl (FieldError ''TEAM_MEMBER_IS_TEAM'' field ''a team member must be a single expert, not a team'')
          else Inr profile)"

definition teamMemberName :: "('c, 'w) deps \<Rightarrow> ('c, 'w) sys \<Rightarrow> Principal \<Rightarrow> string \<Rightarrow> string \<Rightarrow> string \<Rightarrow> string result" where
  "teamMemberName d s p teamID ref field =
     rbind (teamMemberProfile d s p teamID ref field) (\<lambda>profile. Inr (str_or_empty (prof_spec profile) ''name''))"

definition member_entry :: "TeamMemberInput \<Rightarrow> string \<Rightarrow> goval" where
  "member_entry m name =
     Obj (put_text ''label'' (tmi_label m) (put_text ''description'' (tmi_description m)
       [(''role'', Str (tmi_role m)), (''expert'', Str (tmi_expert m)), (''name'', Str name)]))"

fun team_entries :: "('c, 'w) deps \<Rightarrow> ('c, 'w) sys \<Rightarrow> Principal \<Rightarrow> string \<Rightarrow> nat \<Rightarrow> TeamMemberInput list \<Rightarrow> goval list result" where
  "team_entries d s p teamID i [] = Inr []"
| "team_entries d s p teamID i (m # ms) =
     rbind (teamMemberName d s p teamID (tmi_expert m) (member_at i ''expert'')) (\<lambda>name.
     rbind (team_entries d s p teamID (Suc i) ms) (\<lambda>rest. Inr (member_entry m name # rest)))"

definition expert_profile :: "string \<Rightarrow> int \<Rightarrow> obj \<Rightarrow> ProfileFile list \<Rightarrow> Profile" where
  "expert_profile expertID version spec files =
     \<lparr>prof_id = expertID, prof_version = version, prof_ref = [], prof_spec = spec, prof_created = 0, prof_files = files\<rparr>"

definition register_expert :: "('c, 'w) deps \<Rightarrow> ('c, 'w) sys \<Rightarrow> time \<Rightarrow> Principal \<Rightarrow> Profile \<Rightarrow> Expert result \<times> ('c, 'w) sys" where
  "register_expert d s now p profile =
     (case svc_RegisterProfile d s now p profile of (r, s1) \<Rightarrow> (rbind r (\<lambda>stored. Inr (expertFrom (sprint d) stored)), s1))"

definition writeTeam :: "('c, 'w) deps \<Rightarrow> ('c, 'w) sys \<Rightarrow> time \<Rightarrow> Principal \<Rightarrow> string \<Rightarrow> int \<Rightarrow> ExpertInput
    \<Rightarrow> Expert result \<times> ('c, 'w) sys" where
  "writeTeam d s now p expertID version inp =
     (case team_entries d s p expertID 0 (xi_members inp) of
        Inl e \<Rightarrow> (Inl e, s)
      | Inr members \<Rightarrow>
          register_expert d s now p (expert_profile expertID version
            [(''kind'', Str teamKind), (''name'', Str (xi_name inp)), (''leader'', Str (xi_leader inp)), (''members'', Arr members)] []))"

section \<open>Single experts\<close>

text \<open>Each skill is checked, and read again for its name.\<close>

fun skill_names :: "'r app_env \<Rightarrow> string \<Rightarrow> nat \<Rightarrow> string list \<Rightarrow> (string, string) gomap \<Rightarrow> (string, string) gomap result" where
  "skill_names A tenantID i [] names = Inr names"
| "skill_names A tenantID i (skillID # ids) names =
     (case checkSkill A tenantID skillID (''skill_ids['' @ itoa i @ '']'') of
        Some e \<Rightarrow> Inl e
      | None \<Rightarrow> skill_names A tenantID (Suc i) ids
          (case rGetSkill (ae_repo A) (ae_state A) tenantID skillID of
             Inl e \<Rightarrow> names
           | Inr rec \<Rightarrow> AList.update skillID (sk_name rec) names))"

fun check_new_skills :: "'r app_env \<Rightarrow> string \<Rightarrow> (string, string) gomap \<Rightarrow> nat \<Rightarrow> string list \<Rightarrow> err option" where
  "check_new_skills A tenantID names i [] = None"
| "check_new_skills A tenantID names i (skillID # ids) =
     (case (if has_key names skillID then None else checkSkill A tenantID skillID (''skill_ids['' @ itoa i @ '']'')) of
        Some e \<Rightarrow> Some e
      | None \<Rightarrow> check_new_skills A tenantID names (Suc i) ids)"

text \<open>The files an update starts from: the ones it is given, or those of the version before.\<close>

definition base_files :: "('c, 'w) deps \<Rightarrow> ('c, 'w) sys \<Rightarrow> Principal \<Rightarrow> string \<Rightarrow> int \<Rightarrow> ExpertInput \<Rightarrow> bundleFiles result" where
  "base_files d s p expertID version inp =
     (case xi_base inp of
        Some base \<Rightarrow> Inr base
      | None \<Rightarrow>
          if version > 1 then
            (case svc_ProfileFiles d s p (expertID @ ''@'' @ itoa_int (version - 1)) of
               Inl e \<Rightarrow> if e = ErrNotFound then Inr [] else Inl e
             | Inr files \<Rightarrow> Inr (bundleFromProfileFiles files))
          else Inr [])"

definition unbound_value :: "MCPUnbound \<Rightarrow> obj" where
  "unbound_value u = [(''name'', Str (ub_name u)), (''reason'', Str (ub_reason u))]"

definition expert_spec :: "bundle_pkg \<Rightarrow> ExpertInput \<Rightarrow> bundleFiles \<Rightarrow> derived \<Rightarrow> obj list \<Rightarrow> obj" where
  "expert_spec J inp files der snapshots =
     put_text ''source'' (xi_source inp) (put_text ''model'' (xi_model inp)
       (put_text ''description'' (bundleDescription J files)
         [(''kind'', Str expertKind), (''name'', Str (xi_name inp)), (''instructions'', Str (d_instructions der)),
          (''soul'', Str (d_soul der)), (''connector_ids'', Strs (d_connectors der)), (''mcp_connectors'', Objs snapshots),
          (''skills'', Strs (d_catalog der)), (''bundle_skills'', Strs (d_bundle der)), (''bundle_sha'', Str (bundleSHA J files)),
          (''mcp_unbound'', Objs (map unbound_value (d_unbound der)))]))"

definition build_expert :: "'r app_env \<Rightarrow> ('c, 'w) deps \<Rightarrow> ('c, 'w) sys \<Rightarrow> Principal \<Rightarrow> string \<Rightarrow> int \<Rightarrow> ExpertInput
    \<Rightarrow> (obj \<times> bundleFiles) result" where
  "build_expert A d s p expertID version inp0 =
     rbind (rListMcpConnectors (ae_repo A) (ae_state A) (TenantID p)) (\<lambda>records.
       let connectors = connectors_by_id records in
     rbind (snapshotsFor connectors (xi_connectors inp0)) (\<lambda>_.
     rbind (skill_names A (TenantID p) 0 (xi_skills inp0) []) (\<lambda>names.
     rbind (base_files d s p expertID version inp0) (\<lambda>base.
       let inp = (if xi_description inp0 \<noteq> [] then inp0\<lparr>xi_own_description := xi_description inp0\<rparr> else inp0);
           files = renderBundle (ae_pkg A) inp base connectors names in
     rbind (deriveBundle (ae_pkg A) files) (\<lambda>der.
       case check_new_skills A (TenantID p) names 0 (d_catalog der) of
         Some e \<Rightarrow> Inl e
       | None \<Rightarrow> rbind (snapshotsFor connectors (d_connectors der)) (\<lambda>snapshots.
           Inr (expert_spec (ae_pkg A) inp files der snapshots, files)))))))"

definition writeExpert :: "'r app_env \<Rightarrow> ('c, 'w) deps \<Rightarrow> ('c, 'w) sys \<Rightarrow> time \<Rightarrow> Principal \<Rightarrow> string \<Rightarrow> int \<Rightarrow> ExpertInput
    \<Rightarrow> Expert result \<times> ('c, 'w) sys" where
  "writeExpert A d s now p expertID version inp0 =
     (case validate_form inp0 of
        Inl e \<Rightarrow> (Inl e, s)
      | Inr inp \<Rightarrow>
          if xi_kind inp = teamKind then writeTeam d s now p expertID version inp
          else case build_expert A d s p expertID version inp of
            Inl e \<Rightarrow> (Inl e, s)
          | Inr (spec, files) \<Rightarrow>
              register_expert d s now p (expert_profile expertID version spec (profileFiles (ae_pkg A) files)))"

definition CreateExpert :: "'r app_env \<Rightarrow> ('c, 'w) deps \<Rightarrow> ('c, 'w) sys \<Rightarrow> time \<Rightarrow> string \<Rightarrow> Principal \<Rightarrow> ExpertInput
    \<Rightarrow> Expert result \<times> ('c, 'w) sys" where
  "CreateExpert A d s now uuid p inp = writeExpert A d s now p (expertIDPrefix @ uuid) 1 inp"

definition UpdateExpert :: "'r app_env \<Rightarrow> ('c, 'w) deps \<Rightarrow> ('c, 'w) sys \<Rightarrow> time \<Rightarrow> Principal \<Rightarrow> string \<Rightarrow> ExpertInput
    \<Rightarrow> Expert result \<times> ('c, 'w) sys" where
  "UpdateExpert A d s now p expertID inp =
     (case GetExpert (ae_pkg A) d s p expertID of
        Inl e \<Rightarrow> (Inl e, s)
      | Inr latest \<Rightarrow>
          if xi_kind inp \<noteq> [] \<and> xi_kind inp \<noteq> ex_kind latest then
            (Inl (FieldError ''KIND_IMMUTABLE'' ''kind''
              ''an expert cannot change its kind: a team stays a team and a single expert stays single''), s)
          else writeExpert A d s now p expertID (ex_version latest + 1) (inp\<lparr>xi_kind := ex_kind latest\<rparr>))"

section \<open>Files of a version\<close>

record ExpertFileInfo =
  fi_path :: string
  fi_size :: nat
  fi_sha256 :: string

definition expertVersionFiles :: "bundle_pkg \<Rightarrow> ('c, 'w) deps \<Rightarrow> ('c, 'w) sys \<Rightarrow> Principal \<Rightarrow> string \<Rightarrow> int
    \<Rightarrow> (int \<times> ProfileFile list) result" where
  "expertVersionFiles J d s p expertID version0 =
     rbind (if version0 = 0 then rbind (GetExpert J d s p expertID) (\<lambda>latest. Inr (ex_version latest)) else Inr version0) (\<lambda>version.
     rbind (svc_GetProfile d s p (expertID @ ''@'' @ itoa_int version)) (\<lambda>profile.
       if \<not> spec_kind profile expertKind then Inl ErrNotFound
       else rbind (svc_ProfileFiles d s p (prof_ref profile)) (\<lambda>files. Inr (version, files))))"

definition ExpertFiles :: "bundle_pkg \<Rightarrow> ('c, 'w) deps \<Rightarrow> ('c, 'w) sys \<Rightarrow> Principal \<Rightarrow> string \<Rightarrow> int
    \<Rightarrow> (int \<times> ExpertFileInfo list) result" where
  "ExpertFiles J d s p expertID version0 =
     rbind (expertVersionFiles J d s p expertID version0) (\<lambda>(version, files).
       Inr (version, map (\<lambda>f. \<lparr>fi_path = pf_path f, fi_size = length (pf_content f), fi_sha256 = pf_sha256 f\<rparr>) files))"

definition ExpertFile :: "bundle_pkg \<Rightarrow> ('c, 'w) deps \<Rightarrow> ('c, 'w) sys \<Rightarrow> Principal \<Rightarrow> string \<Rightarrow> int \<Rightarrow> string
    \<Rightarrow> ProfileFile result" where
  "ExpertFile J d s p expertID version0 filePath =
     rbind (expertVersionFiles J d s p expertID version0) (\<lambda>(_, files).
       case find (\<lambda>f. pf_path f = filePath) files of None \<Rightarrow> Inl ErrNotFound | Some f \<Rightarrow> Inr f)"

definition skill_of_files :: "string \<Rightarrow> ProfileFile list \<Rightarrow> SkillFile list" where
  "skill_of_files pre files =
     map (\<lambda>f. \<lparr>sf_path = drop (length pre) (pf_path f), sf_body = pf_content f\<rparr>) (filter (\<lambda>f. has_prefix (pf_path f) pre) files)"

definition ExpertSkillBundleForWorker :: "('c, 'w) deps \<Rightarrow> ('c, 'w) sys \<Rightarrow> string \<Rightarrow> string \<Rightarrow> int \<Rightarrow> string
    \<Rightarrow> SkillBundle result" where
  "ExpertSkillBundleForWorker d s tenantID expertID version name =
     (let p = \<lparr>TenantID = tenantID, UserID = []\<rparr>; ref = expertID @ ''@'' @ itoa_int version in
      if tenantID = [] \<or> version < 1 \<or> name = [] then Inl ErrNotFound
      else rbind (svc_GetProfile d s p ref) (\<lambda>profile.
        if Str name \<notin> set (case arr_field (prof_spec profile) ''bundle_skills'' of None \<Rightarrow> [] | Some items \<Rightarrow> items) then Inl ErrNotFound
        else rbind (svc_ProfileFiles d s p ref) (\<lambda>files.
          let skill = skill_of_files (skillsDir @ name @ ''/'') files in
          if \<not> skillUsable skill \<or> bundle_size skill > maxSkillBundleBytes then Inl ErrNotFound
          else Inr \<lparr>sb_id = ref @ ''/'' @ name, sb_name = name, sb_description = [], sb_files = skill\<rparr>)))"

end
