(* ===== verification/Task_Request.thy ===== *)
theory Task_Request
  imports Expert_Write Service_Commands
begin

text \<open>
  The configuration a caller asks for a task (\<open>internal/app/task_config.go\<close>, and \<open>resolveTeam\<close> of
  \<open>teams.go\<close>): every reference is checked against the caller's tenant, a team runs as its leader's
  expert with the members beside it, and connectors become snapshots that hold names only.
\<close>

record TaskConfigRequest =
  tq_expert :: string
  tq_team_ref :: string
  tq_model :: string
  tq_skills :: "string list option"
  tq_connectors :: "string list option"
  tq_mode :: string
  tq_permissions :: "Permissions option"

section \<open>Teams\<close>

definition memberDescription :: "bundle_pkg \<Rightarrow> ('c, 'w) deps \<Rightarrow> ('c, 'w) sys \<Rightarrow> Principal \<Rightarrow> TeamMember \<Rightarrow> Profile \<Rightarrow> string" where
  "memberDescription J d s p member expert =
     (let own = trim_space (tm_description member);
          spec = trim_space (str_or_empty (prof_spec expert) ''description'');
          name = trim_space (str_or_empty (prof_spec expert) ''name'');
          description =
            (if own \<noteq> [] then own
             else if spec \<noteq> [] then spec
             else orDefault (bundleDescriptionOf J d s p (tm_expert member)) (orDefault name (trim_space (tm_name member))))
      in if rune_count description > maxTeamDescription then string_of_runes (take maxTeamDescription (runes description))
         else description)"

fun resolve_members :: "bundle_pkg \<Rightarrow> ('c, 'w) deps \<Rightarrow> ('c, 'w) sys \<Rightarrow> Principal \<Rightarrow> string \<Rightarrow> TeamMember list
    \<Rightarrow> ConfigTeamMember list result" where
  "resolve_members J d s p teamID [] = Inr []"
| "resolve_members J d s p teamID (m # ms) =
     rbind (teamMemberProfile d s p teamID (tm_expert m) ''expert'') (\<lambda>expert.
     rbind (resolve_members J d s p teamID ms) (\<lambda>rest.
       Inr (\<lparr>mem_role = tm_role m, mem_expert = tm_expert m, mem_name = tm_name m,
             mem_description = memberDescription J d s p m expert, mem_label = tm_label m\<rparr> # rest)))"

definition resolveTeam :: "bundle_pkg \<Rightarrow> ('c, 'w) deps \<Rightarrow> ('c, 'w) sys \<Rightarrow> Principal \<Rightarrow> Profile \<Rightarrow> ConfigTeam result" where
  "resolveTeam J d s p profile =
     rbind (teamFromSpec (prof_spec profile)) (\<lambda>(leader, members).
     rbind (resolve_members J d s p (prof_id profile) members) (\<lambda>ms.
       Inr \<lparr>team_ref = [], team_leader = leader, team_members = ms\<rparr>))"

text \<open>The expert of the last member in the leader's role; roles are distinct.\<close>

definition leader_expert :: "ConfigTeam \<Rightarrow> string" where
  "leader_expert team =
     fold (\<lambda>m leader. if mem_role m = team_leader team then mem_expert m else leader) (team_members team) []"

section \<open>The references of a request\<close>

definition no_profile :: Profile where
  "no_profile = \<lparr>prof_id = [], prof_version = 0, prof_ref = [], prof_spec = [], prof_created = 0, prof_files = []\<rparr>"

definition checkExpert :: "('c, 'w) deps \<Rightarrow> ('c, 'w) sys \<Rightarrow> Principal \<Rightarrow> string \<Rightarrow> Profile result" where
  "checkExpert d s p ref =
     (if ref = [] \<or> ref = ''default@1'' then Inr no_profile
      else if \<not> versionedRef ref then
        Inl (FieldError ''EXPERT_REF_INVALID'' ''expert'' ''expert is not a versioned reference (id@version)'')
      else case svc_GetProfile d s p ref of
        Inl e \<Rightarrow> Inl (if e = ErrNotFound then FieldError ''EXPERT_NOT_FOUND'' ''expert'' ''unknown expert'' else e)
      | Inr profile \<Rightarrow> Inr profile)"

definition CheckProfile :: "('c, 'w) deps \<Rightarrow> ('c, 'w) sys \<Rightarrow> Principal \<Rightarrow> string \<Rightarrow> err option" where
  "CheckProfile d s p ref =
     (if ref = ''default@1'' then None
      else if \<not> versionedRef ref then Some (ErrInvalid ''profile is not a versioned reference'')
      else case svc_GetProfile d s p ref of
        Inl e \<Rightarrow> Some (if e = ErrNotFound then ErrUnknownProfile else e)
      | Inr profile \<Rightarrow>
          if spec_kind profile teamKind then Some (ErrInvalid (''a team cannot be a node'' @ [byte 39] @ ''s profile'')) else None)"

text \<open>An error of the reference next to a team is one of the field \<open>team_ref\<close>.\<close>

definition at_team_ref :: "string \<Rightarrow> err \<Rightarrow> err" where
  "at_team_ref teamRef e =
     (case e of FieldError code field reason \<Rightarrow> if teamRef \<noteq> [] then FieldError code ''team_ref'' reason else e | _ \<Rightarrow> e)"

text \<open>The expert to run and the team, from the selected profile.\<close>

definition select_expert :: "bundle_pkg \<Rightarrow> ('c, 'w) deps \<Rightarrow> ('c, 'w) sys \<Rightarrow> Principal \<Rightarrow> TaskConfigRequest
    \<Rightarrow> (string \<times> ConfigTeam option) result" where
  "select_expert J d s p req =
     (case checkExpert d s p (if tq_team_ref req \<noteq> [] then tq_team_ref req else tq_expert req) of
        Inl e \<Rightarrow> Inl (at_team_ref (tq_team_ref req) e)
      | Inr profile \<Rightarrow>
          if tq_team_ref req \<noteq> [] \<and> \<not> spec_kind profile teamKind then
            Inl (FieldError ''TEAM_REF_NOT_TEAM'' ''team_ref'' ''team_ref is not a team expert'')
          else if spec_kind profile teamKind then
            rbind (resolveTeam J d s p profile) (\<lambda>team0.
              let team = team0\<lparr>team_ref := prof_ref profile\<rparr>; leader = leader_expert team in
              if tq_team_ref req \<noteq> [] \<and> tq_expert req \<noteq> [] \<and> tq_expert req \<noteq> tq_team_ref req \<and> tq_expert req \<noteq> leader then
                Inl (FieldError ''EXPERT_TEAM_MISMATCH'' ''expert''
                  (''expert is neither the team nor its leader'' @ [byte 39] @ ''s expert''))
              else Inr (leader, Some team))
          else Inr (tq_expert req, None))"

fun check_skills :: "'r app_env \<Rightarrow> string \<Rightarrow> nat \<Rightarrow> string list \<Rightarrow> err option" where
  "check_skills A tenantID i [] = None"
| "check_skills A tenantID i (skillID # ids) =
     (case checkSkill A tenantID skillID (''skills['' @ itoa i @ '']'') of
        Some e \<Rightarrow> Some e
      | None \<Rightarrow> check_skills A tenantID (Suc i) ids)"

definition given_ids :: "string list option \<Rightarrow> string list" where
  "given_ids xs = (case xs of None \<Rightarrow> [] | Some ys \<Rightarrow> ys)"

definition request_connectors :: "'r app_env \<Rightarrow> string \<Rightarrow> string list option \<Rightarrow> obj list option result" where
  "request_connectors A tenantID ids =
     (case ids of None \<Rightarrow> Inr None | Some ids \<Rightarrow> rbind (connectorSnapshots A tenantID ids) (\<lambda>out. Inr (Some out)))"

definition ResolveTaskConfig :: "'r app_env \<Rightarrow> ('c, 'w) deps \<Rightarrow> ('c, 'w) sys \<Rightarrow> Principal \<Rightarrow> TaskConfigRequest
    \<Rightarrow> ConfigInput result" where
  "ResolveTaskConfig A d s p req =
     (let mode = (if tq_mode req = [] then ''default'' else tq_mode req) in
      if mode \<notin> {''default'', ''plan'', ''ask''} then
        Inl (FieldError ''MODE_INVALID'' ''mode'' ''mode must be default, plan or ask'')
      else if tq_model req \<noteq> [] \<and> \<not> expertModelPattern (tq_model req) then
        Inl (FieldError ''MODEL_INVALID'' ''model'' ''model is not a model name'')
      else rbind (ResolvePermissions d s p (tq_permissions req)) (\<lambda>permissions.
           rbind (select_expert (ae_pkg A) d s p req) (\<lambda>(expert, team).
             case checkRefList ''skills'' ''SKILLS_INVALID'' (given_ids (tq_skills req)) of
               Some e \<Rightarrow> Inl e
             | None \<Rightarrow>
                 (case checkRefList ''connector_ids'' ''CONNECTORS_INVALID'' (given_ids (tq_connectors req)) of
                    Some e \<Rightarrow> Inl e
                  | None \<Rightarrow>
                      rbind (request_connectors A (TenantID p) (tq_connectors req)) (\<lambda>connectors.
                        case check_skills A (TenantID p) 0 (given_ids (tq_skills req)) of
                          Some e \<Rightarrow> Inl e
                        | None \<Rightarrow> Inr
                            \<lparr>ci_expert = expert, ci_skills = tq_skills req, ci_model = tq_model req, ci_connectors = connectors,
                             ci_mode = mode, ci_permissions = Some permissions, ci_team = team\<rparr>)))))"

definition ResolveTaskConfigUpdate :: "'r app_env \<Rightarrow> ('c, 'w) deps \<Rightarrow> ('c, 'w) sys \<Rightarrow> Principal \<Rightarrow> string \<Rightarrow> TaskConfigRequest
    \<Rightarrow> ConfigInput result \<times> ('c, 'w) sys" where
  "ResolveTaskConfigUpdate A d s p taskID req =
     (if tq_permissions req = None then
        (case svc_TaskConfig d s p taskID of
           (Inl e, s1) \<Rightarrow> (Inl e, s1)
         | (Inr current, s1) \<Rightarrow> (ResolveTaskConfig A d s1 p (req\<lparr>tq_permissions := Some (cv_permissions current)\<rparr>), s1))
      else (ResolveTaskConfig A d s p req, s))"

end
