(* ===== verification/Bundle_Roundtrip.thy ===== *)
theory Bundle_Roundtrip
  imports Bundle_Codec
begin

text \<open>
  A form survives its bundle: what \<open>deriveBundle\<close> reads out of the files \<open>renderBundle\<close> wrote is the form
  again, with the bundle's own skills and the unbound servers of the files it started from.
\<close>

definition skills_doc :: "skillEntry list \<Rightarrow> goval" where
  "skills_doc entries = Obj [(''skills'', Arr (map entry_value entries))]"

definition mcp_doc :: "mcpServer list \<Rightarrow> goval" where
  "mcp_doc servers = Obj [(''mcpServers'', Obj (map (\<lambda>s. (sv_name s, json_of (Obj (sv_obj s)))) servers))]"

text \<open>The strings of the three documents are valid UTF-8.\<close>

definition rendered_utf8 :: "bundle_pkg \<Rightarrow> ExpertInput \<Rightarrow> bundleFiles \<Rightarrow> (string, McpConnectorRecord) gomap
    \<Rightarrow> (string, string) gomap \<Rightarrow> bool" where
  "rendered_utf8 J inp base connectors skillNames \<longleftrightarrow>
     json_doc (skills_doc (form_entries J inp base (bundleSkillNames base) skillNames)) \<and>
     json_doc (mcp_doc (form_servers J inp base connectors)) \<and> json_doc (agent_doc J inp base)"

section \<open>The files\<close>

lemmas file_names = fileAgents_def fileSoul_def fileSkills_def fileMCP_def fileAgent_def

lemma files_differ [simp]:
  "fileAgents \<noteq> fileSoul" "fileAgents \<noteq> fileSkills" "fileAgents \<noteq> fileMCP" "fileAgents \<noteq> fileAgent"
  "fileSoul \<noteq> fileAgents" "fileSkills \<noteq> fileAgents" "fileMCP \<noteq> fileAgents" "fileAgent \<noteq> fileAgents"
  "fileSoul \<noteq> fileSkills" "fileSoul \<noteq> fileMCP" "fileSoul \<noteq> fileAgent" "fileSkills \<noteq> fileSoul" "fileMCP \<noteq> fileSoul" "fileAgent \<noteq> fileSoul"
  "fileSkills \<noteq> fileMCP" "fileSkills \<noteq> fileAgent" "fileMCP \<noteq> fileSkills" "fileAgent \<noteq> fileSkills" "fileMCP \<noteq> fileAgent" "fileAgent \<noteq> fileMCP"
  by (simp_all add: file_names)

lemma no_skill_dir [simp]:
  "skill_dir_name fileAgents = None" "skill_dir_name fileSoul = None" "skill_dir_name fileSkills = None"
  "skill_dir_name fileMCP = None" "skill_dir_name fileAgent = None"
  by (simp_all add: file_names skill_dir_name_def has_prefix_def skillsDir_def)

lemma map_of_put_or_delete [simp]:
  "map_of (put_or_delete put p c b) q = (if q = p then if put then Some c else None else map_of b q)"
  by (simp add: put_or_delete_def)

lemma map_filter_filter: "List.map_filter g xs = List.map_filter g (filter (\<lambda>x. g x \<noteq> None) xs)"
  by (induction xs) (auto simp: List.map_filter_def)

lemma bundleSkillNames_keys:
  "bundleSkillNames b = List.map_filter skill_dir_name (sort (filter (\<lambda>p. skill_dir_name p \<noteq> None) (map fst b)))"
  unfolding bundleSkillNames_def sortedPaths_def by (subst map_filter_filter) (simp add: filter_sort)

lemma dirs_update [simp]:
  assumes "skill_dir_name p = None"
  shows "bundleSkillNames (AList.update p c b) = bundleSkillNames b" "bundleSkillNames (AList.delete p b) = bundleSkillNames b"
proof -
  show "bundleSkillNames (AList.update p c b) = bundleSkillNames b"
    using assms by (simp add: bundleSkillNames_keys update_keys)
  have "filter (\<lambda>p. skill_dir_name p \<noteq> None) (map fst (AList.delete p b)) = filter (\<lambda>p. skill_dir_name p \<noteq> None) (map fst b)"
    using assms by (induction b) (auto simp: AList.delete_eq)
  then show "bundleSkillNames (AList.delete p b) = bundleSkillNames b" by (simp add: bundleSkillNames_keys)
qed

lemma dirs_put_or_delete [simp]:
  "skill_dir_name p = None \<Longrightarrow> bundleSkillNames (put_or_delete put p c b) = bundleSkillNames b"
  by (simp add: put_or_delete_def)

lemma rendered_files:
  assumes "files = renderBundle J inp base connectors skillNames"
    "entries = form_entries J inp base (bundleSkillNames base) skillNames" "servers = form_servers J inp base connectors"
  shows "file_text files fileAgents = xi_instructions inp" "file_text files fileSoul = xi_soul inp"
    "map_of files fileSkills = (if entries \<noteq> [] then Some (renderSkillsJSON J entries) else None)"
    "map_of files fileMCP = (if servers \<noteq> [] then Some (renderMCPJSON J servers) else None)"
    "bundleSkillNames files = bundleSkillNames base"
    "file_text files fileAgent = json_print J (agent_doc J inp base) @ newline"
  using assms by (simp_all add: renderBundle_def Let_def file_text_def get_or_def)

section \<open>skills.json\<close>

lemma decode_entry_value: "decode_entry J (entry_value e) = Some e"
  by (cases e) (simp add: decode_entry_def entry_value_def doc_text_def bind_keys_def field_key_def entry_fields_def)

lemma all_some_map: "all_some (map Some xs) = Some xs"
  by (induction xs) simp_all

lemma parse_rendered_skills:
  assumes "codec_ok J" "json_doc (skills_doc entries)"
  shows "parseSkillsJSON J (renderSkillsJSON J entries) =
    (case check_entries 0 [] [] entries of Some e \<Rightarrow> Inl e | None \<Rightarrow> Inr entries)"
proof -
  have "json_parse J (renderSkillsJSON J entries) = Some (skills_doc entries)"
    using assms by (simp add: codec_ok_def renderSkillsJSON_def skills_doc_def)
  moreover have "decode_skills J (skills_doc entries) = Some entries"
    by (simp add: decode_skills_def skills_doc_def last_member_def bind_keys_def field_key_def comp_def decode_entry_value all_some_map)
  ultimately show ?thesis by (simp add: parseSkillsJSON_def)
qed

lemma check_entries_ids:
  assumes "check_entries i names ids entries = None"
  shows "distinct (catalog_ids entries) \<and> set (catalog_ids entries) \<inter> set ids = {}"
  using assms
  by (induction i names ids entries rule: check_entries.induct) (auto simp: catalog_ids_def is_catalog_def Let_def split: if_splits)

lemma previous_ids: "distinct (catalog_ids (previous_entries J base))"
  using check_entries_ids
  by (fastforce simp: previous_entries_def parseSkillsJSON_def catalog_ids_def split: sum.splits option.splits)

lemma kept_ids:
  "catalog_ids (List.map_filter (kept_entry dirs wanted names) es) = filter (\<lambda>i. i \<in> set wanted) (catalog_ids es)"
  by (induction es) (auto simp: List.map_filter_def kept_entry_def catalog_ids_def is_catalog_def)

lemma form_catalog:
  assumes "distinct (xi_skills inp)"
  shows "mset (catalog_ids (form_entries J inp base dirs names)) = mset (xi_skills inp)"
proof -
  let ?prev = "filter (\<lambda>i. i \<in> set (xi_skills inp)) (catalog_ids (previous_entries J base))"
  let ?ids = "?prev @ filter (\<lambda>i. i \<notin> set ?prev) (xi_skills inp)"
  have "catalog_ids (es @ map (\<lambda>i. \<lparr>se_name = n i, se_source = ''catalog'', se_id = i\<rparr>) is) = catalog_ids es @ is" for es n "is"
    by (simp add: catalog_ids_def is_catalog_def filter_map comp_def)
  then have "catalog_ids (form_entries J inp base dirs names) = ?ids"
    by (simp add: form_entries_def Let_def kept_ids)
  moreover have "distinct ?ids" using assms previous_ids [of J base] by auto
  moreover have "set ?ids = set (xi_skills inp)" by auto
  ultimately show ?thesis using assms by (simp only: set_eq_iff_mset_eq_distinct)
qed

lemma missing_skill_None:
  "missing_skill dirs i es = None \<longleftrightarrow> set (bundle_names es) \<subseteq> set dirs"
  by (induction dirs i es rule: missing_skill.induct) (auto simp: bundle_names_def)

lemma derived_skills:
  assumes "codec_ok J" "json_doc (skills_doc entries)" "derive_skills J files = Inr (catalog, own)"
    "map_of files fileSkills = (if entries \<noteq> [] then Some (renderSkillsJSON J entries) else None)"
  shows "catalog = catalog_ids entries" "set own = set (bundleSkillNames files)"
  using assms missing_skill_None [of "bundleSkillNames files" 0 entries]
  by (auto simp: derive_skills_def Let_def parse_rendered_skills rbind_Inr_iff catalog_ids_def split: option.splits if_splits)

section \<open>mcp.json\<close>

lemma dec_fold_distinct: "distinct (map fst m) \<Longrightarrow> distinct (map fst (fold (\<lambda>(k, v) m. AList.update k v m) kvs m))"
  by (induction kvs arbitrary: m) (auto simp: distinct_keys_update)

lemma dec_obj_distinct: "distinct (map fst (dec_obj kvs))"
  unfolding dec_obj_def by (rule dec_fold_distinct) simp

lemma fold_update_map_of:
  "map_of (fold (\<lambda>(k, v) m. AList.update k v m) kvs m) k = (case map_of (rev kvs) k of None \<Rightarrow> map_of m k | Some v \<Rightarrow> Some v)"
  by (induction kvs arbitrary: m) (auto split: option.splits)

lemma map_of_dec_obj:
  assumes "distinct (map fst kvs)"
  shows "map_of (dec_obj kvs) k = map_option dec_any (map_of kvs k)"
proof -
  have "map_of (rev (map (\<lambda>(k, v). (k, dec_any v)) kvs)) = map_of (map (\<lambda>(k, v). (k, dec_any v)) kvs)"
    using assms by (intro map_of_inject_set [THEN iffD2]) (simp_all add: comp_def case_prod_beta rev_map [symmetric])
  then show ?thesis by (simp add: dec_obj_def fold_update_map_of map_of_map split: option.splits)
qed

definition reread :: "mcpServer \<Rightarrow> mcpServer" where
  "reread s = \<lparr>sv_name = sv_name s, sv_obj = dec_obj (json_obj (sv_obj s))\<rparr>"

lemma read_servers_reread:
  "read_servers seen (map (\<lambda>s. (sv_name s, json_of (Obj (sv_obj s)))) servers) = Inr out \<Longrightarrow> out = map reread servers"
proof (induction servers arbitrary: seen out)
  case (Cons s servers)
  then show ?case
    by (auto simp: json_of_Obj reread_def Let_def rbind_Inr_iff simp del: json_of.simps split: if_splits option.splits)
qed simp

lemma dec_json_Str: "dec_any (json_of v) = Str t \<longleftrightarrow> v = Str t"
  by (cases v) auto

lemma reread_str:
  assumes "distinct (map fst (sv_obj s))"
  shows "server_str (reread s) key = server_str s key"
proof -
  have "map_of (sv_obj (reread s)) key = map_option (dec_any \<circ> json_of) (map_of (sv_obj s) key)"
    using assms by (simp add: reread_def map_of_dec_obj distinct_json_obj map_of_json_obj option.map_comp)
  then have "str_field (sv_obj (reread s)) key = str_field (sv_obj s) key"
    using dec_json_Str by (cases "map_of (sv_obj s) key") (auto simp: str_field_def split: goval.splits)
  then show ?thesis by (simp add: server_str_def str_or_empty_def)
qed

lemma read_servers_distinct:
  "read_servers seen kvs = Inr servers \<Longrightarrow> s \<in> set servers \<Longrightarrow> distinct (map fst (sv_obj s))"
proof (induction seen kvs arbitrary: servers rule: read_servers.induct)
  case (2 seen name v kvs)
  then show ?case
    by (auto simp: Let_def rbind_Inr_iff dec_obj_distinct split: goval.splits if_splits option.splits)
qed simp

lemma previous_distinct:
  assumes "s \<in> set (previous_servers J base)"
  shows "distinct (map fst (sv_obj s))"
proof -
  obtain servers where "read_mcp J (json_parse J (file_text base fileMCP)) = Inr servers" "s \<in> set servers"
    using assms
    by (cases "read_mcp J (json_parse J (file_text base fileMCP))") (auto simp: previous_servers_def parseMCPJSON_def)
  then show ?thesis
    using read_servers_distinct by (auto simp: read_mcp_def split: option.splits goval.splits)
qed

lemma connectorServer_obj:
  "distinct (map fst (sv_obj (connectorServer name rec)))" "connectorID (connectorServer name rec) = con_id rec"
  by (simp_all add: connectorServer_def Let_def connectorID_def server_str_def str_or_empty_def str_field_def)

lemma bound_connectors:
  assumes "\<forall>i \<in> set ids. \<exists>rec. map_of connectors i = Some rec \<and> con_id rec = i"
  shows "map connectorID (bind_connectors prevNames connectors taken ids) = ids"
    "s \<in> set (bind_connectors prevNames connectors taken ids) \<Longrightarrow> distinct (map fst (sv_obj s))"
  using assms
  by (induction ids arbitrary: taken) (auto simp: Let_def connectorServer_obj)

lemma form_servers_facts:
  assumes "\<forall>i \<in> set (xi_connectors inp). i \<noteq> [] \<and> (\<exists>rec. map_of connectors i = Some rec \<and> con_id rec = i)"
    and servers: "servers = form_servers J inp base connectors"
  shows "s \<in> set servers \<Longrightarrow> distinct (map fst (sv_obj s))" "bound_ids servers = xi_connectors inp"
    "unbound_of servers = unbound_of (previous_servers J base)"
proof -
  define prev where "prev = previous_servers J base"
  define unbound where "unbound = filter (\<lambda>s. connectorID s = []) prev"
  define bound where "bound = bind_connectors (previous_names prev) connectors (map sv_name unbound) (xi_connectors inp)"
  have split: "servers = bound @ unbound"
    by (simp add: servers form_servers_def Let_def bound_def unbound_def prev_def)
  have known: "\<forall>i \<in> set (xi_connectors inp). \<exists>rec. map_of connectors i = Some rec \<and> con_id rec = i" using assms(1) by blast
  have ids: "map connectorID bound = xi_connectors inp" unfolding bound_def by (rule bound_connectors(1) [OF known])
  have nonempty: "connectorID s \<noteq> []" if "s \<in> set bound" for s
    using that assms(1) by (auto simp flip: ids)
  show "distinct (map fst (sv_obj s))" if "s \<in> set servers"
    using that bound_connectors(2) [OF known] previous_distinct by (auto simp: split bound_def unbound_def prev_def)
  have "filter (\<lambda>i. i \<noteq> []) (map connectorID bound) = xi_connectors inp"
    using assms(1) by (simp add: ids filter_id_conv)
  then show "bound_ids servers = xi_connectors inp"
    by (simp add: split bound_ids_def unbound_def filter_empty_conv)
  have "filter (\<lambda>s. connectorID s = []) bound = []" using nonempty by (auto simp: filter_empty_conv)
  then show "unbound_of servers = unbound_of (previous_servers J base)"
    by (simp add: split unbound_of_def unbound_def prev_def)
qed

lemma reread_ids:
  assumes "\<And>s. s \<in> set servers \<Longrightarrow> distinct (map fst (sv_obj s))"
  shows "bound_ids (map reread servers) = bound_ids servers" "unbound_of (map reread servers) = unbound_of servers"
proof -
  have id: "connectorID (reread s) = connectorID s" "unboundReason (reread s) = unboundReason s" "sv_name (reread s) = sv_name s"
    if "s \<in> set servers" for s
    using reread_str [OF assms [OF that]] by (simp_all add: connectorID_def unboundReason_def) (simp add: reread_def)
  have "map connectorID (map reread servers) = map connectorID servers" using id(1) by simp
  then show "bound_ids (map reread servers) = bound_ids servers" unfolding bound_ids_def by (rule arg_cong)
  have "filter (\<lambda>s. connectorID (reread s) = []) servers = filter (\<lambda>s. connectorID s = []) servers"
    using id(1) by (intro filter_cong) simp_all
  then show "unbound_of (map reread servers) = unbound_of servers"
    using id(2,3) by (simp add: unbound_of_def filter_map comp_def)
qed

lemma derived_mcp:
  assumes "codec_ok J" "json_doc (mcp_doc servers)" "derive_mcp J files = Inr (connectors, unbound)"
    "map_of files fileMCP = (if servers \<noteq> [] then Some (renderMCPJSON J servers) else None)"
  shows "connectors = bound_ids (map reread servers)" "unbound = unbound_of (map reread servers)"
proof -
  have "json_parse J (renderMCPJSON J servers) = Some (mcp_doc servers)"
    using assms(1,2) by (simp add: codec_ok_def renderMCPJSON_def mcp_doc_def)
  then have "out = map reread servers" if "parseMCPJSON J (renderMCPJSON J servers) = Inr out" for out
    using that read_servers_reread by (simp add: parseMCPJSON_def read_mcp_def mcp_doc_def last_member_def bind_keys_def field_key_def)
  with assms(3,4) show "connectors = bound_ids (map reread servers)" "unbound = unbound_of (map reread servers)"
    by (auto simp: derive_mcp_def rbind_Inr_iff bound_ids_def unbound_of_def split: if_splits option.splits)
qed

section \<open>agent.json\<close>

lemma rendered_description:
  assumes "codec_ok J" "json_doc (agent_doc J inp base)"
    "file_text files fileAgent = json_print J (agent_doc J inp base) @ newline"
  shows "bundleDescription J files =
    trim_space (if xi_own_description inp \<noteq> [] then xi_own_description inp else bundleDescription J base)"
proof -
  define t where "t = (if xi_own_description inp \<noteq> [] then xi_own_description inp else bundleDescription J base)"
  define ms where "ms = [(''schema'', Str bundleSchema), (''name'', Str (xi_name inp))] @
    (if t \<noteq> [] then [(''description'', Str t)] else []) @ (if xi_model inp \<noteq> [] then [(''model'', Str (xi_model inp))] else [])"
  have doc: "agent_doc J inp base = Obj (json_obj ms)"
    by (simp add: agent_doc_def t_def ms_def json_of_Obj Let_def del: json_of.simps)
  have "\<not> equal_fold J a b" if "lower_word a" "lower_word b" "a \<noteq> b" for a b
    using assms(1) that by (auto simp: codec_ok_def)
  then have "field_key J [''description''] k = k" if "k \<in> fst ` set ms" for k
    using that by (auto simp: field_key_def ms_def lower_word_def byte_in_def split: if_splits)
  then have bound: "bind_keys J [''description''] (json_obj ms) = json_obj ms"
    by (force simp: bind_keys_def json_obj_def intro!: map_idI)
  have "filter (\<lambda>(k, v). k = ''description'') (json_obj ms) = (if t \<noteq> [] then [(''description'', Str t)] else [])"
    unfolding json_obj_def by (simp add: filter_sort ms_def)
  then show ?thesis
    using assms by (simp add: bundleDescription_def codec_ok_def doc bound t_def [symmetric] is_str_def str_of_def)
qed

section \<open>The form again\<close>

lemma form_survives_bundle:
  assumes "codec_ok J" "rendered_utf8 J inp base connectors skillNames" "distinct (xi_skills inp)"
    "\<forall>i \<in> set (xi_connectors inp). i \<noteq> [] \<and> (\<exists>rec. map_of connectors i = Some rec \<and> con_id rec = i)"
    "deriveBundle J (renderBundle J inp base connectors skillNames) = Inr der"
  shows "d_instructions der = trim_space (xi_instructions inp)" "d_soul der = trim_space (xi_soul inp)"
    "mset (d_catalog der) = mset (xi_skills inp)" "set (d_bundle der) = set (bundleSkillNames base)"
    "d_connectors der = xi_connectors inp" "d_unbound der = unbound_of (previous_servers J base)"
proof -
  define files where "files = renderBundle J inp base connectors skillNames"
  define entries where "entries = form_entries J inp base (bundleSkillNames base) skillNames"
  define servers where "servers = form_servers J inp base connectors"
  note rendered = rendered_files [OF files_def entries_def servers_def]
  note facts = form_servers_facts [OF assms(4) servers_def]
  obtain catalog own connectors' unbound where d: "derive_skills J files = Inr (catalog, own)"
    "derive_mcp J files = Inr (connectors', unbound)"
    "der = \<lparr>d_instructions = trim_space (file_text files fileAgents), d_soul = trim_space (file_text files fileSoul),
       d_catalog = catalog, d_bundle = own, d_connectors = connectors', d_unbound = unbound\<rparr>"
    using assms(5) by (auto simp: deriveBundle_def Let_def rbind_Inr_iff files_def split: option.splits if_splits)
  have docs: "json_doc (skills_doc entries)" "json_doc (mcp_doc servers)"
    using assms(2) by (simp_all add: rendered_utf8_def entries_def servers_def)
  show "d_instructions der = trim_space (xi_instructions inp)" "d_soul der = trim_space (xi_soul inp)"
    by (simp_all add: d(3) rendered(1,2))
  show "mset (d_catalog der) = mset (xi_skills inp)" "set (d_bundle der) = set (bundleSkillNames base)"
    using derived_skills [OF assms(1) docs(1) d(1) rendered(3)] form_catalog [OF assms(3)]
    by (simp_all add: d(3) rendered(5) entries_def)
  show "d_connectors der = xi_connectors inp" "d_unbound der = unbound_of (previous_servers J base)"
    using derived_mcp [OF assms(1) docs(2) d(2) rendered(4)] reread_ids [OF facts(1)] facts(2,3) by (simp_all add: d(3))
qed

end
