(* ===== verification/Expert_Facts.thy ===== *)
theory Expert_Facts
  imports Expert_Write Bundle_Roundtrip
begin

text \<open>
  What was written is what is read: an expert of a form, and a team, on the service without a projection.
\<close>

section \<open>Registering a new version\<close>

lemma register_fresh:
  assumes "projection d = None" "kept s (TenantID p) (profile_ref (expert_profile i v spec files)) = None"
    "register_expert d s now p (expert_profile i v spec files) = (Inr e, s')"
  obtains stored where "e = expertFrom (sprint d) stored" "svc_GetProfile d s' p (ex_ref e) = Inr stored"
    "prof_spec stored = cloneMap spec" "prof_id stored = i"
    "\<forall>ref x. kept s (TenantID p) ref = Some x \<longrightarrow> kept s' (TenantID p) ref = Some x"
proof -
  let ?P = "expert_profile i v spec files"
  obtain stored where r: "svc_RegisterProfile d s now p ?P = (Inr stored, s')" "e = expertFrom (sprint d) stored"
    using assms(3) by (auto simp: register_expert_def rbind_Inr_iff split: prod.splits)
  have reg: "registrable p ?P"
    using r(1) by (auto simp: svc_RegisterProfile_def registrable_def split: if_splits)
  have st: "stored = ?P\<lparr>prof_ref := profile_ref ?P, prof_spec := cloneMap spec, prof_created := now\<rparr>"
    using RegisterProfile_local [OF assms(1) reg, of s now] r(1) assms(2) by (simp add: expert_profile_def Let_def)
  have "kept s' (TenantID p) (profile_ref ?P) = Some stored"
    using RegisterProfile_stores [OF assms(1) r(1)] by simp
  moreover have "ex_ref e = profile_ref ?P" by (simp add: r(2) expertFrom_def Let_def st)
  moreover have "clone_spec stored = stored" by (simp add: clone_spec_def st)
  ultimately have "svc_GetProfile d s' p (ex_ref e) = Inr stored"
    using assms(1) by (simp add: svc_GetProfile_def kept_def)
  moreover have "kept s' (TenantID p) ref = Some x" if "kept s (TenantID p) ref = Some x" for ref x
    using RegisterProfile_keeps [OF assms(1) that, of now p ?P] r(1) by simp
  ultimately show thesis using that r(2) st by (simp add: expert_profile_def)
qed

section \<open>Single experts\<close>

lemma text_list_json:
  "distinct (map fst m) \<Longrightarrow> map_of m key = Some (Strs ss) \<Longrightarrow> text_list spr (json_obj m) key = ss"
  by (simp add: text_list_def arr_field_def map_of_json_obj sprint_item_def comp_def)

lemma connectors_by_id_key:
  assumes "map_of (connectors_by_id records) i = Some rec"
  shows "con_id rec = i"
proof -
  define keyed where "keyed m \<longleftrightarrow> (\<forall>i rec. map_of m i = Some rec \<longrightarrow> con_id rec = i)" for m :: "(string, McpConnectorRecord) gomap"
  have step: "keyed (AList.update (con_id rec) rec m)" if "keyed m" for rec m
    using that by (simp add: keyed_def)
  have "keyed (fold (\<lambda>rec m. AList.update (con_id rec) rec m) records m)" if "keyed m" for m
    using that by (induction records arbitrary: m) (simp_all add: step)
  moreover have "keyed []" by (simp add: keyed_def)
  ultimately have "keyed (connectors_by_id records)" unfolding connectors_by_id_def by blast
  then show ?thesis using assms unfolding keyed_def by blast
qed

lemma snapshots_known: "snapshots_from byID i ids = Inr out \<Longrightarrow> \<forall>cid \<in> set ids. \<exists>rec. map_of byID cid = Some rec"
  by (induction byID i ids arbitrary: out rule: snapshots_from.induct) (auto simp: rbind_Inr_iff split: option.splits)

lemma first_dup_None: "first_dup i seen xs = None \<longleftrightarrow> distinct xs \<and> set xs \<inter> set seen = {}"
  by (induction i seen xs rule: first_dup.induct) auto

lemma checkRefList_None: "checkRefList field code ids = None \<longleftrightarrow> length ids \<le> maxTaskConfigRefs \<and> distinct ids"
  using first_dup_None [of 0 "[]" ids] by (auto simp: checkRefList_def split: option.splits)

lemma validated_single:
  assumes "validate_form inp0 = Inr inp" "xi_kind inp \<noteq> teamKind"
  shows "inp = trim_form inp0" "xi_kind inp = expertKind" "distinct (xi_skills inp)" "distinct (xi_connectors inp)"
proof -
  show inp: "inp = trim_form inp0"
    using assms by (auto simp: validate_form_def validateTeam_def Let_def rbind_Inr_iff split: if_splits option.splits)
  show "xi_kind inp = expertKind"
    using assms inp by (auto simp: validate_form_def Let_def split: if_splits)
  have "validate_single inp = None"
    using assms inp by (auto simp: validate_form_def Let_def split: if_splits option.splits)
  then show "distinct (xi_skills inp)" "distinct (xi_connectors inp)"
    by (auto simp: validate_single_def checkRefList_None first_dup_None split: if_splits option.splits)
qed

lemma trimmed_form:
  "trim_space (xi_instructions (trim_form inp)) = xi_instructions (trim_form inp)"
  "trim_space (xi_soul (trim_form inp)) = xi_soul (trim_form inp)"
  "trim_space (xi_description (trim_form inp)) = xi_description (trim_form inp)"
  by (simp_all add: trim_form_def trim_space_idem)

definition own_description :: "ExpertInput \<Rightarrow> ExpertInput" where
  "own_description inp = (if xi_description inp \<noteq> [] then inp\<lparr>xi_own_description := xi_description inp\<rparr> else inp)"

text \<open>The strings of the documents that are rendered for the form are valid UTF-8.\<close>

definition expert_utf8 :: "'r app_env \<Rightarrow> ('c, 'w) deps \<Rightarrow> ('c, 'w) sys \<Rightarrow> Principal \<Rightarrow> string \<Rightarrow> int \<Rightarrow> ExpertInput \<Rightarrow> bool" where
  "expert_utf8 A d s p expertID version inp \<longleftrightarrow>
     (case (rListMcpConnectors (ae_repo A) (ae_state A) (TenantID p), skill_names A (TenantID p) 0 (xi_skills inp) [],
            base_files d s p expertID version inp) of
        (Inr records, Inr names, Inr base) \<Rightarrow>
          rendered_utf8 (ae_pkg A) (own_description inp) base (connectors_by_id records) names
      | _ \<Rightarrow> True)"

lemma built_expert:
  assumes "build_expert A d s p i v inp = Inr (spec, files)" "codec_ok (ae_pkg A)" "expert_utf8 A d s p i v inp"
    "distinct (xi_skills inp)" "[] \<notin> set (xi_connectors inp)"
  obtains der snapshots where "spec = expert_spec (ae_pkg A) (own_description inp) files der snapshots"
    "d_instructions der = trim_space (xi_instructions inp)" "d_soul der = trim_space (xi_soul inp)"
    "mset (d_catalog der) = mset (xi_skills inp)" "d_connectors der = xi_connectors inp"
    "xi_description inp \<noteq> [] \<longrightarrow> bundleDescription (ae_pkg A) files = trim_space (xi_description inp)"
proof -
  have own: "xi_instructions (own_description inp) = xi_instructions inp" "xi_soul (own_description inp) = xi_soul inp"
    "xi_skills (own_description inp) = xi_skills inp" "xi_connectors (own_description inp) = xi_connectors inp"
    "xi_description inp \<noteq> [] \<Longrightarrow> xi_own_description (own_description inp) = xi_description inp"
    by (simp_all add: own_description_def)
  obtain records out names base der snapshots where b:
    "rListMcpConnectors (ae_repo A) (ae_state A) (TenantID p) = Inr records"
    "snapshotsFor (connectors_by_id records) (xi_connectors inp) = Inr out"
    "skill_names A (TenantID p) 0 (xi_skills inp) [] = Inr names" "base_files d s p i v inp = Inr base"
    "files = renderBundle (ae_pkg A) (own_description inp) base (connectors_by_id records) names"
    "deriveBundle (ae_pkg A) files = Inr der" "spec = expert_spec (ae_pkg A) (own_description inp) files der snapshots"
    using assms(1) by (auto simp: build_expert_def Let_def rbind_Inr_iff own_description_def split: option.splits)
  have utf8: "rendered_utf8 (ae_pkg A) (own_description inp) base (connectors_by_id records) names"
    using assms(3) b by (simp add: expert_utf8_def)
  have known: "\<forall>i \<in> set (xi_connectors inp). i \<noteq> [] \<and> (\<exists>rec. map_of (connectors_by_id records) i = Some rec \<and> con_id rec = i)"
    using assms(5) snapshots_known b(2) connectors_by_id_key unfolding snapshotsFor_def by metis
  note facts = form_survives_bundle [OF assms(2) utf8, unfolded own, OF assms(4) known b(6) [unfolded b(5)]]
  have "json_doc (agent_doc (ae_pkg A) (own_description inp) base)" using utf8 by (simp add: rendered_utf8_def)
  from rendered_description [OF assms(2) this rendered_files(6) [OF b(5) refl refl]]
  have "xi_description inp \<noteq> [] \<longrightarrow> bundleDescription (ae_pkg A) files = trim_space (xi_description inp)"
    using own(5) by simp
  then show thesis using that [OF b(7) facts(1,2,3,5)] by blast
qed

lemma spec_distinct: "distinct (map fst (expert_spec J inp files der snapshots))"
  unfolding expert_spec_def by (intro put_text_distinct) simp

lemma expert_of_spec:
  assumes "prof_spec stored = cloneMap (expert_spec J inp files der snapshots)" "e = expertFrom spr stored"
  shows "ex_kind e = expertKind" "ex_name e = xi_name inp" "ex_instructions e = d_instructions der" "ex_soul e = d_soul der"
    "ex_model e = xi_model inp" "ex_connectors e = d_connectors der" "ex_skills e = d_catalog der" "ex_source e = xi_source inp"
    "ex_description e = bundleDescription J files"
proof -
  let ?m = "expert_spec J inp files der snapshots"
  have str: "str_or_empty (json_obj ?m) k = (case map_of ?m k of Some (Str t) \<Rightarrow> t | _ \<Rightarrow> [])" for k
    using spec_distinct [of J inp files der snapshots]
    by (cases "map_of ?m k") (auto simp: str_or_empty_def str_field_def map_of_json_obj split: goval.splits)
  note lists = text_list_json [OF spec_distinct [of J inp files der snapshots]]
  show "ex_kind e = expertKind" "ex_name e = xi_name inp" "ex_instructions e = d_instructions der" "ex_soul e = d_soul der"
    "ex_model e = xi_model inp" "ex_source e = xi_source inp" "ex_description e = bundleDescription J files"
    by (simp_all add: assms expertFrom_def Let_def cloneMap_def str) (simp_all add: expert_spec_def)
  show "ex_connectors e = d_connectors der" "ex_skills e = d_catalog der"
    by (simp_all add: assms expertFrom_def Let_def cloneMap_def, rule lists, simp add: expert_spec_def, rule lists, simp add: expert_spec_def)
qed


section \<open>A sample\<close>

lemma ascii_valid_utf8: "ascii s \<Longrightarrow> valid_utf8 s"
  by (induction s) (simp_all add: decode_rune_def rune_error_def)

definition plain_char :: "char \<Rightarrow> bool" where
  "plain_char c \<longleftrightarrow> byte_in 33 126 c \<and> c \<noteq> CHR ''/'' \<and> \<not> byte_in 92 92 c"

lemma plain_path:
  assumes "list_all plain_char p" "p \<noteq> []" "length p \<le> 300" "p \<noteq> ''.''" "p \<noteq> ''..''"
  shows "pathProblem p = []"
proof -
  have small: "of_char c < (128 :: nat)" "32 \<le> (of_char c :: nat)" "of_char c \<noteq> (127 :: nat)" if "c \<in> set p" for c
  proof -
    have "byte_in 33 126 c" using assms(1) that by (simp add: list_all_iff plain_char_def)
    then show "of_char c < (128 :: nat)" "32 \<le> (of_char c :: nat)" "of_char c \<noteq> (127 :: nat)" by (simp_all add: byte_in_def)
  qed
  have a: "ascii p" unfolding ascii_def list_all_iff using small(1) by blast
  have plain: "plain_char c" if "c \<in> set p" for c using assms(1) that by (simp add: list_all_iff)
  have "CHR ''/'' \<notin> set p" "byte 92 \<notin> set p"
    using plain [of "CHR ''/''"] plain [of "byte 92"] by (auto simp: plain_char_def)
  moreover have "\<not> list_ex (\<lambda>r. r < 32 \<or> r = 127) (runes p)"
    unfolding runes_ascii [OF a] list_ex_iff using small(2,3) by fastforce
  moreover have "\<not> has_prefix p ''/''" using \<open>CHR ''/'' \<notin> set p\<close> assms(2) by (cases p) (auto simp: has_prefix_def)
  moreover have "path_Clean p = p"
    using \<open>\<not> has_prefix p ''/''\<close> assms(2,4,5) by (simp add: path_Clean_def split_at_no_sep [OF \<open>CHR ''/'' \<notin> set p\<close>])
  ultimately show ?thesis
    using assms(2-5) by (simp add: pathProblem_def ascii_valid_utf8 [OF a] maxBundlePathBytes_def split_at_no_sep)
qed

definition sample_form :: ExpertInput where
  "sample_form =
     \<lparr>xi_name = ''a'', xi_instructions = ''x'', xi_description = [], xi_soul = [], xi_model = [], xi_connectors = [], xi_skills = [],
      xi_source = [], xi_kind = expertKind, xi_leader = [], xi_members = [], xi_own_description = [], xi_base = None\<rparr>"

definition sample_agent :: goval where
  "sample_agent = Obj [(''name'', Str ''a''), (''schema'', Str ''orbit.agent/v1'')]"

lemma sample_agent_doc: "agent_doc sample_pkg sample_form [] = sample_agent"
  by code_simp

lemma sample_agent_text:
  shows sample_ascii: "ascii (plain_print sample_agent)"
    and sample_no_nul: "byte 0 \<notin> set (plain_print sample_agent)"
    and sample_length: "length (plain_print sample_agent) \<le> 100"
  subgoal unfolding sample_agent_def by code_simp
  subgoal unfolding sample_agent_def by code_simp
  subgoal unfolding sample_agent_def by code_simp
  done

lemma sample_agent_utf8: "json_doc sample_agent"
  by (simp add: sample_agent_def ascii_valid_utf8 del: valid_utf8.simps)

lemma sample_documents:
  "form_entries sample_pkg sample_form [] dirs [] = []" "form_servers sample_pkg sample_form [] [] = []"
proof -
  have none: "json_parse sample_pkg [] = None" using sample_codec by (simp add: codec_ok_def)
  show "form_entries sample_pkg sample_form [] dirs [] = []" "form_servers sample_pkg sample_form [] [] = []"
    by (simp_all add: form_entries_def previous_entries_def parseSkillsJSON_def form_servers_def previous_servers_def
        parseMCPJSON_def read_mcp_def none file_text_def sample_form_def List.map_filter_def catalog_ids_def)
qed

lemma sample_rendered:
  "renderBundle sample_pkg sample_form [] [] [] = [(fileAgents, ''x''), (fileAgent, plain_print sample_agent @ newline)]"
proof -
  have "xi_instructions sample_form = ''x''" "xi_soul sample_form = []" "json_print sample_pkg = plain_print"
    by (simp_all add: sample_form_def sample_pkg_def)
  then show ?thesis
    by (simp add: renderBundle_def Let_def sample_agent_doc put_or_delete_def sample_documents AList.delete_eq)
qed

lemma plain_text:
  assumes "ascii s" "byte 0 \<notin> set s"
  shows "textProblem s = []"
  using assms by (simp add: textProblem_def ascii_valid_utf8)

lemma sample_paths: "pathProblem fileAgents = []" "pathProblem fileAgent = []"
  by (rule plain_path; simp add: file_names plain_char_def byte_in_def)+

lemma sample_bundle: "bundle_validate (renderBundle sample_pkg sample_form [] [] []) = None"
proof -
  let ?t = "plain_print sample_agent @ newline"
  have t: "textProblem ?t = []"
    using sample_ascii sample_no_nul by (intro plain_text) (simp_all add: newline_def ascii_def byte_def)
  have x: "textProblem ''x'' = []" by (rule plain_text) (simp_all add: byte_def char_of_def)
  have "fileAgents < fileAgent" by (simp add: file_names)
  then have "sortedPaths [(fileAgents, ''x''), (fileAgent, ?t)] = [fileAgents, fileAgent]" by (simp add: sortedPaths_def)
  then show ?thesis
    using sample_length
    by (simp add: sample_rendered bundle_validate_def maxBundleFiles_def file_problem_def Let_def sample_paths file_text_def get_or_def
        x t [unfolded newline_def] maxBundleFileBytes_def maxBundleBytes_def newline_def)
qed

definition sample_app :: "mem_store app_env" where
  "sample_app = \<lparr>ae_repo = mem_catalog (\<lambda>r. r), ae_state = mem_New, ae_lib = None, ae_pkg = sample_pkg\<rparr>"

definition sample_user :: Principal where
  "sample_user = \<lparr>TenantID = ''t'', UserID = ''u''\<rparr>"

lemma sample_form_valid: "validate_form sample_form = Inr sample_form"
proof -
  have t: "trim_space ''a'' = ''a''" "trim_space ''x'' = ''x''"
    by (rule trim_space_graphic; simp add: graphic_def byte_in_def)+
  have r: "rune_count ''a'' = 1" "rune_count ''x'' = 1" by (simp_all add: rune_count_def runes_ascii del: runes.simps)
  have "trim_form sample_form = sample_form" by (simp add: trim_form_def sample_form_def t)
  moreover have "rune_count [] = 0" by (simp add: rune_count_def)
  ultimately show ?thesis
    using r by (simp add: validate_form_def Let_def validate_single_def checkRefList_def)
      (simp add: sample_form_def expertKind_def teamKind_def maxExpertName_def maxTeamDescription_def maxExpertInstructions_def)
qed

lemma sample_build:
  "rListMcpConnectors (ae_repo sample_app) (ae_state sample_app) (TenantID sample_user) = Inr []"
  "base_files sample_deps sample_sys sample_user i 1 sample_form = Inr []"
  "xi_connectors sample_form = []" "xi_skills sample_form = []" "xi_description sample_form = []" "ae_pkg sample_app = sample_pkg"
  by (simp_all add: sample_app_def mem_catalog_def mem_ListMcpConnectors_def rows_of_def mem_New_def sample_user_def sort_Slice_def
      base_files_def sample_form_def)

lemma sample_derived: "\<exists>der. deriveBundle sample_pkg (renderBundle sample_pkg sample_form [] [] []) = Inr der \<and>
    d_catalog der = [] \<and> d_connectors der = []"
proof -
  have x: "trim_space ''x'' = ''x''" by (rule trim_space_graphic; simp add: graphic_def byte_in_def)
  have "json_parse sample_pkg (plain_print sample_agent @ newline) = Some sample_agent"
    using sample_codec sample_agent_utf8 by (simp add: codec_ok_def sample_pkg_def)
  moreover have "doc_text sample_pkg [''schema''] ''schema'' sample_agent = Some bundleSchema"
    by (simp add: sample_agent_def doc_text_def bundleSchema_def bind_keys_def field_key_def sample_pkg_def)
  ultimately have "checkAgentJSON sample_pkg (plain_print sample_agent @ newline) = None"
    by (simp add: checkAgentJSON_def)
  moreover have "bundleSkillNames [(fileAgents, ''x''), (fileAgent, plain_print sample_agent @ newline)] = []"
    by (simp add: bundleSkillNames_keys)
  ultimately show ?thesis
    using sample_bundle
    by (simp add: deriveBundle_def sample_rendered Let_def file_text_def get_or_def x derive_skills_def derive_mcp_def)
qed


end
