(* ===== verification/Team_Facts.thy ===== *)
theory Team_Facts
  imports Task_Request Expert_Facts
begin

text \<open>
  A team that was written can be run: reading its profile back and resolving it for a task gives the
  members it was written with, and the leader's expert is the one that runs.
\<close>

section \<open>A validated team\<close>

definition member_ok :: "TeamMemberInput \<Rightarrow> bool" where
  "member_ok m \<longleftrightarrow> teamRolePattern (tmi_role m) \<and> versionedRef (tmi_expert m)"

lemma clean_members_ok:
  "clean_members i roles ms0 = Inr ms \<Longrightarrow>
     list_all member_ok ms \<and> distinct (map tmi_role ms) \<and> (\<forall>m \<in> set ms. tmi_role m \<notin> set roles) \<and> length ms = length ms0"
proof (induction ms0 arbitrary: i roles ms)
  case (Cons m0 ms0)
  let ?m = "trim_member m0"
  obtain rest where rest: "clean_members (Suc i) (tmi_role ?m # roles) ms0 = Inr rest" "ms = ?m # rest" "member_ok ?m"
    "tmi_role ?m \<notin> set roles"
    using Cons.prems by (auto simp: Let_def rbind_Inr_iff member_ok_def split: if_splits)
  from Cons.IH [OF rest(1)] show ?case using rest(2-4) by auto
qed simp

lemma validated_team:
  assumes "validate_form inp0 = Inr inp" "xi_kind inp = teamKind"
  shows "list_all member_ok (xi_members inp)" "distinct (map tmi_role (xi_members inp))"
    "minTeamMembers \<le> length (xi_members inp)" "length (xi_members inp) \<le> maxTeamMembers"
    "xi_leader inp \<in> tmi_role ` set (xi_members inp)"
proof -
  have "validateTeam (trim_form inp0) = Inr inp"
    using assms by (auto simp: validate_form_def Let_def split: if_splits option.splits)
  then obtain ms where "clean_members 0 [] (xi_members (trim_form inp0)) = Inr ms" "xi_members inp = ms"
    "minTeamMembers \<le> length (xi_members (trim_form inp0))" "length (xi_members (trim_form inp0)) \<le> maxTeamMembers"
    "xi_leader inp \<in> tmi_role ` set ms"
    by (auto simp: validateTeam_def Let_def rbind_Inr_iff split: if_splits option.splits)
  then show "list_all member_ok (xi_members inp)" "distinct (map tmi_role (xi_members inp))"
    "minTeamMembers \<le> length (xi_members inp)" "length (xi_members inp) \<le> maxTeamMembers"
    "xi_leader inp \<in> tmi_role ` set (xi_members inp)"
    using clean_members_ok by force+
qed

section \<open>Its profile\<close>

definition team_member :: "TeamMemberInput \<Rightarrow> string \<Rightarrow> TeamMember" where
  "team_member m name =
     \<lparr>tm_role = tmi_role m, tm_expert = tmi_expert m, tm_name = name, tm_description = tmi_description m, tm_label = tmi_label m\<rparr>"

lemma member_entry_read: "member_from (json_of (member_entry m name)) = team_member m name"
proof -
  define kvs where "kvs = put_text ''label'' (tmi_label m) (put_text ''description'' (tmi_description m)
       [(''role'', Str (tmi_role m)), (''expert'', Str (tmi_expert m)), (''name'', Str name)])"
  have d: "distinct (map fst kvs)" unfolding kvs_def by (intro put_text_distinct) simp
  have "member_entry m name = Obj kvs" by (simp add: member_entry_def kvs_def)
  then have "member_from (json_of (member_entry m name)) = member_from (Obj (json_obj kvs))"
    by (simp add: json_of_Obj del: json_of.simps)
  also have "\<dots> = team_member m name"
    by (simp add: member_from_def team_member_def as_obj_def str_or_empty_def str_field_def map_of_json_obj [OF d]) (simp add: kvs_def)
  finally show ?thesis .
qed

lemma team_entries_read:
  assumes "team_entries d s p i k ms = Inr entries"
  obtains names where "length names = length ms" "map (\<lambda>g. member_from (json_of g)) entries = map2 team_member ms names"
    "\<forall>m \<in> set ms. \<exists>profile. teamMemberProfile d s p i (tmi_expert m) ''expert'' = Inr profile"
proof -
  have "\<exists>names. length names = length ms \<and> map (\<lambda>g. member_from (json_of g)) entries = map2 team_member ms names \<and>
      (\<forall>m \<in> set ms. \<exists>profile. teamMemberProfile d s p i (tmi_expert m) ''expert'' = Inr profile)"
    using assms
  proof (induction ms arbitrary: k entries)
    case (Cons m ms)
    then obtain name rest where *: "teamMemberName d s p i (tmi_expert m) (member_at k ''expert'') = Inr name"
      "team_entries d s p i (Suc k) ms = Inr rest" "entries = member_entry m name # rest"
      by (auto simp: rbind_Inr_iff)
    then obtain names where "length names = length ms" "map (\<lambda>g. member_from (json_of g)) rest = map2 team_member ms names"
      "\<forall>m \<in> set ms. \<exists>profile. teamMemberProfile d s p i (tmi_expert m) ''expert'' = Inr profile"
      using Cons.IH by blast
    moreover have "\<exists>profile. teamMemberProfile d s p i (tmi_expert m) ''expert'' = Inr profile"
      using *(1) by (auto simp: teamMemberName_def teamMemberProfile_def rbind_Inr_iff split: if_splits sum.splits)
    ultimately show ?case
      by (intro exI [of _ "name # names"]) (simp add: *(3) member_entry_read)
  qed simp
  then show thesis using that by blast
qed

lemma read_members_ok:
  assumes "\<forall>x \<in> set entries. teamRolePattern (tm_role (member_from x)) \<and> versionedRef (tm_expert (member_from x)) \<and>
      tm_role (member_from x) \<notin> set roles"
    "distinct (map (\<lambda>x. tm_role (member_from x)) entries)"
  shows "read_members roles entries = Inr (map member_from entries)"
  using assms
proof (induction entries arbitrary: roles)
  case (Cons a entries)
  have "\<forall>x \<in> set entries. tm_role (member_from x) \<noteq> tm_role (member_from a)"
    using Cons.prems(2) by (simp add: image_iff) metis
  then have "read_members (tm_role (member_from a) # roles) entries = Inr (map member_from entries)"
    using Cons.prems by (intro Cons.IH) simp_all
  then show ?case using Cons.prems(1) by (simp add: Let_def)
qed simp

definition member_view :: "TeamMemberInput \<Rightarrow> string \<times> string \<times> string" where
  "member_view m = (tmi_role m, tmi_expert m, tmi_label m)"

lemma team_member_views:
  "length names = length ms \<Longrightarrow> map (\<lambda>m. (tm_role m, tm_expert m, tm_label m)) (map2 team_member ms names) = map member_view ms"
  by (induction ms names rule: list_induct2') (auto simp: team_member_def member_view_def)

lemma team_reads_back:
  assumes "team_entries d s p i 0 ms = Inr entries" "list_all member_ok ms" "distinct (map tmi_role ms)"
    "minTeamMembers \<le> length ms" "length ms \<le> maxTeamMembers" "leader \<in> tmi_role ` set ms"
    and spec: "spec = cloneMap [(''kind'', Str teamKind), (''name'', Str nm), (''leader'', Str leader), (''members'', Arr entries)]"
  obtains names where "length names = length ms" "teamFromSpec spec = Inr (leader, map2 team_member ms names)"
proof -
  obtain names where n: "length names = length ms" "map (\<lambda>g. member_from (json_of g)) entries = map2 team_member ms names"
    using team_entries_read [OF assms(1)] by metis
  have roles: "map tm_role (map2 team_member ms names) = map tmi_role ms" "map tm_expert (map2 team_member ms names) = map tmi_expert ms"
    using n(1) by (induction ms names rule: list_induct2') (auto simp: team_member_def)
  have ok: "teamRolePattern (tm_role m) \<and> versionedRef (tm_expert m)" if "m \<in> set (map2 team_member ms names)" for m
    using that assms(2) by (auto simp: team_member_def list_all_iff member_ok_def dest!: set_zip_leftD)
  have len: "length entries = length ms" using arg_cong [OF n(2), of length] n(1) by simp
  have read: "map member_from (map json_of entries) = map2 team_member ms names" using n(2) by (simp add: comp_def)
  have "\<forall>x \<in> set (map json_of entries). teamRolePattern (tm_role (member_from x)) \<and> versionedRef (tm_expert (member_from x)) \<and>
      tm_role (member_from x) \<notin> set []"
    using ok unfolding read [symmetric] by simp
  moreover have "map (\<lambda>x. tm_role (member_from x)) (map json_of entries) = map tmi_role ms"
    using arg_cong [OF read, of "map tm_role"] roles(1) by (simp add: comp_def)
  ultimately have "read_members [] (map json_of entries) = Inr (map2 team_member ms names)"
    using assms(3) read by (subst read_members_ok) simp_all
  moreover have "str_or_empty spec ''leader'' = leader" "arr_field spec ''members'' = Some (map json_of entries)"
    by (simp_all add: spec cloneMap_def str_or_empty_def str_field_def arr_field_def map_of_json_obj)
  moreover have "leader \<in> tm_role ` set (map2 team_member ms names)"
    using roles(1) assms(6) by (metis list.set_map)
  ultimately have "teamFromSpec spec = Inr (leader, map2 team_member ms names)"
    using assms(4,5) len by (simp add: teamFromSpec_def Let_def)
  then show thesis using that n(1) by blast
qed

section \<open>Running it\<close>

text \<open>A profile is not lost, so a member that was found at writing is found when the team runs.\<close>

lemma member_profile_kept:
  assumes "projection d = None" "\<forall>ref x. kept s (TenantID p) ref = Some x \<longrightarrow> kept s' (TenantID p) ref = Some x"
    "teamMemberProfile d s p i ref field = Inr profile"
  shows "teamMemberProfile d s' p i ref field = Inr profile"
proof -
  have "svc_GetProfile d s p ref = Inr profile"
    using assms(3) by (auto simp: teamMemberProfile_def split: if_splits sum.splits)
  then obtain x where "kept s (TenantID p) ref = Some x" "profile = clone_spec x"
    using assms(1) by (auto simp: svc_GetProfile_def kept_def split: option.splits)
  then have "svc_GetProfile d s' p ref = Inr profile"
    using assms(1,2) by (simp add: svc_GetProfile_def kept_def)
  with assms(3) \<open>svc_GetProfile d s p ref = Inr profile\<close> show ?thesis by (simp add: teamMemberProfile_def split: if_splits)
qed

lemma resolve_members_ok:
  assumes "\<forall>m \<in> set ms. \<exists>profile. teamMemberProfile d s p i (tm_expert m) ''expert'' = Inr profile"
  shows "\<exists>out. resolve_members J d s p i ms = Inr out \<and>
    map (\<lambda>m. (mem_role m, mem_expert m, mem_name m, mem_label m)) out = map (\<lambda>m. (tm_role m, tm_expert m, tm_name m, tm_label m)) ms"
  using assms
proof (induction ms)
  case (Cons m ms)
  then obtain profile out where "teamMemberProfile d s p i (tm_expert m) ''expert'' = Inr profile"
    "resolve_members J d s p i ms = Inr out"
    "map (\<lambda>m. (mem_role m, mem_expert m, mem_name m, mem_label m)) out = map (\<lambda>m. (tm_role m, tm_expert m, tm_name m, tm_label m)) ms"
    by auto
  then show ?case by simp
qed simp

lemma leader_fold:
  assumes "distinct (map mem_role ms)" "m \<in> set ms"
  shows "fold (\<lambda>k acc. if mem_role k = mem_role m then mem_expert k else acc) ms acc = mem_expert m"
proof -
  let ?step = "\<lambda>k acc. if mem_role k = mem_role m then mem_expert k else acc"
  have other: "fold ?step ms acc = acc" if "mem_role m \<notin> mem_role ` set ms" for ms acc
    using that by (induction ms arbitrary: acc) auto
  show ?thesis using assms
  proof (induction ms arbitrary: acc)
    case (Cons k ms)
    then show ?case by (cases "k = m") (auto intro: other)
  qed simp
qed

lemma leader_of_views:
  assumes "map (\<lambda>m. (mem_role m, mem_expert m, mem_label m)) out = map member_view ms" "distinct (map tmi_role ms)"
    and "lead \<in> set ms"
  shows "leader_expert \<lparr>team_ref = [], team_leader = tmi_role lead, team_members = out\<rparr> = tmi_expert lead"
proof -
  have "map mem_role out = map tmi_role ms"
    using arg_cong [OF assms(1), of "map fst"] by (simp add: member_view_def comp_def)
  then have roles: "distinct (map mem_role out)" using assms(2) by simp
  have "member_view lead \<in> set (map (\<lambda>m. (mem_role m, mem_expert m, mem_label m)) out)"
    unfolding assms(1) using assms(3) by simp
  then obtain m where m: "m \<in> set out" "mem_role m = tmi_role lead" "mem_expert m = tmi_expert lead"
    by (auto simp: member_view_def)
  then show ?thesis using leader_fold [OF roles m(1)] by (simp add: leader_expert_def)
qed

lemma written_members_resolve:
  assumes "projection d = None" "team_entries d s p i n ms = Inr entries" "length names = length ms"
    and "\<forall>ref x. kept s (TenantID p) ref = Some x \<longrightarrow> kept s' (TenantID p) ref = Some x"
  obtains out where "resolve_members J d s' p i (map2 team_member ms names) = Inr out"
    "map (\<lambda>m. (mem_role m, mem_expert m, mem_label m)) out = map member_view ms"
proof -
  let ?tms = "map2 team_member ms names"
  have "\<forall>m \<in> set ms. \<exists>profile. teamMemberProfile d s p i (tmi_expert m) ''expert'' = Inr profile"
    using team_entries_read [OF assms(2)] by metis
  then have "\<forall>m \<in> set ms. \<exists>profile. teamMemberProfile d s' p i (tmi_expert m) ''expert'' = Inr profile"
    using member_profile_kept [OF assms(1,4)] by metis
  then have all: "\<forall>m \<in> set ?tms. \<exists>profile. teamMemberProfile d s' p i (tm_expert m) ''expert'' = Inr profile"
    by (auto simp: team_member_def dest!: set_zip_leftD)
  obtain out where out: "resolve_members J d s' p i ?tms = Inr out"
    "map (\<lambda>m. (mem_role m, mem_expert m, mem_name m, mem_label m)) out = map (\<lambda>m. (tm_role m, tm_expert m, tm_name m, tm_label m)) ?tms"
    using resolve_members_ok [OF all, of J] by blast
  have "map (\<lambda>m. (mem_role m, mem_expert m, mem_label m)) out = map member_view ms"
    using arg_cong [OF out(2), of "map (\<lambda>(a, b, c, d). (a, b, d))"] team_member_views [OF assms(3)]
    by (simp add: comp_def case_prod_beta)
  with out(1) show thesis by (rule that)
qed


definition sample_expert :: Profile where
  "sample_expert = \<lparr>prof_id = ''expert_1'', prof_version = 1, prof_ref = ''expert_1@1'',
     prof_spec = [(''kind'', Str expertKind), (''name'', Str ''a'')], prof_created = 0, prof_files = []\<rparr>"

definition sample_team_sys :: "((string \<times> unit) list, unit) sys" where
  "sample_team_sys = sample_sys\<lparr>svc := (svc sample_sys)\<lparr>s_profiles := [(''t'', [(''expert_1@1'', sample_expert)])]\<rparr>\<rparr>"

definition sample_team :: ExpertInput where
  "sample_team = sample_form\<lparr>xi_instructions := [], xi_kind := teamKind, xi_leader := ''lead'',
     xi_members := [\<lparr>tmi_role = ''lead'', tmi_expert = ''expert_1@1'', tmi_description = [], tmi_label = []\<rparr>]\<rparr>"

lemma sample_team_valid: "validate_form sample_team = Inr sample_team"
proof -
  have t: "trim_space ''a'' = ''a''" "trim_space ''lead'' = ''lead''" "trim_space ''expert_1@1'' = ''expert_1@1''"
    by (rule trim_space_graphic; simp add: graphic_def byte_in_def)+
  have r: "rune_count ''a'' = 1" "rune_count [] = 0" by (simp_all add: rune_count_def runes_ascii del: runes.simps)
  have v: "teamRolePattern ''lead''" "versionedRef ''expert_1@1''" by code_simp+
  have "trim_form sample_team = sample_team" by (simp add: trim_form_def sample_team_def sample_form_def t teamKind_def)
  then show ?thesis
    using r v by (simp add: validate_form_def Let_def validateTeam_def)
      (simp add: sample_team_def sample_form_def expertKind_def teamKind_def maxExpertName_def team_fields_def t minTeamMembers_def
        maxTeamMembers_def trim_member_def Let_def)
qed


end
