(* ===== verification/Config_Facts.thy ===== *)
theory Config_Facts
  imports Team_Facts
begin

text \<open>
  A resolved configuration refers only to what is the tenant's own: its connectors, skills the worker can
  use, experts of the tenant, and a team whose leader's expert is the one that runs.
\<close>

definition own_expert :: "('c, 'w) deps \<Rightarrow> ('c, 'w) sys \<Rightarrow> Principal \<Rightarrow> string \<Rightarrow> bool" where
  "own_expert d s p ref \<longleftrightarrow> (\<exists>profile. svc_GetProfile d s p ref = Inr profile \<and> spec_kind profile expertKind)"

definition usable_skill :: "'r app_env \<Rightarrow> string \<Rightarrow> string \<Rightarrow> bool" where
  "usable_skill A tenantID i \<longleftrightarrow>
     (\<exists>rec files. rGetSkill (ae_repo A) (ae_state A) tenantID i = Inr rec \<and>
        skillFiles (ae_repo A) (ae_lib A) (ae_state A) tenantID i = Inr (files, True) \<and> skillUsable files)"

definition own_connector :: "'r app_env \<Rightarrow> string \<Rightarrow> McpConnectorRecord \<Rightarrow> bool" where
  "own_connector A tenantID rec \<longleftrightarrow>
     (\<exists>records. rListMcpConnectors (ae_repo A) (ae_state A) tenantID = Inr records \<and> rec \<in> set records)"

lemma checkSkill_None: "checkSkill A tenantID i field = None \<Longrightarrow> usable_skill A tenantID i"
  by (auto simp: checkSkill_def usable_skill_def split: sum.splits prod.splits if_splits)

lemma check_skills_None: "check_skills A tenantID i ids = None \<Longrightarrow> list_all (usable_skill A tenantID) ids"
  by (induction ids arbitrary: i) (auto dest: checkSkill_None split: option.splits)

lemma connectors_by_id_mem: "map_of (connectors_by_id records) i = Some rec \<Longrightarrow> rec \<in> set records"
proof -
  have "map_of (fold (\<lambda>rec m. AList.update (con_id rec) rec m) records m) i = Some rec \<Longrightarrow>
      rec \<in> set records \<or> map_of m i = Some rec" for m
  proof (induction records arbitrary: m)
    case (Cons a records)
    then show ?case by (cases "con_id a = i") fastforce+
  qed simp
  from this [of "[]"] show "map_of (connectors_by_id records) i = Some rec \<Longrightarrow> rec \<in> set records"
    by (simp add: connectors_by_id_def)
qed

lemma snapshots_of:
  "snapshots_from byID k ids = Inr snaps \<Longrightarrow>
     \<exists>recs. snaps = map connectorSnapshot recs \<and> list_all2 (\<lambda>i rec. map_of byID i = Some rec) ids recs"
proof (induction ids arbitrary: k snaps)
  case (Cons i ids)
  then obtain rec rest where "map_of byID i = Some rec" "snapshots_from byID (Suc k) ids = Inr rest"
    "snaps = connectorSnapshot rec # rest"
    by (auto simp: rbind_Inr_iff split: option.splits)
  moreover obtain recs where "rest = map connectorSnapshot recs" "list_all2 (\<lambda>i rec. map_of byID i = Some rec) ids recs"
    using Cons.IH calculation(2) by blast
  ultimately show ?case by (intro exI [of _ "rec # recs"]) simp
qed simp

lemma own_snapshots:
  assumes "connectorSnapshots A tenantID ids = Inr snaps"
  shows "\<exists>recs. snaps = map connectorSnapshot recs \<and> map con_id recs = ids \<and> list_all (own_connector A tenantID) recs"
proof (cases "ids = []")
  case True
  then show ?thesis using assms by (simp add: connectorSnapshots_def)
next
  case False
  then obtain records where records: "rListMcpConnectors (ae_repo A) (ae_state A) tenantID = Inr records"
    "snapshots_from (connectors_by_id records) 0 ids = Inr snaps"
    using assms by (auto simp: connectorSnapshots_def snapshotsFor_def rbind_Inr_iff)
  obtain recs where recs: "snaps = map connectorSnapshot recs"
    "list_all2 (\<lambda>i rec. map_of (connectors_by_id records) i = Some rec) ids recs"
    using snapshots_of [OF records(2)] by blast
  have "map con_id recs = ids" using recs(2)
    by (induction ids recs rule: list_all2_induct) (auto dest: connectors_by_id_key)
  moreover have "list_all (own_connector A tenantID) recs" using recs(2)
    by (induction ids recs rule: list_all2_induct) (auto simp: own_connector_def records(1) dest: connectors_by_id_mem)
  ultimately show ?thesis using recs(1) by blast
qed

section \<open>Teams of a configuration\<close>

definition team_ok :: "('c, 'w) deps \<Rightarrow> ('c, 'w) sys \<Rightarrow> Principal \<Rightarrow> ConfigTeam \<Rightarrow> bool" where
  "team_ok d s p team \<longleftrightarrow> 1 \<le> length (team_members team) \<and> length (team_members team) \<le> 8 \<and>
     distinct (map mem_role (team_members team)) \<and>
     list_all (\<lambda>m. own_expert d s p (mem_expert m) \<and> rune_count (mem_description m) \<le> 300) (team_members team) \<and>
     (\<exists>m \<in> set (team_members team). mem_role m = team_leader team \<and> mem_expert m = leader_expert team)"

lemma memberDescription_short: "rune_count (memberDescription J d s p m expert) \<le> 300"
  by (auto simp: memberDescription_def Let_def rune_count_def maxTeamDescription_def runes_take)

lemma read_members_distinct:
  "read_members roles entries = Inr ms \<Longrightarrow> distinct (map tm_role ms) \<and> (\<forall>m \<in> set ms. tm_role m \<notin> set roles) \<and> length ms = length entries"
proof (induction entries arbitrary: roles ms)
  case (Cons x entries)
  then obtain rest where rest: "read_members (tm_role (member_from x) # roles) entries = Inr rest" "ms = member_from x # rest"
    "tm_role (member_from x) \<notin> set roles"
    by (auto simp: Let_def rbind_Inr_iff split: if_splits)
  from Cons.IH [OF rest(1)] show ?case using rest(2,3) by auto
qed simp

lemma resolved_members:
  "resolve_members J d s p i ms = Inr out \<Longrightarrow> map mem_role out = map tm_role ms \<and>
     list_all (\<lambda>m. own_expert d s p (mem_expert m) \<and> rune_count (mem_description m) \<le> 300) out"
proof (induction ms arbitrary: out)
  case (Cons m ms)
  then obtain expert rest where r: "teamMemberProfile d s p i (tm_expert m) ''expert'' = Inr expert"
    "resolve_members J d s p i ms = Inr rest"
    "out = \<lparr>mem_role = tm_role m, mem_expert = tm_expert m, mem_name = tm_name m,
       mem_description = memberDescription J d s p m expert, mem_label = tm_label m\<rparr> # rest"
    by (auto simp: rbind_Inr_iff)
  then show ?case using Cons.IH [OF r(2)]
    by (auto simp: own_expert_def memberDescription_short teamMemberProfile_def split: if_splits sum.splits)
qed simp

lemma resolved_team:
  assumes "resolveTeam J d s p profile = Inr team"
  shows "team_ok d s p (team\<lparr>team_ref := ref\<rparr>)"
proof -
  obtain leader members ms where t: "teamFromSpec (prof_spec profile) = Inr (leader, members)"
    "resolve_members J d s p (prof_id profile) members = Inr ms"
    "team = \<lparr>team_ref = [], team_leader = leader, team_members = ms\<rparr>"
    using assms by (auto simp: resolveTeam_def rbind_Inr_iff)
  obtain raw where raw: "read_members [] raw = Inr members" "minTeamMembers \<le> length raw" "length raw \<le> maxTeamMembers"
    "leader \<in> set (map tm_role members)"
    using t(1) by (auto simp: teamFromSpec_def Let_def rbind_Inr_iff split: if_splits)
  note ms = resolved_members [OF t(2)] and members = read_members_distinct [OF raw(1)]
  have len: "length ms = length raw" using arg_cong [OF conjunct1 [OF ms], of length] members by simp
  have roles: "distinct (map mem_role ms)" "leader \<in> set (map mem_role ms)" using ms members raw(4) by simp_all
  obtain m where m: "m \<in> set ms" "mem_role m = leader" using roles(2) by auto
  have "leader_expert (team\<lparr>team_ref := ref\<rparr>) = mem_expert m"
    using leader_fold [OF roles(1) m(1)] m(2) by (simp add: leader_expert_def t(3))
  then show ?thesis
    using m ms len raw(2,3) roles(1) by (auto simp: team_ok_def t(3) minTeamMembers_def maxTeamMembers_def)
qed

definition expert_ok :: "('c, 'w) deps \<Rightarrow> ('c, 'w) sys \<Rightarrow> Principal \<Rightarrow> string \<Rightarrow> bool" where
  "expert_ok d s p ref \<longleftrightarrow> ref = [] \<or> ref = ''default@1'' \<or>
     (\<exists>profile. svc_GetProfile d s p ref = Inr profile \<and> \<not> spec_kind profile teamKind)"

lemma selected_expert:
  assumes "select_expert J d s p req = Inr (expert, team)"
  shows "case team of None \<Rightarrow> expert = tq_expert req \<and> expert_ok d s p expert
    | Some t \<Rightarrow> team_ok d s p t \<and> leader_expert t = expert"
proof -
  obtain profile where checked: "checkExpert d s p (if tq_team_ref req \<noteq> [] then tq_team_ref req else tq_expert req) = Inr profile"
    using assms by (auto simp: select_expert_def split: sum.splits)
  show ?thesis
  proof (cases "spec_kind profile teamKind")
    case True
    then show ?thesis
      using assms checked resolved_team
      by (auto simp: select_expert_def rbind_Inr_iff Let_def split: if_splits)
  next
    case False
    then have "team = None" "expert = tq_expert req" "tq_team_ref req = []"
      using assms checked by (auto simp: select_expert_def split: if_splits)
    then show ?thesis
      using checked False by (auto simp: checkExpert_def expert_ok_def split: if_splits sum.splits)
  qed
qed

text \<open>
  C16. A resolved configuration holds nothing that is not the tenant's own: its connectors are snapshots of
  connectors of the tenant, in the order asked for, its skills are skills the tenant's worker can use, its
  expert is one of the tenant's or the default, and every member of its team is an expert of the tenant;
  references are at most 20 and distinct, a team has 1 to 8 members with distinct roles, and it runs
  as its leader's expert.
\<close>

theorem resolved_config_is_own:
  assumes "ResolveTaskConfig A d s p req = Inr c"
  shows "ci_mode c \<in> {''default'', ''plan'', ''ask''} \<and> ci_skills c = tq_skills req \<and>
    length (given_ids (ci_skills c)) \<le> 20 \<and> distinct (given_ids (ci_skills c)) \<and>
    list_all (usable_skill A (TenantID p)) (given_ids (ci_skills c)) \<and>
    (case ci_connectors c of None \<Rightarrow> tq_connectors req = None
     | Some snaps \<Rightarrow> \<exists>recs. snaps = map connectorSnapshot recs \<and> tq_connectors req = Some (map con_id recs) \<and>
         list_all (own_connector A (TenantID p)) recs \<and> length recs \<le> 20) \<and>
    (case ci_team c of None \<Rightarrow> ci_expert c = tq_expert req \<and> expert_ok d s p (ci_expert c)
     | Some team \<Rightarrow> team_ok d s p team \<and> leader_expert team = ci_expert c)"
proof -
  obtain permissions expert team connectors where r: "select_expert (ae_pkg A) d s p req = Inr (expert, team)"
    "checkRefList ''skills'' ''SKILLS_INVALID'' (given_ids (tq_skills req)) = None"
    "checkRefList ''connector_ids'' ''CONNECTORS_INVALID'' (given_ids (tq_connectors req)) = None"
    "request_connectors A (TenantID p) (tq_connectors req) = Inr connectors"
    "check_skills A (TenantID p) 0 (given_ids (tq_skills req)) = None"
    "ci_mode c \<in> {''default'', ''plan'', ''ask''}" "ci_skills c = tq_skills req" "ci_connectors c = connectors"
    "ci_team c = team" "ci_expert c = expert"
    using assms by (auto simp: ResolveTaskConfig_def Let_def rbind_Inr_iff split: if_splits option.splits)
  have refs: "length (given_ids (tq_skills req)) \<le> 20" "distinct (given_ids (tq_skills req))"
    "length (given_ids (tq_connectors req)) \<le> 20"
    using r(2,3) by (simp_all add: checkRefList_None maxTaskConfigRefs_def)
  have "case connectors of None \<Rightarrow> tq_connectors req = None
     | Some snaps \<Rightarrow> \<exists>recs. snaps = map connectorSnapshot recs \<and> tq_connectors req = Some (map con_id recs) \<and>
         list_all (own_connector A (TenantID p)) recs \<and> length recs \<le> 20"
  proof (cases "tq_connectors req")
    case (Some ids)
    then obtain snaps where "connectorSnapshots A (TenantID p) ids = Inr snaps" "connectors = Some snaps"
      using r(4) by (auto simp: request_connectors_def rbind_Inr_iff)
    with own_snapshots obtain recs where "snaps = map connectorSnapshot recs" "map con_id recs = ids"
      "list_all (own_connector A (TenantID p)) recs" by metis
    with \<open>connectors = Some snaps\<close> Some refs(3) show ?thesis by (auto simp: given_ids_def)
  qed (use r(4) in \<open>simp add: request_connectors_def\<close>)
  then show ?thesis using refs selected_expert [OF r(1)] check_skills_None [OF r(5)] r(6-10) by (cases team) (simp_all, elim conjE, simp)
qed

theorem resolved_config_is_own_witness:
  "\<exists>c. ResolveTaskConfig sample_app sample_deps sample_team_sys sample_user
      \<lparr>tq_expert = ''expert_1@1'', tq_team_ref = [], tq_model = [], tq_skills = None, tq_connectors = None, tq_mode = [],
       tq_permissions = None\<rparr> = Inr c \<and> ci_expert c = ''expert_1@1'' \<and> ci_mode c \<in> {''default'', ''plan'', ''ask''}"
proof -
  let ?req = "\<lparr>tq_expert = ''expert_1@1'', tq_team_ref = [], tq_model = [], tq_skills = None, tq_connectors = None, tq_mode = [],
       tq_permissions = None\<rparr>"
  have none: "projection sample_deps = None" by (simp add: sample_deps_def)
  have "svc_GetProfile sample_deps sample_team_sys sample_user ''expert_1@1'' = Inr (clone_spec sample_expert)"
    using none by (simp add: svc_GetProfile_def sample_team_sys_def tenant_profiles_def sample_user_def get_or_def)
  moreover have "\<not> spec_kind (clone_spec sample_expert) teamKind"
    by (simp add: spec_kind_def clone_spec_def sample_expert_def cloneMap_def map_of_json_obj expertKind_def teamKind_def)
  moreover have "versionedRef ''expert_1@1''" by code_simp
  ultimately have "select_expert sample_pkg sample_deps sample_team_sys sample_user ?req = Inr (''expert_1@1'', None)"
    by (simp add: select_expert_def checkExpert_def)
  moreover obtain permissions where "ResolvePermissions sample_deps sample_team_sys sample_user None = Inr permissions"
    by (simp add: ResolvePermissions_def validatePermissions_def svc_UserSettings_def projected_def none)
  ultimately obtain c where c: "ResolveTaskConfig sample_app sample_deps sample_team_sys sample_user ?req = Inr c" "ci_expert c = ''expert_1@1''"
    by (simp add: ResolveTaskConfig_def Let_def sample_build given_ids_def checkRefList_def request_connectors_def)
  show ?thesis using resolved_config_is_own [OF c(1)] c by blast
qed

end
