(* ===== verification/Bundle_Secrets.thy ===== *)
theory Bundle_Secrets
  imports Bundle_Codec
begin

text \<open>
  Removing the literal credentials of an mcp.json entry (\<open>scrub\<close>) leaves none: every field it names is
  gone, and a field that stays was not one of them.
\<close>

lemma obj_field_update:
  "obj_field (AList.update k v m) k' = (if k' = k then (case v of Obj kvs \<Rightarrow> Some kvs | _ \<Rightarrow> None) else obj_field m k')"
  by (simp add: obj_field_def split: goval.splits)

lemma cut_field: "CHR ''.'' \<notin> set kind \<Longrightarrow> cut_at (CHR ''.'') (kind @ CHR ''.'' # name) = (kind, name, True)"
  by (simp add: cut_at_def takeWhile_append dropWhile_append)

definition tables :: "string list" where
  "tables = [''headers'', ''env'']"

text \<open>The fields \<open>secretFields\<close> can name.\<close>

definition field_form :: "string \<Rightarrow> bool" where
  "field_form f \<longleftrightarrow> f = ''url'' \<or> has_prefix f ''args['' \<or> (\<exists>kind \<in> set tables. \<exists>name. f = kind @ CHR ''.'' # name)"

lemma table_field:
  assumes "kind \<in> set tables"
  shows "kind @ CHR ''.'' # name \<noteq> ''url''" "\<not> has_prefix (kind @ CHR ''.'' # name) ''args[''" "CHR ''.'' \<notin> set kind"
  using assms by (auto simp: tables_def has_prefix_def)

lemma remove_table_field:
  assumes "kind \<in> set tables"
  shows "remove_field m (kind @ CHR ''.'' # name) =
    (case obj_field m kind of None \<Rightarrow> m | Some kvs \<Rightarrow> AList.update kind (Obj (AList.delete name kvs)) m)"
  unfolding remove_field_def using table_field(1,2) [OF assms, of name] by (simp add: cut_field [OF table_field(3) [OF assms]])

lemma remove_args_field: "has_prefix f ''args['' \<Longrightarrow> remove_field m f = AList.delete ''args'' m"
  by (auto simp: remove_field_def has_prefix_def)

lemma field_cases:
  assumes "field_form f"
  obtains (url) "f = ''url''" "\<not> has_prefix f ''args[''" | (args) "has_prefix f ''args[''" "f \<noteq> ''url''"
    | (table) kind name where "kind \<in> set tables" "f = kind @ CHR ''.'' # name" "f \<noteq> ''url''" "\<not> has_prefix f ''args[''"
  using assms table_field(1,2) by (auto simp: field_form_def) (auto simp: has_prefix_def)

lemma remove_field_keeps:
  assumes "field_form f"
  shows "map_of (remove_field m f) ''url'' = (if f = ''url'' then None else map_of m ''url'') \<and>
    arr_field (remove_field m f) ''args'' = (if has_prefix f ''args['' then None else arr_field m ''args'')"
  using assms
proof (cases rule: field_cases)
  case url
  then show ?thesis by (simp add: remove_field_def arr_field_def)
next
  case args
  then show ?thesis by (simp add: remove_args_field arr_field_def)
next
  case (table kind name)
  have "kind \<noteq> ''url''" "kind \<noteq> ''args''" using table(1) by (auto simp: tables_def)
  moreover have "remove_field m f = m \<or> (\<exists>v. remove_field m f = AList.update kind v m)"
    by (auto simp: table(2) remove_table_field [OF table(1)] split: option.splits)
  ultimately show ?thesis using table(3,4) by (auto simp: arr_field_def)
qed

lemma remove_field_table:
  assumes "field_form f" "kind \<in> set tables"
  shows "obj_field (remove_field m f) kind = map_option (filter (\<lambda>(name, v). f \<noteq> kind @ CHR ''.'' # name)) (obj_field m kind)"
proof -
  have other: "k' @ CHR ''.'' # n' \<noteq> kind @ CHR ''.'' # n" if "k' \<in> set tables" "k' \<noteq> kind" for k' n n'
    using that assms(2) by (auto simp: tables_def)
  have kind: "kind \<noteq> ''url''" "kind \<noteq> ''args''" using assms(2) by (auto simp: tables_def)
  have all: "map_option (filter (\<lambda>(name, v). f \<noteq> kind @ CHR ''.'' # name)) x = x" if "\<And>n. f \<noteq> kind @ CHR ''.'' # n" for x :: "obj option"
    using that by (cases x) simp_all
  consider "f = ''url''" | "has_prefix f ''args[''" | k' n' where "k' \<in> set tables" "f = k' @ CHR ''.'' # n'"
    using assms(1) by (auto simp: field_form_def)
  then show ?thesis
  proof cases
    case 1
    have "f \<noteq> kind @ CHR ''.'' # n" for n using 1 table_field(1) [OF assms(2), of n] by simp
    then show ?thesis using kind 1 by (subst all) (simp_all add: remove_field_def obj_field_def)
  next
    case 2
    have "f \<noteq> kind @ CHR ''.'' # n" for n using 2 table_field(2) [OF assms(2)] by blast
    then show ?thesis using kind 2 by (subst all) (simp_all add: remove_args_field obj_field_def)
  next
    case 3
    show ?thesis
    proof (cases "k' = kind")
      case True
      then show ?thesis
        using 3 by (cases "obj_field m kind")
          (auto simp: remove_table_field obj_field_update AList.delete_eq case_prod_beta intro!: filter_cong)
    next
      case False
      then show ?thesis
        using 3 other [OF 3(1) False] by (subst all) (auto simp: remove_table_field obj_field_update split: option.splits)
    qed
  qed
qed

lemma remove_fields:
  assumes "\<forall>f \<in> set fs. field_form f"
  shows "map_of (fold (\<lambda>f m. remove_field m f) fs m) ''url'' = (if ''url'' \<in> set fs then None else map_of m ''url'')"
    "arr_field (fold (\<lambda>f m. remove_field m f) fs m) ''args'' =
      (if \<exists>f \<in> set fs. has_prefix f ''args['' then None else arr_field m ''args'')"
    "kind \<in> set tables \<Longrightarrow> obj_field (fold (\<lambda>f m. remove_field m f) fs m) kind =
      map_option (filter (\<lambda>(name, v). kind @ CHR ''.'' # name \<notin> set fs)) (obj_field m kind)"
  using assms
proof (induction fs arbitrary: m)
  case Nil
  {
    case 1
    then show ?case by simp
  next
    case 2
    then show ?case by simp
  next
    case 3
    then show ?case by (cases "obj_field m kind") simp_all
  }
next
  case (Cons f fs)
  {
    case 1
    then show ?case using Cons.IH(1) [of "remove_field m f"] by (auto simp: remove_field_keeps)
  next
    case 2
    then show ?case using Cons.IH(2) [of "remove_field m f"] by (auto simp: remove_field_keeps)
  next
    case 3
    then show ?case using Cons.IH(3) [of "remove_field m f"]
      by (cases "obj_field m kind") (auto simp: remove_field_table intro!: filter_cong)
  }
qed

lemma secretFields_form: "f \<in> set (secretFields s) \<Longrightarrow> field_form f"
  by (auto simp: secretFields_def table_secrets_def arg_secrets_def field_form_def tables_def has_prefix_def split: option.splits if_splits)

lemma secretFields_empty_iff:
  "secretFields s = [] \<longleftrightarrow> (\<forall>kind \<in> set tables. table_secrets s kind = []) \<and> arg_secrets s = [] \<and>
     (server_str s ''url'' = [] \<or> \<not> secret_url (server_str s ''url''))"
proof -
  have "sort xs = [] \<longleftrightarrow> xs = []" for xs :: "string list"
    by (metis length_0_conv length_sort)
  then show ?thesis by (auto simp: secretFields_def tables_def)
qed

lemma table_secrets_named:
  "kind \<in> set tables \<Longrightarrow> set (table_secrets s kind) \<subseteq> set (secretFields s)"
  by (auto simp: secretFields_def tables_def)

lemma scrubbed_table:
  assumes "kind \<in> set tables"
  shows "table_secrets (snd (scrub s)) kind = []"
proof -
  have "obj_field (sv_obj (snd (scrub s))) kind =
      map_option (filter (\<lambda>(name, v). kind @ CHR ''.'' # name \<notin> set (secretFields s))) (obj_field (sv_obj s) kind)"
    using secretFields_form by (simp add: scrub_def remove_fields(3) assms)
  then show ?thesis
    using table_secrets_named [OF assms, of s]
    by (auto simp: table_secrets_def filter_empty_conv image_subset_iff split: option.splits) blast
qed

lemma scrubbed_args: "arg_secrets (snd (scrub s)) = []"
proof (cases "arg_secrets s = []")
  case False
  define f where "f = hd (arg_secrets s)"
  have "f \<in> set (arg_secrets s)" unfolding f_def using False by (rule hd_in_set)
  then have "f \<in> set (secretFields s)" "has_prefix f ''args[''"
    by (auto simp: secretFields_def arg_secrets_def has_prefix_def split: option.splits)
  then show ?thesis using secretFields_form by (auto simp: scrub_def arg_secrets_def remove_fields(2))
next
  case True
  have "arr_field (sv_obj (snd (scrub s))) ''args'' \<in> {None, arr_field (sv_obj s) ''args''}"
    using secretFields_form by (simp add: scrub_def remove_fields(2))
  with True show ?thesis by (auto simp: arg_secrets_def)
qed

lemma scrubbed_url: "\<not> secret_url (server_str (snd (scrub s)) ''url'') \<or> server_str (snd (scrub s)) ''url'' = []"
proof -
  have "map_of (sv_obj (snd (scrub s))) ''url'' = (if ''url'' \<in> set (secretFields s) then None else map_of (sv_obj s) ''url'')"
    using secretFields_form by (simp add: scrub_def remove_fields(1))
  moreover have "''url'' \<in> set (secretFields s)" if "server_str s ''url'' \<noteq> []" "secret_url (server_str s ''url'')"
    using that by (simp add: secretFields_def)
  ultimately show ?thesis by (auto simp: server_str_def str_or_empty_def str_field_def)
qed

lemma scrubbed_clean: "secretFields (snd (scrub s)) = []"
  using scrubbed_table scrubbed_args scrubbed_url by (auto simp: secretFields_empty_iff)

end
