(* ===== verification/Expert_Import.thy ===== *)
theory Expert_Import
  imports Expert_Write Bundle_Secrets
begin

text \<open>
  The two ways to get an expert without writing one (\<open>internal/app/expert_import.go\<close>): from a catalog
  agent, whose files become the bundle, and from an assistant (persona) of the tenant.
\<close>

record SkippedFile =
  sk_path :: string
  sk_reason :: string

record ImportedExpert =
  im_expert :: Expert
  im_lost :: "string list"            \<comment> \<open>\<open>Unmatched.Connectors\<close>; no skills are matched\<close>
  im_unbound :: "MCPUnbound list"
  im_skipped :: "SkippedFile list"

section \<open>Texts\<close>

definition clip :: "string \<Rightarrow> nat \<Rightarrow> string" where
  "clip text0 limit =
     (let text = trim_space text0 in if rune_count text > limit then string_of_runes (take limit (runes text)) else text)"

fun join_blank :: "string list \<Rightarrow> string" where
  "join_blank [] = []"
| "join_blank [s] = s"
| "join_blank (s # ss) = s @ newline @ newline @ join_blank ss"

definition agentInstructions :: "string list \<Rightarrow> string \<Rightarrow> string \<Rightarrow> string" where
  "agentInstructions prompts name desc =
     (let text = join_blank (filter (\<lambda>t. t \<noteq> []) (map trim_space prompts))
      in clip (if text = [] then trim_space (trim_space name @ newline @ newline @ trim_space desc) else text)
           maxExpertInstructions)"

text \<open>A soul never takes the room of the instructions.\<close>

definition fitPrompt :: "string \<Rightarrow> string \<Rightarrow> string \<times> string \<times> string list" where
  "fitPrompt soul0 instructions0 =
     (let limit = maxExpertInstructions - 1000;
          long_soul = rune_count soul0 > limit;
          soul = (if long_soul then clip soul0 limit else soul0);
          room = maxExpertInstructions - rune_count soul;
          long_text = rune_count instructions0 > room
      in (soul, if long_text then clip instructions0 room else instructions0,
          (if long_soul then [fileSoul] else []) @ (if long_text then [fileAgents] else [])))"

section \<open>The files of a snapshot\<close>

definition skip_reason :: "bundleFiles \<Rightarrow> nat \<Rightarrow> SkillFile \<Rightarrow> string" where
  "skip_reason out used f =
     (if pathProblem (sf_path f) \<noteq> [] then pathProblem (sf_path f)
      else if textProblem (sf_body f) \<noteq> [] then ''binary file''
      else if length (sf_body f) > maxBundleFileBytes then ''over '' @ itoa maxBundleFileBytes @ '' bytes''
      else if has_key out (sf_path f) then ''the path is listed twice''
      else if length out \<ge> maxBundleFiles then ''the bundle has '' @ itoa maxBundleFiles @ '' files already''
      else if used + length (sf_body f) > maxBundleBytes then ''the bundle is full''
      else [])"

fun take_files :: "bundleFiles \<Rightarrow> nat \<Rightarrow> SkillFile list \<Rightarrow> bundleFiles \<times> SkippedFile list" where
  "take_files out used [] = (out, [])"
| "take_files out used (f # files) =
     (let reason = skip_reason out used f in
      if reason \<noteq> [] then
        (case take_files out used files of (b, skipped) \<Rightarrow> (b, \<lparr>sk_path = sf_path f, sk_reason = reason\<rparr> # skipped))
      else take_files (AList.update (sf_path f) (sf_body f) out) (used + length (sf_body f)) files)"

definition snapshotBundle :: "SkillFile list \<Rightarrow> bundleFiles \<times> SkippedFile list" where
  "snapshotBundle files = take_files [] 0 files"

section \<open>Names matched to the tenant's connectors\<close>

fun unique_from :: "(nat \<Rightarrow> nat) \<Rightarrow> string list \<Rightarrow> string list \<Rightarrow> string list" where
  "unique_from f seen [] = []"
| "unique_from f seen (name0 # names) =
     (let name = trim_space name0 in
      if name = [] \<or> ToLower f name \<in> set seen then unique_from f seen names
      else name # unique_from f (ToLower f name # seen) names)"

definition uniqueNames :: "(nat \<Rightarrow> nat) \<Rightarrow> string list \<Rightarrow> string list" where
  "uniqueNames f names = unique_from f [] names"

definition matchNames :: "(nat \<Rightarrow> nat) \<Rightarrow> string list \<Rightarrow> (string, string) gomap \<Rightarrow> string list \<times> string list" where
  "matchNames f wanted have =
     (let names = uniqueNames f wanted
      in (List.map_filter (\<lambda>name. map_of have (ToLower f name)) names, filter (\<lambda>name. \<not> has_key have (ToLower f name)) names))"

definition matchConnectors :: "(nat \<Rightarrow> nat) \<Rightarrow> 'r app_env \<Rightarrow> string \<Rightarrow> string list \<Rightarrow> (string list \<times> string list) result" where
  "matchConnectors f A tenantID names =
     rbind (rListMcpConnectors (ae_repo A) (ae_state A) tenantID) (\<lambda>records.
       Inr (matchNames f names (fold (\<lambda>rec m. AList.update (ToLower f (trim_space (con_name rec))) (con_id rec) m) records [])))"

section \<open>mcp.json and skills.json of a snapshot\<close>

definition connector_fits :: "bundle_pkg \<Rightarrow> string list \<Rightarrow> mcpServer \<Rightarrow> McpConnectorRecord \<Rightarrow> bool" where
  "connector_fits J bound s rec \<longleftrightarrow>
     (equal_fold J (trim_space (con_name rec)) (sv_name s) \<or> con_url rec \<noteq> [] \<and> con_url rec = server_str s ''url'') \<and>
     (con_id rec \<in> set bound \<or> length bound < maxExpertConnectors)"

definition removed_note :: "bundle_pkg \<Rightarrow> mcpServer \<Rightarrow> string list \<Rightarrow> SkippedFile list" where
  "removed_note J s removed =
     (case removed of
        [] \<Rightarrow> []
      | field # _ \<Rightarrow> [\<lparr>sk_path = fileMCP, sk_reason = field @ '' of '' @ go_quote J (sv_name s) @ '' held a literal credential and was removed''\<rparr>])"

text \<open>
  One entry: its connector id is the tenant's, never the snapshot's. \<open>bound\<close> lists the distinct connectors
  so far, and \<open>ids\<close> is the list that is returned, which may have started with an id twice.
\<close>

fun import_servers :: "bundle_pkg \<Rightarrow> McpConnectorRecord list \<Rightarrow> string list \<Rightarrow> string list \<Rightarrow> mcpServer list
    \<Rightarrow> mcpServer list \<times> string list \<times> SkippedFile list" where
  "import_servers J records bound ids [] = ([], ids, [])"
| "import_servers J records bound ids (s0 # servers) =
     (case scrub (s0\<lparr>sv_obj := AList.delete ''connector_id'' (sv_obj s0)\<rparr>) of (removed, s) \<Rightarrow>
        let note = removed_note J s removed in
        if server_str s ''url'' = [] \<and> server_str s ''command'' = [] then
          (case import_servers J records bound ids servers of (held, out, notes) \<Rightarrow> (held, out, note @ notes))
        else
          (case find (connector_fits J bound s) records of
             None \<Rightarrow>
               (case import_servers J records bound ids servers of (held, out, notes) \<Rightarrow> (s # held, out, note @ notes))
           | Some rec \<Rightarrow>
               let s' = s\<lparr>sv_obj := AList.update ''connector_id'' (Str (con_id rec)) (sv_obj s)\<rparr>;
                   new = con_id rec \<notin> set bound in
               (case import_servers J records (if new then con_id rec # bound else bound)
                       (if new then ids @ [con_id rec] else ids) servers of
                  (held, out, notes) \<Rightarrow> (s' # held, out, note @ notes))))"

definition importMCP :: "bundle_pkg \<Rightarrow> bundleFiles \<Rightarrow> McpConnectorRecord list \<Rightarrow> string list
    \<Rightarrow> bundleFiles \<times> string list \<times> SkippedFile list" where
  "importMCP J files records ids =
     (case map_of files fileMCP of
        None \<Rightarrow> (files, ids, [])
      | Some content \<Rightarrow>
          let files' = AList.delete fileMCP files in
          (case parseMCPJSON J content of
             Inl e \<Rightarrow> (files', ids, [\<lparr>sk_path = fileMCP, sk_reason = ''not a valid mcp.json''\<rparr>])
           | Inr servers \<Rightarrow>
               (case import_servers J records (remdups ids) ids servers of
                  (held, out, notes) \<Rightarrow>
                    (if held \<noteq> [] then AList.update fileMCP (renderMCPJSON J held) files' else files', out, notes))))"

definition entry_problem :: "'r app_env \<Rightarrow> string \<Rightarrow> string list \<Rightarrow> nat \<times> skillEntry \<Rightarrow> err option" where
  "entry_problem A tenantID dirs = (\<lambda>(i, e).
     if se_source e = ''bundle'' \<and> se_name e \<notin> set dirs then Some (FieldError ''BUNDLE_SKILL_MISSING'' ''skills.json'' (se_name e))
     else if is_catalog e then checkSkill A tenantID (se_id e) (''skills['' @ itoa i @ '']'')
     else None)"

definition importSkills :: "'r app_env \<Rightarrow> string \<Rightarrow> bundleFiles \<Rightarrow> bundleFiles \<times> SkippedFile list" where
  "importSkills A tenantID files =
     (case map_of files fileSkills of
        None \<Rightarrow> (files, [])
      | Some content \<Rightarrow>
          if (case parseSkillsJSON (ae_pkg A) content of
                Inl e \<Rightarrow> True
              | Inr entries \<Rightarrow> first_error (entry_problem A tenantID (bundleSkillNames files)) (List.enumerate 0 entries) \<noteq> None)
          then (AList.delete fileSkills files, [\<lparr>sk_path = fileSkills,
            sk_reason = ''its entries do not match this tenant or the bundle'' @ [byte 39] @ ''s skills/ directories''\<rparr>])
          else (files, []))"

section \<open>The two imports\<close>

definition cut_note :: "string \<Rightarrow> SkippedFile" where
  "cut_note p = \<lparr>sk_path = p, sk_reason = ''cut to fit '' @ itoa maxExpertInstructions @ '' characters of soul and instructions''\<rparr>"

definition import_form :: "string \<Rightarrow> string \<Rightarrow> string \<Rightarrow> string list \<Rightarrow> string \<Rightarrow> string \<Rightarrow> bundleFiles option \<Rightarrow> ExpertInput" where
  "import_form name instructions soul ids source desc base =
     \<lparr>xi_name = name, xi_instructions = instructions, xi_description = [], xi_soul = soul, xi_model = [], xi_connectors = ids,
      xi_skills = [], xi_source = source, xi_kind = [], xi_leader = [], xi_members = [], xi_own_description = desc,
      xi_base = base\<rparr>"

text \<open>What is imported of an agent: the form, the names that did not match, and what was left out.\<close>

definition agent_import :: "(nat \<Rightarrow> nat) \<Rightarrow> 'r app_env \<Rightarrow> string \<Rightarrow> string \<Rightarrow> AgentRecord
    \<Rightarrow> (ExpertInput \<times> string list \<times> SkippedFile list) result" where
  "agent_import f A tenantID agentID agent =
     rbind (matchConnectors f A tenantID (map arf_name (ag_mcps agent))) (\<lambda>(matched, lost).
     rbind (rListMcpConnectors (ae_repo A) (ae_state A) tenantID) (\<lambda>records.
       case snapshotBundle (ag_files agent) of (files0, skipped0) \<Rightarrow>
       let files1 = (if trim_space (file_text files0 fileAgents) = [] then
             AList.update fileAgents (agentInstructions (map apr_content (ag_prompts agent)) (ag_name agent) (ag_description agent)) files0
             else files0);
           files2 = AList.delete fileAgent (AList.delete fileAgents (AList.delete fileSoul files1)) in
       case fitPrompt (trim_space (file_text files1 fileSoul)) (trim_space (file_text files1 fileAgents)) of
         (soul, instructions, clipped) \<Rightarrow>
       case importMCP (ae_pkg A) files2 records matched of (files3, ids, skipped1) \<Rightarrow>
       case importSkills A tenantID files3 of (files4, skipped2) \<Rightarrow>
         Inr (import_form (clip (ag_name agent) maxExpertName) instructions soul ids (''agent:'' @ agentID)
                (clip (ag_description agent) 500) (Some files4),
              lost, skipped0 @ map cut_note clipped @ skipped1 @ skipped2)))"

definition ExpertFromAgent :: "(nat \<Rightarrow> nat) \<Rightarrow> 'r app_env \<Rightarrow> ('c, 'w) deps \<Rightarrow> ('c, 'w) sys \<Rightarrow> time \<Rightarrow> string \<Rightarrow> Principal
    \<Rightarrow> string \<Rightarrow> string \<Rightarrow> ImportedExpert result \<times> ('c, 'w) sys" where
  "ExpertFromAgent f A d s now uuid p handle slug =
     (case SkillPathID handle slug of
        None \<Rightarrow> (Inl ErrNotFound, s)
      | Some agentID \<Rightarrow>
          (case rbind (rGetAgent (ae_repo A) (ae_state A) (TenantID p) agentID) (agent_import f A (TenantID p) agentID) of
             Inl e \<Rightarrow> (Inl e, s)
           | Inr (form, lost, skipped) \<Rightarrow>
               (case writeExpert A d s now p (expertIDPrefix @ uuid) 1 form of
                  (r, s1) \<Rightarrow> (rbind r (\<lambda>expert. Inr
                     \<lparr>im_expert = expert, im_lost = lost, im_unbound = ex_unbound expert, im_skipped = skipped\<rparr>), s1))))"

definition persona_form :: "string list \<Rightarrow> PersonaRecord \<Rightarrow> ExpertInput" where
  "persona_form have persona =
     import_form (clip (per_name persona) maxExpertName) (agentInstructions [per_instructions persona] (per_name persona) []) []
       (filter (\<lambda>i. i \<in> set have) (per_connectors persona)) (''persona:'' @ per_id persona) [] None"

text \<open>The loop over the personas, each with the time and the id it draws; it stops at the first error.\<close>

fun import_personas :: "'r app_env \<Rightarrow> ('c, 'w) deps \<Rightarrow> Principal \<Rightarrow> string list \<Rightarrow> string list \<Rightarrow> nat \<Rightarrow> nat
    \<Rightarrow> (PersonaRecord \<times> time \<times> string) list \<Rightarrow> ('c, 'w) sys \<Rightarrow> (nat \<times> nat \<times> err option) \<times> ('c, 'w) sys" where
  "import_personas A d p have done_sources imported skipped [] s = ((imported, skipped, None), s)"
| "import_personas A d p have done_sources imported skipped ((persona, now, uuid) # rest) s =
     (if ''persona:'' @ per_id persona \<in> set done_sources then
        import_personas A d p have done_sources imported (Suc skipped) rest s
      else case writeExpert A d s now p (expertIDPrefix @ uuid) 1 (persona_form have persona) of
        (Inl e, s1) \<Rightarrow> ((imported, skipped, Some e), s1)
      | (Inr _, s1) \<Rightarrow> import_personas A d p have done_sources (Suc imported) skipped rest s1)"

definition ImportPersonas :: "'r app_env \<Rightarrow> ('c, 'w) deps \<Rightarrow> ('c, 'w) sys \<Rightarrow> Principal \<Rightarrow> (time \<times> string) list
    \<Rightarrow> (nat \<times> nat \<times> err option) \<times> ('c, 'w) sys" where
  "ImportPersonas A d s p draws =
     (case rListPersonas (ae_repo A) (ae_state A) (TenantID p) of
        Inl e \<Rightarrow> ((0, 0, Some e), s)
      | Inr personas \<Rightarrow>
          (case latestProfiles d s p of
             Inl e \<Rightarrow> ((0, 0, Some e), s)
           | Inr existing \<Rightarrow>
               (case rListMcpConnectors (ae_repo A) (ae_state A) (TenantID p) of
                  Inl e \<Rightarrow> ((0, 0, Some e), s)
                | Inr connectors \<Rightarrow>
                    import_personas A d p (map con_id connectors)
                      (map (\<lambda>(i, profile). str_or_empty (prof_spec profile) ''source'') existing) 0 0
                      (zip personas draws) s)))"

end
