(* ===== verification/Import_Facts.thy ===== *)
theory Import_Facts
  imports Expert_Import Expert_Facts
begin

text \<open>
  What an import of an agent lets through: files within the bounds of a bundle, servers without literal
  credentials, connectors of the tenant only; and the search for the free name of a server.
\<close>

section \<open>Files\<close>

lemma sum_updated:
  fixes m :: "(string, string) gomap"
  assumes "p \<notin> set (map fst m)"
  shows "AList.update p c m = m @ [(p, c)]"
  using assms by (induction m) auto

definition file_ok :: "string \<times> string \<Rightarrow> bool" where
  "file_ok f \<longleftrightarrow> pathProblem (fst f) = [] \<and> textProblem (snd f) = [] \<and> length (snd f) \<le> maxBundleFileBytes"

text \<open>The state of the loop: distinct, sound files whose sizes add up to \<open>used\<close>.\<close>

definition taking :: "bundleFiles \<Rightarrow> nat \<Rightarrow> bool" where
  "taking out used \<longleftrightarrow> distinct (map fst out) \<and> list_all file_ok out \<and> length out \<le> maxBundleFiles \<and>
     sum_list (map (length \<circ> snd) out) = used \<and> used \<le> maxBundleBytes"

lemma skip_reason_nil:
  assumes "skip_reason out used f = []" "taking out used"
  shows "taking (AList.update (sf_path f) (sf_body f) out) (used + length (sf_body f)) \<and>
    length (AList.update (sf_path f) (sf_body f) out) = Suc (length out)"
proof -
  have new: "sf_path f \<notin> set (map fst out)"
    using assms(1) by (auto simp: skip_reason_def has_key_def map_of_eq_None_iff split: if_splits)
  then show ?thesis
    using assms by (auto simp: sum_updated [OF new] taking_def file_ok_def skip_reason_def split: if_splits)
qed

lemma taken_files:
  "take_files out used files = (b, skipped) \<Longrightarrow> taking out used \<Longrightarrow>
     (\<exists>used'. taking b used') \<and> length b + length skipped = length out + length files"
proof (induction files arbitrary: out used skipped)
  case (Cons f files)
  show ?case
  proof (cases "skip_reason out used f = []")
    case True
    note step = skip_reason_nil [OF True Cons.prems(2)]
    have "take_files (AList.update (sf_path f) (sf_body f) out) (used + length (sf_body f)) files = (b, skipped)"
      using Cons.prems(1) True by (simp add: Let_def)
    from Cons.IH [OF this conjunct1 [OF step]] show ?thesis using step by simp
  next
    case False
    then obtain rest where "take_files out used files = (b, rest)" "length skipped = Suc (length rest)"
      using Cons.prems(1) by (auto simp: Let_def split: prod.splits)
    with Cons.IH [OF this(1) Cons.prems(2)] show ?thesis by simp
  qed
qed auto

lemma taking_valid:
  assumes "taking b used"
  shows "bundle_validate b = None"
proof -
  have sound: "file_ok (p, file_text b p)" if member: "p \<in> set (map fst b)" for p
  proof -
    obtain c where c: "(p, c) \<in> set b" using member by auto
    then have "file_text b p = c" using assms by (simp add: file_text_def get_or_def taking_def)
    with c assms show ?thesis by (auto simp: taking_def list_all_iff)
  qed
  have "first_error (file_problem b) (sortedPaths b) = None"
    using sound by (auto simp: first_error_None_iff sortedPaths_def file_problem_def Let_def file_ok_def not_less)
  moreover have "sum_list (map (\<lambda>p. length (file_text b p)) (sortedPaths b)) = used"
  proof -
    have "mset (map (\<lambda>p. length (file_text b p)) (sortedPaths b)) = mset (map (\<lambda>p. length (file_text b p)) (map fst b))"
      unfolding sortedPaths_def mset_map mset_sort ..
    then have "sum_list (map (\<lambda>p. length (file_text b p)) (sortedPaths b)) = sum_list (map (\<lambda>p. length (file_text b p)) (map fst b))"
      by (metis sum_mset_sum_list)
    also have "map (\<lambda>p. length (file_text b p)) (map fst b) = map (length \<circ> snd) b"
      using assms by (auto simp: taking_def file_text_def get_or_def)
    finally show ?thesis using assms by (simp add: taking_def)
  qed
  ultimately show ?thesis using assms by (simp add: bundle_validate_def taking_def)
qed


section \<open>Servers\<close>

lemma keyed_apart: "k \<noteq> k' \<Longrightarrow> obj_field (AList.update k v m) k' = obj_field m k'"
  by (simp add: obj_field_update)

lemma secretFields_id:
  "secretFields (s\<lparr>sv_obj := AList.update ''connector_id'' v (sv_obj s)\<rparr>) = secretFields s"
  by (simp add: secretFields_def table_secrets_def arg_secrets_def server_str_def str_or_empty_def str_field_def
      obj_field_def arr_field_def)

lemma remove_field_apart:
  assumes "field_form f"
  shows "map_of (remove_field m f) ''connector_id'' = map_of m ''connector_id''"
  using assms
proof (cases rule: field_cases)
  case url
  then show ?thesis by (simp add: remove_field_def)
next
  case args
  then show ?thesis by (simp add: remove_args_field)
next
  case (table kind name)
  then have "kind \<noteq> ''connector_id''" by (auto simp: tables_def)
  then show ?thesis by (simp add: table(2) remove_table_field [OF table(1)] split: option.splits)
qed

lemma remove_fields_apart:
  "\<forall>f \<in> set fs. field_form f \<Longrightarrow>
     map_of (fold (\<lambda>f m. remove_field m f) fs m) ''connector_id'' = map_of m ''connector_id''"
  by (induction fs arbitrary: m) (simp_all add: remove_field_apart)

lemma scrubbed_id:
  "connectorID (snd (scrub (s\<lparr>sv_obj := AList.delete ''connector_id'' (sv_obj s)\<rparr>))) = []"
  using secretFields_form
  by (simp add: scrub_def connectorID_def server_str_def str_or_empty_def str_field_def remove_fields_apart)

definition imported_ok :: "McpConnectorRecord list \<Rightarrow> mcpServer \<Rightarrow> bool" where
  "imported_ok records s \<longleftrightarrow> secretFields s = [] \<and> (connectorID s = [] \<or> connectorID s \<in> con_id ` set records)"

text \<open>\<open>binds_new\<close>: the ids bound before, and new ones of the tenant's connectors, up to the limit.\<close>

definition binds_new :: "McpConnectorRecord list \<Rightarrow> string list \<Rightarrow> string list \<Rightarrow> bool" where
  "binds_new records ids out \<longleftrightarrow>
     (\<exists>new. out = ids @ new \<and> set new \<subseteq> con_id ` set records \<and> distinct new \<and> set new \<inter> set ids = {} \<and>
        length new + card (set ids) \<le> max 20 (card (set ids)))"

lemma binds_new_refl: "binds_new records ids ids"
  by (simp add: binds_new_def)

lemma binds_new_step:
  assumes "binds_new records (ids @ [i]) out" "i \<in> con_id ` set records" "i \<notin> set ids" "card (set ids) < 20"
  shows "binds_new records ids out"
proof -
  obtain more where more: "out = (ids @ [i]) @ more" "set more \<subseteq> con_id ` set records" "distinct more"
    "set more \<inter> set (ids @ [i]) = {}" "length more + card (set (ids @ [i])) \<le> max 20 (card (set (ids @ [i])))"
    using assms(1) unfolding binds_new_def by blast
  have "card (set (ids @ [i])) = Suc (card (set ids))" using assms(3) by simp
  then have "length (i # more) + card (set ids) \<le> max 20 (card (set ids))" using more(5) assms(4) by simp
  moreover have "distinct (i # more)" "set (i # more) \<inter> set ids = {}" "set (i # more) \<subseteq> con_id ` set records"
    "out = ids @ i # more"
    using more assms(2,3) by auto
  ultimately show ?thesis unfolding binds_new_def by blast
qed

lemma imported_servers:
  "import_servers J records bound ids servers = (held, out, skipped) \<Longrightarrow> distinct bound \<Longrightarrow> set bound = set ids \<Longrightarrow>
     list_all (imported_ok records) held \<and> binds_new records ids out"
proof (induction servers arbitrary: bound ids held skipped)
  case (Cons s0 servers)
  obtain removed s where s: "scrub (s0\<lparr>sv_obj := AList.delete ''connector_id'' (sv_obj s0)\<rparr>) = (removed, s)" by fastforce
  have clean: "secretFields s = []" "connectorID s = []"
    using scrubbed_clean [of "s0\<lparr>sv_obj := AList.delete ''connector_id'' (sv_obj s0)\<rparr>"] scrubbed_id [of s0] s by simp_all
  consider (skipped) "server_str s ''url'' = []" "server_str s ''command'' = []"
    | (unbound) "server_str s ''url'' \<noteq> [] \<or> server_str s ''command'' \<noteq> []" "find (connector_fits J bound s) records = None"
    | (bound) rec where "server_str s ''url'' \<noteq> [] \<or> server_str s ''command'' \<noteq> []"
        "find (connector_fits J bound s) records = Some rec" by fastforce
  then show ?case
  proof cases
    case skipped
    then obtain rest where "import_servers J records bound ids servers = (held, out, rest)"
      using Cons.prems(1) s by (auto simp: Let_def split: prod.splits)
    then show ?thesis by (rule Cons.IH [OF _ Cons.prems(2,3)])
  next
    case unbound
    then obtain held' rest where "import_servers J records bound ids servers = (held', out, rest)" "held = s # held'"
      using Cons.prems(1) s by (auto simp: Let_def split: prod.splits)
    with Cons.IH [OF this(1) Cons.prems(2,3)] clean show ?thesis by (simp add: imported_ok_def)
  next
    case bound
    let ?held = "s\<lparr>sv_obj := AList.update ''connector_id'' (Str (con_id rec)) (sv_obj s)\<rparr>" and ?new = "con_id rec \<notin> set bound"
    from bound have rec: "rec \<in> set records" "con_id rec \<in> set bound \<or> length bound < 20"
      by (auto simp: find_Some_iff connector_fits_def maxExpertConnectors_def)
    obtain held' rest where r: "import_servers J records (if ?new then con_id rec # bound else bound)
        (if ?new then ids @ [con_id rec] else ids) servers = (held', out, rest)" "held = ?held # held'"
      using Cons.prems(1) s bound by (auto simp: Let_def split: prod.splits)
    have "list_all (imported_ok records) held' \<and> binds_new records (if ?new then ids @ [con_id rec] else ids) out"
      by (rule Cons.IH [OF r(1)]) (use Cons.prems(2,3) in auto)
    moreover have "imported_ok records ?held"
      using clean rec(1) by (simp add: imported_ok_def secretFields_id connectorID_def server_str_def str_or_empty_def str_field_def)
    moreover have "card (set ids) < 20" if ?new using rec(2) that Cons.prems(2,3) by (metis distinct_card)
    ultimately show ?thesis
      using r(2) rec(1) Cons.prems(3) binds_new_step [of records ids "con_id rec" out] by (auto split: if_splits)
  qed
qed (simp add: binds_new_refl)

text \<open>
  C17. Of an imported mcp.json no server keeps a literal credential, and a server is bound to a connector of the
  tenant or to none: the id its author wrote never counts. The file is rendered from the servers that
  were kept or is gone, the other files stay, and the connectors the expert gets are those matched by
  name and new ones of the tenant, at most 20 in all unless more were matched by name.
\<close>

theorem imported_mcp_is_clean:
  assumes "importMCP J files records ids = (files', out, skipped)"
  shows "(\<forall>content. map_of files' fileMCP = Some content \<longrightarrow>
      (\<exists>held. content = renderMCPJSON J held \<and> checkNoLiteralSecrets held = None \<and>
        (\<forall>s \<in> set held. connectorID s = [] \<or> connectorID s \<in> con_id ` set records))) \<and>
    (\<forall>p. p \<noteq> fileMCP \<longrightarrow> map_of files' p = map_of files p) \<and>
    (\<exists>new. out = ids @ new \<and> set new \<subseteq> con_id ` set records \<and> distinct new \<and> set new \<inter> set ids = {} \<and>
       card (set out) \<le> max 20 (card (set ids)))"
proof -
  let ?ok = "\<lambda>held. checkNoLiteralSecrets held = None \<and> (\<forall>s \<in> set held. connectorID s = [] \<or> connectorID s \<in> con_id ` set records)"
  consider (none) "map_of files fileMCP = None" "files' = files" "out = ids"
    | (bad) "files' = AList.delete fileMCP files" "out = ids"
    | (read) servers held where "import_servers J records (remdups ids) ids servers = (held, out, skipped)"
        "files' = (if held \<noteq> [] then AList.update fileMCP (renderMCPJSON J held) (AList.delete fileMCP files) else AList.delete fileMCP files)"
    using assms by (auto simp: importMCP_def Let_def split: option.splits sum.splits prod.splits)
  then show ?thesis
  proof cases
    case read
    from imported_servers [OF read(1)] obtain new where new: "list_all (imported_ok records) held" "out = ids @ new"
      "set new \<subseteq> con_id ` set records" "distinct new" "set new \<inter> set ids = {}" "length new + card (set ids) \<le> max 20 (card (set ids))"
      by (auto simp: binds_new_def)
    have "?ok held"
      using new(1) by (auto simp: list_all_iff imported_ok_def checkNoLiteralSecrets_def literal_secret_def first_error_None_iff)
    moreover have "card (set out) = length new + card (set ids)"
      using new by (simp add: card_Un_disjoint distinct_card Int_commute)
    ultimately show ?thesis using new read(2) by auto
  qed auto
qed

definition sample_server :: mcpServer where
  "sample_server = \<lparr>sv_name = ''gh'', sv_obj = [(''command'', Str ''c''), (''connector_id'', Str ''con_9''),
     (''headers'', Obj [(''token'', Str ''x'')])]\<rparr>"

definition sample_clean :: mcpServer where
  "sample_clean = \<lparr>sv_name = ''gh'', sv_obj = [(''command'', Str ''c''), (''headers'', Obj [])]\<rparr>"

lemma sample_literal: "literalSecret ''token'' ''x''"
proof -
  have "strip_secrets ''x'' = ''x''" "trim_space ''x'' = ''x''" "\<not> schemeWord ''x''" "sensitive ''token''" by code_simp+
  then show ?thesis by (simp add: literalSecret_def)
qed

lemma sample_scrubbed:
  "scrub (sample_server\<lparr>sv_obj := AList.delete ''connector_id'' (sv_obj sample_server)\<rparr>) =
     ([''headers.token''], sample_clean)"
proof -
  have "secretFields (sample_server\<lparr>sv_obj := AList.delete ''connector_id'' (sv_obj sample_server)\<rparr>) = [''headers.token'']"
    by (simp add: secretFields_def table_secrets_def arg_secrets_def sample_server_def server_str_def field_defs sample_literal str_of_def)
  moreover have "remove_field [(''command'', Str ''c''), (''headers'', Obj [(''token'', Str ''x'')])] ''headers.token'' =
      [(''command'', Str ''c''), (''headers'', Obj [])]" by code_simp
  ultimately show ?thesis by (simp add: scrub_def sample_server_def sample_clean_def)
qed

lemma sample_parsed: "parseMCPJSON sample_pkg (renderMCPJSON sample_pkg [sample_server]) = Inr [sample_server]"
proof -
  let ?doc = "Obj [(''mcpServers'', Obj (map (\<lambda>s. (sv_name s, json_of (Obj (sv_obj s)))) [sample_server]))]"
  have doc: "?doc = Obj [(''mcpServers'', Obj [(''gh'', Obj (sv_obj sample_server))])]" by code_simp
  have "json_doc ?doc"
    unfolding doc by (simp add: sample_server_def ascii_def ascii_valid_utf8 del: valid_utf8.simps)
  then have "json_parse sample_pkg (renderMCPJSON sample_pkg [sample_server]) = Some ?doc"
    using sample_codec unfolding codec_ok_def renderMCPJSON_def by blast
  moreover have "read_mcp sample_pkg (Some (Obj [(''mcpServers'', Obj [(''gh'', Obj (sv_obj sample_server))])])) = Inr [sample_server]"
    by code_simp
  ultimately show ?thesis by (simp only: parseMCPJSON_def doc)
qed

theorem imported_mcp_is_clean_witness:
  "\<exists>files' skipped. importMCP sample_pkg [(fileMCP, renderMCPJSON sample_pkg [sample_server])] [] [] = (files', [], skipped) \<and>
     skipped \<noteq> [] \<and> map_of files' fileMCP \<noteq> None \<and>
     (\<forall>content. map_of files' fileMCP = Some content \<longrightarrow>
        (\<exists>held. content = renderMCPJSON sample_pkg held \<and> checkNoLiteralSecrets held = None))"
proof -
  obtain skipped where run: "importMCP sample_pkg [(fileMCP, renderMCPJSON sample_pkg [sample_server])] [] [] =
      ([(fileMCP, renderMCPJSON sample_pkg [sample_clean])], [], skipped)" "skipped \<noteq> []"
    using sample_scrubbed
    by (simp add: importMCP_def sample_parsed removed_note_def sample_clean_def server_str_def str_or_empty_def str_field_def)
  show ?thesis using imported_mcp_is_clean [OF run(1)] run by auto
qed

section \<open>Names of servers\<close>

fun tried :: "string \<Rightarrow> nat \<Rightarrow> nat \<Rightarrow> string list" where
  "tried stem n 0 = []"
| "tried stem n (Suc k) = (stem @ ''-'' @ itoa n) # tried stem (Suc n) k"

lemma tried_set: "set (tried stem n k) = (\<lambda>i. stem @ ''-'' @ itoa i) ` {n..<n + k}"
proof (induction k arbitrary: n)
  case (Suc k)
  have "{n..<n + Suc k} = insert n {Suc n..<Suc n + k}" by auto
  with Suc show ?case by simp
qed simp

lemma length_tried: "length (tried stem n k) = k"
  by (induction k arbitrary: n) simp_all

lemma distinct_tried: "distinct (stem # tried stem n k)"
proof -
  have "inj_on (\<lambda>i. stem @ ''-'' @ itoa i) {n..<n + k}" by (rule inj_onI) simp
  then have "card (set (tried stem n k)) = length (tried stem n k)"
    unfolding tried_set length_tried by (simp add: card_image)
  moreover have "stem \<notin> set (tried stem n k)" unfolding tried_set by (rule notI, erule imageE, simp)
  ultimately show ?thesis by (simp only: distinct.simps card_distinct) simp
qed

lemma fresh_or_taken:
  "fresh_name (Suc k) n taken stem name \<notin> set taken \<or> set (name # tried stem n k) \<subseteq> set taken"
proof (induction k arbitrary: n name)
  case (Suc k)
  show ?case
  proof (cases "name \<in> set taken")
    case True
    with Suc.IH [of "Suc n" "stem @ ''-'' @ itoa n"] show ?thesis by (simp del: itoa.simps)
  qed simp
qed simp

lemma fresh_more: "fresh_name k n taken stem name \<notin> set taken \<Longrightarrow> k \<le> k' \<Longrightarrow>
    fresh_name k' n taken stem name = fresh_name k n taken stem name"
proof (induction k arbitrary: n name k')
  case 0
  then show ?case by (cases k') simp_all
next
  case (Suc k)
  obtain j where j: "k' = Suc j" "k \<le> j" using Suc.prems(2) by (cases k') auto
  show ?case
  proof (cases "name \<in> set taken")
    case True
    with Suc.prems(1) have "fresh_name k (Suc n) taken stem (stem @ ''-'' @ itoa n) \<notin> set taken" by simp
    from Suc.IH [OF this j(2)] True show ?thesis by (simp add: j(1))
  qed (simp add: j(1))
qed

text \<open>
  C19. The search for a free server name ends: within as many tries as names are taken, and one more, it finds
  a name that is not taken, and more tries never change it.
\<close>

theorem fresh_name_ends:
  "\<exists>name. name \<notin> set taken \<and> (\<forall>more. fresh_name (Suc (length taken) + more) 2 taken stem stem = name)"
proof -
  have "\<not> set (stem # tried stem 2 (length taken)) \<subseteq> set taken"
  proof
    assume "set (stem # tried stem 2 (length taken)) \<subseteq> set taken"
    then have "card (set (stem # tried stem 2 (length taken))) \<le> length taken"
      by (meson card_length card_mono finite_set order_trans)
    then show False unfolding distinct_card [OF distinct_tried] by (simp add: length_tried)
  qed
  then have found: "fresh_name (Suc (length taken)) 2 taken stem stem \<notin> set taken" using fresh_or_taken by blast
  have "fresh_name (Suc (length taken) + more) 2 taken stem stem = fresh_name (Suc (length taken)) 2 taken stem stem" for more
    by (intro fresh_more [OF found]) simp
  with found show ?thesis by blast
qed

end
