(* ===== verification/Event_Sender.thy ===== *)
theory Event_Sender
  imports Service_Events Pg_Log
begin

text \<open>
  The event stream of one client (\<open>internal/httpapi/task_events.go\<close>): the sender with its cursor, and
  the loop of the handler. What the loop waits on is a list of inputs, each with the log a read at
  that moment sees; what it writes is a list of frames, and \<open>fails n\<close> says that emitting
  frame \<open>n\<close> fails, in the encoding or the writing of it. \<open>body\<close> is the JSON text of an event.
\<close>

datatype frame = EventFrame Event | HeartbeatFrame

definition frame_text :: "(Event \<Rightarrow> string) \<Rightarrow> frame \<Rightarrow> string" where
  "frame_text body f =
     (case f of
        HeartbeatFrame \<Rightarrow> '': heartbeat'' @ [byte 10, byte 10]
      | EventFrame e \<Rightarrow>
          (if ev_seq e > 0 then ''id: '' @ itoa (ev_seq e) @ [byte 10] else []) @ ''data: '' @ body e @ [byte 10, byte 10])"

record eventSender =
  lastSent :: nat
  sent_frames :: "frame list"
  stream_open :: bool

definition write_frame :: "(nat \<Rightarrow> bool) \<Rightarrow> eventSender \<Rightarrow> frame \<Rightarrow> err option \<times> eventSender" where
  "write_frame fails st f =
     (if fails (length (sent_frames st)) then (Some (ErrText ''write''), st)
      else (None, st\<lparr>sent_frames := sent_frames st @ [f]\<rparr>))"

definition sender_write :: "(nat \<Rightarrow> bool) \<Rightarrow> eventSender \<Rightarrow> Event \<Rightarrow> err option \<times> eventSender" where
  "sender_write fails st ev =
     (if ev_seq ev > 0 then
        (if ev_seq ev \<le> lastSent st then (None, st)
         else write_frame fails (st\<lparr>lastSent := ev_seq ev\<rparr>) (EventFrame ev))
      else write_frame fails st (EventFrame ev))"

fun write_items :: "(nat \<Rightarrow> bool) \<Rightarrow> eventSender \<Rightarrow> Event list \<Rightarrow> err option \<times> eventSender" where
  "write_items fails st [] = (None, st)"
| "write_items fails st (ev # evs) =
     (if ev_seq ev = 0 then write_items fails st evs
      else case sender_write fails st ev of
        (Some e, st1) \<Rightarrow> (Some e, st1)
      | (None, st1) \<Rightarrow> write_items fails st1 evs)"

definition catchUp :: "(nat \<Rightarrow> bool) \<Rightarrow> (nat \<Rightarrow> Event list result) \<Rightarrow> eventSender \<Rightarrow> err option \<times> eventSender" where
  "catchUp fails fetch st =
     (case fetch (lastSent st) of
        Inl e \<Rightarrow> (None, st)
      | Inr items \<Rightarrow> write_items fails st items)"

definition deliver :: "(nat \<Rightarrow> bool) \<Rightarrow> (nat \<Rightarrow> Event list result) \<Rightarrow> eventSender \<Rightarrow> Event \<Rightarrow> err option \<times> eventSender" where
  "deliver fails fetch st ev =
     (if ev_seq ev > u64 (lastSent st + 1) then catchUp fails fetch st else sender_write fails st ev)"

section \<open>The loop of the handler\<close>

datatype stream_input = RequestDone | LiveEvent Event | EventsClosed | SubscriberClosed | CatchUpTick | HeartbeatTick

definition close_on :: "err option \<times> eventSender \<Rightarrow> eventSender" where
  "close_on r = (case r of (None, st) \<Rightarrow> st | (Some e, st) \<Rightarrow> st\<lparr>stream_open := False\<rparr>)"

definition stream_step :: "(nat \<Rightarrow> bool) \<Rightarrow> (nat \<Rightarrow> Event list result) \<Rightarrow> stream_input \<Rightarrow> eventSender \<Rightarrow> eventSender" where
  "stream_step fails fetch inp st =
     (if \<not> stream_open st then st
      else case inp of
        LiveEvent ev \<Rightarrow> close_on (deliver fails fetch st ev)
      | CatchUpTick \<Rightarrow> close_on (catchUp fails fetch st)
      | HeartbeatTick \<Rightarrow> close_on (write_frame fails st HeartbeatFrame)
      | _ \<Rightarrow> st\<lparr>stream_open := False\<rparr>)"

definition stream_run :: "(nat \<Rightarrow> bool) \<Rightarrow> ('l \<Rightarrow> nat \<Rightarrow> Event list result) \<Rightarrow> (stream_input \<times> 'l) list \<Rightarrow> eventSender \<Rightarrow> eventSender" where
  "stream_run fails fetch steps st = fold (\<lambda>(inp, l). stream_step fails (fetch l) inp) steps st"

definition new_sender :: "nat \<Rightarrow> eventSender" where
  "new_sender after = \<lparr>lastSent = after, sent_frames = [], stream_open = True\<rparr>"

text \<open>\<open>strconv.ParseUint\<close> for base 10 and 64 bits.\<close>

definition ParseUint64 :: "string \<Rightarrow> nat option" where
  "ParseUint64 s =
     (let n = foldl (\<lambda>n c. 10 * n + (of_char c - 48)) 0 s
      in if s \<noteq> [] \<and> list_all is_digit s \<and> n < 2 ^ 64 then Some n else None)"

datatype stream_answer = StreamRefused nat string string | Streaming nat eventSender

text \<open>A read of the log: the answer of \<open>EventsAfter\<close>; its head is not used.\<close>

definition service_fetch :: "('c, 'w) deps \<Rightarrow> Principal \<Rightarrow> string \<Rightarrow> ('c, 'w) sys \<Rightarrow> nat \<Rightarrow> Event list result" where
  "service_fetch d p i s cursor =
     (case EventsAfter d s p i cursor of
        ((items, head, None), s1) \<Rightarrow> Inr items
      | ((items, head, Some e), s1) \<Rightarrow> Inl e)"

definition streamTaskEvents :: "('c, 'w) deps \<Rightarrow> ('c, 'w) sys \<Rightarrow> Principal \<Rightarrow> string \<Rightarrow> string \<Rightarrow> bool
    \<Rightarrow> (nat \<Rightarrow> bool) \<Rightarrow> (stream_input \<times> ('c, 'w) sys) list \<Rightarrow> stream_answer \<times> ('c, 'w) sys" where
  "streamTaskEvents d s p i lastEventID flushable fails steps =
     (let raw = trim_space lastEventID in
      case (if raw = [] then Some 0 else ParseUint64 raw) of
        None \<Rightarrow> (StreamRefused 400 ''BAD_REQUEST'' ''Last-Event-ID must be a decimal sequence'', s)
      | Some after \<Rightarrow>
          (case Subscribe d s p i after of
             (Inl e, s1) \<Rightarrow>
               (if e = ErrNotFound then StreamRefused 404 ''NOT_FOUND'' ''task not found''
                else if e = ErrCursor then StreamRefused 409 ''EVENT_CURSOR_EXPIRED'' ''event cursor cannot be resumed''
                else StreamRefused 500 ''INTERNAL'' ''event stream unavailable'', s1)
           | (Inr (n, head), s1) \<Rightarrow>
               if \<not> flushable then
                 (StreamRefused 500 ''SSE_UNSUPPORTED'' ''streaming unsupported'', s1\<lparr>svc := removeSubscriber i n (svc s1)\<rparr>)
               else (Streaming n (stream_run fails (service_fetch d p i) steps (new_sender after)), s1)))"

section \<open>What was sent\<close>

definition sent_events :: "eventSender \<Rightarrow> Event list" where
  "sent_events st = List.map_filter (\<lambda>f. case f of EventFrame e \<Rightarrow> Some e | HeartbeatFrame \<Rightarrow> None) (sent_frames st)"

definition sent_durable :: "eventSender \<Rightarrow> Event list" where
  "sent_durable st = filter (\<lambda>e. ev_seq e > 0) (sent_events st)"

definition event_key :: "Event \<Rightarrow> nat \<times> string" where
  "event_key e = (ev_seq e, ev_id e)"

lemma sent_durable_append:
  "sent_durable (st\<lparr>sent_frames := sent_frames st @ [f]\<rparr>) =
     sent_durable st @ (case f of EventFrame e \<Rightarrow> if ev_seq e > 0 then [e] else [] | HeartbeatFrame \<Rightarrow> [])"
  by (simp add: sent_durable_def sent_events_def map_filter_def split: frame.split)

lemma sent_durable_cong [simp]:
  "sent_durable (st\<lparr>lastSent := n\<rparr>) = sent_durable st" "sent_durable (st\<lparr>stream_open := b\<rparr>) = sent_durable st"
  by (simp_all add: sent_durable_def sent_events_def)

text \<open>
  What a stream meets: the log grows from step to step, and a live durable event is in the log when it
  arrives.
\<close>

fun feed_ok :: "('l \<Rightarrow> Event list) \<Rightarrow> ('l \<Rightarrow> bool) \<Rightarrow> ('l \<Rightarrow> 'l \<Rightarrow> bool) \<Rightarrow> 'l \<Rightarrow> (stream_input \<times> 'l) list \<Rightarrow> bool" where
  "feed_ok entries sound grows l [] \<longleftrightarrow> sound l"
| "feed_ok entries sound grows l ((inp, l') # steps) \<longleftrightarrow>
     sound l \<and> grows l l' \<and>
     (case inp of LiveEvent ev \<Rightarrow> ev_seq ev = 0 \<or> event_key ev \<in> event_key ` set (entries l') | _ \<Rightarrow> True) \<and>
     feed_ok entries sound grows l' steps"

definition last_log :: "'l \<Rightarrow> (stream_input \<times> 'l) list \<Rightarrow> 'l" where
  "last_log l steps = (if steps = [] then l else snd (last steps))"

lemma last_log_Cons [simp]: "last_log l ((inp, l') # steps) = last_log l' steps"
  by (simp add: last_log_def)

text \<open>
  A log a sender reads from: entries numbered 1, 2, 3, ..., that only grow, and a read that answers
  with the entries behind the cursor, or fails.
\<close>

locale event_log =
  fixes fetch :: "'l \<Rightarrow> nat \<Rightarrow> Event list result"
    and entries :: "'l \<Rightarrow> Event list"
    and sound :: "'l \<Rightarrow> bool"
    and grows :: "'l \<Rightarrow> 'l \<Rightarrow> bool"
  assumes numbered: "sound l \<Longrightarrow> map ev_seq (entries l) = [1..<Suc (length (entries l))]"
    and bounded: "sound l \<Longrightarrow> length (entries l) < 2 ^ 63"
    and longer: "sound l \<Longrightarrow> grows l l' \<Longrightarrow> \<exists>more. entries l' = entries l @ more"
    and fetched: "sound l \<Longrightarrow> fetch l cursor = Inr items \<Longrightarrow> filter (\<lambda>e. ev_seq e > 0) items = drop cursor (entries l)"
begin

text \<open>What was sent is what the log holds behind the cursor the client came with.\<close>

definition in_step :: "nat \<Rightarrow> 'l \<Rightarrow> eventSender \<Rightarrow> bool" where
  "in_step after l st \<longleftrightarrow>
     (\<exists>k. map event_key (sent_durable st) = map event_key (take k (drop after (entries l))) \<and>
        k \<le> length (entries l) - after \<and> (stream_open st \<longrightarrow> lastSent st = after + k))"

lemma in_step_grows:
  assumes "in_step after l st" "sound l" "grows l l'"
  shows "in_step after l' st"
proof -
  obtain k where k: "map event_key (sent_durable st) = map event_key (take k (drop after (entries l)))"
    "k \<le> length (entries l) - after" "stream_open st \<longrightarrow> lastSent st = after + k"
    using assms(1) by (auto simp: in_step_def)
  obtain more where more: "entries l' = entries l @ more" using longer assms(2,3) by blast
  then have "take k (drop after (entries l')) = take k (drop after (entries l))" using k(2) by simp
  with k more show ?thesis by (auto simp: in_step_def intro!: exI [of _ k])
qed

lemma entry_at:
  assumes "sound l" "n < length (entries l)"
  shows "ev_seq (entries l ! n) = Suc n"
proof -
  have "map ev_seq (entries l) ! n = Suc n" using assms by (simp add: numbered [OF assms(1)] nth_append del: upt_Suc)
  then show ?thesis using assms(2) by simp
qed

lemma in_step_write:
  assumes "in_step after l st" "sound l" "stream_open st" "ev_seq ev = Suc (lastSent st)" "e \<in> set (entries l)"
    "event_key e = event_key ev" "sender_write fails st ev = (r, st')"
  shows "in_step after l (close_on (r, st')) \<and> (r = None \<longrightarrow> lastSent st' = Suc (lastSent st) \<and> stream_open st') \<and>
    (\<not> fails (length (sent_frames st)) \<longrightarrow> r = None)"
proof -
  obtain k where k: "map event_key (sent_durable st) = map event_key (take k (drop after (entries l)))"
    "k \<le> length (entries l) - after" "lastSent st = after + k"
    using assms(1,3) by (auto simp: in_step_def)
  obtain n where n: "n < length (entries l)" "e = entries l ! n" using assms(5) by (auto simp: in_set_conv_nth)
  have "Suc n = Suc (after + k)" using entry_at [OF assms(2) n(1)] assms(4,6) k(3) n(2) by (simp add: event_key_def)
  then have e: "e = drop after (entries l) ! k" "k < length (drop after (entries l))" using n by simp_all
  have step: "map event_key (take (Suc k) (drop after (entries l))) = map event_key (sent_durable st) @ [event_key ev]"
    using e assms(6) by (simp add: take_Suc_conv_app_nth k(1))
  show ?thesis
  proof (cases "fails (length (sent_frames st))")
    case True
    then have "r = Some (ErrText ''write'')" "st' = st\<lparr>lastSent := ev_seq ev\<rparr>"
      using assms(4,7) by (auto simp: sender_write_def write_frame_def)
    with k True show ?thesis by (auto simp: in_step_def close_on_def)
  next
    case False
    then have r: "r = None" "st' = st\<lparr>lastSent := ev_seq ev, sent_frames := sent_frames st @ [EventFrame ev]\<rparr>"
      using assms(4,7) by (auto simp: sender_write_def write_frame_def)
    have "sent_durable st' = sent_durable st @ [ev]"
      using assms(4) by (simp add: r(2) sent_durable_def sent_events_def map_filter_def)
    then have "map event_key (sent_durable st') = map event_key (take (Suc k) (drop after (entries l)))" using step by simp
    moreover have "lastSent st' = after + Suc k" using assms(4) k(3) by (simp add: r(2))
    ultimately show ?thesis using e(2) assms(3,4) r by (auto simp: in_step_def close_on_def intro!: exI [of _ "Suc k"])
  qed
qed

lemma in_step_items:
  assumes "in_step after l st" "sound l" "stream_open st" "filter (\<lambda>e. ev_seq e > 0) items = drop (lastSent st) (entries l)"
    "write_items fails st items = (r, st')"
  shows "in_step after l (close_on (r, st')) \<and>
    (r = None \<longrightarrow> stream_open st' \<and> lastSent st' = max (lastSent st) (length (entries l))) \<and> ((\<forall>n. \<not> fails n) \<longrightarrow> r = None)"
  using assms
proof (induction items arbitrary: st)
  case Nil
  then show ?case by (auto simp: close_on_def max_def)
next
  case (Cons ev items)
  show ?case
  proof (cases "ev_seq ev = 0")
    case True
    then show ?thesis using Cons.IH [OF Cons.prems(1-3)] Cons.prems(4,5) by simp
  next
    case False
    then have entries: "drop (lastSent st) (entries l) = ev # filter (\<lambda>e. ev_seq e > 0) items" using Cons.prems(4) by simp
    then have n: "lastSent st < length (entries l)" "entries l ! lastSent st = ev"
      by (metis drop_eq_Nil list.distinct(1) not_le) (metis entries drop_eq_Nil hd_drop_conv_nth list.distinct(1) list.sel(1) not_le)
    have seq: "ev_seq ev = Suc (lastSent st)" using entry_at [OF Cons.prems(2) n(1)] n(2) by simp
    obtain r1 st1 where w: "sender_write fails st ev = (r1, st1)" by fastforce
    have mem: "ev \<in> set (entries l)" using n by auto
    note step = in_step_write [OF Cons.prems(1-3) seq mem refl w]
    show ?thesis
    proof (cases r1)
      case None
      have rest: "filter (\<lambda>e. ev_seq e > 0) items = drop (lastSent st1) (entries l)"
        using step None entries by (metis drop_Suc list.sel(3) tl_drop)
      have "write_items fails st1 items = (r, st')" using Cons.prems(5) False w None by simp
      moreover have "in_step after l st1" "stream_open st1" "lastSent st1 = Suc (lastSent st)"
        using step None by (simp_all add: close_on_def)
      ultimately show ?thesis using Cons.IH [of st1, OF _ Cons.prems(2) _ rest] n(1) by simp
    next
      case (Some e)
      then have "r = Some e" "st' = st1" using Cons.prems(5) False w by auto
      then show ?thesis using step Some by blast
    qed
  qed
qed

lemma in_step_catchUp:
  assumes "in_step after l st" "sound l" "stream_open st" "catchUp fails (fetch l) st = (r, st')"
  shows "in_step after l (close_on (r, st'))"
proof (cases "fetch l (lastSent st)")
  case (Inl e)
  then show ?thesis using assms by (auto simp: catchUp_def close_on_def)
next
  case (Inr items)
  then have "write_items fails st items = (r, st')" using assms(4) by (simp add: catchUp_def)
  from in_step_items [OF assms(1-3) fetched [OF assms(2) Inr] this] show ?thesis by simp
qed

lemma in_step_other:
  assumes "in_step after l st" "sent_durable st' = sent_durable st" "stream_open st' \<Longrightarrow> stream_open st \<and> lastSent st' = lastSent st"
  shows "in_step after l st'"
  using assms by (auto simp: in_step_def)

lemma in_step_frame:
  assumes "in_step after l st" "case f of EventFrame e \<Rightarrow> ev_seq e = 0 | HeartbeatFrame \<Rightarrow> True" "stream_open st"
  shows "in_step after l (close_on (write_frame fails st f))"
  using assms(2,3) by (intro in_step_other [OF assms(1)]) (auto simp: write_frame_def close_on_def sent_durable_append split: frame.splits)

lemma in_step_deliver:
  assumes "in_step after l st" "sound l" "stream_open st" "ev_seq ev = 0 \<or> event_key ev \<in> event_key ` set (entries l)"
  shows "in_step after l (close_on (deliver fails (fetch l) st ev))"
proof -
  consider (gap) "ev_seq ev > u64 (lastSent st + 1)" | (live) "ev_seq ev = 0"
    | (old) "0 < ev_seq ev" "ev_seq ev \<le> lastSent st" "ev_seq ev \<le> u64 (lastSent st + 1)"
    | (new) "lastSent st < ev_seq ev" "ev_seq ev \<le> u64 (lastSent st + 1)" by linarith
  then show ?thesis
  proof cases
    case gap
    then show ?thesis
      using in_step_catchUp [OF assms(1,2,3)] by (cases "catchUp fails (fetch l) st") (simp add: deliver_def)
  next
    case live
    then show ?thesis using in_step_frame [OF assms(1) _ assms(3)] by (simp add: deliver_def sender_write_def)
  next
    case old
    then show ?thesis using assms(1) by (simp add: deliver_def sender_write_def close_on_def)
  next
    case new
    then have seq: "ev_seq ev = Suc (lastSent st)"
      by (metis Suc_eq_plus1 Suc_leI le_antisym le_trans mod_less_eq_dividend u64_def)
    obtain e where e: "e \<in> set (entries l)" "event_key e = event_key ev" using assms(4) seq by auto
    obtain r st' where w: "sender_write fails st ev = (r, st')" by fastforce
    have "deliver fails (fetch l) st ev = (r, st')" using new w by (simp add: deliver_def)
    then show ?thesis using in_step_write [OF assms(1,2,3) seq e w] by simp
  qed
qed

lemma in_step_step:
  assumes "in_step after l st" "sound l"
    "case inp of LiveEvent ev \<Rightarrow> ev_seq ev = 0 \<or> event_key ev \<in> event_key ` set (entries l) | _ \<Rightarrow> True"
  shows "in_step after l (stream_step fails (fetch l) inp st)"
proof (cases "stream_open st")
  case True
  show ?thesis
  proof (cases inp)
    case (LiveEvent ev)
    then show ?thesis using in_step_deliver [OF assms(1,2) True] assms(3) True by (simp add: stream_step_def)
  next
    case CatchUpTick
    then show ?thesis using in_step_catchUp [OF assms(1,2) True] True
      by (cases "catchUp fails (fetch l) st") (simp add: stream_step_def)
  next
    case HeartbeatTick
    then show ?thesis using in_step_frame [OF assms(1) _ True, of HeartbeatFrame] True by (simp add: stream_step_def)
  qed (use assms(1) True in \<open>auto simp: stream_step_def intro: in_step_other\<close>)
qed (use assms(1) in \<open>simp add: stream_step_def\<close>)

lemma run_in_step:
  assumes "in_step after l st" "feed_ok entries sound grows l steps"
  shows "in_step after (last_log l steps) (stream_run fails fetch steps st) \<and> sound (last_log l steps)"
  using assms
proof (induction steps arbitrary: l st)
  case Nil
  then show ?case by (simp add: last_log_def stream_run_def)
next
  case (Cons step steps)
  obtain inp l' where step: "step = (inp, l')" by fastforce
  have ok: "sound l" "grows l l'" "feed_ok entries sound grows l' steps" using Cons.prems(2) by (simp_all add: step)
  have "sound l'" using ok(3) by (cases steps) auto
  then have "in_step after l' (stream_step fails (fetch l') inp st)"
    using Cons.prems(2) by (intro in_step_step in_step_grows [OF Cons.prems(1) ok(1,2)]) (simp_all add: step)
  from Cons.IH [OF this ok(3)] show ?case by (simp add: step stream_run_def)
qed

lemma new_in_step: "in_step after l (new_sender after)"
  by (auto simp: in_step_def new_sender_def sent_durable_def sent_events_def map_filter_def)

lemma run_gapless:
  assumes "feed_ok entries sound grows l steps"
  shows "\<exists>k. map event_key (sent_durable (stream_run fails fetch steps (new_sender after))) =
    map event_key (take k (drop after (entries (last_log l steps))))"
  using run_in_step [OF new_in_step assms] by (auto simp: in_step_def)

lemma tick_complete:
  assumes "feed_ok entries sound grows l steps" "\<forall>n. \<not> fails n"
    "stream_open (stream_run fails fetch steps (new_sender after))" "last_log l steps = l'"
    "fetch l' (lastSent (stream_run fails fetch steps (new_sender after))) = Inr items"
  shows "map event_key (sent_durable (stream_run fails fetch (steps @ [(CatchUpTick, l')]) (new_sender after))) =
    map event_key (drop after (entries l'))"
proof -
  define st where "st = stream_run fails fetch steps (new_sender after)"
  have st: "in_step after l' st" "sound l'" "stream_open st" "fetch l' (lastSent st) = Inr items"
    using run_in_step [OF new_in_step assms(1)] assms(3-5) by (simp_all add: st_def)
  obtain r st' where w: "write_items fails st items = (r, st')" by fastforce
  from in_step_items [OF st(1-3) fetched [OF st(2,4)] w] assms(2)
  have r: "r = None" "in_step after l' st'" "stream_open st'" "lastSent st' = max (lastSent st) (length (entries l'))"
    by (auto simp: close_on_def)
  obtain k where k: "map event_key (sent_durable st') = map event_key (take k (drop after (entries l')))"
    "k \<le> length (entries l') - after" "lastSent st' = after + k" using r(2,3) by (auto simp: in_step_def)
  have "length (drop after (entries l')) \<le> k" using k(2,3) r(4) by simp
  moreover have "stream_run fails fetch (steps @ [(CatchUpTick, l')]) (new_sender after) = st'"
    using st(3,4) w r(1) by (simp add: stream_run_def st_def [unfolded stream_run_def, symmetric] stream_step_def catchUp_def close_on_def)
  ultimately show ?thesis using k(1) by simp
qed

end

end
