(* ===== verification/Stream_Facts.thy ===== *)
theory Stream_Facts
  imports Event_Sender Pg_Sample
begin

text \<open>
  The event stream of a client on the Postgres log (\<open>task_events.go\<close> with \<open>task_events.go\<close> of the
  store): no durable event is missing, sent twice or out of order, whichever replicas write and
  whatever the local fan-out delivers; and the one case in which a stream stays silent.
\<close>

definition log_entries :: "Principal \<Rightarrow> string \<Rightarrow> ('c, 'a task_db_scheme) sys \<Rightarrow> Event list" where
  "log_entries p i s = map stored_event (task_events_of (TenantID p) i (world s))"

text \<open>A replica on a well numbered log, whose live events carry no number.\<close>

definition stream_sound :: "Principal \<Rightarrow> string \<Rightarrow> ('c, 'a task_db_scheme) sys \<Rightarrow> bool" where
  "stream_sound p i s \<longleftrightarrow> log_ok (world s) \<and> length (task_events_of (TenantID p) i (world s)) < 2 ^ 63 \<and>
     (\<forall>e \<in> set (buffered (svc s) i). \<not> ev_durable e \<longrightarrow> ev_seq e = 0)"

definition world_grows :: "('c, 'a task_db_scheme) sys \<Rightarrow> ('c, 'a task_db_scheme) sys \<Rightarrow> bool" where
  "world_grows s s' \<longleftrightarrow> log_grows (world s) (world s')"

definition on_postgres :: "('c, 'a task_db_scheme) deps \<Rightarrow> ('c, 'a task_db_scheme) deps" where
  "on_postgres d = d\<lparr>projection := Some pg_projection\<rparr>"

lemma on_postgres_id: "projection d = Some pg_projection \<Longrightarrow> on_postgres d = d"
  by (simp add: on_postgres_def)

lemma rows_behind:
  assumes "map er_seq rows = [1..<Suc (length rows)]"
  shows "filter (\<lambda>r. cursor < er_seq r) rows = drop cursor rows"
proof -
  have at_n: "er_seq (rows ! n) = Suc n" if "n < length rows" for n
  proof -
    have "map er_seq rows ! n = Suc n" using that unfolding assms by (simp del: upt_Suc)
    then show ?thesis using that by simp
  qed
  have "filter (\<lambda>r. cursor < er_seq r) (take cursor rows) = []"
    using at_n by (auto simp: filter_empty_conv in_set_conv_nth)
  moreover have "filter (\<lambda>r. cursor < er_seq r) (drop cursor rows) = drop cursor rows"
    using at_n by (intro filter_True) (auto simp: in_set_conv_nth)
  ultimately show ?thesis by (metis append_Nil append_take_drop_id filter_append)
qed

lemma log_page:
  assumes "log_ok db" "pg_ListTaskEvents db p i cursor = Inr (items, head)"
  shows "items = drop cursor (map stored_event (task_events_of (TenantID p) i db))"
proof -
  let ?rows = "task_events_of (TenantID p) i db"
  have seqs: "map er_seq ?rows = [1..<Suc (length ?rows)]" using assms(1) by (simp add: log_ok_def)
  have rows: "filter (\<lambda>r. cursor < er_seq r) ?rows = drop cursor ?rows" by (rule rows_behind [OF seqs])
  have "sorted (map er_seq (drop cursor ?rows))"
    unfolding drop_map [symmetric] seqs by (simp add: sorted_wrt_drop del: upt_Suc)
  then show ?thesis
    using assms(2) by (auto simp: pg_ListTaskEvents_def storageErr_def inTenantRead_def Let_def rows sort_key_id_if_sorted
        drop_map split: if_splits)
qed

lemma buffered_cacheTask [simp]: "buffered (svc (cacheTask t s)) i = buffered (svc s) i" "world (cacheTask t s) = world s"
  by (simp_all add: cacheTask_def buffered_def)

lemma read_behind:
  assumes "stream_sound p i s" "service_fetch (on_postgres d) p i s cursor = Inr items"
  shows "filter (\<lambda>e. ev_seq e > 0) items = drop cursor (log_entries p i s)"
proof -
  have "log_ok (world s)" using assms(1) by (simp add: stream_sound_def)
  obtain s1 head durable where r: "pg_ListTaskEvents (world s) p i cursor = Inr (durable, head)"
    "items = withLiveEvents durable (buffered (svc s) i) cursor"
    using assms(2)
    by (auto simp: service_fetch_def EventsAfter_def svc_Get_def on_postgres_def pg_projection_def split: sum.splits prod.splits option.splits)
  have durable: "durable = drop cursor (log_entries p i s)"
    using log_page [OF \<open>log_ok (world s)\<close> r(1)] by (simp add: log_entries_def)
  have all: "\<forall>e \<in> set durable. ev_durable e \<and> 0 < ev_seq e \<and> ev_seq e < 2 ^ 63"
    "sorted (map ev_seq durable)"
  proof -
    let ?rows = "task_events_of (TenantID p) i (world s)"
    have seqs: "map er_seq ?rows = [1..<Suc (length ?rows)]" using \<open>log_ok (world s)\<close> by (simp add: log_ok_def)
    have maps: "map ev_seq (log_entries p i s) = map er_seq ?rows" by (simp add: log_entries_def stored_event_def)
    then show "sorted (map ev_seq durable)"
      unfolding durable drop_map [symmetric] seqs by (simp add: sorted_wrt_drop del: upt_Suc)
    have len: "length ?rows < 2 ^ 63" using assms(1) by (simp add: stream_sound_def)
    have "0 < ev_seq e \<and> ev_seq e < 2 ^ 63" if "e \<in> set durable" for e
    proof -
      have "ev_seq e \<in> set (map ev_seq (log_entries p i s))" using in_set_dropD that unfolding durable by fastforce
      then have "0 < ev_seq e" "ev_seq e \<le> length ?rows" unfolding maps seqs by auto
      then show ?thesis using len by linarith
    qed
    moreover have "ev_durable e" if "e \<in> set durable" for e
      using in_set_dropD that by (fastforce simp: durable log_entries_def stored_event_def)
    ultimately show "\<forall>e \<in> set durable. ev_durable e \<and> 0 < ev_seq e \<and> ev_seq e < 2 ^ 63" by blast
  qed
  have "set items = set durable \<union> {e \<in> set (buffered (svc s) i). \<not> ev_durable e \<and> ev_after e \<ge> cursor}"
    by (auto simp: r(2) withLiveEvents_def)
  then have same: "(ev_seq e > 0) = ev_durable e" if "e \<in> set items" for e
    using that all(1) assms(1) by (auto simp: stream_sound_def)
  have "filter ev_durable items = durable"
    unfolding r(2) using all by (intro withLiveEvents_durable) auto
  then show ?thesis using filter_cong [OF refl same, of items] durable by simp
qed

interpretation pg_stream: event_log "service_fetch (on_postgres d) p i" "log_entries p i" "stream_sound p i" world_grows
proof
  fix l :: "('a, 'b task_db_scheme) sys"
  assume l: "stream_sound p i l"
  let ?rows = "task_events_of (TenantID p) i (world l)"
  have "map er_seq ?rows = [1..<Suc (length ?rows)]" using l by (simp add: stream_sound_def log_ok_def)
  then show "map ev_seq (log_entries p i l) = [1..<Suc (length (log_entries p i l))]"
    by (simp add: log_entries_def stored_event_def comp_def)
  show "length (log_entries p i l) < 2 ^ 63" using l by (simp add: stream_sound_def log_entries_def)
next
  fix l l' :: "('a, 'b task_db_scheme) sys"
  assume "stream_sound p i l" "world_grows l l'"
  then show "\<exists>more. log_entries p i l' = log_entries p i l @ more"
    by (auto simp: world_grows_def log_grows_def log_entries_def task_events_of_def)
next
  fix l :: "('a, 'b task_db_scheme) sys" and cursor items
  assume "stream_sound p i l" "service_fetch (on_postgres d) p i l cursor = Inr items"
  then show "filter (\<lambda>e. ev_seq e > 0) items = drop cursor (log_entries p i l)" by (rule read_behind)
qed

abbreviation stream_feed :: "Principal \<Rightarrow> string \<Rightarrow> ('c, 'a task_db_scheme) sys
    \<Rightarrow> (stream_input \<times> ('c, 'a task_db_scheme) sys) list \<Rightarrow> bool" where
  "stream_feed p i \<equiv> feed_ok (log_entries p i) (stream_sound p i) world_grows"

text \<open>
  C7. A client's stream never skips, repeats or reorders a durable event: whatever live events arrive, whatever
  reads fail and whatever the replicas append meanwhile, what was sent is the log behind the client's
  cursor, from its first event on.
\<close>

theorem stream_is_gapless:
  assumes "projection d = Some pg_projection" "stream_feed p i s steps"
  shows "\<exists>k. map event_key (sent_durable (stream_run fails (service_fetch d p i) steps (new_sender after))) =
    map event_key (take k (drop after (log_entries p i (last_log s steps))))"
  using pg_stream.run_gapless [of p i s steps fails d after] assms(2) unfolding on_postgres_id [OF assms(1)] by blast

text \<open>
  C8. A stream catches up: at every moment, when the connection works and the log can be read, one tick later the
  client has every durable event behind its cursor.
\<close>

theorem stream_catches_up:
  assumes "projection d = Some pg_projection" "stream_feed p i s steps" "\<forall>n. \<not> fails n"
    and "stream_open (stream_run fails (service_fetch d p i) steps (new_sender after))" "last_log s steps = s'"
    and "service_fetch d p i s' (lastSent (stream_run fails (service_fetch d p i) steps (new_sender after))) = Inr items"
  shows "map event_key (sent_durable (stream_run fails (service_fetch d p i) (steps @ [(CatchUpTick, s')]) (new_sender after))) =
    map event_key (drop after (log_entries p i s'))"
  using pg_stream.tick_complete [of p i s steps fails d after s' items] assms(2-6) unfolding on_postgres_id [OF assms(1)] by blast

section \<open>An example\<close>

definition before :: "((string \<times> unit) list, task_db) sys" where
  "before = pg_sys []"

definition later :: "((string \<times> unit) list, task_db) sys" where
  "later = before\<lparr>world := store_run sample_db traffic\<rparr>"

lemma sample_log: "map event_key (log_entries alice ''task_1'' later) = [(1, ''evt_1''), (2, ''evt_3'')]"
  by code_simp

lemma sample_sound: "stream_sound alice ''task_1'' before" "stream_sound alice ''task_1'' later" "world_grows before later"
proof -
  have world: "world before = sample_db\<lparr>db_outbox := []\<rparr>" "world later = store_run sample_db traffic"
    "buffered (svc before) i = []" "buffered (svc later) i = []" for i
    by (simp_all add: before_def later_def pg_sys_def buffered_def NewService_def get_or_def)
  have ok: "log_ok sample_db" "db_events sample_db = []" by (simp_all add: log_ok_def task_events_of_def sample_defs)
  have grown: "log_grows sample_db (store_run sample_db traffic)" by (rule run_log)
  have "length (log_entries alice ''task_1'' later) = 2" using arg_cong [OF sample_log, of length] by simp
  then show "stream_sound alice ''task_1'' later" using grown ok(1) by (simp add: stream_sound_def world log_grows_def log_entries_def)
  have same: "db_events (world before) = db_events sample_db" by (simp add: world)
  then show "stream_sound alice ''task_1'' before"
    using ok by (simp add: stream_sound_def log_ok_def task_events_of_def world(3))
  show "world_grows before later" using grown same by (simp add: world_grows_def log_grows_def world(2) log_ok_def task_events_of_def)
qed

text \<open>The fan-out delivers the second event first; the sender reads the log, and a tick finds nothing left.\<close>

definition sample_steps :: "(stream_input \<times> ((string \<times> unit) list, task_db) sys) list" where
  "sample_steps = [(LiveEvent ((worker_event ''evt_3'' ''message.agent'' [])\<lparr>ev_seq := 2\<rparr>), later)]"

lemma sample_feed: "stream_feed alice ''task_1'' before sample_steps"
proof -
  have "(2, ''evt_3'') \<in> set (map event_key (log_entries alice ''task_1'' later))" unfolding sample_log by simp
  then show ?thesis using sample_sound by (simp add: sample_steps_def event_key_def worker_event_def)
qed

lemma sample_postgres: "projection pg_deps = Some pg_projection"
  by (simp add: pg_deps_def)

theorem stream_is_gapless_witness:
  "\<exists>k. map event_key (sent_durable (stream_run (\<lambda>n. n = 1) (service_fetch pg_deps alice ''task_1'') sample_steps (new_sender 0))) =
    take k [(1, ''evt_1''), (2, ''evt_3'')]"
proof -
  have last: "last_log before sample_steps = later" by (simp add: sample_steps_def last_log_def)
  show ?thesis
    using stream_is_gapless [OF sample_postgres sample_feed, of "\<lambda>n. n = 1" 0] unfolding last drop_0 sample_log [symmetric] take_map .
qed

theorem stream_catches_up_witness:
  "map event_key (sent_durable (stream_run (\<lambda>n. False) (service_fetch pg_deps alice ''task_1'')
      ([] @ [(CatchUpTick, later)]) (new_sender 1))) = [(2, ''evt_3'')]"
proof -
  have start: "stream_run (\<lambda>n. False) (service_fetch pg_deps alice ''task_1'') [] (new_sender 1) = \<lparr>lastSent = 1, sent_frames = [], stream_open = True\<rparr>"
    by (simp add: stream_run_def new_sender_def)
  obtain items where items: "service_fetch pg_deps alice ''task_1'' later
      (lastSent (stream_run (\<lambda>n. False) (service_fetch pg_deps alice ''task_1'') [] (new_sender 1))) = Inr items"
  proof -
    have "\<not> isl (pg_GetTask (world later) alice ''task_1'')" by code_simp
    then obtain t where "pg_GetTask (world later) alice ''task_1'' = Inr t" by (cases "pg_GetTask (world later) alice ''task_1''") auto
    then obtain items where "service_fetch pg_deps alice ''task_1'' later 1 = Inr items"
      by (simp add: service_fetch_def EventsAfter_def svc_Get_def pg_deps_def pg_projection_def pg_ListTaskEvents_def
          storageErr_def inTenantRead_def Let_def)
    then show ?thesis using that unfolding start by simp
  qed
  have feed: "stream_feed alice ''task_1'' later []" using sample_sound(2) by simp
  have "stream_open (stream_run (\<lambda>n. False) (service_fetch pg_deps alice ''task_1'') [] (new_sender 1))" unfolding start by simp
  from stream_catches_up [OF sample_postgres feed _ this _ items] show ?thesis
    using sample_log by (simp add: drop_map [symmetric] last_log_def)
qed

section \<open>A stream that stays silent\<close>

text \<open>The cursor of a client is behind what the buffer of a service without a store still holds.\<close>

definition cursor_expired :: "Principal \<Rightarrow> string \<Rightarrow> nat \<Rightarrow> ('c, 'w) sys \<Rightarrow> bool" where
  "cursor_expired p i after s \<longleftrightarrow>
     (\<exists>t. map_of (s_tasks (svc s)) i = Some t \<and> owns p t) \<and> buffered (svc s) i \<noteq> [] \<and> after \<noteq> 0 \<and>
     after < u64_sub (ev_seq (hd (buffered (svc s) i))) 1"

definition ahead :: "nat \<Rightarrow> stream_input \<Rightarrow> bool" where
  "ahead after inp \<longleftrightarrow> (case inp of LiveEvent ev \<Rightarrow> ev_seq ev = 0 \<or> ev_seq ev > u64 (after + 1) | _ \<Rightarrow> True)"

lemma expired_fetch:
  assumes "projection d = None" "cursor_expired p i after s"
  shows "service_fetch d p i s after = Inl ErrCursor"
  using assms by (auto simp: cursor_expired_def service_fetch_def EventsAfter_def Let_def)

lemma silent_step:
  assumes "projection d = None" "cursor_expired p i after s" "ahead after inp" "lastSent st = after" "sent_durable st = []"
  shows "lastSent (stream_step fails (service_fetch d p i s) inp st) = after \<and>
    sent_durable (stream_step fails (service_fetch d p i s) inp st) = []"
  using assms(3-5) expired_fetch [OF assms(1,2)]
  by (auto simp: stream_step_def ahead_def deliver_def catchUp_def sender_write_def write_frame_def close_on_def
      sent_durable_append split: stream_input.splits)

lemma silent_run:
  assumes "projection d = None" "\<forall>(inp, s) \<in> set steps. cursor_expired p i after s \<and> ahead after inp"
    "lastSent st = after" "sent_durable st = []"
  shows "sent_durable (stream_run fails (service_fetch d p i) steps st) = []"
  using assms(2-4)
proof (induction steps arbitrary: st)
  case (Cons step steps)
  obtain inp s where "step = (inp, s)" by fastforce
  then have step: "step = (inp, s)" "cursor_expired p i after s" "ahead after inp" using Cons.prems(1) by auto
  note silent = silent_step [OF assms(1) step(2,3) Cons.prems(2,3), of fails]
  show ?case using Cons.IH [OF _ conjunct1 [OF silent] conjunct2 [OF silent]] Cons.prems(1) by (simp add: stream_run_def step(1))
qed (simp add: stream_run_def)

text \<open>
  Without a store, a client that resumes behind the buffer is not told so: \<open>Subscribe\<close> answers it with a
  stream, the refusal \<open>EVENT_CURSOR_EXPIRED\<close> never happens, and the sender, which reads the log first
  because events are missing, gets the cursor error every time and sends no durable event at all.
\<close>

theorem expired_stream_is_silent:
  assumes "projection d = None" "trim_space h \<noteq> []" "ParseUint64 (trim_space h) = Some after" "cursor_expired p i after s"
    and "\<forall>(inp, s') \<in> set steps. cursor_expired p i after s' \<and> ahead after inp"
  shows "\<exists>n st s1. streamTaskEvents d s p i h True fails steps = (Streaming n st, s1) \<and> sent_durable st = []"
proof -
  obtain t where t: "map_of (s_tasks (svc s)) i = Some t" "owns p t" using assms(4) by (auto simp: cursor_expired_def)
  obtain items head s2 where ev: "EventsAfter d s p i after = ((items, head, Some ErrCursor), s2)"
    using expired_fetch [OF assms(1,4)] by (auto simp: service_fetch_def split: prod.splits option.splits)
  have "\<exists>n s1. Subscribe d s p i after = (Inr (n, head), s1)"
    using t assms(1) ev by (simp add: Subscribe_def svc_Get_def Let_def)
  moreover have "sent_durable (stream_run fails (service_fetch d p i) steps (new_sender after)) = []"
    by (rule silent_run [OF assms(1,5)]) (simp_all add: new_sender_def sent_durable_def sent_events_def map_filter_def)
  ultimately show ?thesis using assms(2,3) by (auto simp: streamTaskEvents_def Let_def)
qed

definition trimmed_sys :: "((string \<times> unit) list, unit) sys" where
  "trimmed_sys = sample_sys\<lparr>svc := (svc sample_sys)\<lparr>s_events :=
     [(''task_1'', [(sample_event ''e7'' True 1)\<lparr>ev_seq := 7\<rparr>, (sample_event ''e8'' True 1)\<lparr>ev_seq := 8\<rparr>])]\<rparr>\<rparr>"

theorem expired_stream_is_silent_witness:
  "\<exists>n st s1. streamTaskEvents sample_deps trimmed_sys \<lparr>TenantID = ''t'', UserID = ''u''\<rparr> ''task_1'' ''3'' True (\<lambda>n. False)
      [(LiveEvent ((sample_event ''e8'' True 1)\<lparr>ev_seq := 8\<rparr>), trimmed_sys), (CatchUpTick, trimmed_sys)] =
    (Streaming n st, s1) \<and> sent_durable st = []"
proof (rule expired_stream_is_silent)
  have three: "trim_space ''3'' = ''3''" by (rule trim_space_graphic; simp add: graphic_def byte_in_def)
  show "projection sample_deps = None" by (simp add: sample_deps_def)
  show "trim_space ''3'' \<noteq> []" "ParseUint64 (trim_space ''3'') = Some 3" using three by (simp_all add: ParseUint64_def is_digit_def byte_in_def)
  have expired: "cursor_expired \<lparr>TenantID = ''t'', UserID = ''u''\<rparr> ''task_1'' 3 trimmed_sys"
    by (simp add: cursor_expired_def trimmed_sys_def sample_sys_def NewService_def sample_task_def owns_def buffered_def
        get_or_def sample_event_def u64_sub_def)
  then show "cursor_expired \<lparr>TenantID = ''t'', UserID = ''u''\<rparr> ''task_1'' 3 trimmed_sys" .
  show "\<forall>(inp, s') \<in> set [(LiveEvent ((sample_event ''e8'' True 1)\<lparr>ev_seq := 8\<rparr>), trimmed_sys), (CatchUpTick, trimmed_sys)].
      cursor_expired \<lparr>TenantID = ''t'', UserID = ''u''\<rparr> ''task_1'' 3 s' \<and> ahead 3 inp"
    using expired by (simp add: ahead_def)
qed

end
