(* ===== verification/Skill_Store.thy ===== *)
theory Skill_Store
  imports Catalog "HOL-Library.Multiset" "HOL-Library.List_Lexorder" "HOL-Library.Char_ord"
begin

text \<open>
  The skill library on disk (\<open>internal/skillstore/store.go\<close>). A directory lists its entries as
  \<open>os.ReadDir\<close> does, by name. What a file does between being listed and being read is part of it: its
  listed size, the error of opening it, whether it still is the file that was listed, and the chunks it
  is read in with the error they end in.
\<close>

definition MaxFileBytes :: nat where "MaxFileBytes = 262144"
definition MaxFiles :: nat where "MaxFiles = 500"
definition MaxBytes :: nat where "MaxBytes = 8388608"
definition maxPart :: nat where "maxPart = 200"

definition errNotExist :: err where
  "errNotExist = ErrText ''file does not exist''"

record regular =
  rg_info :: "nat result"
  rg_open :: "err option"
  rg_same :: bool
  rg_chunks :: "string list"
  rg_end :: "err option"

datatype node =
    Dir "(string \<times> node) list"
  | Unlistable err                    \<comment> \<open>a directory that cannot be read\<close>
  | Regular regular
  | Symlink
  | Special

section \<open>Where a skill lives\<close>

definition validPart :: "string \<Rightarrow> bool" where
  "validPart part \<longleftrightarrow> part \<noteq> [] \<and> length part \<le> maxPart \<and> \<not> has_prefix part ''.'' \<and> byte 92 \<notin> set part \<and> byte 0 \<notin> set part"

definition skill_dir :: "string \<Rightarrow> (string \<times> string) option" where
  "skill_dir i =
     (case split_at (CHR ''/'') i of
        [handle, slug] \<Rightarrow> if validPart handle \<and> validPart slug then Some (handle, slug) else None
      | _ \<Rightarrow> None)"

definition child :: "string \<Rightarrow> node \<Rightarrow> node option" where
  "child name n = (case n of Dir es \<Rightarrow> map_of es name | _ \<Rightarrow> None)"

definition plainDir :: "node option \<Rightarrow> bool" where
  "plainDir n = (case n of Some (Dir es) \<Rightarrow> True | Some (Unlistable e) \<Rightarrow> True | _ \<Rightarrow> False)"

section \<open>Reading a file\<close>

fun read_chunks :: "string \<Rightarrow> string list \<Rightarrow> err option \<Rightarrow> string option result" where
  "read_chunks buffer [] None = Inr (Some buffer)"
| "read_chunks buffer [] (Some e) = Inl e"
| "read_chunks buffer (c # cs) stop =
     (if length (buffer @ c) > MaxFileBytes then Inr None else read_chunks (buffer @ c) cs stop)"

definition readText :: "regular \<Rightarrow> string option result" where
  "readText r =
     (case rg_open r of
        Some e \<Rightarrow> Inl e
      | None \<Rightarrow>
          if \<not> rg_same r then Inr None
          else rbind (read_chunks [] (rg_chunks r) (rg_end r)) (\<lambda>text.
            case text of
              None \<Rightarrow> Inr None
            | Some buffer \<Rightarrow> if \<not> valid_utf8 buffer \<or> byte 0 \<in> set buffer then Inr None else Inr (Some buffer)))"

section \<open>The walk\<close>

record scan =
  sc_seen :: nat
  sc_total :: nat
  sc_files :: "SkillFile list"

definition visit_file :: "string \<Rightarrow> regular \<Rightarrow> scan \<Rightarrow> scan result" where
  "visit_file path r st0 =
     (let st = st0\<lparr>sc_seen := Suc (sc_seen st0)\<rparr> in
      if sc_seen st > MaxFiles then Inl ErrTooLarge
      else rbind (rg_info r) (\<lambda>listed.
        if listed > MaxFileBytes then Inr st
        else let st1 = st\<lparr>sc_total := sc_total st + listed\<rparr> in
          if sc_total st1 > MaxBytes then Inl ErrTooLarge
          else rbind (readText r) (\<lambda>text. case text of
              None \<Rightarrow> Inr st1
            | Some body \<Rightarrow> Inr (st1\<lparr>sc_files := sc_files st1 @ [\<lparr>sf_path = path, sf_body = body\<rparr>]\<rparr>))))"

definition sub_path :: "string \<Rightarrow> string \<Rightarrow> string" where
  "sub_path path name = (if path = [] then name else path @ CHR ''/'' # name)"

fun visit :: "string \<Rightarrow> node \<Rightarrow> scan \<Rightarrow> scan result"
  and visit_all :: "string \<Rightarrow> (string \<times> node) list \<Rightarrow> scan \<Rightarrow> scan result" where
  "visit path (Dir es) st = visit_all path es st"
| "visit path (Unlistable e) st = Inl e"
| "visit path (Regular r) st = visit_file path r st"
| "visit path Symlink st = Inr st"
| "visit path Special st = Inr st"
| "visit_all path [] st = Inr st"
| "visit_all path ((name, n) # es) st = rbind (visit (sub_path path name) n st) (visit_all path es)"

definition store_Files :: "node \<Rightarrow> string \<Rightarrow> SkillFile list result" where
  "store_Files library i =
     (case skill_dir i of
        None \<Rightarrow> Inl ErrNotFound
      | Some (handle, slug) \<Rightarrow>
          let above = child handle library; dir = Option.bind above (child slug) in
          if \<not> plainDir above \<or> \<not> plainDir dir then Inl ErrNotFound
          else (case visit [] (the dir) \<lparr>sc_seen = 0, sc_total = 0, sc_files = []\<rparr> of
            Inl e \<Rightarrow> Inl (if e = errNotExist then ErrNotFound else e)
          | Inr st \<Rightarrow> if sc_files st = [] then Inl ErrNotFound else Inr (sort_key sf_path (sc_files st))))"

section \<open>What is served\<close>

text \<open>The regular files below a directory, reached through directories only, never through a symlink.\<close>

fun leaves :: "string \<Rightarrow> node \<Rightarrow> (string \<times> regular) list"
  and leaves_all :: "string \<Rightarrow> (string \<times> node) list \<Rightarrow> (string \<times> regular) list" where
  "leaves path (Dir es) = leaves_all path es"
| "leaves path (Unlistable e) = []"
| "leaves path (Regular r) = [(path, r)]"
| "leaves path Symlink = []"
| "leaves path Special = []"
| "leaves_all path [] = []"
| "leaves_all path ((name, n) # es) = leaves (sub_path path name) n @ leaves_all path es"

definition served :: "string \<times> regular \<Rightarrow> SkillFile option" where
  "served = (\<lambda>(path, r).
     (case (rg_info r, readText r) of
        (Inr listed, Inr (Some body)) \<Rightarrow> if listed \<le> MaxFileBytes then Some \<lparr>sf_path = path, sf_body = body\<rparr> else None
      | _ \<Rightarrow> None))"

definition file_sound :: "SkillFile \<Rightarrow> bool" where
  "file_sound f \<longleftrightarrow> length (sf_body f) \<le> MaxFileBytes \<and> valid_utf8 (sf_body f) \<and> byte 0 \<notin> set (sf_body f)"

lemma read_chunks_short: "read_chunks buffer cs stop = Inr (Some text) \<Longrightarrow> length buffer \<le> MaxFileBytes \<Longrightarrow> length text \<le> MaxFileBytes"
  by (induction buffer cs stop rule: read_chunks.induct) (auto split: if_splits)

lemma readText_sound: "readText r = Inr (Some body) \<Longrightarrow> file_sound \<lparr>sf_path = path, sf_body = body\<rparr>"
  using read_chunks_short [of "[]" "rg_chunks r" "rg_end r" body]
  by (cases "read_chunks [] (rg_chunks r) (rg_end r)")
    (auto simp: readText_def file_sound_def split: option.splits if_splits)

lemma served_sound: "served l = Some f \<Longrightarrow> file_sound f"
  using readText_sound by (auto simp: served_def split: prod.splits sum.splits option.splits if_splits)

definition scanned :: "scan \<Rightarrow> (string \<times> regular) list \<Rightarrow> scan \<Rightarrow> bool" where
  "scanned st ls st' \<longleftrightarrow> sc_files st' = sc_files st @ List.map_filter served ls \<and> sc_seen st' = sc_seen st + length ls \<and>
     (sc_seen st \<le> MaxFiles \<longrightarrow> sc_seen st' \<le> MaxFiles)"

lemma visit_file_scanned:
  assumes "visit_file path r st = Inr st'"
  shows "scanned st [(path, r)] st'"
proof -
  obtain listed where r: "rg_info r = Inr listed" "Suc (sc_seen st) \<le> MaxFiles"
    using assms by (auto simp: visit_file_def Let_def rbind_Inr_iff split: if_splits)
  show ?thesis
  proof (cases "listed > MaxFileBytes")
    case True
    then have "served (path, r) = None"
      by (auto simp: served_def r(1) split: sum.splits option.splits)
    with True show ?thesis
      using assms r by (auto simp: visit_file_def Let_def scanned_def List.map_filter_def)
  next
    case False
    then obtain found where found: "readText r = Inr found"
      using assms r by (auto simp: visit_file_def Let_def rbind_Inr_iff split: if_splits)
    with False show ?thesis
      using assms r by (cases found) (auto simp: visit_file_def Let_def scanned_def served_def List.map_filter_def split: if_splits)
  qed
qed

lemma scanned_trans: "scanned st ls st1 \<Longrightarrow> scanned st1 ls' st2 \<Longrightarrow> scanned st (ls @ ls') st2"
  by (auto simp: scanned_def List.map_filter_def)

lemma visit_scanned:
  "visit path n st = Inr st' \<Longrightarrow> scanned st (leaves path n) st'"
  "visit_all path es st = Inr st' \<Longrightarrow> scanned st (leaves_all path es) st'"
proof (induction path n st and path es st arbitrary: st' and st' rule: visit_visit_all.induct)
  case (3 path r st)
  then show ?case by (simp add: visit_file_scanned)
next
  case (7 path name n es st)
  then obtain st1 where "visit (sub_path path name) n st = Inr st1" "visit_all path es st1 = Inr st'"
    by (auto simp: rbind_Inr_iff)
  with 7 show ?case by (auto intro: scanned_trans)
qed (auto simp: scanned_def List.map_filter_def)

text \<open>
  C26. What the library serves of a skill is exactly its readable text files: regular files below the
  directory its id names, reached through directories only, so never through a symlink and never outside
  the library; 1 to 500 of them, each at most 256 KiB of valid UTF-8, in the order of their paths.
\<close>

theorem served_skill_is_text:
  assumes "store_Files library i = Inr files"
  shows "\<exists>handle slug above dir. skill_dir i = Some (handle, slug) \<and> child handle library = Some above \<and>
    child slug above = Some dir \<and> mset files = mset (List.map_filter served (leaves [] dir)) \<and>
    1 \<le> length files \<and> length files \<le> 500 \<and> sorted (map sf_path files) \<and>
    (\<forall>f \<in> set files. length (sf_body f) \<le> 262144 \<and> valid_utf8 (sf_body f) \<and> byte 0 \<notin> set (sf_body f))"
proof -
  let ?start = "\<lparr>sc_seen = 0, sc_total = 0, sc_files = []\<rparr>"
  obtain handle slug where hs: "skill_dir i = Some (handle, slug)"
    using assms by (auto simp: store_Files_def split: option.splits)
  obtain above dir st where d: "child handle library = Some above" "child slug above = Some dir"
    "visit [] dir ?start = Inr st" "sc_files st \<noteq> []" "files = sort_key sf_path (sc_files st)"
    using assms by (auto simp: store_Files_def hs Let_def plainDir_def split: option.splits sum.splits if_splits bind_splits)
  have sc: "sc_files st = List.map_filter served (leaves [] dir)" "length (leaves [] dir) \<le> MaxFiles"
    using visit_scanned(1) [OF d(3)] by (simp_all add: scanned_def)
  have len: "length (List.map_filter served ls) \<le> length ls" for ls
    by (simp add: List.map_filter_def)
  have "\<forall>f \<in> set files. file_sound f"
    using served_sound by (auto simp: d(5) sc(1) List.map_filter_def)
  moreover have "length files \<le> 500" using len [of "leaves [] dir"] sc by (simp add: d(5) MaxFiles_def)
  moreover have "1 \<le> length files" using d(4) by (simp add: d(5) Suc_le_eq)
  ultimately show ?thesis using hs d(1,2) sc(1) by (auto simp: d(5) file_sound_def MaxFileBytes_def)
qed

definition text_file :: "string \<Rightarrow> regular" where
  "text_file body = \<lparr>rg_info = Inr (length body), rg_open = None, rg_same = True, rg_chunks = [body], rg_end = None\<rparr>"

definition sample_library :: node where
  "sample_library = Dir [(''@ann'', Dir [(''notes'', Dir [(''SKILL.md'', Regular (text_file ''hi'')), (''link'', Symlink),
     (''swapped'', Regular ((text_file ''x'')\<lparr>rg_same := False\<rparr>)), (''sub'', Dir [(''a.md'', Regular (text_file ''ok''))])])])]"

theorem served_skill_is_text_witness:
  "\<exists>files. store_Files sample_library ''@ann/notes'' = Inr files \<and> 1 \<le> length files \<and> length files \<le> 500 \<and> sorted (map sf_path files)"
proof -
  have read: "readText (text_file ''hi'') = Inr (Some ''hi'')" "readText (text_file ''ok'') = Inr (Some ''ok'')"
    by (simp_all add: readText_def text_file_def decode_rune_def rune_error_def byte_def char_of_def MaxFileBytes_def)
  have info: "rg_info (text_file s) = Inr (length s)" for s by (simp add: text_file_def)
  have swapped: "rg_info ((text_file s)\<lparr>rg_same := False\<rparr>) = Inr (length s)" "readText ((text_file s)\<lparr>rg_same := False\<rparr>) = Inr None" for s
    by (simp_all add: readText_def text_file_def)
  have run: "store_Files sample_library ''@ann/notes'' = Inr [\<lparr>sf_path = ''SKILL.md'', sf_body = ''hi''\<rparr>, \<lparr>sf_path = ''sub/a.md'', sf_body = ''ok''\<rparr>]"
    using read info swapped
    by (simp add: Let_def store_Files_def skill_dir_def split_at.simps validPart_def maxPart_def has_prefix_def byte_def char_of_def sample_library_def child_def
        plainDir_def sub_path_def visit_file_def MaxFiles_def MaxFileBytes_def MaxBytes_def)
  from served_skill_is_text [OF run] show ?thesis using run by blast
qed

end
