(* ===== verification/Blob_Store.thy ===== *)
theory Blob_Store
  imports Catalog "HOL-Library.AList"
begin

text \<open>
  Storing an artifact's body on disk (\<open>internal/app/blobs.go\<close>). What the file system answers to each call
  is a parameter (\<open>blob_io\<close>), and so are the lower-case hex SHA-256 and \<open>strings.EqualFold\<close>. The body is
  the chunks it is read in and the error reading ends with.
\<close>

datatype io_call = MkdirAll | CreateTemp | WriteTemp nat | SyncTemp | CloseTemp | RenameTemp | RemoveTemp

text \<open>\<open>io_raced\<close>: another writer of the same blob made the rename fail and left the blob in place.\<close>

record blob_io =
  io_fails :: "io_call \<Rightarrow> err option"
  io_raced :: bool
  io_sha256 :: "string \<Rightarrow> string"
  io_equal_fold :: "string \<Rightarrow> string \<Rightarrow> bool"

text \<open>The directory: a blob by its tenant and name, and the temporary files.\<close>

record blob_dir =
  bd_blobs :: "(string \<times> string, string) gomap"
  bd_temps :: "(string \<times> string) list"

definition ErrDigestMismatch :: err where
  "ErrDigestMismatch = ErrText ''content digest mismatch''"

definition errArtifactTooLarge :: err where
  "errArtifactTooLarge = ErrText ''artifact too large''"

definition hex_digit :: "char \<Rightarrow> bool" where
  "hex_digit c \<longleftrightarrow> byte_in 48 57 c \<or> byte_in 97 102 c \<or> byte_in 65 70 c"

definition digestHex :: "string \<Rightarrow> bool" where
  "digestHex s \<longleftrightarrow> length s = 64 \<and> list_all hex_digit s"

definition bad_tenant :: "string \<Rightarrow> bool" where
  "bad_tenant t \<longleftrightarrow> t = [] \<or> CHR ''/'' \<in> set t \<or> byte 92 \<in> set t \<or> contains t ''..''"

text \<open>The loop: the bytes so far, or the error it stops with and the bytes that were written.\<close>

fun copy_body :: "blob_io \<Rightarrow> int \<Rightarrow> nat \<Rightarrow> string \<Rightarrow> string list \<Rightarrow> err option \<Rightarrow> err option \<times> string" where
  "copy_body io limit i written [] stop = (stop, written)"
| "copy_body io limit i written (c # cs) stop =
     (if c = [] then copy_body io limit i written cs stop
      else if int (length (written @ c)) > limit then (Some errArtifactTooLarge, written)
      else case io_fails io (WriteTemp i) of
        Some e \<Rightarrow> (Some e, written)
      | None \<Rightarrow> copy_body io limit (Suc i) (written @ c) cs stop)"

text \<open>What the deferred function leaves when the temporary file is not kept.\<close>

definition drop_temp :: "blob_io \<Rightarrow> string \<Rightarrow> string \<Rightarrow> blob_dir \<Rightarrow> blob_dir" where
  "drop_temp io tenantID written fs =
     (case io_fails io RemoveTemp of None \<Rightarrow> fs | Some e \<Rightarrow> fs\<lparr>bd_temps := (tenantID, written) # bd_temps fs\<rparr>)"

definition place_blob :: "blob_io \<Rightarrow> string \<Rightarrow> string \<Rightarrow> blob_dir \<Rightarrow> string result \<times> blob_dir" where
  "place_blob io tenantID body fs =
     (let sum = io_sha256 io body; ref = tenantID @ CHR ''/'' # sum;
          stored = fs\<lparr>bd_blobs := AList.update (tenantID, sum) body (bd_blobs fs)\<rparr> in
      if has_key (bd_blobs fs) (tenantID, sum) then (Inr ref, drop_temp io tenantID body fs)
      else case io_fails io CloseTemp of
        Some e \<Rightarrow> (Inl e, drop_temp io tenantID body fs)
      | None \<Rightarrow>
          (case io_fails io RenameTemp of
             Some e \<Rightarrow>
               if io_raced io then (Inr ref, drop_temp io tenantID body stored) else (Inl e, drop_temp io tenantID body fs)
           | None \<Rightarrow> (Inr ref, stored)))"

definition SaveArtifactBlob :: "blob_io \<Rightarrow> string \<Rightarrow> int \<Rightarrow> blob_dir \<Rightarrow> string \<Rightarrow> string \<Rightarrow> string list \<Rightarrow> err option
    \<Rightarrow> string result \<times> blob_dir" where
  "SaveArtifactBlob io artifactDir limit fs tenantID0 digestHeader chunks stop =
     (if \<not> digestHex (trim_space digestHeader) then (Inl (ErrInvalid ''X-Content-Digest must be 64 hex characters''), fs)
      else if artifactDir = [] then (Inl (ErrInvalid ''artifact storage is not configured''), fs)
      else let tenantID = trim_space tenantID0 in
        if bad_tenant tenantID then (Inl ErrNotFound, fs)
        else case io_fails io MkdirAll of
          Some e \<Rightarrow> (Inl e, fs)
        | None \<Rightarrow>
            (case io_fails io CreateTemp of
               Some e \<Rightarrow> (Inl e, fs)
             | None \<Rightarrow>
                 (case copy_body io limit 0 [] chunks stop of
                    (Some e, written) \<Rightarrow> (Inl e, drop_temp io tenantID written fs)
                  | (None, body) \<Rightarrow>
                      (case io_fails io SyncTemp of
                         Some e \<Rightarrow> (Inl e, drop_temp io tenantID body fs)
                       | None \<Rightarrow>
                           if \<not> io_equal_fold io (io_sha256 io body) (trim_space digestHeader) then
                             (Inl ErrDigestMismatch, drop_temp io tenantID body fs)
                           else place_blob io tenantID body fs))))"

section \<open>Blobs are named by their content\<close>

definition addressed :: "blob_io \<Rightarrow> int \<Rightarrow> blob_dir \<Rightarrow> bool" where
  "addressed io limit fs \<longleftrightarrow> distinct (map fst (bd_blobs fs)) \<and>
     (\<forall>((t, name), body) \<in> set (bd_blobs fs). name = io_sha256 io body \<and> int (length body) \<le> limit \<and> \<not> bad_tenant t)"

lemma copy_body_done:
  "copy_body io limit i written chunks stop = (None, body) \<Longrightarrow> int (length written) \<le> limit \<Longrightarrow>
     body = written @ concat chunks \<and> int (length body) \<le> limit \<and> stop = None"
  by (induction io limit i written chunks stop rule: copy_body.induct) (auto simp del: length_concat split: if_splits option.splits)

lemma drop_temp_blobs [simp]: "bd_blobs (drop_temp io t w fs) = bd_blobs fs"
  by (simp add: drop_temp_def split: option.split)

lemma drop_temp_clean: "io_fails io RemoveTemp = None \<Longrightarrow> bd_temps (drop_temp io t w fs) = bd_temps fs"
  by (simp add: drop_temp_def)

lemma set_update: "set (AList.update k v m) \<subseteq> insert (k, v) (set m)"
  by (induction m) auto

lemma placed:
  assumes "place_blob io t body fs = (r, fs')" "addressed io limit fs" "int (length body) \<le> limit" "\<not> bad_tenant t"
  shows "addressed io limit fs' \<and> (io_fails io RemoveTemp = None \<longrightarrow> bd_temps fs' = bd_temps fs) \<and>
    (case r of Inl e \<Rightarrow> bd_blobs fs' = bd_blobs fs
     | Inr ref \<Rightarrow> ref = t @ CHR ''/'' # io_sha256 io body \<and> has_key (bd_blobs fs') (t, io_sha256 io body) \<and>
         (\<forall>k. k \<noteq> (t, io_sha256 io body) \<longrightarrow> map_of (bd_blobs fs') k = map_of (bd_blobs fs) k))"
proof -
  let ?stored = "AList.update (t, io_sha256 io body) body (bd_blobs fs)"
  have "set ?stored \<subseteq> insert ((t, io_sha256 io body), body) (set (bd_blobs fs))" by (rule set_update)
  then have grown: "addressed io limit (fs\<lparr>bd_blobs := ?stored\<rparr>)"
    using assms(2-4) by (fastforce simp: addressed_def distinct_update)
  have same: "addressed io limit (drop_temp io t w fs1) = addressed io limit fs1" for w fs1 by (simp add: addressed_def)
  show ?thesis
    using assms(1,2) grown
    by (auto simp: place_blob_def Let_def same drop_temp_clean has_key_def update_conv split: if_splits option.splits sum.splits)
qed

text \<open>
  C34. Whatever fails on the way, every blob of the store is named by the SHA-256 of its content, within the limit
  and in a directory of its tenant; a refused or failed upload changes no blob; one that is answered is
  the whole body, has the digest the caller stated, and touches no other blob; and no temporary file stays
  unless removing it fails.
\<close>

theorem blobs_are_content_addressed:
  assumes "SaveArtifactBlob io dir limit fs t digest chunks stop = (r, fs')" "addressed io limit fs" "0 \<le> limit"
  shows "addressed io limit fs' \<and> (io_fails io RemoveTemp = None \<longrightarrow> bd_temps fs' = bd_temps fs) \<and>
    (case r of Inl e \<Rightarrow> bd_blobs fs' = bd_blobs fs
     | Inr ref \<Rightarrow>
         let name = io_sha256 io (concat chunks) in
         stop = None \<and> io_equal_fold io name (trim_space digest) \<and> int (length (concat chunks)) \<le> limit \<and>
         ref = trim_space t @ CHR ''/'' # name \<and> has_key (bd_blobs fs') (trim_space t, name) \<and>
         (\<forall>k. k \<noteq> (trim_space t, name) \<longrightarrow> map_of (bd_blobs fs') k = map_of (bd_blobs fs) k))"
proof -
  have same: "addressed io limit (drop_temp io t w fs)" for t w using assms(2) by (simp add: addressed_def)
  consider (early) e where "r = Inl e" "fs' = fs"
    | (dropped) e w where "r = Inl e" "fs' = drop_temp io (trim_space t) w fs"
    | (place) body where "copy_body io limit 0 [] chunks stop = (None, body)" "place_blob io (trim_space t) body fs = (r, fs')"
        "io_equal_fold io (io_sha256 io body) (trim_space digest)" "\<not> bad_tenant (trim_space t)"
    using assms(1) by (auto simp: SaveArtifactBlob_def Let_def split: if_splits option.splits prod.splits)
  then show ?thesis
  proof cases
    case place
    have body: "body = concat chunks" "int (length body) \<le> limit" "stop = None"
      using copy_body_done [OF place(1)] assms(3) by auto
    show ?thesis using placed [OF place(2) assms(2) body(2) place(4)] place(3) body(2,3) unfolding body(1)
      by (cases r) (simp_all add: Let_def)
  qed (use assms(2) same in \<open>simp_all add: drop_temp_clean\<close>)
qed

text \<open>Here the upload's own rename fails because another one has just placed the same blob.\<close>

definition sample_io :: blob_io where
  "sample_io = \<lparr>io_fails = (\<lambda>call. if call = RenameTemp then Some (ErrText ''busy'') else None), io_raced = True,
     io_sha256 = (\<lambda>body. replicate 64 (CHR ''a'')), io_equal_fold = (=)\<rparr>"

theorem blobs_are_content_addressed_witness:
  "let fs = \<lparr>bd_blobs = [], bd_temps = []\<rparr>; name = replicate 64 (CHR ''a'');
       (r, fs') = SaveArtifactBlob sample_io ''/data'' 10 fs ''t1'' name [''ab'', [], ''c''] None
   in r = Inr (''t1/'' @ name) \<and> has_key (bd_blobs fs') (''t1'', name) \<and> bd_temps fs' = []"
proof -
  let ?fs = "\<lparr>bd_blobs = [], bd_temps = []\<rparr> :: blob_dir" and ?name = "replicate 64 (CHR ''a'')"
  let ?run = "SaveArtifactBlob sample_io ''/data'' 10 ?fs ''t1'' ?name [''ab'', [], ''c''] None"
  have "fst ?run = Inr (''t1/'' @ ?name)" by code_simp
  then have run: "?run = (Inr (''t1/'' @ ?name), snd ?run)" by (simp add: prod_eq_iff)
  have trim: "trim_space ''t1'' = ''t1''" by code_simp
  have "addressed sample_io 10 ?fs" "io_fails sample_io RemoveTemp = None" "\<And>body. io_sha256 sample_io body = ?name"
    by (simp_all add: addressed_def sample_io_def)
  with blobs_are_content_addressed [OF run] have "has_key (bd_blobs (snd ?run)) (''t1'', ?name)" "bd_temps (snd ?run) = []"
    by (simp_all add: trim Let_def)
  then show ?thesis unfolding Let_def by (subst run) simp
qed

end
