(* ===== verification/Http_Base.thy ===== *)
theory Http_Base
  imports Task_Request Expert_Import Event_Sender Blob_Store
begin

text \<open>
  What the routes of \<open>internal/httpapi\<close> share: a request and an answer, the way errors are answered
  (\<open>handler.go\<close>, \<open>refusal.go\<close> and the closures at the head of \<open>task_routes.go\<close>), the checks before a handler
  runs (\<open>auth.go\<close>, \<open>internalauth/auth.go\<close>), and the readers of request fields. The router, the JSON text and
  the struct decoding of \<open>encoding/json\<close> are outside: a route comes with its path values, and a body is
  \<open>None\<close> when it does not decode into the type the handler asks for. The rules of the \<open>binding\<close> tags are here.
\<close>

section \<open>Requests and answers\<close>

text \<open>\<open>Header.Get\<close>, \<open>Query().Get\<close> and the sender's address.\<close>

record request =
  rq_method :: string
  rq_path :: string
  rq_header :: "string \<Rightarrow> string"
  rq_query :: "string \<Rightarrow> string"
  rq_remote :: string

record ErrorBody =
  eb_error :: string
  eb_code :: string
  eb_message :: string
  eb_field :: string
  eb_reason :: string

datatype body =
    NoBody
  | ErrBody ErrorBody
  | PlainError string string
  | HealthBody
  | OkBody
  | PersonaItems "Persona list" | PersonaBody Persona
  | ConnectorItems "McpConnector list" | ConnectorBody McpConnector
  | MarketListBody "McpMarketServer page \<times> nat" | MarketBody AppMcpMarketDetail
  | MarketCategories "McpMarketCategoryCount list"
  | SkillsBody SkillList | SkillBody Skill | SkillFilesBody "SkillFile list" | SkillCategories "SkillCategoryRecord list"
  | AgentsBody "Agent page" | AgentBody Agent
  | Bytes string
  | ModelsBody "string list" string
  | TaskItems "Task list" | TaskBody Task
  | ProfileItems "Profile list" | ProfileBody Profile
  | ExpertItems "Expert list" | ExpertBody Expert | ImportedBody ImportedExpert | ImportCounts nat nat
  | ExpertFilesBody int "ExpertFileInfo list" | ExpertFileBody ProfileFile
  | PolicyBody Policy | SettingsBody UserSettings
  | SOPItems "SOP list" | SOPBody SOP
  | ConfigBody ConfigView | ConfigResultBody ConfigUpdateResult
  | PlanBody TaskPlan
  | ManifestItems "ArtifactManifest list" | ManifestBody ArtifactManifest
  | URLBody string
  | StreamBody nat eventSender
  | RawBody raw
  | SkillBundleBody SkillBundle
  | ReportBody TaskReconcileReport
  | StorageRef string

record answer =
  an_status :: int
  an_headers :: "(string, string) gomap"
  an_body :: body

definition writeJSON :: "int \<Rightarrow> body \<Rightarrow> answer" where
  "writeJSON status v = \<lparr>an_status = status, an_headers = [(''Content-Type'', ''application/json'')], an_body = v\<rparr>"

text \<open>\<open>strings.ReplaceAll(code, "_", " ")\<close> in lower case.\<close>

definition error_text :: "(nat \<Rightarrow> nat) \<Rightarrow> string \<Rightarrow> string" where
  "error_text f code = ToLower f (map (\<lambda>c. if c = CHR ''_'' then CHR '' '' else c) code)"

definition writeErr :: "(nat \<Rightarrow> nat) \<Rightarrow> int \<Rightarrow> string \<Rightarrow> string \<Rightarrow> answer" where
  "writeErr f status code message =
     writeJSON status (ErrBody \<lparr>eb_error = error_text f code, eb_code = code, eb_message = message, eb_field = [], eb_reason = []\<rparr>)"

definition field_answer :: "(nat \<Rightarrow> nat) \<Rightarrow> int \<Rightarrow> string \<Rightarrow> string \<Rightarrow> string \<Rightarrow> answer" where
  "field_answer f status code field reason =
     writeJSON status (ErrBody \<lparr>eb_error = error_text f code, eb_code = code, eb_message = reason, eb_field = field, eb_reason = reason\<rparr>)"

text \<open>\<open>writeFieldErr\<close> and \<open>writeOrchRefusal\<close>: \<open>None\<close> when the error is of another kind.\<close>

definition writeFieldErr :: "(nat \<Rightarrow> nat) \<Rightarrow> err \<Rightarrow> answer option" where
  "writeFieldErr f e = (case e of FieldError code field reason \<Rightarrow> Some (field_answer f 400 code field reason) | _ \<Rightarrow> None)"

definition writeOrchRefusal :: "(nat \<Rightarrow> nat) \<Rightarrow> err \<Rightarrow> answer option" where
  "writeOrchRefusal f e = (case e of Refusal ty msg \<Rightarrow> Some (writeErr f (RefusalStatus ty) ty msg) | _ \<Rightarrow> None)"

text \<open>\<open>err.Error()\<close>. The reason of an SOP refusal is formatted by \<open>fmt.Sprintf\<close> (\<open>sprintf\<close>).\<close>

definition err_text :: "(string \<Rightarrow> string list \<Rightarrow> string) \<Rightarrow> err \<Rightarrow> string" where
  "err_text sprintf e =
     (case e of
        ErrNotFound \<Rightarrow> ''not found''
      | ErrStorage \<Rightarrow> ''storage error''
      | ErrClosed \<Rightarrow> ''task is closed''
      | ErrMalformedEvent \<Rightarrow> ''event is missing its tenant, task or id''
      | ErrCursor \<Rightarrow> ''event cursor cannot be resumed''
      | ErrIdempotencyConflict \<Rightarrow> ''idempotency key reused with a different request''
      | ErrReconcileUnavailable \<Rightarrow> ''task reconciliation requires an orchestrator''
      | ErrCommandInProgress \<Rightarrow> ''command is already being processed''
      | Refusal ty msg \<Rightarrow> ty @ '': '' @ msg
      | ErrConfigConflict \<Rightarrow> ''the task'' @ [byte 39] @ ''s configuration changed since it was read''
      | ErrTaskClosed \<Rightarrow> ''task is closed''
      | InvalidSOPError fmt args \<Rightarrow> ''invalid SOP: '' @ sprintf fmt args
      | MentionError code field reason \<Rightarrow> code @ '': '' @ field @ '': '' @ reason
      | FieldError code field reason \<Rightarrow> ''invalid request: '' @ field @ '': '' @ reason @ '' ('' @ code @ '')''
      | ErrTooLarge \<Rightarrow> ''skill is too large''
      | ErrInvalid msg \<Rightarrow> ''invalid request: '' @ msg
      | ErrUnknownProfile \<Rightarrow> ''unknown profile''
      | ErrText msg \<Rightarrow> msg)"

text \<open>What the answers need from outside: \<open>unicode.ToLower\<close> and \<open>fmt.Sprintf\<close>.\<close>

record texts =
  tx_lower :: "nat \<Rightarrow> nat"
  tx_sprintf :: "string \<Rightarrow> string list \<Rightarrow> string"

definition writeAppErr :: "texts \<Rightarrow> string \<Rightarrow> int \<Rightarrow> string \<Rightarrow> err \<Rightarrow> answer" where
  "writeAppErr tx notFound fallback fallbackCode e =
     (let f = tx_lower tx; bad = writeErr f 400 ''BAD_REQUEST'' ''the request is invalid'' in
      if e = ErrNotFound then writeErr f 404 ''NOT_FOUND'' notFound
      else if e = ErrStorage then writeErr f 500 ''INTERNAL'' ''internal error''
      else case writeFieldErr f e of
        Some a \<Rightarrow> a
      | None \<Rightarrow>
          if (case e of ErrInvalid msg \<Rightarrow> True | _ \<Rightarrow> False) then bad
          else if fallback = 400 then bad
          else writeErr f fallback fallbackCode (err_text (tx_sprintf tx) e))"

definition writeBlobErr :: "texts \<Rightarrow> err \<Rightarrow> answer" where
  "writeBlobErr tx e =
     (if e = errArtifactTooLarge then
        writeErr (tx_lower tx) 413 ''PAYLOAD_TOO_LARGE'' ''artifact body exceeds the configured limit''
      else if e = ErrDigestMismatch then
        writeErr (tx_lower tx) 422 ''DIGEST_MISMATCH'' ''X-Content-Digest does not match the body''
      else writeAppErr tx ''not found'' 400 ''BAD_REQUEST'' e)"

definition writeTaskErr :: "texts \<Rightarrow> err \<Rightarrow> answer" where
  "writeTaskErr tx e =
     (let f = tx_lower tx in
      if e = ErrNotFound then writeErr f 404 ''NOT_FOUND'' ''task not found''
      else if e = ErrClosed then writeErr f 409 ''TASK_CLOSED'' ''task is closed''
      else if refusal_is e ErrConfigConflict then
        writeErr f 409 ''CONFIG_VERSION_CONFLICT''
          (''the task'' @ [byte 39] @ ''s configuration changed since it was read; read it and retry'')
      else if e = ErrIdempotencyConflict then
        writeErr f 409 ''IDEMPOTENCY_KEY_REUSED'' ''command id was already used with a different request''
      else if e = ErrCommandInProgress then
        (writeErr f 409 ''IN_PROGRESS'' ''this command id is still being processed; retry with the same command id'')
          \<lparr>an_headers := [(''Retry-After'', ''1''), (''Content-Type'', ''application/json'')]\<rparr>
      else if e = ErrStorage then writeErr f 500 ''STORAGE_ERROR'' ''task storage is temporarily unavailable''
      else case writeOrchRefusal f e of
        Some a \<Rightarrow> a
      | None \<Rightarrow>
          (case writeFieldErr f e of
             Some a \<Rightarrow> a
           | None \<Rightarrow> writeErr f 400 ''BAD_REQUEST'' ''the request is invalid''))"

definition writeExpertErr :: "texts \<Rightarrow> err \<Rightarrow> answer" where
  "writeExpertErr tx e =
     (if e = ErrNotFound then writeErr (tx_lower tx) 404 ''NOT_FOUND'' ''expert not found''
      else if e = ErrIdempotencyConflict then
        writeErr (tx_lower tx) 409 ''EXPERT_VERSION_TAKEN'' ''another update took the next version; read the expert and retry''
      else writeTaskErr tx e)"

text \<open>\<open>gin.Recovery\<close>: a handler that panics is answered with a bare 500.\<close>

definition panicked :: answer where
  "panicked = \<lparr>an_status = 500, an_headers = [], an_body = NoBody\<rparr>"

section \<open>Who may call\<close>

definition writeUnauthenticated :: "(nat \<Rightarrow> nat) \<Rightarrow> answer" where
  "writeUnauthenticated f = writeErr f 401 ''UNAUTHENTICATED'' ''authentication required''"

definition writeCSRFRejected :: "(nat \<Rightarrow> nat) \<Rightarrow> answer" where
  "writeCSRFRejected f =
     writeErr f 403 ''CSRF_REJECTED'' ''state-changing requests need an allowed Origin and X-Orbit-Request: 1''"

type_synonym authenticator = "request \<Rightarrow> Principal option"

definition LocalUserID :: string where "LocalUserID = ''local-dev''"

definition LocalAuthenticator :: "string \<Rightarrow> authenticator" where
  "LocalAuthenticator tenantID r = Some \<lparr>TenantID = tenantID, UserID = LocalUserID\<rparr>"

definition denyAllAuthenticator :: authenticator where
  "denyAllAuthenticator r = None"

definition authenticatorFromEnv :: "bool \<Rightarrow> string \<Rightarrow> authenticator" where
  "authenticatorFromEnv oidc defaultTenant = (if oidc then denyAllAuthenticator else LocalAuthenticator defaultTenant)"

definition csrfOK :: "request \<Rightarrow> string list \<Rightarrow> bool" where
  "csrfOK r allowed =
     (if rq_header r ''X-Orbit-Request'' \<noteq> ''1'' then False
      else let origin = rq_header r ''Origin'' in
        if origin = [] then False else list_ex (\<lambda>o'. origin = o') allowed)"

definition mutates :: "string \<Rightarrow> bool" where
  "mutates method \<longleftrightarrow> method = ''POST'' \<or> method = ''PUT'' \<or> method = ''PATCH'' \<or> method = ''DELETE''"

definition authed :: "(nat \<Rightarrow> nat) \<Rightarrow> authenticator \<Rightarrow> string list \<Rightarrow> request \<Rightarrow> (Principal \<Rightarrow> 's \<Rightarrow> answer \<times> 's)
    \<Rightarrow> 's \<Rightarrow> answer \<times> 's" where
  "authed f auth allowedOrigins r handler st =
     (case auth r of
        None \<Rightarrow> (writeUnauthenticated f, st)
      | Some caller \<Rightarrow>
          if mutates (rq_method r) \<and> length allowedOrigins > 0 \<and> \<not> csrfOK r allowedOrigins then (writeCSRFRejected f, st)
          else handler caller st)"

text \<open>
  The internal listener's check. \<open>strings.EqualFold\<close> and \<open>net.SplitHostPort\<close> are outside; comparing in
  constant time is comparing.
\<close>

record auth_pkg =
  ap_equal_fold :: "string \<Rightarrow> string \<Rightarrow> bool"
  ap_SplitHostPort :: "string \<Rightarrow> string option"
  ap_ParseIP :: "string \<Rightarrow> ip_addr option"

definition bearer :: "auth_pkg \<Rightarrow> string \<Rightarrow> string" where
  "bearer K header0 =
     (let header = trim_space header0 in
      if length header < 8 \<or> \<not> ap_equal_fold K (take 7 header) ''bearer '' then [] else trim_space (drop 7 header))"

definition isLoopback :: "auth_pkg \<Rightarrow> string \<Rightarrow> bool" where
  "isLoopback K remote =
     (if remote = [] then True
      else let host = (case ap_SplitHostPort K remote of Some h \<Rightarrow> h | None \<Rightarrow> remote) in
        case ap_ParseIP K host of None \<Rightarrow> False | Some ip \<Rightarrow> ip_loopback ip)"

definition Authorized :: "auth_pkg \<Rightarrow> string \<Rightarrow> request \<Rightarrow> bool" where
  "Authorized K token r =
     (if token \<noteq> [] then bearer K (rq_header r ''Authorization'') = token else isLoopback K (rq_remote r))"

definition Middleware :: "auth_pkg \<Rightarrow> string \<Rightarrow> request \<Rightarrow> ('s \<Rightarrow> answer \<times> 's) \<Rightarrow> 's \<Rightarrow> answer \<times> 's" where
  "Middleware K token r following st =
     (if has_prefix (rq_path r) ''/internal/'' \<and> \<not> Authorized K token r then
        (writeJSON 401 (ErrBody \<lparr>eb_error = ''unauthorized'', eb_code = ''UNAUTHORIZED'',
           eb_message = ''internal token required'', eb_field = [], eb_reason = []\<rparr>), st)
      else following st)"

section \<open>Reading a request\<close>

text \<open>\<open>bindJSON\<close>: \<open>body\<close> is what decoding gave, \<open>valid\<close> the \<open>binding\<close> rules of the type.\<close>

definition bindJSON :: "(nat \<Rightarrow> nat) \<Rightarrow> 'b option \<Rightarrow> ('b \<Rightarrow> bool) \<Rightarrow> answer + 'b" where
  "bindJSON f body valid =
     (case body of
        None \<Rightarrow> Inl (writeErr f 400 ''BAD_REQUEST'' ''request body must be valid JSON'')
      | Some b \<Rightarrow> if valid b then Inr b else Inl (writeErr f 400 ''BAD_REQUEST'' ''the request is invalid''))"

text \<open>
  A body that decodes into \<open>map[string]any\<close>: \<open>None\<close> for the JSON text \<open>null\<close>, which leaves the map nil. Reading
  a nil map finds nothing; writing to one panics.
\<close>

type_synonym json_map = "obj option"

definition fields_of :: "json_map \<Rightarrow> obj" where
  "fields_of b = (case b of None \<Rightarrow> [] | Some m \<Rightarrow> m)"

fun stringValue :: "obj \<Rightarrow> string list \<Rightarrow> string" where
  "stringValue body [] = []"
| "stringValue body (k # ks) = (case str_field body k of Some v \<Rightarrow> v | None \<Rightarrow> stringValue body ks)"

fun string_items :: "goval list \<Rightarrow> string list option" where
  "string_items [] = Some []"
| "string_items (v # vs) =
     (case v of Str s \<Rightarrow> map_option ((#) s) (string_items vs) | _ \<Rightarrow> None)"

definition stringList :: "goval option \<Rightarrow> string list option" where
  "stringList v =
     (case v of
        None \<Rightarrow> Some []
      | Some Null \<Rightarrow> Some []
      | Some (Arr vs) \<Rightarrow> string_items vs
      | Some _ \<Rightarrow> None)"

definition commandID :: "string \<Rightarrow> string \<Rightarrow> string" where
  "commandID fresh raw = (if trim_space raw \<noteq> [] then raw else fresh)"

definition versionQuery :: "(nat \<Rightarrow> nat) \<Rightarrow> request \<Rightarrow> answer + int" where
  "versionQuery f r =
     (let raw = rq_query r ''version'' in
      if raw = [] then Inr 0
      else case Atoi raw of
        None \<Rightarrow> Inl (writeErr f 400 ''BAD_REQUEST'' ''version must be a positive whole number'')
      | Some version \<Rightarrow>
          if version < 1 then Inl (writeErr f 400 ''BAD_REQUEST'' ''version must be a positive whole number'') else Inr version)"

text \<open>
  \<open>page, _ := strconv.Atoi(s)\<close>: 0 when the text is no number, and the nearest 64-bit value when the
  number is too large, which is reported as soon as it is seen.
\<close>

fun scan_uint :: "nat \<Rightarrow> string \<Rightarrow> nat option" where
  "scan_uint n [] = Some n"
| "scan_uint n (c # cs) =
     (if \<not> is_digit c then None
      else let n1 = 10 * n + (of_char c - 48) in
        if n1 \<ge> 2 ^ 64 then Some (2 ^ 64 - 1) else scan_uint n1 cs)"

definition page_number :: "string \<Rightarrow> int" where
  "page_number s =
     (let negative = has_prefix s ''-'';
          ds = (if negative \<or> has_prefix s ''+'' then tl s else s)
      in if ds = [] then 0
         else case scan_uint 0 ds of
           None \<Rightarrow> 0
         | Some u \<Rightarrow> if negative then - int (min u (2 ^ 63)) else int (min u (2 ^ 63 - 1)))"

text \<open>\<open>modelCatalog\<close>.\<close>

fun valid_models :: "string list \<Rightarrow> string list \<Rightarrow> string list" where
  "valid_models seen [] = []"
| "valid_models seen (m # ms) =
     (if \<not> ValidModelName m \<or> m \<in> set seen then valid_models seen ms else m # valid_models (m # seen) ms)"

definition modelCatalog :: "string list \<Rightarrow> string \<Rightarrow> string list \<times> string" where
  "modelCatalog items fallback = (valid_models [] items, if ValidModelName fallback then fallback else [])"

definition writeModels :: "string list \<Rightarrow> string \<Rightarrow> answer" where
  "writeModels items fallback = (case modelCatalog items fallback of (list', def) \<Rightarrow> writeJSON 200 (ModelsBody list' def))"

end
