(* ===== verification/Http_Forward.thy ===== *)
theory Http_Forward
  imports Http_Base Routing_Ring
begin

text \<open>
  How replicas share the tasks (\<open>taskRouterWithResolver\<close> in \<open>internal/httpapi/handler.go\<close> and
  \<open>internal/httpapi/internal_forward.go\<close>): a public request on a task is proxied to the replica that owns it, and a
  worker's live event is posted to it, each at most once. \<open>net/url\<close> is outside.
\<close>

record member_url =
  mu_scheme :: string
  mu_host :: string
  mu_hostname :: string

type_synonym url_parser = "string \<Rightarrow> member_url option"

definition splitMembers :: "string \<Rightarrow> string list" where
  "splitMembers raw = filter (\<lambda>item. item \<noteq> []) (map trim_space (split_at (CHR '','') raw))"

text \<open>\<open>memberResolver\<close>: \<open>None\<close> when the members never change; the file is read again each time.\<close>

definition memberResolver :: "(unit \<Rightarrow> string list) option \<Rightarrow> string \<Rightarrow> bool \<Rightarrow> (string \<Rightarrow> string option) \<Rightarrow> string list
    \<Rightarrow> (unit \<Rightarrow> string list) option" where
  "memberResolver given membersFile refreshConfigured readFile configured =
     (case given of
        Some f \<Rightarrow> Some f
      | None \<Rightarrow>
          if membersFile = [] \<and> \<not> refreshConfigured then None
          else Some (\<lambda>_. if membersFile = [] then configured
                 else case readFile membersFile of Some data \<Rightarrow> splitMembers data | None \<Rightarrow> configured))"

section \<open>The router of public requests\<close>

text \<open>What a router holds: the ring, the members it has a proxy for, and the members it was last given.\<close>

record task_router =
  tr_self :: string
  tr_ring :: Ring
  tr_proxies :: "string list"
  tr_current :: "string list"

definition buildProxies :: "url_parser \<Rightarrow> string list \<Rightarrow> string list" where
  "buildProxies parse items =
     filter (\<lambda>m. case parse m of None \<Rightarrow> False | Some u \<Rightarrow> mu_scheme u \<noteq> [] \<and> mu_host u \<noteq> []) items"

definition new_router :: "url_parser \<Rightarrow> string list \<Rightarrow> string \<Rightarrow> string list option \<Rightarrow> task_router option" where
  "new_router parse members0 self resolved =
     (let members = (case resolved of Some ms \<Rightarrow> if length ms \<ge> 2 then ms else members0 | None \<Rightarrow> members0) in
      if length members < 2 \<or> self = [] then None
      else Some \<lparr>tr_self = self, tr_ring = SetMembers (NewRing 64) members, tr_proxies = buildProxies parse members,
             tr_current = members\<rparr>)"

text \<open>A tick of the refresh: new members replace the old ones, and every subscriber of the task service is closed.\<close>

definition router_tick :: "url_parser \<Rightarrow> string list \<Rightarrow> task_router \<times> ('c, 'w) sys \<Rightarrow> task_router \<times> ('c, 'w) sys" where
  "router_tick parse nextMembers rs =
     (case rs of (r, s) \<Rightarrow>
        if length nextMembers < 2 \<or> tr_current r = nextMembers then (r, s)
        else (r\<lparr>tr_ring := SetMembers (tr_ring r) nextMembers, tr_proxies := buildProxies parse nextMembers,
                tr_current := nextMembers\<rparr>, s\<lparr>svc := CloseAllSubscribers (svc s)\<rparr>))"

text \<open>\<open>strings.Trim(s, "/")\<close>, and the segments of a path.\<close>

definition trim_slashes :: "string \<Rightarrow> string" where
  "trim_slashes s = rev (dropWhile (\<lambda>c. c = CHR ''/'') (rev (dropWhile (\<lambda>c. c = CHR ''/'') s)))"

definition path_parts :: "string \<Rightarrow> string list" where
  "path_parts path = split_at (CHR ''/'') (trim_slashes path)"

definition is_self :: "string \<Rightarrow> string \<Rightarrow> string \<Rightarrow> bool" where
  "is_self self owner hostname \<longleftrightarrow>
     owner = self \<or> hostname \<noteq> [] \<and> (hostname = self \<or> has_prefix hostname (self @ ''.''))"

datatype hop =
    ServeHere request
  | ProxyTo string request
  | Crash                       \<comment> \<open>a nil URL is dereferenced: the connection is dropped\<close>

definition forwarded_task :: string where "forwarded_task = ''X-Orbit-Task-Forwarded''"

definition with_header :: "string \<Rightarrow> string \<Rightarrow> request \<Rightarrow> request" where
  "with_header k v r = r\<lparr>rq_header := (rq_header r)(k := v)\<rparr>"

definition route_task :: "url_parser \<Rightarrow> task_router option \<Rightarrow> request \<Rightarrow> hop" where
  "route_task parse router r =
     (case router of
        None \<Rightarrow> ServeHere r
      | Some tr \<Rightarrow>
          if rq_header r forwarded_task = ''1'' then ServeHere r
          else let parts = path_parts (rq_path r) in
            if length parts < 3 \<or> parts ! 0 \<noteq> ''v1'' \<or> parts ! 1 \<noteq> ''tasks'' then ServeHere r
            else case Owner (tr_ring tr) (parts ! 2) of (owner, ok) \<Rightarrow>
              (case parse owner of
                 None \<Rightarrow> Crash
               | Some u \<Rightarrow>
                   if \<not> ok \<or> is_self (tr_self tr) owner (mu_hostname u) \<or> owner \<notin> set (tr_proxies tr) then ServeHere r
                   else ProxyTo owner (with_header forwarded_task ''1'' r)))"

text \<open>What the client is answered; \<open>transport\<close> is the proxied request, \<open>None\<close> when the owner does not answer.\<close>

definition serve_public :: "(nat \<Rightarrow> nat) \<Rightarrow> url_parser \<Rightarrow> task_router option \<Rightarrow> (string \<Rightarrow> request \<Rightarrow> answer option)
    \<Rightarrow> (request \<Rightarrow> 's \<Rightarrow> answer \<times> 's) \<Rightarrow> request \<Rightarrow> 's \<Rightarrow> answer option \<times> 's" where
  "serve_public f parse router transport handler r st =
     (case route_task parse router r of
        ServeHere r' \<Rightarrow> (case handler r' st of (a, st') \<Rightarrow> (Some a, st'))
      | ProxyTo owner r' \<Rightarrow>
          (case transport owner r' of
             Some a \<Rightarrow> (Some a, st)
           | None \<Rightarrow> (Some (writeErr f 502 ''TASK_OWNER_UNAVAILABLE'' ''task owner is temporarily unavailable''), st))
      | Crash \<Rightarrow> (None, st))"

section \<open>The forwarder of live events\<close>

definition forwardedHeader :: string where "forwardedHeader = ''X-Orbit-Ingest-Forwarded''"

text \<open>The members' public and internal addresses of the configuration.\<close>

record member_config =
  mc_internal :: "string list"
  mc_members :: "string list"
  mc_addr :: string

fun listed_address :: "string \<Rightarrow> string list \<Rightarrow> string list \<Rightarrow> string option" where
  "listed_address member' (public # publics) (i # internals) =
     (if public = member' then Some i else listed_address member' publics internals)"
| "listed_address member' publics internals = None"

text \<open>\<open>addr[strings.LastIndex(addr, ":")+1:]\<close>, when there is a colon with something behind it.\<close>

definition port_of :: "string \<Rightarrow> string" where
  "port_of addr =
     (let behind = rev (takeWhile (\<lambda>c. c \<noteq> CHR '':'') (rev addr)) in
      if CHR '':'' \<in> set addr \<and> behind \<noteq> [] then behind else ''8081'')"

definition internalAddressOf :: "url_parser \<Rightarrow> member_config \<Rightarrow> string \<Rightarrow> string" where
  "internalAddressOf parse cfg member' =
     (case (if mc_internal cfg \<noteq> [] then listed_address member' (mc_members cfg) (mc_internal cfg) else None) of
        Some address \<Rightarrow> address
      | None \<Rightarrow>
          (case parse member' of
             None \<Rightarrow> []
           | Some public \<Rightarrow>
               if mu_host public = [] then []
               else mu_scheme public @ ''://'' @ mu_hostname public @ '':'' @ port_of (mc_addr cfg)))"

record forwarder =
  fw_self :: string
  fw_ring :: "(string \<times> Ring) option"

definition newEphemeralForwarder :: "string list \<Rightarrow> string \<Rightarrow> forwarder option" where
  "newEphemeralForwarder members self =
     (if length members < 2 \<or> self = [] then None else Some \<lparr>fw_self = self, fw_ring = None\<rparr>)"

fun join_commas :: "string list \<Rightarrow> string" where
  "join_commas [] = []"
| "join_commas [m] = m"
| "join_commas (m # ms) = m @ '','' @ join_commas ms"

definition ringFor :: "string list \<Rightarrow> forwarder \<Rightarrow> Ring \<times> forwarder" where
  "ringFor members fw =
     (let key = join_commas members; fresh = SetMembers (NewRing 64) members in
      case fw_ring fw of
        Some (k, ring) \<Rightarrow> if k \<noteq> key then (fresh, fw\<lparr>fw_ring := Some (key, fresh)\<rparr>) else (ring, fw)
      | None \<Rightarrow> (fresh, fw\<lparr>fw_ring := Some (key, fresh)\<rparr>))"

definition remoteOwner :: "url_parser \<Rightarrow> member_config \<Rightarrow> string list \<Rightarrow> string \<Rightarrow> forwarder \<Rightarrow> string option \<times> forwarder" where
  "remoteOwner parse cfg members taskID fw =
     (if length members < 2 then (None, fw)
      else case ringFor members fw of (ring, fw1) \<Rightarrow>
        (case Owner ring taskID of (owner, ok) \<Rightarrow>
           if \<not> ok then (None, fw1)
           else case parse owner of
             None \<Rightarrow> (None, fw1)
           | Some u \<Rightarrow>
               let host = mu_hostname u in
               if host = fw_self fw1 \<or> has_prefix host (fw_self fw1 @ ''.'') \<or> owner = fw_self fw1 then (None, fw1)
               else let target = internalAddressOf parse cfg owner in (if target = [] then None else Some target, fw1)))"

text \<open>
  The post to the owner: where to and with which headers. It is not sent when its URL does not parse; the event is
  then dropped, as it is when the post fails.
\<close>

datatype handed = KeptHere | Posted string request | DroppedEvent

definition forward_event :: "url_parser \<Rightarrow> member_config \<Rightarrow> string list \<Rightarrow> string \<Rightarrow> request \<Rightarrow> string \<Rightarrow> forwarder \<Rightarrow> handed \<times> forwarder" where
  "forward_event parse cfg members token r taskID fw =
     (if rq_header r forwardedHeader = ''1'' then (KeptHere, fw)
      else case remoteOwner parse cfg members taskID fw of
        (None, fw1) \<Rightarrow> (KeptHere, fw1)
      | (Some target, fw1) \<Rightarrow>
          (if parse (target @ ''/internal/events'') = None then DroppedEvent
           else Posted target \<lparr>rq_method = ''POST'', rq_path = ''/internal/events'',
             rq_header = ((\<lambda>_. [])(''Content-Type'' := ''application/json'', forwardedHeader := ''1'',
               ''Authorization'' := ''Bearer '' @ token)), rq_query = (\<lambda>_. []), rq_remote = []\<rparr>, fw1))"

definition handed_over :: "handed \<Rightarrow> bool" where
  "handed_over h \<longleftrightarrow> h \<noteq> KeptHere"

end
