(* ===== verification/Forward_Facts.thy ===== *)
theory Forward_Facts
  imports Http_Forward
begin

text \<open>
  Replicas that were given the same members agree on the one that serves a task, and neither a request nor an event
  makes a second hop (\<open>taskRouterWithResolver\<close>, \<open>ephemeralForwarder\<close>).
\<close>

section \<open>The router's ring\<close>

text \<open>What holds of a router at every tick.\<close>

definition router_ok :: "url_parser \<Rightarrow> string \<Rightarrow> task_router \<Rightarrow> bool" where
  "router_ok parse self tr \<longleftrightarrow> tr_self tr = self \<and> 2 \<le> length (tr_current tr) \<and>
     tr_proxies tr = buildProxies parse (tr_current tr) \<and>
     (\<exists>ring. replicas ring = 64 \<and> tr_ring tr = SetMembers ring (tr_current tr))"

lemma Owner_member:
  assumes "m0 \<in> set ms" "m0 \<noteq> []" "0 < replicas r"
  shows "\<exists>m \<in> set ms. m \<noteq> [] \<and> (\<forall>r'. replicas r' = replicas r \<longrightarrow> Owner (SetMembers r' ms) t = (m, True))"
proof -
  define n where "n = nat (replicas r)"
  have "point m0 0 \<in> ring_points n ms"
    using assms unfolding ring_points_def member_points_def n_def by (auto intro!: bexI [of _ m0])
  then have "ring_points n ms \<noteq> {}" by blast
  then obtain p m where p: "successor_of (ring_points n ms) (ChecksumIEEE t) p" "holder n ms p = Some m"
    by (rule successor_exists)
  then have "Owner (SetMembers r' ms) t = (m, True)" if "replicas r' = replicas r" for r'
    using that unfolding n_def by (intro Owner_holder [where p = p]) simp_all
  moreover have "m \<in> set ms" "m \<noteq> []" using holder_Some [OF p(2)] by (auto simp: member_points_def split: if_splits)
  ultimately show ?thesis by blast
qed

lemma new_router_ok: "new_router parse ms self resolved = Some tr \<Longrightarrow> router_ok parse self tr"
proof -
  have "replicas (NewRing 64) = 64" by (simp add: NewRing_def)
  then show "new_router parse ms self resolved = Some tr \<Longrightarrow> router_ok parse self tr"
    by (auto simp: new_router_def router_ok_def Let_def split: if_splits option.splits)
qed

lemma tick_ok: "router_ok parse self (fst rs) \<Longrightarrow> router_ok parse self (fst (router_tick parse ms rs))"
  by (auto simp: router_tick_def router_ok_def SetMembers_simps(1) split: prod.splits if_splits) (use SetMembers_simps(1) in metis)+

lemma ticks_ok: "router_ok parse self (fst rs) \<Longrightarrow> router_ok parse self (fst (fold (router_tick parse) ticks rs))"
  by (induction ticks arbitrary: rs) (simp_all add: tick_ok)

section \<open>One hop\<close>

lemma proxied_is_served:
  assumes "route_task parse router r = ProxyTo owner r'"
  shows "route_task parse' router' r' = ServeHere r'"
proof -
  have "rq_header r' forwarded_task = ''1''"
    using assms by (auto simp: route_task_def Let_def with_header_def split: option.splits if_splits prod.splits)
  then show ?thesis by (simp add: route_task_def split: option.split)
qed

lemma routed_hop:
  assumes "router_ok parse self tr" "tr_current tr = ms" "\<forall>m \<in> set ms. \<exists>u. parse m = Some u \<and> mu_scheme u \<noteq> [] \<and> mu_host u \<noteq> []"
    and own: "m \<in> set ms" "\<forall>ring. replicas ring = 64 \<longrightarrow> Owner (SetMembers ring ms) i = (m, True)"
    and req: "path_parts (rq_path r) = ''v1'' # ''tasks'' # i # rest" "rq_header r forwarded_task \<noteq> ''1''"
  shows "route_task parse (Some tr) r =
    (if is_self self m (mu_hostname (the (parse m))) then ServeHere r else ProxyTo m (with_header forwarded_task ''1'' r))"
proof -
  obtain u where u: "parse m = Some u" "mu_scheme u \<noteq> []" "mu_host u \<noteq> []" using assms(3) own(1) by blast
  have "Owner (tr_ring tr) i = (m, True)" "m \<in> set (tr_proxies tr)" "tr_self tr = self"
    using assms(1,2) own u by (auto simp: router_ok_def buildProxies_def)
  then show ?thesis using u(1) req by (simp add: route_task_def)
qed


text \<open>A parser for the witness: every member is a host of its own name.\<close>

definition host_parser :: url_parser where
  "host_parser m = Some \<lparr>mu_scheme = ''http'', mu_host = m, mu_hostname = m\<rparr>"

definition plain_request :: "string \<Rightarrow> string \<Rightarrow> request" where
  "plain_request method path = \<lparr>rq_method = method, rq_path = path, rq_header = (\<lambda>_. []), rq_query = (\<lambda>_. []), rq_remote = []\<rparr>"


section \<open>A member that does not parse\<close>

text \<open>
  A member whose URL does not parse is skipped when the proxies are built, yet every request on a task it owns
  dereferences the nil URL the parser returned: whatever the replica, the client's connection is dropped without an
  answer, although the replica could have served the request itself (a defect).
\<close>

theorem unparsable_member_drops_requests:
  assumes "2 \<le> length ms" "self \<noteq> []" "fst (Owner (SetMembers (NewRing 64) ms) i) = m" "parse m = None"
    and "path_parts (rq_path r) = ''v1'' # ''tasks'' # i # rest" "rq_header r forwarded_task \<noteq> ''1''"
  shows "m \<notin> set (buildProxies parse ms) \<and>
    serve_public f parse (new_router parse ms self None) transport handler r st = (None, st)"
  using assms by (auto simp: buildProxies_def new_router_def Let_def serve_public_def route_task_def split: prod.split)

text \<open>\<open>10.0.0.1:8080\<close> has a colon in its first path segment, so \<open>url.Parse\<close> refuses it.\<close>

theorem unparsable_member_drops_requests_witness:
  "\<exists>m \<in> {''10.0.0.1:8080'', ''10.0.0.2:8080''}. m \<notin> set (buildProxies (\<lambda>_. None) [''10.0.0.1:8080'', ''10.0.0.2:8080'']) \<and>
     serve_public (\<lambda>c. c) (\<lambda>_. None) (new_router (\<lambda>_. None) [''10.0.0.1:8080'', ''10.0.0.2:8080''] ''control-0'' None)
       (\<lambda>_ _. None) (\<lambda>r st. (panicked, st)) (plain_request ''GET'' ''/v1/tasks/t1'') () = (None, ())"
proof -
  let ?ms = "[''10.0.0.1:8080'', ''10.0.0.2:8080'']"
  obtain m where m: "m \<in> set ?ms" "fst (Owner (SetMembers (NewRing 64) ?ms) ''t1'') = m"
    using Owner_member [of "''10.0.0.1:8080''" ?ms "NewRing 64" "''t1''"] by (auto simp: NewRing_def)
  have path: "path_parts (rq_path (plain_request ''GET'' ''/v1/tasks/t1'')) = [''v1'', ''tasks'', ''t1'']"
    "rq_header (plain_request ''GET'' ''/v1/tasks/t1'') forwarded_task \<noteq> ''1''"
    by (simp_all add: plain_request_def path_parts_def trim_slashes_def)
  from unparsable_member_drops_requests [OF _ _ m(2) _ path, where self = "''control-0''" and parse = "\<lambda>_. None"
      and f = "\<lambda>c. c" and transport = "\<lambda>_ _. None" and handler = "\<lambda>r st. (panicked, st)" and st = "()"] m(1)
  show ?thesis by (intro bexI [of _ m]) simp_all
qed

section \<open>Events\<close>

text \<open>An event that was handed to its owner is kept there, by any replica, and the post carries the internal token.\<close>

lemma handed_event_is_kept:
  assumes "forward_event parse cfg members token r i fw = (Posted target q, fw1)"
  shows "forward_event parse' cfg' members' token' q i fw' = (KeptHere, fw')"
    and "token \<noteq> [] \<Longrightarrow> graphic (hd token) \<Longrightarrow> graphic (last token) \<Longrightarrow> ap_equal_fold K ''Bearer '' ''bearer '' \<Longrightarrow> Authorized K token q"
proof -
  have q: "rq_header q forwardedHeader = ''1''" "rq_header q ''Authorization'' = ''Bearer '' @ token"
    using assms by (auto simp: forward_event_def forwardedHeader_def split: if_splits prod.splits option.splits)
  show "forward_event parse' cfg' members' token' q i fw' = (KeptHere, fw')" using q(1) by (simp add: forward_event_def)
  assume t: "token \<noteq> []" "graphic (hd token)" "graphic (last token)" "ap_equal_fold K ''Bearer '' ''bearer ''"
  have "trim_space (''Bearer '' @ token) = ''Bearer '' @ token" "trim_space token = token"
    using t by (auto intro!: trim_space_graphic simp: graphic_def byte_in_def)
  moreover have "8 \<le> length (''Bearer '' @ token)" using t(1) by (cases token) auto
  ultimately have "bearer K (''Bearer '' @ token) = token" using t(4) by (simp add: bearer_def)
  with q(2) t(1) show "Authorized K token q" by (simp add: Authorized_def)
qed

end
