(* ===== verification/Http_Catalog.thy ===== *)
theory Http_Catalog
  imports Http_Base
begin

text \<open>
  One process of the control plane as its handlers see it, and the routes of \<open>internal/httpapi/handler.go\<close>
  on the catalog: personas, connectors, the market, skills, agents, icons and models. Each route is a
  function of the caller and the state; what happens beside the request (the clock, fresh ids, the stream's
  inputs) is drawn from outside.
\<close>

record ('c, 'w) api =
  api_deps :: "('c, 'w) deps"
  api_auth :: authenticator
  api_origins :: "string list"
  api_models :: "string list"
  api_default_model :: string
  api_net :: net_pkg
  api_texts :: texts
  api_artifact_dir :: string
  api_artifact_max :: int
  api_ingest_max :: int
  api_default_tenant :: string
  api_blob_io :: blob_io
  api_keys :: auth_pkg
  api_token :: string

abbreviation api_lower :: "('c, 'w) api \<Rightarrow> nat \<Rightarrow> nat" where
  "api_lower A \<equiv> tx_lower (api_texts A)"

text \<open>The state: the task service with its store, the catalog and the artifact directory.\<close>

record ('c, 'w, 'r) server =
  sv_sys :: "('c, 'w) sys"
  sv_app :: "'r app_env"
  sv_dir :: blob_dir

text \<open>
  What a request draws: the time, an id for what it creates, a command id, an owner for its claim, the time and
  id of each persona it imports, and for a stream whether it can be flushed, which writes fail and what it waits for.
\<close>

record ('c, 'w) draws =
  dr_now :: time
  dr_id :: string
  dr_command :: string
  dr_owner :: string
  dr_imports :: "(time \<times> string) list"
  dr_flushable :: bool
  dr_write_fails :: "nat \<Rightarrow> bool"
  dr_stream :: "(stream_input \<times> ('c, 'w) sys) list"

type_synonym ('c, 'w, 'r) handler = "Principal \<Rightarrow> ('c, 'w, 'r) server \<Rightarrow> answer \<times> ('c, 'w, 'r) server"

text \<open>A call's value with its answer, or its error with another.\<close>

definition reply :: "(err \<Rightarrow> answer) \<Rightarrow> ('v \<Rightarrow> answer) \<Rightarrow> 'v result \<Rightarrow> answer" where
  "reply bad ok r = (case r of Inl e \<Rightarrow> bad e | Inr v \<Rightarrow> ok v)"

text \<open>A call that reads the catalog, one that changes it, and one on the task service.\<close>

definition read_catalog :: "('r catalog_ops \<Rightarrow> 'r \<Rightarrow> 'v) \<Rightarrow> ('c, 'w, 'r) server \<Rightarrow> 'v" where
  "read_catalog call st = call (ae_repo (sv_app st)) (ae_state (sv_app st))"

definition write_catalog :: "('r catalog_ops \<Rightarrow> 'r \<Rightarrow> 'v \<times> 'r) \<Rightarrow> ('c, 'w, 'r) server \<Rightarrow> 'v \<times> ('c, 'w, 'r) server" where
  "write_catalog call st =
     (case call (ae_repo (sv_app st)) (ae_state (sv_app st)) of
        (v, r) \<Rightarrow> (v, st\<lparr>sv_app := (sv_app st)\<lparr>ae_state := r\<rparr>\<rparr>))"

definition on_tasks :: "(('c, 'w) sys \<Rightarrow> 'v \<times> ('c, 'w) sys) \<Rightarrow> ('c, 'w, 'r) server \<Rightarrow> 'v \<times> ('c, 'w, 'r) server" where
  "on_tasks call st = (case call (sv_sys st) of (v, s) \<Rightarrow> (v, st\<lparr>sv_sys := s\<rparr>))"

text \<open>\<open>writeAppErr\<close> with the two fallbacks the catalog routes use.\<close>

definition internal_err :: "('c, 'w) api \<Rightarrow> string \<Rightarrow> err \<Rightarrow> answer" where
  "internal_err A notFound e = writeAppErr (api_texts A) notFound 500 ''INTERNAL'' e"

definition bad_request_err :: "('c, 'w) api \<Rightarrow> string \<Rightarrow> err \<Rightarrow> answer" where
  "bad_request_err A notFound e = writeAppErr (api_texts A) notFound 400 ''BAD_REQUEST'' e"

section \<open>Bodies\<close>

record personaBody =
  pb_name :: string
  pb_instructions :: string
  pb_connectors :: "string list"

record connectorBody =
  cb_name :: string
  cb_transport :: string
  cb_command :: string
  cb_args :: "string list"
  cb_env :: "string list"
  cb_url :: string
  cb_headers :: "HeaderRef list"
  cb_open :: bool

definition connector_input :: "connectorBody \<Rightarrow> McpConnectorInput" where
  "connector_input b =
     \<lparr>mi_name = cb_name b, mi_transport = cb_transport b, mi_command = cb_command b, mi_args = cb_args b, mi_env = cb_env b,
      mi_raw_url = cb_url b, mi_headers = cb_headers b, mi_open = cb_open b\<rparr>"

section \<open>Personas and connectors\<close>

definition get_personas :: "('c, 'w) api \<Rightarrow> ('c, 'w, 'r) handler" where
  "get_personas A p st =
     (reply (internal_err A ''persona not found'') (\<lambda>items. writeJSON 200 (PersonaItems items))
        (read_catalog (\<lambda>repo w. app_ListPersonas repo w (TenantID p)) st), st)"

definition post_personas :: "('c, 'w) api \<Rightarrow> ('c, 'w) draws \<Rightarrow> personaBody option \<Rightarrow> ('c, 'w, 'r) handler" where
  "post_personas A dr decoded p st =
     (case bindJSON (api_lower A) decoded (\<lambda>b. pb_name b \<noteq> []) of
        Inl refused \<Rightarrow> (refused, st)
      | Inr b \<Rightarrow>
          (case write_catalog (\<lambda>repo w. app_CreatePersona repo w (dr_now dr) (dr_id dr) (TenantID p)
                  (pb_name b) (pb_instructions b) (pb_connectors b)) st of
             (r, st1) \<Rightarrow> (reply (bad_request_err A ''persona not found'') (\<lambda>persona. writeJSON 200 (PersonaBody persona)) r, st1)))"

definition get_connectors :: "('c, 'w) api \<Rightarrow> ('c, 'w, 'r) handler" where
  "get_connectors A p st =
     (reply (internal_err A ''connector not found'') (\<lambda>items. writeJSON 200 (ConnectorItems items))
        (read_catalog (\<lambda>repo w. app_ListMcpConnectors repo w (TenantID p)) st), st)"

definition post_connectors :: "('c, 'w) api \<Rightarrow> ('c, 'w) draws \<Rightarrow> connectorBody option \<Rightarrow> ('c, 'w, 'r) handler" where
  "post_connectors A dr decoded p st =
     (case bindJSON (api_lower A) decoded (\<lambda>b. cb_name b \<noteq> []) of
        Inl refused \<Rightarrow> (refused, st)
      | Inr b \<Rightarrow>
          (case write_catalog (\<lambda>repo w. app_CreateMcpConnector repo (api_net A) w (dr_now dr) (dr_id dr) (TenantID p)
                  (connector_input b)) st of
             (r, st1) \<Rightarrow> (reply (bad_request_err A ''connector not found'') (\<lambda>c. writeJSON 200 (ConnectorBody c)) r, st1)))"

section \<open>The market\<close>

definition get_market :: "('c, 'w) api \<Rightarrow> request \<Rightarrow> ('c, 'w, 'r) handler" where
  "get_market A r p st =
     (let q = rq_query r;
          query = \<lparr>mq_keyword = q ''keyword'', mq_category = q ''category'', mq_service = q ''serviceType'',
            mq_online = q ''needsOnline'', mq_source = q ''source'', mq_page = page_number (q ''page''),
            mq_size = page_number (q ''pageSize'')\<rparr> in
      (reply (internal_err A ''market not found'') (\<lambda>l. writeJSON 200 (MarketListBody l))
         (read_catalog (\<lambda>repo w. app_ListMcpMarket repo w (TenantID p) query) st), st))"

definition get_market_server :: "('c, 'w) api \<Rightarrow> string \<Rightarrow> ('c, 'w, 'r) handler" where
  "get_market_server A i p st =
     (reply (internal_err A ''market server not found'') (\<lambda>d. writeJSON 200 (MarketBody d))
        (read_catalog (\<lambda>repo w. app_GetMcpMarket repo w (TenantID p) i) st), st)"

definition get_market_categories :: "('c, 'w) api \<Rightarrow> request \<Rightarrow> ('c, 'w, 'r) handler" where
  "get_market_categories A r p st =
     (reply (internal_err A ''market not found'') (\<lambda>items. writeJSON 200 (MarketCategories items))
        (read_catalog (\<lambda>repo w. app_ListMcpMarketCategories repo w (TenantID p) (rq_query r ''needsOnline'')) st), st)"

definition writeIcon :: "('c, 'w) api \<Rightarrow> (string \<Rightarrow> ('c, 'w, 'r) server \<Rightarrow> (string \<times> string) result) \<Rightarrow> ('c, 'w, 'r) handler" where
  "writeIcon A fetch p st =
     (reply (internal_err A ''icon not found'')
        (\<lambda>(contentType, data). \<lparr>an_status = 200,
           an_headers = [(''Content-Type'', contentType), (''Cache-Control'', ''private, max-age=86400'')], an_body = Bytes data\<rparr>)
        (fetch (TenantID p) st), st)"

definition get_market_icon :: "('c, 'w) api \<Rightarrow> string \<Rightarrow> ('c, 'w, 'r) handler" where
  "get_market_icon A i = writeIcon A (\<lambda>tenantID. read_catalog (\<lambda>repo w. app_McpMarketIcon repo w tenantID i))"

section \<open>Skills\<close>

definition get_skills :: "('c, 'w) api \<Rightarrow> request \<Rightarrow> ('c, 'w, 'r) handler" where
  "get_skills A r p st =
     (let q = rq_query r;
          query = \<lparr>sq_sort = q ''sortBy'', sq_category = q ''category'', sq_source = q ''source'', sq_keyword = q ''keyword'',
            sq_page = page_number (q ''page''), sq_size = page_number (q ''pageSize'')\<rparr> in
      (reply (internal_err A ''skill not found'') (\<lambda>l. writeJSON 200 (SkillsBody l))
         (read_catalog (\<lambda>repo w. app_ListSkills repo w (TenantID p) query) st), st))"

text \<open>A route with one path value passes \<open>""\<close> and the value; its icon route passes the value and \<open>""\<close>.\<close>

definition writeSkill :: "('c, 'w) api \<Rightarrow> string \<Rightarrow> string \<Rightarrow> ('c, 'w, 'r) handler" where
  "writeSkill A handle slug p st =
     (reply (internal_err A ''skill not found'') (\<lambda>s. writeJSON 200 (SkillBody s))
        (read_catalog (\<lambda>repo w. app_GetSkill repo w (TenantID p) handle slug) st), st)"

definition writeSkillFiles :: "('c, 'w) api \<Rightarrow> string \<Rightarrow> string \<Rightarrow> ('c, 'w, 'r) handler" where
  "writeSkillFiles A handle slug p st =
     (reply (internal_err A ''skill not found'') (\<lambda>files. writeJSON 200 (SkillFilesBody files))
        (read_catalog (\<lambda>repo w. app_SkillTextFiles repo (ae_lib (sv_app st)) w (TenantID p) handle slug) st), st)"

definition get_skill_icon :: "('c, 'w) api \<Rightarrow> string \<Rightarrow> string \<Rightarrow> ('c, 'w, 'r) handler" where
  "get_skill_icon A handle slug =
     writeIcon A (\<lambda>tenantID. read_catalog (\<lambda>repo w. app_SkillIcon repo w tenantID handle slug))"

definition get_skill_categories :: "('c, 'w) api \<Rightarrow> ('c, 'w, 'r) handler" where
  "get_skill_categories A p st =
     (reply (internal_err A ''skill not found'') (\<lambda>items. writeJSON 200 (SkillCategories items))
        (read_catalog (\<lambda>repo w. app_ListSkillCategories repo w (TenantID p)) st), st)"

section \<open>Agents and models\<close>

definition get_agents :: "('c, 'w) api \<Rightarrow> request \<Rightarrow> ('c, 'w, 'r) handler" where
  "get_agents A r p st =
     (let q = rq_query r;
          query = \<lparr>aq_sort = q ''sortBy'', aq_catalogue = q ''catalogue'', aq_keyword = q ''keyword'',
            aq_page = page_number (q ''page''), aq_size = page_number (q ''pageSize'')\<rparr> in
      (reply (internal_err A ''agent not found'') (\<lambda>l. writeJSON 200 (AgentsBody l))
         (read_catalog (\<lambda>repo w. app_ListAgents repo w (TenantID p) query) st), st))"

definition writeAgent :: "('c, 'w) api \<Rightarrow> string \<Rightarrow> string \<Rightarrow> ('c, 'w, 'r) handler" where
  "writeAgent A handle slug p st =
     (reply (internal_err A ''agent not found'') (\<lambda>a. writeJSON 200 (AgentBody a))
        (read_catalog (\<lambda>repo w. app_GetAgent repo w (TenantID p) handle slug) st), st)"

definition get_agent_icon :: "('c, 'w) api \<Rightarrow> string \<Rightarrow> string \<Rightarrow> ('c, 'w, 'r) handler" where
  "get_agent_icon A handle slug =
     writeIcon A (\<lambda>tenantID. read_catalog (\<lambda>repo w. app_AgentIcon repo w tenantID handle slug))"

definition get_models :: "('c, 'w) api \<Rightarrow> ('c, 'w, 'r) handler" where
  "get_models A p st = (writeModels (api_models A) (api_default_model A), st)"

datatype catalog_route =
    GetPersonas | PostPersonas "personaBody option"
  | GetConnectors | PostConnectors "connectorBody option"
  | GetMarket | GetMarketServer string | GetMarketIcon string | GetMarketCategories
  | GetSkills | GetSkillRoute string string | GetSkillFiles string string | GetSkillIcon string string | GetSkillCategories
  | GetAgents | GetAgentRoute string string | GetAgentIcon string string
  | GetModels

definition catalog_handler :: "('c, 'w) api \<Rightarrow> ('c, 'w) draws \<Rightarrow> request \<Rightarrow> catalog_route \<Rightarrow> ('c, 'w, 'r) handler" where
  "catalog_handler A dr r route =
     (case route of
        GetPersonas \<Rightarrow> get_personas A
      | PostPersonas b \<Rightarrow> post_personas A dr b
      | GetConnectors \<Rightarrow> get_connectors A
      | PostConnectors b \<Rightarrow> post_connectors A dr b
      | GetMarket \<Rightarrow> get_market A r
      | GetMarketServer i \<Rightarrow> get_market_server A i
      | GetMarketIcon i \<Rightarrow> get_market_icon A i
      | GetMarketCategories \<Rightarrow> get_market_categories A r
      | GetSkills \<Rightarrow> get_skills A r
      | GetSkillRoute handle slug \<Rightarrow> writeSkill A handle slug
      | GetSkillFiles handle slug \<Rightarrow> writeSkillFiles A handle slug
      | GetSkillIcon handle slug \<Rightarrow> get_skill_icon A handle slug
      | GetSkillCategories \<Rightarrow> get_skill_categories A
      | GetAgents \<Rightarrow> get_agents A r
      | GetAgentRoute handle slug \<Rightarrow> writeAgent A handle slug
      | GetAgentIcon handle slug \<Rightarrow> get_agent_icon A handle slug
      | GetModels \<Rightarrow> get_models A)"

end
