(* ===== verification/Http_Tasks.thy ===== *)
theory Http_Tasks
  imports Http_Catalog
begin

text \<open>
  The routes of \<open>internal/httpapi/task_routes.go\<close> on what a tenant has: its tasks, profiles, experts, policy,
  settings and SOPs. The routes on one task and on artifacts are in \<open>Http_Commands\<close>.
\<close>

section \<open>Bodies\<close>

record profileBody =
  fb_id :: string
  fb_version :: int
  fb_spec :: obj

record expertBody =
  eb_name :: string
  eb_description :: string
  eb_instructions :: string
  eb_soul :: string
  eb_model :: string
  eb_connectors :: "string list"
  eb_skills :: "string list"
  eb_kind :: string
  eb_leader :: string
  eb_members :: "TeamMemberInput list"

definition expertInput :: "expertBody \<Rightarrow> ExpertInput" where
  "expertInput b =
     \<lparr>xi_name = eb_name b, xi_instructions = eb_instructions b, xi_description = eb_description b, xi_soul = eb_soul b,
      xi_model = eb_model b, xi_connectors = eb_connectors b, xi_skills = eb_skills b, xi_source = [], xi_kind = eb_kind b,
      xi_leader = eb_leader b, xi_members = eb_members b, xi_own_description = [], xi_base = None\<rparr>"

record sopBody =
  ob_id :: string
  ob_version :: int
  ob_name :: string
  ob_description :: string
  ob_steps :: "SOPStep list"

record taskConfigBody =
  gb_expert :: string
  gb_team_ref :: string
  gb_model :: "string option"
  gb_skills :: "string list option"
  gb_connectors :: "string list option"
  gb_mode :: string
  gb_permissions :: "Permissions option"

definition request_of :: "taskConfigBody \<Rightarrow> TaskConfigRequest" where
  "request_of b =
     \<lparr>tq_expert = gb_expert b, tq_team_ref = gb_team_ref b, tq_model = (case gb_model b of None \<Rightarrow> [] | Some m \<Rightarrow> m),
      tq_skills = gb_skills b, tq_connectors = gb_connectors b, tq_mode = gb_mode b, tq_permissions = gb_permissions b\<rparr>"

definition no_config :: taskConfigBody where
  "no_config = \<lparr>gb_expert = [], gb_team_ref = [], gb_model = None, gb_skills = None, gb_connectors = None, gb_mode = [],
     gb_permissions = None\<rparr>"

record taskBody =
  tb_title :: string
  tb_goal :: string
  tb_mode :: string
  tb_profile :: string
  tb_sop :: string
  tb_budgets :: obj
  tb_policy :: Policy
  tb_config :: "taskConfigBody option"

record configUpdateBody =
  ub_config :: taskConfigBody
  ub_command :: string
  ub_base :: int

section \<open>Answers of the task routes\<close>

definition task_err :: "('c, 'w) api \<Rightarrow> err \<Rightarrow> answer" where
  "task_err A = writeTaskErr (api_texts A)"

definition expert_err :: "('c, 'w) api \<Rightarrow> err \<Rightarrow> answer" where
  "expert_err A = writeExpertErr (api_texts A)"

definition bad_request :: "('c, 'w) api \<Rightarrow> string \<Rightarrow> answer" where
  "bad_request A message = writeErr (api_lower A) 400 ''BAD_REQUEST'' message"

text \<open>A call on the task service, answered with its value or its error.\<close>

definition answer_call :: "(err \<Rightarrow> answer) \<Rightarrow> ('v \<Rightarrow> answer) \<Rightarrow> (('c, 'w) sys \<Rightarrow> 'v result \<times> ('c, 'w) sys)
    \<Rightarrow> ('c, 'w, 'r) server \<Rightarrow> answer \<times> ('c, 'w, 'r) server" where
  "answer_call bad ok call st = (case on_tasks call st of (r, st1) \<Rightarrow> (reply bad ok r, st1))"

text \<open>A call that only reads.\<close>

definition answer_read :: "(err \<Rightarrow> answer) \<Rightarrow> ('v \<Rightarrow> answer) \<Rightarrow> 'v result \<Rightarrow> ('c, 'w, 'r) server \<Rightarrow> answer \<times> ('c, 'w, 'r) server" where
  "answer_read bad ok r st = (reply bad ok r, st)"

section \<open>Tasks, profiles and policies\<close>

definition get_tasks :: "('c, 'w) api \<Rightarrow> ('c, 'w, 'r) handler" where
  "get_tasks A p = answer_call (task_err A) (\<lambda>items. writeJSON 200 (TaskItems items)) (\<lambda>s. svc_List (api_deps A) s p)"

definition get_profiles :: "('c, 'w) api \<Rightarrow> ('c, 'w, 'r) handler" where
  "get_profiles A p st =
     answer_read (task_err A) (\<lambda>items. writeJSON 200 (ProfileItems items)) (svc_ListProfiles (api_deps A) (sv_sys st) p) st"

definition post_profiles :: "('c, 'w) api \<Rightarrow> ('c, 'w) draws \<Rightarrow> profileBody option \<Rightarrow> ('c, 'w, 'r) handler" where
  "post_profiles A dr decoded p st =
     (case bindJSON (api_lower A) decoded (\<lambda>b. fb_id b \<noteq> [] \<and> 1 \<le> fb_version b) of
        Inl refused \<Rightarrow> (refused, st)
      | Inr b \<Rightarrow>
          answer_call (task_err A) (\<lambda>profile. writeJSON 201 (ProfileBody profile))
            (\<lambda>s. svc_RegisterProfile (api_deps A) s (dr_now dr) p
               \<lparr>prof_id = fb_id b, prof_version = fb_version b, prof_ref = [], prof_spec = fb_spec b, prof_created = 0,
                prof_files = []\<rparr>) st)"

definition get_profile :: "('c, 'w) api \<Rightarrow> string \<Rightarrow> ('c, 'w, 'r) handler" where
  "get_profile A ref p st =
     answer_read (task_err A) (\<lambda>profile. writeJSON 200 (ProfileBody profile)) (svc_GetProfile (api_deps A) (sv_sys st) p ref) st"

definition get_policy :: "('c, 'w) api \<Rightarrow> ('c, 'w, 'r) handler" where
  "get_policy A p st =
     answer_read (task_err A) (\<lambda>policy. writeJSON 200 (PolicyBody policy)) (svc_GetTenantPolicy (api_deps A) (sv_sys st) p) st"

definition put_policy :: "('c, 'w) api \<Rightarrow> Policy option \<Rightarrow> ('c, 'w, 'r) handler" where
  "put_policy A decoded p st =
     (case bindJSON (api_lower A) decoded (\<lambda>b. True) of
        Inl refused \<Rightarrow> (refused, st)
      | Inr b \<Rightarrow>
          answer_call (task_err A) (\<lambda>policy. writeJSON 200 (PolicyBody policy)) (\<lambda>s. svc_SetTenantPolicy (api_deps A) s p b) st)"

definition get_settings :: "('c, 'w) api \<Rightarrow> ('c, 'w, 'r) handler" where
  "get_settings A p st =
     answer_read (task_err A) (\<lambda>v. writeJSON 200 (SettingsBody v)) (svc_UserSettings (api_deps A) (sv_sys st) p) st"

definition put_settings :: "('c, 'w) api \<Rightarrow> UserSettingsRequest option \<Rightarrow> ('c, 'w, 'r) handler" where
  "put_settings A decoded p st =
     (case bindJSON (api_lower A) decoded (\<lambda>b. True) of
        Inl refused \<Rightarrow> (refused, st)
      | Inr b \<Rightarrow>
          answer_call (task_err A) (\<lambda>v. writeJSON 200 (SettingsBody v)) (\<lambda>s. SaveUserSettings (api_deps A) s p b) st)"

definition get_sops :: "('c, 'w) api \<Rightarrow> ('c, 'w, 'r) handler" where
  "get_sops A p st =
     answer_read (task_err A) (\<lambda>items. writeJSON 200 (SOPItems items)) (svc_ListSOPs (api_deps A) (sv_sys st) p) st"

definition sop_err :: "('c, 'w) api \<Rightarrow> err \<Rightarrow> answer" where
  "sop_err A e =
     (case e of
        InvalidSOPError fmt args \<Rightarrow> writeErr (api_lower A) 400 ''INVALID_SOP'' (tx_sprintf (api_texts A) fmt args)
      | _ \<Rightarrow> task_err A e)"

definition post_sops :: "('c, 'w) api \<Rightarrow> ('c, 'w) draws \<Rightarrow> sopBody option \<Rightarrow> ('c, 'w, 'r) handler" where
  "post_sops A dr decoded p st =
     (case bindJSON (api_lower A) decoded (\<lambda>b. ob_id b \<noteq> [] \<and> 1 \<le> ob_version b) of
        Inl refused \<Rightarrow> (refused, st)
      | Inr b \<Rightarrow>
          answer_call (sop_err A) (\<lambda>sop. writeJSON 201 (SOPBody sop))
            (\<lambda>s. svc_RegisterSOP (api_deps A) s (dr_now dr) p
               \<lparr>sop_id = ob_id b, sop_version = ob_version b, sop_ref = [], sop_name = ob_name b,
                sop_description = ob_description b, sop_steps = ob_steps b, sop_created = 0\<rparr>) st)"

section \<open>Experts\<close>

definition get_experts :: "('c, 'w) api \<Rightarrow> ('c, 'w, 'r) handler" where
  "get_experts A p st =
     answer_read (expert_err A) (\<lambda>items. writeJSON 200 (ExpertItems items))
       (ListExperts (ae_pkg (sv_app st)) (api_deps A) (sv_sys st) p) st"

definition post_experts :: "('c, 'w) api \<Rightarrow> ('c, 'w) draws \<Rightarrow> expertBody option \<Rightarrow> ('c, 'w, 'r) handler" where
  "post_experts A dr decoded p st =
     (case bindJSON (api_lower A) decoded (\<lambda>b. True) of
        Inl refused \<Rightarrow> (refused, st)
      | Inr b \<Rightarrow>
          answer_call (expert_err A) (\<lambda>expert. writeJSON 201 (ExpertBody expert))
            (\<lambda>s. CreateExpert (sv_app st) (api_deps A) s (dr_now dr) (dr_id dr) p (expertInput b)) st)"

definition post_expert_from_agent :: "('c, 'w) api \<Rightarrow> ('c, 'w) draws \<Rightarrow> (string \<times> string) option \<Rightarrow> ('c, 'w, 'r) handler" where
  "post_expert_from_agent A dr decoded p st =
     (case bindJSON (api_lower A) decoded (\<lambda>b. True) of
        Inl refused \<Rightarrow> (refused, st)
      | Inr (handle, slug) \<Rightarrow>
          answer_call (expert_err A) (\<lambda>imported. writeJSON 201 (ImportedBody imported))
            (\<lambda>s. ExpertFromAgent (api_lower A) (sv_app st) (api_deps A) s (dr_now dr) (dr_id dr) p handle slug) st)"

definition post_import_personas :: "('c, 'w) api \<Rightarrow> ('c, 'w) draws \<Rightarrow> ('c, 'w, 'r) handler" where
  "post_import_personas A dr p st =
     (case on_tasks (\<lambda>s. ImportPersonas (sv_app st) (api_deps A) s p (dr_imports dr)) st of
        ((imported, skipped, Some e), st1) \<Rightarrow> (expert_err A e, st1)
      | ((imported, skipped, None), st1) \<Rightarrow> (writeJSON 200 (ImportCounts imported skipped), st1))"

definition get_expert :: "('c, 'w) api \<Rightarrow> string \<Rightarrow> ('c, 'w, 'r) handler" where
  "get_expert A i p st =
     answer_read (expert_err A) (\<lambda>expert. writeJSON 200 (ExpertBody expert))
       (GetExpert (ae_pkg (sv_app st)) (api_deps A) (sv_sys st) p i) st"

definition get_expert_files :: "('c, 'w) api \<Rightarrow> request \<Rightarrow> string \<Rightarrow> ('c, 'w, 'r) handler" where
  "get_expert_files A r i p st =
     (case versionQuery (api_lower A) r of
        Inl refused \<Rightarrow> (refused, st)
      | Inr version \<Rightarrow>
          answer_read (expert_err A) (\<lambda>(v, files). writeJSON 200 (ExpertFilesBody v files))
            (ExpertFiles (ae_pkg (sv_app st)) (api_deps A) (sv_sys st) p i version) st)"

definition get_expert_file :: "('c, 'w) api \<Rightarrow> request \<Rightarrow> string \<Rightarrow> string \<Rightarrow> ('c, 'w, 'r) handler" where
  "get_expert_file A r i filePath p st =
     (case versionQuery (api_lower A) r of
        Inl refused \<Rightarrow> (refused, st)
      | Inr version \<Rightarrow>
          answer_read (expert_err A) (\<lambda>f. writeJSON 200 (ExpertFileBody f))
            (ExpertFile (ae_pkg (sv_app st)) (api_deps A) (sv_sys st) p i version (trim_prefix filePath ''/'')) st)"

definition put_expert :: "('c, 'w) api \<Rightarrow> ('c, 'w) draws \<Rightarrow> string \<Rightarrow> expertBody option \<Rightarrow> ('c, 'w, 'r) handler" where
  "put_expert A dr i decoded p st =
     (case bindJSON (api_lower A) decoded (\<lambda>b. True) of
        Inl refused \<Rightarrow> (refused, st)
      | Inr b \<Rightarrow>
          answer_call (expert_err A) (\<lambda>expert. writeJSON 200 (ExpertBody expert))
            (\<lambda>s. UpdateExpert (sv_app st) (api_deps A) s (dr_now dr) p i (expertInput b)) st)"

end
