(* ===== verification/Http_Commands.thy ===== *)
theory Http_Commands
  imports Http_Tasks Service_Tasks
begin

text \<open>
  The routes of \<open>internal/httpapi/task_routes.go\<close> on one task: its life, its configuration, its commands and
  its artifacts.
\<close>

section \<open>Life of a task\<close>

definition post_tasks :: "('c, 'w) api \<Rightarrow> ('c, 'w) draws \<Rightarrow> taskBody option \<Rightarrow> ('c, 'w, 'r) handler" where
  "post_tasks A dr sent p st =
     (case bindJSON (api_lower A) sent (\<lambda>b. tb_title b \<noteq> [] \<and> tb_goal b \<noteq> []) of
        Inl refused \<Rightarrow> (refused, st)
      | Inr b \<Rightarrow>
          let config = (case tb_config b of None \<Rightarrow> no_config | Some c \<Rightarrow> c) in
          (case ResolveTaskConfig (sv_app st) (api_deps A) (sv_sys st) p (request_of config) of
             Inl e \<Rightarrow> (task_err A e, st)
           | Inr resolved \<Rightarrow>
               answer_call (task_err A) (\<lambda>t. writeJSON 201 (TaskBody t))
                 (\<lambda>s. svc_Create (api_deps A) s (dr_now dr) (dr_id dr) p
                    \<lparr>in_title = tb_title b, in_goal = tb_goal b, in_mode = tb_mode b, in_profile = tb_profile b,
                     in_sop = tb_sop b, in_budgets = tb_budgets b, in_policy = tb_policy b, in_config = Some resolved\<rparr>) st))"

definition get_task :: "('c, 'w) api \<Rightarrow> string \<Rightarrow> ('c, 'w, 'r) handler" where
  "get_task A i p = answer_call (task_err A) (\<lambda>t. writeJSON 200 (TaskBody t)) (\<lambda>s. svc_Get (api_deps A) s p i)"

definition delete_task :: "('c, 'w) api \<Rightarrow> ('c, 'w) draws \<Rightarrow> string \<Rightarrow> ('c, 'w, 'r) handler" where
  "delete_task A dr i p =
     answer_call (task_err A) (\<lambda>_. \<lparr>an_status = 204, an_headers = [], an_body = NoBody\<rparr>)
       (\<lambda>s. svc_Delete (api_deps A) s (dr_now dr) p i)"

definition get_task_config :: "('c, 'w) api \<Rightarrow> string \<Rightarrow> ('c, 'w, 'r) handler" where
  "get_task_config A i p =
     answer_call (task_err A) (\<lambda>view. writeJSON 200 (ConfigBody view)) (\<lambda>s. svc_TaskConfig (api_deps A) s p i)"

definition put_task_config :: "('c, 'w) api \<Rightarrow> ('c, 'w) draws \<Rightarrow> string \<Rightarrow> configUpdateBody option \<Rightarrow> ('c, 'w, 'r) handler" where
  "put_task_config A dr i sent p st =
     (case bindJSON (api_lower A) sent (\<lambda>b. True) of
        Inl refused \<Rightarrow> (refused, st)
      | Inr b \<Rightarrow>
          if ub_base b < 1 then (bad_request A ''base_config_version is required: the version you read'', st)
          else case on_tasks (\<lambda>s. ResolveTaskConfigUpdate (sv_app st) (api_deps A) s p i (request_of (ub_config b))) st of
            (Inl e, st1) \<Rightarrow> (task_err A e, st1)
          | (Inr resolved, st1) \<Rightarrow>
              answer_call (task_err A) (\<lambda>r. writeJSON 200 (ConfigResultBody r))
                (\<lambda>s. UpdateTaskConfig (api_deps A) s (dr_now dr) (dr_owner dr) p i (commandID (dr_command dr) (ub_command b))
                   (ub_base b) resolved) st1)"

definition get_plan :: "('c, 'w) api \<Rightarrow> string \<Rightarrow> ('c, 'w, 'r) handler" where
  "get_plan A i p = answer_call (task_err A) (\<lambda>plan. writeJSON 200 (PlanBody plan)) (\<lambda>s. svc_Plan (api_deps A) s p i)"

definition get_events :: "('c, 'w) api \<Rightarrow> ('c, 'w) draws \<Rightarrow> request \<Rightarrow> string \<Rightarrow> ('c, 'w, 'r) handler" where
  "get_events A dr r i p st =
     (case on_tasks (\<lambda>s. streamTaskEvents (api_deps A) s p i (rq_header r ''Last-Event-ID'') (dr_flushable dr)
             (dr_write_fails dr) (dr_stream dr)) st of
        (StreamRefused status code message, st1) \<Rightarrow> (writeErr (api_lower A) (int status) code message, st1)
      | (Streaming n sender, st1) \<Rightarrow>
          (\<lparr>an_status = 200, an_headers = [(''Content-Type'', ''text/event-stream''), (''Cache-Control'', ''no-cache''),
             (''Connection'', ''keep-alive''), (''X-Accel-Buffering'', ''no'')], an_body = StreamBody n sender\<rparr>, st1))"

section \<open>Commands\<close>

text \<open>An update of the workflow, answered with its raw result.\<close>

definition answer_update :: "('c, 'w) api \<Rightarrow> ('c, 'w) draws \<Rightarrow> (raw \<Rightarrow> int) \<Rightarrow> string \<Rightarrow> string \<Rightarrow> string \<Rightarrow> obj
    \<Rightarrow> ('c, 'w, 'r) handler" where
  "answer_update A dr status i name c payload p =
     answer_call (task_err A) (\<lambda>raw. writeJSON (status raw) (RawBody raw))
       (\<lambda>s. Update (api_deps A) s (dr_now dr) (dr_owner dr) p i name c (Obj payload))"

definition resultStatus :: "string \<Rightarrow> raw \<Rightarrow> int" where
  "resultStatus resultField raw = (case raw of Some (Obj m) \<Rightarrow> if has_key m resultField then 200 else 202 | _ \<Rightarrow> 202)"

definition command_keys :: "string list" where
  "command_keys = [''command_id'', ''commandId'']"

definition message_err :: "('c, 'w) api \<Rightarrow> err \<Rightarrow> answer" where
  "message_err A e =
     (case e of
        MentionError code field reason \<Rightarrow> field_answer (api_lower A) 422 code field reason
      | _ \<Rightarrow> task_err A e)"

definition message_payload :: "string \<Rightarrow> obj \<Rightarrow> string list \<Rightarrow> obj" where
  "message_payload i body mentions =
     (let given = stringValue body [''client_message_id'', ''clientMessageId''];
          clientID = (if trim_space given = [] then i else given);
          delivery = stringValue body [''delivery''] in
      [(''command_id'', Str i), (''client_message_id'', Str clientID), (''text'', Str (stringValue body [''text'', ''message''])),
       (''delivery'', Str (if delivery = [] then ''queue'' else delivery))] @
      (if mentions \<noteq> [] then [(''mentions'', Strs mentions)] else []))"

definition post_message :: "('c, 'w) api \<Rightarrow> ('c, 'w) draws \<Rightarrow> string \<Rightarrow> json_map option \<Rightarrow> ('c, 'w, 'r) handler" where
  "post_message A dr i sent p st =
     (case bindJSON (api_lower A) sent (\<lambda>b. True) of
        Inl refused \<Rightarrow> (refused, st)
      | Inr b \<Rightarrow>
          let body = fields_of b; c = commandID (dr_command dr) (stringValue body command_keys);
              bad = bad_request A ''mentions must be a list of at most 8 roles'' in
          (case stringList (map_of body ''mentions'') of
             None \<Rightarrow> (bad, st)
           | Some given \<Rightarrow>
               if length given > MaxMentions then (bad, st)
               else let mentions = NormalizeMentions given in
                 answer_call (message_err A) (\<lambda>raw. writeJSON 202 (RawBody raw))
                   (\<lambda>s. UpdateChecked (api_deps A) s (dr_now dr) (dr_owner dr) p i ''sendMessage'' c
                      (Obj (message_payload c body mentions)) (CheckMentions (api_deps A) p i mentions)) st))"

definition post_control :: "('c, 'w) api \<Rightarrow> ('c, 'w) draws \<Rightarrow> string \<Rightarrow> json_map option \<Rightarrow> ('c, 'w, 'r) handler" where
  "post_control A dr i sent p st =
     (case bindJSON (api_lower A) sent (\<lambda>b. True) of
        Inl refused \<Rightarrow> (refused, st)
      | Inr b \<Rightarrow>
          let body = fields_of b; c = commandID (dr_command dr) (stringValue body command_keys) in
          answer_update A dr (\<lambda>raw. 202) i ''control'' c
            [(''command_id'', Str c), (''action'', Str (stringValue body [''action''])),
             (''reason'', Str (stringValue body [''reason'']))] p st)"

text \<open>The routes that write the command id into the map they were sent: a nil map panics.\<close>

definition post_budget :: "('c, 'w) api \<Rightarrow> ('c, 'w) draws \<Rightarrow> string \<Rightarrow> json_map option \<Rightarrow> ('c, 'w, 'r) handler" where
  "post_budget A dr i sent p st =
     (case bindJSON (api_lower A) sent (\<lambda>b. True) of
        Inl refused \<Rightarrow> (refused, st)
      | Inr b \<Rightarrow>
          let c = commandID (dr_command dr) (stringValue (fields_of b) command_keys) in
          (case b of
             None \<Rightarrow> (panicked, st)
           | Some m \<Rightarrow> answer_update A dr (\<lambda>raw. 202) i ''grantBudget'' c (AList.update ''command_id'' (Str c) m) p st))"

definition crockford :: "char \<Rightarrow> bool" where
  "crockford c \<longleftrightarrow> byte_in 48 57 c \<or> byte_in 65 72 c \<or> byte_in 74 75 c \<or> byte_in 77 78 c \<or> byte_in 80 84 c \<or> byte_in 86 90 c"

definition nodeRef :: "string \<Rightarrow> bool" where
  "nodeRef s \<longleftrightarrow> length s = 28 \<and> has_prefix s ''n_'' \<and> list_all crockford (drop 2 s)"

definition post_profile_switch :: "('c, 'w) api \<Rightarrow> ('c, 'w) draws \<Rightarrow> string \<Rightarrow> json_map option \<Rightarrow> ('c, 'w, 'r) handler" where
  "post_profile_switch A dr i sent p st =
     (case bindJSON (api_lower A) sent (\<lambda>b. True) of
        Inl refused \<Rightarrow> (refused, st)
      | Inr b \<Rightarrow>
          let body = fields_of b in
          if \<not> nodeRef (stringValue body [''node_id'']) \<or> trim_space (stringValue body [''reason'']) = [] then
            (bad_request A ''node_id and reason are required'', st)
          else case CheckProfile (api_deps A) (sv_sys st) p (stringValue body [''to_profile'']) of
            Some e \<Rightarrow>
              (if e = ErrUnknownProfile then
                 writeErr (api_lower A) 422 ''UNKNOWN_PROFILE'' ''to_profile is not a profile of this tenant''
               else (case e of
                 ErrInvalid msg \<Rightarrow> bad_request A ''to_profile must be a versioned reference like coder@3''
               | FieldError code field reason \<Rightarrow> bad_request A ''to_profile must be a versioned reference like coder@3''
               | _ \<Rightarrow> task_err A e), st)
          | None \<Rightarrow>
              let c = commandID (dr_command dr) (stringValue body command_keys) in
              (case b of
                 None \<Rightarrow> (panicked, st)
               | Some m \<Rightarrow> answer_update A dr (resultStatus ''effective_attempt_no'') i ''requestProfileSwitch'' c
                   (AList.update ''command_id'' (Str c) m) p st))"

datatype refusal = RefusedBy err | RefusedWith int string string

definition held_statuses :: "string list" where
  "held_statuses = [''TAKEN_OVER'', ''PAUSED'', ''PAUSED_NEEDS_REVIEW'']"

definition task_held :: "Task \<Rightarrow> refusal option" where
  "task_held t =
     (if t_status t \<notin> set held_statuses then
        Some (RefusedWith 409 ''INVALID_TRANSITION'' ''pause or take over the task before completing a node'')
      else None)"

text \<open>The last node of that id, as the loop leaves it.\<close>

definition node_named :: "string \<Rightarrow> obj list \<Rightarrow> obj option" where
  "node_named nodeID nodes = find (\<lambda>n. map_of n ''node_id'' = Some (Str nodeID)) (rev nodes)"

definition completeNodeRefusal :: "('c, 'w) deps \<Rightarrow> ('c, 'w) sys \<Rightarrow> Principal \<Rightarrow> string \<Rightarrow> string
    \<Rightarrow> refusal option \<times> ('c, 'w) sys" where
  "completeNodeRefusal d s p taskID nodeID =
     (case svc_Get d s p taskID of
        (Inl e, s1) \<Rightarrow> (Some (RefusedBy e), s1)
      | (Inr t, s1) \<Rightarrow>
          (case svc_Plan d s1 p taskID of
             (Inl e, s2) \<Rightarrow> (Some (RefusedBy e), s2)
           | (Inr plan, s2) \<Rightarrow>
               (if plan_nodes plan = [] then task_held t
                else case node_named nodeID (plan_nodes plan) of
                  None \<Rightarrow> Some (RefusedWith 404 ''NOT_FOUND'' ''node not found'')
                | Some node \<Rightarrow>
                    let status = str_or_empty node ''status'' in
                    if bool_field node ''frozen'' = Some True \<or> status = ''COMPLETED'' \<or> status = ''SKIPPED'' then None
                    else if status = ''RUNNING'' \<or> status = ''VERIFYING'' then
                      Some (RefusedWith 409 ''NODE_RUNNING'' ''an attempt is running on this node; take the task over first'')
                    else task_held t, s2)))"

definition post_complete :: "('c, 'w) api \<Rightarrow> ('c, 'w) draws \<Rightarrow> string \<Rightarrow> string \<Rightarrow> json_map option \<Rightarrow> ('c, 'w, 'r) handler" where
  "post_complete A dr i nodeID sent p st =
     (case bindJSON (api_lower A) sent (\<lambda>b. True) of
        Inl refused \<Rightarrow> (refused, st)
      | Inr b \<Rightarrow>
          if \<not> nodeRef nodeID then (bad_request A ''the node id is invalid'', st)
          else case on_tasks (\<lambda>s. completeNodeRefusal (api_deps A) s p i nodeID) st of
            (Some (RefusedBy e), st1) \<Rightarrow> (task_err A e, st1)
          | (Some (RefusedWith status code message), st1) \<Rightarrow> (writeErr (api_lower A) status code message, st1)
          | (None, st1) \<Rightarrow>
              let body = fields_of b; c = commandID (dr_command dr) (stringValue body command_keys) in
              answer_update A dr (resultStatus ''node_id'') i ''completeNode'' c
                [(''command_id'', Str c), (''node_id'', Str nodeID), (''reason'', Str (stringValue body [''reason'']))] p st1)"

definition post_approval :: "('c, 'w) api \<Rightarrow> ('c, 'w) draws \<Rightarrow> string \<Rightarrow> string \<Rightarrow> json_map option \<Rightarrow> ('c, 'w, 'r) handler" where
  "post_approval A dr i approvalID sent p st =
     (case bindJSON (api_lower A) sent (\<lambda>b. True) of
        Inl refused \<Rightarrow> (refused, st)
      | Inr b \<Rightarrow>
          let body = fields_of b; c = commandID (dr_command dr) (stringValue body command_keys);
              always = (bool_field body ''always'' = Some True) in
          answer_update A dr (\<lambda>raw. 202) i ''decideApproval'' c
            [(''command_id'', Str c), (''approval_id'', Str approvalID), (''decision'', Str (stringValue body [''decision''])),
             (''comment'', Str (stringValue body [''comment''])), (''always'', BoolV always)] p st)"

definition post_plan :: "('c, 'w) api \<Rightarrow> ('c, 'w) draws \<Rightarrow> string \<Rightarrow> json_map option \<Rightarrow> ('c, 'w, 'r) handler" where
  "post_plan A dr i sent p st =
     (case bindJSON (api_lower A) sent (\<lambda>b. True) of
        Inl refused \<Rightarrow> (refused, st)
      | Inr b \<Rightarrow>
          let c = commandID (dr_command dr) (stringValue (fields_of b) command_keys) in
          (case b of
             None \<Rightarrow> (panicked, st)
           | Some m0 \<Rightarrow>
               let m = AList.update ''command_id'' (Str c) m0;
                   m' = (if has_key m ''task_id'' then m else AList.update ''task_id'' (Str i) m) in
               answer_update A dr (\<lambda>raw. 202) i ''submitPlanChange'' c m' p st))"

section \<open>Artifacts\<close>

definition get_manifests :: "('c, 'w) api \<Rightarrow> string \<Rightarrow> ('c, 'w, 'r) handler" where
  "get_manifests A i p =
     answer_call (task_err A) (\<lambda>items. writeJSON 200 (ManifestItems items)) (\<lambda>s. svc_Manifests (api_deps A) s p i)"

definition get_manifest :: "('c, 'w) api \<Rightarrow> string \<Rightarrow> ('c, 'w, 'r) handler" where
  "get_manifest A i p =
     answer_call (task_err A) (\<lambda>m. writeJSON 200 (ManifestBody m)) (\<lambda>s. svc_GetManifest (api_deps A) s p i)"

definition presign_err :: "('c, 'w) api \<Rightarrow> err \<Rightarrow> answer" where
  "presign_err A e =
     (if contains (err_text (tx_sprintf (api_texts A)) e) ''not configured'' then
        writeErr (api_lower A) 503 ''ARTIFACT_STORE_UNAVAILABLE'' ''artifact storage is temporarily unavailable''
      else task_err A e)"

definition get_artifact_url :: "('c, 'w) api \<Rightarrow> request \<Rightarrow> string \<Rightarrow> ('c, 'w, 'r) handler" where
  "get_artifact_url A r i p st =
     (let name = trim_space (rq_query r ''name'') in
      if name = [] then (bad_request A ''artifact entry name is required'', st)
      else answer_call (presign_err A) (\<lambda>url. writeJSON 200 (URLBody url)) (\<lambda>s. svc_PresignArtifact (api_deps A) s p i name) st)"

text \<open>\<open>filepath.Join\<close> of a directory that is named, a tenant and a digest; the file of the store at a path.\<close>

definition blob_path :: "string \<Rightarrow> string \<Rightarrow> string \<Rightarrow> string" where
  "blob_path dir tenantID name = path_Clean (dir @ ''/'' @ tenantID @ ''/'' @ name)"

definition file_at :: "string \<Rightarrow> blob_dir \<Rightarrow> string \<Rightarrow> string option" where
  "file_at dir fs path = map_option snd (find (\<lambda>((t, name), data). blob_path dir t name = path) (bd_blobs fs))"

text \<open>The first entry of that name decides. \<open>http.ServeFile\<close> answers a plain GET with the file.\<close>

definition get_artifact_download :: "('c, 'w) api \<Rightarrow> request \<Rightarrow> string \<Rightarrow> ('c, 'w, 'r) handler" where
  "get_artifact_download A r i p st =
     (let name = trim_space (rq_query r ''name''); dir = api_artifact_dir A in
      if name = [] \<or> dir = [] then (bad_request A ''artifact entry name is required'', st)
      else case on_tasks (\<lambda>s. svc_GetManifest (api_deps A) s p i) st of
        (Inl e, st1) \<Rightarrow> (task_err A e, st1)
      | (Inr m, st1) \<Rightarrow>
          let missing = writeErr (api_lower A) 404 ''NOT_FOUND'' ''artifact entry not found'' in
          (case find (\<lambda>entry. str_or_empty entry ''name'' = name) (am_entries m) of
             None \<Rightarrow> (missing, st1)
           | Some entry \<Rightarrow>
               let digest = trim_prefix (str_or_empty entry ''blob_ref'') ''sha256:'' in
               if \<not> digestHex digest then (missing, st1)
               else case file_at dir (sv_dir st1) (blob_path dir (TenantID p) digest) of
                 None \<Rightarrow> (missing, st1)
               | Some data \<Rightarrow> (\<lparr>an_status = 200, an_headers = [], an_body = Bytes data\<rparr>, st1)))"

text \<open>
  The signer of a deployment that keeps artifacts on disk. Escaping is that of \<open>net/url\<close>, and
  \<open>fmt.Sprint\<close> is the service's.
\<close>

definition hex_upper :: "nat \<Rightarrow> char" where
  "hex_upper n = byte (if n < 10 then 48 + n else 55 + n)"

definition escape_byte :: "char \<Rightarrow> string" where
  "escape_byte c = CHR ''%'' # [hex_upper (of_char c div 16), hex_upper (of_char c mod 16)]"

definition url_plain :: "char \<Rightarrow> bool" where
  "url_plain c \<longleftrightarrow> alnum c \<or> c \<in> set ''-_.~''"

definition url_PathEscape :: "string \<Rightarrow> string" where
  "url_PathEscape s = concat (map (\<lambda>c. if url_plain c \<or> c \<in> set ''$&+=:@'' then [c] else escape_byte c) s)"

definition url_QueryEscape :: "string \<Rightarrow> string" where
  "url_QueryEscape s = concat (map (\<lambda>c. if c = CHR '' '' then ''+'' else if url_plain c then [c] else escape_byte c) s)"

definition localArtifactSigner :: "(goval \<Rightarrow> string) \<Rightarrow> 'w signer" where
  "localArtifactSigner fmt w p manifest entry =
     (let ref = str_or_empty entry ''blob_ref'' in
      if \<not> has_prefix ref ''sha256:'' \<or> length ref \<noteq> length ''sha256:'' + 64 then
        Inl (ErrText ''artifact entry has an invalid blob reference'')
      else Inr (''/v1/artifacts/'' @ url_PathEscape (am_id manifest) @ ''/download?name='' @
        url_QueryEscape (fmt (case map_of entry ''name'' of Some v \<Rightarrow> v | None \<Rightarrow> Null))))"

end
