(* ===== verification/Http_Routes.thy ===== *)
theory Http_Routes
  imports Http_Commands
begin

text \<open>
  The public handler of \<open>internal/httpapi/handler.go\<close> with every route it registers: the method and path a route
  is registered under, and what serves it. The router (gin) picks the route; a path value is taken as it
  stands in the path.
\<close>

datatype task_route =
    GetTasks | PostTasks "taskBody option" | GetTask string | DeleteTask string
  | GetTaskConfig string | PutTaskConfig string "configUpdateBody option"
  | GetPlan string | GetTaskArtifacts string | GetEvents string
  | PostMessage string "json_map option" | PostControl string "json_map option" | PostBudget string "json_map option"
  | PostProfileSwitch string "json_map option" | PostComplete string string "json_map option"
  | PostApproval string string "json_map option" | PostPlan string "json_map option"
  | GetProfiles | PostProfiles "profileBody option" | GetProfileRoute string
  | GetExperts | PostExperts "expertBody option" | PostFromAgent "(string \<times> string) option" | PostImportPersonas
  | GetExpertRoute string | GetExpertFiles string | GetExpertFile string string | PutExpert string "expertBody option"
  | GetPolicy | PutPolicy "Policy option" | GetSettings | PutSettings "UserSettingsRequest option"
  | GetSOPs | PostSOPs "sopBody option"
  | GetArtifact string | GetArtifactURL string | GetArtifactDownload string

definition task_handler :: "('c, 'w) api \<Rightarrow> ('c, 'w) draws \<Rightarrow> request \<Rightarrow> task_route \<Rightarrow> ('c, 'w, 'r) handler" where
  "task_handler A dr r route =
     (case route of
        GetTasks \<Rightarrow> get_tasks A
      | PostTasks b \<Rightarrow> post_tasks A dr b
      | GetTask i \<Rightarrow> get_task A i
      | DeleteTask i \<Rightarrow> delete_task A dr i
      | GetTaskConfig i \<Rightarrow> get_task_config A i
      | PutTaskConfig i b \<Rightarrow> put_task_config A dr i b
      | GetPlan i \<Rightarrow> get_plan A i
      | GetTaskArtifacts i \<Rightarrow> get_manifests A i
      | GetEvents i \<Rightarrow> get_events A dr r i
      | PostMessage i b \<Rightarrow> post_message A dr i b
      | PostControl i b \<Rightarrow> post_control A dr i b
      | PostBudget i b \<Rightarrow> post_budget A dr i b
      | PostProfileSwitch i b \<Rightarrow> post_profile_switch A dr i b
      | PostComplete i n b \<Rightarrow> post_complete A dr i n b
      | PostApproval i a b \<Rightarrow> post_approval A dr i a b
      | PostPlan i b \<Rightarrow> post_plan A dr i b
      | GetProfiles \<Rightarrow> get_profiles A
      | PostProfiles b \<Rightarrow> post_profiles A dr b
      | GetProfileRoute ref \<Rightarrow> get_profile A ref
      | GetExperts \<Rightarrow> get_experts A
      | PostExperts b \<Rightarrow> post_experts A dr b
      | PostFromAgent b \<Rightarrow> post_expert_from_agent A dr b
      | PostImportPersonas \<Rightarrow> post_import_personas A dr
      | GetExpertRoute i \<Rightarrow> get_expert A i
      | GetExpertFiles i \<Rightarrow> get_expert_files A r i
      | GetExpertFile i f \<Rightarrow> get_expert_file A r i f
      | PutExpert i b \<Rightarrow> put_expert A dr i b
      | GetPolicy \<Rightarrow> get_policy A
      | PutPolicy b \<Rightarrow> put_policy A b
      | GetSettings \<Rightarrow> get_settings A
      | PutSettings b \<Rightarrow> put_settings A b
      | GetSOPs \<Rightarrow> get_sops A
      | PostSOPs b \<Rightarrow> post_sops A dr b
      | GetArtifact i \<Rightarrow> get_manifest A i
      | GetArtifactURL i \<Rightarrow> get_artifact_url A r i
      | GetArtifactDownload i \<Rightarrow> get_artifact_download A r i)"

datatype public_route = Health | InternalPath string | CatalogRoute catalog_route | TaskRoute task_route

text \<open>The method a route is registered for; the internal paths are closed for every method.\<close>

definition task_method :: "task_route \<Rightarrow> string" where
  "task_method route =
     (case route of
        PostTasks b \<Rightarrow> ''POST'' | DeleteTask i \<Rightarrow> ''DELETE'' | PutTaskConfig i b \<Rightarrow> ''PUT''
      | PostMessage i b \<Rightarrow> ''POST'' | PostControl i b \<Rightarrow> ''POST'' | PostBudget i b \<Rightarrow> ''POST'' | PostProfileSwitch i b \<Rightarrow> ''POST''
      | PostComplete i n b \<Rightarrow> ''POST'' | PostApproval i a b \<Rightarrow> ''POST'' | PostPlan i b \<Rightarrow> ''POST''
      | PostProfiles b \<Rightarrow> ''POST'' | PostExperts b \<Rightarrow> ''POST'' | PostFromAgent b \<Rightarrow> ''POST'' | PostImportPersonas \<Rightarrow> ''POST''
      | PutExpert i b \<Rightarrow> ''PUT'' | PutPolicy b \<Rightarrow> ''PUT'' | PutSettings b \<Rightarrow> ''PUT'' | PostSOPs b \<Rightarrow> ''POST''
      | _ \<Rightarrow> ''GET'')"

definition catalog_method :: "catalog_route \<Rightarrow> string" where
  "catalog_method route = (case route of PostPersonas b \<Rightarrow> ''POST'' | PostConnectors b \<Rightarrow> ''POST'' | _ \<Rightarrow> ''GET'')"

definition registered_for :: "public_route \<Rightarrow> string \<Rightarrow> bool" where
  "registered_for route method =
     (case route of
        Health \<Rightarrow> method = ''GET''
      | InternalPath i \<Rightarrow> True
      | CatalogRoute c \<Rightarrow> method = catalog_method c
      | TaskRoute t \<Rightarrow> method = task_method t)"

text \<open>The path of a task route.\<close>

definition task_path :: "task_route \<Rightarrow> string" where
  "task_path route =
     (let on_task = (\<lambda>i rest. ''/v1/tasks/'' @ i @ rest) in
      case route of
        GetTasks \<Rightarrow> ''/v1/tasks'' | PostTasks b \<Rightarrow> ''/v1/tasks''
      | GetTask i \<Rightarrow> on_task i [] | DeleteTask i \<Rightarrow> on_task i []
      | GetTaskConfig i \<Rightarrow> on_task i ''/config'' | PutTaskConfig i b \<Rightarrow> on_task i ''/config''
      | GetPlan i \<Rightarrow> on_task i ''/plan'' | PostPlan i b \<Rightarrow> on_task i ''/plan''
      | GetTaskArtifacts i \<Rightarrow> on_task i ''/artifacts'' | GetEvents i \<Rightarrow> on_task i ''/events''
      | PostMessage i b \<Rightarrow> on_task i ''/messages'' | PostControl i b \<Rightarrow> on_task i ''/control''
      | PostBudget i b \<Rightarrow> on_task i ''/budget'' | PostProfileSwitch i b \<Rightarrow> on_task i ''/profile''
      | PostComplete i n b \<Rightarrow> on_task i (''/nodes/'' @ n @ ''/complete'')
      | PostApproval i a b \<Rightarrow> on_task i (''/approvals/'' @ a)
      | GetProfiles \<Rightarrow> ''/v1/profiles'' | PostProfiles b \<Rightarrow> ''/v1/profiles'' | GetProfileRoute ref \<Rightarrow> ''/v1/profiles/'' @ ref
      | GetExperts \<Rightarrow> ''/v1/experts'' | PostExperts b \<Rightarrow> ''/v1/experts'' | PostFromAgent b \<Rightarrow> ''/v1/experts/from-agent''
      | PostImportPersonas \<Rightarrow> ''/v1/experts/import-personas'' | GetExpertRoute i \<Rightarrow> ''/v1/experts/'' @ i
      | GetExpertFiles i \<Rightarrow> ''/v1/experts/'' @ i @ ''/files'' | GetExpertFile i f \<Rightarrow> ''/v1/experts/'' @ i @ ''/files'' @ f
      | PutExpert i b \<Rightarrow> ''/v1/experts/'' @ i
      | GetPolicy \<Rightarrow> ''/v1/policy'' | PutPolicy b \<Rightarrow> ''/v1/policy'' | GetSettings \<Rightarrow> ''/v1/settings'' | PutSettings b \<Rightarrow> ''/v1/settings''
      | GetSOPs \<Rightarrow> ''/v1/sops'' | PostSOPs b \<Rightarrow> ''/v1/sops''
      | GetArtifact i \<Rightarrow> ''/v1/artifacts/'' @ i | GetArtifactURL i \<Rightarrow> ''/v1/artifacts/'' @ i @ ''/url''
      | GetArtifactDownload i \<Rightarrow> ''/v1/artifacts/'' @ i @ ''/download'')"

definition public_handler :: "('c, 'w) api \<Rightarrow> ('c, 'w) draws \<Rightarrow> request \<Rightarrow> public_route
    \<Rightarrow> ('c, 'w, 'r) server \<Rightarrow> answer \<times> ('c, 'w, 'r) server" where
  "public_handler A dr r route st =
     (case route of
        Health \<Rightarrow> (writeJSON 200 HealthBody, st)
      | InternalPath i \<Rightarrow> (writeErr (api_lower A) 404 ''NOT_FOUND'' ''not found'', st)
      | CatalogRoute c \<Rightarrow> authed (api_lower A) (api_auth A) (api_origins A) r (catalog_handler A dr r c) st
      | TaskRoute t \<Rightarrow> authed (api_lower A) (api_auth A) (api_origins A) r (task_handler A dr r t) st)"

section \<open>The internal handler\<close>

text \<open>An event a worker posts, as it is decoded; \<open>xv_source\<close> is the string at \<open>source.kind\<close>, if there is one.\<close>

record posted_event =
  xv_schema :: string
  xv_id :: string
  xv_tenant :: string
  xv_task :: string
  xv_type :: string
  xv_source :: "string option"
  xv_retention :: string
  xv_occurred :: time
  xv_payload :: raw

definition event_posted :: "posted_event \<Rightarrow> Event" where
  "event_posted v =
     \<lparr>ev_seq = 0, ev_after = 0, ev_id = xv_id v, ev_task = xv_task v, ev_tenant = xv_tenant v, ev_type = xv_type v,
      ev_source = (case xv_source v of Some kind \<Rightarrow> if kind \<noteq> [] then kind else ''worker'' | None \<Rightarrow> ''worker''),
      ev_payload = xv_payload v, ev_occurred = xv_occurred v, ev_durable = (xv_retention v \<noteq> ''ephemeral''),
      ev_kind = [], ev_entity_id = [], ev_version = 0, ev_entity = None\<rparr>"

definition unauthorized :: "('c, 'w) api \<Rightarrow> answer" where
  "unauthorized A = writeErr (api_lower A) 401 ''UNAUTHORIZED'' ''internal token required''"

definition guarded :: "('c, 'w) api \<Rightarrow> request \<Rightarrow> ('s \<Rightarrow> answer \<times> 's) \<Rightarrow> 's \<Rightarrow> answer \<times> 's" where
  "guarded A r handler st = (if \<not> Authorized (api_keys A) (api_token A) r then (unauthorized A, st) else handler st)"

definition skill_err :: "('c, 'w) api \<Rightarrow> err \<Rightarrow> answer" where
  "skill_err A = internal_err A ''skill not found''"

definition internal_skill :: "('c, 'w) api \<Rightarrow> string \<Rightarrow> string \<Rightarrow> ('c, 'w, 'r) server \<Rightarrow> answer \<times> ('c, 'w, 'r) server" where
  "internal_skill A handle slug st =
     answer_read (skill_err A) (\<lambda>b. writeJSON 200 (SkillBundleBody b))
       (SkillBundleForWorker (sv_app st) (api_default_tenant A) handle slug) st"

definition internal_expert_skill :: "('c, 'w) api \<Rightarrow> request \<Rightarrow> string \<Rightarrow> string \<Rightarrow> string
    \<Rightarrow> ('c, 'w, 'r) server \<Rightarrow> answer \<times> ('c, 'w, 'r) server" where
  "internal_expert_skill A r expertID rawVersion name st =
     (let tenantID = rq_query r ''tenant_id'' in
      case Atoi rawVersion of
        None \<Rightarrow> (writeErr (api_lower A) 404 ''NOT_FOUND'' ''skill not found'', st)
      | Some version \<Rightarrow>
          if tenantID = [] then (writeErr (api_lower A) 404 ''NOT_FOUND'' ''skill not found'', st)
          else answer_read (skill_err A) (\<lambda>b. writeJSON 200 (SkillBundleBody b))
            (ExpertSkillBundleForWorker (api_deps A) (sv_sys st) tenantID expertID version name) st)"

record reconcileBody =
  kb_tenant :: string
  kb_user :: string
  kb_task :: string
  kb_repair :: bool

definition reconcile_err :: "('c, 'w) api \<Rightarrow> err \<Rightarrow> answer" where
  "reconcile_err A e =
     (if e = ErrNotFound then writeErr (api_lower A) 404 ''NOT_FOUND'' ''task not found''
      else writeErr (api_lower A) 502 ''RECONCILE_FAILED'' ''task reconciliation failed'')"

definition internal_reconcile :: "('c, 'w) api \<Rightarrow> ('c, 'w) draws \<Rightarrow> reconcileBody option
    \<Rightarrow> ('c, 'w, 'r) server \<Rightarrow> answer \<times> ('c, 'w, 'r) server" where
  "internal_reconcile A dr sent st =
     (let bad = (bad_request A ''tenant_id, user_id and task_id are required'', st) in
      case sent of
        None \<Rightarrow> bad
      | Some b \<Rightarrow>
          if kb_tenant b = [] \<or> kb_user b = [] \<or> kb_task b = [] then bad
          else answer_call (reconcile_err A) (\<lambda>report. writeJSON 200 (ReportBody report))
            (\<lambda>s. Reconcile (api_deps A) s (dr_now dr) \<lparr>TenantID = kb_tenant b, UserID = kb_user b\<rparr> (kb_task b) (kb_repair b)) st)"

text \<open>
  \<open>/internal/events\<close>: \<open>raw\<close> is what was read of the body, \<open>stop\<close> the error reading ended with, and \<open>forward\<close>
  hands an event to the replica that owns its task, when that is another one.
\<close>

definition accepted :: answer where
  "accepted = writeJSON 202 OkBody"

definition internal_events :: "('c, 'w) api \<Rightarrow> ('c, 'w) draws \<Rightarrow> (string \<Rightarrow> posted_event option) \<Rightarrow> (string \<Rightarrow> string \<Rightarrow> bool)
    \<Rightarrow> string \<Rightarrow> err option \<Rightarrow> ('c, 'w, 'r) server \<Rightarrow> answer \<times> ('c, 'w, 'r) server" where
  "internal_events A dr decode forward raw stop st =
     (if int (length raw) > api_ingest_max A then
        (writeErr (api_lower A) 413 ''PAYLOAD_TOO_LARGE'' (''event body exceeds '' @ itoa_int (api_ingest_max A) @ '' bytes''), st)
      else if stop \<noteq> None then (bad_request A ''the request is invalid'', st)
      else let unknown = (bad_request A ''event schema must be orbit.event/3'', st) in
        case decode raw of
          None \<Rightarrow> unknown
        | Some v \<Rightarrow>
            if xv_schema v \<noteq> ''orbit.event/3'' then unknown
            else if xv_retention v \<noteq> ''ephemeral'' then
              (writeJSON 400 (PlainError ''BAD_REQUEST'' ''durable events go through runtime_outbox''), st)
            else if forward (xv_task v) raw then (accepted, st)
            else answer_call (writeAppErr (api_texts A) ''task not found'' 500 ''STORAGE_ERROR'') (\<lambda>_. accepted)
              (\<lambda>s. AppendEvent (api_deps A) s (dr_now dr) (event_posted v)) st)"

definition internal_blob :: "('c, 'w) api \<Rightarrow> request \<Rightarrow> string list \<Rightarrow> err option
    \<Rightarrow> ('c, 'w, 'r) server \<Rightarrow> answer \<times> ('c, 'w, 'r) server" where
  "internal_blob A r chunks stop st =
     (if rq_query r ''tenantId'' = [] then (bad_request A ''tenantId is required'', st)
      else case SaveArtifactBlob (api_blob_io A) (api_artifact_dir A) (api_artifact_max A) (sv_dir st)
             (rq_query r ''tenantId'') (rq_header r ''X-Content-Digest'') chunks stop of
        (Inl e, fs) \<Rightarrow> (writeBlobErr (api_texts A) e, st\<lparr>sv_dir := fs\<rparr>)
      | (Inr ref, fs) \<Rightarrow> (writeJSON 200 (StorageRef ref), st\<lparr>sv_dir := fs\<rparr>))"

datatype internal_route =
    InternalHealth
  | InternalSkill string string
  | InternalExpertSkill string string string
  | InternalReconcile "reconcileBody option"
  | InternalEvents string "err option"
  | InternalBlob "string list" "err option"
  | NoRoute

definition internal_handler :: "('c, 'w) api \<Rightarrow> ('c, 'w) draws \<Rightarrow> (string \<Rightarrow> posted_event option) \<Rightarrow> (string \<Rightarrow> string \<Rightarrow> bool)
    \<Rightarrow> request \<Rightarrow> internal_route \<Rightarrow> ('c, 'w, 'r) server \<Rightarrow> answer \<times> ('c, 'w, 'r) server" where
  "internal_handler A dr decode forward r route =
     (case route of
        InternalHealth \<Rightarrow> (\<lambda>st. (writeJSON 200 HealthBody, st))
      | InternalSkill handle slug \<Rightarrow> guarded A r (internal_skill A handle slug)
      | InternalExpertSkill i version name \<Rightarrow> guarded A r (internal_expert_skill A r i version name)
      | InternalReconcile b \<Rightarrow> guarded A r (internal_reconcile A dr b)
      | InternalEvents raw stop \<Rightarrow> guarded A r (internal_events A dr decode forward raw stop)
      | InternalBlob chunks stop \<Rightarrow> guarded A r (internal_blob A r chunks stop)
      | NoRoute \<Rightarrow> (\<lambda>st. (writeErr (api_lower A) 404 ''NOT_FOUND'' ''not found'', st)))"

end
