(* ===== verification/Http_Facts.thy ===== *)
theory Http_Facts
  imports Http_Routes
begin

text \<open>
  Which requests may change what: reads change no store, only vetted callers write, and a worker's events never reach
  the durable stream.
\<close>

section \<open>Reads\<close>

named_theorems reads \<comment> \<open>calls of the task service that change no store\<close>

lemma svc_Get_reads [reads]: "world (snd (svc_Get d s p i)) = world s"
  by (auto simp: svc_Get_def cacheTask_def split: option.split sum.split)

lemma svc_List_reads [reads]: "world (snd (svc_List d s p)) = world s"
proof -
  have "world (fold cacheTask ts s) = world s" for ts :: "Task list" and s :: "('c, 'w) sys"
    by (induction ts arbitrary: s) (simp_all add: cacheTask_def)
  then show ?thesis by (auto simp: svc_List_def split: option.split sum.split)
qed

lemma after_Get: "(\<And>e s1. world (snd (k e s1)) = world s1) \<Longrightarrow> (\<And>t s1. world (snd (f t s1)) = world s1) \<Longrightarrow>
    world (snd (case svc_Get d s p i of (Inl e, s1) \<Rightarrow> k e s1 | (Inr t, s1) \<Rightarrow> f t s1)) = world s"
  using svc_Get_reads [of d s p i] by (auto split: prod.split sum.split)

lemma svc_TaskConfig_reads [reads]: "world (snd (svc_TaskConfig d s p i)) = world s"
  unfolding svc_TaskConfig_def by (rule after_Get) (auto split: option.split sum.split)

lemma svc_Plan_reads [reads]: "world (snd (svc_Plan d s p i)) = world s"
  unfolding svc_Plan_def by (rule after_Get) (auto split: option.split)

lemma svc_Manifests_reads [reads]: "world (snd (svc_Manifests d s p i)) = world s"
  unfolding svc_Manifests_def by (rule after_Get) (auto split: option.split)

lemma svc_GetManifest_reads [reads]: "world (snd (svc_GetManifest d s p i)) = world s"
proof -
  have "world (snd (case svc_Get d s p t of (Inl e, s1) \<Rightarrow> (Inl e, s1) | (Inr _, s1) \<Rightarrow> (Inr m, s1))) = world s"
    for t and m :: ArtifactManifest
    by (rule after_Get) simp_all
  then show ?thesis by (simp add: svc_GetManifest_def split: option.split)
qed

lemma svc_PresignArtifact_reads [reads]: "world (snd (svc_PresignArtifact d s p i n)) = world s"
  unfolding svc_PresignArtifact_def using svc_GetManifest_reads [of d s p i]
  by (auto split: option.split sum.split prod.split)

lemma EventsAfter_reads [reads]: "world (snd (EventsAfter d s p i after)) = world s"
  unfolding EventsAfter_def using svc_Get_reads [of d s p i] by (auto simp: Let_def split: option.split sum.split prod.split)

lemma after_call: "world (snd c) = world s \<Longrightarrow> (\<And>v s1. world (snd (f v s1)) = world s1) \<Longrightarrow>
    world (snd (case c of (v, s1) \<Rightarrow> f v s1)) = world s"
  by (cases c) simp

lemma Subscribe_reads [reads]: "world (snd (Subscribe d s p i after)) = world s"
  unfolding Subscribe_def
  by (rule after_Get, simp, rule after_call, rule EventsAfter_reads) (simp add: Let_def split: prod.split)

lemma streamTaskEvents_reads [reads]: "world (snd (streamTaskEvents d s p i l fl fails steps)) = world s"
proof -
  have "world (snd (case Subscribe d s p i after of (Inl e, s1) \<Rightarrow> (k e, s1)
    | (Inr (n, head), s1) \<Rightarrow> if \<not> fl then (k', s1\<lparr>svc := removeSubscriber i n (svc s1)\<rparr>) else (run n, s1))) = world s"
    for after k k' and run :: "nat \<Rightarrow> stream_answer"
    by (rule after_call, rule Subscribe_reads) (simp split: sum.split prod.split)
  then show ?thesis by (simp add: streamTaskEvents_def Let_def split: option.split)
qed

lemma completeNodeRefusal_reads [reads]: "world (snd (completeNodeRefusal d s p i n)) = world s"
  unfolding completeNodeRefusal_def
  by (rule after_Get, simp, rule after_call, rule svc_Plan_reads) (simp split: sum.split)

definition same_store :: "('c, 'w, 'r) server \<Rightarrow> ('c, 'w, 'r) server \<Rightarrow> bool" where
  "same_store st st' \<longleftrightarrow> world (sv_sys st') = world (sv_sys st) \<and> sv_app st' = sv_app st \<and> sv_dir st' = sv_dir st"

lemma same_store_refl [simp]: "same_store st st"
  by (simp add: same_store_def)

lemma on_tasks_snd: "snd (on_tasks call st) = st\<lparr>sv_sys := snd (call (sv_sys st))\<rparr>"
  by (simp add: on_tasks_def split: prod.split)

lemma on_tasks_fst: "fst (on_tasks call st) = fst (call (sv_sys st))"
  by (simp add: on_tasks_def split: prod.split)

lemma answer_call_snd [simp]: "snd (answer_call bad ok call st) = st\<lparr>sv_sys := snd (call (sv_sys st))\<rparr>"
  using on_tasks_snd [of call st] by (auto simp: answer_call_def split: prod.splits)

lemma answer_call_fst: "fst (answer_call bad ok call st) = reply bad ok (fst (call (sv_sys st)))"
  using on_tasks_fst [of call st] by (auto simp: answer_call_def split: prod.splits)

lemma answer_read_snd [simp]: "snd (answer_read bad ok r st) = st"
  by (simp add: answer_read_def)

lemma answer_call_same: "world (snd (call (sv_sys st))) = world (sv_sys st) \<Longrightarrow> same_store st (snd (answer_call bad ok call st))"
  by (simp add: same_store_def)

lemma on_tasks_same: "on_tasks call st = (v, st1) \<Longrightarrow> world (snd (call (sv_sys st))) = world (sv_sys st) \<Longrightarrow> same_store st st1"
  using on_tasks_snd [of call st] by (simp add: same_store_def)

section \<open>Only vetted callers write\<close>

lemma get_handlers [reads]:
  "same_store st (snd (get_tasks A p st))" "same_store st (snd (get_task A i p st))"
  "same_store st (snd (get_task_config A i p st))" "same_store st (snd (get_plan A i p st))"
  "same_store st (snd (get_manifests A i p st))" "same_store st (snd (get_manifest A i p st))"
  by (simp_all add: get_tasks_def get_task_def get_task_config_def get_plan_def get_manifests_def get_manifest_def
      answer_call_same reads del: answer_call_snd)

lemma artifact_handlers [reads]:
  "same_store st (snd (get_artifact_url A r i p st))" "same_store st (snd (get_artifact_download A r i p st))"
  "same_store st (snd (get_events A dr r i p st))"
proof -
  show "same_store st (snd (get_artifact_url A r i p st))"
    by (simp add: get_artifact_url_def Let_def answer_call_same reads del: answer_call_snd)
  show "same_store st (snd (get_artifact_download A r i p st))"
  proof -
    have "same_store st st1" if "on_tasks (\<lambda>s. svc_GetManifest (api_deps A) s p i) st = (v, st1)" for v st1
      using that by (rule on_tasks_same) (rule reads)
    then show ?thesis by (auto simp: get_artifact_download_def Let_def split: prod.split sum.split option.split)
  qed
  show "same_store st (snd (get_events A dr r i p st))"
  proof -
    have "same_store st st1" if "on_tasks (\<lambda>s. streamTaskEvents (api_deps A) s p i l fl fails steps) st = (v, st1)" for v st1 l fl fails steps
      using that by (rule on_tasks_same) (rule reads)
    then show ?thesis by (auto simp: get_events_def split: prod.split stream_answer.split)
  qed
qed

lemma read_handlers [reads]:
  "snd (get_profiles A p st) = st" "snd (get_profile A ref p st) = st" "snd (get_policy A p st) = st"
  "snd (get_settings A p st) = st" "snd (get_sops A p st) = st" "snd (get_experts A p st) = st" "snd (get_expert A i p st) = st"
  "snd (get_expert_files A r i p st) = st" "snd (get_expert_file A r i f p st) = st"
  by (simp_all add: get_profiles_def get_profile_def get_policy_def get_settings_def get_sops_def get_experts_def get_expert_def
      get_expert_files_def get_expert_file_def split: sum.split)

lemma task_reads: "task_method t = ''GET'' \<Longrightarrow> same_store st (snd (task_handler A dr r t p st))"
  by (cases t) (simp_all add: task_method_def task_handler_def reads)

lemma catalog_reads: "catalog_method c = ''GET'' \<Longrightarrow> snd (catalog_handler A dr r c p st) = st"
  by (cases c) (simp_all add: catalog_method_def catalog_handler_def get_personas_def get_connectors_def get_market_def
      get_market_server_def get_market_icon_def get_market_categories_def get_skills_def writeSkill_def writeSkillFiles_def
      get_skill_icon_def get_skill_categories_def get_agents_def writeAgent_def get_agent_icon_def get_models_def writeIcon_def Let_def)

lemma on_tasks_dir: "on_tasks call st = (v, st1) \<Longrightarrow> sv_dir st1 = sv_dir st"
  using on_tasks_snd [of call st] by auto

lemma task_dir: "sv_dir (snd (task_handler A dr r t p st)) = sv_dir st"
  by (cases t) (auto simp: task_handler_def reads [unfolded same_store_def] post_tasks_def delete_task_def put_task_config_def post_message_def
        post_control_def answer_update_def post_budget_def post_profile_switch_def post_complete_def post_approval_def post_plan_def
        post_profiles_def post_experts_def post_expert_from_agent_def post_import_personas_def put_expert_def put_policy_def
        put_settings_def post_sops_def Let_def dest!: on_tasks_dir split: sum.split option.split prod.split refusal.split err.split)

lemma catalog_dir: "sv_dir (snd (catalog_handler A dr r c p st)) = sv_dir st"
proof (cases "catalog_method c = ''GET''")
  case False
  then show ?thesis
    by (cases c) (auto simp: catalog_method_def catalog_handler_def post_personas_def post_connectors_def write_catalog_def
        split: sum.split prod.split)
qed (simp add: catalog_reads)

lemma catalog_methods: "catalog_method c \<in> {''GET'', ''POST''}"
  by (cases c) (simp_all add: catalog_method_def)

lemma task_methods: "task_method t \<in> {''GET'', ''POST'', ''PUT'', ''DELETE''}"
  by (cases t) (simp_all add: task_method_def)

lemma csrf_ok_iff:
  "csrfOK r allowed \<longleftrightarrow> rq_header r ''X-Orbit-Request'' = ''1'' \<and> rq_header r ''Origin'' \<noteq> [] \<and> rq_header r ''Origin'' \<in> set allowed"
  by (auto simp: csrfOK_def Let_def list_ex_iff)

lemma authed_writes:
  assumes "authed f auth origins r handler st = (a, st')" "\<not> same_store st st'"
    and reads: "\<And>p. \<not> mutates (rq_method r) \<Longrightarrow> same_store st (snd (handler p st))"
  shows "\<exists>p. auth r = Some p \<and> mutates (rq_method r) \<and> (origins = [] \<or> csrfOK r origins) \<and> handler p st = (a, st')"
proof -
  obtain p where p: "auth r = Some p" "handler p st = (a, st')" "mutates (rq_method r) \<Longrightarrow> origins = [] \<or> csrfOK r origins"
    using assms(1,2) by (auto simp: authed_def split: option.splits if_splits)
  then show ?thesis using reads [of p] assms(2) by auto
qed

text \<open>
  C30. A public request that changes anything stored (the tasks' store, the catalog, the artifacts) comes from an
  authenticated caller, has a method that says it writes, and, when origins are configured, states one of them
  and the request header no foreign page can set; and no public request touches the artifacts.
\<close>

theorem only_vetted_requests_write:
  assumes "registered_for route (rq_method r)" "public_handler A dr r route st = (a, st')" "\<not> same_store st st'"
  shows "\<exists>p. api_auth A r = Some p \<and> rq_method r \<in> {''POST'', ''PUT'', ''DELETE''} \<and> sv_dir st' = sv_dir st \<and>
    (api_origins A = [] \<or> rq_header r ''X-Orbit-Request'' = ''1'' \<and> rq_header r ''Origin'' \<in> set (api_origins A))"
proof (cases route)
  case (CatalogRoute c)
  have "\<not> mutates (rq_method r) \<Longrightarrow> same_store st (snd (catalog_handler A dr r c p st))" for p
    using assms(1) CatalogRoute catalog_methods [of c] by (auto simp: registered_for_def mutates_def catalog_reads)
  with assms(2,3) CatalogRoute obtain p where p: "api_auth A r = Some p" "mutates (rq_method r)"
    "api_origins A = [] \<or> csrfOK r (api_origins A)" "catalog_handler A dr r c p st = (a, st')"
    using authed_writes by (auto simp: public_handler_def) blast
  then show ?thesis
    using assms(1) CatalogRoute catalog_methods [of c] catalog_dir [of A dr r c p st]
    by (auto simp: registered_for_def mutates_def csrf_ok_iff)
next
  case (TaskRoute t)
  have "\<not> mutates (rq_method r) \<Longrightarrow> same_store st (snd (task_handler A dr r t p st))" for p
    using assms(1) TaskRoute task_methods [of t] by (auto simp: registered_for_def mutates_def task_reads)
  with assms(2,3) TaskRoute obtain p where p: "api_auth A r = Some p" "mutates (rq_method r)"
    "api_origins A = [] \<or> csrfOK r (api_origins A)" "task_handler A dr r t p st = (a, st')"
    using authed_writes by (auto simp: public_handler_def) blast
  then show ?thesis
    using assms(1) TaskRoute task_methods [of t] task_dir [of A dr r t p st]
    by (auto simp: registered_for_def mutates_def csrf_ok_iff)
qed (use assms(2,3) in \<open>auto simp: public_handler_def\<close>)

text \<open>A process for the witnesses: the local principal, one allowed origin, everything in memory.\<close>

definition sample_keys :: auth_pkg where
  "sample_keys = \<lparr>ap_equal_fold = (\<lambda>a b. a = ''Bearer ''), ap_SplitHostPort = (\<lambda>_. None), ap_ParseIP = (\<lambda>_. None)\<rparr>"

definition sample_api :: "((string \<times> unit) list, unit) api" where
  "sample_api =
     \<lparr>api_deps = sample_deps, api_auth = LocalAuthenticator ''t'', api_origins = [''http://o''], api_models = [], api_default_model = [],
      api_net = \<lparr>url_Parse = (\<lambda>_. None), ParseIP = (\<lambda>_. None), unicode_lower = (\<lambda>c. c)\<rparr>,
      api_texts = \<lparr>tx_lower = (\<lambda>c. c), tx_sprintf = (\<lambda>f _. f)\<rparr>, api_artifact_dir = ''/data'', api_artifact_max = 10,
      api_ingest_max = 100, api_default_tenant = ''t'', api_blob_io = sample_io, api_keys = sample_keys, api_token = ''k''\<rparr>"

definition sample_server :: "((string \<times> unit) list, unit, mem_store) server" where
  "sample_server = \<lparr>sv_sys = sample_sys,
     sv_app = \<lparr>ae_repo = mem_catalog (\<lambda>c. c), ae_state = mem_New, ae_lib = None,
       ae_pkg = \<lparr>json_parse = (\<lambda>_. None), json_print = (\<lambda>_. []), sha256_hex = (\<lambda>_. []), equal_fold = (=), go_quote = (\<lambda>s. s)\<rparr>\<rparr>,
     sv_dir = \<lparr>bd_blobs = [], bd_temps = []\<rparr>\<rparr>"

definition sample_draws :: "((string \<times> unit) list, unit) draws" where
  "sample_draws = \<lparr>dr_now = 5, dr_id = ''1'', dr_command = ''c1'', dr_owner = ''o1'', dr_imports = [], dr_flushable = True,
     dr_write_fails = (\<lambda>_. False), dr_stream = []\<rparr>"

definition signed_request :: "string \<Rightarrow> string \<Rightarrow> request" where
  "signed_request method path = \<lparr>rq_method = method, rq_path = path,
     rq_header = (\<lambda>_. [])(''X-Orbit-Request'' := ''1'', ''Origin'' := ''http://o''), rq_query = (\<lambda>_. []), rq_remote = []\<rparr>"

definition sample_persona :: personaBody where
  "sample_persona = \<lparr>pb_name = ''a'', pb_instructions = [], pb_connectors = []\<rparr>"

theorem only_vetted_requests_write_witness:
  "\<exists>a st'. public_handler sample_api sample_draws (signed_request ''POST'' ''/v1/personas'')
       (CatalogRoute (PostPersonas (Some sample_persona))) sample_server = (a, st') \<and>
     an_status a = 200 \<and> \<not> same_store sample_server st' \<and> sv_dir st' = sv_dir sample_server"
proof -
  let ?r = "signed_request ''POST'' ''/v1/personas''" and ?route = "CatalogRoute (PostPersonas (Some sample_persona))"
  have trim: "trim_space ''a'' = ''a''" by (rule trim_space_graphic) (simp add: graphic_def byte_in_def)
  obtain a st' where run: "public_handler sample_api sample_draws ?r ?route sample_server = (a, st')" by fastforce
  then have "an_status a = 200" "ae_state (sv_app st') \<noteq> ae_state (sv_app sample_server)"
    by (auto simp: public_handler_def authed_def sample_api_def LocalAuthenticator_def mutates_def csrfOK_def signed_request_def Let_def
        catalog_handler_def post_personas_def bindJSON_def sample_persona_def write_catalog_def sample_server_def sample_draws_def
        app_CreatePersona_def trim cleanNames_def trimNonEmpty_def mem_catalog_def mem_CreatePersona_def mem_New_def has_key_def
        reply_def writeJSON_def split: if_splits)
  moreover have "registered_for ?route (rq_method ?r)"
    by (simp add: registered_for_def catalog_method_def signed_request_def)
  ultimately show ?thesis
    using run only_vetted_requests_write [of ?route ?r sample_api sample_draws sample_server a st'] by (auto simp: same_store_def)
qed

section \<open>What a worker posts\<close>

lemma live_event_appended:
  assumes "\<not> ev_durable ev0" "ev_seq ev0 = 0" "AppendEvent d s now ev0 = (r, s')"
  shows "world s' = world s \<and> r = Inr () \<and> durables (svc s') t = durables (svc s) t \<and> seq_of (svc s') t = seq_of (svc s) t"
proof -
  obtain ev sv where a: "admit d (svc s) now ev0 = (ev, sv)" by fastforce
  show ?thesis
  proof (cases ev)
    case None
    then obtain c where "sv = (svc s)\<lparr>s_seenEvents := c\<rparr>" using a admit_None by blast
    then show ?thesis using assms(3) a None by (auto simp: AppendEvent_def durables_def)
  next
    case (Some e)
    note E = admitted_event [OF a [unfolded Some]]
    have s': "s' = s\<lparr>svc := publish d now e sv\<rparr>" "r = Inr ()"
      using assms(1,3) a Some E(2) by (auto simp: AppendEvent_def split: option.splits)
    have "durables sv t = durables (svc s) t" for t using E(4) by (simp add: durables_def)
    moreover have "durables (publish d now e sv) t = durables sv t"
      using assms(1) E(2) by (simp add: durables_def publish_buffer trim_buffer_durable)
    moreover have "seq_of (publish d now e sv) t = seq_of (svc s) t"
      using assms(1,2) E(6) [of t] E(8) by (auto simp: publish_seq)
    ultimately show ?thesis using s' by simp
  qed
qed

text \<open>
  C31. Whatever a worker posts to \<open>/internal/events\<close>, and whether or not it is handed on, no store is written and no
  task's durable events or numbers change; without the internal token nothing changes at all.
\<close>

theorem posted_events_stay_live:
  "case internal_handler A dr decode forward r (InternalEvents raw stop) st of (a, st') \<Rightarrow>
     same_store st st' \<and>
     durables (svc (sv_sys st')) t = durables (svc (sv_sys st)) t \<and> seq_of (svc (sv_sys st')) t = seq_of (svc (sv_sys st)) t \<and>
     (Authorized (api_keys A) (api_token A) r \<or> st' = st \<and> an_status a = 401)"
proof -
  have live: "same_store st st1 \<and> durables (svc (sv_sys st1)) t = durables (svc (sv_sys st)) t \<and>
      seq_of (svc (sv_sys st1)) t = seq_of (svc (sv_sys st)) t"
    if v: "xv_retention v = ''ephemeral''"
      and st1: "st1 = st\<lparr>sv_sys := snd (AppendEvent (api_deps A) (sv_sys st) (dr_now dr) (event_posted v))\<rparr>" for v st1
  proof -
    obtain e s' where run: "AppendEvent (api_deps A) (sv_sys st) (dr_now dr) (event_posted v) = (e, s')" by fastforce
    have "\<not> ev_durable (event_posted v)" "ev_seq (event_posted v) = 0" using v by (simp_all add: event_posted_def)
    from live_event_appended [OF this run] show ?thesis using st1 run by (simp add: same_store_def)
  qed
  obtain a st' where run: "internal_handler A dr decode forward r (InternalEvents raw stop) st = (a, st')" by fastforce
  consider "st' = st" | v where "xv_retention v = ''ephemeral''"
      "st' = st\<lparr>sv_sys := snd (AppendEvent (api_deps A) (sv_sys st) (dr_now dr) (event_posted v))\<rparr>"
    using run by (auto simp: internal_handler_def guarded_def internal_events_def Let_def prod_eq_iff split: if_splits option.splits)
  moreover have "Authorized (api_keys A) (api_token A) r \<or> st' = st \<and> an_status a = 401"
    using run by (auto simp: internal_handler_def guarded_def unauthorized_def writeErr_def writeJSON_def)
  ultimately show ?thesis using run live by cases auto
qed

end
