(* ===== verification/Command_Facts.thy ===== *)
theory Command_Facts
  imports Http_Facts
begin

text \<open>
  The command routes over the task service (\<open>internal/httpapi/task_routes.go\<close> on \<open>internal/task/commands.go\<close>): a message
  that is sent again is answered again, and a node is completed by hand only while no agent works on it.
\<close>

section \<open>Statuses\<close>

lemma RefusalStatus_error: "400 \<le> RefusalStatus ty"
  by (simp add: RefusalStatus_def refusalStatuses_def get_or_def split: option.split)

lemma writeErr_status [simp]: "an_status (writeErr f status code message) = status"
  by (simp add: writeErr_def writeJSON_def)

lemma field_answer_status [simp]: "an_status (field_answer f status code field reason) = status"
  by (simp add: field_answer_def writeJSON_def)

lemma writeTaskErr_status: "400 \<le> an_status (writeTaskErr tx e)"
  by (auto simp: RefusalStatus_error writeTaskErr_def Let_def writeOrchRefusal_def writeFieldErr_def split: err.split)

lemma message_err_status: "400 \<le> an_status (message_err A e)"
  by (auto simp: message_err_def task_err_def writeTaskErr_status split: err.split)

lemma reply_status:
  assumes "an_status (reply bad ok v) < 400" "\<And>e. 400 \<le> an_status (bad e)"
  obtains x where "v = Inr x"
  using assms(1) assms(2) [of "projl v"] by (cases v) (auto simp: reply_def)

section \<open>A message that is sent again\<close>

definition message_command :: "json_map \<Rightarrow> string" where
  "message_command b = stringValue (fields_of b) command_keys"

lemma post_message_call:
  assumes "stringList (map_of (fields_of b) ''mentions'') = Some given" "length given \<le> MaxMentions"
    "trim_space (message_command b) \<noteq> []"
  shows "post_message A dr i (Some b) p st =
    answer_call (message_err A) (\<lambda>raw. writeJSON 202 (RawBody raw))
      (\<lambda>s. UpdateChecked (api_deps A) s (dr_now dr) (dr_owner dr) p i ''sendMessage'' (message_command b)
         (Obj (message_payload (message_command b) (fields_of b) (NormalizeMentions given)))
         (CheckMentions (api_deps A) p i (NormalizeMentions given))) st"
  using assms by (simp add: post_message_def bindJSON_def Let_def commandID_def message_command_def)

lemma accepted_message:
  assumes "post_message A dr i (Some b) p st = (a, st1)" "an_status a = 202"
  obtains given where "stringList (map_of (fields_of b) ''mentions'') = Some given" "length given \<le> MaxMentions"
  using assms by (auto simp: post_message_def bindJSON_def Let_def bad_request_def split: option.splits if_splits)


definition pg_api :: "((string \<times> unit) list, nat ledger_db_scheme) api" where
  "pg_api =
     \<lparr>api_deps = deployed pg_sample_deps counting_client, api_auth = LocalAuthenticator ''t'', api_origins = [], api_models = [],
      api_default_model = [], api_net = \<lparr>url_Parse = (\<lambda>_. None), ParseIP = (\<lambda>_. None), unicode_lower = (\<lambda>c. c)\<rparr>,
      api_texts = \<lparr>tx_lower = (\<lambda>c. c), tx_sprintf = (\<lambda>f _. f)\<rparr>, api_artifact_dir = [], api_artifact_max = 10,
      api_ingest_max = 100, api_default_tenant = ''t'', api_blob_io = sample_io, api_keys = sample_keys, api_token = []\<rparr>"

definition pg_server :: "((string \<times> unit) list, nat ledger_db_scheme, mem_store) server" where
  "pg_server = \<lparr>sv_sys = pg_sample_sys, sv_app = sv_app sample_server, sv_dir = \<lparr>bd_blobs = [], bd_temps = []\<rparr>\<rparr>"

definition pg_draws :: "time \<Rightarrow> string \<Rightarrow> ((string \<times> unit) list, nat ledger_db_scheme) draws" where
  "pg_draws now owner = \<lparr>dr_now = now, dr_id = [], dr_command = [], dr_owner = owner, dr_imports = [], dr_flushable = True,
     dr_write_fails = (\<lambda>_. False), dr_stream = []\<rparr>"

definition sample_message :: json_map where
  "sample_message = Some [(''command_id'', Str ''c1''), (''text'', Str ''hi'')]"

lemma sample_command: "message_command sample_message = ''c1''" "trim_space ''c1'' = ''c1''"
  "map_of (fields_of sample_message) ''mentions'' = None" "NormalizeMentions [] = []"
  by (simp_all add: message_command_def sample_message_def fields_of_def command_keys_def str_field_def NormalizeMentions_def)
    (rule trim_space_graphic, simp add: graphic_def byte_in_def)

lemma pg_message_first:
  "\<exists>s1 t. UpdateChecked (deployed pg_sample_deps counting_client) pg_sample_sys 5 ''o1'' sample_principal ''task_1'' ''sendMessage'' ''c1''
        (Obj x) (CheckMentions (deployed pg_sample_deps counting_client) sample_principal ''task_1'' [])
      = (Inr (acceptedBody ''c1'' []), s1) \<and> ledger_db.more (world s1) = 1 \<and>
    map_of (s_tasks (svc s1)) ''task_1'' = Some t \<and> owns sample_principal t \<and> t_status t = ''RUNNING''"
proof -
  have g: "svc_Get (deployed pg_sample_deps counting_client) pg_sample_sys sample_principal ''task_1'' =
      (Inr (cloneTask sample_task), pg_sample_sys)"
    by (rule pg_sample_get) (simp_all add: pg_sample_sys_def sample_sys_def owns_def sample_principal_def sample_task_def)
  show ?thesis
    unfolding UpdateChecked_def g
    by (simp add: pg_sample_sys_def sample_sys_def sample_task_def cloneTask_def isClosed_def deployed_def pg_sample_deps_def
        pg_claim_def inTenant_def claimLedgerRow_def has_key_def put_ledger_def sample_principal_def commandKey_def
        run_claimed_def CheckMentions_def runUpdate_def workflow_update_def on_more_def counting_client_def
        pg_complete_def ledgerRowScope_def scopeAPICommand_def acceptedBody_def applyUpdateProjection_def as_map_def
        json_obj_def touch_task_def owns_def str_field_def num_field_def Let_def)
qed


section \<open>Completing a node by hand\<close>

definition node_done :: "obj \<Rightarrow> bool" where
  "node_done n \<longleftrightarrow> bool_field n ''frozen'' = Some True \<or> str_or_empty n ''status'' \<in> {''COMPLETED'', ''SKIPPED''}"

definition node_running :: "obj \<Rightarrow> bool" where
  "node_running n \<longleftrightarrow> str_or_empty n ''status'' \<in> {''RUNNING'', ''VERIFYING''}"

lemma completion_allowed:
  assumes "completeNodeRefusal d s p i n = (None, s2)"
  shows "\<exists>t plan s1. svc_Get d s p i = (Inr t, s1) \<and> svc_Plan d s1 p i = (Inr plan, s2) \<and>
    (t_status t \<in> set held_statuses \<and> (plan_nodes plan = [] \<or> (\<exists>node \<in> set (plan_nodes plan). map_of node ''node_id'' = Some (Str n) \<and> \<not> node_running node)) \<or>
     (\<exists>node \<in> set (plan_nodes plan). map_of node ''node_id'' = Some (Str n) \<and> node_done node))"
proof -
  obtain t plan s1 where get: "svc_Get d s p i = (Inr t, s1)" "svc_Plan d s1 p i = (Inr plan, s2)"
    using assms by (auto simp: completeNodeRefusal_def split: prod.splits sum.splits)
  have held: "t_status t \<in> set held_statuses" if "task_held t = None" using that by (auto simp: task_held_def split: if_splits)
  have node: "node \<in> set (plan_nodes plan) \<and> map_of node ''node_id'' = Some (Str n)" if "node_named n (plan_nodes plan) = Some node" for node
    using find_SomeD [OF that [unfolded node_named_def]] by simp
  show ?thesis
  proof (cases "plan_nodes plan = []")
    case True
    then have "task_held t = None" using assms get by (simp add: completeNodeRefusal_def)
    with True held get show ?thesis by auto
  next
    case False
    then obtain m where m: "node_named n (plan_nodes plan) = Some m"
      using assms get by (auto simp: completeNodeRefusal_def split: option.splits)
    then have "node_done m \<or> \<not> node_running m \<and> task_held t = None"
      using assms get False by (auto simp: completeNodeRefusal_def node_done_def node_running_def Let_def split: if_splits)
    with node [OF m] held have "t_status t \<in> set held_statuses \<and> m \<in> set (plan_nodes plan) \<and> map_of m ''node_id'' = Some (Str n) \<and>
        \<not> node_running m \<or> m \<in> set (plan_nodes plan) \<and> map_of m ''node_id'' = Some (Str n) \<and> node_done m" by auto
    with get show ?thesis by (intro exI [of _ t] exI [of _ plan] exI [of _ s1]) auto
  qed
qed


text \<open>A workflow with an empty plan, and a task that is paused or at work.\<close>

definition quiet_client :: "nat task_client" where
  "quiet_client = counting_client\<lparr>oGetTaskPlan := \<lambda>_ _ _. Inr \<lparr>plan_version = 0, plan_hash = [], plan_nodes = [], plan_edges = []\<rparr>\<rparr>"

definition sample_node :: string where
  "sample_node = ''n_'' @ replicate 26 (CHR ''0'')"


end
