(* ===== verification/Pg_Catalog.thy ===== *)
theory Pg_Catalog
  imports Pg_Store App_Catalog
begin

text \<open>
  The catalog in Postgres: \<open>catalog.go\<close>, \<open>skills.go\<close>, \<open>agents.go\<close>, \<open>mcpmarket.go\<close> and \<open>icons.go\<close> of
  \<open>internal/store/pgstore\<close>. A table is a map from its primary key, with the checks of the migrations where a
  row is written; a transaction is one step that is undone when a statement fails, whatever the statement,
  with \<open>ErrStorage\<close>. A TEXT column takes what is UTF-8 without a NUL byte (\<open>db_text\<close>), and so does a bound
  argument; a JSONB column holds what \<open>json.Marshal\<close> wrote, where a byte that is no UTF-8 became U+FFFD, and
  refuses a NUL too. What the database decides by itself is the record \<open>sql_env\<close>: the lower case of letters
  outside ASCII, the collation of TEXT, and which of several rows an \<open>UPDATE ... FROM\<close> takes.
\<close>

section \<open>What the database does\<close>

record sql_env =
  se_lower :: "nat \<Rightarrow> nat"
  se_less :: "string \<Rightarrow> string \<Rightarrow> bool"
  se_pick :: "string \<Rightarrow> nat"

definition jsonb_string :: "string \<Rightarrow> string" where
  "jsonb_string s = string_of_runes (runes s)"

definition no_nul :: "string \<Rightarrow> bool" where
  "no_nul s \<longleftrightarrow> byte 0 \<notin> set s"

definition db_text :: "string \<Rightarrow> bool" where
  "db_text s \<longleftrightarrow> no_nul s \<and> jsonb_string s = s"

text \<open>
  \<open>LIKE\<close> with a backslash as its escape, on the bytes of the two strings: only the underscore needs to know how
  long a character is.
\<close>

function sql_like :: "string \<Rightarrow> string \<Rightarrow> bool" where
  "sql_like [] s \<longleftrightarrow> s = []"
| "sql_like (p # ps) s \<longleftrightarrow>
     (if p = byte 92 then (case (ps, s) of (q # ps', c # s') \<Rightarrow> c = q \<and> sql_like ps' s' | _ \<Rightarrow> False)
      else if p = CHR ''%'' then sql_like ps s \<or> (case s of [] \<Rightarrow> False | c # s' \<Rightarrow> sql_like (p # ps) s')
      else case s of
        [] \<Rightarrow> False
      | c # s' \<Rightarrow>
          if p = CHR ''_'' then sql_like ps (drop (snd (decode_rune s) - 1) s') else c = p \<and> sql_like ps s')"
  by pat_completeness auto
termination by (relation "measure (\<lambda>(p, s). length p + length s)") auto

definition sql_ilike :: "sql_env \<Rightarrow> string \<Rightarrow> string \<Rightarrow> bool" where
  "sql_ilike e pat s \<longleftrightarrow> sql_like (ToLower (se_lower e) pat) (ToLower (se_lower e) s)"

definition escapeLike :: "string \<Rightarrow> string" where
  "escapeLike s = concat (map (\<lambda>c. if c \<in> {byte 92, CHR ''%'', CHR ''_''} then [byte 92, c] else [c]) s)"

definition likeContains :: "(nat \<Rightarrow> nat) \<Rightarrow> string \<Rightarrow> string" where
  "likeContains fold_rune keyword = ''%'' @ escapeLike (ToLower fold_rune keyword) @ ''%''"

text \<open>\<open>ORDER BY number DESC, key\<close> and \<open>ORDER BY number, key\<close>.\<close>

definition order_desc :: "sql_env \<Rightarrow> ('r \<Rightarrow> int) \<Rightarrow> ('r \<Rightarrow> string) \<Rightarrow> 'r \<Rightarrow> 'r \<Rightarrow> bool" where
  "order_desc e number key a b \<longleftrightarrow> number a > number b \<or> number a = number b \<and> se_less e (key a) (key b)"

definition order_asc :: "sql_env \<Rightarrow> ('r \<Rightarrow> int) \<Rightarrow> ('r \<Rightarrow> string) \<Rightarrow> 'r \<Rightarrow> 'r \<Rightarrow> bool" where
  "order_asc e number key a b \<longleftrightarrow> number a < number b \<or> number a = number b \<and> se_less e (key a) (key b)"

definition limit_offset :: "int \<Rightarrow> int \<Rightarrow> 'r list \<Rightarrow> 'r list" where
  "limit_offset limit offset rows = take (nat limit) (drop (nat offset) rows)"

text \<open>
  \<open>INSERT\<close> of rows that must not be stored yet, and \<open>INSERT ... ON CONFLICT DO UPDATE\<close>, one statement of which
  may not meet a key twice. A failed batch undoes the ones before it, so batches show only in the second.
\<close>

fun insert_rows :: "('r \<Rightarrow> string) \<Rightarrow> ('r \<Rightarrow> bool) \<Rightarrow> 'r list \<Rightarrow> (string, 'r) gomap \<Rightarrow> (string, 'r) gomap result" where
  "insert_rows key ok [] t = Inr t"
| "insert_rows key ok (r # rs) t =
     (if \<not> ok r \<or> has_key t (key r) then Inl ErrStorage else insert_rows key ok rs (AList.update (key r) r t))"

definition upsert_rows :: "('r \<Rightarrow> string) \<Rightarrow> ('r \<Rightarrow> bool) \<Rightarrow> 'r list \<Rightarrow> (string, 'r) gomap \<Rightarrow> (string, 'r) gomap result" where
  "upsert_rows key ok rs t =
     (if list_all ok rs \<and> distinct (map key rs) then Inr (fold (\<lambda>r. AList.update (key r) r) rs t) else Inl ErrStorage)"

fun batches :: "nat \<Rightarrow> 'r list \<Rightarrow> 'r list list" where
  "batches n rs = (if n = 0 \<or> length rs \<le> n then [rs] else take n rs # batches n (drop n rs))"

declare batches.simps [simp del]

text \<open>A transaction on the shared tables; \<open>inTenant\<close> is the one of a tenant.\<close>

definition inShared :: "'d \<Rightarrow> 'd result \<Rightarrow> unit result \<times> 'd" where
  "inShared db r = (case r of Inl e \<Rightarrow> (Inl e, db) | Inr db' \<Rightarrow> (Inr (), db'))"

section \<open>Rows\<close>

record personaRow =
  pw_id :: string
  pw_tenant :: string
  pw_name :: string
  pw_instructions :: string
  pw_connectors :: "string list"
  pw_created :: time

record mcpConnectorRow =
  cw_id :: string
  cw_tenant :: string
  cw_name :: string
  cw_transport :: string
  cw_command :: string
  cw_args :: "string list"
  cw_env :: "string list"
  cw_url :: string
  cw_headers :: "string list"
  cw_open :: bool
  cw_created :: time

record skillRow =
  kw_id :: string
  kw_handle :: string
  kw_slug :: string
  kw_name :: string
  kw_description :: string
  kw_description_en :: string
  kw_category :: string
  kw_tags :: "string list"
  kw_license :: string
  kw_icon :: string
  kw_source_url :: string
  kw_downloads :: int
  kw_visits :: int
  kw_likes :: int
  kw_updated :: time
  kw_source :: string
  kw_files :: "SkillFile list option"   \<comment> \<open>\<open>None\<close> for SQL NULL\<close>
  kw_installed :: time

record agentRow =
  gw_id :: string
  gw_handle :: string
  gw_slug :: string
  gw_name :: string
  gw_description :: string
  gw_framework :: string
  gw_license :: string
  gw_logo :: string
  gw_catalogues :: "string list"
  gw_models :: "AgentModel list"
  gw_mcps :: "AgentRef list"
  gw_skills :: "AgentRef list"
  gw_prompts :: "AgentPrompt list"
  gw_readme :: string
  gw_files :: "SkillFile list option"
  gw_stars :: int
  gw_downloads :: int
  gw_visits :: int
  gw_updated :: time
  gw_source :: string
  gw_installed :: time

record mcpMarketServerRow =
  vw_id :: string
  vw_name :: string
  vw_summary :: string
  vw_author :: string
  vw_category :: string
  vw_category_more :: int
  vw_calls :: int
  vw_views :: int
  vw_stars :: int
  vw_verified :: bool
  vw_hosted :: bool
  vw_online :: bool
  vw_source :: string
  vw_icon :: string
  vw_rank :: int

record catalogSnapshotRow =
  nw_sha256 :: string
  nw_installed :: time

text \<open>The rows of the categories, the details and the icons have the fields of their records.\<close>

type_synonym skillCategoryRow = SkillCategoryRecord
type_synonym mcpMarketCategoryRow = McpMarketCategoryRecord
type_synonym mcpMarketDetailRow = McpMarketDetailRecord
type_synonym catalogIconRow = CatalogIcon

record cat_db =
  cd_tenants :: "string list"
  cd_personas :: "(string, personaRow) gomap"
  cd_connectors :: "(string, mcpConnectorRow) gomap"
  cd_skills :: "(string, skillRow) gomap"
  cd_skill_categories :: "(string, skillCategoryRow) gomap"
  cd_agents :: "(string, agentRow) gomap"
  cd_snapshots :: "(string, catalogSnapshotRow) gomap"
  cd_icons :: "(string, catalogIconRow) gomap"
  cd_market :: "(string, mcpMarketServerRow) gomap"
  cd_market_categories :: "(string, mcpMarketCategoryRow) gomap"
  cd_market_details :: "(string, mcpMarketDetailRow) gomap"

section \<open>Personas and connectors\<close>

definition persona_record :: "personaRow \<Rightarrow> PersonaRecord" where
  "persona_record r =
     \<lparr>per_id = pw_id r, per_name = pw_name r, per_instructions = pw_instructions r, per_connectors = pw_connectors r,
      per_created = pw_created r\<rparr>"

definition connector_record :: "mcpConnectorRow \<Rightarrow> McpConnectorRecord" where
  "connector_record r =
     \<lparr>con_id = cw_id r, con_name = cw_name r, con_transport = cw_transport r, con_command = cw_command r, con_args = cw_args r,
      con_env = cw_env r, con_url = cw_url r, con_headers = cw_headers r, con_open = cw_open r, con_created = cw_created r\<rparr>"

definition tenant_rows :: "sql_env \<Rightarrow> ('r \<Rightarrow> string) \<Rightarrow> ('r \<Rightarrow> time) \<Rightarrow> ('r \<Rightarrow> string) \<Rightarrow> string \<Rightarrow> (string, 'r) gomap \<Rightarrow> 'r list result" where
  "tenant_rows e tenant created key tenantID t =
     storageErr (inTenantRead tenantID
       (if db_text tenantID then Inr (sort_Slice (order_desc e created key) (filter (\<lambda>r. tenant r = tenantID) (map snd t)))
        else Inl ErrStorage))"

definition pg_ListPersonas :: "sql_env \<Rightarrow> cat_db \<Rightarrow> string \<Rightarrow> PersonaRecord list result" where
  "pg_ListPersonas e db tenantID =
     rbind (tenant_rows e pw_tenant pw_created pw_id tenantID (cd_personas db)) (\<lambda>rows. Inr (map persona_record rows))"

definition pg_ListMcpConnectors :: "sql_env \<Rightarrow> cat_db \<Rightarrow> string \<Rightarrow> McpConnectorRecord list result" where
  "pg_ListMcpConnectors e db tenantID =
     rbind (tenant_rows e cw_tenant cw_created cw_id tenantID (cd_connectors db)) (\<lambda>rows. Inr (map connector_record rows))"

definition pg_CreatePersona :: "cat_db \<Rightarrow> string \<Rightarrow> PersonaRecord \<Rightarrow> unit result \<times> cat_db" where
  "pg_CreatePersona db tenantID p =
     (if per_id p = [] then (Inl ErrNotFound, db)
      else let row = \<lparr>pw_id = per_id p, pw_tenant = tenantID, pw_name = per_name p, pw_instructions = per_instructions p,
                 pw_connectors = per_connectors p, pw_created = db_time (per_created p)\<rparr>;
               ok = (\<lambda>r. pw_tenant r \<in> set (cd_tenants db) \<and>
                 list_all db_text ([pw_id r, pw_name r, pw_instructions r] @ pw_connectors r))
           in map_prod storageErr id (inTenant db tenantID (\<lambda>tx.
                inShared tx (rbind (insert_rows pw_id ok [row] (cd_personas tx)) (\<lambda>t. Inr (tx\<lparr>cd_personas := t\<rparr>))))))"

definition pg_CreateMcpConnector :: "cat_db \<Rightarrow> string \<Rightarrow> McpConnectorRecord \<Rightarrow> unit result \<times> cat_db" where
  "pg_CreateMcpConnector db tenantID c =
     (if con_id c = [] then (Inl ErrNotFound, db)
      else let row = \<lparr>cw_id = con_id c, cw_tenant = tenantID, cw_name = con_name c,
                 cw_transport = (if con_transport c = [] then ''stdio'' else con_transport c), cw_command = con_command c,
                 cw_args = con_args c, cw_env = con_env c, cw_url = con_url c, cw_headers = con_headers c, cw_open = con_open c,
                 cw_created = db_time (con_created c)\<rparr>;
               ok = (\<lambda>r. cw_tenant r \<in> set (cd_tenants db) \<and> cw_transport r \<in> {''stdio'', ''streamable_http''} \<and>
                 list_all db_text ([cw_id r, cw_name r, cw_transport r, cw_command r, cw_url r] @ cw_args r @ cw_env r @ cw_headers r))
           in map_prod storageErr id (inTenant db tenantID (\<lambda>tx.
                inShared tx (rbind (insert_rows cw_id ok [row] (cd_connectors tx)) (\<lambda>t. Inr (tx\<lparr>cd_connectors := t\<rparr>))))))"

section \<open>Skills\<close>

definition jsonb_files :: "SkillFile list \<Rightarrow> SkillFile list" where
  "jsonb_files files = map (\<lambda>f. \<lparr>sf_path = jsonb_string (sf_path f), sf_body = jsonb_string (sf_body f)\<rparr>) files"

definition files_texts :: "SkillFile list \<Rightarrow> string list" where
  "files_texts files = concat (map (\<lambda>f. [sf_path f, sf_body f]) files)"

definition skill_label :: "cat_db \<Rightarrow> skillRow \<Rightarrow> string" where
  "skill_label db r = (case map_of (cd_skill_categories db) (kw_category r) of None \<Rightarrow> [] | Some c \<Rightarrow> sc_name c)"

text \<open>What a list shows of a row: no files and no time of installation.\<close>

definition skill_record :: "cat_db \<Rightarrow> skillRow \<Rightarrow> SkillRecord" where
  "skill_record db r =
     \<lparr>sk_id = kw_id r, sk_handle = kw_handle r, sk_slug = kw_slug r, sk_name = kw_name r, sk_description = kw_description r,
      sk_description_en = kw_description_en r, sk_category = kw_category r, sk_category_name = skill_label db r,
      sk_tags = kw_tags r, sk_license = kw_license r, sk_icon = kw_icon r, sk_source_url = kw_source_url r,
      sk_downloads = kw_downloads r, sk_visits = kw_visits r, sk_likes = kw_likes r, sk_updated = kw_updated r,
      sk_source = kw_source r, sk_files = [], sk_files_known = False, sk_installed = 0\<rparr>"

definition skillFilter :: "sql_env \<Rightarrow> SkillCatalogQuery \<Rightarrow> skillRow \<Rightarrow> bool" where
  "skillFilter e q r \<longleftrightarrow>
     (sq_category q \<noteq> [] \<longrightarrow> kw_category r = sq_category q) \<and>
     (sq_source q \<noteq> [] \<longrightarrow> kw_source r = sq_source q) \<and>
     (sq_keyword q \<noteq> [] \<longrightarrow>
        (let like = ''%'' @ escapeLike (sq_keyword q) @ ''%''
         in list_ex (sql_ilike e like) [kw_name r, kw_description r, kw_description_en r]))"

definition skillOrder :: "sql_env \<Rightarrow> string \<Rightarrow> skillRow \<Rightarrow> skillRow \<Rightarrow> bool" where
  "skillOrder e sortBy =
     (if sortBy = ''updated_at'' then order_desc e kw_updated kw_id
      else if sortBy = ''likes'' then order_desc e kw_likes kw_id
      else order_desc e kw_downloads kw_id)"

definition pg_ListSkillCatalog :: "sql_env \<Rightarrow> cat_db \<Rightarrow> string \<Rightarrow> SkillCatalogQuery \<Rightarrow> (SkillRecord page \<times> time) result" where
  "pg_ListSkillCatalog e db tenantID q0 =
     (if tenantID = [] then Inl ErrNotFound
      else let q = NormalizeSkillQuery q0; matched = filter (skillFilter e q) (map snd (cd_skills db));
               installed = map (\<lambda>kv. kw_installed (snd kv)) (cd_skills db) in
        if \<not> db_text (sq_keyword q) then Inl ErrStorage
        else Inr (\<lparr>pg_items = map (skill_record db) (limit_offset (sq_size q) ((sq_page q - 1) * sq_size q)
                     (sort_Slice (skillOrder e (sq_sort q)) matched)),
                   pg_total = length matched, pg_page = sq_page q, pg_size = sq_size q\<rparr>,
                  if installed = [] then 0 else foldr max installed (hd installed)))"

definition pg_GetSkill :: "cat_db \<Rightarrow> string \<Rightarrow> string \<Rightarrow> SkillRecord result" where
  "pg_GetSkill db tenantID i =
     (if tenantID = [] \<or> i = [] then Inl ErrNotFound
      else if \<not> db_text i then Inl ErrStorage
      else case map_of (cd_skills db) i of None \<Rightarrow> Inl ErrNotFound | Some r \<Rightarrow> Inr (skill_record db r))"

definition pg_GetSkillTextFiles :: "cat_db \<Rightarrow> string \<Rightarrow> string \<Rightarrow> (SkillFile list \<times> bool) result" where
  "pg_GetSkillTextFiles db tenantID i =
     (if tenantID = [] \<or> i = [] then Inl ErrNotFound
      else if \<not> db_text i then Inl ErrStorage
      else case map_of (cd_skills db) i of
        None \<Rightarrow> Inl ErrNotFound
      | Some r \<Rightarrow> (case kw_files r of None \<Rightarrow> Inr ([], False) | Some files \<Rightarrow> Inr (files, True)))"

definition textChunk :: nat where "textChunk = 50"

text \<open>One UPDATE joins the chunk's values to the table; of several for one skill the database takes one.\<close>

definition update_text :: "sql_env \<Rightarrow> (string \<times> SkillFile list) list \<Rightarrow> (string, skillRow) gomap \<Rightarrow> (string, skillRow) gomap result" where
  "update_text e chunk t =
     (if \<not> list_all (\<lambda>(i, files). db_text i \<and> list_all no_nul (files_texts files)) chunk then Inl ErrStorage
      else Inr (map (\<lambda>(k, r).
        case filter (\<lambda>v. fst v = k) chunk of
          [] \<Rightarrow> (k, r)
        | vs \<Rightarrow> (k, r\<lparr>kw_files := Some (jsonb_files (snd (vs ! (se_pick e k mod length vs))))\<rparr>)) t))"

definition pg_SaveSkillTextFilesBatch :: "sql_env \<Rightarrow> cat_db \<Rightarrow> string \<Rightarrow> (string \<times> SkillFile list) list \<Rightarrow> unit result \<times> cat_db" where
  "pg_SaveSkillTextFilesBatch e db tenantID rows =
     (if tenantID = [] then (Inl ErrNotFound, db)
      else let blobs = filter (\<lambda>row. fst row \<noteq> []) rows in
        if blobs = [] then (Inr (), db)
        else inShared db (rbind (fold (\<lambda>chunk t. rbind t (update_text e chunk)) (batches textChunk blobs) (Inr (cd_skills db)))
               (\<lambda>t. Inr (db\<lparr>cd_skills := t\<rparr>))))"

definition skill_row :: "time \<Rightarrow> SkillRecord \<Rightarrow> skillRow" where
  "skill_row now rec =
     \<lparr>kw_id = sk_id rec, kw_handle = sk_handle rec, kw_slug = sk_slug rec, kw_name = sk_name rec,
      kw_description = sk_description rec, kw_description_en = sk_description_en rec, kw_category = sk_category rec,
      kw_tags = map jsonb_string (sk_tags rec), kw_license = sk_license rec, kw_icon = sk_icon rec,
      kw_source_url = sk_source_url rec, kw_downloads = sk_downloads rec, kw_visits = sk_visits rec, kw_likes = sk_likes rec,
      kw_updated = db_time (sk_updated rec), kw_source = sk_source rec, kw_files = None, kw_installed = db_time now\<rparr>"

definition skill_row_ok :: "skillRow \<Rightarrow> bool" where
  "skill_row_ok r \<longleftrightarrow> list_all no_nul (kw_tags r) \<and>
     list_all db_text [kw_id r, kw_handle r, kw_slug r, kw_name r, kw_description r, kw_description_en r, kw_category r,
       kw_license r, kw_icon r, kw_source_url r, kw_source r]"

definition skill_category_ok :: "skillCategoryRow \<Rightarrow> bool" where
  "skill_category_ok r \<longleftrightarrow> list_all db_text [sc_key r, sc_name r, sc_name_en r] \<and> in_int32 (sc_order r)"

definition pg_ReplaceSkills :: "cat_db \<Rightarrow> time \<Rightarrow> string \<Rightarrow> SkillRecord list \<Rightarrow> SkillCategoryRecord list \<Rightarrow> unit result \<times> cat_db" where
  "pg_ReplaceSkills db now tenantID rows categories =
     (if tenantID = [] then (Inl ErrNotFound, db)
      else let skillRows = map (skill_row now) (filter (\<lambda>row. sk_id row \<noteq> []) rows);
               categoryRows = filter (\<lambda>row. sc_key row \<noteq> []) categories in
        inShared db
          (rbind (insert_rows kw_id skill_row_ok skillRows []) (\<lambda>t.
           rbind (upsert_rows sc_key skill_category_ok categoryRows (cd_skill_categories db)) (\<lambda>cats.
             Inr (db\<lparr>cd_skills := t, cd_skill_categories := cats\<rparr>)))))"

definition pg_ListSkillCategories :: "sql_env \<Rightarrow> cat_db \<Rightarrow> string \<Rightarrow> SkillCategoryRecord list result" where
  "pg_ListSkillCategories e db tenantID =
     (if tenantID = [] then Inl ErrNotFound
      else Inr (sort_Slice (order_asc e sc_order sc_key) (map snd (cd_skill_categories db))))"

section \<open>Agents and snapshots\<close>

definition agent_record :: "agentRow \<Rightarrow> AgentRecord" where
  "agent_record r =
     \<lparr>ag_id = gw_id r, ag_handle = gw_handle r, ag_slug = gw_slug r, ag_name = gw_name r, ag_description = gw_description r,
      ag_framework = gw_framework r, ag_license = gw_license r, ag_logo = gw_logo r, ag_catalogues = gw_catalogues r,
      ag_models = gw_models r, ag_mcps = gw_mcps r, ag_skills = gw_skills r, ag_prompts = gw_prompts r, ag_readme = gw_readme r,
      ag_files = (case gw_files r of None \<Rightarrow> [] | Some files \<Rightarrow> files), ag_files_known = (gw_files r \<noteq> None),
      ag_stars = gw_stars r, ag_downloads = gw_downloads r, ag_visits = gw_visits r, ag_updated = gw_updated r,
      ag_source = gw_source r\<rparr>"

definition agentFilter :: "sql_env \<Rightarrow> AgentCatalogQuery \<Rightarrow> agentRow \<Rightarrow> bool" where
  "agentFilter e q r \<longleftrightarrow>
     (aq_catalogue q \<noteq> [] \<longrightarrow> jsonb_string (aq_catalogue q) \<in> set (gw_catalogues r)) \<and>
     (aq_keyword q \<noteq> [] \<longrightarrow>
        (let like = ''%'' @ escapeLike (aq_keyword q) @ ''%''
         in list_ex (sql_ilike e like) [gw_name r, gw_description r, gw_readme r]))"

definition agentOrder :: "sql_env \<Rightarrow> string \<Rightarrow> agentRow \<Rightarrow> agentRow \<Rightarrow> bool" where
  "agentOrder e sortBy =
     (if sortBy = ''updated_at'' then order_desc e gw_updated gw_id
      else if sortBy = ''stars'' then order_desc e gw_stars gw_id
      else order_desc e gw_downloads gw_id)"

definition pg_ListAgentCatalog :: "sql_env \<Rightarrow> cat_db \<Rightarrow> string \<Rightarrow> AgentCatalogQuery \<Rightarrow> AgentRecord page result" where
  "pg_ListAgentCatalog e db tenantID q0 =
     (if tenantID = [] then Inl ErrNotFound
      else let q = NormalizeAgentCatalogQuery q0; matched = filter (agentFilter e q) (map snd (cd_agents db)) in
        if \<not> db_text (aq_keyword q) then Inl ErrStorage
        else Inr \<lparr>pg_items = map agent_record (limit_offset (aq_size q) ((aq_page q - 1) * aq_size q)
                    (sort_Slice (agentOrder e (aq_sort q)) matched)),
                  pg_total = length matched, pg_page = aq_page q, pg_size = aq_size q\<rparr>)"

definition pg_GetAgent :: "cat_db \<Rightarrow> string \<Rightarrow> string \<Rightarrow> AgentRecord result" where
  "pg_GetAgent db tenantID i =
     (if tenantID = [] \<or> i = [] then Inl ErrNotFound
      else if \<not> db_text i then Inl ErrStorage
      else case map_of (cd_agents db) i of None \<Rightarrow> Inl ErrNotFound | Some r \<Rightarrow> Inr (agent_record r))"

definition jsonb_model :: "AgentModel \<Rightarrow> AgentModel" where
  "jsonb_model m = \<lparr>amd_name = jsonb_string (amd_name m), amd_supplier = jsonb_string (amd_supplier m),
     amd_protocol = jsonb_string (amd_protocol m)\<rparr>"

definition jsonb_ref :: "AgentRef \<Rightarrow> AgentRef" where
  "jsonb_ref m = \<lparr>arf_name = jsonb_string (arf_name m), arf_description = jsonb_string (arf_description m)\<rparr>"

definition jsonb_prompt :: "AgentPrompt \<Rightarrow> AgentPrompt" where
  "jsonb_prompt m = \<lparr>apr_filename = jsonb_string (apr_filename m), apr_content = jsonb_string (apr_content m)\<rparr>"

definition agent_row :: "time \<Rightarrow> AgentRecord \<Rightarrow> agentRow" where
  "agent_row now rec =
     \<lparr>gw_id = ag_id rec, gw_handle = ag_handle rec, gw_slug = ag_slug rec, gw_name = ag_name rec,
      gw_description = ag_description rec, gw_framework = ag_framework rec, gw_license = ag_license rec, gw_logo = ag_logo rec,
      gw_catalogues = map jsonb_string (ag_catalogues rec), gw_models = map jsonb_model (ag_models rec),
      gw_mcps = map jsonb_ref (ag_mcps rec), gw_skills = map jsonb_ref (ag_skills rec),
      gw_prompts = map jsonb_prompt (ag_prompts rec), gw_readme = ag_readme rec, gw_files = Some (jsonb_files (ag_files rec)),
      gw_stars = ag_stars rec, gw_downloads = ag_downloads rec, gw_visits = ag_visits rec,
      gw_updated = db_time (ag_updated rec), gw_source = ag_source rec, gw_installed = db_time now\<rparr>"

definition refs_texts :: "AgentRef list \<Rightarrow> string list" where
  "refs_texts refs = concat (map (\<lambda>m. [arf_name m, arf_description m]) refs)"

definition agent_row_ok :: "agentRow \<Rightarrow> bool" where
  "agent_row_ok r \<longleftrightarrow>
     list_all no_nul (gw_catalogues r @ concat (map (\<lambda>m. [amd_name m, amd_supplier m, amd_protocol m]) (gw_models r)) @
       refs_texts (gw_mcps r) @ refs_texts (gw_skills r) @ concat (map (\<lambda>m. [apr_filename m, apr_content m]) (gw_prompts r)) @
       (case gw_files r of None \<Rightarrow> [] | Some files \<Rightarrow> files_texts files)) \<and>
     list_all db_text [gw_id r, gw_handle r, gw_slug r, gw_name r, gw_description r, gw_framework r, gw_license r, gw_logo r,
       gw_readme r, gw_source r]"

definition pg_ReplaceAgents :: "cat_db \<Rightarrow> time \<Rightarrow> string \<Rightarrow> AgentRecord list \<Rightarrow> unit result \<times> cat_db" where
  "pg_ReplaceAgents db now tenantID rows =
     (if tenantID = [] then (Inl ErrNotFound, db)
      else inShared db
        (rbind (insert_rows gw_id agent_row_ok (map (agent_row now) (filter (\<lambda>row. ag_id row \<noteq> []) rows)) [])
          (\<lambda>t. Inr (db\<lparr>cd_agents := t\<rparr>))))"

definition pg_CatalogSnapshot :: "cat_db \<Rightarrow> string \<Rightarrow> string \<Rightarrow> (string \<times> bool) result" where
  "pg_CatalogSnapshot db tenantID name =
     (if tenantID = [] then Inl ErrNotFound
      else if \<not> db_text name then Inl ErrStorage
      else case map_of (cd_snapshots db) name of None \<Rightarrow> Inr ([], False) | Some r \<Rightarrow> Inr (nw_sha256 r, True))"

text \<open>The error of this statement is returned as it is.\<close>

definition pg_SetCatalogSnapshot :: "cat_db \<Rightarrow> time \<Rightarrow> string \<Rightarrow> string \<Rightarrow> string \<Rightarrow> unit result \<times> cat_db" where
  "pg_SetCatalogSnapshot db now tenantID name sha =
     (if tenantID = [] then (Inl ErrNotFound, db)
      else if \<not> (db_text name \<and> db_text sha) then (Inl (ErrText ''invalid byte sequence''), db)
      else (Inr (), db\<lparr>cd_snapshots := AList.update name \<lparr>nw_sha256 = sha, nw_installed = db_time now\<rparr> (cd_snapshots db)\<rparr>))"

section \<open>The MCP market\<close>

definition market_label :: "cat_db \<Rightarrow> mcpMarketServerRow \<Rightarrow> string" where
  "market_label db r = (case map_of (cd_market_categories db) (vw_category r) of None \<Rightarrow> [] | Some c \<Rightarrow> mc_name c)"

definition market_record :: "cat_db \<Rightarrow> mcpMarketServerRow \<Rightarrow> McpMarketRecord" where
  "market_record db r =
     \<lparr>mm_id = vw_id r, mm_name = vw_name r, mm_summary = vw_summary r, mm_author = vw_author r, mm_category = vw_category r,
      mm_category_name = market_label db r, mm_category_more = vw_category_more r, mm_calls = vw_calls r, mm_views = vw_views r,
      mm_stars = vw_stars r, mm_verified = vw_verified r, mm_hosted = vw_hosted r, mm_online = vw_online r,
      mm_source = vw_source r, mm_icon = vw_icon r, mm_rank = vw_rank r\<rparr>"

definition onlineFilter :: "string \<Rightarrow> mcpMarketServerRow \<Rightarrow> bool" where
  "onlineFilter flt r \<longleftrightarrow> (if flt = ''true'' then vw_online r else if flt = ''false'' then \<not> vw_online r else True)"

definition mcpMarketFilter :: "sql_env \<Rightarrow> (nat \<Rightarrow> nat) \<Rightarrow> cat_db \<Rightarrow> McpMarketQuery \<Rightarrow> bool \<Rightarrow> mcpMarketServerRow \<Rightarrow> bool" where
  "mcpMarketFilter e fold_rune db q0 withSearch r =
     (let q = NormalizeMcpMarketQuery fold_rune q0; like = likeContains fold_rune (mq_keyword q) in
      onlineFilter (mq_online q) r \<and>
      (withSearch \<longrightarrow>
         (mq_category q \<noteq> [] \<longrightarrow> vw_category r = mq_category q) \<and>
         (if mq_service q = ''hosted'' then vw_hosted r else if mq_service q = ''local'' then \<not> vw_hosted r else True) \<and>
         (mq_source q \<noteq> [] \<longrightarrow> vw_source r = mq_source q) \<and>
         (mq_keyword q \<noteq> [] \<longrightarrow>
            list_ex (\<lambda>text. sql_like like (ToLower (se_lower e) text))
              [vw_name r, vw_author r, vw_summary r, vw_category r, market_label db r])))"

text \<open>Cards whose name or author match come first.\<close>

definition mcpMarketOrder :: "sql_env \<Rightarrow> (nat \<Rightarrow> nat) \<Rightarrow> string \<Rightarrow> mcpMarketServerRow \<Rightarrow> mcpMarketServerRow \<Rightarrow> bool" where
  "mcpMarketOrder e fold_rune keyword a b =
     (if keyword = [] then order_asc e vw_rank vw_id a b
      else let like = likeContains fold_rune keyword;
               place = (\<lambda>r. if sql_like like (ToLower (se_lower e) (vw_name r)) \<or>
                 sql_like like (ToLower (se_lower e) (vw_author r)) then 0 else 1 :: int)
           in place a < place b \<or> place a = place b \<and> order_asc e vw_rank vw_id a b)"

definition pg_ListMcpMarket :: "sql_env \<Rightarrow> (nat \<Rightarrow> nat) \<Rightarrow> cat_db \<Rightarrow> string \<Rightarrow> McpMarketQuery \<Rightarrow> (McpMarketRecord page \<times> nat) result" where
  "pg_ListMcpMarket e fold_rune db tenantID q0 =
     (if tenantID = [] then Inl ErrNotFound
      else let q = NormalizeMcpMarketQuery fold_rune q0;
               only_online = \<lparr>mq_keyword = [], mq_category = [], mq_service = [], mq_online = mq_online q, mq_source = [],
                 mq_page = 0, mq_size = 0\<rparr>;
               servers = map snd (cd_market db);
               matched = filter (mcpMarketFilter e fold_rune db q True) servers in
        if mq_keyword q \<noteq> [] \<and> \<not> (db_text (likeContains fold_rune (mq_keyword (NormalizeMcpMarketQuery fold_rune q))) \<and>
             db_text (likeContains fold_rune (mq_keyword q))) then Inl ErrStorage
        else Inr (\<lparr>pg_items = map (market_record db) (limit_offset (mq_size q) ((mq_page q - 1) * mq_size q)
                     (sort_Slice (mcpMarketOrder e fold_rune (mq_keyword q)) matched)),
                   pg_total = length matched, pg_page = mq_page q, pg_size = mq_size q\<rparr>,
                  length (filter (mcpMarketFilter e fold_rune db only_online False) servers)))"

definition pg_ListMcpMarketCategories :: "sql_env \<Rightarrow> (nat \<Rightarrow> nat) \<Rightarrow> cat_db \<Rightarrow> string \<Rightarrow> string \<Rightarrow> McpMarketCategoryCount list result" where
  "pg_ListMcpMarketCategories e fold_rune db tenantID needsOnline =
     (if tenantID = [] then Inl ErrNotFound
      else let flt = mq_online (NormalizeMcpMarketQuery fold_rune \<lparr>mq_keyword = [], mq_category = [], mq_service = [],
                 mq_online = needsOnline, mq_source = [], mq_page = 0, mq_size = 0\<rparr>);
               counted = (\<lambda>c. length (filter (\<lambda>s. vw_category s = mc_key c \<and> onlineFilter flt s) (map snd (cd_market db))))
           in Inr (map (\<lambda>c. \<lparr>cc_key = mc_key c, cc_name = mc_name c, cc_order = mc_order c, cc_count = counted c\<rparr>)
                (sort_Slice (order_asc e mc_order mc_key)
                  (filter (\<lambda>c. counted c > 0) (map snd (cd_market_categories db))))))"

definition pg_GetMcpMarket :: "cat_db \<Rightarrow> string \<Rightarrow> string \<Rightarrow> McpMarketDetail result" where
  "pg_GetMcpMarket db tenantID i =
     (if tenantID = [] \<or> i = [] then Inl ErrNotFound
      else if \<not> db_text i then Inl ErrStorage
      else case map_of (cd_market db) i of
        None \<Rightarrow> Inl ErrNotFound
      | Some r \<Rightarrow>
          Inr (case map_of (cd_market_details db) (vw_id r) of
              None \<Rightarrow> \<lparr>mdt_server = market_record db r, mdt_license = [], mdt_updated = [], mdt_readme = [], mdt_tools = []\<rparr>
            | Some d \<Rightarrow> \<lparr>mdt_server = market_record db r, mdt_license = md_license d, mdt_updated = md_updated d,
                mdt_readme = md_readme d, mdt_tools = md_tools d\<rparr>))"

definition server_row :: "McpMarketRecord \<Rightarrow> mcpMarketServerRow" where
  "server_row rec =
     \<lparr>vw_id = mm_id rec, vw_name = mm_name rec, vw_summary = mm_summary rec, vw_author = mm_author rec,
      vw_category = mm_category rec, vw_category_more = mm_category_more rec, vw_calls = mm_calls rec, vw_views = mm_views rec,
      vw_stars = mm_stars rec, vw_verified = mm_verified rec, vw_hosted = mm_hosted rec, vw_online = mm_online rec,
      vw_source = mm_source rec, vw_icon = mm_icon rec, vw_rank = mm_rank rec\<rparr>"

definition server_row_ok :: "mcpMarketServerRow \<Rightarrow> bool" where
  "server_row_ok r \<longleftrightarrow> in_int32 (vw_category_more r) \<and> in_int32 (vw_rank r) \<and>
     list_all db_text [vw_id r, vw_name r, vw_summary r, vw_author r, vw_category r, vw_source r, vw_icon r]"

definition tools_texts :: "McpMarketTool list \<Rightarrow> string list" where
  "tools_texts tools = concat (map (\<lambda>t. mt_name t # mt_description t #
     concat (map (\<lambda>p. [tp_name p, tp_type p, tp_description p]) (mt_params t))) tools)"

definition jsonb_tools :: "McpMarketTool list \<Rightarrow> McpMarketTool list" where
  "jsonb_tools tools = map (\<lambda>t. \<lparr>mt_name = jsonb_string (mt_name t), mt_description = jsonb_string (mt_description t),
     mt_params = map (\<lambda>p. \<lparr>tp_name = jsonb_string (tp_name p), tp_type = jsonb_string (tp_type p),
       tp_required = tp_required p, tp_description = jsonb_string (tp_description p)\<rparr>) (mt_params t)\<rparr>) tools"

definition detail_row :: "McpMarketDetailRecord \<Rightarrow> mcpMarketDetailRow" where
  "detail_row rec = rec\<lparr>md_tools := jsonb_tools (md_tools rec)\<rparr>"

definition detail_row_ok :: "mcpMarketDetailRow \<Rightarrow> bool" where
  "detail_row_ok r \<longleftrightarrow> list_all no_nul (tools_texts (md_tools r)) \<and>
     list_all db_text [md_id r, md_license r, md_updated r, md_readme r]"

definition market_category_ok :: "mcpMarketCategoryRow \<Rightarrow> bool" where
  "market_category_ok r \<longleftrightarrow> list_all db_text [mc_key r, mc_name r] \<and> in_int32 (mc_order r)"

definition pg_ReplaceMcpMarket :: "cat_db \<Rightarrow> string \<Rightarrow> McpMarketRecord list \<Rightarrow> McpMarketCategoryRecord list
    \<Rightarrow> McpMarketDetailRecord list \<Rightarrow> unit result \<times> cat_db" where
  "pg_ReplaceMcpMarket db tenantID servers categories details =
     (if tenantID = [] then (Inl ErrNotFound, db)
      else let serverRows = map server_row (filter (\<lambda>row. mm_id row \<noteq> []) servers);
               known = map vw_id serverRows;
               detailRows = map detail_row (filter (\<lambda>row. md_id row \<in> set known) details);
               categoryRows = filter (\<lambda>row. mc_key row \<noteq> []) categories in
        inShared db
          (rbind (insert_rows vw_id server_row_ok serverRows []) (\<lambda>market.
           rbind (insert_rows md_id detail_row_ok detailRows []) (\<lambda>dets.
           rbind (upsert_rows mc_key market_category_ok categoryRows (cd_market_categories db)) (\<lambda>cats.
             Inr (db\<lparr>cd_market := market, cd_market_details := dets, cd_market_categories := cats\<rparr>))))))"

section \<open>Icons\<close>

text \<open>Chunks of 100, each in batches of 50.\<close>

definition iconChunk :: nat where "iconChunk = 100"

definition icon_ok :: "catalogIconRow \<Rightarrow> bool" where
  "icon_ok r \<longleftrightarrow> list_all db_text [ci_url r, ci_type r]"

definition pg_ReplaceCatalogIcons :: "cat_db \<Rightarrow> string \<Rightarrow> CatalogIcon list \<Rightarrow> unit result \<times> cat_db" where
  "pg_ReplaceCatalogIcons db tenantID rows =
     (if tenantID = [] then (Inl ErrNotFound, db)
      else let models = filter (\<lambda>row. ci_url row \<noteq> [] \<and> ci_data row \<noteq> []) rows in
        if models = [] then (Inr (), db)
        else inShared db (rbind (fold (\<lambda>batch t. rbind t (upsert_rows ci_url icon_ok batch))
                 (concat (map (batches 50) (batches iconChunk models))) (Inr (cd_icons db)))
               (\<lambda>t. Inr (db\<lparr>cd_icons := t\<rparr>))))"

definition pg_CatalogIcon :: "cat_db \<Rightarrow> string \<Rightarrow> string \<Rightarrow> (string \<times> string) result" where
  "pg_CatalogIcon db tenantID url =
     (if tenantID = [] \<or> url = [] then Inl ErrNotFound
      else if \<not> db_text url then Inl ErrStorage
      else case map_of (cd_icons db) url of None \<Rightarrow> Inl ErrNotFound | Some r \<Rightarrow> Inr (ci_type r, ci_data r))"

section \<open>The store as the repository\<close>

definition pg_catalog :: "sql_env \<Rightarrow> (nat \<Rightarrow> nat) \<Rightarrow> cat_db catalog_ops" where
  "pg_catalog e f =
     \<lparr>rListPersonas = pg_ListPersonas e, rCreatePersona = pg_CreatePersona, rListMcpConnectors = pg_ListMcpConnectors e,
      rCreateMcpConnector = pg_CreateMcpConnector, rListSkillCatalog = pg_ListSkillCatalog e, rGetSkill = pg_GetSkill,
      rGetSkillTextFiles = pg_GetSkillTextFiles, rListSkillCategories = pg_ListSkillCategories e,
      rListMcpMarket = pg_ListMcpMarket e f, rListMcpMarketCategories = pg_ListMcpMarketCategories e f,
      rGetMcpMarket = pg_GetMcpMarket, rCatalogIcon = pg_CatalogIcon, rListAgentCatalog = pg_ListAgentCatalog e,
      rGetAgent = pg_GetAgent\<rparr>"

end
