(* ===== verification/Pg_Catalog_Facts.thy ===== *)
theory Pg_Catalog_Facts
  imports Pg_Catalog
begin

text \<open>
  The Postgres catalog against the one in memory: what a search pattern finds, what each read answers on the store
  in memory that has the same content (\<open>mem_of\<close>), and what replacing a snapshot does to it.
\<close>

section \<open>Patterns\<close>

declare sql_like.simps [simp del]

lemma wildcards: "CHR ''%'' = byte 37" "CHR ''_'' = byte 95"
  by code_simp+

lemma byte_eq_iff: "m < 256 \<Longrightarrow> n < 256 \<Longrightarrow> byte m = byte n \<longleftrightarrow> m = n"
  using of_byte by metis

lemma wildcards_differ [simp]: "CHR ''%'' \<noteq> byte 92" "CHR ''_'' \<noteq> byte 92"
  by (simp_all add: wildcards byte_eq_iff)

lemma like_all [simp]: "sql_like ''%'' s"
  by (induction s) (simp_all add: sql_like.simps)

lemma has_prefix_simps [simp]:
  "has_prefix s []" "has_prefix (c # s) (d # p) \<longleftrightarrow> c = d \<and> has_prefix s p" "\<not> has_prefix [] (d # p)"
  by (auto simp: has_prefix_def)

lemma contains_Nil [simp]: "contains s []"
  by (cases s) simp_all

lemma like_escaped:
  "sql_like (escapeLike k @ ps) s \<longleftrightarrow> has_prefix s k \<and> sql_like ps (drop (length k) s)"
proof (induction k arbitrary: s)
  case (Cons d k)
  have "escapeLike (d # k) = (if d \<in> {byte 92, CHR ''%'', CHR ''_''} then [byte 92, d] else [d]) @ escapeLike k"
    by (simp add: escapeLike_def)
  then show ?case using Cons by (cases s) (auto simp: sql_like.simps)
qed (simp add: escapeLike_def)

text \<open>Escaped, a keyword is found exactly where it is part of the text.\<close>

lemma like_contains: "sql_like (''%'' @ escapeLike k @ ''%'') s \<longleftrightarrow> contains s k"
proof (induction s)
  case Nil
  have "sql_like (''%'' @ escapeLike k @ ''%'') [] \<longleftrightarrow> sql_like (escapeLike k @ ''%'') []"
    by (simp add: sql_like.simps(2) [of "CHR ''%''"])
  then show ?case by (cases k) (simp_all add: like_escaped)
next
  case (Cons c s)
  have "sql_like (''%'' @ escapeLike k @ ''%'') (c # s) \<longleftrightarrow>
      sql_like (escapeLike k @ ''%'') (c # s) \<or> sql_like (''%'' @ escapeLike k @ ''%'') s"
    by (simp add: sql_like.simps(2) [of "CHR ''%''"])
  then show ?case using Cons by (simp add: like_escaped)
qed

section \<open>Lower case\<close>

lemma lower_byte_rune: "(of_char (lower_byte c) :: nat) = (if 65 \<le> (of_char c :: nat) \<and> (of_char c :: nat) \<le> 90 then of_char c + 32 else of_char c)"
  by (simp add: lower_byte_def byte_in_def)

lemma ToLower_runes: "ToLower f s = string_of_runes (map (lower_rune f) (runes s))"
proof (cases "ascii s")
  case True
  then have "map (lower_rune f) (runes s) = map of_char (map lower_byte s)" "ascii (map lower_byte s)"
    by (auto simp: runes_ascii lower_rune_def lower_byte_rune ascii_def list_all_iff)
  then show ?thesis using True by (simp add: ToLower_def string_of_runes_ascii del: map_map)
qed (simp add: ToLower_def)

lemma ToLower_Nil [simp]: "ToLower f s = [] \<longleftrightarrow> s = []"
  by (simp add: ToLower_runes)

definition esc_rune :: "nat \<Rightarrow> nat list" where
  "esc_rune r = (if r \<in> {37, 92, 95} then [92, r] else [r])"

lemma encode_rune_high: "128 \<le> r \<Longrightarrow> c \<in> set (encode_rune r) \<Longrightarrow> (128 :: nat) \<le> of_char c"
  by (auto simp: encode_rune_def valid_rune_def split: if_splits)

lemma escapeLike_append [simp]: "escapeLike (s @ t) = escapeLike s @ escapeLike t"
  by (simp add: escapeLike_def)

lemma escape_rune: "escapeLike (encode_rune r) = string_of_runes (esc_rune r)"
proof (cases "r < 128")
  case True
  then have "byte r = byte 92 \<longleftrightarrow> r = 92" "byte r = CHR ''%'' \<longleftrightarrow> r = 37" "byte r = CHR ''_'' \<longleftrightarrow> r = 95"
    by (simp_all add: wildcards byte_eq_iff)
  then show ?thesis using True by (simp add: encode_rune_def escapeLike_def esc_rune_def string_of_runes_def)
next
  case False
  have "escapeLike s = s" if "\<forall>c \<in> set s. 128 \<le> (of_char c :: nat)" for s
    using that by (induction s) (auto simp: escapeLike_def)
  then show ?thesis using False encode_rune_high [of r] by (simp add: esc_rune_def string_of_runes_def)
qed

lemma escape_runes: "escapeLike (string_of_runes rs) = string_of_runes (concat (map esc_rune rs))"
  by (induction rs) (simp_all add: string_of_runes_def escape_rune escapeLike_def [of "[]"])

text \<open>Lowering by runes keeps the three characters of a pattern apart from the others.\<close>

definition keeps_wildcards :: "(nat \<Rightarrow> nat) \<Rightarrow> bool" where
  "keeps_wildcards f \<longleftrightarrow> (\<forall>r \<ge> 128. f r \<notin> {37, 92, 95})"

lemma lower_esc: "keeps_wildcards f \<Longrightarrow> map (lower_rune f) (esc_rune r) = esc_rune (lower_rune f r)"
  by (auto simp: esc_rune_def lower_rune_def keeps_wildcards_def)

lemma ToLower_escaped:
  assumes "keeps_wildcards f" "jsonb_string k = k"
  shows "ToLower f (''%'' @ escapeLike k @ ''%'') = ''%'' @ escapeLike (ToLower f k) @ ''%''"
proof -
  have percent: "''%'' = string_of_runes [37]" by (simp add: string_of_runes_def encode_rune_def wildcards)
  have app: "string_of_runes (a @ b) = string_of_runes a @ string_of_runes b" for a b by (simp add: string_of_runes_def)
  have valid: "list_all valid_rune (concat (map esc_rune rs))" if "list_all valid_rune rs" for rs
    using that by (induction rs) (auto simp: esc_rune_def valid_rune_def)
  define rs where "rs = runes k"
  have k: "k = string_of_runes rs" using assms(2) by (simp add: jsonb_string_def rs_def)
  have pat: "''%'' @ escapeLike k @ ''%'' = string_of_runes (37 # concat (map esc_rune rs) @ [37])"
    unfolding k escape_runes percent by (simp flip: app)
  have "runes (''%'' @ escapeLike k @ ''%'') = 37 # concat (map esc_rune rs) @ [37]"
    unfolding pat using valid [OF runes_valid [of k]] by (intro runes_string_of_runes) (simp add: rs_def valid_rune_def)
  then have "ToLower f (''%'' @ escapeLike k @ ''%'') = string_of_runes (37 # concat (map esc_rune (map (lower_rune f) rs)) @ [37])"
    using assms(1) by (simp add: ToLower_runes lower_rune_def map_concat o_def lower_esc)
  also have "\<dots> = ''%'' @ escapeLike (ToLower f k) @ ''%''"
    unfolding ToLower_runes rs_def [symmetric] escape_runes percent by (simp flip: app)
  finally show ?thesis .
qed

lemma ilike_contains:
  assumes "keeps_wildcards (se_lower e)" "db_text k"
  shows "sql_ilike e (''%'' @ escapeLike k @ ''%'') s \<longleftrightarrow> contains (ToLower (se_lower e) s) (ToLower (se_lower e) k)"
  using assms unfolding sql_ilike_def db_text_def by (simp only: ToLower_escaped like_contains)

section \<open>The store in memory with the same content\<close>

definition stored_skill :: "skillRow \<Rightarrow> SkillRecord" where
  "stored_skill r =
     \<lparr>sk_id = kw_id r, sk_handle = kw_handle r, sk_slug = kw_slug r, sk_name = kw_name r, sk_description = kw_description r,
      sk_description_en = kw_description_en r, sk_category = kw_category r, sk_category_name = [], sk_tags = kw_tags r,
      sk_license = kw_license r, sk_icon = kw_icon r, sk_source_url = kw_source_url r, sk_downloads = kw_downloads r,
      sk_visits = kw_visits r, sk_likes = kw_likes r, sk_updated = kw_updated r, sk_source = kw_source r,
      sk_files = (case kw_files r of None \<Rightarrow> [] | Some files \<Rightarrow> files), sk_files_known = (kw_files r \<noteq> None),
      sk_installed = kw_installed r\<rparr>"

definition stored_server :: "mcpMarketServerRow \<Rightarrow> McpMarketRecord" where
  "stored_server r =
     \<lparr>mm_id = vw_id r, mm_name = vw_name r, mm_summary = vw_summary r, mm_author = vw_author r, mm_category = vw_category r,
      mm_category_name = [], mm_category_more = vw_category_more r, mm_calls = vw_calls r, mm_views = vw_views r,
      mm_stars = vw_stars r, mm_verified = vw_verified r, mm_hosted = vw_hosted r, mm_online = vw_online r,
      mm_source = vw_source r, mm_icon = vw_icon r, mm_rank = vw_rank r\<rparr>"

definition table_of :: "('r \<Rightarrow> 'x) \<Rightarrow> (string, 'r) gomap \<Rightarrow> (string, 'x) gomap" where
  "table_of f t = map (\<lambda>(k, r). (k, f r)) t"

definition mem_of :: "cat_db \<Rightarrow> mem_store" where
  "mem_of db =
     \<lparr>ms_personas = table_of (\<lambda>r. (pw_tenant r, persona_record r)) (cd_personas db),
      ms_connectors = table_of (\<lambda>r. (cw_tenant r, connector_record r)) (cd_connectors db),
      ms_skills = table_of stored_skill (cd_skills db), ms_skill_categories = cd_skill_categories db,
      ms_agents = table_of agent_record (cd_agents db), ms_snapshots = table_of nw_sha256 (cd_snapshots db),
      ms_icons = cd_icons db, ms_market = table_of stored_server (cd_market db),
      ms_market_categories = cd_market_categories db, ms_market_details = cd_market_details db\<rparr>"

text \<open>What a statement keeps: rows under their keys, and no time before Go's zero time.\<close>

definition catalog_ok :: "cat_db \<Rightarrow> bool" where
  "catalog_ok db \<longleftrightarrow> (\<forall>(k, r) \<in> set (cd_skills db). 0 \<le> kw_installed r) \<and>
     (\<forall>(k, r) \<in> set (cd_market db). vw_id r = k) \<and> (\<forall>(k, c) \<in> set (cd_market_categories db). mc_key c = k)"

lemma table_of_simps [simp]:
  "map snd (table_of f t) = map f (map snd t)"
  "map_of (table_of f t) k = map_option f (map_of t k)"
  by (auto simp: table_of_def map_of_map)

section \<open>Orders and pages\<close>

lemma map_sort_Slice:
  assumes "\<And>a b. lt a b = lt' (f a) (f b)"
  shows "map f (sort_Slice lt xs) = sort_Slice lt' (map f xs)"
proof -
  have "map f (insert_by lt x ys) = insert_by lt' (f x) (map f ys)" for x ys by (induction ys) (simp_all add: assms)
  then show ?thesis unfolding sort_Slice_def by (induction xs) simp_all
qed

lemma page_of_map: "page_of p n (map f xs) = map f (page_of p n xs)"
  by (simp add: page_of_def Let_def take_map drop_map)

lemma limit_offset_page:
  assumes "1 \<le> p" "1 \<le> n"
  shows "limit_offset n ((p - 1) * n) xs = page_of p n xs"
proof -
  have "nat ((p - 1) * n) = (nat p - 1) * nat n" using assms by (simp add: nat_mult_distrib nat_diff_distrib)
  then show ?thesis using page_of_nat [of "nat p" "nat n" xs] assms by (simp add: limit_offset_def)
qed

section \<open>Reading\<close>

definition as_listed :: "SkillRecord \<Rightarrow> SkillRecord" where
  "as_listed rec = rec\<lparr>sk_files := [], sk_files_known := False, sk_installed := 0\<rparr>"

lemma skillFrom_listed [simp]: "skillFrom (as_listed rec) = skillFrom rec"
  by (simp add: skillFrom_def as_listed_def)

lemma skill_record_listed: "skill_record db r = as_listed (labelled (mem_of db) (stored_skill r))"
  by (simp add: skill_record_def as_listed_def labelled_def stored_skill_def skill_label_def skill_category_name_def mem_of_def)

text \<open>A database that lowers letters as Go does and compares texts by their bytes (the collation \<open>C\<close>).\<close>

definition same_letters :: "sql_env \<Rightarrow> (nat \<Rightarrow> nat) \<Rightarrow> bool" where
  "same_letters e f \<longleftrightarrow> keeps_wildcards f \<and> se_lower e = f \<and> se_less e = (<)"

lemma order_desc_greatest: "same_letters e f \<Longrightarrow> order_desc e = greatest_first"
  by (intro ext) (simp add: order_desc_def greatest_first_def same_letters_def)

lemma order_asc_in_order: "same_letters e f \<Longrightarrow> order_asc e = in_order"
  by (intro ext) (auto simp: order_asc_def in_order_def same_letters_def)

lemma same_ilike:
  "same_letters e f \<Longrightarrow> db_text k \<Longrightarrow>
   sql_ilike e (CHR ''%'' # escapeLike k @ ''%'') s \<longleftrightarrow> contains (ToLower f s) (ToLower f k)"
  using ilike_contains [of e k s] by (simp add: same_letters_def)

lemma skillFilter_visible:
  "same_letters e f \<Longrightarrow> db_text (sq_keyword q) \<Longrightarrow> skillFilter e q r = skillVisible f q (stored_skill r)"
  by (auto simp: skillFilter_def skillVisible_def stored_skill_def names_hit_def Let_def same_ilike)

lemma skillOrder_less:
  "same_letters e f \<Longrightarrow> skillOrder e sortBy a b = skillLess sortBy (labelled s (stored_skill a)) (labelled s (stored_skill b))"
  by (simp add: skillOrder_def skillLess_greatest skill_number_def order_desc_greatest greatest_first_def labelled_def stored_skill_def)

lemma newest_is_max:
  assumes "\<forall>t \<in> set ts. 0 \<le> t"
  shows "(if ts = [] then 0 else foldr max ts (hd ts)) = fold max ts (0 :: int)"
proof -
  have r: "foldr max ts x = Max (insert x (set ts))" for x :: int
    by (induction ts) (simp_all add: insert_commute)
  have "fold max ts = foldr max ts" by (rule foldr_fold [symmetric]) (auto simp: fun_eq_iff)
  then have "fold max ts 0 = Max (insert 0 (set ts))" using r by simp
  moreover have "Max (insert 0 (set ts)) = Max (set ts)" if "ts \<noteq> []"
    using that assms Max_ge_iff [of "set ts" 0] by (simp add: Max_insert)
  ultimately show ?thesis using r [of "hd ts"] by (cases ts) (auto simp: insert_absorb)
qed

lemma newest_install_max: "newest_install recs = fold max (map sk_installed recs) 0"
  unfolding newest_install_def fold_map by (intro fold_cong) (auto simp: max_def)

lemma listed_skills:
  assumes "same_letters e f" "catalog_ok db" "t \<noteq> []" "db_text (sq_keyword (NormalizeSkillQuery q))"
  shows "rListSkillCatalog (pg_catalog e f) db t q =
    map_sum id (\<lambda>(p, installed). (p\<lparr>pg_items := map as_listed (pg_items p)\<rparr>, installed)) (mem_ListSkillCatalog f (mem_of db) t q)"
proof -
  let ?q = "NormalizeSkillQuery q"
  let ?rows = "filter (skillFilter e ?q) (map snd (cd_skills db))"
  let ?rec = "\<lambda>r. labelled (mem_of db) (stored_skill r)"
  have range: "1 \<le> sq_page ?q" "1 \<le> sq_size ?q"
    by (simp_all add: NormalizeSkillQuery_def clamp_page_range clamp_size_range)
  have matched: "matched_skills f (mem_of db) ?q = map ?rec (sort_Slice (skillOrder e (sq_sort ?q)) ?rows)"
    by (subst map_sort_Slice [where lt' = "skillLess (sq_sort ?q)"], rule skillOrder_less [OF assms(1)])
      (simp add: matched_skills_def mem_of_def [of db] filter_map o_def labelled_def [abs_def] skillFilter_visible [OF assms(1,4)])
  have installed: "newest_install (map snd (ms_skills (mem_of db))) =
      (let ts = map (\<lambda>kv. kw_installed (snd kv)) (cd_skills db) in if ts = [] then 0 else foldr max ts (hd ts))"
    using assms(2) unfolding newest_install_max Let_def
    by (subst newest_is_max) (auto simp: catalog_ok_def mem_of_def stored_skill_def o_def)
  have count: "length (matched_skills f (mem_of db) ?q) = length ?rows"
    unfolding matched by (metis length_map mset_sort_Slice size_mset)
  show ?thesis
    unfolding pg_catalog_def mem_ListSkillCatalog_def pg_ListSkillCatalog_def Let_def
    using assms(3,4) count
    by (simp add: installed Let_def matched limit_offset_page [OF range] skill_record_listed page_of_map o_def)
qed

lemma agentFilter_visible:
  "same_letters e f \<Longrightarrow> db_text (aq_keyword q) \<Longrightarrow> jsonb_string (aq_catalogue q) = aq_catalogue q \<Longrightarrow>
   agentFilter e q r = agentVisible f q (agent_record r)"
  by (auto simp: agentFilter_def agentVisible_def agent_record_def names_hit_def Let_def same_ilike)

lemma agentOrder_less: "same_letters e f \<Longrightarrow> agentOrder e sortBy a b = agentLess sortBy (agent_record a) (agent_record b)"
  by (simp add: agentOrder_def agentLess_greatest agent_number_def order_desc_greatest greatest_first_def agent_record_def)

text \<open>A clipped token and an id of the catalog are plain ASCII.\<close>

lemma zero_byte: "byte 0 = CHR 0x00"
  by code_simp

lemma ascii_text: "\<forall>c \<in> set s. (of_char c :: nat) < 128 \<and> c \<noteq> CHR 0x00 \<Longrightarrow> db_text s"
  by (auto simp: db_text_def jsonb_string_def runes_ascii string_of_runes_ascii ascii_def no_nul_def list_all_iff zero_byte)

lemma token_text:
  assumes "\<And>c. c \<in> set s \<Longrightarrow> token_rune (of_char c) \<or> c = CHR ''/'' \<or> c = CHR ''@''"
  shows "db_text s"
  using assms by (intro ascii_text) (fastforce simp: token_rune_def)

lemma clipToken_text: "db_text (clipToken s n)"
  by (rule token_text) (use clipToken_bytes in blast)

lemma SkillPathID_text: "SkillPathID handle slug = Some i \<Longrightarrow> db_text i \<and> i \<noteq> []"
  by (auto simp: SkillPathID_def clipHandle_def clipSlug_def Let_def split: if_splits
      intro!: token_text dest: clipToken_bytes)

lemma listed_agents:
  assumes "same_letters e f" "t \<noteq> []" "db_text (aq_keyword (NormalizeAgentCatalogQuery q))"
  shows "rListAgentCatalog (pg_catalog e f) db t q = mem_ListAgentCatalog f (mem_of db) t q"
proof -
  let ?q = "NormalizeAgentCatalogQuery q"
  let ?rows = "filter (agentFilter e ?q) (map snd (cd_agents db))"
  have range: "1 \<le> aq_page ?q" "1 \<le> aq_size ?q"
    by (simp_all add: NormalizeAgentCatalogQuery_def clamp_page_range clamp_size_range)
  have key: "jsonb_string (aq_catalogue ?q) = aq_catalogue ?q"
    using clipToken_text by (simp add: NormalizeAgentCatalogQuery_def db_text_def)
  have matched: "matched_agents f (mem_of db) ?q = map agent_record (sort_Slice (agentOrder e (aq_sort ?q)) ?rows)"
    by (subst map_sort_Slice [where lt' = "agentLess (aq_sort ?q)"], rule agentOrder_less [OF assms(1)])
      (simp add: matched_agents_def mem_of_def [of db] filter_map o_def agentFilter_visible [OF assms(1,3) key])
  have count: "length (matched_agents f (mem_of db) ?q) = length ?rows"
    unfolding matched by (metis length_map mset_sort_Slice size_mset)
  show ?thesis
    unfolding pg_catalog_def mem_ListAgentCatalog_def pg_ListAgentCatalog_def Let_def
    using assms(2,3) count by (simp add: matched limit_offset_page [OF range] page_of_map)
qed

lemma same_like:
  "same_letters e f \<Longrightarrow>
   sql_like (likeContains f kw) (ToLower (se_lower e) text) \<longleftrightarrow> contains (ToLower f text) (ToLower f kw)"
  unfolding likeContains_def same_letters_def by (simp only: like_contains)

definition labelled_server :: "mem_store \<Rightarrow> McpMarketRecord \<Rightarrow> McpMarketRecord" where
  "labelled_server s rec = rec\<lparr>mm_category_name := market_category_name s (mm_category rec)\<rparr>"

lemma market_record_labelled: "market_record db r = labelled_server (mem_of db) (stored_server r)"
  by (simp add: market_record_def labelled_server_def stored_server_def market_label_def market_category_name_def mem_of_def)

lemma market_label_of: "market_label db r = market_category_name (mem_of db) (vw_category r)"
  by (simp add: market_label_def market_category_name_def mem_of_def)

lemma stored_server_simps [simp]:
  "mm_id (stored_server r) = vw_id r" "mm_name (stored_server r) = vw_name r" "mm_author (stored_server r) = vw_author r"
  "mm_summary (stored_server r) = vw_summary r" "mm_category (stored_server r) = vw_category r"
  "mm_hosted (stored_server r) = vw_hosted r" "mm_online (stored_server r) = vw_online r"
  "mm_source (stored_server r) = vw_source r" "mm_rank (stored_server r) = vw_rank r"
  by (simp_all add: stored_server_def)

lemma onlineFilter_ok: "onlineFilter flt r = needsOnlineOK (stored_server r) flt"
  by (simp add: onlineFilter_def needsOnlineOK_def)

lemma marketFilter_visible:
  assumes "same_letters e f" "NormalizeMcpMarketQuery f q = q"
  shows "mcpMarketFilter e f db q True r \<longleftrightarrow> needsOnlineOK (stored_server r) (mq_online q) \<and>
    marketVisible f (stored_server r) (market_category_name (mem_of db) (vw_category r)) q (ToLower f (mq_keyword q))"
  unfolding mcpMarketFilter_def Let_def assms(2) market_label_of
  by (auto simp: onlineFilter_ok marketVisible_def names_hit_def same_like [OF assms(1)])

lemma marketOrder_less:
  assumes "same_letters e f"
  shows "mcpMarketOrder e f kw a b =
    marketLess f (ToLower f kw) (labelled_server s (stored_server a)) (labelled_server s (stored_server b))"
  using assms by (auto simp: mcpMarketOrder_def marketLess_def nameHit_def labelled_server_def Let_def same_like
      order_asc_in_order in_order_def)

lemma listed_market:
  assumes "same_letters e f" "t \<noteq> []" "db_text (likeContains f (mq_keyword (NormalizeMcpMarketQuery f q)))"
    and "NormalizeMcpMarketQuery f (NormalizeMcpMarketQuery f q) = NormalizeMcpMarketQuery f q"
  shows "rListMcpMarket (pg_catalog e f) db t q = mem_ListMcpMarket f (mem_of db) t q"
proof -
  let ?q = "NormalizeMcpMarketQuery f q"
  let ?rows = "filter (mcpMarketFilter e f db ?q True) (map snd (cd_market db))"
  let ?rec = "\<lambda>r. labelled_server (mem_of db) (stored_server r)"
  have range: "1 \<le> mq_page ?q" "1 \<le> mq_size ?q"
    by (simp_all add: NormalizeMcpMarketQuery_def clamp_page_range clamp_size_range)
  have matched: "matched_servers f (mem_of db) ?q = map ?rec (sort_Slice (mcpMarketOrder e f (mq_keyword ?q)) ?rows)"
    by (subst map_sort_Slice [where lt' = "marketLess f (ToLower f (mq_keyword ?q))"], rule marketOrder_less [OF assms(1)])
      (simp add: matched_servers_def online_servers_def Let_def mem_of_def [of db] filter_map o_def labelled_server_def [abs_def]
        marketFilter_visible [OF assms(1,4)] conj_commute)
  have count: "length (matched_servers f (mem_of db) ?q) = length ?rows"
    unfolding matched by (metis length_map mset_sort_Slice size_mset)
  have "mq_online (NormalizeMcpMarketQuery f (q'\<lparr>mq_online := mq_online ?q\<rparr>)) = mq_online ?q" for q'
    using assms(4) by (simp add: NormalizeMcpMarketQuery_def)
  from this [of "\<lparr>mq_keyword = [], mq_category = [], mq_service = [], mq_online = [], mq_source = [], mq_page = 0, mq_size = 0\<rparr>"]
  have stored: "length (online_servers (mem_of db) (mq_online ?q)) = length (filter (mcpMarketFilter e f db \<lparr>mq_keyword = [],
      mq_category = [], mq_service = [], mq_online = mq_online ?q, mq_source = [], mq_page = 0, mq_size = 0\<rparr> False) (map snd (cd_market db)))"
    by (simp add: online_servers_def mem_of_def mcpMarketFilter_def onlineFilter_ok filter_map o_def)
  show ?thesis
    unfolding pg_catalog_def mem_ListMcpMarket_def pg_ListMcpMarket_def Let_def
    using assms(2,3) count by (simp add: assms(4) stored matched limit_offset_page [OF range] page_of_map market_record_labelled)
qed

lemma newest_greatest: "newest_first = greatest_first"
  by (intro ext) (auto simp: newest_first_def greatest_first_def)

lemma tenant_rows_same:
  assumes "same_letters e f" "t \<noteq> []" "db_text t"
    and "\<And>r. created' (rec r) = created r" "\<And>r. key' (rec r) = key r"
  shows "rbind (tenant_rows e tenant created key t tab) (\<lambda>rows. Inr (map rec rows)) =
    Inr (sort_Slice (newest_first created' key') (rows_of t (table_of (\<lambda>r. (tenant r, rec r)) tab)))"
proof -
  have "rows_of t (table_of (\<lambda>r. (tenant r, rec r)) tab) = map rec (filter (\<lambda>r. tenant r = t) (map snd tab))"
    by (induction tab) (auto simp: rows_of_def table_of_def)
  moreover have "order_desc e created key a b = newest_first created' key' (rec a) (rec b)" for a b
    using assms(1,4,5) by (simp add: order_desc_greatest newest_greatest greatest_first_def)
  ultimately show ?thesis
    using assms(2,3) by (simp add: tenant_rows_def inTenantRead_def storageErr_def map_sort_Slice)
qed

lemma got_skill:
  "db_text i \<Longrightarrow> rGetSkill (pg_catalog e f) db t i = map_sum id as_listed (mem_GetSkill (mem_of db) t i)"
  by (simp add: pg_catalog_def pg_GetSkill_def mem_GetSkill_def mem_of_def skill_record_def as_listed_def stored_skill_def
      skill_label_def split: option.split)

lemma got_agent: "db_text i \<Longrightarrow> rGetAgent (pg_catalog e f) db t i = mem_GetAgent (mem_of db) t i"
  by (simp add: pg_catalog_def pg_GetAgent_def mem_GetAgent_def mem_of_def split: option.split)

lemma got_market:
  assumes "catalog_ok db" "db_text i"
  shows "rGetMcpMarket (pg_catalog e f) db t i = mem_GetMcpMarket (mem_of db) t i"
proof -
  have "vw_id r = i" if "map_of (cd_market db) i = Some r" for r
    using map_of_SomeD [OF that] assms(1) by (auto simp: catalog_ok_def)
  then show ?thesis using assms(2)
    by (auto simp: pg_catalog_def pg_GetMcpMarket_def mem_GetMcpMarket_def mem_of_def market_record_def stored_server_def
        market_label_def Let_def split: option.split)
qed

lemma listed_categories:
  assumes "same_letters e f" "catalog_ok db"
  shows "rListMcpMarketCategories (pg_catalog e f) db t n = mem_ListMcpMarketCategories f (mem_of db) t n"
proof -
  define flt where "flt = boolWord f n"
  define counted where "counted (c :: McpMarketCategoryRecord) = length (filter (\<lambda>s. vw_category s = mc_key c \<and> onlineFilter flt s) (map snd (cd_market db)))" for c
  let ?rec = "\<lambda>c. \<lparr>cc_key = mc_key c, cc_name = mc_name c, cc_order = mc_order c, cc_count = counted c\<rparr>"
  have number: "length (filter (\<lambda>rec. mm_category rec = mc_key c) (online_servers (mem_of db) flt)) = counted c" for c
    by (simp add: counted_def online_servers_def mem_of_def filter_map o_def onlineFilter_ok conj_commute)
  have keys: "\<forall>kv \<in> set (cd_market_categories db). fst kv = mc_key (snd kv)"
    using assms(2) by (auto simp: catalog_ok_def)
  have rows: "map (\<lambda>kv. \<lparr>cc_key = fst kv, cc_name = mc_name (snd kv), cc_order = mc_order (snd kv), cc_count = number (fst kv)\<rparr>)
      (filter (\<lambda>kv. number (fst kv) \<noteq> 0) tab) = map ?rec (filter (\<lambda>c. counted c > 0) (map snd tab))"
    if "\<forall>kv \<in> set tab. fst kv = mc_key (snd kv)" "\<And>c. number (mc_key c) = counted c" for tab number
    using that by (induction tab) auto
  have "order_asc e mc_order mc_key a b = in_order cc_order cc_key (?rec a) (?rec b)" for a b
    by (simp add: order_asc_in_order [OF assms(1)] in_order_def)
  note order = map_sort_Slice [where f = ?rec and lt' = "in_order cc_order cc_key", OF this]
  have pg: "pg_ListMcpMarketCategories e f db t n = (if t = [] then Inl ErrNotFound
      else Inr (map ?rec (sort_Slice (order_asc e mc_order mc_key) (filter (\<lambda>c. counted c > 0) (map snd (cd_market_categories db))))))"
    unfolding pg_ListMcpMarketCategories_def Let_def counted_def flt_def by (simp add: NormalizeMcpMarketQuery_def)
  have cats: "ms_market_categories (mem_of db) = cd_market_categories db" by (simp add: mem_of_def)
  show ?thesis
    unfolding mem_ListMcpMarketCategories_def Let_def flt_def [symmetric] cats
      rows [OF keys, where number = "\<lambda>key. length (filter (\<lambda>rec. mm_category rec = key) (online_servers (mem_of db) flt))", OF number]
    by (simp add: pg_catalog_def pg order)
qed

lemma got_files: "db_text i \<Longrightarrow> rGetSkillTextFiles (pg_catalog e f) db t i = mem_GetSkillTextFiles (mem_of db) t i"
  by (auto simp: pg_catalog_def pg_GetSkillTextFiles_def mem_GetSkillTextFiles_def mem_of_def stored_skill_def split: option.split)

lemma skillFiles_same:
  "db_text i \<Longrightarrow> skillFiles (pg_catalog e f) lib db t i = skillFiles (mem_catalog f) lib (mem_of db) t i"
  by (simp add: skillFiles_def got_files mem_catalog_def split: option.split sum.split)

lemma listed_rows:
  assumes "same_letters e f" "t \<noteq> []" "db_text t"
  shows "rListPersonas (pg_catalog e f) db t = mem_ListPersonas (mem_of db) t"
    and "rListMcpConnectors (pg_catalog e f) db t = mem_ListMcpConnectors (mem_of db) t"
    and "rListSkillCategories (pg_catalog e f) db t = mem_ListSkillCategories (mem_of db) t"
  using assms(2) tenant_rows_same [OF assms, of per_created persona_record pw_created per_id pw_id pw_tenant "cd_personas db"]
    tenant_rows_same [OF assms, of con_created connector_record cw_created con_id cw_id cw_tenant "cd_connectors db"]
  by (simp_all add: pg_catalog_def pg_ListPersonas_def mem_ListPersonas_def pg_ListMcpConnectors_def mem_ListMcpConnectors_def
      pg_ListSkillCategories_def mem_ListSkillCategories_def mem_of_def persona_record_def connector_record_def
      order_asc_in_order [OF assms(1)])


definition plain_env :: sql_env where
  "plain_env = \<lparr>se_lower = (\<lambda>r. r), se_less = (<), se_pick = (\<lambda>_. 0)\<rparr>"

definition sample_row :: "string \<Rightarrow> string \<Rightarrow> skillRow" where
  "sample_row i name =
     \<lparr>kw_id = i, kw_handle = ''@a'', kw_slug = i, kw_name = name, kw_description = [], kw_description_en = [], kw_category = ''dev'',
      kw_tags = [], kw_license = [], kw_icon = [], kw_source_url = [], kw_downloads = 3, kw_visits = 0, kw_likes = 0,
      kw_updated = 0, kw_source = ''common'', kw_files = None, kw_installed = 7\<rparr>"

definition sample_catalog :: cat_db where
  "sample_catalog =
     \<lparr>cd_tenants = [''t1''], cd_personas = [], cd_connectors = [], cd_skills = [(''a'', sample_row ''a'' ''100%_Go''), (''b'', sample_row ''b'' ''100 Go'')],
      cd_skill_categories = [(''dev'', \<lparr>sc_key = ''dev'', sc_name = ''Tools'', sc_name_en = ''Tools'', sc_order = 1\<rparr>)], cd_agents = [],
      cd_snapshots = [], cd_icons = [], cd_market = [], cd_market_categories = [], cd_market_details = []\<rparr>"


section \<open>Replacing a snapshot\<close>

lemma AList_update_table: "table_of f (AList.update k r t) = AList.update k (f r) (table_of f t)"
  by (induction t) (auto simp: table_of_def)

lemma insert_rows_fold:
  "insert_rows key ok rs t = Inr t' \<Longrightarrow>
   t' = fold (\<lambda>r. AList.update (key r) r) rs t \<and> distinct (map key rs) \<and> (\<forall>r \<in> set rs. \<not> has_key t (key r))"
proof (induction rs arbitrary: t)
  case (Cons r rs)
  show ?case using Cons.IH [of "AList.update (key r) r t"] Cons.prems
    by (force simp: has_key_def update_conv split: if_splits)
qed simp

lemma has_key_put_rows: "has_key (put_rows key rows m) k \<longleftrightarrow> has_key m k \<or> k \<noteq> [] \<and> k \<in> key ` set rows"
  unfolding put_rows_def by (induction rows arbitrary: m) (auto simp: has_key_def update_conv)

lemma put_rows_table:
  assumes "\<And>row. k (h row) = key row" "\<And>row. key' (g row) = key row" "\<And>row. f (h row) = g row"
  shows "table_of f (fold (\<lambda>r. AList.update (k r) r) (map h (filter (\<lambda>row. key row \<noteq> []) rows)) t) =
    put_rows key' (map g rows) (table_of f t)"
proof (induction rows arbitrary: t)
  case (Cons row rows)
  show ?case using Cons [of "AList.update (key row) (h row) t"] Cons [of t]
    by (auto simp: put_rows_def assms AList_update_table)
qed (simp add: put_rows_def)

lemma upsert_rows_put:
  assumes "upsert_rows key ok (filter (\<lambda>row. key row \<noteq> []) rows) t = Inr t'"
  shows "t' = put_rows key rows t"
proof -
  have "fold (\<lambda>r. AList.update (key r) r) (filter (\<lambda>row. key row \<noteq> []) rows) t = put_rows key rows t" for t
    unfolding put_rows_def by (induction rows arbitrary: t) auto
  then show ?thesis using assms by (simp add: upsert_rows_def split: if_splits)
qed

text \<open>What the tables keep of a row: the JSON texts as UTF-8, the times in microseconds.\<close>

definition kept_skill :: "SkillRecord \<Rightarrow> SkillRecord" where
  "kept_skill rec = rec\<lparr>sk_category_name := [], sk_tags := map jsonb_string (sk_tags rec), sk_updated := db_time (sk_updated rec),
     sk_files := [], sk_files_known := False, sk_installed := 0\<rparr>"

definition kept_agent :: "AgentRecord \<Rightarrow> AgentRecord" where
  "kept_agent rec = rec\<lparr>ag_catalogues := map jsonb_string (ag_catalogues rec), ag_models := map jsonb_model (ag_models rec),
     ag_mcps := map jsonb_ref (ag_mcps rec), ag_skills := map jsonb_ref (ag_skills rec), ag_prompts := map jsonb_prompt (ag_prompts rec),
     ag_files := jsonb_files (ag_files rec), ag_files_known := True, ag_updated := db_time (ag_updated rec)\<rparr>"

lemma table_of_Nil [simp]: "table_of f [] = []"
  by (simp add: table_of_def)

lemma replaced_skills:
  assumes "pg_ReplaceSkills db now t rows cats = (Inr u, db')"
  shows "mem_ReplaceSkills (mem_of db) (db_time now) t (map kept_skill rows) cats = (Inr (), mem_of db')"
proof -
  obtain tab where t: "t \<noteq> []" and tab: "insert_rows kw_id skill_row_ok (map (skill_row now) (filter (\<lambda>row. sk_id row \<noteq> []) rows)) [] = Inr tab"
    and cats: "upsert_rows sc_key skill_category_ok (filter (\<lambda>row. sc_key row \<noteq> []) cats) (cd_skill_categories db) = Inr (cd_skill_categories db')"
    and db': "db' = db\<lparr>cd_skills := tab, cd_skill_categories := cd_skill_categories db'\<rparr>"
    using assms by (auto simp: pg_ReplaceSkills_def inShared_def Let_def rbind_Inr_iff split: if_splits sum.splits)
  have row: "stored_skill (skill_row now rec) = (kept_skill rec)\<lparr>sk_installed := db_time now\<rparr>" for rec
    by (simp add: stored_skill_def skill_row_def kept_skill_def)
  have "table_of stored_skill tab = put_rows sk_id (map (\<lambda>rec. (kept_skill rec)\<lparr>sk_installed := db_time now\<rparr>) rows) []"
    using insert_rows_fold [OF tab]
      put_rows_table [of kw_id "skill_row now" sk_id sk_id "\<lambda>rec. (kept_skill rec)\<lparr>sk_installed := db_time now\<rparr>" stored_skill rows "[]"]
    by (simp add: row) (simp add: skill_row_def kept_skill_def)
  moreover have "map (\<lambda>row. if sk_installed row = 0 then row\<lparr>sk_installed := db_time now\<rparr> else row) (map kept_skill rows) =
      map (\<lambda>rec. (kept_skill rec)\<lparr>sk_installed := db_time now\<rparr>) rows"
    by (simp add: kept_skill_def)
  ultimately show ?thesis using t upsert_rows_put [OF cats]
    by (subst db') (simp add: mem_ReplaceSkills_def mem_of_def del: map_map)
qed

lemma replaced_agents:
  assumes "pg_ReplaceAgents db now t rows = (Inr u, db')"
  shows "mem_ReplaceAgents (mem_of db) t (map kept_agent rows) = (Inr (), mem_of db')"
proof -
  obtain tab where t: "t \<noteq> []" and tab: "insert_rows gw_id agent_row_ok (map (agent_row now) (filter (\<lambda>row. ag_id row \<noteq> []) rows)) [] = Inr tab"
    and db': "db' = db\<lparr>cd_agents := tab\<rparr>"
    using assms by (auto simp: pg_ReplaceAgents_def inShared_def Let_def rbind_Inr_iff split: if_splits sum.splits)
  have row: "agent_record (agent_row now rec) = kept_agent rec" for rec
    by (simp add: agent_record_def agent_row_def kept_agent_def)
  have "table_of agent_record tab = put_rows ag_id (map kept_agent rows) []"
    using insert_rows_fold [OF tab] put_rows_table [of gw_id "agent_row now" ag_id ag_id kept_agent agent_record rows "[]"]
    by (simp add: row) (simp add: agent_row_def kept_agent_def)
  then show ?thesis using t unfolding db' by (simp add: mem_ReplaceAgents_def mem_of_def)
qed

lemma fold_put_rows:
  assumes "distinct (map key (filter (\<lambda>row. key row \<noteq> []) rows))"
  shows "fold (\<lambda>kv m. AList.update (fst kv) (snd kv) m) (put_rows key rows []) m = put_rows key rows m"
proof -
  have new: "put_rows key rows acc = acc @ map (\<lambda>row. (key row, row)) (filter (\<lambda>row. key row \<noteq> []) rows)"
    if "distinct (map key (filter (\<lambda>row. key row \<noteq> []) rows))" "\<forall>row \<in> set rows. key row \<noteq> [] \<longrightarrow> key row \<notin> fst ` set acc" for rows acc
    using that
  proof (induction rows arbitrary: acc)
    case (Cons row rows)
    have "AList.update k v acc = acc @ [(k, v)]" if "k \<notin> fst ` set acc" for k v and acc :: "(string \<times> 'a) list"
      using that by (induction acc) auto
    moreover have "\<forall>r \<in> set rows. key r \<noteq> [] \<longrightarrow> key r \<noteq> key row" if "key row \<noteq> []"
      using Cons.prems(1) that by (auto simp: image_iff)
    ultimately show ?case using Cons.prems Cons.IH [of "acc @ [(key row, row)]"] Cons.IH [of acc]
      by (auto simp: put_rows_def)
  qed (simp add: put_rows_def)
  have "fold (\<lambda>kv m. AList.update (fst kv) (snd kv) m) (map (\<lambda>row. (key row, row)) (filter (\<lambda>row. key row \<noteq> []) rows)) m =
      put_rows key rows m" for m
    unfolding put_rows_def by (induction rows arbitrary: m) auto
  then show ?thesis using new [OF assms] by simp
qed

lemma replaced_market:
  assumes "pg_ReplaceMcpMarket db t servers cats details = (Inr u, db')" "\<forall>c \<in> set cats. mc_name c \<noteq> []"
  shows "mem_ReplaceMcpMarket (mem_of db) t (map (\<lambda>rec. rec\<lparr>mm_category_name := []\<rparr>) servers) cats (map detail_row details) =
    (Inr (), mem_of db')"
proof -
  let ?kept = "\<lambda>rec :: McpMarketRecord. rec\<lparr>mm_category_name := []\<rparr>"
  let ?rows = "filter (\<lambda>row. mm_id row \<noteq> []) servers"
  obtain tab dets where t: "t \<noteq> []" and tab: "insert_rows vw_id server_row_ok (map server_row ?rows) [] = Inr tab"
    and dets: "insert_rows md_id detail_row_ok (map detail_row (filter (\<lambda>row. md_id row \<in> set (map vw_id (map server_row ?rows))) details)) [] = Inr dets"
    and cats: "upsert_rows mc_key market_category_ok (filter (\<lambda>row. mc_key row \<noteq> []) cats) (cd_market_categories db) = Inr (cd_market_categories db')"
    and db': "db' = db\<lparr>cd_market := tab, cd_market_details := dets, cd_market_categories := cd_market_categories db'\<rparr>"
    using assms(1) by (auto simp: pg_ReplaceMcpMarket_def inShared_def Let_def rbind_Inr_iff image_image split: if_splits sum.splits)
  have row: "stored_server (server_row rec) = ?kept rec" "vw_id (server_row rec) = mm_id rec" for rec
    by (simp_all add: stored_server_def server_row_def)
  have market: "table_of stored_server tab = put_rows mm_id (map ?kept servers) []"
    using insert_rows_fold [OF tab] put_rows_table [of vw_id server_row mm_id mm_id ?kept stored_server servers "[]"]
    by (simp add: row)
  have known: "has_key (put_rows mm_id (map ?kept servers) []) k \<longleftrightarrow> k \<in> set (map vw_id (map server_row ?rows))" for k
    unfolding has_key_put_rows by (auto simp: has_key_def row image_image)
  have d: "md_id (detail_row r) = md_id r" for r by (simp add: detail_row_def)
  have all: "filter (\<lambda>row. md_id row \<noteq> []) (filter (\<lambda>row. md_id row \<in> K) details) = filter (\<lambda>row. md_id row \<in> K) details"
    if "[] \<notin> K" for K
    unfolding filter_filter using that by (intro filter_cong) auto
  have "dets = put_rows md_id (map detail_row (filter (\<lambda>row. md_id row \<in> set (map vw_id (map server_row ?rows))) details)) []"
    using insert_rows_fold [OF dets] put_rows_table [of md_id detail_row md_id md_id detail_row "\<lambda>r. r"
        "filter (\<lambda>row. md_id row \<in> set (map vw_id (map server_row ?rows))) details" "[]", OF d d refl]
    by (subst (asm) all) (auto simp: row table_of_def)
  moreover have "filter (\<lambda>c. mc_name c \<noteq> []) cats = cats" using assms(2) by (simp add: filter_id_conv)
  moreover have "cd_market_categories db' = put_rows mc_key cats (cd_market_categories db)"
    "distinct (map mc_key (filter (\<lambda>row. mc_key row \<noteq> []) cats))"
    using upsert_rows_put [OF cats] cats by (auto simp: upsert_rows_def split: if_splits)
  ultimately show ?thesis using t
    by (subst db') (simp add: mem_ReplaceMcpMarket_def mem_of_def Let_def market known fold_put_rows filter_map o_def d)
qed

lemma set_fold_update: "set (fold (\<lambda>r. AList.update (key r) r) rs t) \<subseteq> set t \<union> (\<lambda>r. (key r, r)) ` set rs"
proof (induction rs arbitrary: t)
  case (Cons r rs)
  have "set (AList.update k v t) \<subseteq> insert (k, v) (set t)" for k v by (induction t) auto
  then show ?case using Cons [of "AList.update (key r) r t"] by fastforce
qed simp

lemma skills_ok:
  assumes "pg_ReplaceSkills db now t rows cats = (r, db')" "catalog_ok db" "0 \<le> now"
  shows "catalog_ok db'"
proof (cases r)
  case (Inr u)
  obtain tab cats' where tab: "insert_rows kw_id skill_row_ok (map (skill_row now) (filter (\<lambda>row. sk_id row \<noteq> []) rows)) [] = Inr tab"
    and db': "db' = db\<lparr>cd_skills := tab, cd_skill_categories := cats'\<rparr>"
    using assms(1) Inr by (auto simp: pg_ReplaceSkills_def inShared_def Let_def rbind_Inr_iff split: if_splits sum.splits)
  have "0 \<le> db_time now" using assms(3) mult_div_mod_eq [of 1000 now] by (simp add: db_time_def minus_mod_eq_mult_div)
  moreover have "set tab \<subseteq> (\<lambda>r. (kw_id r, r)) ` skill_row now ` set rows"
    using insert_rows_fold [OF tab] set_fold_update [of kw_id _ "[]"] by fastforce
  ultimately show ?thesis using assms(2) unfolding db' by (auto simp: catalog_ok_def skill_row_def)
next
  case (Inl e)
  then show ?thesis using assms(1,2) by (auto simp: pg_ReplaceSkills_def inShared_def Let_def split: if_splits sum.splits)
qed


text \<open>A snapshot of two skills, one with a tag that is no UTF-8; and the same with an id that comes twice.\<close>

lemma skill_row_ok_row:
  "skill_row_ok (skill_row now rec) \<longleftrightarrow> list_all no_nul (map jsonb_string (sk_tags rec)) \<and>
     list_all db_text [sk_id rec, sk_handle rec, sk_slug rec, sk_name rec, sk_description rec, sk_description_en rec,
       sk_category rec, sk_license rec, sk_icon rec, sk_source_url rec, sk_source rec]"
  by (simp add: skill_row_ok_def skill_row_def)


end
