(* ===== verification/Market_Install.thy ===== *)
theory Market_Install
  imports Pg_Catalog
begin

text \<open>
  The installation of the shipped ModelScope snapshot, \<open>internal/msmarket\<close>: the rows of the three embedded files
  are turned into records of the catalog, the two sidecars into texts and icons, and each is stored once, by
  its hash. SHA-256, base64 and reading a gzipped JSONL file into its rows are the parameter \<open>install_pkg\<close>; the
  bytes of the files are \<open>install_files\<close>. One reading of the clock stands for those of a run. The log is left out.
\<close>

section \<open>The rows of the files\<close>

record snapSkill =
  ss_id :: string
  ss_handle :: string
  ss_slug :: string
  ss_name :: string
  ss_description :: string
  ss_description_en :: string
  ss_category :: string
  ss_category_name :: string
  ss_category_name_en :: string
  ss_category_order :: int
  ss_tags :: "string list"
  ss_license :: string
  ss_icon :: string
  ss_source_url :: string
  ss_downloads :: int
  ss_visits :: int
  ss_likes :: int
  ss_updated :: int
  ss_source :: string

record snapMcp =
  sm_id :: string
  sm_name :: string
  sm_summary :: string
  sm_author :: string
  sm_category :: string
  sm_calls :: int
  sm_views :: int
  sm_stars :: int
  sm_verified :: bool
  sm_hosted :: bool
  sm_online :: bool
  sm_rank :: int
  sm_source :: string
  sm_icon :: string
  sm_license :: string
  sm_updated :: string
  sm_readme :: string
  sm_tools :: "McpMarketTool list"

record snapAgent =
  sa_id :: string
  sa_handle :: string
  sa_slug :: string
  sa_name :: string
  sa_description :: string
  sa_framework :: string
  sa_license :: string
  sa_logo :: string
  sa_catalogues :: "string list"
  sa_models :: "AgentModel list"
  sa_mcps :: "AgentRef list"
  sa_skills :: "AgentRef list"
  sa_prompts :: "AgentPrompt list"
  sa_readme :: string
  sa_files :: "SkillFile list option"    \<comment> \<open>\<open>None\<close> for a nil slice\<close>
  sa_stars :: int
  sa_downloads :: int
  sa_visits :: int
  sa_updated :: int
  sa_source :: string

record snapText =
  st_id :: string
  st_files :: "SkillFile list"

record snapIcon =
  si_url :: string
  si_type :: string
  si_b64 :: string

record install_pkg =
  ik_sha256 :: "string \<Rightarrow> string"
  ik_base64 :: "string \<Rightarrow> string option"
  ik_skills :: "string \<Rightarrow> snapSkill list result"
  ik_mcp :: "string \<Rightarrow> snapMcp list result"
  ik_agents :: "string \<Rightarrow> snapAgent list result"
  ik_text :: "string \<Rightarrow> snapText list result"
  ik_icons :: "string \<Rightarrow> snapIcon list result"

datatype file_answer = NotThere | ReadFails err | FileBytes string

record install_files =
  in_skills :: string
  in_mcp :: string
  in_agents :: string
  in_sidecar :: "string \<Rightarrow> string \<Rightarrow> file_answer"   \<comment> \<open>by directory and name\<close>

section \<open>Records from rows\<close>

definition unix_time :: "int \<Rightarrow> time" where
  "unix_time secs = (secs + 62135596800) * 1000000000"

definition source :: "string \<Rightarrow> string" where
  "source raw = (if raw = ''nexa'' then ''nexa'' else ''common'')"

definition snap_usable :: "string \<Rightarrow> string \<Rightarrow> string \<Rightarrow> string \<Rightarrow> bool" where
  "snap_usable i handle slug name \<longleftrightarrow> SkillPathID handle slug = Some i \<and> name \<noteq> []"

definition skill_of :: "snapSkill \<Rightarrow> SkillRecord" where
  "skill_of row =
     \<lparr>sk_id = ss_id row, sk_handle = ss_handle row, sk_slug = ss_slug row, sk_name = ss_name row,
      sk_description = ss_description row, sk_description_en = ss_description_en row, sk_category = ss_category row,
      sk_category_name = [], sk_tags = ss_tags row, sk_license = ss_license row, sk_icon = ss_icon row,
      sk_source_url = ss_source_url row, sk_downloads = ss_downloads row, sk_visits = ss_visits row, sk_likes = ss_likes row,
      sk_updated = unix_time (ss_updated row), sk_source = source (ss_source row), sk_files = [], sk_files_known = False,
      sk_installed = 0\<rparr>"

definition category_of :: "snapSkill \<Rightarrow> SkillCategoryRecord" where
  "category_of row =
     \<lparr>sc_key = ss_category row, sc_name = (if ss_category_name row = [] then ss_category row else ss_category_name row),
      sc_name_en = ss_category_name_en row, sc_order = ss_category_order row\<rparr>"

definition loadSkills :: "snapSkill list \<Rightarrow> SkillRecord list \<times> SkillCategoryRecord list" where
  "loadSkills rows0 =
     (let rows = filter (\<lambda>row. snap_usable (ss_id row) (ss_handle row) (ss_slug row) (ss_name row)) rows0
      in (map skill_of rows, map snd (put_rows sc_key (map category_of rows) [])))"

definition agent_of :: "snapAgent \<Rightarrow> AgentRecord" where
  "agent_of row =
     \<lparr>ag_id = sa_id row, ag_handle = sa_handle row, ag_slug = sa_slug row, ag_name = sa_name row,
      ag_description = sa_description row, ag_framework = sa_framework row, ag_license = sa_license row, ag_logo = sa_logo row,
      ag_catalogues = sa_catalogues row, ag_models = sa_models row, ag_mcps = sa_mcps row, ag_skills = sa_skills row,
      ag_prompts = sa_prompts row, ag_readme = sa_readme row, ag_files = (case sa_files row of None \<Rightarrow> [] | Some files \<Rightarrow> files),
      ag_files_known = (sa_files row \<noteq> None), ag_stars = sa_stars row, ag_downloads = sa_downloads row,
      ag_visits = sa_visits row, ag_updated = unix_time (sa_updated row), ag_source = source (sa_source row)\<rparr>"

definition loadAgents :: "snapAgent list \<Rightarrow> AgentRecord list" where
  "loadAgents rows =
     map agent_of (filter (\<lambda>row. snap_usable (sa_id row) (sa_handle row) (sa_slug row) (sa_name row)) rows)"

section \<open>The plaza\<close>

definition sidebar_labels :: "(string \<times> nat list) list" where
  "sidebar_labels =
     [(''browser-automation'', [0x6D4F, 0x89C8, 0x5668, 0x81EA, 0x52A8, 0x5316]),
      (''search'', [0x641C, 0x7D22, 0x5DE5, 0x5177]),
      (''communication'', [0x4EA4, 0x6D41, 0x534F, 0x4F5C, 0x5DE5, 0x5177]),
      (''developer-tools'', [0x5F00, 0x53D1, 0x8005, 0x5DE5, 0x5177]),
      (''entertainment-and-media'', [0x5A31, 0x4E50, 0x4E0E, 0x591A, 0x5A92, 0x4F53]),
      (''file-systems'', [0x6587, 0x4EF6, 0x7CFB, 0x7EDF]),
      (''finance'', [0x91D1, 0x878D]),
      (''knowledge-and-memory'', [0x77E5, 0x8BC6, 0x7BA1, 0x7406, 0x4E0E, 0x8BB0, 0x5FC6]),
      (''location-services'', [0x4F4D, 0x7F6E, 0x670D, 0x52A1]),
      (''art-and-culture'', [0x6587, 0x5316, 0x4E0E, 0x827A, 0x672F]),
      (''research-and-data'', [0x5B66, 0x672F, 0x7814, 0x7A76]),
      (''calendar-management'', [0x65E5, 0x7A0B, 0x7BA1, 0x7406]),
      (''scientific-tool'', [0x79D1, 0x7814, 0x5DE5, 0x5177]),
      (''other'', [0x5176, 0x4ED6])]"

definition Categories :: "McpMarketCategoryRecord list" where
  "Categories = map (\<lambda>(i, key, label). \<lparr>mc_key = key, mc_name = string_of_runes label, mc_order = int i + 1\<rparr>)
     (enumerate 0 sidebar_labels)"

text \<open>
  On as many bytes as the scheme has, \<open>strings.EqualFold\<close> is equality up to the case of ASCII: a letter outside ASCII
  that folds to one of these takes more bytes.
\<close>

definition schemeAt :: "string \<Rightarrow> nat option" where
  "schemeAt t =
     (if map lower_byte (take 8 t) = ''https://'' then Some 8
      else if map lower_byte (take 7 t) = ''http://'' then Some 7 else None)"

fun dropURLs :: "string \<Rightarrow> string" where
  "dropURLs [] = []"
| "dropURLs (c # cs) = (case schemeAt (c # cs) of Some n \<Rightarrow> dropURLs (drop (n - 1) cs) | None \<Rightarrow> c # dropURLs cs)"

definition containsURL :: "(nat \<Rightarrow> nat) \<Rightarrow> string list \<Rightarrow> bool" where
  "containsURL fold_rune parts \<longleftrightarrow>
     list_ex (\<lambda>part. let lower = ToLower fold_rune part in contains lower ''https://'' \<or> contains lower ''http://'') parts"

definition drop_in_tool :: "McpMarketTool \<Rightarrow> McpMarketTool" where
  "drop_in_tool tool =
     \<lparr>mt_name = dropURLs (mt_name tool), mt_description = dropURLs (mt_description tool),
      mt_params = map (\<lambda>p. \<lparr>tp_name = dropURLs (tp_name p), tp_type = dropURLs (tp_type p), tp_required = tp_required p,
        tp_description = dropURLs (tp_description p)\<rparr>) (mt_params tool)\<rparr>"

definition market_card :: "snapMcp \<Rightarrow> McpMarketRecord" where
  "market_card row =
     \<lparr>mm_id = sm_id row, mm_name = sm_name row, mm_summary = sm_summary row, mm_author = sm_author row,
      mm_category = sm_category row, mm_category_name = [],
      mm_category_more = (if sm_category row \<in> set (map mc_key Categories) then 0 else 1), mm_calls = sm_calls row,
      mm_views = sm_views row, mm_stars = sm_stars row, mm_verified = sm_verified row, mm_hosted = sm_hosted row,
      mm_online = sm_online row, mm_source = source (sm_source row), mm_icon = sm_icon row, mm_rank = sm_rank row\<rparr>"

definition detail_of :: "snapMcp \<Rightarrow> McpMarketDetailRecord" where
  "detail_of row =
     \<lparr>md_id = sm_id row, md_license = dropURLs (sm_license row), md_updated = dropURLs (sm_updated row),
      md_readme = dropURLs (sm_readme row), md_tools = map drop_in_tool (sm_tools row)\<rparr>"

definition errDuplicate :: err where "errDuplicate = ErrText ''mcp market snapshot has a duplicate id''"
definition errURL :: err where "errURL = ErrText ''mcp market snapshot contains a URL''"
definition errEmpty :: err where "errEmpty = ErrText ''mcp market snapshot is empty''"

fun load_rows :: "(nat \<Rightarrow> nat) \<Rightarrow> string list \<Rightarrow> snapMcp list \<Rightarrow> (McpMarketRecord \<times> McpMarketDetailRecord) list result" where
  "load_rows f seen [] = Inr []"
| "load_rows f seen (row # rows) =
     (if sm_id row = [] then load_rows f seen rows
      else if sm_id row \<in> set seen then Inl errDuplicate
      else if containsURL f [sm_id row, sm_name row, sm_summary row, sm_author row, sm_category row] then Inl errURL
      else let detail = detail_of row in
        if containsURL f [md_license detail, md_updated detail, md_readme detail] then Inl errURL
        else rbind (load_rows f (sm_id row # seen) rows) (\<lambda>done. Inr ((market_card row, detail) # done)))"

definition loadMcp :: "(nat \<Rightarrow> nat) \<Rightarrow> snapMcp list \<Rightarrow> (McpMarketRecord list \<times> McpMarketDetailRecord list) result" where
  "loadMcp f rows =
     rbind (load_rows f [] rows) (\<lambda>pairs. if pairs = [] then Inl errEmpty else Inr (map fst pairs, map snd pairs))"

section \<open>Storing a snapshot\<close>

text \<open>The operations of the repository the installation calls; the time is that of the call.\<close>

record 'w install_ops =
  iCatalogSnapshot :: "'w \<Rightarrow> string \<Rightarrow> string \<Rightarrow> (string \<times> bool) result"
  iSetCatalogSnapshot :: "'w \<Rightarrow> time \<Rightarrow> string \<Rightarrow> string \<Rightarrow> string \<Rightarrow> unit result \<times> 'w"
  iReplaceSkills :: "'w \<Rightarrow> time \<Rightarrow> string \<Rightarrow> SkillRecord list \<Rightarrow> SkillCategoryRecord list \<Rightarrow> unit result \<times> 'w"
  iReplaceMcpMarket :: "'w \<Rightarrow> string \<Rightarrow> McpMarketRecord list \<Rightarrow> McpMarketCategoryRecord list \<Rightarrow> McpMarketDetailRecord list
    \<Rightarrow> unit result \<times> 'w"
  iReplaceAgents :: "'w \<Rightarrow> time \<Rightarrow> string \<Rightarrow> AgentRecord list \<Rightarrow> unit result \<times> 'w"
  iSaveSkillTextFilesBatch :: "'w \<Rightarrow> string \<Rightarrow> (string \<times> SkillFile list) list \<Rightarrow> unit result \<times> 'w"
  iReplaceCatalogIcons :: "'w \<Rightarrow> string \<Rightarrow> CatalogIcon list \<Rightarrow> unit result \<times> 'w"

definition mem_install :: "mem_store install_ops" where
  "mem_install =
     \<lparr>iCatalogSnapshot = mem_CatalogSnapshot, iSetCatalogSnapshot = (\<lambda>w now. mem_SetCatalogSnapshot w),
      iReplaceSkills = mem_ReplaceSkills, iReplaceMcpMarket = mem_ReplaceMcpMarket, iReplaceAgents = (\<lambda>w now. mem_ReplaceAgents w),
      iSaveSkillTextFilesBatch = mem_SaveSkillTextFilesBatch, iReplaceCatalogIcons = mem_ReplaceCatalogIcons\<rparr>"

definition pg_install :: "sql_env \<Rightarrow> cat_db install_ops" where
  "pg_install e =
     \<lparr>iCatalogSnapshot = pg_CatalogSnapshot, iSetCatalogSnapshot = pg_SetCatalogSnapshot, iReplaceSkills = pg_ReplaceSkills,
      iReplaceMcpMarket = pg_ReplaceMcpMarket, iReplaceAgents = pg_ReplaceAgents,
      iSaveSkillTextFilesBatch = pg_SaveSkillTextFilesBatch e, iReplaceCatalogIcons = pg_ReplaceCatalogIcons\<rparr>"

definition snapshotName :: string where "snapshotName = ''msmarket''"
definition textSnapshotName :: string where "textSnapshotName = ''msmarket-text''"
definition iconSnapshotName :: string where "iconSnapshotName = ''msmarket-icons''"
definition textSidecarName :: string where "textSidecarName = ''skills_text.json.gz''"
definition iconSidecarName :: string where "iconSidecarName = ''icons.json.gz''"
definition textInstallChunk :: nat where "textInstallChunk = 200"
definition iconInstallChunk :: nat where "iconInstallChunk = 100"

text \<open>One call after the other, until one fails.\<close>

fun in_turn :: "('w \<Rightarrow> unit result \<times> 'w) list \<Rightarrow> 'w \<Rightarrow> err option \<times> 'w" where
  "in_turn [] w = (None, w)"
| "in_turn (call # calls) w = (case call w of (Inl e, w') \<Rightarrow> (Some e, w') | (Inr u, w') \<Rightarrow> in_turn calls w')"

definition hashEmbedded :: "install_pkg \<Rightarrow> install_files \<Rightarrow> string" where
  "hashEmbedded pkg files =
     ik_sha256 pkg (concat (map (\<lambda>(name, raw). name @ '':'' @ itoa (length raw) @ '':'' @ raw)
       [(''skills.json.gz'', in_skills files), (''mcp.json.gz'', in_mcp files), (''agents.json.gz'', in_agents files)]))"

definition installEmbedded :: "'w install_ops \<Rightarrow> install_pkg \<Rightarrow> (nat \<Rightarrow> nat) \<Rightarrow> install_files \<Rightarrow> time \<Rightarrow> string \<Rightarrow> 'w
    \<Rightarrow> bool result \<times> 'w" where
  "installEmbedded R pkg f files now t w =
     (let sha = hashEmbedded pkg files in
      case iCatalogSnapshot R w t snapshotName of
        Inl e \<Rightarrow> (Inl e, w)
      | Inr (stored, recorded) \<Rightarrow>
          if recorded \<and> stored = sha then (Inr False, w)
          else case rbind (ik_skills pkg (in_skills files)) (\<lambda>s. rbind (rbind (ik_mcp pkg (in_mcp files)) (loadMcp f))
                 (\<lambda>m. rbind (ik_agents pkg (in_agents files)) (\<lambda>a. Inr (loadSkills s, m, loadAgents a)))) of
            Inl e \<Rightarrow> (Inl e, w)
          | Inr ((skills, categories), (servers, details), agents) \<Rightarrow>
              (case in_turn
                 [\<lambda>w. iReplaceSkills R w now t skills categories, \<lambda>w. iReplaceMcpMarket R w t servers Categories details,
                  \<lambda>w. iReplaceAgents R w now t agents, \<lambda>w. iSetCatalogSnapshot R w now t snapshotName sha,
                  \<lambda>w. iSetCatalogSnapshot R w now t textSnapshotName []] w of
                 (Some e, w') \<Rightarrow> (Inl e, w')
               | (None, w') \<Rightarrow> (Inr True, w')))"

text \<open>The rows of a sidecar go to the store in batches; what is left goes last.\<close>

definition flush_text :: "'w install_ops \<Rightarrow> string \<Rightarrow> (string \<times> SkillFile list) list \<Rightarrow> 'w \<Rightarrow> unit result \<times> 'w" where
  "flush_text R t batch w = (if batch = [] then (Inr (), w) else iSaveSkillTextFilesBatch R w t batch)"

fun text_loop :: "'w install_ops \<Rightarrow> string \<Rightarrow> (string \<times> SkillFile list) list \<Rightarrow> snapText list \<Rightarrow> 'w \<Rightarrow> unit result \<times> 'w" where
  "text_loop R t batch [] w = flush_text R t batch w"
| "text_loop R t batch (row # rows) w =
     (if st_id row = [] then text_loop R t batch rows w
      else let batch' = batch @ [(st_id row, st_files row)] in
        if length batch' \<ge> textInstallChunk then
          (case flush_text R t batch' w of (Inl e, w') \<Rightarrow> (Inl e, w') | (Inr u, w') \<Rightarrow> text_loop R t [] rows w')
        else text_loop R t batch' rows w)"

definition flush_icons :: "'w install_ops \<Rightarrow> string \<Rightarrow> CatalogIcon list \<Rightarrow> 'w \<Rightarrow> unit result \<times> 'w" where
  "flush_icons R t batch w = (if batch = [] then (Inr (), w) else iReplaceCatalogIcons R w t batch)"

fun icon_loop :: "'w install_ops \<Rightarrow> install_pkg \<Rightarrow> string \<Rightarrow> CatalogIcon list \<Rightarrow> snapIcon list \<Rightarrow> 'w \<Rightarrow> unit result \<times> 'w" where
  "icon_loop R pkg t batch [] w = flush_icons R t batch w"
| "icon_loop R pkg t batch (row # rows) w =
     (if si_url row = [] \<or> si_b64 row = [] then icon_loop R pkg t batch rows w
      else case ik_base64 pkg (si_b64 row) of
        None \<Rightarrow> (Inl (ErrText ''bad base64''), w)
      | Some data \<Rightarrow>
          let batch' = batch @ [\<lparr>ci_url = si_url row, ci_type = (if si_type row = [] then ''image/png'' else si_type row), ci_data = data\<rparr>] in
          if length batch' \<ge> iconInstallChunk then
            (case flush_icons R t batch' w of (Inl e, w') \<Rightarrow> (Inl e, w') | (Inr u, w') \<Rightarrow> icon_loop R pkg t [] rows w')
          else icon_loop R pkg t batch' rows w)"

text \<open>A sidecar: skipped when the store has its hash, unless it must be stored again; recorded when all of it is.\<close>

definition install_sidecar :: "'w install_ops \<Rightarrow> install_pkg \<Rightarrow> install_files \<Rightarrow> time \<Rightarrow> string \<Rightarrow> string \<Rightarrow> bool \<Rightarrow> string \<Rightarrow> string
    \<Rightarrow> (string \<Rightarrow> 'r list result) \<Rightarrow> ('r list \<Rightarrow> 'w \<Rightarrow> unit result \<times> 'w) \<Rightarrow> 'w \<Rightarrow> unit result \<times> 'w" where
  "install_sidecar R pkg files now t dir force file name read loop w =
     (if dir = [] then (Inr (), w)
      else case in_sidecar files dir file of
        NotThere \<Rightarrow> (Inr (), w)
      | ReadFails e \<Rightarrow> (Inl e, w)
      | FileBytes raw \<Rightarrow>
          let sha = ik_sha256 pkg raw in
          case (if force then Inr False else map_sum id (\<lambda>(stored, recorded). recorded \<and> stored = sha) (iCatalogSnapshot R w t name)) of
            Inl e \<Rightarrow> (Inl e, w)
          | Inr True \<Rightarrow> (Inr (), w)
          | Inr False \<Rightarrow>
              (case read raw of
                 Inl e \<Rightarrow> (Inl e, w)
               | Inr rows \<Rightarrow>
                   (case loop rows w of
                      (Inl e, w') \<Rightarrow> (Inl e, w')
                    | (Inr u, w') \<Rightarrow> iSetCatalogSnapshot R w' now t name sha)))"

definition installSkillText :: "'w install_ops \<Rightarrow> install_pkg \<Rightarrow> install_files \<Rightarrow> time \<Rightarrow> string \<Rightarrow> string \<Rightarrow> bool \<Rightarrow> 'w
    \<Rightarrow> unit result \<times> 'w" where
  "installSkillText R pkg files now t dir force =
     install_sidecar R pkg files now t dir force textSidecarName textSnapshotName (ik_text pkg) (text_loop R t [])"

definition installIcons :: "'w install_ops \<Rightarrow> install_pkg \<Rightarrow> install_files \<Rightarrow> time \<Rightarrow> string \<Rightarrow> string \<Rightarrow> 'w \<Rightarrow> unit result \<times> 'w" where
  "installIcons R pkg files now t dir =
     install_sidecar R pkg files now t dir False iconSidecarName iconSnapshotName (ik_icons pkg) (icon_loop R pkg t [])"

definition InstallAll :: "'w install_ops \<Rightarrow> install_pkg \<Rightarrow> (nat \<Rightarrow> nat) \<Rightarrow> install_files \<Rightarrow> time \<Rightarrow> string \<Rightarrow> string \<Rightarrow> 'w \<Rightarrow> 'w" where
  "InstallAll R pkg f files now t dir w =
     (case installEmbedded R pkg f files now t w of
        (Inl e, w1) \<Rightarrow> w1
      | (Inr replaced, w1) \<Rightarrow>
          snd (installIcons R pkg files now t dir (snd (installSkillText R pkg files now t dir replaced w1))))"

end
