(* ===== verification/Market_Facts.thy ===== *)
theory Market_Facts
  imports Market_Install Pg_Catalog_Facts
begin

text \<open>
  What the installation of the snapshot guarantees: the plaza that is stored, what a second run does, and two
  defects, a URL that stays in the text of a tool and a skill text that is never stored again.
\<close>

section \<open>The plaza\<close>

definition card_texts :: "McpMarketRecord \<Rightarrow> string list" where
  "card_texts s = [mm_id s, mm_name s, mm_summary s, mm_author s, mm_category s]"

definition detail_texts :: "McpMarketDetailRecord \<Rightarrow> string list" where
  "detail_texts d = [md_license d, md_updated d, md_readme d]"

lemma loaded_rows:
  "load_rows f seen rows = Inr pairs \<Longrightarrow>
   distinct (map (mm_id \<circ> fst) pairs) \<and> (\<forall>(s, d) \<in> set pairs. mm_id s \<notin> set seen \<and> mm_id s \<noteq> [] \<and> md_id d = mm_id s \<and>
     \<not> containsURL f (card_texts s) \<and> \<not> containsURL f (detail_texts d))"
proof (induction f seen rows arbitrary: pairs rule: load_rows.induct)
  case (2 f seen row rows)
  have card: "mm_id (market_card row) = sm_id row" "md_id (detail_of row) = sm_id row"
    "card_texts (market_card row) = [sm_id row, sm_name row, sm_summary row, sm_author row, sm_category row]"
    by (simp_all add: market_card_def detail_of_def card_texts_def)
  show ?case
  proof (cases "sm_id row = []")
    case False
    with 2(3) obtain rest where ok: "sm_id row \<notin> set seen" "\<not> containsURL f (card_texts (market_card row))"
      "\<not> containsURL f (detail_texts (detail_of row))" "load_rows f (sm_id row # seen) rows = Inr rest"
      and pairs: "pairs = (market_card row, detail_of row) # rest"
      by (auto simp: card detail_texts_def Let_def rbind_Inr_iff split: if_splits)
    have "distinct (map (mm_id \<circ> fst) rest) \<and> (\<forall>(s, d) \<in> set rest. mm_id s \<notin> set (sm_id row # seen) \<and> mm_id s \<noteq> [] \<and>
        md_id d = mm_id s \<and> \<not> containsURL f (card_texts s) \<and> \<not> containsURL f (detail_texts d))"
      using 2(2) [OF False ok(1) _ refl _ ok(4)] ok(2,3) by (simp add: card detail_texts_def o_def)
    then show ?thesis using False ok(1-3) by (auto simp: pairs card o_def)
  qed (use 2 in simp)
qed simp


definition sample_mcp :: "string \<Rightarrow> McpMarketTool list \<Rightarrow> snapMcp" where
  "sample_mcp readme tools =
     \<lparr>sm_id = ''a'', sm_name = ''A'', sm_summary = [], sm_author = [], sm_category = ''search'', sm_calls = 1, sm_views = 2, sm_stars = 3,
      sm_verified = True, sm_hosted = False, sm_online = True, sm_rank = 1, sm_source = [], sm_icon = [], sm_license = [],
      sm_updated = [], sm_readme = readme, sm_tools = tools\<rparr>"


text \<open>A scheme inside a scheme is what is left when the inner one is dropped.\<close>

lemma dropURLs_nested: "dropURLs (''hhttp://ttp://'' @ s) = ''http://'' @ dropURLs s"
  by (simp add: schemeAt_def lower_byte_def byte_in_def numeral_eq_Suc)

lemma contains_append: "contains s p \<Longrightarrow> contains (r @ s) p"
  by (induction r) auto

lemma contains_prefix: "contains (p @ s) p"
proof -
  have "has_prefix (p @ s) p" by (simp add: has_prefix_def)
  then show ?thesis by (cases "p @ s") auto
qed

lemma ToLower_append_ascii: "ascii p \<Longrightarrow> ascii s \<Longrightarrow> ToLower f (p @ s) = map lower_byte p @ map lower_byte s"
  by (simp add: ToLower_def ascii_def)

text \<open>
  The text of a tool can keep a URL, which the comment on \<open>loadMcp\<close> rules out: dropping the scheme inside
  \<open>hhttp://ttp://\<close> leaves \<open>http://\<close>, and nothing looks at the texts of the tools again as it does at the
  readme; such a snapshot is accepted (a defect).
\<close>

theorem tool_text_keeps_url:
  assumes "loadMcp f [row] = Inr (servers, details)" "tool \<in> set (sm_tools row)"
    and "mt_description tool = ''hhttp://ttp://'' @ host" "ascii (dropURLs host)" "sm_id row \<noteq> []"
  shows "\<exists>d \<in> set details. \<exists>tl \<in> set (md_tools d). containsURL f [mt_description tl]"
proof -
  have "details = [detail_of row]"
    using assms(1,5) by (auto simp: loadMcp_def Let_def split: if_splits)
  moreover have "drop_in_tool tool \<in> set (md_tools (detail_of row))" using assms(2) by (simp add: detail_of_def)
  moreover have "mt_description (drop_in_tool tool) = ''http://'' @ dropURLs host"
    using assms(3) dropURLs_nested by (simp only: drop_in_tool_def McpMarketTool.simps)
  moreover have "ToLower f (''http://'' @ dropURLs host) = ''http://'' @ map lower_byte (dropURLs host)"
    using ToLower_append_ascii [of "''http://''" "dropURLs host" f] assms(4) by (simp add: lower_byte_def byte_in_def)
  ultimately show ?thesis using contains_prefix [of "''http://''"]
    by (intro bexI [of _ "detail_of row"] bexI [of _ "drop_in_tool tool"]) (auto simp: containsURL_def Let_def)
qed

theorem tool_text_keeps_url_witness:
  "\<exists>servers details. loadMcp (\<lambda>r. r) [sample_mcp [] [\<lparr>mt_name = [], mt_description = ''hhttp://ttp://x.y'', mt_params = []\<rparr>]] =
       Inr (servers, details) \<and> (\<exists>d \<in> set details. \<exists>tl \<in> set (md_tools d). containsURL (\<lambda>r. r) [mt_description tl])"
proof -
  let ?tool = "\<lparr>mt_name = [], mt_description = ''hhttp://ttp://x.y'', mt_params = []\<rparr>"
  let ?row = "sample_mcp [] [?tool]"
  have "\<not> containsURL (\<lambda>r. r) [''a'', ''A'', [], [], ''search'']" "\<not> containsURL (\<lambda>r. r) [[], [], []]" by code_simp+
  then have load: "loadMcp (\<lambda>r. r) [?row] = Inr ([market_card ?row], [detail_of ?row])"
    by (simp add: loadMcp_def sample_mcp_def detail_of_def)
  have "dropURLs ''x.y'' = ''x.y''" by code_simp
  then have "\<exists>d \<in> set [detail_of ?row]. \<exists>tl \<in> set (md_tools d). containsURL (\<lambda>r. r) [mt_description tl]"
    by (intro tool_text_keeps_url [OF load, where tool = ?tool and host = "''x.y''"]) (simp_all add: sample_mcp_def)
  with load show ?thesis by blast
qed

section \<open>Running it again\<close>

text \<open>What the installation needs of a store: the hash it wrote last is read, and nothing else changes a hash.\<close>

locale snapshot_store =
  fixes R :: "'w install_ops"
  assumes recorded: "iSetCatalogSnapshot R w now t n s = (Inr u, w') \<Longrightarrow> iCatalogSnapshot R w' t n = Inr (s, True)"
    and other_name: "iSetCatalogSnapshot R w now t n s = (r, w') \<Longrightarrow> n' \<noteq> n \<Longrightarrow> iCatalogSnapshot R w' t n' = iCatalogSnapshot R w t n'"
    and kept: "iCatalogSnapshot R (snd (iReplaceSkills R w now t skills cats)) t n = iCatalogSnapshot R w t n"
      "iCatalogSnapshot R (snd (iReplaceMcpMarket R w t servers mcats details)) t n = iCatalogSnapshot R w t n"
      "iCatalogSnapshot R (snd (iReplaceAgents R w now t agents)) t n = iCatalogSnapshot R w t n"
      "iCatalogSnapshot R (snd (iSaveSkillTextFilesBatch R w t rows)) t n = iCatalogSnapshot R w t n"
      "iCatalogSnapshot R (snd (iReplaceCatalogIcons R w t icons)) t n = iCatalogSnapshot R w t n"
begin

lemma flush_kept:
  "iCatalogSnapshot R (snd (flush_text R t batch w)) t n = iCatalogSnapshot R w t n"
  "iCatalogSnapshot R (snd (flush_icons R t icons w)) t n = iCatalogSnapshot R w t n"
  by (simp_all add: flush_text_def flush_icons_def kept)

lemma text_loop_kept: "iCatalogSnapshot R (snd (text_loop R t batch rows w)) t n = iCatalogSnapshot R w t n"
proof (induction rows arbitrary: batch w)
  case (Cons row rows)
  then show ?case using flush_kept(1) [of t "batch @ [(st_id row, st_files row)]" w n]
    by (auto simp: Let_def split: prod.split sum.split)
qed (simp add: flush_kept)

lemma icon_loop_kept: "iCatalogSnapshot R (snd (icon_loop R pkg t batch rows w)) t n = iCatalogSnapshot R w t n"
proof (induction rows arbitrary: batch w)
  case (Cons row rows)
  have flush: "iCatalogSnapshot R w1 t n = iCatalogSnapshot R w t n" if "flush_icons R t b w = (v, w1)" for b v w1
    using flush_kept(2) [of t b w n] that by simp
  show ?case
    by (auto simp: Let_def Cons dest!: flush split: prod.split sum.split option.split)
qed (simp add: flush_kept)

text \<open>A sidecar that was stored, or is not there, is passed over.\<close>

definition settled :: "install_pkg \<Rightarrow> install_files \<Rightarrow> string \<Rightarrow> string \<Rightarrow> string \<Rightarrow> string \<Rightarrow> 'w \<Rightarrow> bool" where
  "settled pkg files t dir file name w \<longleftrightarrow>
     dir = [] \<or> in_sidecar files dir file = NotThere \<or>
     (\<exists>raw. in_sidecar files dir file = FileBytes raw \<and> iCatalogSnapshot R w t name = Inr (ik_sha256 pkg raw, True))"

lemma recorded_hash:
  "map_sum id (\<lambda>(stored, isset). isset \<and> stored = sha) r = Inr True \<longleftrightarrow> r = Inr (sha, True)" for r :: "(string \<times> bool) result"
  by (cases r) auto

lemma settled_passes:
  "settled pkg files t dir file name w \<Longrightarrow> install_sidecar R pkg files now t dir False file name read loop w = (Inr (), w)"
  by (auto simp: settled_def install_sidecar_def Let_def)

lemma sidecar_settles:
  assumes "install_sidecar R pkg files now t dir force file name read loop w = (Inr u, w')"
    and "\<And>rows w n. iCatalogSnapshot R (snd (loop rows w)) t n = iCatalogSnapshot R w t n"
  shows "settled pkg files t dir file name w'" "n \<noteq> name \<Longrightarrow> iCatalogSnapshot R w' t n = iCatalogSnapshot R w t n"
proof -
  have *: "settled pkg files t dir file name w' \<and> (n \<noteq> name \<longrightarrow> iCatalogSnapshot R w' t n = iCatalogSnapshot R w t n)"
  proof (cases "dir = [] \<or> in_sidecar files dir file = NotThere")
    case True
    then show ?thesis using assms(1) by (auto simp: install_sidecar_def settled_def split: if_splits)
  next
    case False
    then obtain raw where raw: "dir \<noteq> []" "in_sidecar files dir file = FileBytes raw"
      using assms(1) by (cases "in_sidecar files dir file") (auto simp: install_sidecar_def)
    show ?thesis
    proof (cases "\<not> force \<and> iCatalogSnapshot R w t name = Inr (ik_sha256 pkg raw, True)")
      case True
      then show ?thesis using assms(1) raw by (auto simp: install_sidecar_def settled_def)
    next
      case False
      then obtain rows v w1 where "loop rows w = (v, w1)" "iSetCatalogSnapshot R w1 now t name (ik_sha256 pkg raw) = (Inr u, w')"
        using assms(1) raw
        by (auto simp: install_sidecar_def Let_def recorded_hash split: sum.splits prod.splits bool.splits if_splits)
      moreover from this have "iCatalogSnapshot R w1 t n' = iCatalogSnapshot R w t n'" for n' using assms(2) [of rows w n'] by simp
      ultimately show ?thesis using raw recorded other_name by (auto simp: settled_def)
    qed
  qed
  then show "settled pkg files t dir file name w'" "n \<noteq> name \<Longrightarrow> iCatalogSnapshot R w' t n = iCatalogSnapshot R w t n" by auto
qed

lemma embedded_settles:
  assumes "installEmbedded R pkg f files now t w = (Inr replaced, w')"
  shows "iCatalogSnapshot R w' t snapshotName = Inr (hashEmbedded pkg files, True)"
proof (cases replaced)
  case False
  then show ?thesis using assms
    by (auto simp: installEmbedded_def Let_def split: sum.splits if_splits prod.splits option.splits)
next
  case True
  have differ: "snapshotName \<noteq> textSnapshotName" by (simp add: snapshotName_def textSnapshotName_def)
  obtain w1 w2 u v where "iSetCatalogSnapshot R w1 now t snapshotName (hashEmbedded pkg files) = (Inr u, w2)"
    "iSetCatalogSnapshot R w2 now t textSnapshotName [] = (Inr v, w')"
    using assms True
    by (auto simp: installEmbedded_def Let_def split: sum.splits if_splits prod.splits option.splits)
  with recorded other_name [OF _ differ] show ?thesis by metis
qed

lemma embedded_passes:
  "iCatalogSnapshot R w t snapshotName = Inr (hashEmbedded pkg files, True) \<Longrightarrow>
   installEmbedded R pkg f files now t w = (Inr False, w)"
  by (simp add: installEmbedded_def Let_def)

lemma installed_again:
  assumes "installEmbedded R pkg f files now t w = (Inr replaced, w1)"
    and "installSkillText R pkg files now t dir replaced w1 = (Inr u, w2)" "installIcons R pkg files now t dir w2 = (Inr v, w3)"
  shows "InstallAll R pkg f files now t dir w = w3 \<and> InstallAll R pkg f files now' t dir w3 = w3"
proof -
  have names: "snapshotName \<noteq> textSnapshotName" "snapshotName \<noteq> iconSnapshotName" "textSnapshotName \<noteq> iconSnapshotName"
    by (simp_all add: snapshotName_def textSnapshotName_def iconSnapshotName_def)
  note bodies = sidecar_settles [OF assms(2) [unfolded installSkillText_def] text_loop_kept]
  note icons = sidecar_settles [OF assms(3) [unfolded installIcons_def] icon_loop_kept]
  have "iCatalogSnapshot R w3 t snapshotName = Inr (hashEmbedded pkg files, True)"
    using embedded_settles [OF assms(1)] bodies(2) [OF names(1)] icons(2) [OF names(2)] by simp
  moreover have "settled pkg files t dir textSidecarName textSnapshotName w3"
    using bodies(1) icons(2) [OF names(3)] by (simp add: settled_def)
  ultimately have "InstallAll R pkg f files now' t dir w3 = w3"
    using icons(1) by (simp add: InstallAll_def embedded_passes installSkillText_def installIcons_def settled_passes)
  then show ?thesis using assms by (simp add: InstallAll_def)
qed

end

text \<open>Both stores are such a store.\<close>

lemma pg_snapshots_kept:
  "cd_snapshots (snd (pg_ReplaceSkills db now t skills cats)) = cd_snapshots db"
  "cd_snapshots (snd (pg_ReplaceMcpMarket db t servers mcats details)) = cd_snapshots db"
  "cd_snapshots (snd (pg_ReplaceAgents db now t agents)) = cd_snapshots db"
  "cd_snapshots (snd (pg_SaveSkillTextFilesBatch e db t rows)) = cd_snapshots db"
  "cd_snapshots (snd (pg_ReplaceCatalogIcons db t icons)) = cd_snapshots db"
  by (auto simp: pg_ReplaceSkills_def pg_ReplaceMcpMarket_def pg_ReplaceAgents_def pg_SaveSkillTextFilesBatch_def
      pg_ReplaceCatalogIcons_def Let_def inShared_def rbind_Inr_iff split: sum.splits)

interpretation pg_market: snapshot_store "pg_install e"
  by unfold_locales
    (auto simp: pg_install_def pg_SetCatalogSnapshot_def pg_CatalogSnapshot_def pg_snapshots_kept update_conv split: if_splits)

interpretation mem_market: snapshot_store mem_install
  by unfold_locales
    (auto simp: mem_install_def mem_SetCatalogSnapshot_def mem_CatalogSnapshot_def mem_ReplaceSkills_def mem_ReplaceMcpMarket_def
      mem_ReplaceAgents_def mem_SaveSkillTextFilesBatch_def mem_ReplaceCatalogIcons_def Let_def get_or_def has_key_def update_conv
      split: if_splits)

text \<open>
  C39. A run of the installation that stored everything leaves nothing to do: started again with the same files, at
  any time, it changes nothing in the database (nor in the memory of the process, in the other store).
\<close>

theorem install_is_idempotent:
  assumes "installEmbedded (pg_install e) pkg f files now t db = (Inr replaced, db1)"
    and "installSkillText (pg_install e) pkg files now t dir replaced db1 = (Inr u, db2)"
    and "installIcons (pg_install e) pkg files now t dir db2 = (Inr v, db3)"
  shows "InstallAll (pg_install e) pkg f files now t dir db = db3 \<and> InstallAll (pg_install e) pkg f files now' t dir db3 = db3"
  by (rule pg_market.installed_again [OF assms])

definition sample_pkg :: install_pkg where
  "sample_pkg =
     \<lparr>ik_sha256 = (\<lambda>_. ''h''), ik_base64 = Some, ik_skills = (\<lambda>_. Inr []), ik_mcp = (\<lambda>_. Inr []), ik_agents = (\<lambda>_. Inr []),
      ik_text = (\<lambda>_. Inr [\<lparr>st_id = ''a'', st_files = [\<lparr>sf_path = ''SKILL.md'', sf_body = ''# A''\<rparr>]\<rparr>]), ik_icons = (\<lambda>_. Inr [])\<rparr>"

definition sample_files :: install_files where
  "sample_files = \<lparr>in_skills = [], in_mcp = [], in_agents = [],
     in_sidecar = (\<lambda>dir name. if name = textSidecarName then FileBytes ''text'' else NotThere)\<rparr>"

text \<open>The snapshot is stored already, the text of its skills is new.\<close>

theorem install_is_idempotent_witness:
  "let db = sample_catalog\<lparr>cd_snapshots := [(snapshotName, \<lparr>nw_sha256 = ''h'', nw_installed = 0\<rparr>)]\<rparr>;
       run = InstallAll (pg_install plain_env) sample_pkg (\<lambda>r. r) sample_files 0 ''t1'' ''d''
   in run (run db) = run db \<and> pg_GetSkillTextFiles (run db) ''t1'' ''a'' = Inr ([\<lparr>sf_path = ''SKILL.md'', sf_body = ''# A''\<rparr>], True)"
proof -
  let ?db = "sample_catalog\<lparr>cd_snapshots := [(snapshotName, \<lparr>nw_sha256 = ''h'', nw_installed = 0\<rparr>)]\<rparr>"
  let ?R = "pg_install plain_env" and ?files = "[\<lparr>sf_path = ''SKILL.md'', sf_body = ''# A''\<rparr>]"
  let ?rows = "[(''a'', (sample_row ''a'' ''100%_Go'')\<lparr>kw_files := Some ?files\<rparr>), (''b'', sample_row ''b'' ''100 Go'')]"
  let ?db3 = "?db\<lparr>cd_skills := ?rows, cd_snapshots := cd_snapshots ?db @ [(textSnapshotName, \<lparr>nw_sha256 = ''h'', nw_installed = 0\<rparr>)]\<rparr>"
  have texts: "db_text snapshotName" "db_text textSnapshotName" "db_text ''a''" "db_text ''h''" "db_text ''SKILL.md''" "db_text ''# A''"
    unfolding snapshotName_def textSnapshotName_def by (rule ascii_text, simp)+
  then have json: "no_nul ''SKILL.md''" "no_nul ''# A''" "jsonb_string ''SKILL.md'' = ''SKILL.md''" "jsonb_string ''# A'' = ''# A''"
    by (simp_all add: db_text_def)
  have names: "textSnapshotName \<noteq> snapshotName" "iconSidecarName \<noteq> textSidecarName"
    by (simp_all add: snapshotName_def textSnapshotName_def iconSidecarName_def textSidecarName_def)
  have a: "installEmbedded ?R sample_pkg (\<lambda>r. r) sample_files 0 ''t1'' ?db = (Inr False, ?db)"
    by (simp add: installEmbedded_def pg_install_def pg_CatalogSnapshot_def hashEmbedded_def sample_pkg_def texts)
  have b: "installSkillText ?R sample_pkg sample_files 0 ''t1'' ''d'' False ?db = (Inr (), ?db3)"
    by (simp add: installSkillText_def install_sidecar_def sample_files_def sample_pkg_def pg_install_def pg_CatalogSnapshot_def texts names
        flush_text_def textInstallChunk_def pg_SaveSkillTextFilesBatch_def batches.simps textChunk_def update_text_def files_texts_def json
        inShared_def jsonb_files_def sample_catalog_def pg_SetCatalogSnapshot_def db_time_def Let_def names(1) [symmetric])
  have c: "installIcons ?R sample_pkg sample_files 0 ''t1'' ''d'' ?db3 = (Inr (), ?db3)"
    using names by (simp add: installIcons_def install_sidecar_def sample_files_def)
  have "pg_GetSkillTextFiles ?db3 ''t1'' ''a'' = Inr (?files, True)" by (simp add: pg_GetSkillTextFiles_def texts)
  with install_is_idempotent [OF a b c] show ?thesis by (simp add: Let_def)
qed

section \<open>A text that is lost\<close>

text \<open>The process ends, or the database does not answer, before the last write of \<open>installEmbedded\<close>.\<close>

definition cut_before_mark :: "'w install_ops \<Rightarrow> 'w install_ops" where
  "cut_before_mark R = R\<lparr>iSetCatalogSnapshot := \<lambda>w now t n s.
     if n = textSnapshotName \<and> s = [] then (Inl ErrStorage, w) else iSetCatalogSnapshot R w now t n s\<rparr>"

lemma stored_skills_have_no_text:
  assumes "pg_ReplaceSkills db now t rows cats = (Inr u, db')" "map_of (cd_skills db') i = Some r"
  shows "kw_files r = None"
proof -
  obtain tab where tab: "insert_rows kw_id skill_row_ok (map (skill_row now) (filter (\<lambda>row. sk_id row \<noteq> []) rows)) [] = Inr tab"
    and "cd_skills db' = tab"
    using assms(1) by (auto simp: pg_ReplaceSkills_def inShared_def Let_def rbind_Inr_iff split: if_splits sum.splits)
  then have "(i, r) \<in> (\<lambda>r. (kw_id r, r)) ` skill_row now ` set rows"
    using insert_rows_fold [OF tab] set_fold_update [of kw_id _ "[]"] map_of_SomeD [OF assms(2)] by fastforce
  then show ?thesis by (auto simp: skill_row_def)
qed

text \<open>A new snapshot is refused before anything is written, or its calls are made in turn.\<close>

lemma embedded_calls:
  assumes "installEmbedded R pkg f files now t w = (r, w')" "iCatalogSnapshot R w t snapshotName \<noteq> Inr (hashEmbedded pkg files, True)"
  obtains (refused) e where "r = Inl e" "w' = w"
  | (calls) skills cats servers details agents out where
      "in_turn [\<lambda>w. iReplaceSkills R w now t skills cats, \<lambda>w. iReplaceMcpMarket R w t servers Categories details,
         \<lambda>w. iReplaceAgents R w now t agents, \<lambda>w. iSetCatalogSnapshot R w now t snapshotName (hashEmbedded pkg files),
         \<lambda>w. iSetCatalogSnapshot R w now t textSnapshotName []] w = (out, w')"
      "r = (case out of Some e \<Rightarrow> Inl e | None \<Rightarrow> Inr True)"
proof (cases "iCatalogSnapshot R w t snapshotName")
  case (Inl e)
  then show ?thesis using assms(1) by (intro refused [of e]) (auto simp: installEmbedded_def Let_def)
next
  case (Inr p)
  obtain stored isset where p: "p = (stored, isset)" by fastforce
  define L where "L = rbind (ik_skills pkg (in_skills files)) (\<lambda>s. rbind (rbind (ik_mcp pkg (in_mcp files)) (loadMcp f))
    (\<lambda>m. rbind (ik_agents pkg (in_agents files)) (\<lambda>a. Inr (loadSkills s, m, loadAgents a))))"
  have new: "\<not> (isset \<and> stored = hashEmbedded pkg files)" using assms(2) Inr p by auto
  show ?thesis
  proof (cases L)
    case (Inl e)
    then show ?thesis using assms(1) Inr p new by (intro refused [of e]) (auto simp: installEmbedded_def Let_def simp flip: L_def)
  next
    case (Inr x)
    obtain skills cats servers details agents where "x = ((skills, cats), (servers, details), agents)" by (metis surj_pair)
    then show ?thesis using assms(1) Inr \<open>iCatalogSnapshot R w t snapshotName = Inr p\<close> p new calls [of skills cats servers details agents]
      by (auto simp: installEmbedded_def Let_def simp del: in_turn.simps simp flip: L_def split: prod.splits option.splits)
  qed
qed

text \<open>The writes of a snapshot, as far as they got, and what they leave recorded.\<close>

lemma cut_calls:
  assumes "in_turn [\<lambda>w. pg_ReplaceSkills w now t skills cats, \<lambda>w. pg_ReplaceMcpMarket w t servers mcats details,
      \<lambda>w. pg_ReplaceAgents w now t agents, \<lambda>w. pg_SetCatalogSnapshot w now t snapshotName sha, \<lambda>w. (Inl ErrStorage, w)] db = (out, db1)"
  shows "out \<noteq> None \<and> (cd_snapshots db1 = cd_snapshots db \<or>
    pg_CatalogSnapshot db1 t textSnapshotName = pg_CatalogSnapshot db t textSnapshotName \<and>
    (\<forall>i row. map_of (cd_skills db1) i = Some row \<longrightarrow> kw_files row = None))"
proof -
  obtain a1 d1 where 1: "pg_ReplaceSkills db now t skills cats = (a1, d1)" by fastforce
  obtain a2 d2 where 2: "pg_ReplaceMcpMarket d1 t servers mcats details = (a2, d2)" by fastforce
  obtain a3 d3 where 3: "pg_ReplaceAgents d2 now t agents = (a3, d3)" by fastforce
  obtain a4 d4 where 4: "pg_SetCatalogSnapshot d3 now t snapshotName sha = (a4, d4)" by fastforce
  have "cd_skills (snd (pg_ReplaceMcpMarket d1 t servers mcats details)) = cd_skills d1"
    "cd_skills (snd (pg_ReplaceAgents d2 now t agents)) = cd_skills d2"
    "cd_skills (snd (pg_SetCatalogSnapshot d3 now t snapshotName sha)) = cd_skills d3"
    by (auto simp: pg_ReplaceMcpMarket_def pg_ReplaceAgents_def pg_SetCatalogSnapshot_def Let_def inShared_def rbind_Inr_iff split: sum.splits)
  then have skills: "cd_skills d4 = cd_skills d1" by (simp add: 2 3 4)
  have snaps: "cd_snapshots d1 = cd_snapshots db" "cd_snapshots d2 = cd_snapshots db" "cd_snapshots d3 = cd_snapshots db"
    using pg_snapshots_kept(1) [of db now t skills cats] pg_snapshots_kept(2) [of d1 t servers mcats details]
      pg_snapshots_kept(3) [of d2 now t agents] by (simp_all add: 1 2 3)
  have "pg_CatalogSnapshot d4 t textSnapshotName = pg_CatalogSnapshot db t textSnapshotName"
    using pg_market.other_name [of _ d3 now t snapshotName sha a4 d4 textSnapshotName] 4 snaps(3)
    by (simp add: pg_install_def pg_CatalogSnapshot_def snapshotName_def textSnapshotName_def)
  moreover have "kw_files row = None" if "a1 = Inr u" "map_of (cd_skills d4) i = Some row" for u i row
    using stored_skills_have_no_text [OF 1 [unfolded that(1)]] that(2) skills by simp
  moreover have "cd_snapshots d4 = cd_snapshots db" if "a4 = Inl e" for e
    using 4 that snaps(3) by (auto simp: pg_SetCatalogSnapshot_def split: if_splits)
  ultimately show ?thesis using assms snaps by (auto simp: 1 2 3 4 split: sum.splits)
qed

lemma cut_run:
  assumes "installEmbedded (cut_before_mark (pg_install e)) pkg f files now t db = (r, db1)"
    and "pg_CatalogSnapshot db t snapshotName \<noteq> Inr (hashEmbedded pkg files, True)"
  shows "\<exists>x. r = Inl x" "pg_CatalogSnapshot db1 t snapshotName = Inr (hashEmbedded pkg files, True) \<Longrightarrow>
    pg_CatalogSnapshot db1 t textSnapshotName = pg_CatalogSnapshot db t textSnapshotName \<and>
    (\<forall>i row. map_of (cd_skills db1) i = Some row \<longrightarrow> kw_files row = None)"
proof -
  have names: "snapshotName \<noteq> textSnapshotName" by (simp add: snapshotName_def textSnapshotName_def)
  have same: "cd_snapshots db1 = cd_snapshots db \<Longrightarrow> pg_CatalogSnapshot db1 t n = pg_CatalogSnapshot db t n" for n
    by (simp add: pg_CatalogSnapshot_def)
  have "iCatalogSnapshot (cut_before_mark (pg_install e)) db t snapshotName \<noteq> Inr (hashEmbedded pkg files, True)"
    using assms(2) by (simp add: cut_before_mark_def pg_install_def)
  with assms(1) have "(\<exists>x. r = Inl x) \<and> (db1 = db \<or> cd_snapshots db1 = cd_snapshots db \<or>
    pg_CatalogSnapshot db1 t textSnapshotName = pg_CatalogSnapshot db t textSnapshotName \<and>
    (\<forall>i row. map_of (cd_skills db1) i = Some row \<longrightarrow> kw_files row = None))"
  proof (cases rule: embedded_calls)
    case (calls skills cats servers details agents out)
    then show ?thesis using cut_calls [of now t skills cats servers Categories details agents "hashEmbedded pkg files" db out db1] names
      by (simp add: cut_before_mark_def pg_install_def del: in_turn.simps split: option.split)
  qed simp
  then show "\<exists>x. r = Inl x" "pg_CatalogSnapshot db1 t snapshotName = Inr (hashEmbedded pkg files, True) \<Longrightarrow>
    pg_CatalogSnapshot db1 t textSnapshotName = pg_CatalogSnapshot db t textSnapshotName \<and>
    (\<forall>i row. map_of (cd_skills db1) i = Some row \<longrightarrow> kw_files row = None)"
    using assms(2) same by auto
qed

text \<open>
  When a new snapshot is stored but the process ends before \<open>installEmbedded\<close> has emptied the record of the text
  (its last write), the texts of the skills, which the new snapshot wiped, are never stored again: the next
  runs find both hashes unchanged, change nothing, and no skill has its text (a defect).
\<close>

theorem lost_mark_loses_text:
  assumes "InstallAll (cut_before_mark (pg_install e)) pkg f files now t dir db = db1"
    and "pg_CatalogSnapshot db t snapshotName \<noteq> Inr (hashEmbedded pkg files, True)"
    and "pg_CatalogSnapshot db1 t snapshotName = Inr (hashEmbedded pkg files, True)"
    and "in_sidecar files dir textSidecarName = FileBytes raw" "pg_CatalogSnapshot db t textSnapshotName = Inr (ik_sha256 pkg raw, True)"
    and "in_sidecar files dir iconSidecarName = NotThere" "t \<noteq> []"
  shows "InstallAll (pg_install e) pkg f files now' t dir db1 = db1 \<and>
    (\<forall>i. i \<noteq> [] \<and> db_text i \<and> has_key (cd_skills db1) i \<longrightarrow> pg_GetSkillTextFiles db1 t i = Inr ([], False))"
proof -
  obtain r w1 where emb: "installEmbedded (cut_before_mark (pg_install e)) pkg f files now t db = (r, w1)" by fastforce
  have db1: "db1 = w1" using assms(1) cut_run(1) [OF emb assms(2)] emb by (auto simp: InstallAll_def)
  note cut = cut_run(2) [OF emb assms(2), folded db1, OF assms(3)]
  have "pg_market.settled e pkg files t dir textSidecarName textSnapshotName db1"
    "pg_market.settled e pkg files t dir iconSidecarName iconSnapshotName db1"
    using cut assms(4-6) by (simp_all add: pg_market.settled_def) (simp add: pg_install_def)
  moreover have "installEmbedded (pg_install e) pkg f files now' t db1 = (Inr False, db1)"
    using assms(3) by (intro pg_market.embedded_passes) (simp add: pg_install_def)
  ultimately have "InstallAll (pg_install e) pkg f files now' t dir db1 = db1"
    by (simp add: InstallAll_def installSkillText_def installIcons_def pg_market.settled_passes)
  then show ?thesis using cut assms(7) by (auto simp: pg_GetSkillTextFiles_def has_key_def split: option.split)
qed

text \<open>The sidebar is text the database takes.\<close>

lemma runes_text: "list_all (\<lambda>r. valid_rune r \<and> 128 \<le> r) rs \<Longrightarrow> db_text (string_of_runes rs)"
proof -
  assume rs: "list_all (\<lambda>r. valid_rune r \<and> 128 \<le> r) rs"
  then have "list_all valid_rune rs" by (auto simp: list_all_iff)
  moreover have "byte 0 \<notin> set (string_of_runes rs)"
    using rs encode_rune_high by (fastforce simp: string_of_runes_def list_all_iff)
  ultimately show ?thesis by (simp add: db_text_def jsonb_string_def no_nul_def runes_string_of_runes)
qed

lemma categories_ok: "list_all market_category_ok Categories" "distinct (map mc_key Categories)" "[] \<notin> set (map mc_key Categories)"
proof -
  have keys: "map mc_key Categories = map fst sidebar_labels"
    by (simp add: Categories_def sidebar_labels_def)
  have labels: "db_text (fst kl)" "db_text (string_of_runes (snd kl))" if "kl \<in> set sidebar_labels" for kl
    using that by (intro ascii_text runes_text; auto simp: sidebar_labels_def valid_rune_def)+
  have "market_category_ok \<lparr>mc_key = fst kl, mc_name = string_of_runes (snd kl), mc_order = int i + 1\<rparr>"
    if "(i, kl) \<in> set (enumerate 0 sidebar_labels)" for i kl
  proof -
    have "i < 14" "kl \<in> set sidebar_labels" using that by (auto simp: in_set_enumerate_eq) (simp add: sidebar_labels_def)
    then show ?thesis using labels by (simp add: market_category_ok_def in_int32_def)
  qed
  then show "list_all market_category_ok Categories" unfolding Categories_def list_all_iff by fastforce
  show "distinct (map mc_key Categories)" "[] \<notin> set (map mc_key Categories)" unfolding keys by (simp_all add: sidebar_labels_def)
qed

definition sample_snap :: snapSkill where
  "sample_snap =
     \<lparr>ss_id = ''@a/b'', ss_handle = ''@a'', ss_slug = ''b'', ss_name = ''B'', ss_description = [], ss_description_en = [], ss_category = [],
      ss_category_name = [], ss_category_name_en = [], ss_category_order = 0, ss_tags = [], ss_license = [], ss_icon = [],
      ss_source_url = [], ss_downloads = 0, ss_visits = 0, ss_likes = 0, ss_updated = 0, ss_source = []\<rparr>"

definition next_pkg :: install_pkg where
  "next_pkg = sample_pkg\<lparr>ik_skills := (\<lambda>_. Inr [sample_snap]), ik_mcp := (\<lambda>_. Inr [sample_mcp [] []])\<rparr>"

definition next_catalog :: cat_db where
  "next_catalog = sample_catalog\<lparr>cd_snapshots := [(snapshotName, \<lparr>nw_sha256 = ''old'', nw_installed = 0\<rparr>),
     (textSnapshotName, \<lparr>nw_sha256 = ''h'', nw_installed = 0\<rparr>)]\<rparr>"

lemma name_texts: "db_text snapshotName" "db_text textSnapshotName" "db_text ''h''" "textSnapshotName \<noteq> snapshotName"
  by (auto simp: snapshotName_def textSnapshotName_def intro!: ascii_text)

lemma next_calls:
  defines "d1 \<equiv> next_catalog\<lparr>cd_skills := [(''@a/b'', skill_row 0 (skill_of sample_snap))]\<rparr>"
  shows "pg_ReplaceSkills next_catalog 0 ''t1'' [skill_of sample_snap] [] = (Inr (), d1)"
    and "\<exists>m dt c. pg_ReplaceMcpMarket d1 ''t1'' [market_card (sample_mcp [] [])] Categories [detail_of (sample_mcp [] [])] =
      (Inr (), d1\<lparr>cd_market := m, cd_market_details := dt, cd_market_categories := c\<rparr>)"
proof -
  have "db_text ''@a/b''" "db_text ''@a''" "db_text ''b''" "db_text ''B''" "db_text []" "db_text ''common''" "db_text ''a''" "db_text ''A''" "db_text ''search''"
    by (rule ascii_text, simp)+
  note texts = this
  have "skill_row_ok (skill_row 0 (skill_of sample_snap))"
    unfolding skill_row_ok_row by (simp add: skill_of_def sample_snap_def texts source_def)
  moreover have "kw_id (skill_row 0 (skill_of sample_snap)) = ''@a/b''" "sk_id (skill_of sample_snap) = ''@a/b''"
    by (simp_all add: skill_row_def skill_of_def sample_snap_def)
  ultimately show "pg_ReplaceSkills next_catalog 0 ''t1'' [skill_of sample_snap] [] = (Inr (), d1)"
    by (simp add: pg_ReplaceSkills_def inShared_def upsert_rows_def d1_def has_key_def next_catalog_def)
  have "filter (\<lambda>row. mc_key row \<noteq> []) Categories = Categories" using categories_ok(3) by (auto simp: filter_id_conv image_iff)
  moreover have "server_row_ok (server_row (market_card (sample_mcp [] [])))" "mm_id (market_card (sample_mcp [] [])) = ''a''"
    "vw_id (server_row (market_card (sample_mcp [] []))) = ''a''"
    by (simp_all add: server_row_ok_def server_row_def market_card_def sample_mcp_def texts in_int32_def source_def)
  moreover have "detail_row_ok (detail_row (detail_of (sample_mcp [] [])))" "md_id (detail_of (sample_mcp [] [])) = ''a''"
    "md_id (detail_row (detail_of (sample_mcp [] []))) = ''a''"
    by (simp_all add: detail_row_ok_def detail_row_def detail_of_def sample_mcp_def texts tools_texts_def jsonb_tools_def)
  ultimately show "\<exists>m dt c. pg_ReplaceMcpMarket d1 ''t1'' [market_card (sample_mcp [] [])] Categories [detail_of (sample_mcp [] [])] =
      (Inr (), d1\<lparr>cd_market := m, cd_market_details := dt, cd_market_categories := c\<rparr>)"
    using categories_ok(1,2) by (simp add: pg_ReplaceMcpMarket_def inShared_def upsert_rows_def has_key_def) blast
qed

lemma next_load:
  "rbind (ik_skills next_pkg x) (\<lambda>s. rbind (rbind (ik_mcp next_pkg y) (loadMcp (\<lambda>r. r))) (\<lambda>m. rbind (ik_agents next_pkg z)
     (\<lambda>a. Inr (loadSkills s, m, loadAgents a)))) =
   Inr (([skill_of sample_snap], []), ([market_card (sample_mcp [] [])], [detail_of (sample_mcp [] [])]), [])"
proof -
  have "SkillPathID ''@a'' ''b'' = Some ''@a/b''" "\<not> containsURL (\<lambda>r. r) [''a'', ''A'', [], [], ''search'']" "\<not> containsURL (\<lambda>r. r) [[], [], []]"
    by code_simp+
  then show ?thesis
    by (simp add: next_pkg_def sample_pkg_def loadSkills_def sample_snap_def snap_usable_def category_of_def put_rows_def loadMcp_def
        loadAgents_def sample_mcp_def detail_of_def)
qed

text \<open>The skill of the new snapshot has a text in the sidecar, and the store records that it has it.\<close>

theorem lost_mark_loses_text_witness:
  "let db1 = InstallAll (cut_before_mark (pg_install plain_env)) next_pkg (\<lambda>r. r) sample_files 0 ''t1'' ''d'' next_catalog
   in InstallAll (pg_install plain_env) next_pkg (\<lambda>r. r) sample_files 9 ''t1'' ''d'' db1 = db1 \<and>
     pg_GetSkillTextFiles db1 ''t1'' ''@a/b'' = Inr ([], False)"
proof -
  let ?R = "cut_before_mark (pg_install plain_env)"
  let ?db1 = "InstallAll ?R next_pkg (\<lambda>r. r) sample_files 0 ''t1'' ''d'' next_catalog"
  have hash: "hashEmbedded next_pkg sample_files = ''h''" by (simp add: hashEmbedded_def next_pkg_def sample_pkg_def)
  have other: "iconSidecarName \<noteq> textSidecarName" by (simp add: iconSidecarName_def textSidecarName_def)
  have i: "db_text ''@a/b''" by (rule ascii_text) simp
  have snaps: "cd_snapshots next_catalog = [(snapshotName, \<lparr>nw_sha256 = ''old'', nw_installed = 0\<rparr>),
      (textSnapshotName, \<lparr>nw_sha256 = ''h'', nw_installed = 0\<rparr>)]"
    by (simp add: next_catalog_def)
  have db1: "pg_CatalogSnapshot ?db1 ''t1'' snapshotName = Inr (''h'', True)" "has_key (cd_skills ?db1) ''@a/b''"
    using next_calls(2)
    by (auto simp: InstallAll_def installEmbedded_def hash next_load cut_before_mark_def pg_install_def Let_def next_calls(1)
        pg_ReplaceAgents_def inShared_def pg_SetCatalogSnapshot_def pg_CatalogSnapshot_def name_texts snaps has_key_def
        name_texts(4) [symmetric])
  have old: "pg_CatalogSnapshot next_catalog ''t1'' snapshotName \<noteq> Inr (hashEmbedded next_pkg sample_files, True)"
    "pg_CatalogSnapshot next_catalog ''t1'' textSnapshotName = Inr (ik_sha256 next_pkg ''text'', True)"
    by (simp add: pg_CatalogSnapshot_def name_texts snaps hash)
      (simp add: pg_CatalogSnapshot_def name_texts snaps next_pkg_def sample_pkg_def)
  have sidecars: "in_sidecar sample_files ''d'' textSidecarName = FileBytes ''text''" "in_sidecar sample_files ''d'' iconSidecarName = NotThere"
    using other by (simp_all add: sample_files_def)
  from lost_mark_loses_text [OF refl old(1) db1(1) [folded hash] sidecars(1) old(2) sidecars(2)] i db1(2)
  show ?thesis unfolding Let_def by simp
qed

end
