(* ===== verification/Artifact_Signer.thy ===== *)
theory Artifact_Signer
  imports Service_Records Service_Tasks Pg_Sample
begin

text \<open>
  The signer of artifact URLs over an object store (\<open>internal/artifacts/minio.go\<close>) and what the artifact route gives out
  with it on the Postgres store. \<open>url.Parse\<close> and the client of the object store are outside: an endpoint parses to its
  scheme and host, a client can be refused its options, and it signs the name of an object in a bucket.
\<close>

section \<open>The signer\<close>

record s3_options =
  so_host :: string
  so_access :: string
  so_secret :: string
  so_secure :: bool
  so_region :: string

record s3_pkg =
  sp_parse :: "string \<Rightarrow> (string \<times> string) option"
  sp_new :: "s3_options \<Rightarrow> bool"
  sp_presign :: "s3_options \<Rightarrow> string \<Rightarrow> string \<Rightarrow> time \<Rightarrow> string option"

record MinIO =
  mi_client :: s3_options
  mi_bucket :: string
  mi_TTL :: time

definition ten_minutes :: time where
  "ten_minutes = 600000000000"

definition s3_New :: "s3_pkg \<Rightarrow> string \<Rightarrow> string \<Rightarrow> string \<Rightarrow> string \<Rightarrow> bool \<Rightarrow> MinIO result" where
  "s3_New K endpoint0 accessKey secretKey bucket secure =
     (let endpoint = trim_space endpoint0 in
      if endpoint = [] \<or> accessKey = [] \<or> secretKey = [] \<or> bucket = []
      then Inl (ErrText ''artifact object store configuration is incomplete'')
      else case sp_parse K endpoint of
        None \<Rightarrow> Inl (ErrText ''artifact object store endpoint is invalid'')
      | Some (scheme, host) \<Rightarrow>
          if host = [] \<or> scheme = [] then Inl (ErrText ''artifact object store endpoint is invalid'')
          else if scheme \<noteq> ''http'' \<and> scheme \<noteq> ''https''
          then Inl (ErrText ''artifact object store endpoint must use http or https'')
          else
            let opts = \<lparr>so_host = host, so_access = accessKey, so_secret = secretKey, so_secure = secure \<or> scheme = ''https'',
              so_region = ''us-east-1''\<rparr> in
            if \<not> sp_new K opts then Inl (ErrText ''artifact object store client setup failed'')
            else Inr \<lparr>mi_client = opts, mi_bucket = bucket, mi_TTL = ten_minutes\<rparr>)"

definition artifact_object :: "string \<Rightarrow> string \<Rightarrow> string" where
  "artifact_object tenantID digest = ''artifacts/'' @ tenantID @ ''/'' @ digest"

definition s3_ttl :: "MinIO \<Rightarrow> time" where
  "s3_ttl m = (if mi_TTL m \<le> 0 then ten_minutes else mi_TTL m)"

definition s3_PresignArtifact :: "s3_pkg \<Rightarrow> MinIO \<Rightarrow> Principal \<Rightarrow> ArtifactManifest \<Rightarrow> obj \<Rightarrow> string result" where
  "s3_PresignArtifact K m p manifest entry =
     (if TenantID p = [] \<or> am_task manifest = [] then Inl ErrNotFound
      else let ref = str_or_empty entry ''blob_ref'' in
        if \<not> sha256Ref ref then Inl (ErrText ''artifact entry has an invalid blob reference'')
        else case sp_presign K (mi_client m) (mi_bucket m) (artifact_object (TenantID p) (trim_prefix ref ''sha256:'')) (s3_ttl m) of
          None \<Rightarrow> Inl (ErrText ''artifact URL could not be created'')
        | Some url \<Rightarrow> Inr url)"

definition s3_signer :: "s3_pkg \<Rightarrow> MinIO \<Rightarrow> 'w signer" where
  "s3_signer K m w = s3_PresignArtifact K m"

section \<open>What is signed\<close>

text \<open>An object's name tells its tenant and its digest: a digest holds no slash.\<close>

lemma hex_digit_slash: "\<not> hex_digit (CHR ''/'')"
  by (simp add: hex_digit_def byte_in_def)

lemma artifact_object_inj:
  assumes "hex64 h" "hex64 h'" "artifact_object t h = artifact_object t' h'"
  shows "t = t' \<and> h = h'"
proof -
  have "length h = length h'" using assms(1,2) by (simp add: hex64_def)
  moreover have "(t @ ''/'') @ h = (t' @ ''/'') @ h'" using assms(3) by (simp add: artifact_object_def)
  ultimately show ?thesis by simp
qed

lemma ten_minutes_pos: "0 < s3_ttl m"
  by (simp add: s3_ttl_def ten_minutes_def)

lemma s3_signed:
  assumes "s3_PresignArtifact K m p manifest entry = Inr url"
  obtains h where "str_or_empty entry ''blob_ref'' = ''sha256:'' @ h" "hex64 h"
    "sp_presign K (mi_client m) (mi_bucket m) (artifact_object (TenantID p) h) (s3_ttl m) = Some url"
proof -
  let ?ref = "str_or_empty entry ''blob_ref''"
  have ref: "sha256Ref ?ref" and url: "sp_presign K (mi_client m) (mi_bucket m)
      (artifact_object (TenantID p) (trim_prefix ?ref ''sha256:'')) (s3_ttl m) = Some url"
    using assms by (auto simp: s3_PresignArtifact_def Let_def split: if_splits option.splits)
  have "take (length ''sha256:'') ?ref = ''sha256:''" using ref unfolding sha256Ref_def has_prefix_def by blast
  then have "?ref = ''sha256:'' @ drop (length ''sha256:'') ?ref" by (metis append_take_drop_id)
  then have "?ref = ''sha256:'' @ drop 7 ?ref" by (simp add: eval_nat_numeral)
  moreover have "trim_prefix ?ref ''sha256:'' = drop 7 ?ref"
    using ref by (simp add: sha256Ref_def trim_prefix_def eval_nat_numeral)
  ultimately show thesis using that [of "drop 7 ?ref"] ref url by (simp add: sha256Ref_def)
qed

lemma pg_signed_iff:
  assumes "projection d = Some pg_projection" "artifactSigner d = Some sign"
  shows "svc_PresignArtifact d s p i name = (Inr url, s') \<longleftrightarrow> s' = s \<and>
    (\<exists>am entry. pg_GetManifest (world s) p i = Inr am \<and>
       find (\<lambda>entry. str_or_empty entry ''name'' = name) (am_entries am) = Some entry \<and> sign (world s) p am entry = Inr url)"
  using assms by (auto simp: svc_PresignArtifact_def svc_GetManifest_def pg_projection_def split: sum.split option.split)

lemma DeleteTask_manifests: "db_manifests (snd (pg_DeleteTask db now p i)) = db_manifests db"
  by (simp add: pg_DeleteTask_def split: option.split)

lemma DeleteTask_gone:
  "pg_DeleteTask db now p i = (Inr (), db') \<Longrightarrow> TenantID q \<noteq> [] \<Longrightarrow> pg_GetTask db' q i = Inl ErrNotFound"
  by (auto simp: pg_DeleteTask_def pg_GetTask_def visible_to_def update_conv split: option.splits if_splits)


text \<open>
  C36. A manifest is guarded by its tenant alone: a URL that was given out is given to every user of the tenant, also after
  the task was deleted and though none of them can read it.
\<close>

theorem deleted_task_keeps_artifacts:
  assumes "projection d = Some pg_projection" "artifactSigner d = Some (s3_signer K m)"
    and "svc_PresignArtifact d s p i name = (Inr url, s')" "svc_Delete d s now p task = (Inr u, s1)" "TenantID q = TenantID p"
  shows "svc_PresignArtifact d s1 q i name = (Inr url, s1) \<and> svc_Get d s1 q task = (Inl ErrNotFound, s1)"
proof -
  have tenant: "TenantID p \<noteq> []"
    using assms(3) by (auto simp: pg_signed_iff [OF assms(1,2)] pg_GetManifest_def)
  have gone: "pg_DeleteTask (world s) now p task = (Inr (), world s1)"
    using assms(1,4)
    by (auto simp: svc_Delete_def svc_Get_def cancelInBackground_def cacheTask_def pg_projection_def Let_def
        split: sum.splits prod.splits if_splits)
  have "db_manifests (world s1) = db_manifests (world s)"
    using DeleteTask_manifests [of "world s" now p task] gone by simp
  then have "pg_GetManifest (world s1) q i = pg_GetManifest (world s) p i"
    by (simp add: pg_GetManifest_def assms(5) cong: option.case_cong)
  moreover have "s3_signer K m (world s1) q = s3_signer K m (world s) p"
    by (intro ext) (simp only: s3_signer_def s3_PresignArtifact_def assms(5))
  moreover have "pg_GetTask (world s1) q task = Inl ErrNotFound"
    using DeleteTask_gone [OF gone, of q] tenant assms(5) by simp
  ultimately show ?thesis
    using assms(1,3) by (auto simp: pg_signed_iff [OF assms(1,2)] svc_Get_def pg_projection_def)
qed

text \<open>The service on a database with a manifest of one artifact, and a bob who is alice's colleague.\<close>

definition plain_s3 :: s3_pkg where
  "plain_s3 = \<lparr>sp_parse = (\<lambda>u. Some (''https'', u)), sp_new = (\<lambda>_. True),
     sp_presign = (\<lambda>o' b name ttl. Some (so_host o' @ ''/'' @ b @ ''/'' @ name))\<rparr>"

definition sample_s3 :: MinIO where
  "sample_s3 = \<lparr>mi_client = \<lparr>so_host = ''s3'', so_access = ''a'', so_secret = ''b'', so_secure = True, so_region = ''us-east-1''\<rparr>,
     mi_bucket = ''orbit'', mi_TTL = ten_minutes\<rparr>"

definition sample_digest :: string where
  "sample_digest = replicate 64 (CHR ''a'')"

definition artifact_db :: task_db where
  "artifact_db = sample_db\<lparr>db_manifests := [(''man_1'', \<lparr>mr_id = ''man_1'', mr_tenant = ''t1'', mr_task = ''task_1'',
     mr_attempt = ''att_1'', mr_entries = Arr [Obj [(''name'', Str ''out''), (''blob_ref'', Str (''sha256:'' @ sample_digest))]],
     mr_hash = ''sha256:'', mr_created = 0\<rparr>)]\<rparr>"

definition artifact_deps :: "((string \<times> unit) list, task_db) deps" where
  "artifact_deps = pg_deps\<lparr>artifactSigner := Some (s3_signer plain_s3 sample_s3)\<rparr>"

definition artifact_sys :: "((string \<times> unit) list, task_db) sys" where
  "artifact_sys = \<lparr>svc = NewService [], world = artifact_db, background = []\<rparr>"

abbreviation bob :: Principal where
  "bob \<equiv> \<lparr>TenantID = ''t1'', UserID = ''bob''\<rparr>"

lemmas artifact_defs = artifact_deps_def artifact_sys_def pg_deps_def artifact_db_def sample_defs

lemma artifact_signed:
  "svc_PresignArtifact artifact_deps artifact_sys alice ''man_1'' ''out''
    = (Inr (''s3/orbit/artifacts/t1/'' @ sample_digest), artifact_sys)"
  by code_simp


theorem deleted_task_keeps_artifacts_witness:
  "\<exists>s1. svc_Delete artifact_deps artifact_sys 3000 alice ''task_1'' = (Inr (), s1) \<and>
    svc_PresignArtifact artifact_deps s1 bob ''man_1'' ''out'' = (Inr (''s3/orbit/artifacts/t1/'' @ sample_digest), s1) \<and>
    svc_Get artifact_deps s1 bob ''task_1'' = (Inl ErrNotFound, s1)"
proof -
  have d: "projection artifact_deps = Some pg_projection" "artifactSigner artifact_deps = Some (s3_signer plain_s3 sample_s3)"
    by (simp_all add: artifact_deps_def pg_deps_def)
  obtain s1 where "svc_Delete artifact_deps artifact_sys 3000 alice ''task_1'' = (Inr (), s1)"
    by (simp add: svc_Delete_def svc_Get_def cancelInBackground_def cacheTask_def pg_projection_def pg_GetTask_def
        pg_DeleteTask_def visible_to_def artifact_defs)
  with deleted_task_keeps_artifacts [OF d artifact_signed this, of bob] show ?thesis by simp
qed

end
