(* ===== verification/Orch_Client.thy ===== *)
theory Orch_Client
  imports Service_State
begin

text \<open>
  The client that drives the workflows (\<open>internal/orch/client.go\<close>), over the Temporal SDK, which is outside: what it answers
  to a start, a query, an update or a signal, when, and how a workflow's value decodes. Times are milliseconds. A context is
  when it is done and why, and a handle of an update answers a wait under a context that began at a time, with the time of
  its answer.
\<close>

datatype tc_err = AppError string string | DeadlineExceeded | Canceled | TcOther string

type_synonym ctx = "(nat \<times> tc_err) option"

definition ctx_err :: "ctx \<Rightarrow> nat \<Rightarrow> tc_err option" where
  "ctx_err c t = (case c of None \<Rightarrow> None | Some (done_at, e) \<Rightarrow> if done_at \<le> t then Some e else None)"

definition with_timeout :: "ctx \<Rightarrow> nat \<Rightarrow> nat \<Rightarrow> ctx" where
  "with_timeout c now wait =
     (case c of
        Some (done_at, e) \<Rightarrow> if done_at \<le> now + wait then c else Some (now + wait, DeadlineExceeded)
      | None \<Rightarrow> Some (now + wait, DeadlineExceeded))"

type_synonym handle = "ctx \<Rightarrow> nat \<Rightarrow> (tc_err + goval) \<times> nat"

datatype conflict_policy = UseExisting | TerminateExisting | FailOnConflict
datatype reuse_policy = AllowDuplicate | AllowDuplicateFailedOnly | RejectDuplicate

record start_options =
  so_id :: string
  so_queue :: string
  so_conflict :: conflict_policy
  so_reuse :: reuse_policy

record update_options =
  uo_update :: string
  uo_workflow :: string
  uo_name :: string
  uo_args :: "goval list"

record 'w temporal =
  tExecuteWorkflow :: "'w \<Rightarrow> start_options \<Rightarrow> string \<Rightarrow> TaskWorkflowInput \<Rightarrow> (tc_err + unit) \<times> 'w"
  tQueryWorkflow :: "'w \<Rightarrow> string \<Rightarrow> string \<Rightarrow> tc_err + goval"
  tUpdateWorkflow :: "'w \<Rightarrow> ctx \<Rightarrow> nat \<Rightarrow> update_options \<Rightarrow> ((tc_err + handle) \<times> nat) \<times> 'w"
  tSignalWorkflow :: "'w \<Rightarrow> string \<Rightarrow> string \<Rightarrow> goval \<Rightarrow> (tc_err + unit) \<times> 'w"
  tView :: "goval \<Rightarrow> TaskView option"
  tPlan :: "goval \<Rightarrow> TaskPlan option"

section \<open>Errors\<close>

text \<open>An error as its text, and the refusal it stands for when the workflow raised it.\<close>

fun raw_err :: "tc_err \<Rightarrow> err" where
  "raw_err (AppError ty msg) = ErrText msg"
| "raw_err DeadlineExceeded = ErrText ''context deadline exceeded''"
| "raw_err Canceled = ErrText ''context canceled''"
| "raw_err (TcOther msg) = ErrText msg"

fun classifyUpdateError :: "tc_err \<Rightarrow> err" where
  "classifyUpdateError (AppError ty msg) = Refusal ty msg"
| "classifyUpdateError e = raw_err e"

definition timed_out :: "tc_err \<Rightarrow> bool" where
  "timed_out e \<longleftrightarrow> e = DeadlineExceeded \<or> e = Canceled"

section \<open>Starting, reading and signalling a task\<close>

definition DefaultTaskQueue :: string where "DefaultTaskQueue = ''orbit''"

definition dial_target :: "string \<Rightarrow> string \<Rightarrow> string \<Rightarrow> (string \<times> string \<times> string) result" where
  "dial_target address namespace taskQueue =
     (if address = [] then Inl (ErrText ''temporal address is empty'')
      else Inr (address, (if namespace = [] then ''default'' else namespace),
        (if taskQueue = [] then DefaultTaskQueue else taskQueue)))"

definition taskStartOptions :: "string \<Rightarrow> string \<Rightarrow> start_options" where
  "taskStartOptions tenantID taskID =
     \<lparr>so_id = TaskWorkflowID tenantID taskID, so_queue = ''orbit.orch'', so_conflict = UseExisting, so_reuse = RejectDuplicate\<rparr>"

definition StartTask :: "'w temporal \<Rightarrow> 'w \<Rightarrow> TaskWorkflowInput \<Rightarrow> TaskView result \<times> 'w" where
  "StartTask T w inp0 =
     (let inp = start_input inp0 in
      case tExecuteWorkflow T w (taskStartOptions (wi_tenant inp) (wi_task inp)) ''TaskWorkflow'' inp of
        (Inl e, w') \<Rightarrow> (Inl (raw_err e), w')
      | (Inr _, w') \<Rightarrow> (Inr (startedView inp), w'))"

definition query_task :: "'w temporal \<Rightarrow> (goval \<Rightarrow> 'v option) \<Rightarrow> 'w \<Rightarrow> string \<Rightarrow> string \<Rightarrow> string \<Rightarrow> 'v result" where
  "query_task T decode w tenantID taskID q =
     (case tQueryWorkflow T w (TaskWorkflowID tenantID taskID) q of
        Inl e \<Rightarrow> Inl (raw_err e)
      | Inr v \<Rightarrow> (case decode v of None \<Rightarrow> Inl (ErrText ''decode'') | Some x \<Rightarrow> Inr x))"

definition orch_GetTaskView :: "'w temporal \<Rightarrow> 'w \<Rightarrow> string \<Rightarrow> string \<Rightarrow> TaskView result" where
  "orch_GetTaskView T w tenantID taskID = query_task T (tView T) w tenantID taskID ''getTaskView''"

definition orch_GetTaskPlan :: "'w temporal \<Rightarrow> 'w \<Rightarrow> string \<Rightarrow> string \<Rightarrow> TaskPlan result" where
  "orch_GetTaskPlan T w tenantID taskID = query_task T (tPlan T) w tenantID taskID ''getPlan''"

definition orch_SignalTask :: "'w temporal \<Rightarrow> 'w \<Rightarrow> string \<Rightarrow> string \<Rightarrow> string \<Rightarrow> goval \<Rightarrow> unit result \<times> 'w" where
  "orch_SignalTask T w tenantID taskID signalName arg =
     (case tSignalWorkflow T w (TaskWorkflowID tenantID taskID) signalName arg of
        (Inl e, w') \<Rightarrow> (Inl (raw_err e), w')
      | (Inr _, w') \<Rightarrow> (Inr (), w'))"

section \<open>Updates\<close>

definition resultUpdates :: "string \<Rightarrow> bool" where
  "resultUpdates name \<longleftrightarrow> name = ''requestProfileSwitch'' \<or> name = ''completeNode''"

definition resultWait :: nat where "resultWait = 3000"

definition refusalWait :: nat where "refusalWait = 250"

text \<open>Decoding a result into \<open>map[string]any\<close>: \<open>null\<close> leaves it nil, and what is no object is an error of \<open>Get\<close>.\<close>

fun decode_object :: "goval \<Rightarrow> tc_err + obj" where
  "decode_object (Obj m) = Inr m"
| "decode_object Null = Inr []"
| "decode_object v = Inl (TcOther ''decode'')"

definition updateResult :: "ctx \<Rightarrow> handle \<Rightarrow> nat \<Rightarrow> obj result \<times> nat" where
  "updateResult ctx h t =
     (let waitCtx = with_timeout ctx t resultWait;
          (answered, t') = h waitCtx t
      in (case rbind answered decode_object of
            Inr result \<Rightarrow> Inr result
          | Inl (AppError ty msg) \<Rightarrow> Inl (Refusal ty msg)
          | Inl e \<Rightarrow>
              if ctx_err waitCtx t' \<noteq> None \<and> ctx_err ctx t' = None \<and> timed_out e then Inr [] else Inl (raw_err e),
          t'))"

definition orch_refusal :: "ctx \<Rightarrow> handle \<Rightarrow> nat \<Rightarrow> obj result \<times> nat" where
  "orch_refusal ctx h t =
     (let waitCtx = with_timeout ctx t refusalWait;
          (answered, t') = h waitCtx t
      in (case answered of
            Inr _ \<Rightarrow> Inr []
          | Inl (AppError ty msg) \<Rightarrow> Inl (Refusal ty msg)
          | Inl e \<Rightarrow> if ctx_err waitCtx t' \<noteq> None \<and> timed_out e then Inr [] else Inl (raw_err e),
          t'))"

text \<open>The answer of an update; a body that comes with an error is dropped, as every caller does.\<close>

definition UpdateTask :: "'w temporal \<Rightarrow> ctx \<Rightarrow> nat \<Rightarrow> 'w \<Rightarrow> string \<Rightarrow> string \<Rightarrow> string \<Rightarrow> string \<Rightarrow> goval \<Rightarrow> raw result \<times> 'w" where
  "UpdateTask T ctx now w tenantID taskID updateName updateID arg =
     (let acceptedCtx = with_timeout ctx now 5000;
          ((answered, t1), w') = tUpdateWorkflow T w acceptedCtx now
            \<lparr>uo_update = updateID, uo_workflow = TaskWorkflowID tenantID taskID, uo_name = updateName, uo_args = [arg]\<rparr>
      in case answered of
        Inl e \<Rightarrow> (Inl (classifyUpdateError e), w')
      | Inr h \<Rightarrow>
          (case (if resultUpdates updateName then updateResult ctx h t1 else orch_refusal acceptedCtx h t1) of
             (Inl e, _) \<Rightarrow> (Inl e, w')
           | (Inr result, t2) \<Rightarrow>
               (case ctx_err acceptedCtx t2 of
                  Some e \<Rightarrow> (Inl (raw_err e), w')
                | None \<Rightarrow> (Inr (acceptedBody updateID result), w'))))"

text \<open>The client as the task service uses it for a request that begins at \<open>now\<close> under \<open>ctx\<close>.\<close>

definition orch_client :: "'w temporal \<Rightarrow> ctx \<Rightarrow> nat \<Rightarrow> 'w task_client" where
  "orch_client T ctx now =
     \<lparr>oStartTask = StartTask T, oGetTaskView = orch_GetTaskView T, oGetTaskPlan = orch_GetTaskPlan T,
      oUpdateTask = UpdateTask T ctx now, oSignalTask = orch_SignalTask T\<rparr>"

section \<open>What an update is answered with\<close>

text \<open>
  \<open>settled\<close>: what is known of an update after it was accepted, when its handle answered \<open>a\<close>: a refusal and any other failure
  as they are, a result where the caller needs it, and nothing yet when the wait passed.
\<close>

definition settled :: "string \<Rightarrow> tc_err + goval \<Rightarrow> obj result" where
  "settled updateName a =
     (case a of
        Inl e \<Rightarrow> if timed_out e then Inr [] else Inl (classifyUpdateError e)
      | Inr v \<Rightarrow> if resultUpdates updateName then (case decode_object v of Inl e \<Rightarrow> Inl (raw_err e) | Inr m \<Rightarrow> Inr m) else Inr [])"

definition settle_wait :: "string \<Rightarrow> nat" where
  "settle_wait updateName = (if resultUpdates updateName then resultWait else refusalWait)"

text \<open>A handle keeps to the context it waits under: it answers by its end, and says so only then.\<close>

lemma decode_object_err: "decode_object v = Inl e \<Longrightarrow> classifyUpdateError e = raw_err e \<and> \<not> timed_out e"
  by (cases v) (auto simp: timed_out_def)

lemma updateResult_settled:
  assumes "h (Some (t + resultWait, DeadlineExceeded)) t = (a, t')" "resultUpdates updateName"
    and "\<And>e. a = Inl e \<Longrightarrow> timed_out e \<Longrightarrow> t + resultWait \<le> t'"
  shows "updateResult None h t = (settled updateName a, t')"
proof (cases a)
  case (Inl e)
  then show ?thesis using assms
    by (cases e) (auto simp: updateResult_def with_timeout_def ctx_err_def settled_def timed_out_def)
next
  case (Inr v)
  show ?thesis
  proof (cases "decode_object v")
    case (Inl e)
    then show ?thesis using assms(1,2) Inr decode_object_err [OF Inl]
      by (cases e) (auto simp: updateResult_def with_timeout_def settled_def)
  qed (use assms(1,2) Inr in \<open>simp add: updateResult_def with_timeout_def settled_def\<close>)
qed

lemma refusal_settled:
  assumes "h (Some (t + refusalWait, DeadlineExceeded)) t = (a, t')" "\<not> resultUpdates updateName" "t + refusalWait < d"
    and "\<And>e. a = Inl e \<Longrightarrow> timed_out e \<Longrightarrow> t + refusalWait \<le> t'"
  shows "orch_refusal (Some (d, DeadlineExceeded)) h t = (settled updateName a, t')"
proof (cases a)
  case (Inl e)
  then show ?thesis using assms
    by (cases e) (auto simp: orch_refusal_def with_timeout_def ctx_err_def settled_def timed_out_def)
qed (use assms in \<open>simp add: orch_refusal_def with_timeout_def settled_def\<close>)

lemma UpdateTask_accepted:
  assumes "tUpdateWorkflow T w (Some (now + 5000, DeadlineExceeded)) now
      \<lparr>uo_update = updateID, uo_workflow = TaskWorkflowID tenantID taskID, uo_name = updateName, uo_args = [arg]\<rparr>
      = ((Inr h, t1), w')"
    and "(if resultUpdates updateName then updateResult None h t1
      else orch_refusal (Some (now + 5000, DeadlineExceeded)) h t1) = (r, t2)"
  shows "UpdateTask T None now w tenantID taskID updateName updateID arg =
    (case r of
       Inl e \<Rightarrow> Inl e
     | Inr m \<Rightarrow> if now + 5000 \<le> t2 then Inl (ErrText ''context deadline exceeded'') else Inr (acceptedBody updateID m), w')"
  using assms by (cases r) (simp_all add: UpdateTask_def with_timeout_def ctx_err_def)


text \<open>
  A workflow that accepts an update after \<open>delay\<close> and has its outcome at \<open>ready\<close>, if ever; the state counts the updates.
\<close>

definition slow_handle :: "nat option \<Rightarrow> tc_err + goval \<Rightarrow> handle" where
  "slow_handle ready outcome c t =
     (case (ready, c) of
        (Some r, None) \<Rightarrow> (outcome, max t r)
      | (Some r, Some (d, e)) \<Rightarrow> if max t r < d then (outcome, max t r) else (Inl e, max t d)
      | (None, Some (d, e)) \<Rightarrow> (Inl e, max t d)
      | (None, None) \<Rightarrow> (Inl Canceled, t))"

definition slow_temporal :: "nat \<Rightarrow> nat option \<Rightarrow> tc_err + goval \<Rightarrow> nat temporal" where
  "slow_temporal delay ready outcome =
     \<lparr>tExecuteWorkflow = \<lambda>w _ _ _. (Inr (), w), tQueryWorkflow = \<lambda>_ _ _. Inl (TcOther ''none''),
      tUpdateWorkflow = \<lambda>w _ now _. ((Inr (slow_handle ready outcome), now + delay), w + 1),
      tSignalWorkflow = \<lambda>w _ _ _. (Inr (), w), tView = \<lambda>_. None, tPlan = \<lambda>_. None\<rparr>"

lemma slow_update:
  "tUpdateWorkflow (slow_temporal delay ready outcome) w c now u = ((Inr (slow_handle ready outcome), now + delay), w + 1)"
  by (simp add: slow_temporal_def)


end
