(* ===== verification/Process_Config.thy ===== *)
theory Process_Config
  imports Http_Routes Http_Forward Artifact_Signer Orch_Client
begin

text \<open>
  How a process starts: reading its environment (\<open>internal/config/config.go\<close>), the guard of the public listener
  (\<open>cmd/orbit-control/main.go\<close>), choosing the store (\<open>internal/httpapi/storage.go\<close>, \<open>Open\<close> of \<open>store/pgstore/pgstore.go\<close>) and
  building both handlers (\<open>Handlers\<close> in \<open>internal/httpapi/handler.go\<close>). An environment maps a name to its text, empty when
  it is unset, which is how viper reads it.
\<close>

section \<open>Reading the environment\<close>

type_synonym environment = "string \<Rightarrow> string"

record Config =
  c_LogFormat :: string
  c_PublicAddr :: string
  c_Port :: string
  c_AllowUnauthenticatedBind :: bool
  c_InternalAddr :: string
  c_Env :: string
  c_AuthMode :: string
  c_ControlDBURL :: string
  c_MigrateOnStart :: bool
  c_MigrateDBURL :: string
  c_ArtifactDir :: string
  c_DataDir :: string
  c_ArtifactMaxBytes :: int
  c_DefaultTenant :: string
  c_IngestMaxBytes :: int
  c_ObjectStorePublicEndpoint :: string
  c_ObjectStoreEndpoint :: string
  c_ObjectStoreAccessKey :: string
  c_ObjectStoreSecretKey :: string
  c_ObjectStoreBucket :: string
  c_ObjectStoreSecure :: bool
  c_TemporalAddress :: string
  c_TemporalNamespace :: string
  c_TemporalTaskQueue :: string
  c_Models :: "string list"
  c_DefaultModel :: string
  c_CatalogDir :: string
  c_SkillsDir :: string
  c_TaskMembers :: "string list"
  c_TaskMemberID :: string
  c_InternalMembers :: "string list"
  c_MembersFile :: string
  c_MembersRefreshSeconds :: int
  c_MembersRefreshConfigured :: bool
  c_AllowedOrigins :: "string list"
  c_InternalToken :: string

definition defaultPort :: string where "defaultPort = ''8080''"
definition defaultInternalAddr :: string where "defaultInternalAddr = ''127.0.0.1:8081''"
definition defaultIngestMax :: int where "defaultIngestMax = 1048576"

definition getString :: "environment \<Rightarrow> string \<Rightarrow> string" where
  "getString env key =
     (if env key \<noteq> [] then env key
      else if key = ''PORT'' then defaultPort
      else if key = ''ORBIT_INTERNAL_ADDR'' then defaultInternalAddr
      else [])"

abbreviation trimmed :: "environment \<Rightarrow> string \<Rightarrow> string" where
  "trimmed env key \<equiv> trim_space (getString env key)"

definition positiveInt64 :: "environment \<Rightarrow> string \<Rightarrow> int \<Rightarrow> int" where
  "positiveInt64 env key fallback =
     (let raw = trimmed env key in
      if raw = [] then fallback
      else case Atoi raw of None \<Rightarrow> fallback | Some n \<Rightarrow> if n \<le> 0 then fallback else n)"

definition refreshSeconds :: "string \<Rightarrow> int" where
  "refreshSeconds raw =
     (if raw = [] then 0 else case Atoi raw of None \<Rightarrow> 0 | Some n \<Rightarrow> if n > 0 then n else 0)"

definition Load :: "environment \<Rightarrow> Config" where
  "Load env =
     (let refreshRaw = trimmed env ''ORBIT_CONTROL_MEMBERS_REFRESH_SECONDS'' in
      \<lparr>c_LogFormat = trimmed env ''ORBIT_LOG_FORMAT'',
       c_PublicAddr = trimmed env ''ORBIT_PUBLIC_ADDR'',
       c_Port = trimmed env ''PORT'',
       c_AllowUnauthenticatedBind = (trimmed env ''ORBIT_ALLOW_UNAUTHENTICATED_BIND'' = ''1''),
       c_InternalAddr = trimmed env ''ORBIT_INTERNAL_ADDR'',
       c_Env = trimmed env ''ORBIT_ENV'',
       c_AuthMode = trimmed env ''ORBIT_AUTH_MODE'',
       c_ControlDBURL = trimmed env ''ORBIT_CONTROL_DB_URL'',
       c_MigrateOnStart = (trimmed env ''ORBIT_CONTROL_MIGRATE_ON_START'' = ''1''),
       c_MigrateDBURL = trimmed env ''ORBIT_CONTROL_MIGRATE_DB_URL'',
       c_ArtifactDir = trimmed env ''ORBIT_ARTIFACT_DIR'',
       c_DataDir = trimmed env ''ORBIT_DATA_DIR'',
       c_ArtifactMaxBytes = positiveInt64 env ''ORBIT_ARTIFACT_MAX_BYTES'' 0,
       c_DefaultTenant = trimmed env ''ORBIT_DEFAULT_TENANT'',
       c_IngestMaxBytes = positiveInt64 env ''ORBIT_INGEST_MAX_BYTES'' defaultIngestMax,
       c_ObjectStorePublicEndpoint = trimmed env ''ORBIT_OBJECT_STORE_PUBLIC_ENDPOINT'',
       c_ObjectStoreEndpoint = trimmed env ''ORBIT_OBJECT_STORE_ENDPOINT'',
       c_ObjectStoreAccessKey = getString env ''ORBIT_OBJECT_STORE_ACCESS_KEY'',
       c_ObjectStoreSecretKey = getString env ''ORBIT_OBJECT_STORE_SECRET_KEY'',
       c_ObjectStoreBucket = getString env ''ORBIT_OBJECT_STORE_BUCKET'',
       c_ObjectStoreSecure = (trimmed env ''ORBIT_OBJECT_STORE_SECURE'' = ''1''),
       c_TemporalAddress = trimmed env ''TEMPORAL_ADDRESS'',
       c_TemporalNamespace = trimmed env ''TEMPORAL_NAMESPACE'',
       c_TemporalTaskQueue = trimmed env ''TEMPORAL_TASK_QUEUE'',
       c_Models = splitMembers (getString env ''ORBIT_MODELS''),
       c_DefaultModel = trimmed env ''ORBIT_MODEL_NAME'',
       c_CatalogDir = trimmed env ''ORBIT_CATALOG_DIR'',
       c_SkillsDir = trimmed env ''ORBIT_SKILLS_DIR'',
       c_TaskMembers = splitMembers (getString env ''ORBIT_CONTROL_MEMBERS''),
       c_TaskMemberID = trimmed env ''ORBIT_CONTROL_MEMBER_ID'',
       c_InternalMembers = splitMembers (getString env ''ORBIT_CONTROL_INTERNAL_MEMBERS''),
       c_MembersFile = trimmed env ''ORBIT_CONTROL_MEMBERS_FILE'',
       c_MembersRefreshSeconds = refreshSeconds refreshRaw,
       c_MembersRefreshConfigured = (refreshRaw \<noteq> []),
       c_AllowedOrigins = splitMembers (getString env ''ORBIT_ALLOWED_ORIGINS''),
       c_InternalToken = trimmed env ''ORBIT_INTERNAL_TOKEN''\<rparr>)"

definition PublicListenAddr :: "Config \<Rightarrow> string" where
  "PublicListenAddr c =
     (if c_PublicAddr c \<noteq> [] then c_PublicAddr c
      else ''127.0.0.1:'' @ (if c_Port c = [] then defaultPort else c_Port c))"

definition InternalListenAddr :: "Config \<Rightarrow> string" where
  "InternalListenAddr c = (if c_InternalAddr c \<noteq> [] then c_InternalAddr c else defaultInternalAddr)"

text \<open>\<open>strings.EqualFold\<close> with a lower-case word of letters that fold to ASCII letters only, as those of both words here do.\<close>

definition ascii_lower :: "char \<Rightarrow> char" where
  "ascii_lower c = (if byte_in 65 90 c then char_of ((of_char c :: nat) + 32) else c)"

definition folds_to :: "string \<Rightarrow> string \<Rightarrow> bool" where
  "folds_to s word \<longleftrightarrow> map ascii_lower s = word"

definition OIDC :: "Config \<Rightarrow> bool" where
  "OIDC c \<longleftrightarrow> folds_to (c_AuthMode c) ''oidc''"

definition Config_Prod :: "Config \<Rightarrow> bool" where
  "Config_Prod c \<longleftrightarrow> folds_to (c_Env c) ''prod'' \<or> folds_to (c_AuthMode c) ''oidc''"

definition ArtifactDirPath :: "Config \<Rightarrow> string" where
  "ArtifactDirPath c =
     (if c_ArtifactDir c \<noteq> [] then c_ArtifactDir c
      else if c_DataDir c \<noteq> [] then path_Clean (c_DataDir c @ ''/artifacts'')
      else [])"

definition ObjectStoreURL :: "Config \<Rightarrow> string" where
  "ObjectStoreURL c =
     (if c_ObjectStorePublicEndpoint c \<noteq> [] then c_ObjectStorePublicEndpoint c else c_ObjectStoreEndpoint c)"

section \<open>The guard of the public listener\<close>

text \<open>\<open>net.SplitHostPort\<close>: the host and the port, or \<open>None\<close> for an error.\<close>

fun index_of :: "char \<Rightarrow> string \<Rightarrow> nat option" where
  "index_of c [] = None"
| "index_of c (x # xs) = (if x = c then Some 0 else map_option Suc (index_of c xs))"

definition last_index_of :: "char \<Rightarrow> string \<Rightarrow> nat option" where
  "last_index_of c s = map_option (\<lambda>i. length s - 1 - i) (index_of c (rev s))"

definition SplitHostPort :: "string \<Rightarrow> (string \<times> string) option" where
  "SplitHostPort hostport =
     (case last_index_of (CHR '':'') hostport of
        None \<Rightarrow> None
      | Some i \<Rightarrow>
          if hd hostport = CHR ''['' then
            (case index_of (CHR '']'') hostport of
               None \<Rightarrow> None
             | Some e \<Rightarrow>
                 if e + 1 \<noteq> i \<or> CHR ''['' \<in> set (drop 1 hostport) \<or> CHR '']'' \<in> set (drop (e + 1) hostport) then None
                 else Some (take (e - 1) (drop 1 hostport), drop (i + 1) hostport))
          else if CHR '':'' \<in> set (take i hostport) \<or> CHR ''['' \<in> set hostport \<or> CHR '']'' \<in> set hostport then None
          else Some (take i hostport, drop (i + 1) hostport))"

definition isLoopbackHost :: "(string \<Rightarrow> ip_addr option) \<Rightarrow> string \<Rightarrow> bool" where
  "isLoopbackHost parseIP host =
     (if host = ''localhost'' then True else case parseIP host of None \<Rightarrow> False | Some ip \<Rightarrow> ip_loopback ip)"

definition checkPublicBind :: "(string \<Rightarrow> ip_addr option) \<Rightarrow> environment \<Rightarrow> string \<Rightarrow> unit result" where
  "checkPublicBind parseIP env addr =
     (case SplitHostPort addr of
        None \<Rightarrow> Inl (ErrText ''public listen address'')
      | Some (host, _) \<Rightarrow>
          if isLoopbackHost parseIP host then Inr ()
          else if c_AllowUnauthenticatedBind (Load env) then Inr ()
          else Inl (ErrText ''refusing to bind the public listener''))"

section \<open>Choosing the store\<close>

text \<open>
  What a failing connection or statement reports: the server's code and message, a deadline, or another failure; and
  whether it happened while connecting.
\<close>

datatype db_failure = PgFailure string string | DeadlinePassed | OtherFailure
type_synonym db_err = "bool \<times> db_failure"

datatype store_kind = MemoryStore | PostgresStore string

text \<open>
  What a start finds: the migrations and the database behind a URL, its tenants, the object store, Temporal after the
  retries, and what \<open>filepath.Abs\<close> and \<open>os.Stat\<close> say of the skills directory: its path and whether it is a directory.
\<close>

record surroundings =
  sw_migrate :: "string \<Rightarrow> db_err option"
  sw_parse_url :: "string \<Rightarrow> bool"
  sw_connect :: "string \<Rightarrow> db_err option"
  sw_tenants :: "string \<Rightarrow> string list result"
  sw_s3 :: s3_pkg
  sw_dial :: "string \<times> string \<times> string \<Rightarrow> string option"
  sw_stat :: "string \<Rightarrow> (string \<times> bool) result"
  sw_parse_ip :: "string \<Rightarrow> ip_addr option"

definition SanitizeConnError :: "db_err \<Rightarrow> err" where
  "SanitizeConnError e = ErrStorage"

definition pg_Open :: "surroundings \<Rightarrow> string \<Rightarrow> store_kind result" where
  "pg_Open W url =
     (if \<not> sw_parse_url W url then Inl (ErrText ''control db: ORBIT_CONTROL_DB_URL is not a valid connection string'')
      else case sw_connect W url of
        Some e \<Rightarrow> Inl (SanitizeConnError e)
      | None \<Rightarrow> Inr (PostgresStore url))"

definition migrate_err :: "db_err \<Rightarrow> err" where
  "migrate_err e =
     (case e of
        (True, _) \<Rightarrow> SanitizeConnError e
      | (False, PgFailure code msg) \<Rightarrow> ErrText (''migrations failed: code='' @ code @ '': '' @ msg)
      | _ \<Rightarrow> SanitizeConnError e)"

definition openRepository :: "surroundings \<Rightarrow> Config \<Rightarrow> store_kind result" where
  "openRepository W cfg =
     (let url = c_ControlDBURL cfg in
      if url = [] then
        if Config_Prod cfg then Inl (ErrText ''ORBIT_CONTROL_DB_URL is required'') else Inr MemoryStore
      else if c_MigrateOnStart cfg then
        (if c_MigrateDBURL cfg = []
         then Inl (ErrText ''ORBIT_CONTROL_MIGRATE_ON_START=1 needs ORBIT_CONTROL_MIGRATE_DB_URL (owner role)'')
         else case sw_migrate W (c_MigrateDBURL cfg) of
           Some e \<Rightarrow> Inl (migrate_err e)
         | None \<Rightarrow> pg_Open W url)
      else pg_Open W url)"

definition start_CheckTenant :: "surroundings \<Rightarrow> store_kind \<Rightarrow> string \<Rightarrow> unit result" where
  "start_CheckTenant W kind tenantID =
     (case kind of
        MemoryStore \<Rightarrow> mem_CheckTenant tenantID
      | PostgresStore url \<Rightarrow>
          (case sw_tenants W url of
             Inl e \<Rightarrow> Inl ErrStorage
           | Inr ts \<Rightarrow> if tenantID \<in> set ts then Inr () else Inl ErrNotFound))"

definition skills_Open :: "surroundings \<Rightarrow> string \<Rightarrow> string option result" where
  "skills_Open W root0 =
     (let root = trim_space root0 in
      if root = [] then Inr None
      else case sw_stat W root of
        Inl e \<Rightarrow> Inl e
      | Inr (abs_path, is_dir) \<Rightarrow>
          if \<not> is_dir then Inl (ErrText (''skills directory is not a directory: '' @ root)) else Inr (Some abs_path))"

section \<open>Building the handlers\<close>

datatype signer_kind = ObjectStoreSigner MinIO | LocalSigner

text \<open>What a process runs with: the options of its service and of both handlers.\<close>

record process =
  pr_store :: store_kind
  pr_default_tenant :: string
  pr_artifact_dir :: string
  pr_artifact_max :: int
  pr_ingest_max :: int
  pr_signer :: "signer_kind option"
  pr_task_client :: "string option"
  pr_skills :: "string option"
  pr_projector :: bool
  pr_catalog_dir :: string
  pr_auth :: authenticator
  pr_origins :: "string list"
  pr_members :: "string list"
  pr_member_id :: string
  pr_models :: "string list"
  pr_default_model :: string
  pr_forwarder :: "forwarder option"
  pr_public_addr :: string
  pr_internal_addr :: string

definition DefaultTenantID :: string where "DefaultTenantID = ''default''"
definition defaultArtifactMaxBytes :: int where "defaultArtifactMaxBytes = 33554432"

definition start_signer :: "surroundings \<Rightarrow> Config \<Rightarrow> signer_kind option result" where
  "start_signer W cfg =
     (if ObjectStoreURL cfg \<noteq> [] then
        (case s3_New (sw_s3 W) (ObjectStoreURL cfg) (c_ObjectStoreAccessKey cfg) (c_ObjectStoreSecretKey cfg)
            (c_ObjectStoreBucket cfg) (c_ObjectStoreSecure cfg) of
           Inl e \<Rightarrow> Inl e
         | Inr m \<Rightarrow> Inr (Some (ObjectStoreSigner m)))
      else if ArtifactDirPath cfg \<noteq> [] then Inr (Some LocalSigner)
      else Inr None)"

definition start_client :: "surroundings \<Rightarrow> Config \<Rightarrow> string option result" where
  "start_client W cfg =
     (if c_TemporalAddress cfg = [] then Inr None
      else case dial_target (c_TemporalAddress cfg) (c_TemporalNamespace cfg) (c_TemporalTaskQueue cfg) of
        Inl e \<Rightarrow> Inl (ErrText ''temporal dial'')
      | Inr target \<Rightarrow>
          (case sw_dial W target of None \<Rightarrow> Inl (ErrText ''temporal dial'') | Some client \<Rightarrow> Inr (Some client)))"

text \<open>\<open>Handlers\<close>, with the stores it leaves open: what fails after the store was opened closes it.\<close>

definition Handlers :: "surroundings \<Rightarrow> environment \<Rightarrow> process result \<times> store_kind list" where
  "Handlers W env =
     (let cfg = Load env in
      case openRepository W cfg of
        Inl e \<Rightarrow> (Inl e, [])
      | Inr repo \<Rightarrow>
          let defaultTenant = (if c_DefaultTenant cfg = [] then DefaultTenantID else c_DefaultTenant cfg) in
          (case start_CheckTenant W repo defaultTenant of
             Inl ErrNotFound \<Rightarrow> (Inl (ErrText ''default tenant does not exist''), [])
           | Inl e \<Rightarrow> (Inl e, [])
           | Inr _ \<Rightarrow>
          (case start_signer W cfg of
             Inl e \<Rightarrow> (Inl e, [])
           | Inr signer \<Rightarrow>
          (case start_client W cfg of
             Inl e \<Rightarrow> (Inl e, [])
           | Inr client \<Rightarrow>
          (case skills_Open W (c_SkillsDir cfg) of
             Inl e \<Rightarrow> (Inl (ErrText ''skills directory''), [])
           | Inr skills \<Rightarrow>
             (Inr \<lparr>pr_store = repo, pr_default_tenant = defaultTenant, pr_artifact_dir = ArtifactDirPath cfg,
                pr_artifact_max = (if c_ArtifactMaxBytes cfg \<le> 0 then defaultArtifactMaxBytes else c_ArtifactMaxBytes cfg),
                pr_ingest_max = c_IngestMaxBytes cfg, pr_signer = signer, pr_task_client = client, pr_skills = skills,
                pr_projector = (repo \<noteq> MemoryStore), pr_catalog_dir = c_CatalogDir cfg,
                pr_auth = authenticatorFromEnv (OIDC cfg) defaultTenant, pr_origins = c_AllowedOrigins cfg,
                pr_members = c_TaskMembers cfg, pr_member_id = c_TaskMemberID cfg, pr_models = c_Models cfg,
                pr_default_model = c_DefaultModel cfg,
                pr_forwarder = newEphemeralForwarder (c_TaskMembers cfg) (c_TaskMemberID cfg),
                pr_public_addr = PublicListenAddr cfg, pr_internal_addr = InternalListenAddr cfg\<rparr>, [repo]))))))"

text \<open>\<open>main\<close>: the guard comes first, and nothing is opened when it refuses.\<close>

definition main_start :: "surroundings \<Rightarrow> environment \<Rightarrow> process result \<times> store_kind list" where
  "main_start W env =
     (case checkPublicBind (sw_parse_ip W) env (PublicListenAddr (Load env)) of
        Inl e \<Rightarrow> (Inl e, [])
      | Inr _ \<Rightarrow> Handlers W env)"

section \<open>A started process is guarded\<close>

lemma positiveInt64_pos: "0 < fallback \<Longrightarrow> 0 < positiveInt64 env key fallback"
  by (simp add: positiveInt64_def Let_def split: option.split)

lemma openRepository_prod:
  assumes "openRepository W cfg = Inr repo" "Config_Prod cfg"
  shows "repo = PostgresStore (c_ControlDBURL cfg) \<and> c_ControlDBURL cfg \<noteq> []"
  using assms by (auto simp: openRepository_def pg_Open_def Let_def split: if_splits option.splits)

lemma Handlers_Inr:
  assumes "Handlers W env = (Inr pr, opened)"
  shows "openRepository W (Load env) = Inr (pr_store pr) \<and> start_CheckTenant W (pr_store pr) (pr_default_tenant pr) = Inr () \<and>
    opened = [pr_store pr] \<and> pr_auth pr = authenticatorFromEnv (OIDC (Load env)) (pr_default_tenant pr) \<and>
    pr_public_addr pr = PublicListenAddr (Load env) \<and> pr_ingest_max pr = c_IngestMaxBytes (Load env) \<and>
    0 < pr_artifact_max pr \<and> pr_default_tenant pr \<noteq> []"
  using assms by (auto simp: Handlers_def Let_def defaultArtifactMaxBytes_def DefaultTenantID_def
      split: sum.splits err.splits if_splits)


text \<open>A database with the tenant \<open>default\<close>, and the environment of a production process; nothing set but what it needs.\<close>

definition loopback_ip :: ip_addr where
  "loopback_ip = \<lparr>ip_loopback = True, ip_private = False, ip_link_unicast = False, ip_link_multicast = False,
     ip_multicast = False, ip_unspecified = False, ip_v4 = Some [127, 0, 0, 1]\<rparr>"

definition plain_surroundings :: surroundings where
  "plain_surroundings =
     \<lparr>sw_migrate = \<lambda>_. None, sw_parse_url = \<lambda>_. True, sw_connect = \<lambda>_. None, sw_tenants = \<lambda>_. Inr [''default''],
      sw_s3 = plain_s3, sw_dial = \<lambda>(address, _, _). Some address, sw_stat = \<lambda>p. Inr (p, True),
      sw_parse_ip = \<lambda>host. if host = ''127.0.0.1'' then Some loopback_ip else None\<rparr>"

definition prod_environment :: environment where
  "prod_environment key =
     (if key = ''ORBIT_ENV'' then ''Config_Prod'' else if key = ''ORBIT_AUTH_MODE'' then ''oidc''
      else if key = ''ORBIT_CONTROL_DB_URL'' then ''postgres://db'' else [])"

lemma prod_environment_starts:
  "case main_start plain_surroundings prod_environment of
     (Inr pr, _) \<Rightarrow> pr_public_addr pr = ''127.0.0.1:8080'' | _ \<Rightarrow> False"
  "Config_Prod (Load prod_environment)" "OIDC (Load prod_environment)"
  by code_simp+


end
