(* ===== verification/Spec2Isabelle.thy ===== *)
theory Spec2Isabelle
  imports Command_Ledger Pg_Ledger Routing_Ring Sop Task_Policy Task_Config Service_Commands Service_Tasks
    Service_Records Projector Pg_Isolation Pg_History Pg_Log Pg_Outbox App_Catalog
    Config_Facts Import_Facts Stream_Facts Skill_Store Forward_Facts Command_Facts Pg_Catalog_Facts Market_Facts
    Process_Config
begin

text \<open>
  A model of the control plane of orbit and the theorems about it. Paths are under \<open>src/internal\<close>.

  \<^bold>\<open>The program.\<close> Several replicas of one process serve an HTTP API. A \<^emph>\<open>task\<close> is a Temporal workflow; the
  service in \<open>task\<close> sends it commands, keeps a view of it, and streams its events to clients. Workers write what
  happens to an outbox table; the projector of one replica at a time appends each row to the event log of its task
  and projects it to the tables a client reads. The catalog (experts' connectors, skills, agents, a market of MCP
  servers) is read-mostly and installed from a shipped snapshot. A request on a task goes to the replica a hash ring
  names, so that its live events are in one memory.

  \<^bold>\<open>The theories\<close>, in the order they build on each other:

  \<^item> \<open>Go_Base\<close>, \<open>Go_Text\<close>, \<open>Go_Json\<close>: the prelude. Go maps as association lists, errors as values, strings as bytes with
    UTF-8, \<open>strings\<close>, and the values \<open>encoding/json\<close> decodes into \<open>any\<close>.
  \<^item> \<open>Task_Types\<close>, \<open>Task_Policy\<close>, \<open>Task_Config\<close>, \<open>Sop\<close> (\<open>task/types.go\<close>, \<open>policy.go\<close>, \<open>permissions.go\<close>, \<open>config.go\<close>,
    \<open>mentions.go\<close>, \<open>sop.go\<close>): records and the pure rules on them. A configuration survives its trip through a workflow;
    an SOP is accepted exactly by its rules, and Kahn's loop finds exactly the cycles.
  \<^item> \<open>Lru_Cache\<close>, \<open>Command_Ledger\<close>, \<open>Pg_Ledger\<close>: the idempotency ledger as the interface \<open>command_ledger\<close>, extended by
    \<open>durable_ledger\<close>; in memory over an LRU cache, and in Postgres.
  \<^item> \<open>Service_State\<close>, \<open>Service_Events\<close>, \<open>Service_Records\<close>, \<open>Service_Commands\<close>, \<open>Service_Tasks\<close> (\<open>task/service.go\<close>,
    \<open>events.go\<close>, \<open>subscribers.go\<close>, \<open>profiles.go\<close>, \<open>artifacts.go\<close>, \<open>commands.go\<close>, \<open>projection_apply.go\<close>, \<open>tasks.go\<close>,
    \<open>reconcile.go\<close>): the state \<open>sys\<close> of a replica is its memory (\<open>svc\<close>) and the \<open>world\<close> its calls act on; each operation
    is a function on it. A command runs at most once, a failed one may run again; a task is private, its deletion
    complete; a repair converges.
  \<^item> \<open>Projector\<close>: the outbox as the interface \<open>outbox_queue\<close>, a batch, the run, the leadership.
  \<^item> \<open>Pg_Tables\<close>, \<open>Pg_Events\<close>, \<open>Pg_Store\<close>, \<open>Pg_Sample\<close> (\<open>store/pgstore/task_*.go\<close>, \<open>policy.go\<close>, \<open>user_settings.go\<close>, \<open>sop.go\<close>,
    \<open>runtime_outbox.go\<close>): the tables with what the migrations check, every statement, sample rows.
  \<^item> \<open>Pg_Effects\<close>: \<open>row_law\<close> and \<open>store_law\<close>, the interfaces by which a law on single rows holds of a whole projection and
    of every write. On it: \<open>Pg_Isolation\<close> (tenants), \<open>Pg_Log\<close> (the log has no gap), \<open>Pg_History\<close> (what never changes
    again), \<open>Pg_Outbox\<close> (the queue drains; one bad row stops it).
  \<^item> \<open>Event_Sender\<close>, \<open>Stream_Facts\<close> (\<open>httpapi/task_events.go\<close>): the stream of a client over the interface \<open>event_log\<close>: it
    skips, repeats and reorders no durable event, and one tick catches it up.
  \<^item> \<open>Catalog\<close>, \<open>Mem_Catalog\<close>, \<open>App_Catalog\<close> (\<open>store/repository.go\<close>, \<open>store/memstore\<close>, \<open>app/catalog.go\<close>, \<open>skills.go\<close>,
    \<open>agents.go\<close>, \<open>mcpmarket.go\<close>, \<open>mcpurl.go\<close>): the repository as the record \<open>catalog_ops\<close>, in memory, and the API's view.
  \<^item> \<open>Pg_Catalog\<close>, \<open>Pg_Catalog_Facts\<close> (the rest of \<open>store/pgstore\<close>): the catalog in SQL. With the texts compared as Go does,
    every read agrees with the store in memory, and replacing a snapshot is all or nothing and agrees too.
  \<^item> \<open>Market_Install\<close>, \<open>Market_Facts\<close> (\<open>msmarket\<close>): storing the shipped snapshot and its sidecars over either store, through
    the interface \<open>snapshot_store\<close>.
  \<^item> \<open>Bundle\<close>, \<open>Bundle_Mcp\<close>, \<open>Bundle_Form\<close>, \<open>Bundle_Codec\<close>, \<open>Bundle_Roundtrip\<close>, \<open>Bundle_Secrets\<close> (\<open>app/bundle.go\<close>): the files of an
    expert, the form they are rendered from and derived back to, and taking credentials out.
  \<^item> \<open>Experts\<close>, \<open>Expert_Write\<close>, \<open>Expert_Import\<close>, \<open>Task_Request\<close> with \<open>Expert_Facts\<close>, \<open>Team_Facts\<close>, \<open>Import_Facts\<close>, \<open>Config_Facts\<close>
    (\<open>app/experts.go\<close>, \<open>expert_files.go\<close>, \<open>expert_import.go\<close>, \<open>teams.go\<close>, \<open>task_config.go\<close>): what was written is what is read
    and run, an import is clean and bounded, a configuration refers to what is the tenant's own.
  \<^item> \<open>Skill_Store\<close> (\<open>skillstore/store.go\<close>) and \<open>Blob_Store\<close> (\<open>app/blobs.go\<close>): the two directories on disk, the second
    addressed by content.
  \<^item> \<open>Http_Base\<close>, \<open>Http_Catalog\<close>, \<open>Http_Tasks\<close>, \<open>Http_Commands\<close>, \<open>Http_Routes\<close> with \<open>Http_Facts\<close> and \<open>Command_Facts\<close> (\<open>httpapi\<close>,
    \<open>internalauth\<close>): every route of both listeners. Only vetted requests write, a worker's events stay live, a message
    sent again is answered again, a node is completed by hand only while no agent works on it.
  \<^item> \<open>Routing_Ring\<close> (\<open>task/routing.go\<close>), \<open>Http_Forward\<close>, \<open>Forward_Facts\<close> (the router in \<open>httpapi/handler.go\<close>,
    \<open>internal_forward.go\<close>): replicas with the same members agree on the one that serves a task.
  \<^item> \<open>Orch_Client\<close> (\<open>orch/client.go\<close>): the client of the workflows with its waits. An update that was accepted in time is
    answered with what is known of it.
  \<^item> \<open>Artifact_Signer\<close> (\<open>artifacts/minio.go\<close>): the signer of artifact URLs. A signed object is the caller's tenant's own,
    and a manifest outlives its task.
  \<^item> \<open>Process_Config\<close> (\<open>config/config.go\<close>, \<open>httpapi/storage.go\<close>, \<open>Handlers\<close> and \<open>cmd/orbit-control/main.go\<close>): reading the
    environment and starting. What started is guarded: where it listens, where it stores, whom it lets in.

  \<^bold>\<open>How state and failure are modelled.\<close> A mutex makes an operation one step, and so does a transaction, which is undone
  when a statement fails; interleavings are sequences of such steps by any replica (\<open>ledger_run\<close>, writes of the
  store, inputs of a stream, ticks of a router). The clock, drawn ids, what the file system or the network answers are
  arguments. An error is the \<open>Inl\<close> of a result; a panic the API recovers from is the answer \<open>panicked\<close>.
  An integer is unbounded where the code cannot reach its width, and wrapped (\<open>u64\<close>), checked (\<open>in_int32\<close>) or a word
  (the CRC of the ring) where it can.

  \<^bold>\<open>Bounds.\<close> A run of the projector or of a stream is the list of what it waits for, so it ends with the list; the
  liveness theorems say how long a list is enough (\<open>outbox_drains\<close>, \<open>stream_catches_up\<close>). The search for a free name has
  fuel, one more than the names taken, which \<open>fresh_name_ends\<close> shows to be enough. Every other loop is a terminating
  recursion.

  \<^bold>\<open>Parameters\<close> stand for what the sources do not hold: the workflows behind the service (\<open>task_client\<close>) and the SDK behind the client (\<open>temporal\<close>), the LRU cache (with
  an instance), SHA-256, base64 and gzip, the text form of JSON (\<open>bundle_pkg\<close>, and \<open>codec_ok\<close> for what the code relies on),
  \<open>%q\<close>, the Unicode tables of lower case, \<open>url.Parse\<close> and \<open>net.ParseIP\<close>, the object store's client (\<open>s3_pkg\<close>), what a start finds (\<open>surroundings\<close>), the collation and
  lower case of the database (\<open>sql_env\<close>). A theorem that needs one to behave states it, and a witness applies it
  to a concrete one.

  \<^bold>\<open>Not modelled\<close>: running the migrations, whose checks are in the tables; the generated contract types, which only name fields, and
  their generator, a build tool; logging; of HTTP, the choice of a route by its pattern, struct decoding, CORS and the
  transport of a proxied request; that two statements of one read may see different states of the database.
\<close>

end
